(* ===== verification/Prelude.thy ===== *)
theory Prelude
  imports Main "HOL-Library.Word"
begin

text \<open>
  The shared base of the development: names for the C integer types, the collections of
  simplification rules that the component theories fill, and the generic lemmas on lists, words
  and circular index arithmetic that several components use.  Nothing here models firmware code.
\<close>

unbundle bit_operations_syntax

type_synonym u8 = "8 word"
type_synonym u16 = "16 word"
type_synonym u32 = "32 word"

named_theorems fw_defs \<open>unfolding rules for small accessor operations of the model\<close>
named_theorems fw_frame \<open>which parts of the state an operation leaves alone\<close>
named_theorems fw_bounds \<open>length and range facts of the model's buffers\<close>

section \<open>Lists\<close>

lemma filter_upt_empty_iff:
  "(filter P [0..<n] = []) = (\<forall>i<n. \<not> P i)"
  by (auto simp: filter_empty_conv)

lemma take_append_drop_split:
  "m \<le> n \<Longrightarrow> take m xs @ take (n - m) (drop m xs) = take n xs"
  by (metis le_add_diff_inverse take_add)

lemma find_Some_iff_first:
  "find P xs = Some x \<Longrightarrow> x \<in> set xs \<and> P x"
  by (induction xs) (auto split: if_splits)

lemma find_None_all:
  "find P xs = None \<Longrightarrow> x \<in> set xs \<Longrightarrow> \<not> P x"
  by (auto simp: find_None_iff)

lemma list_update_append_at:
  "length xs = n \<Longrightarrow> (xs @ y # ys)[n := z] = xs @ z # ys"
  by auto

lemma map_upt_cong_nth:
  "(\<And>i. i < n \<Longrightarrow> f i = g i) \<Longrightarrow> map f [0..<n] = map g [0..<n]"
  by auto

section \<open>Circular indices\<close>

text \<open>
  A circular buffer of \<open>n\<close> cells holds the cells \<open>tail, tail + 1, \<dots>\<close> up to but not including
  \<open>head\<close>, all modulo \<open>n\<close>.  The facts below are the arithmetic of its two cursors.
\<close>

definition ring_dist :: "nat \<Rightarrow> nat \<Rightarrow> nat \<Rightarrow> nat" where
  "ring_dist n tail head = (head + n - tail) mod n"

lemma ring_dist_less [simp]: "0 < n \<Longrightarrow> ring_dist n t h < n"
  by (simp add: ring_dist_def)

lemma ring_dist_self [simp]: "ring_dist n t t = 0"
  by (simp add: ring_dist_def)

lemma ring_dist_cases:
  assumes "t < n" "h < n"
  shows "ring_dist n t h = (if t \<le> h then h - t else h + n - t)"
  using assms by (auto simp: ring_dist_def mod_if)

lemma ring_dist_zero_iff:
  "t < n \<Longrightarrow> h < n \<Longrightarrow> (ring_dist n t h = 0) = (h = t)"
  by (auto simp: ring_dist_cases)

lemma mod_Suc_cases: "h < n \<Longrightarrow> (h + 1) mod n = (if h + 1 = n then 0 else h + 1)"
  for h n :: nat
  by auto

lemma ring_dist_advance_head:
  assumes "t < n" "h < n" "(h + 1) mod n \<noteq> t"
  shows "ring_dist n t ((h + 1) mod n) = ring_dist n t h + 1"
  using assms by (auto simp: ring_dist_cases mod_Suc split: if_splits)

lemma ring_full_iff:
  assumes "t < n" "h < n"
  shows "((h + 1) mod n = t) = (ring_dist n t h = n - 1)"
  using assms by (auto simp: ring_dist_cases mod_Suc split: if_splits)

lemma ring_dist_advance_tail:
  assumes "t < n" "h < n" "h \<noteq> t"
  shows "ring_dist n ((t + 1) mod n) h = ring_dist n t h - 1"
  using assms by (auto simp: ring_dist_cases mod_Suc split: if_splits)

lemma ring_cell_head_fresh:
  assumes "t < n" "h < n" "i < ring_dist n t h"
  shows "(t + i) mod n \<noteq> h"
proof (cases "t \<le> h")
  case True
  with assms show ?thesis by (simp add: ring_dist_cases)
next
  case False
  with assms have i: "i < h + n - t" by (simp add: ring_dist_cases)
  show ?thesis
  proof (cases "t + i < n")
    case True
    with False show ?thesis by simp
  next
    case big: False
    with i assms have "(t + i) mod n = (t + i - n) mod n"
      by (simp add: le_mod_geq)
    also have "\<dots> = t + i - n"
      using i assms big by (intro mod_less) linarith
    finally show ?thesis using i big False by linarith
  qed
qed

lemma ring_head_is_last:
  assumes "t < n" "h < n"
  shows "(t + ring_dist n t h) mod n = h"
  using assms by (auto simp: ring_dist_cases mod_if)

section \<open>Words\<close>

lemma unat_u8_less [simp]: "unat (w :: u8) < 256"
  using unsigned_less [of w, where ?'a = nat] by simp

lemma unat_u16_less [simp]: "unat (w :: u16) < 65536"
  using unsigned_less [of w, where ?'a = nat] by simp

lemma unat_of_nat_u8: "n < 256 \<Longrightarrow> unat (of_nat n :: u8) = n"
  by (simp add: unat_of_nat take_bit_nat_eq_self)

lemma word_and_ones_le: "(x AND y) \<le> (y :: 'a::len word)"
  by (rule word_and_le1)

text \<open>Little-endian bytes of the C integer types, as \<open>memcpy\<close> of an integer object stores them.\<close>

definition le16 :: "u16 \<Rightarrow> u8 list" where
  "le16 w = [ucast w, ucast (drop_bit 8 w)]"

definition of_le16 :: "u8 list \<Rightarrow> u16" where
  "of_le16 bs = ucast (bs ! 0) + push_bit 8 (ucast (bs ! 1))"

definition le32 :: "u32 \<Rightarrow> u8 list" where
  "le32 w = [ucast w, ucast (drop_bit 8 w), ucast (drop_bit 16 w), ucast (drop_bit 24 w)]"

lemma length_le16 [simp]: "length (le16 w) = 2"
  by (simp add: le16_def)

lemma length_le32 [simp]: "length (le32 w) = 4"
  by (simp add: le32_def)

lemma disjunctive_add16:
  "(ucast (a :: u8) :: u16) + push_bit 8 (ucast (b :: u8)) = (ucast a OR push_bit 8 (ucast b))"
proof -
  have "(ucast a :: u16) AND push_bit 8 (ucast b) = 0"
    by (rule bit_word_eqI) (auto simp: bit_simps dest: bit_imp_le_length)
  then show ?thesis
    by (metis word_plus_and_or add.right_neutral add.left_neutral)
qed

lemma of_le16_le16 [simp]: "of_le16 (le16 w) = w"
  unfolding of_le16_def le16_def nth_Cons_0 nth_Cons_Suc One_nat_def disjunctive_add16
  by (rule bit_word_eqI) (auto simp: bit_simps)

lemma of_le16_append [simp]: "of_le16 (le16 w @ xs) = w"
proof -
  have "of_le16 (le16 w @ xs) = of_le16 (le16 w)"
    by (simp add: of_le16_def le16_def)
  then show ?thesis by simp
qed

end
