(* ===== verification/CString.thy ===== *)
theory CString
  imports Prelude
begin

text \<open>
  The part of the C standard library that the firmware uses on character data: \<open>strlen\<close> on a
  memory buffer, \<open>strtok_r\<close>, \<open>strcasecmp\<close>, \<open>atoi\<close>, \<open>strtoul\<close>, and the \<open>printf\<close> conversions
  \<open>%d %u %X %02X %04X %06d\<close>.  A C string is a \<open>string\<close> without its terminator; a buffer that holds
  one is a \<open>string\<close> in which the terminator \<open>NUL\<close> occurs.  Characters are compared as unsigned
  bytes, as on the RISC-V target, where plain \<open>char\<close> is unsigned.
\<close>

abbreviation NUL :: char where "NUL \<equiv> CHR 0x00"
abbreviation CR :: char where "CR \<equiv> CHR 0x0D"
abbreviation LF :: char where "LF \<equiv> CHR 0x0A"

definition cc :: "char \<Rightarrow> nat" where
  "cc c = of_char c"

lemma cc_less [simp]: "cc c < 256"
  by (simp add: cc_def)

lemma cc_inject [simp]: "(cc c = cc d) = (c = d)"
  by (simp add: cc_def)

definition byte_of :: "char \<Rightarrow> u8" where
  "byte_of c = of_char c"

definition bytes_of :: "string \<Rightarrow> u8 list" where
  "bytes_of s = map byte_of s"

definition char_of_byte :: "u8 \<Rightarrow> char" where
  "char_of_byte b = char_of (unat b)"

lemma char_of_byte_of [simp]: "char_of_byte (byte_of c) = c"
proof -
  have "unat (byte_of c) = unat (of_nat (cc c) :: u8)"
    by (simp add: byte_of_def cc_def of_nat_of_char)
  also have "\<dots> = cc c"
    by (rule unat_of_nat_u8) simp
  finally show ?thesis by (simp add: char_of_byte_def cc_def)
qed

lemma length_bytes_of [simp]: "length (bytes_of s) = length s"
  by (simp add: bytes_of_def)

section \<open>Strings in a buffer\<close>

text \<open>The C string that starts at offset \<open>i\<close> of the buffer \<open>m\<close>.\<close>

definition cstr_at :: "string \<Rightarrow> nat \<Rightarrow> string" where
  "cstr_at m i = takeWhile (\<lambda>c. c \<noteq> NUL) (drop i m)"

text \<open>
  \<open>strtok_r (s, d, save)\<close> with a one-character delimiter, on the buffer \<open>m\<close> from offset \<open>i\<close>:
  \<open>None\<close> is the null result (and then \<open>save\<close> is null as well), \<open>Some (b, m', save)\<close> the token at
  offset \<open>b\<close>, the buffer with the delimiter overwritten, and the offset to continue from.
\<close>

definition strtok_r :: "char \<Rightarrow> string \<Rightarrow> nat \<Rightarrow> (nat \<times> string \<times> nat option) option" where
  "strtok_r d m i =
     (let b = i + length (takeWhile (\<lambda>c. c = d) (drop i m))
      in if b \<ge> length m \<or> m ! b = NUL then None
         else let e = b + length (takeWhile (\<lambda>c. c \<noteq> d \<and> c \<noteq> NUL) (drop b m))
              in if e \<ge> length m \<or> m ! e = NUL then Some (b, m, None)
                 else Some (b, m[e := NUL], Some (e + 1)))"

section \<open>Comparison without case\<close>

definition to_lower :: "char \<Rightarrow> char" where
  "to_lower c = (if 65 \<le> cc c \<and> cc c \<le> 90 then char_of (cc c + 32) else c)"

definition strcaseeq :: "string \<Rightarrow> string \<Rightarrow> bool" where
  "strcaseeq a b = (map to_lower a = map to_lower b)"

lemma strcaseeq_refl [simp]: "strcaseeq a a"
  by (simp add: strcaseeq_def)

lemma strcaseeq_sym: "strcaseeq a b = strcaseeq b a"
  by (auto simp: strcaseeq_def)

lemma strcaseeq_trans: "strcaseeq a b \<Longrightarrow> strcaseeq b c \<Longrightarrow> strcaseeq a c"
  by (simp add: strcaseeq_def)

lemma strcaseeq_length: "strcaseeq a b \<Longrightarrow> length a = length b"
  by (metis strcaseeq_def length_map)

section \<open>Reading numbers\<close>

definition is_space :: "char \<Rightarrow> bool" where
  "is_space c = (cc c = 32 \<or> (9 \<le> cc c \<and> cc c \<le> 13))"

definition is_digit :: "char \<Rightarrow> bool" where
  "is_digit c = (48 \<le> cc c \<and> cc c \<le> 57)"

fun dec_value :: "nat \<Rightarrow> string \<Rightarrow> nat" where
  "dec_value acc [] = acc"
| "dec_value acc (c # cs) = dec_value (acc * 10 + (cc c - 48)) cs"

definition clamp_int32 :: "int \<Rightarrow> int" where
  "clamp_int32 v = max (- 2147483648) (min 2147483647 v)"

text \<open>\<open>atoi\<close> is newlib's \<open>(int) strtol (s, NULL, 10)\<close>: blanks, a sign, digits, saturating.\<close>

definition atoi :: "string \<Rightarrow> int" where
  "atoi s =
     (let t = dropWhile is_space s;
          neg = (t \<noteq> [] \<and> hd t = CHR ''-'');
          u = (if t \<noteq> [] \<and> (hd t = CHR ''-'' \<or> hd t = CHR ''+'') then tl t else t);
          v = int (dec_value 0 (takeWhile is_digit u))
      in clamp_int32 (if neg then - v else v))"

definition hex_digit_value :: "char \<Rightarrow> nat option" where
  "hex_digit_value c =
     (if 48 \<le> cc c \<and> cc c \<le> 57 then Some (cc c - 48)
      else if 97 \<le> cc c \<and> cc c \<le> 102 then Some (cc c - 87)
      else if 65 \<le> cc c \<and> cc c \<le> 70 then Some (cc c - 55)
      else None)"

fun base_value :: "nat \<Rightarrow> nat \<Rightarrow> string \<Rightarrow> nat" where
  "base_value b acc [] = acc"
| "base_value b acc (c # cs) =
     (case hex_digit_value c of
        None \<Rightarrow> acc
      | Some d \<Rightarrow> if d < b then base_value b (acc * b + d) cs else acc)"

text \<open>\<open>strtoul (s, NULL, 0)\<close>: the prefix \<open>0x\<close> selects base 16, a leading \<open>0\<close> base 8.\<close>

definition strtoul0 :: "string \<Rightarrow> u32" where
  "strtoul0 s =
     (let t = dropWhile is_space s;
          neg = (t \<noteq> [] \<and> hd t = CHR ''-'');
          u = (if t \<noteq> [] \<and> (hd t = CHR ''-'' \<or> hd t = CHR ''+'') then tl t else t);
          v = (if 2 < length u \<and> u ! 0 = CHR ''0'' \<and> to_lower (u ! 1) = CHR ''x''
                  \<and> hex_digit_value (u ! 2) \<noteq> None
               then base_value 16 0 (drop 2 u)
               else if u \<noteq> [] \<and> hd u = CHR ''0'' then base_value 8 0 u
               else base_value 10 0 u)
      in if v \<ge> 2 ^ 32 then 0xFFFFFFFF
         else if neg then - of_nat v else of_nat v)"

section \<open>Writing numbers\<close>

definition digit_char :: "nat \<Rightarrow> char" where
  "digit_char n = ''0123456789ABCDEF'' ! (n mod 16)"

fun dec_nat :: "nat \<Rightarrow> string" where
  "dec_nat n = (if n < 10 then [digit_char n] else dec_nat (n div 10) @ [digit_char (n mod 10)])"

declare dec_nat.simps [simp del]

definition dec_int :: "int \<Rightarrow> string" where
  "dec_int i = (if i < 0 then CHR ''-'' # dec_nat (nat (- i)) else dec_nat (nat i))"

definition hex02 :: "u8 \<Rightarrow> string" where
  "hex02 b = [digit_char (unat b div 16), digit_char (unat b mod 16)]"

fun hex_nat :: "nat \<Rightarrow> string" where
  "hex_nat n = (if n < 16 then [digit_char n] else hex_nat (n div 16) @ [digit_char (n mod 16)])"

declare hex_nat.simps [simp del]

definition pad0 :: "nat \<Rightarrow> string \<Rightarrow> string" where
  "pad0 w s = replicate (w - length s) (CHR ''0'') @ s"

definition hex04 :: "u16 \<Rightarrow> string" where
  "hex04 h = pad0 4 (hex_nat (unat h))"

definition dec06 :: "int \<Rightarrow> string" where
  "dec06 i = (if i < 0 then CHR ''-'' # pad0 5 (dec_nat (nat (- i))) else pad0 6 (dec_nat (nat i)))"

fun join_with :: "string \<Rightarrow> string list \<Rightarrow> string" where
  "join_with sep [] = []"
| "join_with sep [x] = x"
| "join_with sep (x # y # xs) = x @ sep @ join_with sep (y # xs)"

text \<open>\<open>%02X:%02X:\<dots>\<close> of an address stored least significant byte first.\<close>

definition mac_str :: "u8 list \<Rightarrow> string" where
  "mac_str a = join_with '':'' (map hex02 (rev (take 6 a)))"

definition mac_hex :: "u8 list \<Rightarrow> string" where
  "mac_hex a = concat (map hex02 (rev (take 6 a)))"

lemma length_hex02 [simp]: "length (hex02 b) = 2"
  by (simp add: hex02_def)

lemma dec_nat_nonempty: "dec_nat n \<noteq> []"
  by (subst dec_nat.simps) simp

lemma cc_digit_char: "n < 10 \<Longrightarrow> cc (digit_char n) = 48 + n"
proof -
  assume "n < 10"
  then have "n = 0 \<or> n = 1 \<or> n = 2 \<or> n = 3 \<or> n = 4 \<or> n = 5 \<or> n = 6 \<or> n = 7 \<or> n = 8 \<or> n = 9"
    by arith
  then show ?thesis
    by (elim disjE) (simp_all add: digit_char_def cc_def)
qed

lemma is_digit_digit_char: "n < 10 \<Longrightarrow> is_digit (digit_char n)"
  by (simp add: is_digit_def cc_digit_char)

lemma dec_nat_digits: "set (dec_nat n) \<subseteq> Collect is_digit"
proof (induction n rule: dec_nat.induct)
  case (1 n)
  then show ?case
    by (subst dec_nat.simps) (auto simp: is_digit_digit_char)
qed

lemma dec_value_append: "dec_value acc (xs @ ys) = dec_value (dec_value acc xs) ys"
  by (induction xs arbitrary: acc) auto

lemma dec_value_dec_nat: "dec_value 0 (dec_nat n) = n"
proof (induction n rule: dec_nat.induct)
  case (1 n)
  then show ?case
    by (subst dec_nat.simps) (auto simp: dec_value_append cc_digit_char)
qed

lemma takeWhile_all: "set xs \<subseteq> Collect P \<Longrightarrow> takeWhile P xs = xs"
  by (simp add: subset_iff takeWhile_eq_all_conv)

text \<open>Reading back what \<open>%d\<close> prints, for a value that fits.\<close>

lemma atoi_dec_nat:
  assumes "n \<le> 2147483647"
  shows "atoi (dec_nat n) = int n"
proof -
  obtain c cs where cs: "dec_nat n = c # cs"
    using dec_nat_nonempty by (cases "dec_nat n") auto
  have "is_digit c" using dec_nat_digits [of n] cs by auto
  then have c: "\<not> is_space c" "c \<noteq> CHR ''-''" "c \<noteq> CHR ''+''"
    by (auto simp: is_digit_def is_space_def cc_def)
  have "atoi (dec_nat n) = clamp_int32 (int (dec_value 0 (takeWhile is_digit (dec_nat n))))"
    by (simp add: atoi_def cs c)
  also have "takeWhile is_digit (dec_nat n) = dec_nat n"
    using dec_nat_digits by (rule takeWhile_all)
  finally show ?thesis
    using assms by (simp add: dec_value_dec_nat clamp_int32_def)
qed

end
