(* ===== verification/Ring.thy ===== *)
theory Ring
  imports CString
begin

text \<open>
  Byte queues in circular buffers.  The firmware has three of them, all written the same way: an
  array, a write cursor (\<open>head\<close>) and a read cursor (\<open>tail\<close>), one cell always left free so that
  equal cursors mean empty.  They are the UART receive buffer of \<^verbatim>\<open>at_parser.c\<close> and the CDC receive
  and transmit buffers of \<^verbatim>\<open>usb_dev.c\<close>.  This theory has the state they share, the step that stores
  one byte and the step that takes one, the abstraction to a list, and the locale \<open>byte_queue\<close>:
  what a client of such a queue may rely on, with the facts about whole packets proved from it once.
\<close>

record ring =
  rbuf :: "u8 list"
  rhead :: nat
  rtail :: nat

definition ring_inv :: "nat \<Rightarrow> ring \<Rightarrow> bool" where
  "ring_inv n r = (1 < n \<and> length (rbuf r) = n \<and> rhead r < n \<and> rtail r < n)"

definition ring_empty :: "nat \<Rightarrow> ring" where
  "ring_empty n = \<lparr>rbuf = replicate n 0, rhead = 0, rtail = 0\<rparr>"

text \<open>
  One byte in: \<open>None\<close> when the cell after the write cursor is the read cursor, which is where the
  callers drop the byte.
\<close>

definition ring_put :: "nat \<Rightarrow> u8 \<Rightarrow> ring \<Rightarrow> ring option" where
  "ring_put n b r =
     (let next = (rhead r + 1) mod n
      in if next = rtail r then None
         else Some (r\<lparr>rbuf := (rbuf r)[rhead r := b], rhead := next\<rparr>))"

text \<open>One byte out: \<open>None\<close> when the cursors agree.\<close>

definition ring_get :: "nat \<Rightarrow> ring \<Rightarrow> (u8 \<times> ring) option" where
  "ring_get n r =
     (if rtail r = rhead r then None
      else Some (rbuf r ! rtail r, r\<lparr>rtail := (rtail r + 1) mod n\<rparr>))"

text \<open>What the buffer holds, oldest byte first.\<close>

definition ring_list :: "nat \<Rightarrow> ring \<Rightarrow> u8 list" where
  "ring_list n r =
     map (\<lambda>i. rbuf r ! ((rtail r + i) mod n)) [0..<ring_dist n (rtail r) (rhead r)]"

lemma length_ring_list [simp]: "length (ring_list n r) = ring_dist n (rtail r) (rhead r)"
  by (simp add: ring_list_def)

lemma length_ring_list_less [fw_bounds]: "ring_inv n r \<Longrightarrow> length (ring_list n r) < n"
  by (simp add: ring_inv_def)

lemma ring_inv_empty [simp]: "1 < n \<Longrightarrow> ring_inv n (ring_empty n)"
  by (simp add: ring_inv_def ring_empty_def)

lemma ring_list_empty [simp]: "ring_list n (ring_empty n) = []"
  by (simp add: ring_list_def ring_empty_def)

lemma ring_list_Nil_iff: "ring_inv n r \<Longrightarrow> (ring_list n r = []) = (rhead r = rtail r)"
  by (auto simp: ring_list_def ring_inv_def ring_dist_zero_iff)

lemma ring_put_inv: "ring_inv n r \<Longrightarrow> ring_put n b r = Some r' \<Longrightarrow> ring_inv n r'"
  by (auto simp: ring_put_def ring_inv_def Let_def intro!: mod_less_divisor split: if_splits)

lemma ring_get_inv: "ring_inv n r \<Longrightarrow> ring_get n r = Some (b, r') \<Longrightarrow> ring_inv n r'"
  by (auto simp: ring_get_def ring_inv_def intro!: mod_less_divisor split: if_splits)

lemma ring_put_None_iff:
  "ring_inv n r \<Longrightarrow> (ring_put n b r = None) = (length (ring_list n r) = n - 1)"
  by (auto simp: ring_put_def ring_inv_def Let_def ring_full_iff[simplified])

lemma ring_put_list:
  assumes inv: "ring_inv n r" and put: "ring_put n b r = Some r'"
  shows "ring_list n r' = ring_list n r @ [b]"
proof -
  let ?d = "ring_dist n (rtail r) (rhead r)"
  from put have r': "r' = r\<lparr>rbuf := (rbuf r)[rhead r := b], rhead := (rhead r + 1) mod n\<rparr>"
    and nf: "(rhead r + 1) mod n \<noteq> rtail r"
    by (auto simp: ring_put_def Let_def split: if_splits)
  have d: "ring_dist n (rtail r) ((rhead r + 1) mod n) = ?d + 1"
    using inv nf by (intro ring_dist_advance_head) (auto simp: ring_inv_def)
  have last: "(rtail r + ?d) mod n = rhead r"
    using inv by (intro ring_head_is_last) (auto simp: ring_inv_def)
  have "map (\<lambda>i. (rbuf r)[rhead r := b] ! ((rtail r + i) mod n)) [0..<?d]
      = map (\<lambda>i. rbuf r ! ((rtail r + i) mod n)) [0..<?d]"
    using inv by (intro map_upt_cong_nth nth_list_update_neq not_sym [OF ring_cell_head_fresh])
      (auto simp: ring_inv_def)
  moreover have "(rbuf r)[rhead r := b] ! rhead r = b"
    using inv by (simp add: ring_inv_def)
  ultimately show ?thesis
    unfolding ring_list_def r' by (simp add: d[simplified] last)
qed

lemma ring_get_list:
  assumes inv: "ring_inv n r" and got: "ring_get n r = Some (b, r')"
  shows "ring_list n r = b # ring_list n r'"
proof -
  from got have r': "r' = r\<lparr>rtail := (rtail r + 1) mod n\<rparr>" and b: "b = rbuf r ! rtail r"
    and ne: "rhead r \<noteq> rtail r"
    by (auto simp: ring_get_def split: if_splits)
  let ?d = "ring_dist n (rtail r) (rhead r)"
  have d: "ring_dist n ((rtail r + 1) mod n) (rhead r) = ?d - 1"
    using inv ne by (intro ring_dist_advance_tail) (auto simp: ring_inv_def)
  have pos: "0 < ?d"
    using inv ne ring_dist_zero_iff [of "rtail r" n "rhead r"] by (auto simp: ring_inv_def)
  then have upt: "[0..<?d] = 0 # map Suc [0..<?d - 1]"
    by (metis Suc_diff_1 map_Suc_upt upt_conv_Cons)
  have cell: "((rtail r + 1) mod n + i) mod n = (rtail r + Suc i) mod n" for i
    by (simp add: mod_add_left_eq)
  have "ring_list n r = rbuf r ! (rtail r mod n) #
      map (\<lambda>i. rbuf r ! ((rtail r + Suc i) mod n)) [0..<?d - 1]"
    unfolding ring_list_def upt by simp
  moreover have "rtail r mod n = rtail r" using inv by (simp add: ring_inv_def)
  ultimately show ?thesis
    unfolding b r' ring_list_def by (simp add: d[simplified] cell[simplified])
qed

lemma ring_get_None_iff: "ring_inv n r \<Longrightarrow> (ring_get n r = None) = (ring_list n r = [])"
  by (auto simp: ring_get_def ring_list_Nil_iff)

section \<open>The interface a client relies on\<close>

text \<open>
  A bounded byte queue: \<open>put\<close> appends a byte or refuses when \<open>cap\<close> bytes are held, \<open>get\<close> removes
  the oldest byte or reports that there is none.
\<close>

locale byte_queue =
  fixes put :: "u8 \<Rightarrow> 'q \<Rightarrow> 'q option"
    and get :: "'q \<Rightarrow> (u8 \<times> 'q) option"
    and view :: "'q \<Rightarrow> u8 list"
    and inv :: "'q \<Rightarrow> bool"
    and cap :: nat
  assumes put_inv: "inv q \<Longrightarrow> put b q = Some q' \<Longrightarrow> inv q'"
    and put_view: "inv q \<Longrightarrow> put b q = Some q' \<Longrightarrow> view q' = view q @ [b]"
    and put_full: "inv q \<Longrightarrow> (put b q = None) = (length (view q) = cap)"
    and get_inv: "inv q \<Longrightarrow> get q = Some (b, q') \<Longrightarrow> inv q'"
    and get_view: "inv q \<Longrightarrow> get q = Some (b, q') \<Longrightarrow> view q = b # view q'"
    and get_empty: "inv q \<Longrightarrow> (get q = None) = (view q = [])"
    and view_cap: "inv q \<Longrightarrow> length (view q) \<le> cap"
begin

text \<open>A packet: bytes are stored until the queue is full, the rest is dropped.\<close>

fun put_all :: "u8 list \<Rightarrow> 'q \<Rightarrow> 'q" where
  "put_all [] q = q"
| "put_all (b # bs) q = (case put b q of None \<Rightarrow> q | Some q' \<Rightarrow> put_all bs q')"

text \<open>Up to \<open>n\<close> bytes, oldest first.\<close>

fun get_upto :: "nat \<Rightarrow> 'q \<Rightarrow> u8 list \<times> 'q" where
  "get_upto 0 q = ([], q)"
| "get_upto (Suc n) q =
     (case get q of None \<Rightarrow> ([], q)
      | Some (b, q') \<Rightarrow> (let (bs, q'') = get_upto n q' in (b # bs, q'')))"

lemma put_all_inv: "inv q \<Longrightarrow> inv (put_all bs q)"
  by (induction bs arbitrary: q) (auto split: option.splits intro: put_inv)

lemma put_all_view:
  "inv q \<Longrightarrow> view (put_all bs q) = view q @ take (cap - length (view q)) bs"
proof (induction bs arbitrary: q)
  case Nil
  then show ?case by simp
next
  case (Cons b bs)
  show ?case
  proof (cases "put b q")
    case None
    with Cons.prems put_full [of q b] show ?thesis by simp
  next
    case (Some q')
    with Cons.prems have inv': "inv q'" and v: "view q' = view q @ [b]"
      by (auto intro: put_inv put_view)
    from Cons.prems Some put_full [of q b] view_cap [of q] have "length (view q) < cap"
      by force
    then have "take (cap - length (view q)) (b # bs) = b # take (cap - Suc (length (view q))) bs"
      by (simp add: Suc_diff_Suc take_Cons')
    with Some Cons.IH [OF inv'] v show ?thesis by simp
  qed
qed

lemma get_upto_spec:
  "inv q \<Longrightarrow> get_upto n q = (bs, q') \<Longrightarrow>
     inv q' \<and> bs = take n (view q) \<and> view q' = drop n (view q)"
proof (induction n arbitrary: q bs q')
  case 0
  then show ?case by simp
next
  case (Suc n)
  show ?case
  proof (cases "get q")
    case None
    with Suc.prems have "view q = []" by (simp add: get_empty)
    with None Suc.prems show ?thesis by auto
  next
    case (Some p)
    obtain b q1 where p: "p = (b, q1)" by (cases p)
    with Some Suc.prems have inv1: "inv q1" and v: "view q = b # view q1"
      by (auto intro: get_inv get_view)
    obtain cs q2 where r: "get_upto n q1 = (cs, q2)" by (cases "get_upto n q1")
    from Suc.IH [OF inv1 r] Suc.prems Some p r v show ?thesis by simp
  qed
qed

text \<open>What goes in comes out: a packet that fits is read back unchanged, in order.\<close>

lemma put_all_get_upto:
  assumes "inv q" "view q = []" "length bs \<le> cap" "length bs \<le> n"
  shows "fst (get_upto n (put_all bs q)) = bs"
proof -
  obtain cs q' where r: "get_upto n (put_all bs q) = (cs, q')"
    by (cases "get_upto n (put_all bs q)")
  from assms get_upto_spec [OF put_all_inv [OF assms(1)] r] put_all_view [OF assms(1), of bs]
  show ?thesis by (simp add: r)
qed

end

lemma ring_byte_queue:
  assumes "1 < n"
  shows "byte_queue (ring_put n) (ring_get n) (ring_list n) (ring_inv n) (n - 1)"
proof unfold_locales
  show "\<And>q. ring_inv n q \<Longrightarrow> length (ring_list n q) \<le> n - 1"
    using length_ring_list_less by (metis Suc_diff_1 assms less_Suc_eq_le less_trans zero_less_one)
qed (auto intro: ring_put_inv ring_get_inv ring_put_list ring_get_list
    simp: ring_put_None_iff ring_get_None_iff simp del: length_ring_list)

end
