(* ===== verification/Config.thy ===== *)
theory Config
  imports Ring
begin

text \<open>
  The build configuration of \<^verbatim>\<open>config.h\<close>.  The firmware is one source compiled in four modes; what
  the preprocessor decides there is a value of type \<open>ble_mode\<close> here, and every definition whose
  code differs between builds takes it as its first argument.
\<close>

datatype ble_mode = MODE_KBD | MODE_DONGLE | MODE_DUAL | MODE_KBD_MULTI

fun has_kbd :: "ble_mode \<Rightarrow> bool" where
  "has_kbd MODE_KBD = True"
| "has_kbd MODE_DUAL = True"
| "has_kbd MODE_KBD_MULTI = True"
| "has_kbd MODE_DONGLE = False"

fun has_dongle :: "ble_mode \<Rightarrow> bool" where
  "has_dongle MODE_DONGLE = True"
| "has_dongle MODE_DUAL = True"
| "has_dongle MODE_KBD = False"
| "has_dongle MODE_KBD_MULTI = False"

definition kbd_max_conn :: "ble_mode \<Rightarrow> nat" where
  "kbd_max_conn m = (if m = MODE_KBD_MULTI then 3 else 1)"

lemma kbd_max_conn_bounds [simp]: "0 < kbd_max_conn m" "kbd_max_conn m \<le> 3"
  by (simp_all add: kbd_max_conn_def)

lemma kbd_max_conn_cases: "kbd_max_conn m = 1 \<or> kbd_max_conn m = 3"
  by (simp add: kbd_max_conn_def)

definition GAP_CONNHANDLE_INIT :: u16 where "GAP_CONNHANDLE_INIT = 0xFFFE"
definition INVALID_CONNHANDLE :: u16 where "INVALID_CONNHANDLE = 0xFFFF"

text \<open>Status codes of the BLE library that the firmware compares with.\<close>

abbreviation SUCCESS :: u8 where "SUCCESS \<equiv> 0"
definition bleNotReady :: u8 where "bleNotReady = 0x10"
definition bleMemAllocError :: u8 where "bleMemAllocError = 0x13"
definition bleNoResources :: u8 where "bleNoResources = 0x15"
definition blePending :: u8 where "blePending = 0x16"
definition bleInvalidRange :: u8 where "bleInvalidRange = 0x18"
definition bleProcedureComplete :: u8 where "bleProcedureComplete = 0x1A"
definition INVALIDPARAMETER :: u8 where "INVALIDPARAMETER = 0x02"

lemmas ble_status_defs = bleNotReady_def bleMemAllocError_def bleNoResources_def blePending_def
  bleInvalidRange_def bleProcedureComplete_def INVALIDPARAMETER_def

text \<open>\<^verbatim>\<open>MS1_TO_SYSTEM_TIME\<close>: milliseconds to scheduler ticks of 625 microseconds.\<close>

definition ms1_to_system_time :: "nat \<Rightarrow> nat" where
  "ms1_to_system_time ms = ms * 1000 div 625"

end
