(* ===== verification/Usb_Dev.thy ===== *)
theory Usb_Dev
  imports Config
begin

text \<open>
  The USB composite device of \<^verbatim>\<open>usb_dev.c\<close>: the endpoint-0 control pipe (descriptors, standard and
  class requests), the CDC receive ring filled in the interrupt, the CDC transmit ring drained by
  its own task, and the HID keyboard report endpoint.  A register the code only writes is a field
  holding the last value written; a register the code reads (interrupt status, received length) is
  an argument of the operation.  The endpoint buffers are the arrays the DMA engine shares with the
  host, so what the host receives is read off them.
\<close>

definition EP0_SIZE :: nat where "EP0_SIZE = 64"
definition EP1_SIZE :: nat where "EP1_SIZE = 64"
definition EP2_SIZE :: nat where "EP2_SIZE = 8"
definition CDC_RX_BUF_SIZE :: nat where "CDC_RX_BUF_SIZE = 256"
definition CDC_TX_BUF_SIZE :: nat where "CDC_TX_BUF_SIZE = 2048"

abbreviation RB_UEP_R_TOG :: u8 where "RB_UEP_R_TOG \<equiv> 0x80"
abbreviation RB_UEP_T_TOG :: u8 where "RB_UEP_T_TOG \<equiv> 0x40"
abbreviation RB_UEP_AUTO_TOG :: u8 where "RB_UEP_AUTO_TOG \<equiv> 0x10"
abbreviation MASK_UEP_R_RES :: u8 where "MASK_UEP_R_RES \<equiv> 0x0C"
abbreviation UEP_R_RES_ACK :: u8 where "UEP_R_RES_ACK \<equiv> 0x00"
abbreviation UEP_R_RES_STALL :: u8 where "UEP_R_RES_STALL \<equiv> 0x0C"
abbreviation MASK_UEP_T_RES :: u8 where "MASK_UEP_T_RES \<equiv> 0x03"
abbreviation UEP_T_RES_ACK :: u8 where "UEP_T_RES_ACK \<equiv> 0x00"
abbreviation UEP_T_RES_NAK :: u8 where "UEP_T_RES_NAK \<equiv> 0x02"
abbreviation UEP_T_RES_STALL :: u8 where "UEP_T_RES_STALL \<equiv> 0x03"
abbreviation RB_UIF_SUSPEND :: u8 where "RB_UIF_SUSPEND \<equiv> 0x04"
abbreviation RB_UIF_TRANSFER :: u8 where "RB_UIF_TRANSFER \<equiv> 0x02"
abbreviation RB_UIF_BUS_RST :: u8 where "RB_UIF_BUS_RST \<equiv> 0x01"
abbreviation RB_UIS_SETUP_ACT :: u8 where "RB_UIS_SETUP_ACT \<equiv> 0x80"
abbreviation RB_UIS_TOG_OK :: u8 where "RB_UIS_TOG_OK \<equiv> 0x40"
abbreviation MASK_UIS_TOKEN :: u8 where "MASK_UIS_TOKEN \<equiv> 0x30"
abbreviation MASK_UIS_ENDP :: u8 where "MASK_UIS_ENDP \<equiv> 0x0F"

section \<open>Descriptors\<close>

definition LangDescr :: "u8 list" where "LangDescr = [0x04, 0x03, 0x09, 0x04]"

definition utf16 :: "string \<Rightarrow> u8 list" where
  "utf16 s = concat (map (\<lambda>c. [byte_of c, 0]) s)"

definition ManuInfo :: "u8 list" where
  "ManuInfo = [0x0C, 0x03] @ utf16 ''at-node''"

fun ProdInfo :: "ble_mode \<Rightarrow> u8 list" where
  "ProdInfo MODE_KBD_MULTI = [0x24, 0x03] @ utf16 ''AT-Node Kbd-Multi''"
| "ProdInfo MODE_DONGLE = [0x1E, 0x03] @ utf16 ''AT-Node Dongle''"
| "ProdInfo MODE_DUAL = [0x1A, 0x03] @ utf16 ''AT-Node Dual''"
| "ProdInfo MODE_KBD = [0x18, 0x03] @ utf16 ''AT-Node Kbd''"

definition SerialInfo :: "u8 list" where
  "SerialInfo = [0x1A, 0x03] @ utf16 ''20260701ABCD'' @ [0, 0]"

definition HIDDescr :: "u8 list" where
  "HIDDescr = [
    0x05,0x01, 0x09,0x06, 0xA1,0x01,
    0x05,0x07, 0x19,0xE0, 0x29,0xE7, 0x15,0x00, 0x25,0x01,
    0x75,0x01, 0x95,0x08, 0x81,0x02,
    0x95,0x01, 0x75,0x08, 0x81,0x01,
    0x95,0x06, 0x75,0x08, 0x15,0x00, 0x26,0xFF,0x00,
    0x05,0x07, 0x19,0x00, 0x29,0xFF, 0x81,0x00,
    0x05,0x08, 0x19,0x01, 0x29,0x05, 0x15,0x00, 0x25,0x01,
    0x75,0x01, 0x95,0x05, 0x91,0x02,
    0x95,0x01, 0x75,0x03, 0x91,0x01, 0xC0]"

definition MyDevDescr :: "u8 list" where
  "MyDevDescr = [
    0x12,0x01,0x00,0x02,0xEF,0x02,0x01,0x40,
    0x86,0x1A,0x07,0x21,0x00,0x00,0x01,0x02,0x00,0x01]"

definition MyCfgDescr :: "u8 list" where
  "MyCfgDescr = [
    0x09,0x02,0x6B,0x00,0x03,0x01,0x00,0x80,0x32,
    0x08,0x0B,0x00,0x02,0x02,0x02,0x01,0x00,
    0x09,0x04,0x00,0x00,0x01,0x02,0x02,0x01,0x00,
    0x05,0x24,0x00,0x10,0x01,
    0x04,0x24,0x02,0x02,
    0x05,0x24,0x06,0x00,0x01,
    0x05,0x24,0x01,0x01,0x00,
    0x07,0x05,0x83,0x03,0x08,0x00,0x01,
    0x09,0x04,0x01,0x00,0x02,0x0A,0x00,0x00,0x00,
    0x07,0x05,0x01,0x02,0x40,0x00,0x00,
    0x07,0x05,0x81,0x02,0x40,0x00,0x00,
    0x09,0x04,0x02,0x00,0x02,0x03,0x01,0x01,0x00,
    0x09,0x21,0x11,0x01,0x00,0x01,0x22,
        of_nat (length HIDDescr),0x00,
    0x07,0x05,0x82,0x03,0x08,0x00,0x0A,
    0x07,0x05,0x02,0x03,0x08,0x00,0x0A]"

text \<open>
  The descriptor switch of \<open>GET_DESCRIPTOR\<close>: the array \<open>pDescr\<close> is set to, from that address on,
  and the length \<open>len\<close>; \<open>None\<close> is \<open>errflag = 0xFF\<close>.
\<close>

definition descriptor :: "ble_mode \<Rightarrow> u16 \<Rightarrow> (u8 list \<times> nat) option" where
  "descriptor m wValue =
     (let dt = unat (drop_bit 8 wValue); ix = unat (wValue AND 0xFF) in
      if dt = 1 then Some (MyDevDescr, unat (MyDevDescr ! 0))
      else if dt = 2 then Some (MyCfgDescr, unat (MyCfgDescr ! 2))
      else if dt = 0x21 then Some (drop 84 MyCfgDescr, 9)
      else if dt = 0x22 then Some (HIDDescr, length HIDDescr)
      else if dt = 3 then
        (if ix = 0 then Some (LangDescr, unat (LangDescr ! 0))
         else if ix = 1 then Some (ManuInfo, unat (ManuInfo ! 0))
         else if ix = 2 then Some (ProdInfo m, unat (ProdInfo m ! 0))
         else if ix = 3 then Some (SerialInfo, unat (SerialInfo ! 0))
         else None)
      else None)"

section \<open>State\<close>

record usb =
  DevConfig :: u8
  Ready :: u8
  SetupReqCode :: u8
  SetupReqLen :: nat
  pDescr :: "u8 list"
  Idle_Value :: "u8 list"
  cdcReady :: u8
  EP0_Buf :: "u8 list"
  UEP0_CTRL :: u8
  UEP0_T_LEN :: nat
  UEP1_CTRL :: u8
  UEP1_T_LEN :: nat
  UEP2_CTRL :: u8
  UEP2_T_LEN :: nat
  UEP3_CTRL :: u8
  USB_DEV_AD :: u8
  USB_INT_FG :: u8
  USB_CTRL :: u8
  UEP4_1_MOD :: u8
  UEP2_3_MOD :: u8
  USB_INT_EN :: u8
  UDEV_CTRL :: u8
  usb_irq_en :: bool
  ep1_in :: "u8 list"
  ep2_in :: "u8 list"
  cdc_rx :: ring
  cdc_tx :: ring
  cdc_tx_drops :: u16
  cdc_tx_task :: bool
  cdc_tx_pending :: bool
  cdc_tx_timer :: "nat option"
  usb_oob :: bool

text \<open>
  \<open>pDescr\<close> is the rest of the descriptor array from the pointer on; \<open>cdc_tx_task\<close> says that the
  transmit task has been registered, \<open>cdc_tx_pending\<close> that its event is set, \<open>cdc_tx_timer\<close> the
  delay in ticks of its running timer.  \<open>usb_oob\<close> is not a field of the program: it records that a
  descriptor copy has read past the array.
\<close>

definition LINE_CODING_BYTES :: "u8 list" where
  "LINE_CODING_BYTES = le32 115200 @ [0, 0, 8]"

text \<open>\<open>memcpy (dst, src, n)\<close> into the head of a buffer.\<close>

definition copy_in :: "nat \<Rightarrow> u8 list \<Rightarrow> u8 list \<Rightarrow> u8 list" where
  "copy_in n src dst = take n src @ drop n dst"

lemma length_copy_in [simp]:
  "n \<le> length src \<Longrightarrow> n \<le> length dst \<Longrightarrow> length (copy_in n src dst) = length dst"
  by (simp add: copy_in_def)

lemma take_copy_in [simp]: "n \<le> length src \<Longrightarrow> take n (copy_in n src dst) = take n src"
  by (simp add: copy_in_def)

section \<open>The control pipe\<close>

text \<open>\<open>UIS_TOKEN_IN\<close> on endpoint 0.\<close>

definition ep0_in :: "usb \<Rightarrow> usb" where
  "ep0_in u =
     (if SetupReqCode u = 0x06 then
        (let len = (if SetupReqLen u \<ge> EP0_SIZE then EP0_SIZE else SetupReqLen u)
         in u\<lparr>EP0_Buf := copy_in len (pDescr u) (EP0_Buf u),
              usb_oob := (usb_oob u \<or> length (pDescr u) < len),
              SetupReqLen := SetupReqLen u - len,
              pDescr := drop len (pDescr u),
              UEP0_T_LEN := len,
              UEP0_CTRL := UEP0_CTRL u XOR RB_UEP_T_TOG\<rparr>)
      else if SetupReqCode u = 0x05 then
        u\<lparr>USB_DEV_AD := (USB_DEV_AD u AND NOT 0x7F) OR of_nat (SetupReqLen u),
          UEP0_CTRL := UEP_R_RES_ACK OR UEP_T_RES_NAK\<rparr>
      else u\<lparr>UEP0_T_LEN := 0, UEP0_CTRL := UEP_R_RES_ACK OR UEP_T_RES_NAK, Ready := 1\<rparr>)"

text \<open>Class and vendor requests; the result says whether \<open>errflag\<close> stayed clear.\<close>

definition setup_class :: "u8 \<Rightarrow> u16 \<Rightarrow> u16 \<Rightarrow> usb \<Rightarrow> usb \<times> bool" where
  "setup_class chtype wValue wIndex u =
     (let wIndexLo = unat (wIndex AND 0xFF) in
      if chtype AND 0x1F = 0x01 then
        (if wIndexLo = 2 then
           (let rq = SetupReqCode u in
            if rq = 0x0A then
              (u\<lparr>Idle_Value := (Idle_Value u)[wIndexLo := ucast (drop_bit 8 wValue)]\<rparr>, True)
            else if rq = 0x09 then (u, True)
            else if rq = 0x0B then (u, True)
            else if rq = 0x02 then
              (u\<lparr>EP0_Buf := (EP0_Buf u)[0 := Idle_Value u ! wIndexLo]\<rparr>, True)
            else if rq = 0x03 then (u\<lparr>EP0_Buf := (EP0_Buf u)[0 := 0]\<rparr>, True)
            else (u, False))
         else if wIndexLo = 0 then
           (let rq = SetupReqCode u in
            if rq = 0x20 \<or> rq = 0x22 then (u\<lparr>cdcReady := 1\<rparr>, True)
            else if rq = 0x21 then
              (u\<lparr>EP0_Buf := copy_in 7 LINE_CODING_BYTES (EP0_Buf u)\<rparr>, True)
            else if rq = 0x23 then (u, True)
            else (u, False))
         else (u, False))
      else (u, False))"

text \<open>\<open>CLEAR_FEATURE\<close> and \<open>SET_FEATURE\<close> on an endpoint: the halt condition.\<close>

definition clear_halt :: "u16 \<Rightarrow> usb \<Rightarrow> usb \<times> bool" where
  "clear_halt wIndex u =
     (let ep = wIndex AND 0xFF in
      if ep = 0x81 then
        (u\<lparr>UEP1_CTRL := (UEP1_CTRL u AND NOT (RB_UEP_T_TOG OR MASK_UEP_T_RES)) OR UEP_T_RES_NAK\<rparr>, True)
      else if ep = 0x01 then
        (u\<lparr>UEP1_CTRL := (UEP1_CTRL u AND NOT (RB_UEP_R_TOG OR MASK_UEP_R_RES)) OR UEP_R_RES_ACK\<rparr>, True)
      else if ep = 0x82 then
        (u\<lparr>UEP2_CTRL := (UEP2_CTRL u AND NOT (RB_UEP_T_TOG OR MASK_UEP_T_RES)) OR UEP_T_RES_NAK\<rparr>, True)
      else if ep = 0x02 then
        (u\<lparr>UEP2_CTRL := (UEP2_CTRL u AND NOT (RB_UEP_R_TOG OR MASK_UEP_R_RES)) OR UEP_R_RES_ACK\<rparr>, True)
      else (u, False))"

definition set_halt :: "u16 \<Rightarrow> usb \<Rightarrow> usb \<times> bool" where
  "set_halt wIndex u =
     (let ep = wIndex AND 0xFF in
      if ep = 0x81 then
        (u\<lparr>UEP1_CTRL := (UEP1_CTRL u AND NOT (RB_UEP_T_TOG OR MASK_UEP_T_RES)) OR UEP_T_RES_STALL\<rparr>, True)
      else if ep = 0x01 then
        (u\<lparr>UEP1_CTRL := (UEP1_CTRL u AND NOT (RB_UEP_R_TOG OR MASK_UEP_R_RES)) OR UEP_R_RES_STALL\<rparr>, True)
      else if ep = 0x82 then
        (u\<lparr>UEP2_CTRL := (UEP2_CTRL u AND NOT (RB_UEP_T_TOG OR MASK_UEP_T_RES)) OR UEP_T_RES_STALL\<rparr>, True)
      else if ep = 0x02 then
        (u\<lparr>UEP2_CTRL := (UEP2_CTRL u AND NOT (RB_UEP_R_TOG OR MASK_UEP_R_RES)) OR UEP_R_RES_STALL\<rparr>, True)
      else (u, False))"

text \<open>Standard requests.\<close>

definition setup_standard :: "ble_mode \<Rightarrow> u8 \<Rightarrow> u16 \<Rightarrow> u16 \<Rightarrow> usb \<Rightarrow> usb \<times> bool" where
  "setup_standard m chtype wValue wIndex u =
     (let rq = SetupReqCode u in
      if rq = 0x06 then
        (case descriptor m wValue of
           None \<Rightarrow> (u, False)
         | Some (d, dlen) \<Rightarrow>
             (let rlen = (if SetupReqLen u > dlen then dlen else SetupReqLen u);
                  len = (if rlen > EP0_SIZE then EP0_SIZE else rlen)
              in (u\<lparr>SetupReqLen := rlen,
                    EP0_Buf := copy_in len d (EP0_Buf u),
                    usb_oob := (usb_oob u \<or> length d < len),
                    pDescr := drop len d\<rparr>, True)))
      else if rq = 0x05 then (u\<lparr>SetupReqLen := unat (wValue AND 0xFF)\<rparr>, True)
      else if rq = 0x08 then
        (u\<lparr>EP0_Buf := (EP0_Buf u)[0 := DevConfig u],
           SetupReqLen := (if SetupReqLen u > 1 then 1 else SetupReqLen u)\<rparr>, True)
      else if rq = 0x09 then (u\<lparr>DevConfig := 1, Ready := 1\<rparr>, True)
      else if rq = 0x0A then
        (u\<lparr>EP0_Buf := (EP0_Buf u)[0 := 0],
           SetupReqLen := (if SetupReqLen u > 1 then 1 else SetupReqLen u)\<rparr>, True)
      else if rq = 0x0B then (u, True)
      else if rq = 0x01 then
        (if chtype AND 0x1F = 0x02 then clear_halt wIndex u else (u, True))
      else if rq = 0x03 then
        (if chtype AND 0x1F = 0x02 then set_halt wIndex u else (u, True))
      else if rq = 0x00 then
        (u\<lparr>EP0_Buf := (EP0_Buf u)[0 := 0x00, 1 := 0],
           SetupReqLen := (if SetupReqLen u \<ge> 2 then 2 else SetupReqLen u)\<rparr>, True)
      else (u, False))"

text \<open>
  The SETUP branch: decode the eight request bytes at the start of \<open>EP0_Buf\<close>, dispatch, then arm
  the data or status stage or stall both directions.
\<close>

definition ep0_setup :: "ble_mode \<Rightarrow> usb \<Rightarrow> usb" where
  "ep0_setup m u =
     (let b = EP0_Buf u;
          chtype = b ! 0;
          wValue = of_le16 (drop 2 b);
          wIndex = of_le16 (drop 4 b);
          u1 = u\<lparr>UEP0_CTRL := RB_UEP_R_TOG OR RB_UEP_T_TOG OR UEP_R_RES_ACK OR UEP_T_RES_NAK,
                 SetupReqLen := unat (of_le16 (drop 6 b)),
                 SetupReqCode := b ! 1\<rparr>;
          (u2, ok) = (if chtype AND 0x60 \<noteq> 0 then setup_class chtype wValue wIndex u1
                      else setup_standard m chtype wValue wIndex u1);
          u3 = (if \<not> ok then
                  u2\<lparr>UEP0_CTRL := RB_UEP_R_TOG OR RB_UEP_T_TOG OR UEP_R_RES_STALL OR UEP_T_RES_STALL\<rparr>
                else
                  (let len = (if chtype AND 0x80 \<noteq> 0
                              then (if SetupReqLen u2 > EP0_SIZE then EP0_SIZE else SetupReqLen u2)
                              else 0)
                   in u2\<lparr>SetupReqLen := SetupReqLen u2 - len,
                         UEP0_T_LEN := len,
                         UEP0_CTRL := RB_UEP_R_TOG OR RB_UEP_T_TOG OR UEP_R_RES_ACK OR UEP_T_RES_ACK\<rparr>))
      in u3\<lparr>USB_INT_FG := RB_UIF_TRANSFER\<rparr>)"

section \<open>The CDC rings\<close>

text \<open>\<open>cdc_recv_data\<close>: bytes of one OUT packet into the receive ring; a full ring drops the rest.\<close>

fun cdc_recv_data :: "u8 list \<Rightarrow> ring \<Rightarrow> ring" where
  "cdc_recv_data [] r = r"
| "cdc_recv_data (b # bs) r =
     (case ring_put CDC_RX_BUF_SIZE b r of None \<Rightarrow> r | Some r' \<Rightarrow> cdc_recv_data bs r')"

text \<open>\<open>USB_CDC_Read\<close>: up to \<open>maxlen\<close> bytes out of the receive ring.\<close>

fun cdc_read_loop :: "nat \<Rightarrow> ring \<Rightarrow> u8 list \<times> ring" where
  "cdc_read_loop 0 r = ([], r)"
| "cdc_read_loop (Suc n) r =
     (case ring_get CDC_RX_BUF_SIZE r of None \<Rightarrow> ([], r)
      | Some (b, r') \<Rightarrow> (let (bs, r'') = cdc_read_loop n r' in (b # bs, r'')))"

definition USB_CDC_Read :: "nat \<Rightarrow> usb \<Rightarrow> u8 list \<times> usb" where
  "USB_CDC_Read maxlen u =
     (let (bs, r) = cdc_read_loop maxlen (cdc_rx u) in (bs, u\<lparr>cdc_rx := r\<rparr>))"

text \<open>The loop of \<open>USB_CDC_Write\<close>: stop at the first byte that does not fit and count one drop.\<close>

fun cdc_write_loop :: "u8 list \<Rightarrow> ring \<Rightarrow> u16 \<Rightarrow> ring \<times> u16" where
  "cdc_write_loop [] r drops = (r, drops)"
| "cdc_write_loop (b # bs) r drops =
     (case ring_put CDC_TX_BUF_SIZE b r of None \<Rightarrow> (r, drops + 1)
      | Some r' \<Rightarrow> cdc_write_loop bs r' drops)"

definition USB_CDC_Write :: "u8 list \<Rightarrow> usb \<Rightarrow> usb" where
  "USB_CDC_Write data u =
     (if DevConfig u = 0 \<or> cdcReady u = 0 then u
      else (let (r, d) = cdc_write_loop data (cdc_tx u) (cdc_tx_drops u)
            in u\<lparr>cdc_tx_task := True, cdc_tx := r, cdc_tx_drops := d, cdc_tx_pending := True\<rparr>))"

text \<open>
  \<open>(uint16_t)((cdc_tx_head - cdc_tx_tail) % CDC_TX_BUF_SIZE)\<close>: the cursors are promoted to
  \<open>int\<close>, so the difference can be negative, the C remainder then is negative too, and the cast
  makes it a large unsigned value.
\<close>

definition c_rem :: "int \<Rightarrow> int \<Rightarrow> int" where
  "c_rem a b = sgn a * (\<bar>a\<bar> mod \<bar>b\<bar>)"

definition cdc_tx_avail :: "ring \<Rightarrow> u16" where
  "cdc_tx_avail r = word_of_int (c_rem (int (rhead r) - int (rtail r)) (int CDC_TX_BUF_SIZE))"

text \<open>
  \<open>cdc_tx_process\<close> for \<open>CDC_TX_EVT\<close>: nothing to send; endpoint still busy, retry in 2 ms; or move
  at most one packet into the endpoint buffer and come back in 1 ms while bytes remain.
\<close>

definition cdc_tx_process :: "usb \<Rightarrow> usb" where
  "cdc_tx_process u =
     (let r = cdc_tx u in
      if rtail r = rhead r then u\<lparr>cdc_tx_pending := False\<rparr>
      else if UEP1_CTRL u AND MASK_UEP_T_RES = UEP_T_RES_ACK then
        u\<lparr>cdc_tx_pending := False, cdc_tx_timer := Some (ms1_to_system_time 2)\<rparr>
      else
        (let avail = unat (cdc_tx_avail r);
             n = (if avail > EP1_SIZE then EP1_SIZE else avail);
             packet = map (\<lambda>i. rbuf r ! ((rtail r + i) mod CDC_TX_BUF_SIZE)) [0..<n];
             r' = r\<lparr>rtail := (rtail r + n) mod CDC_TX_BUF_SIZE\<rparr>
         in u\<lparr>ep1_in := copy_in n packet (ep1_in u),
              cdc_tx := r',
              UEP1_T_LEN := n,
              UEP1_CTRL := (UEP1_CTRL u AND NOT MASK_UEP_T_RES) OR UEP_T_RES_ACK,
              cdc_tx_pending := False,
              cdc_tx_timer := (if rtail r' \<noteq> rhead r' then Some (ms1_to_system_time 1)
                               else cdc_tx_timer u)\<rparr>))"

section \<open>HID reports, interrupt dispatch, setup and detach\<close>

definition USB_HID_SendReport :: "u8 list \<Rightarrow> usb \<Rightarrow> usb" where
  "USB_HID_SendReport buf u =
     (let n = (if length buf > EP2_SIZE then EP2_SIZE else length buf)
      in u\<lparr>ep2_in := copy_in n buf (ep2_in u),
           UEP2_T_LEN := n,
           UEP2_CTRL := (UEP2_CTRL u AND NOT MASK_UEP_T_RES) OR UEP_T_RES_ACK\<rparr>)"

definition usb_ready :: "usb \<Rightarrow> bool" where
  "usb_ready u = (Ready u \<noteq> 0)"

text \<open>
  The token branch of the interrupt.  \<open>st\<close> is \<open>R8_USB_INT_ST\<close>, \<open>out\<close> the bytes of an OUT packet
  (\<open>R8_USB_RX_LEN\<close> of them, in the endpoint's OUT buffer).
\<close>

definition usb_token :: "u8 \<Rightarrow> u8 list \<Rightarrow> usb \<Rightarrow> usb" where
  "usb_token st out u =
     (let k = st AND (MASK_UIS_TOKEN OR MASK_UIS_ENDP);
          u1 = (if k = 0x20 then ep0_in u
                else if k = 0x00 then u
                else if k = 0x21 then
                  u\<lparr>UEP1_CTRL := ((UEP1_CTRL u XOR RB_UEP_T_TOG) AND NOT MASK_UEP_T_RES) OR UEP_T_RES_NAK\<rparr>
                else if k = 0x01 then
                  (if st AND RB_UIS_TOG_OK \<noteq> 0
                   then u\<lparr>UEP1_CTRL := UEP1_CTRL u XOR RB_UEP_R_TOG, cdc_rx := cdc_recv_data out (cdc_rx u)\<rparr>
                   else u)
                else if k = 0x22 then
                  u\<lparr>UEP2_CTRL := ((UEP2_CTRL u XOR RB_UEP_T_TOG) AND NOT MASK_UEP_T_RES) OR UEP_T_RES_NAK\<rparr>
                else if k = 0x02 then
                  (if st AND RB_UIS_TOG_OK \<noteq> 0 then u\<lparr>UEP2_CTRL := UEP2_CTRL u XOR RB_UEP_R_TOG\<rparr> else u)
                else u)
      in u1\<lparr>USB_INT_FG := RB_UIF_TRANSFER\<rparr>)"

definition USB_DevTransProcess :: "ble_mode \<Rightarrow> u8 \<Rightarrow> u8 \<Rightarrow> u8 list \<Rightarrow> usb \<Rightarrow> usb" where
  "USB_DevTransProcess m intflag st out u =
     (if intflag AND RB_UIF_TRANSFER \<noteq> 0 then
        (let u1 = (if st AND MASK_UIS_TOKEN \<noteq> MASK_UIS_TOKEN then usb_token st out u else u)
         in if st AND RB_UIS_SETUP_ACT \<noteq> 0 then ep0_setup m u1 else u1)
      else if intflag AND RB_UIF_BUS_RST \<noteq> 0 then
        u\<lparr>USB_DEV_AD := 0,
          UEP0_CTRL := UEP_R_RES_ACK OR UEP_T_RES_NAK,
          UEP1_CTRL := UEP_R_RES_ACK OR UEP_T_RES_NAK,
          UEP2_CTRL := UEP_R_RES_ACK OR UEP_T_RES_NAK,
          UEP3_CTRL := UEP_T_RES_NAK,
          DevConfig := 0,
          Ready := 0,
          USB_INT_FG := RB_UIF_BUS_RST\<rparr>
      else if intflag AND RB_UIF_SUSPEND \<noteq> 0 then u\<lparr>USB_INT_FG := RB_UIF_SUSPEND\<rparr>
      else u\<lparr>USB_INT_FG := intflag\<rparr>)"

definition USB_DevDetach :: "usb \<Rightarrow> usb" where
  "USB_DevDetach u = u\<lparr>usb_irq_en := False, UDEV_CTRL := UDEV_CTRL u AND NOT 0x01, DevConfig := 0, cdcReady := 0\<rparr>"

definition USB_Device_Setup :: "usb \<Rightarrow> usb" where
  "USB_Device_Setup u =
     u\<lparr>UEP4_1_MOD := 0x40 OR 0x80,
       UEP2_3_MOD := 0x04 OR 0x08 OR 0x40,
       UEP0_CTRL := UEP_R_RES_ACK OR UEP_T_RES_NAK,
       UEP1_CTRL := UEP_R_RES_ACK OR UEP_T_RES_NAK OR RB_UEP_AUTO_TOG,
       UEP2_CTRL := UEP_R_RES_ACK OR UEP_T_RES_NAK OR RB_UEP_AUTO_TOG,
       UEP3_CTRL := UEP_T_RES_NAK,
       USB_DEV_AD := 0,
       USB_CTRL := 0x20 OR 0x08 OR 0x01,
       UDEV_CTRL := 0x80 OR 0x01,
       USB_INT_FG := 0xFF,
       USB_INT_EN := 0x04 OR 0x01 OR 0x02,
       DevConfig := 0,
       cdcReady := 0,
       cdc_rx := (cdc_rx u)\<lparr>rhead := 0, rtail := 0\<rparr>\<rparr>"

definition usb_init_state :: usb where
  "usb_init_state = \<lparr>DevConfig = 0, Ready = 0, SetupReqCode = 0, SetupReqLen = 0, pDescr = [],
     Idle_Value = [0, 0, 0], cdcReady = 0, EP0_Buf = replicate 192 0, UEP0_CTRL = 0,
     UEP0_T_LEN = 0, UEP1_CTRL = 0, UEP1_T_LEN = 0, UEP2_CTRL = 0, UEP2_T_LEN = 0, UEP3_CTRL = 0,
     USB_DEV_AD = 0, USB_INT_FG = 0, USB_CTRL = 0, UEP4_1_MOD = 0, UEP2_3_MOD = 0, USB_INT_EN = 0,
     UDEV_CTRL = 0, usb_irq_en = False, ep1_in = replicate 64 0,
     ep2_in = replicate 64 0, cdc_rx = ring_empty CDC_RX_BUF_SIZE, cdc_tx = ring_empty CDC_TX_BUF_SIZE,
     cdc_tx_drops = 0, cdc_tx_task = False, cdc_tx_pending = False, cdc_tx_timer = None,
     usb_oob = False\<rparr>"

section \<open>The rings as bounded queues\<close>

interpretation rxq: byte_queue "ring_put CDC_RX_BUF_SIZE" "ring_get CDC_RX_BUF_SIZE"
  "ring_list CDC_RX_BUF_SIZE" "ring_inv CDC_RX_BUF_SIZE" 255
  using ring_byte_queue [of CDC_RX_BUF_SIZE] by (simp add: CDC_RX_BUF_SIZE_def)

interpretation txq: byte_queue "ring_put CDC_TX_BUF_SIZE" "ring_get CDC_TX_BUF_SIZE"
  "ring_list CDC_TX_BUF_SIZE" "ring_inv CDC_TX_BUF_SIZE" 2047
  using ring_byte_queue [of CDC_TX_BUF_SIZE] by (simp add: CDC_TX_BUF_SIZE_def)

lemma cdc_recv_data_put_all: "cdc_recv_data bs r = rxq.put_all bs r"
  by (induction bs arbitrary: r) (auto split: option.splits)

lemma cdc_read_loop_get_upto: "cdc_read_loop n r = rxq.get_upto n r"
  by (induction n arbitrary: r) (auto split: option.splits)

lemma cdc_write_loop_ring: "fst (cdc_write_loop bs r d) = txq.put_all bs r"
  by (induction bs arbitrary: r) (auto split: option.splits)

lemma cdc_write_loop_drops:
  "ring_inv CDC_TX_BUF_SIZE r \<Longrightarrow>
   snd (cdc_write_loop bs r d) =
     (if length (ring_list CDC_TX_BUF_SIZE r) + length bs \<le> 2047 then d else d + 1)"
proof (induction bs arbitrary: r)
  case Nil
  then show ?case using txq.view_cap [of r] by simp
next
  case (Cons b bs)
  show ?case
  proof (cases "ring_put CDC_TX_BUF_SIZE b r")
    case None
    with Cons.prems txq.put_full [of r b] show ?thesis by simp
  next
    case (Some r')
    from Cons.prems Some have "ring_inv CDC_TX_BUF_SIZE r'"
      "ring_list CDC_TX_BUF_SIZE r' = ring_list CDC_TX_BUF_SIZE r @ [b]"
      by (auto intro: txq.put_inv txq.put_view)
    with Some Cons.IH [of r'] show ?thesis
      by (simp del: length_ring_list)
  qed
qed

end
