(* ===== verification/Effects.thy ===== *)
theory Effects
  imports Usb_Dev
begin

text \<open>
  What the firmware does to the world outside its own sources, and what it reads from it.  A call
  of the BLE library, of the scheduler (TMOS) or of a peripheral driver is an \<open>act\<close>, appended to
  the log \<open>outs\<close>; what such a call returns is a component of the environment record \<open>env\<close>, a
  parameter of every definition that needs it.  Its components take the log so far, so that two
  reads of the same thing at different times may differ.  The state record \<open>base\<close> is the root of
  the chain of records that the component theories extend.
\<close>

datatype task = HwsTask | AtTask | SeqTask | EmuTask | HidDevTask | DongleTask | BattTask

datatype gap_param =
    GAPROLE_ADVERT_ENABLED | GAPROLE_ADVERT_DATA | GAPROLE_SCAN_RSP_DATA | GAPROLE_ADV_EVENT_TYPE
  | GAPROLE_ADV_DIRECT_TYPE | GAPROLE_ADV_DIRECT_ADDR

datatype bond_param =
    GAPBOND_ERASE_SINGLEBOND | GAPBOND_ERASE_ALLBONDS | GAPBOND_PERI_DEFAULT_PASSCODE
  | GAPBOND_PERI_PAIRING_MODE | GAPBOND_PERI_MITM_PROTECTION | GAPBOND_PERI_IO_CAPABILITIES
  | GAPBOND_PERI_BONDING_ENABLED | GAPBOND_CENT_PAIRING_MODE | GAPBOND_CENT_MITM_PROTECTION
  | GAPBOND_CENT_IO_CAPABILITIES | GAPBOND_CENT_BONDING_ENABLED | GAPBOND_CENT_DEFAULT_PASSCODE
  | GAPBOND_AUTO_SYNC_WL | GAPBOND_AUTO_SYNC_RL

text \<open>The timing parameters of \<open>GAP_SetParamValue\<close>.\<close>

datatype gap_tgap =
    TGAP_DISC_ADV_INT_MIN | TGAP_DISC_ADV_INT_MAX | TGAP_LIM_ADV_TIMEOUT | TGAP_DISC_SCAN
  | TGAP_CONN_EST_INT_MIN | TGAP_CONN_EST_INT_MAX | TGAP_CONN_EST_SUPERV_TIMEOUT

datatype port = PortA | PortB

datatype gpio_mode =
    GPIO_ModeIN_Floating | GPIO_ModeIN_PU | GPIO_ModeIN_PD | GPIO_ModeOut_PP_5mA
  | GPIO_ModeOut_PP_20mA

text \<open>What an ADC conversion is set up for: the temperature sensor, the supply, a channel and gain.\<close>

datatype adc_src = AdcTemp | AdcVbat | AdcExt u8 u8

text \<open>The bus events the I2C driver waits for.\<close>

datatype i2c_ev =
    MASTER_MODE_SELECT | MASTER_TRANSMITTER_MODE_SELECTED | MASTER_RECEIVER_MODE_SELECTED
  | MASTER_BYTE_TRANSMITTED | MASTER_BYTE_TRANSMITTING | MASTER_BYTE_RECEIVED

text \<open>Calls of the peripheral drivers.\<close>

datatype hw_act =
    GpioMode port u32 gpio_mode
  | GpioSet port u32
  | GpioReset port u32
  | WdgCounter u8
  | WdgReset bool
  | AdcConvert adc_src
  | RtcTrigger u32
  | SleepIdle
  | SleepDeep
  | SleepShutdown
  | RfCalibrate
  | LsiCalibrate

datatype i2c_act =
    I2cInit
  | I2cStart
  | I2cStop
  | I2cAddr u8 bool                      \<comment> \<open>address byte, read direction\<close>
  | I2cSend u8
  | I2cRecv
  | I2cAck bool
  | I2cClearAF

text \<open>Calls of the BLE library in the central role (the dongle).\<close>

datatype cent_act =
    CentralInit
  | InitClient
  | RegisterForInd
  | StartDevice
  | StartDiscovery                       \<comment> \<open>every device, active scan, no white list\<close>
  | CancelDiscovery
  | EstablishLink bool u8 "u8 list"      \<comment> \<open>high duty cycle, address type, address\<close>
  | TerminateLinkC u16
  | DiscPrimary u16 u16                  \<comment> \<open>\<open>GATT_DiscPrimaryServiceByUUID\<close>: connection, UUID\<close>
  | ReadByUuid u16 u16 u16 u16           \<comment> \<open>\<open>GATT_ReadUsingCharUUID\<close>: connection, range, UUID\<close>
  | GattRead u16 u16                     \<comment> \<open>\<open>GATT_ReadCharValue\<close>\<close>
  | GattWrite u16 u16 "u8 list"          \<comment> \<open>\<open>GATT_WriteCharValue\<close>\<close>

text \<open>The start of the library and of the peripheral role; \<open>lib_cfg\<close> is \<open>bleConfig_t\<close> without its callbacks.\<close>

record lib_cfg =
  MEMLen :: u16
  SNVAddr :: u32
  SNVBlock :: u16
  SNVNum :: u8
  BufNumber :: u8
  BufMaxLen :: u16
  TxNumEvent :: u8
  TxPower :: u8
  SelRTCClock :: u8
  ConnectNumber :: u8
  MacAddr :: "u8 list"

datatype gatt_service =
    GapService | GattService | DevInfoService | BattService | HidKbdService | ScanParamService

datatype stack_act =
    BleLibInit lib_cfg
  | GapPeripheralInit
  | RegisterService gatt_service

datatype act =
    Resp string                          \<comment> \<open>text handed to \<open>AT_Response\<close>\<close>
  | StartTask task u16 nat               \<comment> \<open>\<open>tmos_start_task\<close>, ticks\<close>
  | StopTask task u16                    \<comment> \<open>\<open>tmos_stop_task\<close>\<close>
  | SetEvent task u16                    \<comment> \<open>\<open>tmos_set_event\<close>\<close>
  | RegisterTask task                    \<comment> \<open>\<open>TMOS_ProcessEventRegister\<close>\<close>
  | UsbReport "u8 list"                  \<comment> \<open>endpoint 2 armed with a HID report\<close>
  | Terminate u16                        \<comment> \<open>\<open>GAPRole_TerminateLink\<close>\<close>
  | GapSet gap_param "u8 list"           \<comment> \<open>\<open>GAPRole_SetParameter\<close>\<close>
  | ConfigAddr u8 "u8 list"              \<comment> \<open>\<open>GAP_ConfigDeviceAddr\<close>\<close>
  | BondSet bond_param "u8 list"         \<comment> \<open>\<open>GAPBondMgr_SetParameter\<close>\<close>
  | GgsName "u8 list"                    \<comment> \<open>\<open>GGS_SetParameter (GGS_DEVICE_NAME_ATT)\<close>\<close>
  | ParamUpdate u16 nat nat nat nat      \<comment> \<open>\<open>GAPRole_PeripheralConnParamUpdateReq\<close>\<close>
  | UpdatePhy u16                        \<comment> \<open>\<open>GAPRole_UpdatePHY\<close>\<close>
  | Notification u16 u16 "u8 list"       \<comment> \<open>\<open>GATT_Notification\<close>: connection, handle, value\<close>
  | PasscodeRsp u16 u8 u32               \<comment> \<open>\<open>GAPBondMgr_PasscodeRsp\<close>\<close>
  | GapParam gap_tgap nat                \<comment> \<open>\<open>GAP_SetParamValue\<close>\<close>
  | InitCharCfg u16 u16                  \<comment> \<open>\<open>GATTServApp_InitCharCfg\<close>: connection, descriptor\<close>
  | PeripheralStart                      \<comment> \<open>\<open>GAPRole_PeripheralStartDevice\<close>\<close>
  | BmFree                               \<comment> \<open>\<open>GATT_bm_free\<close>\<close>
  | SysReset                             \<comment> \<open>\<open>SYS_ResetExecute\<close>: does not return\<close>
  | IspErase                             \<comment> \<open>page 0 erased, reset into the ROM loader: does not return\<close>
  | Hw hw_act
  | I2c i2c_act
  | Cent cent_act
  | Stack stack_act

datatype at_ch = AT_CH_UART | AT_CH_CDC

record base =
  outs :: "act list"
  ub :: bool
  flash :: "nat \<Rightarrow> u8"
  usb :: usb
  at_channel :: at_ch
  uart_tx :: "u8 list"

text \<open>
  \<open>outs\<close> is the log; \<open>ub\<close> is not a field of the program: it records that an operation without
  defined behaviour has been executed (a null pointer dereferenced, an array indexed out of its
  bounds, a shift by a negative amount).
\<close>

record env =
  mode :: ble_mode
  stat :: "act list \<Rightarrow> act \<Rightarrow> u8"
  clock :: "act list \<Rightarrow> u32"
  rtc_now :: "act list \<Rightarrow> u32"
  rtc_flag :: "act list \<Rightarrow> bool"
  pb_pin :: "act list \<Rightarrow> u32"
  pin_in :: "act list \<Rightarrow> port \<Rightarrow> u32 \<Rightarrow> u32"
  adc_init :: "adc_src \<Rightarrow> u8 list \<Rightarrow> u8 list"
  adc_data :: "act list \<Rightarrow> u16"
  to_celsius :: "u16 \<Rightarrow> int"
  i2c_event :: "act list \<Rightarrow> i2c_ev \<Rightarrow> nat \<Rightarrow> bool"
  i2c_rx :: "act list \<Rightarrow> u8"
  att_handle :: "nat \<Rightarrow> u16"
  batt_handle :: "nat \<Rightarrow> u16"
  att_found :: "u16 \<Rightarrow> bool"
  ccc_read :: "act list \<Rightarrow> u16 \<Rightarrow> u16 \<Rightarrow> u16"
  ccc_write :: "act list \<Rightarrow> u16 \<Rightarrow> u16 \<Rightarrow> u8 list \<Rightarrow> u8"
  bm_alloc :: "act list \<Rightarrow> u16 \<Rightarrow> nat \<Rightarrow> bool"
  bond_count :: "act list \<Rightarrow> u8"
  snv_bond :: "act list \<Rightarrow> nat \<Rightarrow> (u8 list \<times> u8 \<times> u16) option"
  links :: "act list \<Rightarrow> (u16 \<times> bool) list"
  link_up :: "act list \<Rightarrow> u16 \<Rightarrow> bool"
  default_passcode :: "act list \<Rightarrow> u32"
  chip_mac :: "u8 list"
  ver_lib :: string
  stack_junk :: "act list \<Rightarrow> nat \<Rightarrow> u8"
  ee_read :: "nat \<Rightarrow> nat \<Rightarrow> (nat \<Rightarrow> u8) \<Rightarrow> u8 list"
  ee_erase :: "nat \<Rightarrow> nat \<Rightarrow> (nat \<Rightarrow> u8) \<Rightarrow> u8 \<times> (nat \<Rightarrow> u8)"
  ee_write :: "nat \<Rightarrow> u8 list \<Rightarrow> (nat \<Rightarrow> u8) \<Rightarrow> u8 \<times> (nat \<Rightarrow> u8)"

text \<open>
  \<open>pb_pin\<close> is the input register of port B; \<open>stat\<close> is the status byte a library call returns; \<open>adc_init\<close> is what the driver's set-up of a
  conversion does to the four ADC registers; \<open>i2c_event h ev k\<close> is what the \<open>k\<close>-th poll for
  the event \<open>ev\<close> sees; \<open>att_handle\<close> and \<open>batt_handle\<close> are the handles the GATT server has given the
  entries of the two attribute tables, \<open>att_found\<close> says whether it knows a handle, \<open>ccc_read\<close> and
  \<open>ccc_write\<close> access a client's configuration of a descriptor, \<open>bm_alloc\<close> whether a buffer is free,
  \<open>stack_junk\<close> is what an uninitialised local buffer holds,
  \<open>snv_bond\<close> is the stored bond record (address, address type, flags), \<open>None\<close> when it cannot be read,
  \<open>bond_count\<close>, \<open>links\<close> and \<open>link_up\<close> are the bond manager's and the link data base's answers;
  \<open>ee_read\<close>, \<open>ee_erase\<close> and \<open>ee_write\<close> are the DataFlash routines of the
  vendor's ROM library, on the flash content.
\<close>

section \<open>The log\<close>

definition emit :: "act \<Rightarrow> 'a base_scheme \<Rightarrow> 'a base_scheme" where
  "emit a s = s\<lparr>outs := outs s @ [a]\<rparr>"

definition set_ub :: "'a base_scheme \<Rightarrow> 'a base_scheme" where
  "set_ub s = s\<lparr>ub := True\<rparr>"

text \<open>A library call that returns a status.\<close>

definition call :: "env \<Rightarrow> act \<Rightarrow> 'a base_scheme \<Rightarrow> u8 \<times> 'a base_scheme" where
  "call E a s = (stat E (outs s) a, emit a s)"

lemma outs_emit [simp]: "outs (emit a s) = outs s @ [a]"
  by (simp add: emit_def)

lemma emit_frame [simp, fw_frame]:
  "ub (emit a s) = ub s" "flash (emit a s) = flash s" "usb (emit a s) = usb s"
  "at_channel (emit a s) = at_channel s" "uart_tx (emit a s) = uart_tx s"
  "base.more (emit a s) = base.more s"
  by (simp_all add: emit_def)

section \<open>\<open>AT_Response\<close>\<close>

text \<open>
  The text is formatted into 256 bytes, so at most 255 characters survive; a line end is added only
  when two more characters and the terminator still fit.
\<close>

definition at_frame :: "string \<Rightarrow> string" where
  "at_frame t = (let b = take 255 t in if length b < 254 then b @ [CR, LF] else b)"

definition AT_Response :: "string \<Rightarrow> 'a base_scheme \<Rightarrow> 'a base_scheme" where
  "AT_Response t s =
     s\<lparr>outs := outs s @ [Resp t],
       usb := (if at_channel s = AT_CH_CDC then USB_CDC_Write (bytes_of (at_frame t)) (usb s)
               else usb s),
       uart_tx := (if at_channel s = AT_CH_CDC then uart_tx s
                   else uart_tx s @ bytes_of (at_frame t))\<rparr>"

lemma length_at_frame: "length (at_frame t) \<le> 255"
  by (simp add: at_frame_def Let_def min_def)

lemma at_frame_short: "length t < 254 \<Longrightarrow> at_frame t = t @ [CR, LF]"
  by (simp add: at_frame_def Let_def)

lemma outs_AT_Response [simp]: "outs (AT_Response t s) = outs s @ [Resp t]"
  by (simp add: AT_Response_def)

lemma AT_Response_frame [simp, fw_frame]:
  "ub (AT_Response t s) = ub s" "flash (AT_Response t s) = flash s"
  "at_channel (AT_Response t s) = at_channel s"
  "base.more (AT_Response t s) = base.more s"
  by (simp_all add: AT_Response_def)

section \<open>DataFlash\<close>

text \<open>
  The documented behaviour of the DataFlash routines: a read returns as many bytes as it was asked
  for; after a successful erase and a successful write at the same address, with sizes that fit one
  256-byte page, the bytes written are read back; and erasing or writing inside one page leaves
  what is read from another page alone.
\<close>

definition in_page :: "nat \<Rightarrow> nat \<Rightarrow> bool" where
  "in_page a n = (a mod 256 + n \<le> 256)"

definition ee_spec :: "env \<Rightarrow> bool" where
  "ee_spec E =
     ((\<forall>a n fl. length (ee_read E a n fl) = n) \<and>
      (\<forall>a bs fl fl1 fl2. in_page a (length bs) \<longrightarrow> ee_erase E a (length bs) fl = (0, fl1) \<longrightarrow>
         ee_write E a bs fl1 = (0, fl2) \<longrightarrow> ee_read E a (length bs) fl2 = bs) \<and>
      (\<forall>a n b k fl r fl'. in_page a n \<longrightarrow> in_page b k \<longrightarrow> a div 256 \<noteq> b div 256 \<longrightarrow>
         ee_erase E a n fl = (r, fl') \<longrightarrow> ee_read E b k fl' = ee_read E b k fl) \<and>
      (\<forall>a bs b k fl r fl'. in_page a (length bs) \<longrightarrow> in_page b k \<longrightarrow> a div 256 \<noteq> b div 256 \<longrightarrow>
         ee_write E a bs fl = (r, fl') \<longrightarrow> ee_read E b k fl' = ee_read E b k fl))"

definition EEPROM_ERASE :: "env \<Rightarrow> nat \<Rightarrow> nat \<Rightarrow> 'a base_scheme \<Rightarrow> u8 \<times> 'a base_scheme" where
  "EEPROM_ERASE E a n s = (let (r, fl) = ee_erase E a n (flash s) in (r, s\<lparr>flash := fl\<rparr>))"

definition EEPROM_WRITE :: "env \<Rightarrow> nat \<Rightarrow> u8 list \<Rightarrow> 'a base_scheme \<Rightarrow> u8 \<times> 'a base_scheme" where
  "EEPROM_WRITE E a bs s = (let (r, fl) = ee_write E a bs (flash s) in (r, s\<lparr>flash := fl\<rparr>))"

definition EEPROM_READ :: "env \<Rightarrow> nat \<Rightarrow> nat \<Rightarrow> 'a base_scheme \<Rightarrow> u8 list" where
  "EEPROM_READ E a n s = ee_read E a n (flash s)"

lemma length_EEPROM_READ: "ee_spec E \<Longrightarrow> length (EEPROM_READ E a n s) = n"
  by (simp add: ee_spec_def EEPROM_READ_def)

lemma EEPROM_round_trip:
  assumes "ee_spec E" "in_page a (length bs)"
    and "EEPROM_ERASE E a (length bs) s = (0, s1)" "EEPROM_WRITE E a bs s1 = (0, s2)"
  shows "EEPROM_READ E a (length bs) s2 = bs"
proof -
  obtain fl1 where e: "ee_erase E a (length bs) (flash s) = (0, fl1)" "s1 = s\<lparr>flash := fl1\<rparr>"
    using assms(3) by (auto simp: EEPROM_ERASE_def split: prod.splits)
  obtain fl2 where w: "ee_write E a bs fl1 = (0, fl2)" "s2 = s1\<lparr>flash := fl2\<rparr>"
    using assms(4) e(2) by (auto simp: EEPROM_WRITE_def split: prod.splits)
  from assms(1,2) e(1) w(1) have "ee_read E a (length bs) fl2 = bs"
    unfolding ee_spec_def by blast
  then show ?thesis by (simp add: w(2) EEPROM_READ_def)
qed

lemma EEPROM_ERASE_other_page:
  assumes "ee_spec E" "in_page a n" "in_page b k" "a div 256 \<noteq> b div 256"
  shows "EEPROM_READ E b k (snd (EEPROM_ERASE E a n s)) = EEPROM_READ E b k s"
proof -
  obtain r fl where e: "ee_erase E a n (flash s) = (r, fl)"
    by (cases "ee_erase E a n (flash s)")
  with assms have "ee_read E b k fl = ee_read E b k (flash s)"
    unfolding ee_spec_def by blast
  then show ?thesis by (simp add: EEPROM_READ_def EEPROM_ERASE_def e)
qed

lemma EEPROM_WRITE_other_page:
  assumes "ee_spec E" "in_page a (length bs)" "in_page b k" "a div 256 \<noteq> b div 256"
  shows "EEPROM_READ E b k (snd (EEPROM_WRITE E a bs s)) = EEPROM_READ E b k s"
proof -
  obtain r fl where e: "ee_write E a bs (flash s) = (r, fl)"
    by (cases "ee_write E a bs (flash s)")
  with assms have "ee_read E b k fl = ee_read E b k (flash s)"
    unfolding ee_spec_def by blast
  then show ?thesis by (simp add: EEPROM_READ_def EEPROM_WRITE_def e)
qed

lemma EEPROM_frame [simp, fw_frame]:
  "outs (snd (EEPROM_ERASE E a n s)) = outs s" "outs (snd (EEPROM_WRITE E a bs s)) = outs s"
  "ub (snd (EEPROM_ERASE E a n s)) = ub s" "ub (snd (EEPROM_WRITE E a bs s)) = ub s"
  "usb (snd (EEPROM_ERASE E a n s)) = usb s" "usb (snd (EEPROM_WRITE E a bs s)) = usb s"
  "at_channel (snd (EEPROM_ERASE E a n s)) = at_channel s"
  "at_channel (snd (EEPROM_WRITE E a bs s)) = at_channel s"
  "uart_tx (snd (EEPROM_ERASE E a n s)) = uart_tx s"
  "uart_tx (snd (EEPROM_WRITE E a bs s)) = uart_tx s"
  "base.more (snd (EEPROM_ERASE E a n s)) = base.more s"
  "base.more (snd (EEPROM_WRITE E a bs s)) = base.more s"
  by (simp_all add: EEPROM_ERASE_def EEPROM_WRITE_def split: prod.splits)

text \<open>
  A concrete flash and a concrete environment, for the witnesses: NOR cells that an erase sets to
  \<open>0xFF\<close> page by page and a write can only clear, and a library whose calls all succeed.
\<close>

definition nor_read :: "nat \<Rightarrow> nat \<Rightarrow> (nat \<Rightarrow> u8) \<Rightarrow> u8 list" where
  "nor_read a n fl = map (\<lambda>i. fl (a + i)) [0..<n]"

definition nor_erase :: "nat \<Rightarrow> nat \<Rightarrow> (nat \<Rightarrow> u8) \<Rightarrow> u8 \<times> (nat \<Rightarrow> u8)" where
  "nor_erase a n fl = (0, \<lambda>i. if i div 256 = a div 256 then 0xFF else fl i)"

definition nor_write :: "nat \<Rightarrow> u8 list \<Rightarrow> (nat \<Rightarrow> u8) \<Rightarrow> u8 \<times> (nat \<Rightarrow> u8)" where
  "nor_write a bs fl =
     (0, \<lambda>i. if a \<le> i \<and> i < a + length bs then fl i AND bs ! (i - a) else fl i)"

definition demo_env :: "ble_mode \<Rightarrow> env" where
  "demo_env m = \<lparr>mode = m, stat = \<lambda>_ _. 0, clock = \<lambda>_. 0, rtc_now = \<lambda>_. 0, rtc_flag = \<lambda>_. False,
     pb_pin = \<lambda>_. 0xFFFFFFFF, pin_in = \<lambda>_ _ _. 0, adc_init = \<lambda>_ _. [1, 2, 3, 4], adc_data = \<lambda>_. 2048, to_celsius = \<lambda>_. 25,
     i2c_event = \<lambda>_ _ _. True, i2c_rx = \<lambda>_. 0,
     att_handle = \<lambda>i. 16 + of_nat i, batt_handle = \<lambda>i. 48 + of_nat i, att_found = \<lambda>_. True,
     ccc_read = \<lambda>_ _ _. 1, ccc_write = \<lambda>_ _ _ _. 0, bm_alloc = \<lambda>_ _ _. True,
     bond_count = \<lambda>_. 1,
     snv_bond = \<lambda>_ _. Some ([1, 2, 3, 4, 5, 0xC6], 1, 0), links = \<lambda>_. [], link_up = \<lambda>_ _. True, default_passcode = \<lambda>_. 0,
     chip_mac = [0x11, 0x22, 0x33, 0x44, 0x55, 0xC6],
     ver_lib = ''CH58x_BLE_LIB_V2.1'', stack_junk = \<lambda>_ _. 0xA5,
     ee_read = nor_read, ee_erase = nor_erase,
     ee_write = nor_write\<rparr>"

lemma mode_demo_env [simp]: "mode (demo_env m) = m"
  by (simp add: demo_env_def)

lemma page_member: "in_page a n \<Longrightarrow> i < n \<Longrightarrow> (a + i) div 256 = a div 256"
proof -
  assume "in_page a n" "i < n"
  then have "a mod 256 + i < 256" by (simp add: in_page_def)
  moreover have "(a + i) div 256 = a div 256 + (a mod 256 + i) div 256"
    by (metis add.assoc div_mult_self4 div_mult_mod_eq mult.commute zero_neq_numeral)
  ultimately show ?thesis by simp
qed

lemma ee_spec_demo [simp]: "ee_spec (demo_env m)"
  unfolding ee_spec_def
proof (intro conjI allI impI)
  fix a bs fl fl1 fl2
  assume p: "in_page a (length bs)" and e: "ee_erase (demo_env m) a (length bs) fl = (0, fl1)"
    and w: "ee_write (demo_env m) a bs fl1 = (0, fl2)"
  from e have fl1: "fl1 = (\<lambda>i. if i div 256 = a div 256 then 0xFF else fl i)"
    by (simp add: demo_env_def nor_erase_def)
  have "fl2 (a + i) = bs ! i" if "i < length bs" for i
  proof -
    have "fl1 (a + i) = - 1" using page_member [OF p that] by (simp add: fl1)
    then show ?thesis using w that by (auto simp: demo_env_def nor_write_def)
  qed
  then show "ee_read (demo_env m) a (length bs) fl2 = bs"
    by (auto simp: demo_env_def nor_read_def intro: nth_equalityI)
next
  fix a n b k fl r fl'
  assume "in_page a n" "in_page b k" "a div 256 \<noteq> b div 256"
    and "ee_erase (demo_env m) a n fl = (r, fl')"
  then show "ee_read (demo_env m) b k fl' = ee_read (demo_env m) b k fl"
    by (auto simp: demo_env_def nor_read_def nor_erase_def page_member)
next
  fix a bs b k fl r fl'
  assume p: "in_page a (length bs)" "in_page b k" "a div 256 \<noteq> b div 256"
    and w: "ee_write (demo_env m) a bs fl = (r, fl')"
  have "\<not> (a \<le> b + i \<and> b + i < a + length bs)" if "i < k" for i
  proof
    assume "a \<le> b + i \<and> b + i < a + length bs"
    then have "b + i - a < length bs" "a + (b + i - a) = b + i" by auto
    with page_member [OF p(1), of "b + i - a"] page_member [OF p(2) that] p(3)
    show False by metis
  qed
  with w show "ee_read (demo_env m) b k fl' = ee_read (demo_env m) b k fl"
    by (auto simp: demo_env_def nor_read_def nor_write_def)
qed (simp_all add: demo_env_def nor_read_def)

section \<open>Start-up state\<close>

definition base_init :: base where
  "base_init = \<lparr>outs = [], ub = False, flash = \<lambda>_. 0xFF, usb = usb_init_state,
     at_channel = AT_CH_UART, uart_tx = []\<rparr>"

end
