(* ===== verification/Hws_Led.thy ===== *)
theory Hws_Led
  imports Effects
begin

text \<open>
  The LED service of \<^verbatim>\<open>hws_led.c\<close>: one control block per LED, set/toggle, blink and flash, and the
  update that the blink event runs.  Only LED 1 has a pin on this board (PA0, active low).
\<close>

definition HWS_LED_1 :: u8 where "HWS_LED_1 = 0x01"
definition HWS_LED_ALL :: u8 where "HWS_LED_ALL = 0x0F"
definition HWS_LED_MODE_OFF :: u8 where "HWS_LED_MODE_OFF = 0x00"
definition HWS_LED_MODE_ON :: u8 where "HWS_LED_MODE_ON = 0x01"
definition HWS_LED_MODE_BLINK :: u8 where "HWS_LED_MODE_BLINK = 0x02"
definition HWS_LED_MODE_FLASH :: u8 where "HWS_LED_MODE_FLASH = 0x04"
definition HWS_LED_MODE_TOGGLE :: u8 where "HWS_LED_MODE_TOGGLE = 0x08"
definition HWS_LED_BLINK_EVENT :: u16 where "HWS_LED_BLINK_EVENT = 0x0001"
definition HWS_LED_DEFAULT_MAX_LEDS :: nat where "HWS_LED_DEFAULT_MAX_LEDS = 4"

lemmas led_consts = HWS_LED_1_def HWS_LED_ALL_def HWS_LED_MODE_OFF_def HWS_LED_MODE_ON_def
  HWS_LED_MODE_BLINK_def HWS_LED_MODE_FLASH_def HWS_LED_MODE_TOGGLE_def

record hws_led_ctrl =
  lmode :: u8
  todo :: u8
  onPct :: u8
  ltime :: u16
  lnext :: u32

record led_state = base +
  hws_led_state :: u8
  hws_led_pre_blink :: u8
  led_ctrl :: "hws_led_ctrl list"
  sleep_active :: bool
  pa_out :: u32
  pa_dir :: u32

text \<open>The bit of LED number \<open>i\<close>.\<close>

definition led_bit :: "nat \<Rightarrow> u8" where
  "led_bit i = push_bit i HWS_LED_1"

definition upd_ctrl ::
  "nat \<Rightarrow> (hws_led_ctrl \<Rightarrow> hws_led_ctrl) \<Rightarrow> 'a led_state_scheme \<Rightarrow> 'a led_state_scheme" where
  "upd_ctrl i f s = s\<lparr>led_ctrl := (led_ctrl s)[i := f (led_ctrl s ! i)]\<rparr>"

definition hws_led_on_off :: "u8 \<Rightarrow> u8 \<Rightarrow> 'a led_state_scheme \<Rightarrow> 'a led_state_scheme" where
  "hws_led_on_off leds md s =
     s\<lparr>pa_out := (if leds AND HWS_LED_1 \<noteq> 0
                 then (if md = HWS_LED_MODE_ON then pa_out s AND NOT 1 else pa_out s OR 1)
                 else pa_out s),
       hws_led_state := (if md \<noteq> 0 then hws_led_state s OR leds
                         else hws_led_state s AND (leds XOR 0xFF))\<rparr>"

text \<open>
  The \<open>ON\<close>, \<open>OFF\<close>, \<open>TOGGLE\<close> branch of \<open>hws_led_set\<close>: the loop over the control blocks, which
  visits the LEDs of the mask in order.
\<close>

definition led_set_one :: "u8 \<Rightarrow> u8 \<Rightarrow> nat \<Rightarrow> 'a led_state_scheme \<Rightarrow> 'a led_state_scheme" where
  "led_set_one leds md i s =
     (if leds AND led_bit i \<noteq> 0 then
        (let s1 = upd_ctrl i (\<lambda>c. c\<lparr>lmode := (if md \<noteq> HWS_LED_MODE_TOGGLE then md
                                              else lmode c XOR HWS_LED_MODE_ON)\<rparr>) s
         in hws_led_on_off (led_bit i) (lmode (led_ctrl s1 ! i)) s1)
      else s)"

definition led_set_steady :: "u8 \<Rightarrow> u8 \<Rightarrow> 'a led_state_scheme \<Rightarrow> 'a led_state_scheme" where
  "led_set_steady leds md s =
     fold (led_set_one (leds AND HWS_LED_ALL) md) [0..<HWS_LED_DEFAULT_MAX_LEDS] s"

definition led_blink_one ::
  "env \<Rightarrow> u8 \<Rightarrow> u8 \<Rightarrow> u8 \<Rightarrow> u16 \<Rightarrow> nat \<Rightarrow> 'a led_state_scheme \<Rightarrow> 'a led_state_scheme" where
  "led_blink_one E leds numBlinks percent period i s =
     (if leds AND led_bit i \<noteq> 0 then
        upd_ctrl i (\<lambda>c. \<lparr>lmode = (HWS_LED_MODE_OFF OR (if numBlinks = 0 then HWS_LED_MODE_FLASH else 0))
                                  OR HWS_LED_MODE_BLINK,
                         todo = numBlinks, onPct = percent, ltime = period,
                         lnext = clock E (outs s)\<rparr>)
          (s\<lparr>hws_led_pre_blink := hws_led_pre_blink s OR (led_bit i AND hws_led_state s)\<rparr>)
      else s)"

definition hws_led_blink ::
  "env \<Rightarrow> u8 \<Rightarrow> u8 \<Rightarrow> u8 \<Rightarrow> u16 \<Rightarrow> 'a led_state_scheme \<Rightarrow> 'a led_state_scheme" where
  "hws_led_blink E leds numBlinks percent period s =
     (if leds \<noteq> 0 \<and> percent \<noteq> 0 \<and> period \<noteq> 0 then
        (if percent < 100 then
           emit (StartTask HwsTask HWS_LED_BLINK_EVENT 0)
             (fold (led_blink_one E (leds AND HWS_LED_ALL) numBlinks percent period)
                [0..<HWS_LED_DEFAULT_MAX_LEDS] s)
         else led_set_steady leds HWS_LED_MODE_ON s)
      else led_set_steady leds HWS_LED_MODE_OFF s)"

definition hws_led_set :: "env \<Rightarrow> u8 \<Rightarrow> u8 \<Rightarrow> 'a led_state_scheme \<Rightarrow> 'a led_state_scheme" where
  "hws_led_set E leds md s =
     (if md = HWS_LED_MODE_BLINK then hws_led_blink E leds 1 5 1000 s
      else if md = HWS_LED_MODE_FLASH then hws_led_blink E leds 50 5 1000 s
      else if md = HWS_LED_MODE_ON \<or> md = HWS_LED_MODE_OFF \<or> md = HWS_LED_MODE_TOGGLE
      then led_set_steady leds md s
      else s)"

text \<open>
  The update of one LED.  A due LED changes phase: out of the lit phase the count of a finite blink
  goes down and the blink may end.  Then, if it still blinks, the next change is scheduled; if not,
  the LED returns to what it showed before.  \<open>wait\<close> and \<open>next\<close> are 16-bit.
\<close>

definition led_phase_off :: "nat \<Rightarrow> 'a led_state_scheme \<Rightarrow> 'a led_state_scheme" where
  "led_phase_off i s =
     (let s1 = hws_led_on_off (led_bit i) HWS_LED_MODE_OFF
                 (upd_ctrl i (\<lambda>c. c\<lparr>lmode := lmode c AND NOT HWS_LED_MODE_ON\<rparr>) s)
      in if lmode (led_ctrl s1 ! i) AND HWS_LED_MODE_FLASH = 0 then
           upd_ctrl i
             (\<lambda>c. let t = (if todo c \<noteq> 0xFF then todo c - 1 else todo c)
                  in c\<lparr>todo := t,
                       lmode := (if t = 0 then lmode c XOR HWS_LED_MODE_BLINK else lmode c)\<rparr>) s1
         else s1)"

definition led_phase_on :: "nat \<Rightarrow> 'a led_state_scheme \<Rightarrow> 'a led_state_scheme" where
  "led_phase_on i s =
     hws_led_on_off (led_bit i) HWS_LED_MODE_ON
       (upd_ctrl i (\<lambda>c. c\<lparr>lmode := lmode c OR HWS_LED_MODE_ON\<rparr>) s)"

definition led_restore :: "env \<Rightarrow> nat \<Rightarrow> 'a led_state_scheme \<Rightarrow> 'a led_state_scheme" where
  "led_restore E i s =
     (let led = led_bit i;
          s' = hws_led_set E led
                 (if hws_led_pre_blink s AND led \<noteq> 0 then HWS_LED_MODE_ON else HWS_LED_MODE_OFF) s
      in s'\<lparr>hws_led_pre_blink := hws_led_pre_blink s' AND (led XOR 0xFF)\<rparr>)"

definition led_due :: "env \<Rightarrow> nat \<Rightarrow> 'a led_state_scheme \<Rightarrow> u16 \<times> 'a led_state_scheme" where
  "led_due E i s =
     (let time = clock E (outs s);
          (pct, s1) = (if lmode (led_ctrl s ! i) AND HWS_LED_MODE_ON \<noteq> 0
                       then (100 - onPct (led_ctrl s ! i), led_phase_off i s)
                       else (onPct (led_ctrl s ! i), led_phase_on i s))
      in if lmode (led_ctrl s1 ! i) AND HWS_LED_MODE_BLINK \<noteq> 0 then
           (let wait = ucast ((ucast pct * ucast (ltime (led_ctrl s1 ! i)) :: u32) div 100) :: u16
            in (wait, upd_ctrl i (\<lambda>c. c\<lparr>lnext := time + ucast wait\<rparr>) s1))
         else (0, led_restore E i s1))"

definition led_update_one ::
  "env \<Rightarrow> nat \<Rightarrow> u16 \<times> 'a led_state_scheme \<Rightarrow> u16 \<times> 'a led_state_scheme" where
  "led_update_one E i p =
     (let (next, s) = p in
      if lmode (led_ctrl s ! i) AND HWS_LED_MODE_BLINK \<noteq> 0 then
        (let time = clock E (outs s);
             (wait, s') = (if time \<ge> lnext (led_ctrl s ! i) then led_due E i s
                           else (ucast (lnext (led_ctrl s ! i) - time), s))
         in (if next = 0 \<or> (wait \<noteq> 0 \<and> wait < next) then wait else next, s'))
      else (next, s))"

definition hws_led_update :: "env \<Rightarrow> 'a led_state_scheme \<Rightarrow> 'a led_state_scheme" where
  "hws_led_update E s =
     (if sleep_active s then s
      else (let (next, s') = fold (led_update_one E) [0..<HWS_LED_DEFAULT_MAX_LEDS] (0, s)
            in if next \<noteq> 0 then emit (StartTask HwsTask HWS_LED_BLINK_EVENT (unat next)) s' else s'))"

definition hws_led_get_state :: "'a led_state_scheme \<Rightarrow> u8" where
  "hws_led_get_state s = hws_led_state s"

definition hws_led_init :: "'a led_state_scheme \<Rightarrow> 'a led_state_scheme" where
  "hws_led_init s =
     (led_set_steady HWS_LED_ALL HWS_LED_MODE_OFF (s\<lparr>pa_dir := pa_dir s OR 1\<rparr>))\<lparr>sleep_active := False\<rparr>"

section \<open>One LED\<close>

lemma led_bit_0 [simp]: "led_bit 0 = 1" "led_bit (Suc 0) = 2" "led_bit 2 = 4" "led_bit 3 = 8"
  by (simp_all add: led_bit_def HWS_LED_1_def)

lemma upt4: "[0..<HWS_LED_DEFAULT_MAX_LEDS] = [0, Suc 0, 2, 3]"
  by (simp add: HWS_LED_DEFAULT_MAX_LEDS_def upt_rec)

lemma led_on_off_frame [simp, fw_frame]:
  "led_ctrl (hws_led_on_off l m s) = led_ctrl s"
  "hws_led_pre_blink (hws_led_on_off l m s) = hws_led_pre_blink s"
  "outs (hws_led_on_off l m s) = outs s"
  "sleep_active (hws_led_on_off l m s) = sleep_active s"
  by (simp_all add: hws_led_on_off_def)

lemma upd_ctrl_frame [simp, fw_frame]:
  "hws_led_state (upd_ctrl i f s) = hws_led_state s"
  "hws_led_pre_blink (upd_ctrl i f s) = hws_led_pre_blink s"
  "outs (upd_ctrl i f s) = outs s" "pa_out (upd_ctrl i f s) = pa_out s"
  "sleep_active (upd_ctrl i f s) = sleep_active s"
  "led_ctrl (upd_ctrl i f s) = (led_ctrl s)[i := f (led_ctrl s ! i)]"
  by (simp_all add: upd_ctrl_def)

text \<open>The other LEDs are steady, so LED 1 alone decides what the update does.\<close>

definition led1_only :: "'a led_state_scheme \<Rightarrow> bool" where
  "led1_only s = (length (led_ctrl s) = 4 \<and> \<not> sleep_active s \<and>
     (\<forall>i \<in> {1, 2, 3}. lmode (led_ctrl s ! i) AND HWS_LED_MODE_BLINK = 0))"

lemma led_update_other:
  "lmode (led_ctrl (snd p) ! i) AND HWS_LED_MODE_BLINK = 0 \<Longrightarrow> led_update_one E i p = p"
  by (cases p) (simp add: led_update_one_def)

lemma clear_bit_0 [simp]: "(x AND - 2) AND 1 = (0 :: 'w::len word)"
  by (simp add: and.assoc)

lemma set_bit_0 [simp]: "(x OR 1) AND 1 = (1 :: 'w::len word)"
  by (simp add: bit.conj_disj_distrib2)

lemma saved_bit_0:
  "x AND 1 = 0 \<Longrightarrow> ((x OR (1 AND y)) AND 1 = 0) = (y AND 1 = (0 :: 'w::len word))"
proof -
  assume "x AND 1 = 0"
  moreover have "(1 AND y) AND 1 = y AND 1" by (simp add: and.commute)
  ultimately show ?thesis unfolding bit.conj_disj_distrib2 by simp
qed

definition led1_due :: "env \<Rightarrow> 'a led_state_scheme \<Rightarrow> bool" where
  "led1_due E s = (clock E (outs s) \<ge> lnext (led_ctrl s ! 0))"

text \<open>What the board shows: the pin is active low.\<close>

definition led1_lit :: "'a led_state_scheme \<Rightarrow> bool" where
  "led1_lit s = (pa_out s AND 1 = 0)"

text \<open>LED 1 is blinking, with \<open>t\<close> cycles to go, in the dark or the lit half of a cycle.\<close>

definition led1_blinking ::
  "bool \<Rightarrow> u8 \<Rightarrow> u8 \<Rightarrow> u16 \<Rightarrow> bool \<Rightarrow> 'a led_state_scheme \<Rightarrow> bool" where
  "led1_blinking before t pct per on s =
     (led1_only s \<and> lmode (led_ctrl s ! 0) = (if on then 3 else 2) \<and> todo (led_ctrl s ! 0) = t \<and>
      onPct (led_ctrl s ! 0) = pct \<and> ltime (led_ctrl s ! 0) = per \<and>
      (hws_led_pre_blink s AND 1 \<noteq> 0) = before)"

lemma update_led1:
  assumes "led1_only s" "lmode (led_ctrl s ! 0) AND HWS_LED_MODE_BLINK \<noteq> 0" "led1_due E s"
    and "led_due E 0 s = (w, s')" "led1_only s'"
  shows "hws_led_update E s =
    (if w \<noteq> 0 then emit (StartTask HwsTask HWS_LED_BLINK_EVENT (unat w)) s' else s')"
proof -
  have "led_update_one E 0 (0, s) = (w, s')"
    using assms by (simp add: led_update_one_def led1_due_def Let_def)
  moreover have "led_update_one E i (w, s') = (w, s')" if "i \<in> {1, 2, 3}" for i
    using assms(5) that by (intro led_update_other) (auto simp: led1_only_def)
  ultimately have "fold (led_update_one E) [0..<HWS_LED_DEFAULT_MAX_LEDS] (0, s) = (w, s')"
    by (simp add: upt4)
  then show ?thesis
    using assms(1) by (simp add: hws_led_update_def led1_only_def)
qed

lemma led1_only_emit [simp]: "led1_only (s\<lparr>outs := x\<rparr>) = led1_only s"
  by (simp add: led1_only_def)

lemma led1_dark_due:
  assumes "led1_blinking b t pct per False s" "led1_due E s"
  shows "led1_blinking b t pct per True (hws_led_update E s) \<and> led1_lit (hws_led_update E s)"
proof -
  obtain w s' where d: "led_due E 0 s = (w, s')" by fastforce
  have c: "length (led_ctrl s) = 4" "lmode (led_ctrl s ! 0) = 2" "led1_only s"
    using assms(1) by (simp_all add: led1_blinking_def led1_only_def)
  have s': "led1_blinking b t pct per True s' \<and> led1_lit s'"
    using d assms(1) c
    by (auto simp: led_due_def led_phase_on_def Let_def led_consts led1_blinking_def led1_only_def
        led1_lit_def hws_led_on_off_def upd_ctrl_def)
  then have "led1_only s'" by (simp add: led1_blinking_def)
  from update_led1 [OF c(3) _ assms(2) d this] c(2) s'
  show ?thesis by (simp add: led_consts led1_blinking_def emit_def led1_lit_def)
qed


lemma led1_lit_due:
  assumes "led1_blinking b t pct per True s" "led1_due E s" "t \<noteq> 0xFF" "t \<noteq> 1"
  shows "led1_blinking b (t - 1) pct per False (hws_led_update E s) \<and>
         \<not> led1_lit (hws_led_update E s)"
proof -
  obtain w s' where d: "led_due E 0 s = (w, s')" by fastforce
  have c: "length (led_ctrl s) = 4" "lmode (led_ctrl s ! 0) = 3" "led1_only s"
    "todo (led_ctrl s ! 0) = t" "todo (led_ctrl s ! 0) - 1 \<noteq> 0"
    using assms(1,4) by (simp_all add: led1_blinking_def led1_only_def)
  have s': "led1_blinking b (t - 1) pct per False s' \<and> \<not> led1_lit s'"
    using d assms(1,3,4) c
    by (auto simp: led_due_def led_phase_off_def Let_def led_consts led1_blinking_def led1_only_def
        led1_lit_def hws_led_on_off_def upd_ctrl_def)
  then have "led1_only s'" by (simp add: led1_blinking_def)
  from update_led1 [OF c(3) _ assms(2) d this] c(2) s'
  show ?thesis by (simp add: led_consts led1_blinking_def emit_def led1_lit_def)
qed

text \<open>LED 1 is steady again, showing \<open>b\<close>, with no saved state left behind.\<close>

definition led1_steady :: "bool \<Rightarrow> 'a led_state_scheme \<Rightarrow> bool" where
  "led1_steady b s =
     (led1_only s \<and> lmode (led_ctrl s ! 0) = (if b then HWS_LED_MODE_ON else HWS_LED_MODE_OFF) \<and>
      led1_lit s = b \<and> (hws_led_get_state s AND 1 \<noteq> 0) = b \<and> hws_led_pre_blink s AND 1 = 0)"

lemma led1_last_due:
  assumes "led1_blinking b 1 pct per True s" "led1_due E s"
  shows "led1_steady b (hws_led_update E s)"
proof -
  obtain w s' where d: "led_due E 0 s = (w, s')" by fastforce
  have c: "length (led_ctrl s) = 4" "lmode (led_ctrl s ! 0) = 3" "led1_only s"
    "todo (led_ctrl s ! 0) = 1"
    using assms(1) by (simp_all add: led1_blinking_def led1_only_def)
  have s': "led1_steady b s'"
    using d assms(1) c
    by (cases b) (auto simp: led_due_def led_phase_off_def led_restore_def hws_led_set_def
        led_set_steady_def upt4 led_set_one_def Let_def led_consts led1_blinking_def led1_only_def
        led1_steady_def hws_led_get_state_def led1_lit_def hws_led_on_off_def upd_ctrl_def and.assoc)
  then have "led1_only s'" by (simp add: led1_steady_def)
  from update_led1 [OF c(3) _ assms(2) d this] c(2) s'
  show ?thesis by (simp add: led_consts led1_steady_def emit_def led1_lit_def hws_led_get_state_def)
qed

text \<open>Updates at moments (environments) at which LED 1 is due.\<close>

fun led_run :: "env list \<Rightarrow> 'a led_state_scheme \<Rightarrow> 'a led_state_scheme" where
  "led_run [] s = s"
| "led_run (E # Es) s = led_run Es (hws_led_update E s)"

fun led_run_due :: "env list \<Rightarrow> 'a led_state_scheme \<Rightarrow> bool" where
  "led_run_due [] s = True"
| "led_run_due (E # Es) s = (led1_due E s \<and> led_run_due Es (hws_led_update E s))"

lemma led_run_blink:
  assumes "led1_blinking b (of_nat (Suc n)) pct per False s" "Suc n < 255"
    and "length Es = 2 * Suc n" "led_run_due Es s"
  shows "led1_steady b (led_run Es s)"
  using assms
proof (induction n arbitrary: s Es)
  case 0
  then obtain E1 E2 where Es: "Es = [E1, E2]"
    by (auto simp: numeral_2_eq_2 length_Suc_conv)
  from 0 Es led1_dark_due [of b 1 pct per s E1] led1_last_due [of b pct per "hws_led_update E1 s" E2]
  show ?case by simp
next
  case (Suc n)
  then obtain E1 E2 Es' where Es: "Es = E1 # E2 # Es'" "length Es' = 2 * Suc n"
    by (auto simp: length_Suc_conv)
  let ?t = "of_nat (Suc (Suc n)) :: u8"
  have ut: "unat ?t = Suc (Suc n)" using Suc.prems(2)
    by (simp add: unat_of_nat take_bit_nat_eq_self del: of_nat_Suc)
  have t: "?t \<noteq> 0xFF" "?t \<noteq> 1" "?t - 1 = of_nat (Suc n)"
    using Suc.prems(2) ut by (auto simp del: of_nat_Suc) simp
  let ?s2 = "hws_led_update E2 (hws_led_update E1 s)"
  have "led1_blinking b (?t - 1) pct per False ?s2"
    using Suc.prems Es led1_dark_due [of b ?t pct per s E1]
      led1_lit_due [of b ?t pct per "hws_led_update E1 s" E2] t(1,2) by auto
  then show ?case
    using Suc.IH [of ?s2 Es'] Suc.prems Es t(3) by (simp del: of_nat_Suc)
qed

lemma led_blink_starts:
  assumes "led1_only s" "0 < n" "n < 255" "0 < pct" "pct < 100" "per \<noteq> 0"
    "hws_led_pre_blink s AND 1 = 0"
  shows "led1_blinking (hws_led_get_state s AND 1 \<noteq> 0) (of_nat n) pct per False
           (hws_led_blink E HWS_LED_1 (of_nat n) pct per s)"
proof -
  have "unat (of_nat n :: u8) = n" using assms(3) by (simp add: unat_of_nat take_bit_nat_eq_self)
  then have n: "(of_nat n :: u8) \<noteq> 0" using assms(2) by auto
  have p: "pct \<noteq> 0" using assms(4) by auto
  have c: "led_ctrl s \<noteq> []" "length (led_ctrl s) = 4" using assms(1) by (auto simp: led1_only_def)
  show ?thesis
    using assms n p c
    by (auto simp: hws_led_blink_def led_consts upt4 led_blink_one_def upd_ctrl_def
        led1_blinking_def led1_only_def emit_def hws_led_get_state_def saved_bit_0)
qed


text \<open>
  A finite blink of LED 1 (1 to 254 cycles, any duty below 100 and any period) runs exactly its
  number of cycles: after one dark-to-lit and one lit-to-dark update per cycle it has stopped, and
  the LED, the recorded state and the saved state are back to what they were before.
\<close>

theorem finite_blink_restores:
  assumes "led1_only s" "hws_led_pre_blink s AND 1 = 0"
    and "0 < n" "n < 255" "0 < pct" "pct < 100" "per \<noteq> 0"
    and "length Es = 2 * n" "led_run_due Es (hws_led_blink E HWS_LED_1 (of_nat n) pct per s)"
  shows "led1_steady (hws_led_get_state s AND 1 \<noteq> 0)
           (led_run Es (hws_led_blink E HWS_LED_1 (of_nat n) pct per s))"
proof -
  obtain k where n: "n = Suc k" using assms(3) by (cases n) auto
  from led_blink_starts [OF assms(1,3,4,5,6,7,2), of E]
  show ?thesis
    using led_run_blink [of _ k pct per _ Es] assms(4,8,9) unfolding n by blast
qed

definition led_init_state :: led_state where
  "led_init_state = base.extend base_init
     \<lparr>hws_led_state = 0, hws_led_pre_blink = 0,
      led_ctrl = replicate 4 \<lparr>lmode = 0, todo = 0, onPct = 0, ltime = 0, lnext = 0\<rparr>,
      sleep_active = False, pa_out = 0xFFFFFFFF, pa_dir = 0\<rparr>"

text \<open>The demo environment at a given time.\<close>

definition at_time :: "u32 \<Rightarrow> env" where
  "at_time t = (demo_env MODE_KBD)\<lparr>clock := \<lambda>_. t\<rparr>"

lemma finite_blink_restores_witness:
  "led1_steady False (led_run [at_time 0, at_time 1000]
     (hws_led_blink (at_time 0) HWS_LED_1 1 50 500 led_init_state))"
proof -
  have "led_run_due [at_time 0, at_time 1000] (hws_led_blink (at_time 0) HWS_LED_1 (of_nat 1) 50 500 led_init_state)"
    by (simp add: led1_due_def at_time_def hws_led_blink_def led_consts upt4 led_blink_one_def
        hws_led_update_def led_update_one_def led_due_def led_phase_on_def led_init_state_def
        base_init_def base.defs Let_def upd_ctrl_def emit_def hws_led_on_off_def)
  moreover have "led1_only led_init_state" "hws_led_pre_blink led_init_state AND 1 = 0"
    "(hws_led_get_state led_init_state AND 1 \<noteq> 0) = False"
    by (simp_all add: led_init_state_def base_init_def base.defs led1_only_def hws_led_get_state_def)
  ultimately show ?thesis
    using finite_blink_restores [of led_init_state 1 50 500 "[at_time 0, at_time 1000]" "at_time 0"]
    by (simp del: led_run.simps)
qed

text \<open>
  When the lit or dark part of a cycle rounds to zero ticks (duty times period below 100), the
  update schedules nothing, so a blinking LED 1 stays in the phase it is in.
\<close>

theorem short_blink_not_rescheduled:
  assumes "led1_blinking b t pct per False s" "led1_due E s"
    and "ucast pct * ucast per < (100 :: u32)"
  shows "outs (hws_led_update E s) = outs s \<and>
         led1_blinking b t pct per True (hws_led_update E s)"
proof
  obtain w s' where d: "led_due E 0 s = (w, s')" by fastforce
  have c: "length (led_ctrl s) = 4" "lmode (led_ctrl s ! 0) = 2" "led1_only s"
    using assms(1) by (simp_all add: led1_blinking_def led1_only_def)
  have z: "(ucast pct * ucast per :: u32) div 100 = 0"
    using assms(3) by (simp add: word_arith_nat_div word_less_nat_alt)
  have w: "w = 0" "outs s' = outs s" "led1_only s'"
    using d assms(1) c z
    by (auto simp: led_due_def led_phase_on_def Let_def led_consts led1_blinking_def led1_only_def
        hws_led_on_off_def upd_ctrl_def)
  from update_led1 [OF c(3) _ assms(2) d w(3)] c(2) w
  show "outs (hws_led_update E s) = outs s" by (simp add: led_consts)
  show "led1_blinking b t pct per True (hws_led_update E s)"
    using led1_dark_due [OF assms(1,2)] by simp
qed

lemma short_blink_not_rescheduled_witness:
  "outs (hws_led_update (at_time 0) (hws_led_blink (at_time 0) HWS_LED_1 1 50 1 led_init_state))
   = [StartTask HwsTask HWS_LED_BLINK_EVENT 0]"
proof -
  let ?s = "hws_led_blink (at_time 0) HWS_LED_1 1 50 1 led_init_state"
  have o: "outs ?s = [StartTask HwsTask HWS_LED_BLINK_EVENT 0]"
    by (simp add: hws_led_blink_def led_consts upt4 led_blink_one_def led_init_state_def
        base_init_def base.defs upd_ctrl_def emit_def)
  have b: "led1_blinking False 1 50 1 False ?s"
    using led_blink_starts [of led_init_state 1 50 1 "at_time 0"]
    by (simp add: led_init_state_def base_init_def base.defs led1_only_def hws_led_get_state_def)
  have d: "led1_due (at_time 0) ?s"
    by (simp add: led1_due_def at_time_def hws_led_blink_def led_consts upt4 led_blink_one_def
        led_init_state_def base_init_def base.defs upd_ctrl_def emit_def)
  from short_blink_not_rescheduled [OF b d] o show ?thesis by simp
qed

end
