(* ===== verification/Hws_Io.thy ===== *)
theory Hws_Io
  imports Hws_Led
begin

text \<open>
  The small hardware services: digital pins (\<^verbatim>\<open>hws_gpio.c\<close>), analogue reads (\<^verbatim>\<open>hws_core.c\<close>,
  \<^verbatim>\<open>hws_adc.c\<close>, \<^verbatim>\<open>hws_batt.c\<close>), the watchdog (\<^verbatim>\<open>hws_wdg.c\<close>), the I2C master (\<^verbatim>\<open>hws_i2c.c\<close>), sleep and
  the RTC trigger (\<^verbatim>\<open>hws_sleep.c\<close>, \<^verbatim>\<open>hws_rtc.c\<close>), the key scanner (\<^verbatim>\<open>hws_key.c\<close>) and the task that
  dispatches their events (\<^verbatim>\<open>hws_core.c\<close>).
\<close>

record hws_state = led_state +
  hws_key_saved :: u8
  hws_key_cb :: bool
  wdg_armed :: bool
  adc_regs :: "u8 list"
  s_ch :: u8
  s_pga :: u8
  RTCTigFlag :: bool
  pb_pu :: u32
  pb_dir :: u32

text \<open>
  \<open>hws_key_cb\<close> says that a callback is registered; \<open>adc_regs\<close> are \<open>TKEY_CFG\<close>, \<open>TEM_SENSOR\<close>,
  \<open>ADC_CHANNEL\<close> and \<open>ADC_CFG\<close>.
\<close>

section \<open>Digital pins\<close>

definition HWS_GPIO_P_LAST :: nat where "HWS_GPIO_P_LAST = 39"

definition pin_mask :: "nat \<Rightarrow> u32" where
  "pin_mask k = push_bit k 1"

definition hws_gpio_write :: "u8 \<Rightarrow> u8 \<Rightarrow> bool \<Rightarrow> 'a base_scheme \<Rightarrow> int \<times> 'a base_scheme" where
  "hws_gpio_write pin level drive20 s =
     (if unat pin > HWS_GPIO_P_LAST then (-1, s)
      else
        (let md = (if drive20 then GPIO_ModeOut_PP_20mA else GPIO_ModeOut_PP_5mA);
             (p, k) = (if unat pin < 16 then (PortA, unat pin) else (PortB, unat pin - 16))
         in (0, emit (Hw (if level \<noteq> 0 then GpioSet p (pin_mask k) else GpioReset p (pin_mask k)))
                  (emit (Hw (GpioMode p (pin_mask k) md)) s))))"

definition hws_gpio_read :: "env \<Rightarrow> u8 \<Rightarrow> u8 \<Rightarrow> 'a base_scheme \<Rightarrow> int \<times> 'a base_scheme" where
  "hws_gpio_read E pin md s =
     (if unat pin > HWS_GPIO_P_LAST \<or> md > 2 then (-1, s)
      else
        (let m = (if md = 1 then GPIO_ModeIN_Floating else if md = 2 then GPIO_ModeIN_PD
                  else GPIO_ModeIN_PU);
             (p, k) = (if unat pin < 16 then (PortA, unat pin) else (PortB, unat pin - 16));
             s1 = emit (Hw (GpioMode p (pin_mask k) m)) s
         in (if pin_in E (outs s1) p (pin_mask k) \<noteq> 0 then 1 else 0, s1)))"

section \<open>Analogue reads\<close>

text \<open>
  \<open>hws_adc_sample\<close>: save the registers, let the driver set up the conversion, convert, restore.
\<close>

definition hws_adc_sample :: "env \<Rightarrow> adc_src \<Rightarrow> 'a hws_state_scheme \<Rightarrow> u16 \<times> 'a hws_state_scheme" where
  "hws_adc_sample E src s =
     (let saved = adc_regs s;
          s1 = emit (Hw (AdcConvert src)) (s\<lparr>adc_regs := adc_init E src (adc_regs s)\<rparr>);
          d = adc_data E (outs s1)
      in (d, s1\<lparr>adc_regs := saved\<rparr>))"

definition HWS_ADC_VREF_MV :: u32 where "HWS_ADC_VREF_MV = 1050"

definition pga_raw_to_mv :: "u16 \<Rightarrow> u8 \<Rightarrow> u16" where
  "pga_raw_to_mv raw pga =
     (let vref = HWS_ADC_VREF_MV; r = ucast raw :: u32 in
      if pga = 0 then ucast (r * vref div 512 - 3 * vref)
      else if pga = 1 then ucast (r * vref div 1024 - 1 * vref)
      else if pga = 2 then ucast (r * vref div 2048)
      else if pga = 3 then ucast ((r + 2048) * vref div 4096)
      else 0xFFFF)"

text \<open>The result pairs the millivolts with the raw value stored through \<open>raw_out\<close>, if it was.\<close>

definition hws_adc_read_mv ::
  "env \<Rightarrow> u8 \<Rightarrow> u8 \<Rightarrow> 'a hws_state_scheme \<Rightarrow> (u16 \<times> u16 option) \<times> 'a hws_state_scheme" where
  "hws_adc_read_mv E ch pga s =
     (if ch > 13 \<or> pga > 3 then ((0xFFFF, None), s)
      else
        (let s1 = s\<lparr>s_ch := ch, s_pga := pga\<rparr>;
             (d, s2) = hws_adc_sample E (AdcExt (s_ch s1) (s_pga s1)) s1;
             raw = d AND 0x0FFF
         in ((pga_raw_to_mv raw pga, Some raw), s2)))"

definition hws_get_temp :: "env \<Rightarrow> 'a hws_state_scheme \<Rightarrow> u16 \<times> 'a hws_state_scheme" where
  "hws_get_temp E s = hws_adc_sample E AdcTemp s"

definition HWS_BATT_MIN_MV :: nat where "HWS_BATT_MIN_MV = 3000"
definition HWS_BATT_MAX_MV :: nat where "HWS_BATT_MAX_MV = 4200"

definition hws_batt_read_mv :: "env \<Rightarrow> 'a hws_state_scheme \<Rightarrow> u16 \<times> 'a hws_state_scheme" where
  "hws_batt_read_mv E s =
     (let (d, s1) = hws_adc_sample E AdcVbat s; raw = ucast (d AND 0x0FFF) :: u32
      in (ucast (raw * HWS_ADC_VREF_MV div 512 - 3 * HWS_ADC_VREF_MV), s1))"

definition batt_percent :: "u16 \<Rightarrow> u8" where
  "batt_percent mv =
     (let v = unat mv in
      if v \<ge> HWS_BATT_MAX_MV then 100
      else if v \<le> HWS_BATT_MIN_MV then 0
      else of_nat (((v - HWS_BATT_MIN_MV) * 100 + (HWS_BATT_MAX_MV - HWS_BATT_MIN_MV) div 2)
                   div (HWS_BATT_MAX_MV - HWS_BATT_MIN_MV)))"

definition hws_batt_read_percent :: "env \<Rightarrow> 'a hws_state_scheme \<Rightarrow> u8 \<times> 'a hws_state_scheme" where
  "hws_batt_read_percent E s = (let (mv, s1) = hws_batt_read_mv E s in (batt_percent mv, s1))"

section \<open>Watchdog\<close>

definition hws_wdg_arm :: "'a hws_state_scheme \<Rightarrow> 'a hws_state_scheme" where
  "hws_wdg_arm s = (emit (Hw (WdgReset True)) (emit (Hw (WdgCounter 0)) s))\<lparr>wdg_armed := True\<rparr>"

definition hws_wdg_disarm :: "'a hws_state_scheme \<Rightarrow> 'a hws_state_scheme" where
  "hws_wdg_disarm s = (emit (Hw (WdgReset False)) s)\<lparr>wdg_armed := False\<rparr>"

definition hws_wdg_armed :: "'a hws_state_scheme \<Rightarrow> nat" where
  "hws_wdg_armed s = (if wdg_armed s then 1 else 0)"

definition hws_wdg_feed_task :: "'a hws_state_scheme \<Rightarrow> 'a hws_state_scheme" where
  "hws_wdg_feed_task s = (if wdg_armed s then emit (Hw (WdgCounter 0)) s else s)"

section \<open>I2C master\<close>

definition I2C_TIMEOUT :: nat where "I2C_TIMEOUT = 100000"

text \<open>The wait loop: \<open>k\<close> counts the polls made, \<open>t\<close> is the counter \<open>t\<close> of the code.\<close>

fun i2c_wait_loop :: "(nat \<Rightarrow> bool) \<Rightarrow> nat \<Rightarrow> nat \<Rightarrow> bool" where
  "i2c_wait_loop seen k t =
     (if seen k then True else if t \<le> 1 then False else i2c_wait_loop seen (Suc k) (t - 1))"

declare i2c_wait_loop.simps [simp del]

definition i2c_wait :: "env \<Rightarrow> i2c_ev \<Rightarrow> 'a base_scheme \<Rightarrow> bool" where
  "i2c_wait E ev s = i2c_wait_loop (i2c_event E (outs s) ev) 0 I2C_TIMEOUT"

definition hws_i2c_init :: "'a base_scheme \<Rightarrow> 'a base_scheme" where
  "hws_i2c_init s = emit (I2c I2cInit) (emit (Hw (GpioMode PortB (pin_mask 12 OR pin_mask 13) GPIO_ModeIN_PU)) s)"

definition hws_i2c_probe :: "env \<Rightarrow> u8 \<Rightarrow> 'a base_scheme \<Rightarrow> int \<times> 'a base_scheme" where
  "hws_i2c_probe E addr s =
     (let s1 = emit (I2c I2cStart) s;
          (rc, s2) = (if i2c_wait E MASTER_MODE_SELECT s1 then
                        (let s2 = emit (I2c (I2cAddr (push_bit 1 addr) False)) s1
                         in (if i2c_wait E MASTER_TRANSMITTER_MODE_SELECTED s2 then 0 else -1, s2))
                      else (-1, s1))
      in (rc, emit (I2c I2cClearAF) (emit (I2c I2cStop) s2)))"

text \<open>The label \<open>fail\<close> of the two transfer routines.\<close>

definition i2c_read_fail :: "'a base_scheme \<Rightarrow> 'a base_scheme" where
  "i2c_read_fail s = emit (I2c (I2cAck True)) (emit (I2c I2cClearAF) (emit (I2c I2cStop) s))"

definition i2c_write_fail :: "'a base_scheme \<Rightarrow> 'a base_scheme" where
  "i2c_write_fail s = emit (I2c I2cClearAF) (emit (I2c I2cStop) s)"

text \<open>The receive loop: \<open>len\<close> bytes are left; NACK and STOP go out before the last one.\<close>

fun i2c_read_loop :: "env \<Rightarrow> nat \<Rightarrow> u8 list \<Rightarrow> 'a base_scheme \<Rightarrow> u8 list option \<times> 'a base_scheme" where
  "i2c_read_loop E 0 acc s = (Some acc, s)"
| "i2c_read_loop E (Suc len) acc s =
     (let s1 = (if len = 0 then emit (I2c I2cStop) (emit (I2c (I2cAck False)) s) else s)
      in if i2c_wait E MASTER_BYTE_RECEIVED s1
         then (let b = i2c_rx E (outs s1) in i2c_read_loop E len (acc @ [b]) (emit (I2c I2cRecv) s1))
         else (None, s1))"

definition hws_i2c_read ::
  "env \<Rightarrow> u8 \<Rightarrow> u8 \<Rightarrow> u8 \<Rightarrow> 'a base_scheme \<Rightarrow> u8 list option \<times> 'a base_scheme" where
  "hws_i2c_read E addr reg len s =
     (if len = 0 then (None, s)
      else
       (let s1 = emit (I2c I2cStart) s in
        if \<not> i2c_wait E MASTER_MODE_SELECT s1 then (None, i2c_read_fail s1) else
       (let s2 = emit (I2c (I2cAddr (push_bit 1 addr) False)) s1 in
        if \<not> i2c_wait E MASTER_TRANSMITTER_MODE_SELECTED s2 then (None, i2c_read_fail s2) else
       (let s3 = emit (I2c (I2cSend reg)) s2 in
        if \<not> i2c_wait E MASTER_BYTE_TRANSMITTED s3 then (None, i2c_read_fail s3) else
       (let s4 = emit (I2c I2cStart) s3 in
        if \<not> i2c_wait E MASTER_MODE_SELECT s4 then (None, i2c_read_fail s4) else
       (let s5 = emit (I2c (I2cAddr (push_bit 1 addr) True)) s4 in
        if \<not> i2c_wait E MASTER_RECEIVER_MODE_SELECTED s5 then (None, i2c_read_fail s5) else
        (case i2c_read_loop E (unat len) [] s5 of
           (None, s6) \<Rightarrow> (None, i2c_read_fail s6)
         | (Some bs, s6) \<Rightarrow> (Some bs, emit (I2c (I2cAck True)) s6))))))))"

fun i2c_write_loop :: "env \<Rightarrow> u8 list \<Rightarrow> 'a base_scheme \<Rightarrow> bool \<times> 'a base_scheme" where
  "i2c_write_loop E [] s = (True, s)"
| "i2c_write_loop E (b # bs) s =
     (let s1 = emit (I2c (I2cSend b)) s
      in if i2c_wait E MASTER_BYTE_TRANSMITTING s1 then i2c_write_loop E bs s1 else (False, s1))"

definition hws_i2c_write ::
  "env \<Rightarrow> u8 \<Rightarrow> u8 \<Rightarrow> u8 list \<Rightarrow> 'a base_scheme \<Rightarrow> int \<times> 'a base_scheme" where
  "hws_i2c_write E addr reg data s =
     (let s1 = emit (I2c I2cStart) s in
      if \<not> i2c_wait E MASTER_MODE_SELECT s1 then (-1, i2c_write_fail s1) else
     (let s2 = emit (I2c (I2cAddr (push_bit 1 addr) False)) s1 in
      if \<not> i2c_wait E MASTER_TRANSMITTER_MODE_SELECTED s2 then (-1, i2c_write_fail s2) else
     (let s3 = emit (I2c (I2cSend reg)) s2 in
      if \<not> i2c_wait E MASTER_BYTE_TRANSMITTING s3 then (-1, i2c_write_fail s3) else
      (case i2c_write_loop E data s3 of
         (True, s4) \<Rightarrow> (0, emit (I2c I2cStop) s4)
       | (False, s4) \<Rightarrow> (-1, i2c_write_fail s4)))))"

section \<open>Sleep\<close>

definition RTC_TIMER_MAX_VALUE :: u32 where "RTC_TIMER_MAX_VALUE = 0xA8C00000"
definition SLEEP_RTC_MIN_TIME :: u32 where "SLEEP_RTC_MIN_TIME = 32"
definition SLEEP_RTC_MAX_TIME :: u32 where "SLEEP_RTC_MAX_TIME = 2715955200"
definition WAKE_UP_RTC_MAX_TIME :: u32 where "WAKE_UP_RTC_MAX_TIME = 45"

definition hws_rtc_set_trigger :: "u32 \<Rightarrow> 'a hws_state_scheme \<Rightarrow> 'a hws_state_scheme" where
  "hws_rtc_set_trigger t s = (emit (Hw (RtcTrigger t)) s)\<lparr>RTCTigFlag := False\<rparr>"

definition RTC_IRQHandler :: "'a hws_state_scheme \<Rightarrow> 'a hws_state_scheme" where
  "RTC_IRQHandler s = s\<lparr>RTCTigFlag := True\<rparr>"

text \<open>
  \<open>hws_sleep_enter\<close>.  The flag can be set by the interrupt at any moment: \<open>rtc_flag E\<close> says whether
  it has fired since, at the two places where the code tests it.
\<close>

definition sleep_duration :: "u32 \<Rightarrow> u32 \<Rightarrow> u32" where
  "sleep_duration time now =
     (if time < now then time + (RTC_TIMER_MAX_VALUE - now) else time - now)"

definition poll_rtc_flag :: "env \<Rightarrow> 'a hws_state_scheme \<Rightarrow> 'a hws_state_scheme" where
  "poll_rtc_flag E s = (if rtc_flag E (outs s) then RTC_IRQHandler s else s)"

definition hws_sleep_enter :: "env \<Rightarrow> u32 \<Rightarrow> 'a hws_state_scheme \<Rightarrow> u32 \<times> 'a hws_state_scheme" where
  "hws_sleep_enter E time s =
     (let d = sleep_duration time (rtc_now E (outs s)) in
      if d < SLEEP_RTC_MIN_TIME \<or> d > SLEEP_RTC_MAX_TIME then (2, s)
      else
        (let s1 = poll_rtc_flag E (hws_rtc_set_trigger time s) in
         if \<not> RTCTigFlag s1 then
           (let s2 = poll_rtc_flag E (emit (Hw SleepDeep) s1);
                s3 = (if RTCTigFlag s2 then
                        (let t1 = time + WAKE_UP_RTC_MAX_TIME;
                             t2 = (if t1 > 0xA8C00000 then t1 - 0xA8C00000 else t1)
                         in emit (Hw SleepIdle) (hws_rtc_set_trigger t2 s2))
                      else s2)
            in (0, s3))
         else (3, s1)))"

text \<open>
  \<open>hws_sleep_at\<close>: the conversion of milliseconds to RTC cycles (32 per millisecond) goes through a
  \<open>double\<close>, which has no defined result beyond 32 bits.
\<close>

definition hws_sleep_at :: "env \<Rightarrow> u8 \<Rightarrow> u32 \<Rightarrow> 'a hws_state_scheme \<Rightarrow> u32 \<times> 'a hws_state_scheme" where
  "hws_sleep_at E md seconds s =
     (let cyc = unat (seconds * 1000) * 32;
          s0 = (if cyc < 2 ^ 32 then s else set_ub s);
          s1 = hws_rtc_set_trigger (rtc_now E (outs s) + of_nat cyc) s0
      in (0, emit (Hw (if md = 0 then SleepIdle else if md = 1 then SleepDeep else SleepShutdown)) s1))"

section \<open>Keys\<close>

definition HWS_KEY_EVENT :: u16 where "HWS_KEY_EVENT = 0x0002"
definition HWS_WDG_EVENT :: u16 where "HWS_WDG_EVENT = 0x0004"
definition HWS_CALIB_EVENT :: u16 where "HWS_CALIB_EVENT = 0x2000"
definition KEY1_BV :: u32 where "KEY1_BV = push_bit 22 1"
definition KEY2_BV :: u32 where "KEY2_BV = push_bit 4 1"
definition KEY3_BV :: u32 where "KEY3_BV = push_bit 23 1"

text \<open>The buttons are active low; there is no fourth one.\<close>

definition HWS_PUSH_BUTTON1 :: "env \<Rightarrow> 'a base_scheme \<Rightarrow> bool" where
  "HWS_PUSH_BUTTON1 E s = (pb_pin E (outs s) AND KEY1_BV = 0)"
definition HWS_PUSH_BUTTON2 :: "env \<Rightarrow> 'a base_scheme \<Rightarrow> bool" where
  "HWS_PUSH_BUTTON2 E s = (pb_pin E (outs s) AND KEY2_BV = 0)"
definition HWS_PUSH_BUTTON3 :: "env \<Rightarrow> 'a base_scheme \<Rightarrow> bool" where
  "HWS_PUSH_BUTTON3 E s = (pb_pin E (outs s) AND KEY3_BV = 0)"

definition hws_key_read :: "env \<Rightarrow> 'a base_scheme \<Rightarrow> u8" where
  "hws_key_read E s =
     (if HWS_PUSH_BUTTON1 E s then 0x01 else 0) OR (if HWS_PUSH_BUTTON2 E s then 0x02 else 0) OR
     (if HWS_PUSH_BUTTON3 E s then 0x04 else 0)"

definition hws_key_init :: "'a hws_state_scheme \<Rightarrow> 'a hws_state_scheme" where
  "hws_key_init s =
     emit (StartTask HwsTask HWS_KEY_EVENT (ms1_to_system_time 100))
       (s\<lparr>hws_key_saved := 0, hws_key_cb := False,
          pb_dir := pb_dir s AND NOT KEY1_BV AND NOT KEY2_BV AND NOT KEY3_BV,
          pb_pu := pb_pu s OR KEY1_BV OR KEY2_BV OR KEY3_BV\<rparr>)"

definition hws_key_config :: "bool \<Rightarrow> 'a hws_state_scheme \<Rightarrow> 'a hws_state_scheme" where
  "hws_key_config cback s = s\<lparr>hws_key_cb := cback\<rparr>"

text \<open>\<open>cb\<close> is the registered callback.\<close>

definition hws_key_poll ::
  "(u8 \<Rightarrow> 'a hws_state_scheme \<Rightarrow> 'a hws_state_scheme) \<Rightarrow> env \<Rightarrow> 'a hws_state_scheme \<Rightarrow>
   'a hws_state_scheme" where
  "hws_key_poll cb E s =
     (let keys = hws_key_read E s in
      if keys = hws_key_saved s then s
      else (let s1 = s\<lparr>hws_key_saved := keys\<rparr>
            in if hws_key_cb s1 then cb keys s1 else s1))"

section \<open>The task\<close>

definition hws_calib_task :: "'a base_scheme \<Rightarrow> 'a base_scheme" where
  "hws_calib_task s = emit (Hw LsiCalibrate) (emit (Hw RfCalibrate) s)"

text \<open>
  \<open>hws_process_event\<close>: the blink event first, then the first entry of the task table whose event is
  set, which is run and re-armed; the result is what is left of the events.
\<close>

definition hws_process_event ::
  "(u8 \<Rightarrow> 'a hws_state_scheme \<Rightarrow> 'a hws_state_scheme) \<Rightarrow> env \<Rightarrow> u16 \<Rightarrow> 'a hws_state_scheme \<Rightarrow>
   u16 \<times> 'a hws_state_scheme" where
  "hws_process_event cb E events s =
     (if events AND HWS_LED_BLINK_EVENT \<noteq> 0
      then (events XOR HWS_LED_BLINK_EVENT, hws_led_update E s)
      else if events AND HWS_KEY_EVENT \<noteq> 0
      then (events XOR HWS_KEY_EVENT,
            emit (StartTask HwsTask HWS_KEY_EVENT (ms1_to_system_time 100)) (hws_key_poll cb E s))
      else if events AND HWS_WDG_EVENT \<noteq> 0
      then (events XOR HWS_WDG_EVENT,
            emit (StartTask HwsTask HWS_WDG_EVENT (ms1_to_system_time 100)) (hws_wdg_feed_task s))
      else if events AND HWS_CALIB_EVENT \<noteq> 0
      then (events XOR HWS_CALIB_EVENT,
            emit (StartTask HwsTask HWS_CALIB_EVENT (ms1_to_system_time 120000)) (hws_calib_task s))
      else (0, s))"

definition hws_init :: "bool \<Rightarrow> 'a hws_state_scheme \<Rightarrow> 'a hws_state_scheme" where
  "hws_init key_cb s =
     (let s1 = emit (RegisterTask HwsTask) s;
          s2 = emit (Hw LsiCalibrate) s1;
          s3 = hws_led_init s2;
          s4 = hws_key_init s3;
          s5 = (if key_cb then hws_key_config key_cb s4 else s4);
          s6 = emit (StartTask HwsTask HWS_CALIB_EVENT (ms1_to_system_time 800)) s5
      in emit (StartTask HwsTask HWS_WDG_EVENT (ms1_to_system_time 100)) s6)"

definition hws_init_state :: hws_state where
  "hws_init_state = led_state.extend led_init_state
     \<lparr>hws_key_saved = 0, hws_key_cb = False, wdg_armed = False, adc_regs = [0, 0, 0, 0],
      s_ch = 0, s_pga = 0, RTCTigFlag = False, pb_pu = 0, pb_dir = 0\<rparr>"


section \<open>Properties\<close>

subsection \<open>Digital pins\<close>

lemma pin_mask_inj:
  assumes "i < 32" "j < 32" "pin_mask i = pin_mask j"
  shows "i = j"
proof -
  have "bit (pin_mask i) i" using assms(1) by (simp add: pin_mask_def bit_simps)
  then have "bit (pin_mask j) i" using assms(3) by simp
  then show ?thesis by (simp add: pin_mask_def bit_simps)
qed

text \<open>
  A pin number up to 39 drives exactly one pin of one port, different numbers drive different
  pins, and any other number is refused without touching a port.
\<close>

theorem gpio_write_one_pin:
  assumes "unat p \<le> 39" "unat q \<le> 39" "p \<noteq> q"
  shows "outs (snd (hws_gpio_write p l d s)) \<noteq> outs (snd (hws_gpio_write q l d s)) \<and>
         fst (hws_gpio_write p l d s) = 0 \<and>
         (\<forall>r. 39 < unat r \<longrightarrow> hws_gpio_write r l d s = (-1, s))"
proof -
  have ne: "unat p \<noteq> unat q" using assms(3) by (simp add: word_eq_iff_unsigned [where ?'a = nat])
  have i: "pin_mask (unat p) \<noteq> pin_mask (unat q)" if "unat p < 16" "unat q < 16"
    using pin_mask_inj [of "unat p" "unat q"] that ne by auto
  have j: "pin_mask (unat p - 16) \<noteq> pin_mask (unat q - 16)" if "16 \<le> unat p" "16 \<le> unat q"
  proof -
    have "unat p - 16 < 32" "unat q - 16 < 32" "unat p - 16 \<noteq> unat q - 16"
      using that ne assms(1,2) by linarith+
    then show ?thesis using pin_mask_inj by blast
  qed
  show ?thesis
    using assms(1,2) ne i j by (auto simp: hws_gpio_write_def HWS_GPIO_P_LAST_def Let_def)
qed

lemma gpio_write_one_pin_witness:
  "outs (snd (hws_gpio_write 15 1 False base_init)) \<noteq> outs (snd (hws_gpio_write 16 1 False base_init))"
  using gpio_write_one_pin [of 15 16 1 False base_init] by simp

subsection \<open>Analogue reads\<close>

lemma adc_regs_sample [simp]: "adc_regs (snd (hws_adc_sample E src s)) = adc_regs s"
  by (simp add: hws_adc_sample_def Let_def emit_def)

lemma raw_cases: "\<exists>r. r < 4096 \<and> unat (d AND 0x0FFF :: u16) = r"
proof -
  have "d AND 0x0FFF = take_bit 12 d"
    by (simp add: take_bit_eq_mask mask_eq_decr_exp)
  then have "unat (d AND 0x0FFF) < 2 ^ 12"
    using take_bit_nat_less_exp [of 12 "unat d"] by (simp add: unsigned_take_bit_eq)
  then show ?thesis by simp
qed

lemma u32_small: "n < 2 ^ 32 \<Longrightarrow> unat (of_nat n :: u32) = n"
  by (simp add: unat_of_nat take_bit_nat_eq_self)

lemma u16_of_u32: "unat (ucast (w :: u32) :: u16) = unat w mod 65536"
  by (simp add: unsigned_ucast_eq take_bit_eq_mod)

lemma ucast_raw: "(ucast w :: u32) = of_nat (unat (w :: u16))"
  by simp

lemma unat_u16_of_int: "unat (ucast (word_of_int i :: u32) :: u16) = nat (i mod 65536)"
proof -
  have "uint (ucast (word_of_int i :: u32) :: u16) = (i mod 4294967296) mod 65536"
    by (simp add: unsigned_ucast_eq unsigned_of_int take_bit_eq_mod)
  also have "\<dots> = i mod 65536"
    by (rule mod_mod_cancel) simp
  finally show ?thesis by (simp add: unat_eq_nat_uint)
qed

text \<open>Truncating a 32-bit difference to 16 bits.\<close>

lemma u16_diff:
  assumes "q < 65536" "k < 65536"
  shows "unat (ucast ((of_nat q :: u32) - of_nat k) :: u16)
       = (if q < k then 65536 - (k - q) else q - k)"
proof -
  have "(of_nat q :: u32) - of_nat k = word_of_int (int q - int k)" by simp
  then have "unat (ucast ((of_nat q :: u32) - of_nat k) :: u16) = nat ((int q - int k) mod 65536)"
    by (metis unat_u16_of_int)
  also have "(int q - int k) mod 65536
      = (if q < k then 65536 - (int k - int q) else int q - int k)"
  proof (cases "q < k")
    case True
    then have "(int q - int k) mod 65536 = (int q - int k + 65536) mod 65536" by simp
    also have "\<dots> = int q - int k + 65536" using True assms by (intro mod_pos_pos_trivial) auto
    finally show ?thesis using True by simp
  next
    case False
    then show ?thesis using assms by (simp add: mod_pos_pos_trivial)
  qed
  finally show ?thesis using assms by (auto simp: nat_diff_distrib)
qed

lemma div_bounds: "n div d = k \<Longrightarrow> 0 < d \<Longrightarrow> k * d \<le> n \<and> n < k * d + d"
  for n d k :: nat
proof -
  assume k: "n div d = k" and "0 < d"
  have "k * d + n mod d = n" using div_mult_mod_eq [of n d] by (simp add: k)
  moreover have "n mod d < d" using \<open>0 < d\<close> by simp
  ultimately show ?thesis by linarith
qed

lemma mv_quotient:
  assumes "r < 4096" "0 < d" "d < 65536"
  shows "(of_nat r :: u32) * 1050 div of_nat d = of_nat (r * 1050 div d)"
proof -
  have "unat ((of_nat r :: u32) * 1050) = r * 1050"
    using assms u32_small [of "r * 1050"] by simp
  moreover have "unat (of_nat d :: u32) = d" using assms(3) u32_small [of d] by simp
  moreover have "r * 1050 div d < 2 ^ 32"
  proof -
    have "r * 1050 div d \<le> r * 1050" by (rule div_le_dividend)
    also have "\<dots> < 2 ^ 32" using assms(1) by simp
    finally show ?thesis .
  qed
  ultimately show ?thesis
    using u32_small [of "r * 1050 div d"]
    by (simp only: word_eq_iff_unsigned [where ?'a = nat] unat_div_distrib)
qed

text \<open>The conversions for the -12 dB and the -6 dB gain, on natural numbers.\<close>

lemma minus12_nat:
  assumes "r < 4096"
  shows "unat (ucast ((of_nat r :: u32) * 1050 div 512 - 3150) :: u16)
       = (if r < 1536 then 65536 - (3150 - r * 1050 div 512) else r * 1050 div 512 - 3150)"
proof -
  define q where "q = r * 1050 div 512"
  have d: "q * 512 \<le> r * 1050 \<and> r * 1050 < q * 512 + 512"
    unfolding q_def by (intro div_bounds) simp_all
  then have b: "q < 65536" using assms by linarith
  have lt: "(q < 3150) = (r < 1536)" using d by linarith
  have "(of_nat r :: u32) * 1050 div 512 - 3150 = of_nat q - of_nat 3150"
    using mv_quotient [OF assms, of 512] by (simp add: q_def)
  then show ?thesis using u16_diff [OF b, of 3150] by (simp add: lt q_def [symmetric])
qed

lemma minus12_not_error:
  assumes "r < 4096"
  shows "unat (ucast ((of_nat r :: u32) * 1050 div 512 - 3150) :: u16) < 65535"
proof -
  define q where "q = r * 1050 div 512"
  have d: "q * 512 \<le> r * 1050 \<and> r * 1050 < q * 512 + 512"
    unfolding q_def by (intro div_bounds) simp_all
  then have "r < 1536 \<Longrightarrow> 3150 - q > 1" "q < 65536" using assms by linarith+
  then show ?thesis unfolding minus12_nat [OF assms] q_def [symmetric] by auto
qed

lemma minus6_not_error:
  assumes "r < 4096"
  shows "unat (ucast ((of_nat r :: u32) * 1050 div 1024 - 1050) :: u16) < 65535"
proof -
  define q where "q = r * 1050 div 1024"
  have d: "q * 1024 \<le> r * 1050 \<and> r * 1050 < q * 1024 + 1024"
    unfolding q_def by (intro div_bounds) simp_all
  have "q < 60000" using d assms by linarith
  moreover have "q \<noteq> 1049"
  proof
    assume "q = 1049"
    with d have "1023 < r" "r < 1024" by linarith+
    then show False by simp
  qed
  ultimately have b: "q < 60000" "q \<noteq> 1049" .
  have "(of_nat r :: u32) * 1050 div 1024 - 1050 = of_nat q - of_nat 1050"
    using mv_quotient [OF assms, of 1024] by (simp add: q_def)
  moreover have "q < 65536" using b by simp
  ultimately show ?thesis using u16_diff [of q 1050] b by auto
qed

lemma pga_raw_to_mv_not_error:
  assumes "pga \<le> 3"
  shows "pga_raw_to_mv (d AND 0x0FFF) pga \<noteq> 0xFFFF"
proof -
  obtain r where r: "r < 4096" "unat (d AND 0x0FFF) = r" using raw_cases by blast
  have c: "(ucast (d AND 0x0FFF) :: u32) = of_nat r" using r(2) by (metis ucast_raw)
  have m: "unat ((of_nat r :: u32) * 1050) = r * 1050"
    using r(1) u32_small [of "r * 1050"] by simp
  have m2: "unat (((of_nat r :: u32) + 2048) * 1050) = (r + 2048) * 1050"
    using r(1) u32_small [of "(r + 2048) * 1050"] by simp
  have p: "pga = 0 \<or> pga = 1 \<or> pga = 2 \<or> pga = 3"
  proof -
    have "unat pga \<le> 3" using assms by (simp add: word_le_nat_alt)
    then have "unat pga = 0 \<or> unat pga = 1 \<or> unat pga = 2 \<or> unat pga = 3" by arith
    then show ?thesis by (simp add: word_eq_iff_unsigned [where ?'a = nat])
  qed
  have "unat (pga_raw_to_mv (d AND 0x0FFF) pga) < 65535"
    using p
  proof (elim disjE)
    assume "pga = 0"
    then show ?thesis
      using minus12_not_error [OF r(1)] by (simp add: pga_raw_to_mv_def Let_def c HWS_ADC_VREF_MV_def)
  next
    assume "pga = 1"
    then show ?thesis
      using minus6_not_error [OF r(1)] by (simp add: pga_raw_to_mv_def Let_def c HWS_ADC_VREF_MV_def)
  next
    assume "pga = 2"
    then show ?thesis
      using r(1) m by (simp add: pga_raw_to_mv_def Let_def c HWS_ADC_VREF_MV_def u16_of_u32
          unat_div_distrib)
  next
    assume "pga = 3"
    then show ?thesis
      using r(1) m2 by (simp add: pga_raw_to_mv_def Let_def c HWS_ADC_VREF_MV_def u16_of_u32
          unat_div_distrib)
  qed
  then show ?thesis by (auto simp: word_eq_iff_unsigned [where ?'a = nat])
qed

text \<open>
  Reading an external channel answers the error value \<open>0xFFFF\<close> exactly for an illegal channel or
  gain, stores the raw value exactly when it is legal, and leaves the ADC registers, which the
  temperature and battery reads share, as it found them.
\<close>

theorem adc_read_contract:
  "(fst (fst (hws_adc_read_mv E ch pga s)) = 0xFFFF) = (ch > 13 \<or> pga > 3) \<and>
   (snd (fst (hws_adc_read_mv E ch pga s)) = None) = (ch > 13 \<or> pga > 3) \<and>
   adc_regs (snd (hws_adc_read_mv E ch pga s)) = adc_regs s"
proof (cases "ch > 13 \<or> pga > 3")
  case True
  then show ?thesis by (simp add: hws_adc_read_mv_def)
next
  case False
  obtain d s2 where r: "hws_adc_sample E (AdcExt ch pga) (s\<lparr>s_ch := ch, s_pga := pga\<rparr>) = (d, s2)"
    by fastforce
  have "adc_regs s2 = adc_regs s"
    using adc_regs_sample [of E "AdcExt ch pga" "s\<lparr>s_ch := ch, s_pga := pga\<rparr>"] r by simp
  then show ?thesis
    using False r pga_raw_to_mv_not_error [of pga d] by (simp add: not_less hws_adc_read_mv_def Let_def)
qed


subsection \<open>Battery\<close>

lemma batt_percent_nat: "unat (batt_percent mv) =
    (if 4200 \<le> unat mv then 100 else if unat mv \<le> 3000 then 0
     else ((unat mv - 3000) * 100 + 600) div 1200)"
proof -
  have "((unat mv - 3000) * 100 + 600) div 1200 < 256" if "unat mv < 4200"
  proof -
    have "((unat mv - 3000) * 100 + 600) div 1200 \<le> (1200 * 100 + 600) div 1200"
      using that by (intro div_le_mono) simp
    then show ?thesis by simp
  qed
  then show ?thesis
    by (auto simp: batt_percent_def HWS_BATT_MAX_MV_def HWS_BATT_MIN_MV_def Let_def
        unat_of_nat take_bit_nat_eq_self)
qed

lemma batt_percent_mono:
  assumes "unat a \<le> unat b"
  shows "unat (batt_percent a) \<le> unat (batt_percent b)"
proof -
  have "((unat a - 3000) * 100 + 600) div 1200 \<le> ((unat b - 3000) * 100 + 600) div 1200"
    using assms by (intro div_le_mono) simp
  moreover have "((unat a - 3000) * 100 + 600) div 1200 \<le> 100" if "unat a < 4200"
  proof -
    have "((unat a - 3000) * 100 + 600) div 1200 \<le> (1200 * 100 + 600) div 1200"
      using that by (intro div_le_mono) simp
    then show ?thesis by simp
  qed
  ultimately show ?thesis using assms by (auto simp: batt_percent_nat)
qed

text \<open>The percentage for a raw conversion result.\<close>

definition batt_raw_percent :: "u16 \<Rightarrow> u8" where
  "batt_raw_percent d =
     batt_percent (ucast ((ucast (d AND 0x0FFF) :: u32) * HWS_ADC_VREF_MV div 512
                          - 3 * HWS_ADC_VREF_MV))"

lemma batt_read_percent_raw:
  "fst (hws_batt_read_percent E s) = batt_raw_percent (fst (hws_adc_sample E AdcVbat s))"
  by (simp add: hws_batt_read_percent_def hws_batt_read_mv_def batt_raw_percent_def Let_def
      split: prod.splits)

lemma batt_raw_mv:
  "unat (ucast ((ucast (d AND 0x0FFF :: u16) :: u32) * HWS_ADC_VREF_MV div 512
                 - 3 * HWS_ADC_VREF_MV) :: u16)
   = (let r = unat (d AND 0x0FFF) in
      if r < 1536 then 65536 - (3150 - r * 1050 div 512) else r * 1050 div 512 - 3150)"
proof -
  obtain r where r: "r < 4096" "unat (d AND 0x0FFF) = r" using raw_cases by blast
  have "(ucast (d AND 0x0FFF) :: u32) = of_nat r" using r(2) by (metis ucast_raw)
  then show ?thesis using minus12_nat [OF r(1)] by (simp add: r(2) HWS_ADC_VREF_MV_def)
qed

text \<open>
  The battery percentage never exceeds 100 and, for raw values of at least 1536 (0 mV and
  above), grows with the raw value; below 1536, where the formula gives a negative voltage, the
  16-bit result wraps and the battery is reported full.
\<close>

theorem battery_percent_range:
  "unat (batt_raw_percent d) \<le> 100 \<and>
   (1536 \<le> unat (d AND 0x0FFF) \<and> unat (d AND 0x0FFF) \<le> unat (d' AND 0x0FFF) \<longrightarrow>
      unat (batt_raw_percent d) \<le> unat (batt_raw_percent d')) \<and>
   (unat (d AND 0x0FFF) < 1536 \<longrightarrow> batt_raw_percent d = 100) \<and>
   fst (hws_batt_read_percent E s) = batt_raw_percent (fst (hws_adc_sample E AdcVbat s))"
proof (intro conjI impI)
  have "((v - 3000) * 100 + 600) div 1200 \<le> 100" if "v < 4200" for v :: nat
  proof -
    have "((v - 3000) * 100 + 600) div 1200 \<le> (1200 * 100 + 600) div 1200"
      using that by (intro div_le_mono) simp
    then show ?thesis by simp
  qed
  then show "unat (batt_raw_percent d) \<le> 100"
    by (simp add: batt_raw_percent_def batt_percent_nat)
next
  assume a: "1536 \<le> unat (d AND 0x0FFF) \<and> unat (d AND 0x0FFF) \<le> unat (d' AND 0x0FFF)"
  then have "unat (d AND 0x0FFF) * 1050 div 512 \<le> unat (d' AND 0x0FFF) * 1050 div 512"
    by (intro div_le_mono) simp
  then show "unat (batt_raw_percent d) \<le> unat (batt_raw_percent d')"
    unfolding batt_raw_percent_def using a
    by (intro batt_percent_mono) (simp only: batt_raw_mv Let_def, simp)
next
  assume a: "unat (d AND 0x0FFF) < 1536"
  define q where "q = unat (d AND 0x0FFF) * 1050 div 512"
  have "65536 - (3150 - q) \<ge> 4200" by simp
  then have "unat (batt_raw_percent d) = 100"
    unfolding batt_raw_percent_def batt_percent_nat
    by (simp only: batt_raw_mv Let_def q_def [symmetric]) (simp add: a)
  then show "batt_raw_percent d = 100"
    by (simp add: word_eq_iff_unsigned [where ?'a = nat])
qed (rule batt_read_percent_raw)

lemma battery_percent_range_witness: "batt_raw_percent 0 = 100"
  using battery_percent_range [of 0 0 "demo_env MODE_KBD" hws_init_state] by simp

subsection \<open>The I2C bus\<close>

lemma i2c_wait_loop_iff:
  "i2c_wait_loop seen k (Suc t) = (\<exists>j. k \<le> j \<and> j \<le> k + t \<and> seen j)"
proof (induction t arbitrary: k)
  case 0
  show ?case by (subst i2c_wait_loop.simps) (auto simp: le_antisym)
next
  case (Suc t)
  have "(\<exists>j. k \<le> j \<and> j \<le> k + Suc t \<and> seen j) =
      (seen k \<or> (\<exists>j. Suc k \<le> j \<and> j \<le> Suc k + t \<and> seen j))"
  proof
    assume "\<exists>j. k \<le> j \<and> j \<le> k + Suc t \<and> seen j"
    then obtain j where j: "k \<le> j" "j \<le> k + Suc t" "seen j" by blast
    then show "seen k \<or> (\<exists>j. Suc k \<le> j \<and> j \<le> Suc k + t \<and> seen j)"
      by (cases "j = k") (auto intro!: exI [of _ j])
  next
    assume "seen k \<or> (\<exists>j. Suc k \<le> j \<and> j \<le> Suc k + t \<and> seen j)"
    then show "\<exists>j. k \<le> j \<and> j \<le> k + Suc t \<and> seen j"
    proof
      assume "seen k"
      then show ?thesis by (auto intro!: exI [of _ k])
    next
      assume "\<exists>j. Suc k \<le> j \<and> j \<le> Suc k + t \<and> seen j"
      then obtain j where "Suc k \<le> j" "j \<le> Suc k + t" "seen j" by blast
      then show ?thesis by (auto intro!: exI [of _ j])
    qed
  qed
  then show ?case by (subst i2c_wait_loop.simps) (simp add: Suc)
qed

text \<open>Whether the bus is held: a START not yet followed by a STOP.\<close>

fun bus_held :: "act list \<Rightarrow> bool \<Rightarrow> bool" where
  "bus_held [] b = b"
| "bus_held (a # as) b = bus_held as (if a = I2c I2cStart then True
                                      else if a = I2c I2cStop then False else b)"

lemma bus_held_append [simp]: "bus_held (as @ bs) b = bus_held bs (bus_held as b)"
  by (induction as arbitrary: b) auto

lemma i2c_read_loop_bus:
  "i2c_read_loop E n acc s = (Some bs, s') \<Longrightarrow> 0 < n \<Longrightarrow> \<not> bus_held (outs s') b"
proof (induction n arbitrary: acc s)
  case 0
  then show ?case by simp
next
  case (Suc n)
  show ?case
  proof (cases n)
    case 0
    with Suc.prems show ?thesis by (auto simp: Let_def split: if_splits)
  next
    case (Suc k)
    with Suc.prems Suc.IH show ?thesis by (auto simp: Let_def split: if_splits)
  qed
qed

lemma i2c_read_loop_length:
  "i2c_read_loop E n acc s = (Some bs, s') \<Longrightarrow> length bs = length acc + n"
  by (induction n arbitrary: acc s) (auto simp: Let_def split: if_splits)

lemma i2c_write_loop_outs:
  "i2c_write_loop E bs s = (True, s') \<Longrightarrow> outs s' = outs s @ map (\<lambda>b. I2c (I2cSend b)) bs"
  by (induction bs arbitrary: s) (auto simp: Let_def split: if_splits)

text \<open>
  Every I2C transfer gives the bus back: whatever the slave does, a probe, a write and a read of
  at least one byte end with a STOP after their last START; a successful read has exactly the
  requested number of bytes, and a successful write has sent address, register and data in order.
\<close>

theorem i2c_bus_released:
  "\<not> bus_held (outs (snd (hws_i2c_probe E addr s))) b \<and>
   \<not> bus_held (outs (snd (hws_i2c_write E addr reg data s))) b \<and>
   (len \<noteq> 0 \<longrightarrow> \<not> bus_held (outs (snd (hws_i2c_read E addr reg len s))) b) \<and>
   (\<forall>bs. fst (hws_i2c_read E addr reg len s) = Some bs \<longrightarrow> length bs = unat len) \<and>
   (fst (hws_i2c_write E addr reg data s) = 0 \<longrightarrow>
      outs (snd (hws_i2c_write E addr reg data s)) =
        outs s @ [I2c I2cStart, I2c (I2cAddr (push_bit 1 addr) False), I2c (I2cSend reg)] @
        map (\<lambda>d. I2c (I2cSend d)) data @ [I2c I2cStop])"
proof (intro conjI impI allI)
  show "\<not> bus_held (outs (snd (hws_i2c_probe E addr s))) b"
    by (simp add: hws_i2c_probe_def Let_def)
  show "\<not> bus_held (outs (snd (hws_i2c_write E addr reg data s))) b"
    by (auto simp: hws_i2c_write_def i2c_write_fail_def Let_def split: prod.splits bool.splits)
  show "\<not> bus_held (outs (snd (hws_i2c_read E addr reg len s))) b" if "len \<noteq> 0"
  proof -
    have "0 < unat len" using that by (simp add: unat_gt_0)
    then show ?thesis
      using that i2c_read_loop_bus [where E = E and n = "unat len" and acc = "[]"]
      by (auto simp: hws_i2c_read_def i2c_read_fail_def Let_def split: prod.splits option.splits)
  qed
  show "length bs = unat len" if "fst (hws_i2c_read E addr reg len s) = Some bs" for bs
    using that i2c_read_loop_length [where E = E and n = "unat len" and acc = "[]"]
    by (auto simp: hws_i2c_read_def Let_def split: if_splits prod.splits option.splits)
  show "outs (snd (hws_i2c_write E addr reg data s)) =
      outs s @ [I2c I2cStart, I2c (I2cAddr (push_bit 1 addr) False), I2c (I2cSend reg)] @
      map (\<lambda>d. I2c (I2cSend d)) data @ [I2c I2cStop]"
    if "fst (hws_i2c_write E addr reg data s) = 0"
    using that
    by (auto simp: hws_i2c_write_def Let_def dest!: i2c_write_loop_outs
        split: if_splits prod.splits bool.splits)
qed

lemma i2c_bus_released_witness:
  "\<not> bus_held (outs (snd (hws_i2c_read (demo_env MODE_KBD) 0x40 0 2 base_init))) False"
  using i2c_bus_released [where E = "demo_env MODE_KBD" and addr = "0x40" and s = base_init and reg = 0
      and len = 2 and b = False] by simp


subsection \<open>Sleep, keys and the task\<close>

text \<open>A low-power instruction has been executed since the log was \<open>h\<close>.\<close>

definition slept_since :: "act list \<Rightarrow> 'a base_scheme \<Rightarrow> bool" where
  "slept_since h s = (Hw SleepDeep \<in> set (drop (length h) (outs s)))"

text \<open>
  The sleep callback refuses (result 2, nothing armed, nothing logged) exactly the wake-up times
  outside the permitted window; otherwise it arms the RTC trigger, and reports 0 exactly when it has
  been to sleep and 3 exactly when the trigger had already fired.
\<close>

theorem sleep_enter_result:
  "let (r, s') = hws_sleep_enter E time s; d = sleep_duration time (rtc_now E (outs s)) in
   (r = 2) = (d < SLEEP_RTC_MIN_TIME \<or> d > SLEEP_RTC_MAX_TIME) \<and>
   (r = 2 \<longrightarrow> s' = s) \<and>
   (r = 0) = slept_since (outs s) s' \<and>
   (r = 3) = (r \<noteq> 2 \<and> rtc_flag E (outs s @ [Hw (RtcTrigger time)])) \<and>
   (r \<noteq> 2 \<longrightarrow> Hw (RtcTrigger time) \<in> set (drop (length (outs s)) (outs s')))"
  by (auto simp: hws_sleep_enter_def Let_def hws_rtc_set_trigger_def poll_rtc_flag_def
      RTC_IRQHandler_def slept_since_def emit_def split: prod.splits if_splits)

lemma sleep_enter_result_witness:
  "fst (hws_sleep_enter (demo_env MODE_KBD) 3200 hws_init_state) = 0"
proof -
  have "fst (hws_sleep_enter (demo_env MODE_KBD) 3200 hws_init_state) \<noteq> 2"
    "fst (hws_sleep_enter (demo_env MODE_KBD) 3200 hws_init_state) = 0 \<or>
     fst (hws_sleep_enter (demo_env MODE_KBD) 3200 hws_init_state) = 2 \<or>
     fst (hws_sleep_enter (demo_env MODE_KBD) 3200 hws_init_state) = 3"
    using sleep_enter_result [of "demo_env MODE_KBD" 3200 hws_init_state]
    by (auto simp: hws_sleep_enter_def sleep_duration_def demo_env_def SLEEP_RTC_MIN_TIME_def
        SLEEP_RTC_MAX_TIME_def Let_def)
  then show ?thesis
    using sleep_enter_result [of "demo_env MODE_KBD" 3200 hws_init_state]
    by (auto simp: demo_env_def Let_def split: prod.splits)
qed

text \<open>
  A key poll calls the callback exactly when the pressed set differs from the last poll's, and a
  second poll of the same pins never calls it again; the registered callback sees the new set.
\<close>

theorem key_poll_on_change:
  assumes "\<And>k t. hws_key_saved (cb k t) = hws_key_saved t"
    and "\<And>k t. hws_key_read E (cb k t) = hws_key_read E t"
  shows "hws_key_poll cb E s =
           (if hws_key_read E s = hws_key_saved s then s
            else if hws_key_cb s then cb (hws_key_read E s) (s\<lparr>hws_key_saved := hws_key_read E s\<rparr>)
            else s\<lparr>hws_key_saved := hws_key_read E s\<rparr>) \<and>
         hws_key_poll cb E (hws_key_poll cb E s) = hws_key_poll cb E s"
proof -
  have r: "hws_key_read E (s\<lparr>hws_key_saved := k\<rparr>) = hws_key_read E s" for k
    by (simp add: hws_key_read_def HWS_PUSH_BUTTON1_def HWS_PUSH_BUTTON2_def HWS_PUSH_BUTTON3_def)
  have "hws_key_read E (hws_key_poll cb E s) = hws_key_saved (hws_key_poll cb E s)"
    by (simp add: hws_key_poll_def Let_def assms r)
  then show ?thesis by (simp add: hws_key_poll_def Let_def)
qed

lemma key_poll_on_change_witness:
  "hws_key_poll (\<lambda>k t. t) (demo_env MODE_KBD) hws_init_state = hws_init_state"
proof -
  have r: "hws_key_read (demo_env MODE_KBD) hws_init_state = hws_key_saved hws_init_state"
    by (simp add: hws_key_read_def HWS_PUSH_BUTTON1_def HWS_PUSH_BUTTON2_def HWS_PUSH_BUTTON3_def
        demo_env_def KEY1_BV_def KEY2_BV_def KEY3_BV_def hws_init_state_def led_state.defs
        led_init_state_def base.defs base_init_def)
  then show ?thesis
    using key_poll_on_change [of "\<lambda>k t. t" "demo_env MODE_KBD" hws_init_state] by simp
qed

text \<open>
  One call of the hardware task handles one event: the result is the pending set with exactly
  the handled bit cleared, and a periodic event is re-armed before the call returns, so key scan,
  watchdog feed and calibration never stop running; an armed watchdog is fed on its event.
\<close>

theorem hws_task_rearms:
  assumes "ev AND HWS_LED_BLINK_EVENT = 0"
    and "hws_process_event cb E ev s = (rest, s')"
  shows "(ev AND HWS_KEY_EVENT \<noteq> 0 \<longrightarrow>
            rest = ev XOR HWS_KEY_EVENT \<and> last (outs s') = StartTask HwsTask HWS_KEY_EVENT 160) \<and>
         (ev AND HWS_KEY_EVENT = 0 \<and> ev AND HWS_WDG_EVENT \<noteq> 0 \<longrightarrow>
            rest = ev XOR HWS_WDG_EVENT \<and>
            outs s' = outs s @ (if wdg_armed s then [Hw (WdgCounter 0)] else []) @
                      [StartTask HwsTask HWS_WDG_EVENT 160]) \<and>
         (ev AND HWS_KEY_EVENT = 0 \<and> ev AND HWS_WDG_EVENT = 0 \<and> ev AND HWS_CALIB_EVENT \<noteq> 0 \<longrightarrow>
            rest = ev XOR HWS_CALIB_EVENT \<and>
            outs s' = outs s @ [Hw RfCalibrate, Hw LsiCalibrate,
                                StartTask HwsTask HWS_CALIB_EVENT 192000])"
  using assms
  by (auto simp: hws_process_event_def ms1_to_system_time_def hws_wdg_feed_task_def
      hws_calib_task_def split: if_splits)

lemma hws_task_rearms_witness:
  "outs (snd (hws_process_event (\<lambda>_ t. t) (demo_env MODE_KBD) HWS_WDG_EVENT (hws_wdg_arm hws_init_state)))
   = [Hw (WdgCounter 0), Hw (WdgReset True), Hw (WdgCounter 0), StartTask HwsTask HWS_WDG_EVENT 160]"
proof -
  obtain r s' where p: "hws_process_event (\<lambda>_ t. t) (demo_env MODE_KBD) HWS_WDG_EVENT
      (hws_wdg_arm hws_init_state) = (r, s')"
    by fastforce
  have "HWS_WDG_EVENT AND HWS_LED_BLINK_EVENT = 0" "HWS_WDG_EVENT AND HWS_KEY_EVENT = 0"
    "HWS_WDG_EVENT AND HWS_WDG_EVENT \<noteq> 0"
    by (simp_all add: HWS_WDG_EVENT_def HWS_LED_BLINK_EVENT_def HWS_KEY_EVENT_def)
  with hws_task_rearms [OF _ p] show ?thesis
    unfolding p snd_conv
    by (simp add: hws_wdg_arm_def emit_def hws_init_state_def led_state.defs led_init_state_def
        base.defs base_init_def)
qed

end
