(* ===== verification/Hid_Dev.thy ===== *)
theory Hid_Dev
  imports Hws_Io
begin

text \<open>
  The HID-over-GATT device: the battery service (\<^verbatim>\<open>ble_batt.c\<close>), the keyboard service's report table
  and values (\<^verbatim>\<open>ble_hid_kbd.c\<close>), and the HID device task (\<^verbatim>\<open>ble_hid_dev.c\<close>) with its table of
  connections, the security flag of each, and the path of an input report to a notification.  The
  report callback of the keyboard application (\<^verbatim>\<open>hidkbd_ble.c\<close>) is here too, because it only reads
  and writes report values; its connection callback is an argument of \<open>hidDevGapStateCB\<close>.
\<close>

section \<open>Report table and state\<close>

record rpt_map =
  rpt_id :: u8
  rpt_type :: u8
  rpt_handle :: u16
  rpt_cccd :: u16
  rpt_mode :: u8

definition BLE_HID_RPT_ID_KEY_IN :: u8 where "BLE_HID_RPT_ID_KEY_IN = 0"
definition BLE_HID_RPT_ID_LED_OUT :: u8 where "BLE_HID_RPT_ID_LED_OUT = 0"
definition BLE_HID_RPT_ID_FEATURE :: u8 where "BLE_HID_RPT_ID_FEATURE = 0"
definition BLE_HID_RPT_ID_BATT_LEVEL_IN :: u8 where "BLE_HID_RPT_ID_BATT_LEVEL_IN = 4"
definition BLE_HID_REPORT_TYPE_INPUT :: u8 where "BLE_HID_REPORT_TYPE_INPUT = 1"
definition BLE_HID_REPORT_TYPE_OUTPUT :: u8 where "BLE_HID_REPORT_TYPE_OUTPUT = 2"
definition BLE_HID_REPORT_TYPE_FEATURE :: u8 where "BLE_HID_REPORT_TYPE_FEATURE = 3"
definition BLE_HID_PROTOCOL_MODE_BOOT :: u8 where "BLE_HID_PROTOCOL_MODE_BOOT = 0"
definition BLE_HID_PROTOCOL_MODE_REPORT :: u8 where "BLE_HID_PROTOCOL_MODE_REPORT = 1"
definition BLE_HID_DEV_OPER_WRITE :: u8 where "BLE_HID_DEV_OPER_WRITE = 0"
definition BLE_HID_DEV_OPER_READ :: u8 where "BLE_HID_DEV_OPER_READ = 1"
definition BLE_HID_DEV_OPER_ENABLE :: u8 where "BLE_HID_DEV_OPER_ENABLE = 2"
definition BLE_HID_DEV_OPER_DISABLE :: u8 where "BLE_HID_DEV_OPER_DISABLE = 3"

lemmas rpt_consts = BLE_HID_RPT_ID_KEY_IN_def BLE_HID_RPT_ID_LED_OUT_def BLE_HID_RPT_ID_FEATURE_def
  BLE_HID_RPT_ID_BATT_LEVEL_IN_def BLE_HID_REPORT_TYPE_INPUT_def BLE_HID_REPORT_TYPE_OUTPUT_def
  BLE_HID_REPORT_TYPE_FEATURE_def BLE_HID_PROTOCOL_MODE_BOOT_def BLE_HID_PROTOCOL_MODE_REPORT_def

definition REPORT_UUID :: u16 where "REPORT_UUID = 0x2A4D"
definition REPORT_MAP_UUID :: u16 where "REPORT_MAP_UUID = 0x2A4B"
definition BOOT_KEY_INPUT_UUID :: u16 where "BOOT_KEY_INPUT_UUID = 0x2A22"
definition BOOT_KEY_OUTPUT_UUID :: u16 where "BOOT_KEY_OUTPUT_UUID = 0x2A32"
definition BOOT_MOUSE_INPUT_UUID :: u16 where "BOOT_MOUSE_INPUT_UUID = 0x2A33"
definition HID_INFORMATION_UUID :: u16 where "HID_INFORMATION_UUID = 0x2A4A"
definition HID_CTRL_PT_UUID :: u16 where "HID_CTRL_PT_UUID = 0x2A4C"
definition PROTOCOL_MODE_UUID :: u16 where "PROTOCOL_MODE_UUID = 0x2A4E"
definition BATT_LEVEL_UUID :: u16 where "BATT_LEVEL_UUID = 0x2A19"
definition GATT_CLIENT_CHAR_CFG_UUID :: u16 where "GATT_CLIENT_CHAR_CFG_UUID = 0x2902"
definition GATT_EXT_REPORT_REF_UUID :: u16 where "GATT_EXT_REPORT_REF_UUID = 0x2907"
definition GATT_REPORT_REF_UUID :: u16 where "GATT_REPORT_REF_UUID = 0x2908"

lemmas uuid_defs = REPORT_UUID_def REPORT_MAP_UUID_def BOOT_KEY_INPUT_UUID_def
  BOOT_KEY_OUTPUT_UUID_def BOOT_MOUSE_INPUT_UUID_def HID_INFORMATION_UUID_def HID_CTRL_PT_UUID_def
  PROTOCOL_MODE_UUID_def BATT_LEVEL_UUID_def GATT_CLIENT_CHAR_CFG_UUID_def
  GATT_EXT_REPORT_REF_UUID_def GATT_REPORT_REF_UUID_def

definition ATT_ERR_INVALID_OFFSET :: u8 where "ATT_ERR_INVALID_OFFSET = 0x07"
definition ATT_ERR_ATTR_NOT_FOUND :: u8 where "ATT_ERR_ATTR_NOT_FOUND = 0x0A"
definition ATT_ERR_ATTR_NOT_LONG :: u8 where "ATT_ERR_ATTR_NOT_LONG = 0x0B"
definition ATT_ERR_INVALID_VALUE_SIZE :: u8 where "ATT_ERR_INVALID_VALUE_SIZE = 0x0D"
definition ATT_ERR_INVALID_VALUE :: u8 where "ATT_ERR_INVALID_VALUE = 0x80"
definition GATT_CLIENT_CFG_NOTIFY :: u16 where "GATT_CLIENT_CFG_NOTIFY = 0x0001"
definition LOOPBACK_CONNHANDLE :: u16 where "LOOPBACK_CONNHANDLE = 0xFFFE"
definition BATT_PERIODIC_EVT :: u16 where "BATT_PERIODIC_EVT = 0x0002"
definition HIDDEV_START_DEVICE_EVT :: u16 where "HIDDEV_START_DEVICE_EVT = 0x0001"
definition SYS_EVENT_MSG :: u16 where "SYS_EVENT_MSG = 0x8000"
definition GAPROLE_ADVERTISING :: u8 where "GAPROLE_ADVERTISING = 2"
definition SMP_PAIRING_FAILED_CONFIRM_VALUE :: u8 where "SMP_PAIRING_FAILED_CONFIRM_VALUE = 0x04"

record hid_state = hws_state +
  battLevel :: u8
  battCriticalLevel :: u8
  hidReportLedOut :: u8
  hidReportFeature :: u8
  hidReportBootKeyOut :: u8
  ble_hid_protocol_mode :: u8
  hidRptMap :: "rpt_map list"
  hidDevGapState :: u8
  hidDevConnSecure :: "bool list"
  gapConnHandles :: "u16 list"
  gapConnHandle :: u16
  pairingStatus :: u8
  hidDevConnIntv :: "u16 list"
  hidDevConnLat :: "u16 list"

text \<open>
  A loop \<open>for (i = 0; i < n; i++) if (\<dots>) return i; return -1;\<close>, used by every table lookup of the
  keyboard.
\<close>

definition first_index :: "nat \<Rightarrow> (nat \<Rightarrow> bool) \<Rightarrow> int" where
  "first_index n P = (case find P [0..<n] of None \<Rightarrow> -1 | Some i \<Rightarrow> int i)"

text \<open>A loop \<open>for (i = 0; i < n; i++) if (\<dots>) cnt++;\<close>.\<close>

definition count_index :: "nat \<Rightarrow> (nat \<Rightarrow> bool) \<Rightarrow> nat" where
  "count_index n P = length (filter P [0..<n])"

lemma first_index_cases:
  obtains (miss) "first_index n P = -1" "\<forall>i<n. \<not> P i"
  | (hit) i where "first_index n P = int i" "i < n" "P i" "\<forall>j<i. \<not> P j"
proof (cases "find P [0..<n]")
  case None
  then have "\<forall>i<n. \<not> P i" by (auto simp: find_None_iff)
  with None show thesis by (intro miss) (simp_all add: first_index_def)
next
  case (Some k)
  then have "k < n \<and> P k \<and> (\<forall>j<k. \<not> P j)" by (auto simp: find_Some_iff)
  with Some show thesis by (intro hit [of k]) (simp_all add: first_index_def)
qed

lemma first_index_hit:
  "first_index n P = int i \<Longrightarrow> i < n \<and> P i \<and> (\<forall>j<i. \<not> P j)"
  by (rule first_index_cases [of n P]) auto

lemma first_index_miss: "(first_index n P = -1) = (\<forall>i<n. \<not> P i)"
  by (rule first_index_cases [of n P]) auto

lemma first_index_range: "first_index n P = -1 \<or> (\<exists>i<n. first_index n P = int i \<and> P i)"
  by (rule first_index_cases [of n P]) auto

lemma first_index_nonneg: "(0 \<le> first_index n P) = (\<exists>i<n. P i)"
proof (rule first_index_cases [of n P])
  fix i assume i: "first_index n P = int i" "i < n" "P i"
  then have "\<exists>i<n. P i" by blast
  with i(1) show ?thesis by simp
qed simp

lemma first_index_eqI:
  assumes "i < n" "P i" "\<And>j. j < n \<Longrightarrow> P j \<Longrightarrow> j = i"
  shows "first_index n P = int i"
proof (rule first_index_cases [of n P])
  fix j assume "first_index n P = int j" "j < n" "P j"
  then show ?thesis using assms(3) by simp
qed (use assms(1,2) in simp)

lemma first_index_cong: "(\<And>i. i < n \<Longrightarrow> P i = Q i) \<Longrightarrow> first_index n P = first_index n Q"
proof -
  assume eq: "\<And>i. i < n \<Longrightarrow> P i = Q i"
  have "find P [0..<n] = find Q [0..<n]"
    by (rule find_cong) (auto simp: eq)
  then show ?thesis by (simp add: first_index_def)
qed

section \<open>Battery service\<close>

text \<open>\<open>HidDev_sendNoti\<close>, also the body of \<open>battNotifyCB\<close>: allocate, send, free on failure.\<close>

definition HidDev_sendNoti ::
  "env \<Rightarrow> u16 \<Rightarrow> u16 \<Rightarrow> u8 list \<Rightarrow> 'a base_scheme \<Rightarrow> u8 \<times> 'a base_scheme" where
  "HidDev_sendNoti E conn h data s =
     (if bm_alloc E (outs s) conn (length data) then
        (let (st, s1) = call E (Notification conn h data) s
         in (st, if st \<noteq> SUCCESS then emit BmFree s1 else s1))
      else (bleMemAllocError, s))"

definition BATT_LEVEL_VALUE_IDX :: nat where "BATT_LEVEL_VALUE_IDX = 2"
definition BATT_LEVEL_VALUE_CCCD_IDX :: nat where "BATT_LEVEL_VALUE_CCCD_IDX = 3"

definition battNotifyCB :: "env \<Rightarrow> u16 \<times> bool \<Rightarrow> 'a hid_state_scheme \<Rightarrow> 'a hid_state_scheme" where
  "battNotifyCB E link s =
     (let (conn, connected) = link in
      if connected \<and>
         ccc_read E (outs s) conn (batt_handle E BATT_LEVEL_VALUE_CCCD_IDX) AND GATT_CLIENT_CFG_NOTIFY \<noteq> 0
      then snd (HidDev_sendNoti E conn (batt_handle E BATT_LEVEL_VALUE_IDX) [battLevel s] s)
      else s)"

definition battNotifyLevel :: "env \<Rightarrow> 'a hid_state_scheme \<Rightarrow> 'a hid_state_scheme" where
  "battNotifyLevel E s = fold (battNotifyCB E) (links E (outs s)) s"

definition ble_batt_set_critical :: "env \<Rightarrow> u8 \<Rightarrow> 'a hid_state_scheme \<Rightarrow> 'a hid_state_scheme" where
  "ble_batt_set_critical E v s =
     (let s1 = s\<lparr>battCriticalLevel := v\<rparr>
      in if battLevel s1 < battCriticalLevel s1 then battNotifyLevel E s1 else s1)"

definition ble_batt_meas_level :: "env \<Rightarrow> 'a hid_state_scheme \<Rightarrow> 'a hid_state_scheme" where
  "ble_batt_meas_level E s =
     (let (level, s1) = hws_batt_read_percent E s
      in if level \<noteq> battLevel s1 then battNotifyLevel E (s1\<lparr>battLevel := level\<rparr>) else s1)"

text \<open>The result of an attribute read: status and value.\<close>

definition battReadAttrCB ::
  "env \<Rightarrow> u16 \<Rightarrow> u8 list \<Rightarrow> nat \<Rightarrow> 'a hid_state_scheme \<Rightarrow> (u8 \<times> u8 list) \<times> 'a hid_state_scheme" where
  "battReadAttrCB E uuid attval offset s =
     (if offset > 0 then ((ATT_ERR_ATTR_NOT_LONG, []), s)
      else if uuid = BATT_LEVEL_UUID then
        (let (level, s1) = hws_batt_read_percent E s; s2 = s1\<lparr>battLevel := level\<rparr>
         in ((SUCCESS, [battLevel s2]), s2))
      else if uuid = GATT_REPORT_REF_UUID then ((SUCCESS, take 2 attval), s)
      else ((ATT_ERR_ATTR_NOT_FOUND, []), s))"

text \<open>\<open>hidDevBattCB\<close>: measure every 15000 ticks while some host listens.\<close>

definition hidDevBattCB :: "bool \<Rightarrow> 'a base_scheme \<Rightarrow> 'a base_scheme" where
  "hidDevBattCB enabled s =
     (if enabled then emit (StartTask HidDevTask BATT_PERIODIC_EVT 15000) s
      else emit (StopTask HidDevTask BATT_PERIODIC_EVT) s)"

definition battWriteAttrCB ::
  "env \<Rightarrow> u16 \<Rightarrow> u16 \<Rightarrow> u16 \<Rightarrow> u8 list \<Rightarrow> 'a hid_state_scheme \<Rightarrow> u8 \<times> 'a hid_state_scheme" where
  "battWriteAttrCB E conn uuid h val s =
     (if uuid = GATT_CLIENT_CHAR_CFG_UUID then
        (let st = ccc_write E (outs s) conn h val
         in if st = SUCCESS then (st, hidDevBattCB (of_le16 val \<noteq> 0) s) else (st, s))
      else (ATT_ERR_ATTR_NOT_FOUND, s))"

text \<open>
  \<open>ble_batt_handle_conn_status_cb\<close> and its twin for the report descriptors; \<open>removed\<close> is
  \<open>LINKDB_STATUS_UPDATE_REMOVED\<close>, \<open>flags\<close> is \<open>LINKDB_STATUS_UPDATE_STATEFLAGS\<close>.
\<close>

datatype link_change = LinkRemoved | LinkStateFlags | LinkOther

definition link_dropped :: "env \<Rightarrow> u16 \<Rightarrow> link_change \<Rightarrow> 'a base_scheme \<Rightarrow> bool" where
  "link_dropped E conn ch s =
     (conn \<noteq> LOOPBACK_CONNHANDLE \<and>
      (ch = LinkRemoved \<or> (ch = LinkStateFlags \<and> \<not> link_up E (outs s) conn)))"

definition ble_batt_handle_conn_status_cb ::
  "env \<Rightarrow> u16 \<Rightarrow> link_change \<Rightarrow> 'a base_scheme \<Rightarrow> 'a base_scheme" where
  "ble_batt_handle_conn_status_cb E conn ch s =
     (if link_dropped E conn ch s
      then emit (InitCharCfg conn (batt_handle E BATT_LEVEL_VALUE_CCCD_IDX)) s else s)"

section \<open>Keyboard service\<close>

definition hidReportMap :: "u8 list" where
  "hidReportMap = [
    0x05, 0x01, 0x09, 0x06, 0xA1, 0x01,
    0x05, 0x07, 0x19, 0xE0, 0x29, 0xE7, 0x15, 0x00, 0x25, 0x01,
    0x75, 0x01, 0x95, 0x08, 0x81, 0x02,
    0x95, 0x01, 0x75, 0x08, 0x81, 0x01,
    0x95, 0x05, 0x75, 0x01, 0x05, 0x08, 0x19, 0x01, 0x29, 0x05, 0x91, 0x02,
    0x95, 0x01, 0x75, 0x03, 0x91, 0x01,
    0x95, 0x06, 0x75, 0x08, 0x15, 0x00, 0x25, 0x65, 0x05, 0x07, 0x19, 0x00, 0x29, 0x65,
    0x81, 0x00,
    0xC0]"

text \<open>Positions in \<open>hidAttrTbl\<close> that the report table refers to.\<close>

definition HID_REPORT_KEY_IN_IDX :: nat where "HID_REPORT_KEY_IN_IDX = 12"
definition HID_REPORT_KEY_IN_CCCD_IDX :: nat where "HID_REPORT_KEY_IN_CCCD_IDX = 13"
definition HID_REPORT_LED_OUT_IDX :: nat where "HID_REPORT_LED_OUT_IDX = 16"
definition HID_BOOT_KEY_IN_IDX :: nat where "HID_BOOT_KEY_IN_IDX = 19"
definition HID_BOOT_KEY_IN_CCCD_IDX :: nat where "HID_BOOT_KEY_IN_CCCD_IDX = 20"
definition HID_BOOT_KEY_OUT_IDX :: nat where "HID_BOOT_KEY_OUT_IDX = 22"
definition HID_FEATURE_IDX :: nat where "HID_FEATURE_IDX = 24"

text \<open>The seventh entry of the array is never filled in.\<close>

definition ble_hid_kbd_rpt_table :: "env \<Rightarrow> rpt_map list" where
  "ble_hid_kbd_rpt_table E =
     [\<lparr>rpt_id = BLE_HID_RPT_ID_KEY_IN, rpt_type = BLE_HID_REPORT_TYPE_INPUT,
       rpt_handle = att_handle E HID_REPORT_KEY_IN_IDX, rpt_cccd = att_handle E HID_REPORT_KEY_IN_CCCD_IDX,
       rpt_mode = BLE_HID_PROTOCOL_MODE_REPORT\<rparr>,
      \<lparr>rpt_id = BLE_HID_RPT_ID_LED_OUT, rpt_type = BLE_HID_REPORT_TYPE_OUTPUT,
       rpt_handle = att_handle E HID_REPORT_LED_OUT_IDX, rpt_cccd = 0,
       rpt_mode = BLE_HID_PROTOCOL_MODE_REPORT\<rparr>,
      \<lparr>rpt_id = BLE_HID_RPT_ID_KEY_IN, rpt_type = BLE_HID_REPORT_TYPE_INPUT,
       rpt_handle = att_handle E HID_BOOT_KEY_IN_IDX, rpt_cccd = att_handle E HID_BOOT_KEY_IN_CCCD_IDX,
       rpt_mode = BLE_HID_PROTOCOL_MODE_BOOT\<rparr>,
      \<lparr>rpt_id = BLE_HID_RPT_ID_LED_OUT, rpt_type = BLE_HID_REPORT_TYPE_OUTPUT,
       rpt_handle = att_handle E HID_BOOT_KEY_OUT_IDX, rpt_cccd = 0,
       rpt_mode = BLE_HID_PROTOCOL_MODE_BOOT\<rparr>,
      \<lparr>rpt_id = BLE_HID_RPT_ID_FEATURE, rpt_type = BLE_HID_REPORT_TYPE_FEATURE,
       rpt_handle = att_handle E HID_FEATURE_IDX, rpt_cccd = 0,
       rpt_mode = BLE_HID_PROTOCOL_MODE_REPORT\<rparr>,
      \<lparr>rpt_id = BLE_HID_RPT_ID_BATT_LEVEL_IN, rpt_type = BLE_HID_REPORT_TYPE_INPUT,
       rpt_handle = batt_handle E BATT_LEVEL_VALUE_IDX, rpt_cccd = batt_handle E BATT_LEVEL_VALUE_CCCD_IDX,
       rpt_mode = BLE_HID_PROTOCOL_MODE_REPORT\<rparr>,
      \<lparr>rpt_id = 0, rpt_type = 0, rpt_handle = 0, rpt_cccd = 0, rpt_mode = 0\<rparr>]"

definition ble_hid_kbd_add_service :: "env \<Rightarrow> 'a hid_state_scheme \<Rightarrow> 'a hid_state_scheme" where
  "ble_hid_kbd_add_service E s =
     (emit (Stack (RegisterService HidKbdService))
       (emit (InitCharCfg INVALID_CONNHANDLE (att_handle E HID_BOOT_KEY_IN_CCCD_IDX))
         (emit (InitCharCfg INVALID_CONNHANDLE (att_handle E HID_REPORT_KEY_IN_CCCD_IDX)) s)))
     \<lparr>hidRptMap := ble_hid_kbd_rpt_table E\<rparr>"

text \<open>\<open>len\<close> arrives as an 8-bit value; the value's first byte is what is stored.\<close>

definition ble_hid_kbd_set_param ::
  "u8 \<Rightarrow> u16 \<Rightarrow> u8 \<Rightarrow> u8 list \<Rightarrow> 'a hid_state_scheme \<Rightarrow> u8 \<times> 'a hid_state_scheme" where
  "ble_hid_kbd_set_param ty uuid len val s =
     (if uuid = REPORT_UUID then
        (if ty = BLE_HID_REPORT_TYPE_OUTPUT then
           (if len = 1 then (SUCCESS, s\<lparr>hidReportLedOut := val ! 0\<rparr>)
            else (ATT_ERR_INVALID_VALUE_SIZE, s))
         else if ty = BLE_HID_REPORT_TYPE_FEATURE then
           (if len = 1 then (SUCCESS, s\<lparr>hidReportFeature := val ! 0\<rparr>)
            else (ATT_ERR_INVALID_VALUE_SIZE, s))
         else (ATT_ERR_ATTR_NOT_FOUND, s))
      else if uuid = BOOT_KEY_OUTPUT_UUID then
        (if len = 1 then (SUCCESS, s\<lparr>hidReportBootKeyOut := val ! 0\<rparr>)
         else (ATT_ERR_INVALID_VALUE_SIZE, s))
      else (SUCCESS, s))"

definition ble_hid_kbd_get_param :: "u8 \<Rightarrow> u16 \<Rightarrow> 'a hid_state_scheme \<Rightarrow> u8 \<times> u8 list" where
  "ble_hid_kbd_get_param ty uuid s =
     (SUCCESS,
      if uuid = REPORT_UUID then
        (if ty = BLE_HID_REPORT_TYPE_OUTPUT then [hidReportLedOut s]
         else if ty = BLE_HID_REPORT_TYPE_FEATURE then [hidReportFeature s]
         else [])
      else if uuid = BOOT_KEY_OUTPUT_UUID then [hidReportBootKeyOut s]
      else [])"

text \<open>The keyboard application's callbacks.\<close>

definition ble_hid_emu_rcv_report :: "u8 \<Rightarrow> u8" where
  "ble_hid_emu_rcv_report len = (if len = 1 then SUCCESS else ATT_ERR_INVALID_VALUE_SIZE)"

definition rpt_cb_write ::
  "u8 \<Rightarrow> u16 \<Rightarrow> u8 list \<Rightarrow> 'a hid_state_scheme \<Rightarrow> u8 \<times> 'a hid_state_scheme" where
  "rpt_cb_write ty uuid val s =
     (let len = of_nat (length val) :: u8;
          st = (if uuid = REPORT_UUID \<and> ty = BLE_HID_REPORT_TYPE_OUTPUT
                then ble_hid_emu_rcv_report len else SUCCESS)
      in if st = SUCCESS then ble_hid_kbd_set_param ty uuid len val s else (st, s))"

definition rpt_cb_read :: "u8 \<Rightarrow> u16 \<Rightarrow> 'a hid_state_scheme \<Rightarrow> u8 \<times> u8 list" where
  "rpt_cb_read ty uuid s = ble_hid_kbd_get_param ty uuid s"


section \<open>The connection table\<close>

definition hiddev_slot_of :: "env \<Rightarrow> u16 \<Rightarrow> 'a hid_state_scheme \<Rightarrow> int" where
  "hiddev_slot_of E h s = first_index (kbd_max_conn (mode E)) (\<lambda>i. gapConnHandles s ! i = h)"

definition hiddev_slot_alloc ::
  "env \<Rightarrow> u16 \<Rightarrow> 'a hid_state_scheme \<Rightarrow> int \<times> 'a hid_state_scheme" where
  "hiddev_slot_alloc E h s =
     (let k = hiddev_slot_of E h s in
      if k \<ge> 0 then (k, s)
      else
        (let f = first_index (kbd_max_conn (mode E)) (\<lambda>i. gapConnHandles s ! i = GAP_CONNHANDLE_INIT)
         in if f \<ge> 0 then (f, s\<lparr>gapConnHandles := (gapConnHandles s)[nat f := h]\<rparr>) else (-1, s)))"

definition ble_hid_dev_conn_secure :: "env \<Rightarrow> u16 \<Rightarrow> 'a hid_state_scheme \<Rightarrow> bool" where
  "ble_hid_dev_conn_secure E conn s =
     (let k = hiddev_slot_of E conn s in if k \<ge> 0 then hidDevConnSecure s ! nat k else False)"

definition hiddev_conn_count :: "env \<Rightarrow> 'a hid_state_scheme \<Rightarrow> nat" where
  "hiddev_conn_count E s =
     count_index (kbd_max_conn (mode E)) (\<lambda>i. gapConnHandles s ! i \<noteq> GAP_CONNHANDLE_INIT)"

text \<open>The result is the interval and the latency.\<close>

definition ble_hid_dev_conn_interval :: "env \<Rightarrow> u16 \<Rightarrow> 'a hid_state_scheme \<Rightarrow> u16 \<times> u16" where
  "ble_hid_dev_conn_interval E conn s =
     (let k = hiddev_slot_of E conn s
      in if k < 0 then (0, 0) else (hidDevConnIntv s ! nat k, hidDevConnLat s ! nat k))"

section \<open>Reports\<close>

definition hidDevRptByHandle :: "u16 \<Rightarrow> 'a hid_state_scheme \<Rightarrow> rpt_map option" where
  "hidDevRptByHandle h s =
     find (\<lambda>r. rpt_handle r = h \<and> rpt_mode r = ble_hid_protocol_mode s) (hidRptMap s)"

definition hidDevRptByCccdHandle :: "u16 \<Rightarrow> 'a hid_state_scheme \<Rightarrow> rpt_map option" where
  "hidDevRptByCccdHandle h s = find (\<lambda>r. rpt_cccd r = h) (hidRptMap s)"

definition hidDevRptById :: "u8 \<Rightarrow> u8 \<Rightarrow> 'a hid_state_scheme \<Rightarrow> rpt_map option" where
  "hidDevRptById i t s =
     find (\<lambda>r. rpt_id r = i \<and> rpt_type r = t \<and> rpt_mode r = ble_hid_protocol_mode s) (hidRptMap s)"

definition ble_hid_dev_conn_notify :: "env \<Rightarrow> u16 \<Rightarrow> 'a hid_state_scheme \<Rightarrow> bool" where
  "ble_hid_dev_conn_notify E conn s =
     (case hidDevRptById BLE_HID_RPT_ID_KEY_IN BLE_HID_REPORT_TYPE_INPUT s of
        None \<Rightarrow> False
      | Some r \<Rightarrow> att_found E (rpt_cccd r) \<and>
          ccc_read E (outs s) conn (rpt_cccd r) AND GATT_CLIENT_CFG_NOTIFY \<noteq> 0)"

definition hidDevSendReport ::
  "env \<Rightarrow> u16 \<Rightarrow> u8 \<Rightarrow> u8 \<Rightarrow> u8 list \<Rightarrow> 'a hid_state_scheme \<Rightarrow> u8 \<times> 'a hid_state_scheme" where
  "hidDevSendReport E conn i t data s =
     (case hidDevRptById i t s of
        None \<Rightarrow> (bleNoResources, s)
      | Some r \<Rightarrow>
          if att_found E (rpt_cccd r) \<and>
             ccc_read E (outs s) conn (rpt_cccd r) AND GATT_CLIENT_CFG_NOTIFY \<noteq> 0
          then HidDev_sendNoti E conn (rpt_handle r) data s
          else (bleNoResources, s))"

text \<open>The three advertising profiles: intervals and timeout, then advertising on.\<close>

definition hid_advertising :: "nat \<Rightarrow> nat \<Rightarrow> nat \<Rightarrow> 'a base_scheme \<Rightarrow> 'a base_scheme" where
  "hid_advertising imin imax tmo s =
     emit (GapSet GAPROLE_ADVERT_ENABLED [1])
       (emit (GapParam TGAP_LIM_ADV_TIMEOUT tmo)
         (emit (GapParam TGAP_DISC_ADV_INT_MAX imax)
           (emit (GapParam TGAP_DISC_ADV_INT_MIN imin) s)))"

definition hidDevHighAdvertising :: "'a base_scheme \<Rightarrow> 'a base_scheme" where
  "hidDevHighAdvertising = hid_advertising 32 48 5"

definition hidDevLowAdvertising :: "'a base_scheme \<Rightarrow> 'a base_scheme" where
  "hidDevLowAdvertising = hid_advertising 160 160 0"

definition hidDevInitialAdvertising :: "'a base_scheme \<Rightarrow> 'a base_scheme" where
  "hidDevInitialAdvertising = hid_advertising 48 80 60"

definition ble_hid_dev_report ::
  "env \<Rightarrow> u16 \<Rightarrow> u8 \<Rightarrow> u8 \<Rightarrow> u8 list \<Rightarrow> 'a hid_state_scheme \<Rightarrow> u8 \<times> 'a hid_state_scheme" where
  "ble_hid_dev_report E conn i t data s =
     (let k = hiddev_slot_of E conn s in
      if k \<ge> 0 \<and> hidDevConnSecure s ! nat k then hidDevSendReport E conn i t data s
      else (bleNotReady,
            if hiddev_conn_count E s = 0 \<and> hidDevGapState s \<noteq> GAPROLE_ADVERTISING
            then (if bond_count E (outs s) > 0 then hidDevHighAdvertising s
                  else hidDevInitialAdvertising s)
            else s))"

section \<open>Link and pairing events\<close>

text \<open>
  What the GAP role reports: a link established (handle, address, address type, interval, latency),
  a link terminated (handle, reason), anything else (its opcode).
\<close>

datatype gap_event =
    LinkEstablished u16 "u8 list" u8 u16 u16
  | LinkTerminated u16 u8
  | OtherGapEvent u8

definition terminate_links :: "env \<Rightarrow> 'a hid_state_scheme \<Rightarrow> 'a hid_state_scheme" where
  "terminate_links E s =
     fold (\<lambda>i s. if gapConnHandles s ! i \<noteq> GAP_CONNHANDLE_INIT
                 then emit (Terminate (gapConnHandles s ! i)) s else s)
       [0..<kbd_max_conn (mode E)] s"

definition ble_hid_dev_close :: "env \<Rightarrow> 'a hid_state_scheme \<Rightarrow> 'a hid_state_scheme" where
  "ble_hid_dev_close E s = emit (GapSet GAPROLE_ADVERT_ENABLED [0]) (terminate_links E s)"

definition BLE_HID_DEV_ERASE_ALLBONDS :: u8 where "BLE_HID_DEV_ERASE_ALLBONDS = 0"

definition ble_hid_dev_set_param ::
  "env \<Rightarrow> u8 \<Rightarrow> nat \<Rightarrow> 'a hid_state_scheme \<Rightarrow> u8 \<times> 'a hid_state_scheme" where
  "ble_hid_dev_set_param E param len s =
     (if param = BLE_HID_DEV_ERASE_ALLBONDS then
        (if len = 0 then (SUCCESS, emit (BondSet GAPBOND_ERASE_ALLBONDS []) (terminate_links E s))
         else (bleInvalidRange, s))
      else (INVALIDPARAMETER, s))"

definition hidDevHandleConnStatusCB ::
  "env \<Rightarrow> u16 \<Rightarrow> link_change \<Rightarrow> 'a hid_state_scheme \<Rightarrow> 'a hid_state_scheme" where
  "hidDevHandleConnStatusCB E conn ch s =
     (if link_dropped E conn ch s then
        fold (\<lambda>r s. if rpt_cccd r \<noteq> 0 \<and> att_found E (rpt_cccd r)
                    then emit (InitCharCfg conn (rpt_cccd r)) s else s)
          (hidRptMap s) s
      else s)"

definition hidDevDisconnected :: "env \<Rightarrow> u16 \<Rightarrow> 'a hid_state_scheme \<Rightarrow> 'a hid_state_scheme" where
  "hidDevDisconnected E conn s =
     (let s1 = hidDevHandleConnStatusCB E conn LinkRemoved
                 (ble_batt_handle_conn_status_cb E conn LinkRemoved s);
          k = hiddev_slot_of E conn s1;
          s2 = (if k \<ge> 0
                then s1\<lparr>gapConnHandles := (gapConnHandles s1)[nat k := GAP_CONNHANDLE_INIT],
                        hidDevConnSecure := (hidDevConnSecure s1)[nat k := False]\<rparr>
                else s1);
          s3 = s2\<lparr>ble_hid_protocol_mode := BLE_HID_PROTOCOL_MODE_REPORT\<rparr>
      in if bond_count E (outs s3) > 0 then hidDevLowAdvertising s3 else s3)"

text \<open>
  The two link branches of \<open>hidDevGapStateCB\<close>.  The feature flags of the application include
  \<open>NORMALLY_CONNECTABLE\<close>, so \<open>hidDevDisconnected\<close> always tests true for it.
\<close>

definition hid_link_established ::
  "env \<Rightarrow> u16 \<Rightarrow> u16 \<Rightarrow> u16 \<Rightarrow> 'a hid_state_scheme \<Rightarrow> 'a hid_state_scheme" where
  "hid_link_established E h intv lat s =
     (let (k, s1) = hiddev_slot_alloc E h s;
          s2 = s1\<lparr>gapConnHandle := h\<rparr>;
          s3 = (if k \<ge> 0
                then s2\<lparr>hidDevConnSecure := (hidDevConnSecure s2)[nat k := False],
                        hidDevConnIntv := (hidDevConnIntv s2)[nat k := intv],
                        hidDevConnLat := (hidDevConnLat s2)[nat k := lat]\<rparr>
                else s2)
      in emit (GapSet GAPROLE_ADVERT_ENABLED [0]) s3)"

definition hid_link_terminated :: "env \<Rightarrow> u16 \<Rightarrow> 'a hid_state_scheme \<Rightarrow> 'a hid_state_scheme" where
  "hid_link_terminated E h s =
     (let s1 = hidDevDisconnected E h s
      in if pairingStatus s1 = SMP_PAIRING_FAILED_CONFIRM_VALUE
         then (hidDevInitialAdvertising s1)\<lparr>pairingStatus := SUCCESS\<rparr>
         else s1)"

text \<open>\<open>app_cb\<close> is the application's state callback.\<close>

definition hidDevGapStateCB ::
  "(u8 \<Rightarrow> gap_event \<Rightarrow> 'a hid_state_scheme \<Rightarrow> 'a hid_state_scheme) \<Rightarrow>
   env \<Rightarrow> u8 \<Rightarrow> gap_event \<Rightarrow> 'a hid_state_scheme \<Rightarrow> 'a hid_state_scheme" where
  "hidDevGapStateCB app_cb E newState ev s =
     (let s1 = (case ev of
                  LinkEstablished h addr ty intv lat \<Rightarrow> hid_link_established E h intv lat s
                | LinkTerminated h reason \<Rightarrow> hid_link_terminated E h s
                | OtherGapEvent oc \<Rightarrow> s);
          s2 = app_cb newState ev s1
      in s2\<lparr>hidDevGapState := newState\<rparr>)"

definition hidDevParamUpdateCB ::
  "env \<Rightarrow> u16 \<Rightarrow> u16 \<Rightarrow> u16 \<Rightarrow> 'a hid_state_scheme \<Rightarrow> 'a hid_state_scheme" where
  "hidDevParamUpdateCB E conn intv lat s =
     (let k = hiddev_slot_of E conn s
      in if k \<ge> 0 then s\<lparr>hidDevConnIntv := (hidDevConnIntv s)[nat k := intv],
                         hidDevConnLat := (hidDevConnLat s)[nat k := lat]\<rparr>
         else s)"

datatype pair_state = PairStarted | PairComplete | PairBonded | PairBondSaved

definition hidDevPairStateCB ::
  "env \<Rightarrow> u16 \<Rightarrow> pair_state \<Rightarrow> u8 \<Rightarrow> 'a hid_state_scheme \<Rightarrow> 'a hid_state_scheme" where
  "hidDevPairStateCB E conn st status s =
     (let k = hiddev_slot_of E conn s;
          s1 = (if (st = PairComplete \<or> st = PairBonded) \<and> status = SUCCESS \<and> k \<ge> 0
                then s\<lparr>hidDevConnSecure := (hidDevConnSecure s)[nat k := True]\<rparr> else s)
      in if st = PairComplete then s1\<lparr>pairingStatus := status\<rparr> else s1)"

text \<open>No application passcode callback is registered.\<close>

definition hidDevPasscodeCB :: "env \<Rightarrow> u16 \<Rightarrow> 'a base_scheme \<Rightarrow> 'a base_scheme" where
  "hidDevPasscodeCB E conn s = emit (PasscodeRsp conn SUCCESS (default_passcode E (outs s))) s"

definition ble_hid_dev_passcode_rsp :: "u8 \<Rightarrow> u32 \<Rightarrow> 'a hid_state_scheme \<Rightarrow> 'a hid_state_scheme" where
  "ble_hid_dev_passcode_rsp status passcode s = emit (PasscodeRsp (gapConnHandle s) status passcode) s"

definition hidDevBattPeriodicTask :: "env \<Rightarrow> 'a hid_state_scheme \<Rightarrow> 'a hid_state_scheme" where
  "hidDevBattPeriodicTask E s =
     emit (StartTask HidDevTask BATT_PERIODIC_EVT 15000) (ble_batt_meas_level E s)"

text \<open>No message that \<open>hidDev_ProcessTMOSMsg\<close> receives changes the state.\<close>

definition ble_hid_dev_process_event ::
  "env \<Rightarrow> u16 \<Rightarrow> 'a hid_state_scheme \<Rightarrow> u16 \<times> 'a hid_state_scheme" where
  "ble_hid_dev_process_event E events s =
     (if events AND SYS_EVENT_MSG \<noteq> 0 then (events XOR SYS_EVENT_MSG, s)
      else if events AND HIDDEV_START_DEVICE_EVT \<noteq> 0
      then (events XOR HIDDEV_START_DEVICE_EVT, emit PeripheralStart s)
      else if events AND BATT_PERIODIC_EVT \<noteq> 0
      then (events XOR BATT_PERIODIC_EVT, hidDevBattPeriodicTask E s)
      else (0, s))"

section \<open>Attribute access\<close>

text \<open>
  \<open>h\<close> and \<open>attval\<close> are the attribute's handle and stored value.  The result is the status and the
  value, \<open>None\<close> where the code leaves the output length as it was.
\<close>

definition ble_hid_dev_read_attr_cb ::
  "u16 \<Rightarrow> u16 \<Rightarrow> u8 list \<Rightarrow> nat \<Rightarrow> nat \<Rightarrow> 'a hid_state_scheme \<Rightarrow> u8 \<times> u8 list option" where
  "ble_hid_dev_read_attr_cb uuid h attval offset maxLen s =
     (if offset > 0 \<and> uuid \<noteq> REPORT_MAP_UUID then (ATT_ERR_ATTR_NOT_LONG, None)
      else if uuid = REPORT_UUID \<or> uuid = BOOT_KEY_INPUT_UUID \<or> uuid = BOOT_KEY_OUTPUT_UUID \<or>
              uuid = BOOT_MOUSE_INPUT_UUID then
        (case hidDevRptByHandle h s of
           Some r \<Rightarrow> (let (st, v) = rpt_cb_read (rpt_type r) uuid s in (st, Some v))
         | None \<Rightarrow> (SUCCESS, None))
      else if uuid = REPORT_MAP_UUID then
        (if offset \<ge> length hidReportMap then (ATT_ERR_INVALID_OFFSET, None)
         else (SUCCESS,
               Some (take (min maxLen (length hidReportMap - offset)) (drop offset hidReportMap))))
      else if uuid = HID_INFORMATION_UUID then (SUCCESS, Some (take 4 attval))
      else if uuid = GATT_REPORT_REF_UUID then (SUCCESS, Some (take 2 attval))
      else if uuid = PROTOCOL_MODE_UUID then (SUCCESS, Some [ble_hid_protocol_mode s])
      else if uuid = GATT_EXT_REPORT_REF_UUID then (SUCCESS, Some (take 2 attval))
      else (SUCCESS, None))"

text \<open>
  The suspend and protocol-mode callbacks of the application do nothing; neither does its callback
  for an enabled or disabled notification.
\<close>

definition ble_hid_dev_write_attr_cb ::
  "env \<Rightarrow> u16 \<Rightarrow> u16 \<Rightarrow> u16 \<Rightarrow> u8 list \<Rightarrow> nat \<Rightarrow> 'a hid_state_scheme \<Rightarrow> u8 \<times> 'a hid_state_scheme" where
  "ble_hid_dev_write_attr_cb E conn uuid h val offset s =
     (if offset > 0 then (ATT_ERR_ATTR_NOT_LONG, s)
      else if uuid = REPORT_UUID \<or> uuid = BOOT_KEY_OUTPUT_UUID then
        (case hidDevRptByHandle h s of
           Some r \<Rightarrow> rpt_cb_write (rpt_type r) uuid val s
         | None \<Rightarrow> (SUCCESS, s))
      else if uuid = HID_CTRL_PT_UUID then
        (if length val = 1
         then (if val ! 0 = 0 \<or> val ! 0 = 1 then (SUCCESS, s) else (ATT_ERR_INVALID_VALUE, s))
         else (ATT_ERR_INVALID_VALUE_SIZE, s))
      else if uuid = GATT_CLIENT_CHAR_CFG_UUID then (ccc_write E (outs s) conn h val, s)
      else if uuid = PROTOCOL_MODE_UUID then
        (if length val = 1
         then (if val ! 0 = BLE_HID_PROTOCOL_MODE_BOOT \<or> val ! 0 = BLE_HID_PROTOCOL_MODE_REPORT
               then (SUCCESS, s\<lparr>ble_hid_protocol_mode := val ! 0\<rparr>)
               else (ATT_ERR_INVALID_VALUE, s))
         else (ATT_ERR_INVALID_VALUE_SIZE, s))
      else (SUCCESS, s))"

definition hid_init_state :: "env \<Rightarrow> hid_state" where
  "hid_init_state E = hws_state.extend hws_init_state
     \<lparr>battLevel = 100, battCriticalLevel = 0, hidReportLedOut = 0, hidReportFeature = 0,
      hidReportBootKeyOut = 0, ble_hid_protocol_mode = BLE_HID_PROTOCOL_MODE_REPORT,
      hidRptMap = [], hidDevGapState = 0,
      hidDevConnSecure = replicate (kbd_max_conn (mode E)) False,
      gapConnHandles = replicate (kbd_max_conn (mode E)) GAP_CONNHANDLE_INIT,
      gapConnHandle = GAP_CONNHANDLE_INIT, pairingStatus = SUCCESS,
      hidDevConnIntv = replicate (kbd_max_conn (mode E)) 0,
      hidDevConnLat = replicate (kbd_max_conn (mode E)) 0\<rparr>"

end
