(* ===== verification/Hid_Link.thy ===== *)
theory Hid_Link
  imports Hid_Dev
begin

text \<open>
  Which connections the HID device serves: the interface of a table of connection handles, the
  table of \<^verbatim>\<open>ble_hid_dev.c\<close> as an instance of it, and the security of input reports over whole
  histories of link, pairing and attribute events.
\<close>

section \<open>Tables of connection handles\<close>

text \<open>
  What a client of such a table relies on: a lookup that answers the slot of a handle, and that no
  handle occupies two slots.  Both the HID device and the keyboard application keep one.
\<close>

locale slot_table =
  fixes cap :: nat
    and handles :: "'s \<Rightarrow> u16 list"
    and slot_of :: "u16 \<Rightarrow> 's \<Rightarrow> int"
    and inv :: "'s \<Rightarrow> bool"
  assumes len: "inv s \<Longrightarrow> length (handles s) = cap"
    and lookup: "inv s \<Longrightarrow> slot_of h s = first_index cap (\<lambda>i. handles s ! i = h)"
    and uniq: "inv s \<Longrightarrow> i < cap \<Longrightarrow> j < cap \<Longrightarrow> handles s ! i = handles s ! j \<Longrightarrow>
      handles s ! i \<noteq> GAP_CONNHANDLE_INIT \<Longrightarrow> i = j"
begin

lemma slot_of_nth:
  "inv s \<Longrightarrow> i < cap \<Longrightarrow> handles s ! i \<noteq> GAP_CONNHANDLE_INIT \<Longrightarrow> slot_of (handles s ! i) s = int i"
  by (simp add: lookup) (rule first_index_eqI, auto dest: uniq)

lemma slot_of_Some:
  assumes "inv s" "0 \<le> slot_of h s"
  shows "nat (slot_of h s) < cap" "handles s ! nat (slot_of h s) = h"
proof -
  have "slot_of h s = int (nat (slot_of h s))" using assms(2) by simp
  with lookup [OF assms(1), of h] have "first_index cap (\<lambda>i. handles s ! i = h) = int (nat (slot_of h s))"
    by simp
  from first_index_hit [OF this] show "nat (slot_of h s) < cap" "handles s ! nat (slot_of h s) = h"
    by auto
qed

lemma slot_of_None: "inv s \<Longrightarrow> slot_of h s < 0 \<Longrightarrow> h \<notin> set (handles s)"
  using first_index_nonneg [of cap "\<lambda>i. handles s ! i = h"] by (auto simp: lookup len in_set_conv_nth)

lemma slot_of_set: "inv s \<Longrightarrow> (0 \<le> slot_of h s) = (h \<in> set (handles s))"
  using first_index_nonneg [of cap "\<lambda>i. handles s ! i = h"] by (auto simp: lookup len in_set_conv_nth)

lemma slot_of_cases:
  assumes "inv s" "h \<noteq> GAP_CONNHANDLE_INIT"
  obtains (absent) "slot_of h s < 0" "h \<notin> set (handles s)"
  | (present) i where "i < cap" "handles s ! i = h" "slot_of h s = int i"
proof (cases "0 \<le> slot_of h s")
  case True
  with slot_of_Some [OF assms(1), of h] show thesis
    by (intro present [of "nat (slot_of h s)"]) auto
next
  case False
  with slot_of_None [OF assms(1), of h] show thesis by (intro absent) auto
qed

text \<open>Freeing a slot makes the lookup of its handle fail and leaves the others alone.\<close>

lemma slot_of_freed:
  assumes "inv s" "inv s'" "i < cap" "handles s' = (handles s)[i := GAP_CONNHANDLE_INIT]"
    and "h \<noteq> GAP_CONNHANDLE_INIT"
  shows "slot_of h s' = (if h = handles s ! i then -1 else slot_of h s)"
proof (cases "h = handles s ! i")
  case True
  have "\<forall>j<cap. handles s' ! j \<noteq> h"
    using assms True uniq [OF assms(1) assms(3)] len [OF assms(1)]
    by (auto simp: nth_list_update)
  then show ?thesis using True by (simp add: lookup [OF assms(2)] first_index_miss)
next
  case False
  have "(handles s' ! j = h) = (handles s ! j = h)" if "j < cap" for j
    using assms(3-5) len [OF assms(1)] False that by (auto simp: nth_list_update)
  then have "first_index cap (\<lambda>j. handles s' ! j = h) = first_index cap (\<lambda>j. handles s ! j = h)"
    by (rule first_index_cong)
  then show ?thesis using False by (simp add: lookup [OF assms(1)] lookup [OF assms(2)])
qed

end

section \<open>The table of the HID device\<close>

definition hid_inv :: "env \<Rightarrow> 'a hid_state_scheme \<Rightarrow> bool" where
  "hid_inv E s =
     (length (gapConnHandles s) = kbd_max_conn (mode E) \<and>
      length (hidDevConnSecure s) = kbd_max_conn (mode E) \<and>
      length (hidDevConnIntv s) = kbd_max_conn (mode E) \<and>
      length (hidDevConnLat s) = kbd_max_conn (mode E) \<and>
      (\<forall>i<kbd_max_conn (mode E). \<forall>j<kbd_max_conn (mode E).
         gapConnHandles s ! i = gapConnHandles s ! j \<longrightarrow>
         gapConnHandles s ! i \<noteq> GAP_CONNHANDLE_INIT \<longrightarrow> i = j))"

interpretation hidtab: slot_table "kbd_max_conn (mode E)" gapConnHandles "hiddev_slot_of E" "hid_inv E"
  for E
  by unfold_locales (auto simp: hid_inv_def hiddev_slot_of_def)

lemma hid_inv_init [simp]: "hid_inv E (hid_init_state E)"
  by (simp add: hid_inv_def hid_init_state_def hws_state.defs)


text \<open>The part of the state that says who is connected and who is trusted.\<close>

definition link_view :: "'a hid_state_scheme \<Rightarrow> u16 list \<times> bool list \<times> u16 list \<times> u16 list" where
  "link_view s = (gapConnHandles s, hidDevConnSecure s, hidDevConnIntv s, hidDevConnLat s)"

lemma hid_inv_view: "link_view s' = link_view s \<Longrightarrow> hid_inv E s' = hid_inv E s"
  by (simp add: link_view_def hid_inv_def)

lemma secure_view:
  "link_view s' = link_view s \<Longrightarrow> ble_hid_dev_conn_secure E h s' = ble_hid_dev_conn_secure E h s"
  by (simp add: link_view_def ble_hid_dev_conn_secure_def hiddev_slot_of_def Let_def)

lemma link_view_emit [simp]: "link_view (emit a s) = link_view s"
  by (simp add: emit_def link_view_def)

lemma link_view_irrelevant [simp]:
  "link_view (s\<lparr>hidDevGapState := x\<rparr>) = link_view s"
  "link_view (s\<lparr>gapConnHandle := h\<rparr>) = link_view s"
  "link_view (s\<lparr>pairingStatus := p\<rparr>) = link_view s"
  "link_view (s\<lparr>ble_hid_protocol_mode := md\<rparr>) = link_view s"
  "link_view (s\<lparr>battLevel := l\<rparr>) = link_view s"
  "link_view (s\<lparr>adc_regs := r\<rparr>) = link_view s"
  by (simp_all add: link_view_def)

lemma link_view_fold: "(\<And>x s. link_view (f x s) = link_view s) \<Longrightarrow> link_view (fold f xs s) = link_view s"
  by (induction xs arbitrary: s) auto

lemma link_view_adv [simp]:
  "link_view (hidDevHighAdvertising s) = link_view s"
  "link_view (hidDevLowAdvertising s) = link_view s"
  "link_view (hidDevInitialAdvertising s) = link_view s"
  by (simp_all add: hidDevHighAdvertising_def hidDevLowAdvertising_def hidDevInitialAdvertising_def
      hid_advertising_def)

lemma link_view_noti [simp]: "link_view (snd (HidDev_sendNoti E c h d s)) = link_view s"
  by (simp add: HidDev_sendNoti_def call_def Let_def)

lemma link_view_report [simp]: "link_view (snd (ble_hid_dev_report E c i t d s)) = link_view s"
  by (simp add: ble_hid_dev_report_def hidDevSendReport_def Let_def split: option.splits)

lemma link_view_percent [simp]: "link_view (snd (hws_batt_read_percent E s)) = link_view s"
  by (simp add: hws_batt_read_percent_def hws_batt_read_mv_def hws_adc_sample_def Let_def
      split: prod.splits)

lemma link_view_meas [simp]: "link_view (ble_batt_meas_level E s) = link_view s"
proof -
  have n: "link_view (battNotifyLevel E t) = link_view t" for t :: "'a hid_state_scheme"
    unfolding battNotifyLevel_def by (rule link_view_fold) (simp add: battNotifyCB_def Let_def split: prod.splits)
  obtain l s1 where r: "hws_batt_read_percent E s = (l, s1)" by fastforce
  then have "link_view s1 = link_view s" using link_view_percent [of E s] by simp
  then show ?thesis by (simp add: ble_batt_meas_level_def r n)
qed

lemma link_view_task [simp]: "link_view (snd (ble_hid_dev_process_event E ev s)) = link_view s"
  by (simp add: ble_hid_dev_process_event_def hidDevBattPeriodicTask_def)

lemma link_view_set_param [simp]: "link_view (snd (ble_hid_kbd_set_param t u l v s)) = link_view s"
  by (simp add: ble_hid_kbd_set_param_def link_view_def)

lemma link_view_rpt_write [simp]: "link_view (snd (rpt_cb_write t u v s)) = link_view s"
  by (simp add: rpt_cb_write_def Let_def)

lemma link_view_write [simp]: "link_view (snd (ble_hid_dev_write_attr_cb E c u h v ofs s)) = link_view s"
  unfolding ble_hid_dev_write_attr_cb_def
  by (cases "hidDevRptByHandle h s") simp_all

lemma link_view_conn_status [simp]:
  "link_view (hidDevHandleConnStatusCB E c ch s) = link_view s"
  "link_view (ble_batt_handle_conn_status_cb E c ch s) = link_view s"
  by (simp_all add: hidDevHandleConnStatusCB_def ble_batt_handle_conn_status_cb_def link_view_fold)

section \<open>Effect of the link events\<close>

lemma hid_param_update:
  assumes "hid_inv E s"
  shows "hid_inv E (hidDevParamUpdateCB E c i l s)"
    and "ble_hid_dev_conn_secure E h (hidDevParamUpdateCB E c i l s) = ble_hid_dev_conn_secure E h s"
  using assms by (auto simp: hidDevParamUpdateCB_def hid_inv_def ble_hid_dev_conn_secure_def
      hiddev_slot_of_def Let_def)

lemma hid_pair_state:
  assumes "hid_inv E s"
  shows "hid_inv E (hidDevPairStateCB E c st status s)"
    and "ble_hid_dev_conn_secure E h (hidDevPairStateCB E c st status s) \<Longrightarrow>
      h \<noteq> GAP_CONNHANDLE_INIT \<Longrightarrow>
      ble_hid_dev_conn_secure E h s \<or>
      (h = c \<and> status = SUCCESS \<and> (st = PairComplete \<or> st = PairBonded))"
proof -
  show "hid_inv E (hidDevPairStateCB E c st status s)"
    using assms by (auto simp: hidDevPairStateCB_def hid_inv_def Let_def)
  assume sec: "ble_hid_dev_conn_secure E h (hidDevPairStateCB E c st status s)"
    and h: "h \<noteq> GAP_CONNHANDLE_INIT"
  let ?s' = "hidDevPairStateCB E c st status s"
  have handles: "gapConnHandles ?s' = gapConnHandles s"
    by (simp add: hidDevPairStateCB_def Let_def)
  then have so: "hiddev_slot_of E h ?s' = hiddev_slot_of E h s" by (simp add: hiddev_slot_of_def)
  show "ble_hid_dev_conn_secure E h s \<or>
      (h = c \<and> status = SUCCESS \<and> (st = PairComplete \<or> st = PairBonded))"
  proof (cases "h = c")
    case True
    then show ?thesis
      using sec so by (auto simp: ble_hid_dev_conn_secure_def hidDevPairStateCB_def Let_def
          split: if_splits)
  next
    case False
    then have "nat (hiddev_slot_of E h s) \<noteq> nat (hiddev_slot_of E c s)"
      if "0 \<le> hiddev_slot_of E h s" "0 \<le> hiddev_slot_of E c s"
      using hidtab.slot_of_Some(2) [OF assms that(1)] hidtab.slot_of_Some(2) [OF assms that(2)]
      by metis
    then show ?thesis
      using sec so by (auto simp: ble_hid_dev_conn_secure_def hidDevPairStateCB_def Let_def
          split: if_splits)
  qed
qed


lemma secureD:
  assumes "ble_hid_dev_conn_secure E h s" "hid_inv E s"
  shows "\<exists>i<kbd_max_conn (mode E). gapConnHandles s ! i = h \<and> hidDevConnSecure s ! i"
  using assms hidtab.slot_of_Some [OF assms(2), of h]
  by (auto simp: ble_hid_dev_conn_secure_def Let_def split: if_splits)

lemma secureI:
  assumes "hid_inv E s" "i < kbd_max_conn (mode E)" "gapConnHandles s ! i = h"
    "hidDevConnSecure s ! i" "h \<noteq> GAP_CONNHANDLE_INIT"
  shows "ble_hid_dev_conn_secure E h s"
  using assms hidtab.slot_of_nth [OF assms(1,2)]
  by (auto simp: ble_hid_dev_conn_secure_def Let_def)

lemma secure_iff:
  assumes "hid_inv E s" "h \<noteq> GAP_CONNHANDLE_INIT"
  shows "ble_hid_dev_conn_secure E h s =
    (\<exists>i<kbd_max_conn (mode E). gapConnHandles s ! i = h \<and> hidDevConnSecure s ! i)"
  using secureD [OF _ assms(1)] secureI [OF assms(1)] assms(2) by blast

text \<open>Where an established link lands: its own old slot, or a free one, or nowhere.\<close>

lemma hiddev_alloc_cases:
  assumes "hid_inv E s" "h \<noteq> GAP_CONNHANDLE_INIT"
  obtains (full) "hiddev_slot_alloc E h s = (-1, s)" "h \<notin> set (gapConnHandles s)"
  | (old) i where "i < kbd_max_conn (mode E)" "gapConnHandles s ! i = h"
      "hiddev_slot_alloc E h s = (int i, s)"
  | (fresh) i where "i < kbd_max_conn (mode E)" "gapConnHandles s ! i = GAP_CONNHANDLE_INIT"
      "h \<notin> set (gapConnHandles s)"
      "hiddev_slot_alloc E h s = (int i, s\<lparr>gapConnHandles := (gapConnHandles s)[i := h]\<rparr>)"
proof (rule hidtab.slot_of_cases [OF assms])
  assume k: "hiddev_slot_of E h s < 0" "h \<notin> set (gapConnHandles s)"
  show thesis
    by (rule first_index_cases [of "kbd_max_conn (mode E)" "\<lambda>i. gapConnHandles s ! i = GAP_CONNHANDLE_INIT"])
      (use k in \<open>auto intro: full fresh simp: hiddev_slot_alloc_def Let_def\<close>)
next
  fix i assume "i < kbd_max_conn (mode E)" "gapConnHandles s ! i = h" "hiddev_slot_of E h s = int i"
  then show thesis by (intro old [of i]) (simp_all add: hiddev_slot_alloc_def)
qed

lemma hid_established:
  assumes inv: "hid_inv E s" and h: "h \<noteq> GAP_CONNHANDLE_INIT"
  shows "hid_inv E (hid_link_established E h intv lat s)"
    and "\<not> ble_hid_dev_conn_secure E h (hid_link_established E h intv lat s)"
    and "g \<noteq> GAP_CONNHANDLE_INIT \<Longrightarrow> ble_hid_dev_conn_secure E g (hid_link_established E h intv lat s) \<Longrightarrow>
      ble_hid_dev_conn_secure E g s"
proof -
  let ?s' = "hid_link_established E h intv lat s"
  let ?n = "kbd_max_conn (mode E)"
  have L: "length (gapConnHandles s) = ?n" "length (hidDevConnSecure s) = ?n"
    using inv by (simp_all add: hid_inv_def)
  have "hid_inv E ?s' \<and> \<not> ble_hid_dev_conn_secure E h ?s' \<and>
    (g \<noteq> GAP_CONNHANDLE_INIT \<longrightarrow> ble_hid_dev_conn_secure E g ?s' \<longrightarrow> ble_hid_dev_conn_secure E g s)" for g
  proof (rule hiddev_alloc_cases [OF inv h])
    assume a: "hiddev_slot_alloc E h s = (-1, s)" "h \<notin> set (gapConnHandles s)"
    then have v: "link_view ?s' = link_view s" by (simp add: hid_link_established_def)
    have "\<not> ble_hid_dev_conn_secure E h s"
      using a(2) secureD [OF _ inv] L by (metis nth_mem)
    then show ?thesis using inv by (simp add: hid_inv_view [OF v] secure_view [OF v])
  next
    fix i assume a: "i < ?n" "gapConnHandles s ! i = h" "hiddev_slot_alloc E h s = (int i, s)"
    then have e: "gapConnHandles ?s' = gapConnHandles s"
      "hidDevConnSecure ?s' = (hidDevConnSecure s)[i := False]"
      by (simp_all add: hid_link_established_def emit_def)
    have i': "hid_inv E ?s'"
      using inv a by (auto simp: hid_inv_def hid_link_established_def emit_def)
    show ?thesis
      using i' inv a(1,2) h L
      by (auto simp: secure_iff [OF i'] secure_iff [OF inv] e nth_list_update hid_inv_def)
  next
    fix i assume a: "i < ?n" "gapConnHandles s ! i = GAP_CONNHANDLE_INIT"
      "h \<notin> set (gapConnHandles s)"
      "hiddev_slot_alloc E h s = (int i, s\<lparr>gapConnHandles := (gapConnHandles s)[i := h]\<rparr>)"
    then have e: "gapConnHandles ?s' = (gapConnHandles s)[i := h]"
      "hidDevConnSecure ?s' = (hidDevConnSecure s)[i := False]"
      by (simp_all add: hid_link_established_def emit_def)
    have nh: "\<forall>j<?n. gapConnHandles s ! j \<noteq> h" using a(3) L by (metis nth_mem)
    have i': "hid_inv E ?s'"
      using inv a nh by (auto simp: hid_inv_def hid_link_established_def emit_def nth_list_update)
    show ?thesis
      using i' inv a(1,2) h L nh
      by (auto simp: secure_iff [OF i'] secure_iff [OF inv] e nth_list_update)
  qed
  then show "hid_inv E ?s'" "\<not> ble_hid_dev_conn_secure E h ?s'"
    "g \<noteq> GAP_CONNHANDLE_INIT \<Longrightarrow> ble_hid_dev_conn_secure E g ?s' \<Longrightarrow> ble_hid_dev_conn_secure E g s"
    by blast+
qed

lemma hid_terminated:
  assumes inv: "hid_inv E s" and h: "h \<noteq> GAP_CONNHANDLE_INIT"
  shows "hid_inv E (hid_link_terminated E h s)"
    and "h \<notin> set (gapConnHandles (hid_link_terminated E h s))"
    and "g \<noteq> GAP_CONNHANDLE_INIT \<Longrightarrow> ble_hid_dev_conn_secure E g (hid_link_terminated E h s) \<Longrightarrow>
      ble_hid_dev_conn_secure E g s \<and> g \<noteq> h"
proof -
  let ?s' = "hid_link_terminated E h s"
  let ?n = "kbd_max_conn (mode E)"
  define s1 where "s1 = hidDevHandleConnStatusCB E h LinkRemoved
    (ble_batt_handle_conn_status_cb E h LinkRemoved s)"
  define k where "k = hiddev_slot_of E h s"
  define s2 where "s2 = (if k \<ge> 0
    then s1\<lparr>gapConnHandles := (gapConnHandles s1)[nat k := GAP_CONNHANDLE_INIT],
            hidDevConnSecure := (hidDevConnSecure s1)[nat k := False]\<rparr> else s1)"
  have v1: "link_view s1 = link_view s" by (simp add: s1_def)
  then have f1: "gapConnHandles s1 = gapConnHandles s" "hidDevConnSecure s1 = hidDevConnSecure s"
    by (simp_all add: link_view_def)
  then have k1: "hiddev_slot_of E h s1 = k" by (simp add: hiddev_slot_of_def k_def)
  have "link_view (hidDevDisconnected E h s) = link_view s2"
    unfolding hidDevDisconnected_def Let_def s1_def [symmetric] k1 s2_def [symmetric] by simp
  then have v2: "link_view ?s' = link_view s2"
    by (simp add: hid_link_terminated_def Let_def)
  have L: "length (gapConnHandles s) = ?n" "length (hidDevConnSecure s) = ?n"
    using inv by (simp_all add: hid_inv_def)
  have i1: "hid_inv E s1" using inv by (simp add: hid_inv_view [OF v1])
  have kb: "0 \<le> k \<Longrightarrow> nat k < ?n" using hidtab.slot_of_Some(1) [OF inv] by (simp add: k_def)
  have i2: "hid_inv E s2"
    using i1 L f1 kb by (auto simp: s2_def hid_inv_def nth_list_update)
  then show i': "hid_inv E ?s'" by (simp add: hid_inv_view [OF v2])
  have gone: "h \<notin> set (gapConnHandles s2)"
  proof (rule hidtab.slot_of_cases [OF inv h])
    assume "hiddev_slot_of E h s < 0" "h \<notin> set (gapConnHandles s)"
    then show ?thesis by (simp add: s2_def k_def f1)
  next
    fix i assume i: "i < ?n" "gapConnHandles s ! i = h" "hiddev_slot_of E h s = int i"
    have "\<forall>j<?n. (gapConnHandles s)[i := GAP_CONNHANDLE_INIT] ! j \<noteq> h"
      using i h L hidtab.uniq [OF inv i(1)] by (metis nth_list_update_eq nth_list_update_neq)
    then show ?thesis using i L by (auto simp: s2_def k_def f1 in_set_conv_nth)
  qed
  then show "h \<notin> set (gapConnHandles ?s')" using v2 by (simp add: link_view_def)
  show "ble_hid_dev_conn_secure E g s \<and> g \<noteq> h"
    if g: "g \<noteq> GAP_CONNHANDLE_INIT" "ble_hid_dev_conn_secure E g ?s'"
  proof
    have sec: "\<exists>i<?n. gapConnHandles s2 ! i = g \<and> hidDevConnSecure s2 ! i"
      using g(2) secure_view [OF v2] secureD [OF _ i2] by blast
    moreover have "length (gapConnHandles s2) = ?n" using i2 by (simp add: hid_inv_def)
    ultimately show "g \<noteq> h" using gone by (metis nth_mem)
    show "ble_hid_dev_conn_secure E g s"
    proof (cases "0 \<le> k")
      case True
      then show ?thesis
        using sec g(1) L f1 kb unfolding secure_iff [OF inv g(1)]
        by (auto simp: s2_def nth_list_update split: if_splits)
    next
      case False
      then show ?thesis using sec f1 unfolding secure_iff [OF inv g(1)] by (simp add: s2_def)
    qed
  qed
qed


section \<open>Histories\<close>

text \<open>The entry points of the HID device, in the order the stack and the scheduler call them.\<close>

datatype hid_ev =
    EvGap u8 gap_event
  | EvPair u16 pair_state u8
  | EvParam u16 u16 u16
  | EvReport u16 u8 u8 "u8 list"
  | EvTask u16
  | EvWrite u16 u16 u16 "u8 list" nat

fun hid_step ::
  "(u8 \<Rightarrow> gap_event \<Rightarrow> 'a hid_state_scheme \<Rightarrow> 'a hid_state_scheme) \<Rightarrow> env \<Rightarrow> hid_ev \<Rightarrow>
   'a hid_state_scheme \<Rightarrow> 'a hid_state_scheme" where
  "hid_step cb E (EvGap st g) s = hidDevGapStateCB cb E st g s"
| "hid_step cb E (EvPair c st status) s = hidDevPairStateCB E c st status s"
| "hid_step cb E (EvParam c intv lat) s = hidDevParamUpdateCB E c intv lat s"
| "hid_step cb E (EvReport c i t d) s = snd (ble_hid_dev_report E c i t d s)"
| "hid_step cb E (EvTask events) s = snd (ble_hid_dev_process_event E events s)"
| "hid_step cb E (EvWrite c u h v ofs) s = snd (ble_hid_dev_write_attr_cb E c u h v ofs s)"

definition hid_run ::
  "(u8 \<Rightarrow> gap_event \<Rightarrow> 'a hid_state_scheme \<Rightarrow> 'a hid_state_scheme) \<Rightarrow> env \<Rightarrow> hid_ev list \<Rightarrow>
   'a hid_state_scheme \<Rightarrow> 'a hid_state_scheme" where
  "hid_run cb E evs s = fold (hid_step cb E) evs s"

text \<open>
  The stack never reports a link under the handle that marks a free slot.
\<close>

fun link_handle :: "hid_ev \<Rightarrow> u16 option" where
  "link_handle (EvGap st (LinkEstablished h a ty i l)) = Some h"
| "link_handle (EvGap st (LinkTerminated h r)) = Some h"
| "link_handle (EvGap st (OtherGapEvent oc)) = None"
| "link_handle (EvPair c st status) = None"
| "link_handle (EvParam c i l) = None"
| "link_handle (EvReport c i t d) = None"
| "link_handle (EvTask events) = None"
| "link_handle (EvWrite c u h v ofs) = None"

definition real_links :: "hid_ev list \<Rightarrow> bool" where
  "real_links evs = (\<forall>e\<in>set evs. link_handle e \<noteq> Some GAP_CONNHANDLE_INIT)"

text \<open>
  The specification of trust: \<open>h\<close> is trusted after a history when it has paired or bonded with
  status \<open>SUCCESS\<close> since the last time a link with that handle came up or went down.
\<close>

fun trust_step :: "u16 \<Rightarrow> hid_ev \<Rightarrow> bool \<Rightarrow> bool" where
  "trust_step h (EvPair c st status) t =
     (t \<or> (c = h \<and> status = SUCCESS \<and> (st = PairComplete \<or> st = PairBonded)))"
| "trust_step h (EvGap st (LinkEstablished g a ty i l)) t = (t \<and> g \<noteq> h)"
| "trust_step h (EvGap st (LinkTerminated g r)) t = (t \<and> g \<noteq> h)"
| "trust_step h (EvGap st (OtherGapEvent oc)) t = t"
| "trust_step h (EvParam c i l) t = t"
| "trust_step h (EvReport c i ty d) t = t"
| "trust_step h (EvTask events) t = t"
| "trust_step h (EvWrite c u g v ofs) t = t"

definition trusted :: "u16 \<Rightarrow> hid_ev list \<Rightarrow> bool" where
  "trusted h evs = fold (trust_step h) evs False"

text \<open>
  What the HID device needs of the application's callback: it leaves the connection table alone.
  The keyboard application provides it; its instance is in the theory of the host slots.
\<close>

locale hid_app =
  fixes cb :: "u8 \<Rightarrow> gap_event \<Rightarrow> 'a hid_state_scheme \<Rightarrow> 'a hid_state_scheme"
  assumes keeps_links: "link_view (cb st g s) = link_view s"
begin

lemma view_gap:
  "link_view (hidDevGapStateCB cb E st g s) =
   link_view (case g of
       LinkEstablished h addr ty intv lat \<Rightarrow> hid_link_established E h intv lat s
     | LinkTerminated h reason \<Rightarrow> hid_link_terminated E h s
     | OtherGapEvent oc \<Rightarrow> s)"
  by (simp add: hidDevGapStateCB_def Let_def keeps_links)

lemma step_inv:
  assumes "hid_inv E s" "link_handle e \<noteq> Some GAP_CONNHANDLE_INIT"
  shows "hid_inv E (hid_step cb E e s)"
proof (cases e)
  case (EvGap st g)
  show ?thesis
    using assms hid_established(1) [OF assms(1)] hid_terminated(1) [OF assms(1)]
    by (cases g) (simp_all add: EvGap hid_inv_view [OF view_gap])
next
  case (EvPair c st status)
  then show ?thesis using hid_pair_state(1) [OF assms(1)] by simp
next
  case (EvParam c i l)
  then show ?thesis using hid_param_update(1) [OF assms(1)] by simp
qed (use assms(1) in \<open>simp_all add: hid_inv_view [OF link_view_report] hid_inv_view [OF link_view_task]
  hid_inv_view [OF link_view_write]\<close>)

text \<open>The simulation: what is secure after a step was trusted before it, or became trusted by it.\<close>

lemma step_trust:
  assumes inv: "hid_inv E s" and e: "link_handle e \<noteq> Some GAP_CONNHANDLE_INIT"
    and h: "h \<noteq> GAP_CONNHANDLE_INIT"
    and sec: "ble_hid_dev_conn_secure E h (hid_step cb E e s)"
  shows "trust_step h e (ble_hid_dev_conn_secure E h s)"
proof (cases e)
  case (EvGap st g)
  show ?thesis
  proof (cases g)
    case (LinkEstablished k a ty i l)
    with EvGap e sec show ?thesis
      using hid_established(2) [OF inv, where h = k and intv = i and lat = l]
        hid_established(3) [OF inv, where h = k and g = h and intv = i and lat = l] h
      by (cases "k = h") (auto simp: secure_view [OF view_gap])
  next
    case (LinkTerminated k r)
    with EvGap e sec show ?thesis
      using hid_terminated(3) [OF inv, where h = k and g = h] h by (auto simp: secure_view [OF view_gap])
  next
    case (OtherGapEvent oc)
    with EvGap sec show ?thesis by (simp add: secure_view [OF view_gap])
  qed
next
  case (EvPair c st status)
  with sec show ?thesis using hid_pair_state(2) [OF inv _ h] by auto
next
  case (EvParam c i l)
  with sec show ?thesis using hid_param_update(2) [OF inv] by simp
qed (use sec in \<open>simp_all add: secure_view [OF link_view_report] secure_view [OF link_view_task]
  secure_view [OF link_view_write]\<close>)

lemma trust_mono: "trust_step h e a \<Longrightarrow> a \<longrightarrow> b \<Longrightarrow> trust_step h e b"
  by (cases "(h, e, a)" rule: trust_step.cases) auto

lemma run_inv: "hid_inv E s \<Longrightarrow> real_links evs \<Longrightarrow> hid_inv E (hid_run cb E evs s)"
  by (induction evs arbitrary: s) (simp_all add: hid_run_def real_links_def step_inv)

lemma run_trust:
  assumes "hid_inv E s" "real_links evs" "h \<noteq> GAP_CONNHANDLE_INIT" "\<not> ble_hid_dev_conn_secure E h s"
  shows "ble_hid_dev_conn_secure E h (hid_run cb E evs s) \<Longrightarrow> trusted h evs"
  using assms
proof (induction evs rule: rev_induct)
  case Nil
  then show ?case by (simp add: hid_run_def)
next
  case (snoc e evs)
  let ?t = "hid_run cb E evs s"
  have r: "real_links evs" "link_handle e \<noteq> Some GAP_CONNHANDLE_INIT"
    using snoc.prems(3) by (simp_all add: real_links_def)
  have "trust_step h e (ble_hid_dev_conn_secure E h ?t)"
    using snoc.prems(1) by (intro step_trust [OF run_inv [OF snoc.prems(2) r(1)] r(2) snoc.prems(4)])
      (simp add: hid_run_def)
  moreover have "ble_hid_dev_conn_secure E h ?t \<longrightarrow> trusted h evs"
    using snoc r(1) by blast
  ultimately have "trust_step h e (trusted h evs)" by (rule trust_mono)
  then show ?case by (simp add: trusted_def)
qed

end

section \<open>The gate in front of a report\<close>

fun is_notification :: "act \<Rightarrow> bool" where
  "is_notification (Notification c h d) = True"
| "is_notification _ = False"

text \<open>What an operation has added to the log.\<close>

definition new_outs :: "'a base_scheme \<Rightarrow> 'b base_scheme \<Rightarrow> act list" where
  "new_outs s s' = drop (length (outs s)) (outs s')"

lemma new_outs_emit [simp]: "new_outs s (emit a s) = [a]"
  by (simp add: new_outs_def)

lemma new_outs_refl [simp]: "new_outs s s = []"
  by (simp add: new_outs_def)

lemma new_outs_emit2 [simp]:
  "new_outs s (emit b (emit a s)) = [a, b]"
  "new_outs s (emit d (emit c (emit b (emit a s)))) = [a, b, c, d]"
  by (simp_all add: new_outs_def)

definition input_report_open :: "env \<Rightarrow> u16 \<Rightarrow> u8 \<Rightarrow> u8 \<Rightarrow> 'a hid_state_scheme \<Rightarrow> rpt_map \<Rightarrow> bool" where
  "input_report_open E c i t s r =
     (ble_hid_dev_conn_secure E c s \<and> hidDevRptById i t s = Some r \<and> att_found E (rpt_cccd r) \<and>
      ccc_read E (outs s) c (rpt_cccd r) AND GATT_CLIENT_CFG_NOTIFY \<noteq> 0)"

lemma noti_outs:
  "fst (HidDev_sendNoti E c h d s) = SUCCESS \<Longrightarrow>
   new_outs s (snd (HidDev_sendNoti E c h d s)) = [Notification c h d]"
  "filter is_notification (new_outs s (snd (HidDev_sendNoti E c h d s))) = [] \<or>
   filter is_notification (new_outs s (snd (HidDev_sendNoti E c h d s))) = [Notification c h d]"
  by (auto simp: HidDev_sendNoti_def call_def Let_def bleMemAllocError_def split: if_splits)

text \<open>
  C6: a HID report reaches the air only on a connection that is in the table, secured, and
  subscribed to that report; a report that returns \<open>SUCCESS\<close> has caused exactly one notification, of
  exactly that value under the report's handle; any other outcome has sent at most the attempt the
  stack refused, and never a notification on a connection that is not open.
\<close>

theorem hid_report_gate:
  assumes "ble_hid_dev_report E c i t d s = (st, s')"
  shows "(st = SUCCESS \<longrightarrow> (\<exists>r. input_report_open E c i t s r \<and>
            new_outs s s' = [Notification c (rpt_handle r) d])) \<and>
         (filter is_notification (new_outs s s') \<noteq> [] \<longrightarrow> (\<exists>r. input_report_open E c i t s r \<and>
            filter is_notification (new_outs s s') = [Notification c (rpt_handle r) d])) \<and>
         link_view s' = link_view s"
proof -
  let ?k = "hiddev_slot_of E c s"
  have v: "link_view s' = link_view s" using link_view_report [of E c i t d s] assms by simp
  show ?thesis
  proof (cases "ble_hid_dev_conn_secure E c s")
    case False
    then have "st = bleNotReady" "filter is_notification (new_outs s s') = []"
      using assms by (auto simp: ble_hid_dev_report_def ble_hid_dev_conn_secure_def Let_def
          hidDevHighAdvertising_def hidDevInitialAdvertising_def hid_advertising_def split: if_splits)
    then show ?thesis using v by (simp add: bleNotReady_def)
  next
    case True
    then have r: "hidDevSendReport E c i t d s = (st, s')"
      using assms by (auto simp: ble_hid_dev_report_def ble_hid_dev_conn_secure_def Let_def split: if_splits)
    show ?thesis
    proof (cases "\<exists>r. input_report_open E c i t s r")
      case True
      then obtain r where o: "input_report_open E c i t s r" by blast
      then have "HidDev_sendNoti E c (rpt_handle r) d s = (st, s')"
        using r by (simp add: hidDevSendReport_def input_report_open_def)
      then show ?thesis using noti_outs [where E = E and c = c and h = "rpt_handle r" and d = d and s = s] o v by auto
    next
      case no: False
      have "st = bleNoResources \<and> s' = s"
        using r no True
        by (auto simp: hidDevSendReport_def input_report_open_def split: option.splits if_splits)
      then show ?thesis using v by (simp add: bleNoResources_def)
    qed
  qed
qed

theorem hid_report_gate_witness:
  "let E = demo_env MODE_KBD_MULTI;
       s = (hid_init_state E)\<lparr>hidRptMap := ble_hid_kbd_rpt_table E,
                              gapConnHandles := [7, GAP_CONNHANDLE_INIT, 9],
                              hidDevConnSecure := [True, False, False]\<rparr>;
       s' = snd (ble_hid_dev_report E 7 0 1 [1, 2] s)
   in new_outs s s' = [Notification 7 28 [1, 2]] \<and>
      filter is_notification (new_outs s (snd (ble_hid_dev_report E 9 0 1 [1, 2] s))) = []"
proof -
  let ?E = "demo_env MODE_KBD_MULTI"
  let ?s = "(hid_init_state ?E)\<lparr>hidRptMap := ble_hid_kbd_rpt_table ?E,
                              gapConnHandles := [7, GAP_CONNHANDLE_INIT, 9],
                              hidDevConnSecure := [True, False, False]\<rparr>"
  have "fst (ble_hid_dev_report ?E 7 0 1 [1, 2] ?s) = SUCCESS" by code_simp
  then have "ble_hid_dev_report ?E 7 0 1 [1, 2] ?s = (SUCCESS, snd (ble_hid_dev_report ?E 7 0 1 [1, 2] ?s))"
    by (simp only: prod_eq_iff fst_conv snd_conv)
  from hid_report_gate [OF this] obtain r where r: "input_report_open ?E 7 0 1 ?s r"
      "new_outs ?s (snd (ble_hid_dev_report ?E 7 0 1 [1, 2] ?s)) = [Notification 7 (rpt_handle r) [1, 2]]"
    by blast
  have "map_option rpt_handle (hidDevRptById 0 1 ?s) = Some 28" by code_simp
  with r(1) have "rpt_handle r = 28" by (simp add: input_report_open_def)
  moreover from hid_report_gate [OF prod.collapse [of "ble_hid_dev_report ?E 9 0 1 [1, 2] ?s", symmetric]]
  have "filter is_notification (new_outs ?s (snd (ble_hid_dev_report ?E 9 0 1 [1, 2] ?s))) \<noteq> [] \<longrightarrow>
      ble_hid_dev_conn_secure ?E 9 ?s" by (auto simp: input_report_open_def)
  moreover have "\<not> ble_hid_dev_conn_secure ?E 9 ?s" by code_simp
  ultimately show ?thesis using r(2) by (simp add: Let_def)
qed

end
