(* ===== verification/Slot_Store.thy ===== *)
theory Slot_Store
  imports Hid_Link
begin

text \<open>
  The host slots of \<^verbatim>\<open>hidkbd_ble.c\<close>: which host owns which of BLE1, BLE2 and BLE3, its label, typing
  pace, own address and address type, the page of DataFlash that keeps them over a reset, the
  advertised name, and which slot a link lands on.  The output target \<open>kb_target\<close> of
  \<^verbatim>\<open>at_cmds.c\<close>, on which both depend, is declared here as well.
\<close>

section \<open>State\<close>

record kbd_conn =
  c_handle :: u16
  c_addr :: "u8 list"

record slots_state = hid_state +
  kb_target :: u8
  kbd_conns :: "kbd_conn list"
  slotmap :: "u8 list list"
  slotname :: "string list"
  slotpace :: "u16 list"
  slotmac :: "u8 list list"
  slottype :: "u8 list"
  pair_slot :: int
  attDeviceName :: "u8 list"
  advertData :: "u8 list"

definition SLOTMAP_MAGIC :: u32 where "SLOTMAP_MAGIC = 0xA77E0001"
definition SLOTNAME_LEN :: nat where "SLOTNAME_LEN = 12"
definition SLOTPACE_DFLT :: u16 where "SLOTPACE_DFLT = 30"
definition APP_SLOTMAP_FLASH_ADDR :: nat where "APP_SLOTMAP_FLASH_ADDR = 0x7B00"
definition GAP_DEVICE_NAME_LEN :: nat where "GAP_DEVICE_NAME_LEN = 21"
definition ADDRTYPE_STATIC :: u8 where "ADDRTYPE_STATIC = 1"

definition KB_TGT_USB :: u8 where "KB_TGT_USB = 0x01"
definition KB_TGT_BLE1 :: u8 where "KB_TGT_BLE1 = 0x02"
definition KB_TGT_BLE2 :: u8 where "KB_TGT_BLE2 = 0x04"
definition KB_TGT_BLE3 :: u8 where "KB_TGT_BLE3 = 0x08"
definition KB_TGT_BLE_ALL :: u8 where "KB_TGT_BLE_ALL = (KB_TGT_BLE1 OR KB_TGT_BLE2 OR KB_TGT_BLE3)"

lemmas kb_tgt_defs = KB_TGT_USB_def KB_TGT_BLE1_def KB_TGT_BLE2_def KB_TGT_BLE3_def KB_TGT_BLE_ALL_def

text \<open>\<open>KB_TGT_BLE1 << s\<close>.\<close>

definition tgt_bit :: "nat \<Rightarrow> u8" where
  "tgt_bit i = push_bit i KB_TGT_BLE1"

section \<open>Targets (\<^verbatim>\<open>at_cmds.c\<close>)\<close>

definition kb_ble_slot_allowed :: "env \<Rightarrow> nat \<Rightarrow> 'a slots_state_scheme \<Rightarrow> bool" where
  "kb_ble_slot_allowed E slot s = (slot < kbd_max_conn (mode E) \<and> kb_target s AND tgt_bit slot \<noteq> 0)"

definition kb_ble_advert_wanted :: "'a slots_state_scheme \<Rightarrow> bool" where
  "kb_ble_advert_wanted s = (kb_target s AND KB_TGT_BLE_ALL \<noteq> 0)"

text \<open>A build without the keyboard role has a stub that answers -1.\<close>

definition kb_ble_active_slot :: "env \<Rightarrow> 'a slots_state_scheme \<Rightarrow> int" where
  "kb_ble_active_slot E s =
     (if has_kbd (mode E)
      then first_index (kbd_max_conn (mode E)) (\<lambda>i. kb_target s AND tgt_bit i \<noteq> 0) else -1)"

section \<open>Lookups\<close>

definition slotmap_find :: "env \<Rightarrow> u8 list \<Rightarrow> 'a slots_state_scheme \<Rightarrow> int" where
  "slotmap_find E addr s =
     first_index (kbd_max_conn (mode E)) (\<lambda>i. slotmap s ! i ! 0 \<noteq> 0xFF \<and> slotmap s ! i = take 6 addr)"

definition kbd_slot_of :: "env \<Rightarrow> u16 \<Rightarrow> 'a slots_state_scheme \<Rightarrow> int" where
  "kbd_slot_of E h s = first_index (kbd_max_conn (mode E)) (\<lambda>i. c_handle (kbd_conns s ! i) = h)"

definition slot_free :: "'a slots_state_scheme \<Rightarrow> nat \<Rightarrow> bool" where
  "slot_free s i = (c_handle (kbd_conns s ! i) = GAP_CONNHANDLE_INIT \<and> slotmap s ! i ! 0 = 0xFF)"

definition kbd_next_pair_slot :: "env \<Rightarrow> 'a slots_state_scheme \<Rightarrow> int" where
  "kbd_next_pair_slot E s =
     (if pair_slot s \<ge> 0 \<and> pair_slot s < int (kbd_max_conn (mode E)) \<and> slot_free s (nat (pair_slot s))
      then pair_slot s
      else let act = kb_ble_active_slot E s in
        if act \<ge> 0 \<and> act < int (kbd_max_conn (mode E)) \<and> slot_free s (nat act) then act
        else first_index (kbd_max_conn (mode E)) (slot_free s))"

definition kb_ble_conn_count :: "env \<Rightarrow> 'a slots_state_scheme \<Rightarrow> nat" where
  "kb_ble_conn_count E s =
     (if has_kbd (mode E)
      then count_index (kbd_max_conn (mode E)) (\<lambda>i. c_handle (kbd_conns s ! i) \<noteq> GAP_CONNHANDLE_INIT)
      else 0)"

definition kb_ble_connected :: "env \<Rightarrow> 'a slots_state_scheme \<Rightarrow> bool" where
  "kb_ble_connected E s = (kb_ble_conn_count E s > 0)"

definition kb_ble_slot_handle :: "env \<Rightarrow> nat \<Rightarrow> 'a slots_state_scheme \<Rightarrow> u16" where
  "kb_ble_slot_handle E slot s =
     (if has_kbd (mode E) \<and> slot < kbd_max_conn (mode E) then c_handle (kbd_conns s ! slot)
      else GAP_CONNHANDLE_INIT)"

section \<open>The advertised name\<close>

text \<open>
  \<open>kbd_name_update\<close>: \<^verbatim>\<open>AT-Node-XXXX\<close> with the two low bytes of the active slot's address, and
  \<^verbatim>\<open>-N\<close> for the slot the next new host will get.
\<close>

definition kbd_name :: "env \<Rightarrow> 'a slots_state_scheme \<Rightarrow> u8 list" where
  "kbd_name E s =
     (let act = kb_ble_active_slot E s;
          mac = (if act \<ge> 0 \<and> act < int (kbd_max_conn (mode E)) then slotmac s ! nat act else chip_mac E);
          nxt = kbd_next_pair_slot E s
      in bytes_of (''AT-Node-'' @ hex02 (mac ! 1) @ hex02 (mac ! 0)) @
         (if nxt \<ge> 0 then [0x2D, 0x30 + of_int nxt + 1] else []))"

definition kbd_name_update :: "env \<Rightarrow> 'a slots_state_scheme \<Rightarrow> 'a slots_state_scheme" where
  "kbd_name_update E s =
     (let name = kbd_name E s;
          n = min (length name) 14;
          adv = (advertData s)[7 := of_nat (1 + n)]
      in s\<lparr>attDeviceName := name @ replicate (GAP_DEVICE_NAME_LEN - length name) 0,
           advertData := take 9 adv @ take n name @ drop (9 + n) adv\<rparr>)"

section \<open>The page of DataFlash\<close>

definition slice :: "nat \<Rightarrow> nat \<Rightarrow> 'b list \<Rightarrow> 'b list" where
  "slice a n xs = take n (drop a xs)"

definition slotmap_image :: "'a slots_state_scheme \<Rightarrow> u8 list" where
  "slotmap_image s =
     le32 SLOTMAP_MAGIC @ concat (slotmap s) @ bytes_of (concat (slotname s)) @
     concat (map le16 (slotpace s)) @ concat (slotmac s) @ slottype s"

text \<open>The 96-byte buffer is a local variable: what lies behind the image is not initialised.\<close>

definition slotmap_buf :: "env \<Rightarrow> 'a slots_state_scheme \<Rightarrow> u8 list" where
  "slotmap_buf E s =
     slotmap_image s @ map (stack_junk E (outs s)) [length (slotmap_image s)..<96]"

definition slotmap_save :: "env \<Rightarrow> 'a slots_state_scheme \<Rightarrow> 'a slots_state_scheme" where
  "slotmap_save E s =
     (let buf = slotmap_buf E s;
          s1 = snd (EEPROM_ERASE E APP_SLOTMAP_FLASH_ADDR (length buf) s);
          s2 = snd (EEPROM_WRITE E APP_SLOTMAP_FLASH_ADDR buf s1)
      in kbd_name_update E s2)"

definition load_name :: "bool \<Rightarrow> u8 list \<Rightarrow> string" where
  "load_name ok nm =
     (if ok \<and> nm ! 0 \<noteq> 0xFF then map char_of_byte nm
      else replicate SLOTNAME_LEN NUL)[SLOTNAME_LEN - 1 := NUL]"

definition load_pace :: "bool \<Rightarrow> u8 list \<Rightarrow> u16" where
  "load_pace ok bs =
     (let v = of_le16 bs
      in if ok \<and> v \<noteq> 0xFFFF \<and> v \<ge> 5 \<and> v \<le> 2000 then v else SLOTPACE_DFLT)"

text \<open>An address whose first and last byte are \<open>0xFF\<close> counts as unset and is derived.\<close>

definition load_mac :: "env \<Rightarrow> bool \<Rightarrow> nat \<Rightarrow> u8 list \<Rightarrow> u8 list" where
  "load_mac E ok i bs =
     (let m = (if ok then bs else replicate 6 0xFF)
      in if m ! 0 = 0xFF \<and> m ! 5 = 0xFF
         then (take 6 (chip_mac E))[0 := chip_mac E ! 0 + of_nat i] else m)"

definition slotmap_load :: "env \<Rightarrow> 'a slots_state_scheme \<Rightarrow> 'a slots_state_scheme" where
  "slotmap_load E s =
     (let n = kbd_max_conn (mode E);
          buf = EEPROM_READ E APP_SLOTMAP_FLASH_ADDR 96 s;
          ok = (take 4 buf = le32 SLOTMAP_MAGIC);
          nm = 4 + n * 6; pc = nm + n * SLOTNAME_LEN; mc = pc + n * 2; ty = mc + n * 6
      in s\<lparr>slotmap := (if ok then map (\<lambda>i. slice (4 + i * 6) 6 buf) [0..<n]
                       else replicate n (replicate 6 0xFF)),
           slotname := map (\<lambda>i. load_name ok (slice (nm + i * SLOTNAME_LEN) SLOTNAME_LEN buf)) [0..<n],
           slotpace := map (\<lambda>i. load_pace ok (slice (pc + i * 2) 2 buf)) [0..<n],
           slotmac := map (\<lambda>i. load_mac E ok i (slice (mc + i * 6) 6 buf)) [0..<n],
           slottype := (if ok then map (\<lambda>i. if buf ! (ty + i) > 1 then 1 else buf ! (ty + i)) [0..<n]
                        else slottype s)\<rparr>)"

section \<open>Where a link lands\<close>

text \<open>The result is the slot, -1 when there is none; \<open>addr\<close> may be the null pointer.\<close>

definition kbd_slot_alloc ::
  "env \<Rightarrow> u16 \<Rightarrow> u8 list option \<Rightarrow> 'a slots_state_scheme \<Rightarrow> int \<times> 'a slots_state_scheme" where
  "kbd_slot_alloc E h addr s =
     (let k = kbd_slot_of E h s in
      if k \<ge> 0 then (k, s)
      else
        let f = (case addr of None \<Rightarrow> -1 | Some a \<Rightarrow> slotmap_find E a s) in
        if f \<ge> 0 \<and> c_handle (kbd_conns s ! nat f) = GAP_CONNHANDLE_INIT
        then (f, s\<lparr>kbd_conns := (kbd_conns s)
                     [nat f := \<lparr>c_handle = h, c_addr = take 6 (the addr)\<rparr>]\<rparr>)
        else
          let p = kbd_next_pair_slot E s in
          if p \<ge> 0 then
            (case addr of
               None \<Rightarrow> (p, s\<lparr>kbd_conns := (kbd_conns s)
                               [nat p := (kbd_conns s ! nat p)\<lparr>c_handle := h\<rparr>]\<rparr>)
             | Some a \<Rightarrow>
                 (p, slotmap_save E
                       (s\<lparr>kbd_conns := (kbd_conns s)[nat p := \<lparr>c_handle = h, c_addr = take 6 a\<rparr>],
                          slotmap := (slotmap s)[nat p := take 6 a]\<rparr>)))
          else (-1, s))"

definition kbd_slot_set_type :: "env \<Rightarrow> nat \<Rightarrow> u8 \<Rightarrow> 'a slots_state_scheme \<Rightarrow> 'a slots_state_scheme" where
  "kbd_slot_set_type E slot ty s =
     (if slot < kbd_max_conn (mode E) \<and> slottype s ! slot \<noteq> ty \<and> ty \<le> 1
      then slotmap_save E (s\<lparr>slottype := (slottype s)[slot := ty]\<rparr>) else s)"

section \<open>Per-slot accessors\<close>

definition kb_slot_ok :: "env \<Rightarrow> nat \<Rightarrow> bool" where
  "kb_slot_ok E slot = (has_kbd (mode E) \<and> slot < kbd_max_conn (mode E))"

definition kb_slot_up :: "env \<Rightarrow> nat \<Rightarrow> 'a slots_state_scheme \<Rightarrow> bool" where
  "kb_slot_up E slot s =
     (kb_slot_ok E slot \<and> c_handle (kbd_conns s ! slot) \<noteq> GAP_CONNHANDLE_INIT)"

definition kb_ble_slot_notify :: "env \<Rightarrow> nat \<Rightarrow> 'a slots_state_scheme \<Rightarrow> bool" where
  "kb_ble_slot_notify E slot s =
     (if kb_slot_up E slot s then ble_hid_dev_conn_notify E (c_handle (kbd_conns s ! slot)) s else False)"

definition kb_ble_slot_secure :: "env \<Rightarrow> nat \<Rightarrow> 'a slots_state_scheme \<Rightarrow> bool" where
  "kb_ble_slot_secure E slot s =
     (if kb_slot_up E slot s then ble_hid_dev_conn_secure E (c_handle (kbd_conns s ! slot)) s else False)"

definition kb_ble_slot_params :: "env \<Rightarrow> nat \<Rightarrow> 'a slots_state_scheme \<Rightarrow> (u16 \<times> u16) option" where
  "kb_ble_slot_params E slot s =
     (if kb_slot_up E slot s
      then Some (ble_hid_dev_conn_interval E (c_handle (kbd_conns s ! slot)) s) else None)"

definition kb_ble_slot_addr :: "env \<Rightarrow> nat \<Rightarrow> 'a slots_state_scheme \<Rightarrow> u8 list option" where
  "kb_ble_slot_addr E slot s =
     (if kb_slot_up E slot s then Some (c_addr (kbd_conns s ! slot)) else None)"

definition kb_ble_slot_bound_addr :: "env \<Rightarrow> nat \<Rightarrow> 'a slots_state_scheme \<Rightarrow> u8 list option" where
  "kb_ble_slot_bound_addr E slot s =
     (if kb_slot_ok E slot \<and> slotmap s ! slot ! 0 \<noteq> 0xFF then Some (slotmap s ! slot) else None)"

definition kb_ble_slot_name :: "env \<Rightarrow> nat \<Rightarrow> 'a slots_state_scheme \<Rightarrow> string" where
  "kb_ble_slot_name E slot s = (if kb_slot_ok E slot then cstr_at (slotname s ! slot) 0 else [])"

definition kb_ble_slot_pace :: "env \<Rightarrow> nat \<Rightarrow> 'a slots_state_scheme \<Rightarrow> u16" where
  "kb_ble_slot_pace E slot s = (if kb_slot_ok E slot then slotpace s ! slot else SLOTPACE_DFLT)"

definition kb_ble_slot_mac :: "env \<Rightarrow> nat \<Rightarrow> 'a slots_state_scheme \<Rightarrow> u8 list option" where
  "kb_ble_slot_mac E slot s = (if kb_slot_ok E slot then Some (slotmac s ! slot) else None)"

definition label_char :: "char \<Rightarrow> bool" where
  "label_char c =
     ((65 \<le> cc c \<and> cc c \<le> 90) \<or> (97 \<le> cc c \<and> cc c \<le> 122) \<or> (48 \<le> cc c \<and> cc c \<le> 57) \<or>
      c = CHR ''-'' \<or> c = CHR ''_'')"

text \<open>
  The loop of \<open>kb_ble_slot_set_name\<close> on the 12 bytes of a label: it stores as it checks, so a bad
  character leaves the new characters before it in the label.  The result says whether the loop ran
  to its end, and with which index.
\<close>

fun name_loop :: "nat \<Rightarrow> string \<Rightarrow> string \<Rightarrow> bool \<times> nat \<times> string" where
  "name_loop n [] m = (True, n, m)"
| "name_loop n (c # cs) m =
     (if n < SLOTNAME_LEN - 1 then
        (if label_char c then name_loop (n + 1) cs (m[n := c]) else (False, n, m))
      else (True, n, m))"

definition kb_ble_slot_set_name ::
  "env \<Rightarrow> nat \<Rightarrow> string \<Rightarrow> 'a slots_state_scheme \<Rightarrow> int \<times> 'a slots_state_scheme" where
  "kb_ble_slot_set_name E slot name s =
     (if \<not> kb_slot_ok E slot then (-1, s)
      else
        let (ok, n, m) = name_loop 0 name (slotname s ! slot) in
        if ok then (0, slotmap_save E (s\<lparr>slotname := (slotname s)[slot := m[n := NUL]]\<rparr>))
        else (-1, s\<lparr>slotname := (slotname s)[slot := m]\<rparr>))"

definition kb_ble_slot_set_pace ::
  "env \<Rightarrow> nat \<Rightarrow> u16 \<Rightarrow> 'a slots_state_scheme \<Rightarrow> int \<times> 'a slots_state_scheme" where
  "kb_ble_slot_set_pace E slot ms s =
     (if \<not> kb_slot_ok E slot \<or> ms < 5 \<or> ms > 2000 then (-1, s)
      else (0, slotmap_save E (s\<lparr>slotpace := (slotpace s)[slot := ms]\<rparr>)))"

definition kb_ble_slot_set_mac ::
  "env \<Rightarrow> nat \<Rightarrow> u8 list \<Rightarrow> 'a slots_state_scheme \<Rightarrow> int \<times> 'a slots_state_scheme" where
  "kb_ble_slot_set_mac E slot addr s =
     (if \<not> kb_slot_ok E slot \<or> addr ! 5 AND 0xC0 \<noteq> 0xC0 then (-1, s)
      else (0, slotmap_save E (s\<lparr>slotmac := (slotmac s)[slot := take 6 addr]\<rparr>)))"

definition kb_ble_factory_reset :: "env \<Rightarrow> 'a slots_state_scheme \<Rightarrow> 'a slots_state_scheme" where
  "kb_ble_factory_reset E s =
     (if \<not> has_kbd (mode E) then s
      else
        let n = kbd_max_conn (mode E);
            s1 = s\<lparr>slotmap := replicate n (replicate 6 0xFF),
                   slotname := replicate n (replicate SLOTNAME_LEN NUL),
                   slotmac := replicate n (replicate 6 0xFF),
                   slotpace := replicate n SLOTPACE_DFLT\<rparr>
        in slotmap_load E (snd (EEPROM_ERASE E APP_SLOTMAP_FLASH_ADDR 96 s1)))"

definition kb_ble_unbind_slot ::
  "env \<Rightarrow> nat \<Rightarrow> 'a slots_state_scheme \<Rightarrow> int \<times> 'a slots_state_scheme" where
  "kb_ble_unbind_slot E slot s =
     (if \<not> kb_slot_ok E slot \<or> slotmap s ! slot ! 0 = 0xFF then (-1, s)
      else
        let addr = slotmap s ! slot;
            s1 = slotmap_save E
                   (s\<lparr>slotmap := (slotmap s)[slot := replicate 6 0xFF],
                      slotname := (slotname s)[slot := (slotname s ! slot)[0 := NUL]],
                      slotpace := (slotpace s)[slot := SLOTPACE_DFLT]\<rparr>);
            s2 = (if c_handle (kbd_conns s1 ! slot) \<noteq> GAP_CONNHANDLE_INIT
                  then emit (Terminate (c_handle (kbd_conns s1 ! slot))) s1 else s1)
        in (0, emit (BondSet GAPBOND_ERASE_SINGLEBOND (1 # addr)) s2))"

definition kb_ble_disconnect_slot ::
  "env \<Rightarrow> nat \<Rightarrow> 'a slots_state_scheme \<Rightarrow> int \<times> 'a slots_state_scheme" where
  "kb_ble_disconnect_slot E slot s =
     (if kb_slot_up E slot s then (0, emit (Terminate (c_handle (kbd_conns s ! slot))) s) else (-1, s))"

definition kb_ble_disconnect :: "env \<Rightarrow> 'a slots_state_scheme \<Rightarrow> int \<times> 'a slots_state_scheme" where
  "kb_ble_disconnect E s =
     (if kb_ble_conn_count E s = 0 then (-1, s)
      else (0, fold (\<lambda>i s. if c_handle (kbd_conns s ! i) \<noteq> GAP_CONNHANDLE_INIT
                           then emit (Terminate (c_handle (kbd_conns s ! i))) s else s)
                 [0..<kbd_max_conn (mode E)] s))"

definition kb_ble_forget_bonds :: "env \<Rightarrow> 'a base_scheme \<Rightarrow> 'a base_scheme" where
  "kb_ble_forget_bonds E s =
     (if has_kbd (mode E) then emit (BondSet GAPBOND_ERASE_ALLBONDS []) s else s)"

text \<open>\<open>keys\<close> has six entries, \<open>count\<close> of them significant.\<close>

definition report_bytes :: "u8 \<Rightarrow> u8 list \<Rightarrow> nat \<Rightarrow> u8 list" where
  "report_bytes mods keys count = mods # 0 # map (\<lambda>j. if j < count then keys ! j else 0) [0..<6]"

definition kb_ble_send_report_slot ::
  "env \<Rightarrow> nat \<Rightarrow> u8 \<Rightarrow> u8 list \<Rightarrow> nat \<Rightarrow> 'a slots_state_scheme \<Rightarrow> u8 \<times> 'a slots_state_scheme" where
  "kb_ble_send_report_slot E slot mods keys count s =
     (if \<not> kb_slot_up E slot s then (bleNotReady, s)
      else ble_hid_dev_report E (c_handle (kbd_conns s ! slot)) BLE_HID_RPT_ID_KEY_IN
             BLE_HID_REPORT_TYPE_INPUT (report_bytes mods keys count) s)"

definition kb_ble_send_report ::
  "env \<Rightarrow> u8 \<Rightarrow> u8 list \<Rightarrow> nat \<Rightarrow> 'a slots_state_scheme \<Rightarrow> 'a slots_state_scheme" where
  "kb_ble_send_report E mods keys count s =
     (if has_kbd (mode E)
      then fold (\<lambda>i s. snd (kb_ble_send_report_slot E i mods keys count s)) [0..<kbd_max_conn (mode E)] s
      else s)"

end
