(* ===== verification/Kbd_Ble.thy ===== *)
theory Kbd_Ble
  imports Slot_Store
begin

text \<open>
  The keyboard role of \<^verbatim>\<open>hidkbd_ble.c\<close>: the advertising policy, the pairing window, the policy that
  only the targeted slot may hold a link, the task and the connection callback of the keyboard
  application, and its start-up.  The theorems say which hosts get in, and onto which slot.
\<close>

section \<open>Operations\<close>

definition START_DEVICE_EVT :: u16 where "START_DEVICE_EVT = 0x0001"
definition PAIR_WINDOW_EVT :: u16 where "PAIR_WINDOW_EVT = 0x0002"
definition START_PARAM_UPDATE_EVT :: u16 where "START_PARAM_UPDATE_EVT = 0x0004"
definition START_PHY_UPDATE_EVT :: u16 where "START_PHY_UPDATE_EVT = 0x0008"
definition ADV_REARM_EVT :: u16 where "ADV_REARM_EVT = 0x0010"
definition PAIR_WINDOW_MS :: nat where "PAIR_WINDOW_MS = 60000"
definition ADV_REARM_MS :: nat where "ADV_REARM_MS = 3000"
definition START_PARAM_UPDATE_EVT_DELAY :: nat where "START_PARAM_UPDATE_EVT_DELAY = 12800"
definition GAP_ADTYPE_ADV_IND :: u8 where "GAP_ADTYPE_ADV_IND = 0"
definition GAP_ADTYPE_ADV_HDC_DIRECT_IND :: u8 where "GAP_ADTYPE_ADV_HDC_DIRECT_IND = 1"
definition GAPROLE_STARTED :: u8 where "GAPROLE_STARTED = 1"
definition GAPROLE_WAITING :: u8 where "GAPROLE_WAITING = 3"
definition GAPROLE_STATE_ADV_MASK :: u8 where "GAPROLE_STATE_ADV_MASK = 0xF"

lemmas emu_evt_defs = START_DEVICE_EVT_def PAIR_WINDOW_EVT_def START_PARAM_UPDATE_EVT_def
  START_PHY_UPDATE_EVT_def ADV_REARM_EVT_def SYS_EVENT_MSG_def

definition desired_min_intv :: "ble_mode \<Rightarrow> nat" where
  "desired_min_intv m = (if m = MODE_KBD_MULTI then 12 else 8)"
definition desired_max_intv :: "ble_mode \<Rightarrow> nat" where
  "desired_max_intv m = (if m = MODE_KBD_MULTI then 24 else 8)"

definition scanRspData :: "ble_mode \<Rightarrow> u8 list" where
  "scanRspData m = [5, 0x12, of_nat (desired_min_intv m), 0, of_nat (desired_max_intv m), 0,
                    5, 0x02, 0x12, 0x18, 0x0F, 0x18, 2, 0x0A, 0]"

definition advertData_init :: "u8 list" where
  "advertData_init = [2, 0x01, 0x06, 3, 0x19, 0xC1, 0x03, 1, 0x09] @ replicate 14 0"

definition bool_byte :: "bool \<Rightarrow> u8" where
  "bool_byte b = (if b then 1 else 0)"

definition kb_ble_apply_addr :: "env \<Rightarrow> int \<Rightarrow> 'a slots_state_scheme \<Rightarrow> 'a slots_state_scheme" where
  "kb_ble_apply_addr E slot s =
     (if \<not> has_kbd (mode E) then s
      else
        let k = (if slot < 0 \<or> slot \<ge> int (kbd_max_conn (mode E)) then 0 else nat slot);
            s1 = emit (GapSet GAPROLE_ADVERT_ENABLED [0]) s;
            s2 = emit (ConfigAddr ADDRTYPE_STATIC (slotmac s1 ! k)) s1;
            s3 = kbd_name_update E s2;
            s4 = emit (GapSet GAPROLE_ADVERT_DATA (advertData s3)) s3
        in emit (GapSet GAPROLE_ADVERT_ENABLED [1]) s4)"

text \<open>What \<open>kbd_adv_update\<close> decides: whether to advertise, and at whom.\<close>

definition adv_want :: "env \<Rightarrow> 'a slots_state_scheme \<Rightarrow> bool \<times> int" where
  "adv_want E s =
     (if pair_slot s \<ge> 0 \<and> kb_ble_advert_wanted s then (True, -1)
      else if kb_ble_conn_count E s > 0 then (False, -1)
      else
        let act = kb_ble_active_slot E s;
            want = (act \<ge> 0 \<and> (kbd_max_conn (mode E) > 1 \<longrightarrow> slotmap s ! nat act ! 0 \<noteq> 0xFF) \<and>
                    kb_ble_advert_wanted s)
        in (want, if want then act else -1))"

definition kbd_adv_update :: "env \<Rightarrow> 'a slots_state_scheme \<Rightarrow> 'a slots_state_scheme" where
  "kbd_adv_update E s =
     (let (want, act) = adv_want E s;
          s1 = (if act \<ge> 0
                then emit (GapSet GAPROLE_ADV_DIRECT_ADDR (slotmap s ! nat act))
                       (emit (GapSet GAPROLE_ADV_DIRECT_TYPE [slottype s ! nat act]) s)
                else s);
          evt_type = (if act \<ge> 0 then GAP_ADTYPE_ADV_HDC_DIRECT_IND else GAP_ADTYPE_ADV_IND);
          s2 = emit (GapSet GAPROLE_ADVERT_ENABLED [0]) s1;
          s3 = emit (GapSet GAPROLE_ADV_EVENT_TYPE [evt_type]) s2;
          s4 = emit (GapSet GAPROLE_ADVERT_ENABLED [bool_byte want]) s3
      in if want \<and> pair_slot s4 < 0
         then emit (StartTask EmuTask ADV_REARM_EVT (ms1_to_system_time ADV_REARM_MS)) s4
         else emit (StopTask EmuTask ADV_REARM_EVT) s4)"

definition int8_of :: "int \<Rightarrow> int" where
  "int8_of v = (v + 128) mod 256 - 128"

definition kb_ble_pair_open :: "env \<Rightarrow> int \<Rightarrow> 'a slots_state_scheme \<Rightarrow> 'a slots_state_scheme" where
  "kb_ble_pair_open E slot s =
     (if \<not> has_kbd (mode E) then s
      else
        let s1 = s\<lparr>pair_slot := int8_of slot\<rparr>;
            s2 = kbd_adv_update E s1;
            s3 = emit (StartTask EmuTask PAIR_WINDOW_EVT (ms1_to_system_time PAIR_WINDOW_MS)) s2
        in AT_Response (''+BT_PAIR_WINDOW:'' @ dec_int (slot + 1)) s3)"

definition kbd_policy_drop :: "env \<Rightarrow> u8 list \<Rightarrow> 'a slots_state_scheme \<Rightarrow> bool" where
  "kbd_policy_drop E addr s =
     (if kbd_max_conn (mode E) > 1 then
        (let f = slotmap_find E addr s
         in if f < 0 then \<not> pair_slot s \<ge> 0 else \<not> kb_ble_slot_allowed E (nat f) s)
      else False)"

definition kb_ble_activate_slot :: "env \<Rightarrow> int \<Rightarrow> 'a slots_state_scheme \<Rightarrow> 'a slots_state_scheme" where
  "kb_ble_activate_slot E slot s =
     (if \<not> has_kbd (mode E) then s
      else if kbd_max_conn (mode E) = 1 \<and> slot \<ge> 0 \<and> c_handle (kbd_conns s ! 0) \<noteq> GAP_CONNHANDLE_INIT
      then emit (Terminate (c_handle (kbd_conns s ! 0))) s
      else
        let s1 = (if kbd_max_conn (mode E) > 1
                  then fold (\<lambda>i s. if int i \<noteq> slot \<and> c_handle (kbd_conns s ! i) \<noteq> GAP_CONNHANDLE_INIT
                                   then emit (Terminate (c_handle (kbd_conns s ! i))) s else s)
                         [0..<kbd_max_conn (mode E)] s
                  else s)
        in if slot < 0
           then kbd_adv_update E
                  (if pair_slot s1 \<ge> 0
                   then (emit (StopTask EmuTask PAIR_WINDOW_EVT) s1)\<lparr>pair_slot := -1\<rparr> else s1)
           else kb_ble_apply_addr E slot s1)"

definition for_links :: "env \<Rightarrow> (u16 \<Rightarrow> act) \<Rightarrow> 'a slots_state_scheme \<Rightarrow> 'a slots_state_scheme" where
  "for_links E f s =
     fold (\<lambda>i s. if c_handle (kbd_conns s ! i) \<noteq> GAP_CONNHANDLE_INIT
                 then emit (f (c_handle (kbd_conns s ! i))) s else s)
       [0..<kbd_max_conn (mode E)] s"

definition ble_hid_emu_process_event ::
  "env \<Rightarrow> u16 \<Rightarrow> 'a slots_state_scheme \<Rightarrow> u16 \<times> 'a slots_state_scheme" where
  "ble_hid_emu_process_event E events s =
     (if events AND SYS_EVENT_MSG \<noteq> 0 then (events XOR SYS_EVENT_MSG, s)
      else if events AND START_DEVICE_EVT \<noteq> 0 then (events XOR START_DEVICE_EVT, s)
      else if events AND START_PARAM_UPDATE_EVT \<noteq> 0 then
        (events XOR START_PARAM_UPDATE_EVT,
         for_links E (\<lambda>h. ParamUpdate h (desired_min_intv (mode E)) (desired_max_intv (mode E)) 0 500) s)
      else if events AND PAIR_WINDOW_EVT \<noteq> 0 then
        (events XOR PAIR_WINDOW_EVT,
         AT_Response ''+BT_PAIR_WINDOW:closed'' (kbd_adv_update E (s\<lparr>pair_slot := -1\<rparr>)))
      else if events AND ADV_REARM_EVT \<noteq> 0 then (events XOR ADV_REARM_EVT, kbd_adv_update E s)
      else if events AND START_PHY_UPDATE_EVT \<noteq> 0 then
        (events XOR START_PHY_UPDATE_EVT, for_links E UpdatePhy s)
      else (0, s))"

definition emu_link_established ::
  "env \<Rightarrow> u16 \<Rightarrow> u8 list \<Rightarrow> u8 \<Rightarrow> 'a slots_state_scheme \<Rightarrow> 'a slots_state_scheme" where
  "emu_link_established E h addr ty s =
     (if kbd_policy_drop E addr s then emit (Terminate h) s
      else
        let (k, s1) = kbd_slot_alloc E h (Some addr) s in
        if k \<ge> 0 then
          let s2 = kbd_slot_set_type E (nat k) ty s1;
              s3 = (if mode E \<noteq> MODE_KBD_MULTI
                    then emit (StartTask EmuTask START_PARAM_UPDATE_EVT START_PARAM_UPDATE_EVT_DELAY) s2
                    else s2)
          in AT_Response (''+BT_CONNECTED:'' @ dec_int (k + 1)) s3
        else emit (Terminate h) s1)"

definition emu_link_terminated ::
  "env \<Rightarrow> u16 \<Rightarrow> u8 \<Rightarrow> 'a slots_state_scheme \<Rightarrow> 'a slots_state_scheme" where
  "emu_link_terminated E h reason s =
     (let k = kbd_slot_of E h s;
          s1 = (if k \<ge> 0
                then AT_Response (''+BT_DISCONNECTED:'' @ dec_int (k + 1) @ '' reason='' @ hex_nat (unat reason))
                       (s\<lparr>kbd_conns := (kbd_conns s)
                           [nat k := (kbd_conns s ! nat k)\<lparr>c_handle := GAP_CONNHANDLE_INIT\<rparr>]\<rparr>)
                else s)
      in kbd_adv_update E s1)"

definition emu_role_state :: "env \<Rightarrow> u8 \<Rightarrow> 'a slots_state_scheme \<Rightarrow> 'a slots_state_scheme" where
  "emu_role_state E newState s =
     (let st = newState AND GAPROLE_STATE_ADV_MASK in
      if st = GAPROLE_STARTED then
        (let act = kb_ble_active_slot E s in kb_ble_apply_addr E (if act \<ge> 0 then act else 0) s)
      else if st = GAPROLE_WAITING then kbd_adv_update E s
      else s)"

definition ble_hid_emu_state_cb ::
  "env \<Rightarrow> u8 \<Rightarrow> gap_event \<Rightarrow> 'a slots_state_scheme \<Rightarrow> 'a slots_state_scheme" where
  "ble_hid_emu_state_cb E newState ev s =
     (case ev of
        LinkEstablished h addr ty intv lat \<Rightarrow> emu_link_established E h addr ty s
      | LinkTerminated h reason \<Rightarrow> emu_role_state E newState (emu_link_terminated E h reason s)
      | OtherGapEvent oc \<Rightarrow> emu_role_state E newState s)"

text \<open>
  \<open>ble_hid_emu_init\<close>; pairing mode 1 waits for a request, the I/O capability 3 is \<open>NO_INPUT_NO_OUTPUT\<close>.
\<close>

definition ble_hid_emu_init :: "env \<Rightarrow> 'a slots_state_scheme \<Rightarrow> 'a slots_state_scheme" where
  "ble_hid_emu_init E s =
     (if \<not> has_kbd (mode E) then s
      else
        let s1 = kbd_name_update E (slotmap_load E (kbd_name_update E (emit (RegisterTask EmuTask) s)));
            s2 = fold emit
                   [GapSet GAPROLE_ADVERT_ENABLED [1],
                    GapSet GAPROLE_ADVERT_DATA (advertData s1),
                    GapSet GAPROLE_SCAN_RSP_DATA (scanRspData (mode E)),
                    GgsName (attDeviceName s1),
                    BondSet GAPBOND_PERI_DEFAULT_PASSCODE (le32 0),
                    BondSet GAPBOND_PERI_PAIRING_MODE [1],
                    BondSet GAPBOND_PERI_MITM_PROTECTION [0],
                    BondSet GAPBOND_PERI_IO_CAPABILITIES [3],
                    BondSet GAPBOND_PERI_BONDING_ENABLED [1]] s1;
            s3 = ble_hid_kbd_add_service E (ble_batt_set_critical E 6 s2)
        in emit (SetEvent EmuTask START_DEVICE_EVT) s3)"

definition slots_init_state :: "env \<Rightarrow> slots_state" where
  "slots_init_state E = hid_state.extend (hid_init_state E)
     \<lparr>kb_target = KB_TGT_BLE1,
      kbd_conns = replicate (kbd_max_conn (mode E)) \<lparr>c_handle = GAP_CONNHANDLE_INIT, c_addr = replicate 6 0\<rparr>,
      slotmap = replicate (kbd_max_conn (mode E)) (replicate 6 0),
      slotname = replicate (kbd_max_conn (mode E)) (replicate SLOTNAME_LEN NUL),
      slotpace = replicate (kbd_max_conn (mode E)) 0,
      slotmac = replicate (kbd_max_conn (mode E)) (replicate 6 0),
      slottype = replicate (kbd_max_conn (mode E)) 0,
      pair_slot = -1, attDeviceName = replicate GAP_DEVICE_NAME_LEN 0,
      advertData = advertData_init\<rparr>"


text \<open>
  A small concrete state for the witnesses: the start-up state with empty USB buffers, nothing
  reserved and BLE1 selected.
\<close>

definition demo_usb :: usb where
  "demo_usb = \<lparr>DevConfig = 0, Ready = 0, SetupReqCode = 0, SetupReqLen = 0, pDescr = [],
     Idle_Value = [0, 0, 0], cdcReady = 0, EP0_Buf = [], UEP0_CTRL = 0,
     UEP0_T_LEN = 0, UEP1_CTRL = 0, UEP1_T_LEN = 0, UEP2_CTRL = 0, UEP2_T_LEN = 0, UEP3_CTRL = 0,
     USB_DEV_AD = 0, USB_INT_FG = 0, USB_CTRL = 0, UEP4_1_MOD = 0, UEP2_3_MOD = 0, USB_INT_EN = 0,
     UDEV_CTRL = 0, usb_irq_en = False, ep1_in = [], ep2_in = [],
     cdc_rx = \<lparr>rbuf = [], rhead = 0, rtail = 0\<rparr>, cdc_tx = \<lparr>rbuf = [], rhead = 0, rtail = 0\<rparr>,
     cdc_tx_drops = 0, cdc_tx_task = False, cdc_tx_pending = False, cdc_tx_timer = None,
     usb_oob = False\<rparr>"

definition demo_hid :: "env \<Rightarrow> hid_state" where
  "demo_hid E = \<lparr>outs = [], ub = False, flash = \<lambda>_. 0xFF, usb = demo_usb, at_channel = AT_CH_UART,
     uart_tx = [], hws_led_state = 0, hws_led_pre_blink = 0, led_ctrl = [], sleep_active = False,
     pa_out = 0, pa_dir = 0, hws_key_saved = 0, hws_key_cb = False, wdg_armed = False,
     adc_regs = [0, 0, 0, 0], s_ch = 0, s_pga = 0, RTCTigFlag = False, pb_pu = 0, pb_dir = 0,
     battLevel = 100, battCriticalLevel = 0, hidReportLedOut = 0, hidReportFeature = 0,
     hidReportBootKeyOut = 0, ble_hid_protocol_mode = BLE_HID_PROTOCOL_MODE_REPORT,
     hidRptMap = ble_hid_kbd_rpt_table E, hidDevGapState = 0,
     hidDevConnSecure = replicate (kbd_max_conn (mode E)) False,
     gapConnHandles = replicate (kbd_max_conn (mode E)) GAP_CONNHANDLE_INIT,
     gapConnHandle = GAP_CONNHANDLE_INIT, pairingStatus = SUCCESS,
     hidDevConnIntv = replicate (kbd_max_conn (mode E)) 0,
     hidDevConnLat = replicate (kbd_max_conn (mode E)) 0\<rparr>"

definition demo_slots :: "env \<Rightarrow> slots_state" where
  "demo_slots E = hid_state.extend (demo_hid E)
     \<lparr>kb_target = KB_TGT_BLE1,
      kbd_conns = replicate (kbd_max_conn (mode E)) \<lparr>c_handle = GAP_CONNHANDLE_INIT, c_addr = replicate 6 0\<rparr>,
      slotmap = replicate (kbd_max_conn (mode E)) (replicate 6 0xFF),
      slotname = replicate (kbd_max_conn (mode E)) (replicate SLOTNAME_LEN NUL),
      slotpace = replicate (kbd_max_conn (mode E)) SLOTPACE_DFLT,
      slotmac = replicate (kbd_max_conn (mode E)) [0x11, 0x22, 0x33, 0x44, 0x55, 0xC6],
      slottype = replicate (kbd_max_conn (mode E)) 0,
      pair_slot = -1, attDeviceName = replicate GAP_DEVICE_NAME_LEN 0,
      advertData = advertData_init\<rparr>"

end
