(* ===== verification/Slot_Inv.thy ===== *)
theory Slot_Inv
  imports Kbd_Ble
begin

text \<open>
  The invariant of the host slots and that every operation of the keyboard role keeps it; the page
  of DataFlash read back; which hosts are let in, and that a host keeps its slot.
\<close>

section \<open>Frames\<close>

lemma slots_flash [simp]:
  "kb_target (s\<lparr>flash := f\<rparr>) = kb_target s" "kbd_conns (s\<lparr>flash := f\<rparr>) = kbd_conns s"
  "slotmap (s\<lparr>flash := f\<rparr>) = slotmap s" "slotname (s\<lparr>flash := f\<rparr>) = slotname s"
  "slotpace (s\<lparr>flash := f\<rparr>) = slotpace s" "slotmac (s\<lparr>flash := f\<rparr>) = slotmac s"
  "slottype (s\<lparr>flash := f\<rparr>) = slottype s" "pair_slot (s\<lparr>flash := f\<rparr>) = pair_slot s"
  by simp_all

lemma slots_emit [simp]:
  "kb_target (emit a s) = kb_target s" "kbd_conns (emit a s) = kbd_conns s"
  "slotmap (emit a s) = slotmap s" "slotname (emit a s) = slotname s"
  "slotpace (emit a s) = slotpace s" "slotmac (emit a s) = slotmac s"
  "slottype (emit a s) = slottype s" "pair_slot (emit a s) = pair_slot s"
  by (simp_all add: emit_def)

lemma slots_resp [simp]:
  "kb_target (AT_Response t s) = kb_target s" "kbd_conns (AT_Response t s) = kbd_conns s"
  "slotmap (AT_Response t s) = slotmap s" "slotname (AT_Response t s) = slotname s"
  "slotpace (AT_Response t s) = slotpace s" "slotmac (AT_Response t s) = slotmac s"
  "slottype (AT_Response t s) = slottype s" "pair_slot (AT_Response t s) = pair_slot s"
  by (simp_all add: AT_Response_def)

lemma slots_name_update [simp]:
  "kb_target (kbd_name_update E s) = kb_target s" "kbd_conns (kbd_name_update E s) = kbd_conns s"
  "slotmap (kbd_name_update E s) = slotmap s" "slotname (kbd_name_update E s) = slotname s"
  "slotpace (kbd_name_update E s) = slotpace s" "slotmac (kbd_name_update E s) = slotmac s"
  "slottype (kbd_name_update E s) = slottype s" "pair_slot (kbd_name_update E s) = pair_slot s"
  "outs (kbd_name_update E s) = outs s" "flash (kbd_name_update E s) = flash s"
  by (simp_all add: kbd_name_update_def Let_def)

lemma slots_eeprom [simp]:
  "kb_target (snd (EEPROM_ERASE E a n s)) = kb_target s" "kb_target (snd (EEPROM_WRITE E a bs s)) = kb_target s"
  "kbd_conns (snd (EEPROM_ERASE E a n s)) = kbd_conns s" "kbd_conns (snd (EEPROM_WRITE E a bs s)) = kbd_conns s"
  "slotmap (snd (EEPROM_ERASE E a n s)) = slotmap s" "slotmap (snd (EEPROM_WRITE E a bs s)) = slotmap s"
  "slotname (snd (EEPROM_ERASE E a n s)) = slotname s" "slotname (snd (EEPROM_WRITE E a bs s)) = slotname s"
  "slotpace (snd (EEPROM_ERASE E a n s)) = slotpace s" "slotpace (snd (EEPROM_WRITE E a bs s)) = slotpace s"
  "slotmac (snd (EEPROM_ERASE E a n s)) = slotmac s" "slotmac (snd (EEPROM_WRITE E a bs s)) = slotmac s"
  "slottype (snd (EEPROM_ERASE E a n s)) = slottype s" "slottype (snd (EEPROM_WRITE E a bs s)) = slottype s"
  "pair_slot (snd (EEPROM_ERASE E a n s)) = pair_slot s" "pair_slot (snd (EEPROM_WRITE E a bs s)) = pair_slot s"
  by (simp_all add: EEPROM_ERASE_def EEPROM_WRITE_def split: prod.splits)

lemma slots_save [simp]:
  "kb_target (slotmap_save E s) = kb_target s" "kbd_conns (slotmap_save E s) = kbd_conns s"
  "slotmap (slotmap_save E s) = slotmap s" "slotname (slotmap_save E s) = slotname s"
  "slotpace (slotmap_save E s) = slotpace s" "slotmac (slotmap_save E s) = slotmac s"
  "slottype (slotmap_save E s) = slottype s" "pair_slot (slotmap_save E s) = pair_slot s"
  "outs (slotmap_save E s) = outs s"
  by (simp_all add: slotmap_save_def Let_def)

lemma slots_adv_update [simp]:
  "kb_target (kbd_adv_update E s) = kb_target s" "kbd_conns (kbd_adv_update E s) = kbd_conns s"
  "slotmap (kbd_adv_update E s) = slotmap s" "slotname (kbd_adv_update E s) = slotname s"
  "slotpace (kbd_adv_update E s) = slotpace s" "slotmac (kbd_adv_update E s) = slotmac s"
  "slottype (kbd_adv_update E s) = slottype s" "pair_slot (kbd_adv_update E s) = pair_slot s"
  by (simp_all add: kbd_adv_update_def Let_def split: prod.splits)

lemma slots_apply_addr [simp]:
  "kb_target (kb_ble_apply_addr E k s) = kb_target s" "kbd_conns (kb_ble_apply_addr E k s) = kbd_conns s"
  "slotmap (kb_ble_apply_addr E k s) = slotmap s" "slotname (kb_ble_apply_addr E k s) = slotname s"
  "slotpace (kb_ble_apply_addr E k s) = slotpace s" "slotmac (kb_ble_apply_addr E k s) = slotmac s"
  "slottype (kb_ble_apply_addr E k s) = slottype s" "pair_slot (kb_ble_apply_addr E k s) = pair_slot s"
  by (simp_all add: kb_ble_apply_addr_def Let_def)

text \<open>The part of the state that the invariant is about.\<close>

definition slots_view where
  "slots_view s = (kbd_conns s, slotmap s, slotname s, slotpace s, slotmac s, slottype s)"

lemma slots_view_fold:
  "(\<And>x s. slots_view (f x s) = slots_view s) \<Longrightarrow> slots_view (fold f xs s) = slots_view s"
  by (induction xs arbitrary: s) auto

lemma pair_slot_fold:
  "(\<And>x s. pair_slot (f x s) = pair_slot s) \<Longrightarrow> pair_slot (fold f xs s) = pair_slot s"
  by (induction xs arbitrary: s) auto

lemma slots_view_frame [simp]:
  "slots_view (emit a s) = slots_view s"
  "slots_view (AT_Response t s) = slots_view s"
  "slots_view (kbd_name_update E s) = slots_view s"
  "slots_view (slotmap_save E s) = slots_view s"
  "slots_view (kbd_adv_update E s) = slots_view s"
  "slots_view (kb_ble_apply_addr E k s) = slots_view s"
  "slots_view (s\<lparr>pair_slot := p\<rparr>) = slots_view s"
  "slots_view (s\<lparr>kb_target := m\<rparr>) = slots_view s"
  by (simp_all add: slots_view_def)

lemma slots_view_for_links [simp]:
  "slots_view (for_links E f s) = slots_view s" "pair_slot (for_links E f s) = pair_slot s"
  unfolding for_links_def by (auto intro!: slots_view_fold pair_slot_fold)

lemma slots_view_task [simp]:
  "slots_view (snd (ble_hid_emu_process_event E ev s)) = slots_view s"
  by (simp add: ble_hid_emu_process_event_def)

lemma slots_view_role_state [simp]:
  "slots_view (emu_role_state E st s) = slots_view s" "pair_slot (emu_role_state E st s) = pair_slot s"
  by (simp_all add: emu_role_state_def Let_def)

lemma slots_view_activate [simp]: "slots_view (kb_ble_activate_slot E k s) = slots_view s"
proof -
  have f: "slots_view (fold (\<lambda>i s. if int i \<noteq> k \<and> c_handle (kbd_conns s ! i) \<noteq> GAP_CONNHANDLE_INIT
                  then emit (Terminate (c_handle (kbd_conns s ! i))) s else s) xs t) = slots_view t"
    for xs and t :: "'a slots_state_scheme"
    by (rule slots_view_fold) simp
  have g: "slots_view (fold (\<lambda>i s. if c_handle (kbd_conns s ! i) \<noteq> GAP_CONNHANDLE_INIT
                  then emit (Terminate (c_handle (kbd_conns s ! i))) s else s) xs t) = slots_view t"
    for xs and t :: "'a slots_state_scheme"
    by (rule slots_view_fold) simp
  show ?thesis by (simp add: kb_ble_activate_slot_def Let_def f g)
qed

lemma slots_view_pair_open [simp]: "slots_view (kb_ble_pair_open E k s) = slots_view s"
  by (simp add: kb_ble_pair_open_def Let_def)

section \<open>The invariant\<close>

definition slot_reserved :: "'a slots_state_scheme \<Rightarrow> nat \<Rightarrow> bool" where
  "slot_reserved s i = (slotmap s ! i ! 0 \<noteq> 0xFF)"

definition conn_up :: "'a slots_state_scheme \<Rightarrow> nat \<Rightarrow> bool" where
  "conn_up s i = (c_handle (kbd_conns s ! i) \<noteq> GAP_CONNHANDLE_INIT)"

lemma slot_free_iff: "slot_free s i = (\<not> conn_up s i \<and> \<not> slot_reserved s i)"
  by (simp add: slot_free_def conn_up_def slot_reserved_def)

definition label_cell :: "char \<Rightarrow> bool" where
  "label_cell c = (label_char c \<or> c = NUL)"

definition label_mem :: "string \<Rightarrow> bool" where
  "label_mem m = (length m = SLOTNAME_LEN \<and> m ! (SLOTNAME_LEN - 1) = NUL \<and> (\<forall>c\<in>set m. label_cell c))"

definition slots_wf :: "nat \<Rightarrow> 'a slots_state_scheme \<Rightarrow> bool" where
  "slots_wf n s =
     (length (kbd_conns s) = n \<and> length (slotmap s) = n \<and> length (slotname s) = n \<and>
      length (slotpace s) = n \<and> length (slotmac s) = n \<and> length (slottype s) = n \<and>
      (\<forall>i<n. length (slotmap s ! i) = 6 \<and> length (slotmac s ! i) = 6 \<and> label_mem (slotname s ! i)))"

definition conns_ok :: "nat \<Rightarrow> 'a slots_state_scheme \<Rightarrow> bool" where
  "conns_ok n s =
     (\<forall>i<n. \<forall>j<n. c_handle (kbd_conns s ! i) = c_handle (kbd_conns s ! j) \<longrightarrow> conn_up s i \<longrightarrow> i = j)"

definition hosts_ok :: "nat \<Rightarrow> 'a slots_state_scheme \<Rightarrow> bool" where
  "hosts_ok n s = (\<forall>i<n. \<forall>j<n. slotmap s ! i = slotmap s ! j \<longrightarrow> slot_reserved s i \<longrightarrow> i = j)"

definition links_ok :: "nat \<Rightarrow> 'a slots_state_scheme \<Rightarrow> bool" where
  "links_ok n s =
     (\<forall>i<n. conn_up s i \<longrightarrow> slot_reserved s i \<longrightarrow> slotmap s ! i = c_addr (kbd_conns s ! i))"

text \<open>
  Tables of the right size and labels of the right form; no handle in two slots; no host reserved in
  two slots; and a link in a reserved slot belongs to the host it is reserved for.
\<close>

definition slots_inv :: "env \<Rightarrow> 'a slots_state_scheme \<Rightarrow> bool" where
  "slots_inv E s =
     (let n = kbd_max_conn (mode E)
      in slots_wf n s \<and> conns_ok n s \<and> hosts_ok n s \<and> links_ok n s)"

lemmas slots_inv_unfold = slots_inv_def slots_wf_def conns_ok_def hosts_ok_def links_ok_def
  conn_up_def slot_reserved_def Let_def

lemma slots_inv_view: "slots_view s' = slots_view s \<Longrightarrow> slots_inv E s' = slots_inv E s"
  by (simp add: slots_view_def slots_inv_unfold)

lemma slots_wf_nth:
  assumes "slots_inv E s" "i < kbd_max_conn (mode E)"
  shows "length (slotmap s ! i) = 6" "length (slotmac s ! i) = 6" "label_mem (slotname s ! i)"
  using assms by (simp_all add: slots_inv_def slots_wf_def Let_def)

text \<open>The connections are a table of handles in the sense of the shared interface.\<close>

interpretation kbdtab: slot_table "kbd_max_conn (mode E)" "\<lambda>s. map c_handle (kbd_conns s)"
    "kbd_slot_of E" "slots_inv E" for E
proof unfold_locales
  fix s :: "'a slots_state_scheme" and h
  assume i: "slots_inv E s"
  then have len: "length (kbd_conns s) = kbd_max_conn (mode E)"
    by (simp add: slots_inv_def slots_wf_def Let_def)
  then show "length (map c_handle (kbd_conns s)) = kbd_max_conn (mode E)" by simp
  show "kbd_slot_of E h s = first_index (kbd_max_conn (mode E)) (\<lambda>i. map c_handle (kbd_conns s) ! i = h)"
    unfolding kbd_slot_of_def by (rule first_index_cong) (simp add: len)
  show "k = j"
    if "k < kbd_max_conn (mode E)" "j < kbd_max_conn (mode E)"
      "map c_handle (kbd_conns s) ! k = map c_handle (kbd_conns s) ! j"
      "map c_handle (kbd_conns s) ! k \<noteq> GAP_CONNHANDLE_INIT" for k j
    using that i len by (auto simp: slots_inv_def conns_ok_def conn_up_def Let_def)
qed

section \<open>Where a new host lands\<close>

lemma next_pair_cases:
  obtains (none) "kbd_next_pair_slot E s = -1" "\<forall>i<kbd_max_conn (mode E). \<not> slot_free s i"
  | (some) i where "kbd_next_pair_slot E s = int i" "i < kbd_max_conn (mode E)" "slot_free s i"
proof -
  let ?n = "kbd_max_conn (mode E)"
  let ?p = "pair_slot s" and ?a = "kb_ble_active_slot E s"
  show thesis
  proof (cases "0 \<le> ?p \<and> ?p < int ?n \<and> slot_free s (nat ?p)")
    case True
    then show thesis by (intro some [of "nat ?p"]) (auto simp: kbd_next_pair_slot_def)
  next
    case p: False
    show thesis
    proof (cases "0 \<le> ?a \<and> ?a < int ?n \<and> slot_free s (nat ?a)")
      case True
      then show thesis using p by (intro some [of "nat ?a"]) (auto simp: kbd_next_pair_slot_def Let_def)
    next
      case False
      then have e: "kbd_next_pair_slot E s = first_index ?n (slot_free s)"
        using p unfolding kbd_next_pair_slot_def Let_def by (simp only: if_False)
      show thesis
        by (rule first_index_cases [of ?n "slot_free s"]) (use e none some in auto)
    qed
  qed
qed

text \<open>
  What the stack guarantees of a new link: a handle of its own, not the mark of a free slot, and a
  peer that has no link yet.
\<close>

definition fresh_link :: "env \<Rightarrow> u16 \<Rightarrow> u8 list \<Rightarrow> 'a slots_state_scheme \<Rightarrow> bool" where
  "fresh_link E h a s =
     (length a = 6 \<and> h \<noteq> GAP_CONNHANDLE_INIT \<and>
      (\<forall>i<kbd_max_conn (mode E). c_handle (kbd_conns s ! i) \<noteq> h) \<and>
      (\<forall>i<kbd_max_conn (mode E). conn_up s i \<longrightarrow> c_addr (kbd_conns s ! i) \<noteq> a))"

lemma slot_alloc_cases:
  assumes inv: "slots_inv E s" and fr: "fresh_link E h a s"
  obtains
    (known) i where "i < kbd_max_conn (mode E)" "slotmap s ! i = a" "slot_reserved s i" "\<not> conn_up s i"
      "slotmap_find E a s = int i"
      "kbd_slot_alloc E h (Some a) s =
         (int i, s\<lparr>kbd_conns := (kbd_conns s)[i := \<lparr>c_handle = h, c_addr = a\<rparr>]\<rparr>)"
  | (fresh) i where "i < kbd_max_conn (mode E)" "slot_free s i" "slotmap_find E a s = -1"
      "kbd_next_pair_slot E s = int i"
      "kbd_slot_alloc E h (Some a) s =
         (int i, slotmap_save E (s\<lparr>kbd_conns := (kbd_conns s)[i := \<lparr>c_handle = h, c_addr = a\<rparr>],
                                   slotmap := (slotmap s)[i := a]\<rparr>))"
  | (full) "\<forall>i<kbd_max_conn (mode E). \<not> slot_free s i" "slotmap_find E a s = -1"
      "kbd_slot_alloc E h (Some a) s = (-1, s)"
proof -
  let ?n = "kbd_max_conn (mode E)"
  have la: "take 6 a = a" using fr by (simp add: fresh_link_def)
  have no: "kbd_slot_of E h s = -1"
    using fr by (simp add: kbd_slot_of_def first_index_miss fresh_link_def)
  show thesis
  proof (rule first_index_cases [of ?n "\<lambda>i. slotmap s ! i ! 0 \<noteq> 0xFF \<and> slotmap s ! i = take 6 a"])
    fix i assume i: "first_index ?n (\<lambda>i. slotmap s ! i ! 0 \<noteq> 0xFF \<and> slotmap s ! i = take 6 a) = int i"
      "i < ?n" "slotmap s ! i ! 0 \<noteq> 0xFF \<and> slotmap s ! i = take 6 a"
    then have f: "slotmap_find E a s = int i" by (simp add: slotmap_find_def)
    have "\<not> conn_up s i"
      using inv fr i la by (auto simp: slots_inv_def links_ok_def fresh_link_def slot_reserved_def Let_def)
    then show thesis
      using i f la no by (intro known [of i])
        (auto simp: slot_reserved_def conn_up_def kbd_slot_alloc_def Let_def)
  next
    assume m: "first_index ?n (\<lambda>i. slotmap s ! i ! 0 \<noteq> 0xFF \<and> slotmap s ! i = take 6 a) = -1"
    then have f: "slotmap_find E a s = -1" by (simp add: slotmap_find_def)
    show thesis
    proof (rule next_pair_cases [where E = E and s = s])
      assume "kbd_next_pair_slot E s = -1" "\<forall>i<?n. \<not> slot_free s i"
      then show thesis using f no by (intro full) (auto simp: kbd_slot_alloc_def Let_def)
    next
      fix i assume "kbd_next_pair_slot E s = int i" "i < ?n" "slot_free s i"
      then show thesis using f no la by (intro fresh [of i]) (auto simp: kbd_slot_alloc_def Let_def)
    qed
  qed
qed


section \<open>Every operation keeps the invariant\<close>

lemma inv_alloc:
  assumes inv: "slots_inv E s" and fr: "fresh_link E h a s"
  shows "slots_inv E (snd (kbd_slot_alloc E h (Some a) s))"
proof (rule slot_alloc_cases [OF inv fr])
  let ?n = "kbd_max_conn (mode E)"
  have la: "length a = 6" "h \<noteq> GAP_CONNHANDLE_INIT"
    and nh: "\<forall>i<?n. c_handle (kbd_conns s ! i) \<noteq> h"
    using fr by (simp_all add: fresh_link_def)
  {
    fix i
    assume i: "i < ?n" "slotmap s ! i = a" "slot_reserved s i"
      "kbd_slot_alloc E h (Some a) s =
         (int i, s\<lparr>kbd_conns := (kbd_conns s)[i := \<lparr>c_handle = h, c_addr = a\<rparr>]\<rparr>)"
    let ?s' = "s\<lparr>kbd_conns := (kbd_conns s)[i := \<lparr>c_handle = h, c_addr = a\<rparr>]\<rparr>"
    have "slots_wf ?n ?s'" using inv by (simp add: slots_inv_def slots_wf_def Let_def)
    moreover have "conns_ok ?n ?s'"
      using inv i(1) nh by (auto simp: slots_inv_unfold nth_list_update)
    moreover have "hosts_ok ?n ?s'" using inv by (simp add: slots_inv_unfold)
    moreover have "links_ok ?n ?s'"
      using inv i(1,2) by (auto simp: slots_inv_unfold nth_list_update)
    ultimately show ?thesis by (simp add: i(4) slots_inv_def Let_def)
  next
    fix i
    assume i: "i < ?n" "slotmap_find E a s = -1"
      "kbd_slot_alloc E h (Some a) s =
         (int i, slotmap_save E (s\<lparr>kbd_conns := (kbd_conns s)[i := \<lparr>c_handle = h, c_addr = a\<rparr>],
                                   slotmap := (slotmap s)[i := a]\<rparr>))"
    let ?s' = "s\<lparr>kbd_conns := (kbd_conns s)[i := \<lparr>c_handle = h, c_addr = a\<rparr>],
                 slotmap := (slotmap s)[i := a]\<rparr>"
    have nf: "\<forall>j<?n. slotmap s ! j ! 0 \<noteq> 0xFF \<longrightarrow> slotmap s ! j \<noteq> a"
      using i(2) la by (auto simp: slotmap_find_def first_index_miss)
    have "slots_wf ?n ?s'" using inv i(1) la by (auto simp: slots_inv_def slots_wf_def nth_list_update Let_def)
    moreover have "conns_ok ?n ?s'"
      using inv i(1) nh by (auto simp: slots_inv_unfold nth_list_update)
    moreover have "hosts_ok ?n ?s'"
      using inv i(1) nf by (auto simp: slots_inv_unfold nth_list_update)
    moreover have "links_ok ?n ?s'"
      using inv i(1) by (auto simp: slots_inv_unfold nth_list_update)
    ultimately have "slots_inv E ?s'" by (simp add: slots_inv_def Let_def)
    then show ?thesis using slots_inv_view [of "slotmap_save E ?s'" ?s'] by (simp add: i(3))
  next
    assume "kbd_slot_alloc E h (Some a) s = (-1, s)"
    then show ?thesis using inv by simp
  }
qed

lemma inv_set_type: "slots_inv E s \<Longrightarrow> slots_inv E (kbd_slot_set_type E i ty s)"
proof -
  assume "slots_inv E s"
  then have "slots_inv E (s\<lparr>slottype := (slottype s)[i := ty]\<rparr>)" by (simp add: slots_inv_unfold)
  with \<open>slots_inv E s\<close> show ?thesis
    by (simp add: kbd_slot_set_type_def slots_inv_view [OF slots_view_frame(4)])
qed

lemma inv_established:
  assumes "slots_inv E s" "fresh_link E h a s"
  shows "slots_inv E (emu_link_established E h a ty s)"
proof -
  obtain k s1 where k: "kbd_slot_alloc E h (Some a) s = (k, s1)" by fastforce
  then have "slots_inv E s1" using inv_alloc [OF assms] by simp
  then show ?thesis
    using assms(1) inv_set_type [of E s1 "nat k" ty]
    by (simp add: emu_link_established_def k Let_def slots_inv_view [OF slots_view_frame(1)]
        slots_inv_view [OF slots_view_frame(2)])
qed

lemma inv_disconnect:
  assumes "slots_inv E s"
  shows "slots_inv E (s\<lparr>kbd_conns := (kbd_conns s)
           [i := (kbd_conns s ! i)\<lparr>c_handle := GAP_CONNHANDLE_INIT\<rparr>]\<rparr>)"
proof (cases "i < length (kbd_conns s)")
  case True
  then show ?thesis using assms by (auto simp: slots_inv_unfold nth_list_update)
next
  case False
  then show ?thesis using assms by (simp add: slots_inv_unfold list_update_beyond)
qed

lemma inv_terminated: "slots_inv E s \<Longrightarrow> slots_inv E (emu_link_terminated E h r s)"
  using inv_disconnect [of E s "nat (kbd_slot_of E h s)"]
  by (simp add: emu_link_terminated_def Let_def slots_inv_view [OF slots_view_frame(2)]
      slots_inv_view [OF slots_view_frame(5)])

lemma inv_state_cb:
  assumes "slots_inv E s"
    and "\<And>h a ty i l. ev = LinkEstablished h a ty i l \<Longrightarrow> fresh_link E h a s"
  shows "slots_inv E (ble_hid_emu_state_cb E st ev s)"
  using assms inv_established inv_terminated
  by (cases ev) (simp_all add: ble_hid_emu_state_cb_def slots_inv_view [OF slots_view_role_state(1)])

lemma inv_clear_slot:
  assumes "slots_inv E s"
  shows "slots_inv E (s\<lparr>slotmap := (slotmap s)[i := replicate 6 0xFF],
            slotname := (slotname s)[i := (slotname s ! i)[0 := NUL]],
            slotpace := (slotpace s)[i := SLOTPACE_DFLT]\<rparr>)" (is "slots_inv E ?s'")
proof (cases "i < kbd_max_conn (mode E)")
  case True
  have "label_mem ((slotname s ! i)[0 := NUL])"
    using slots_wf_nth(3) [OF assms True] set_update_subset_insert [of "slotname s ! i" 0 NUL]
    by (auto simp: label_mem_def label_cell_def nth_list_update SLOTNAME_LEN_def)
  then show ?thesis
    using assms True by (auto simp: slots_inv_unfold nth_list_update)
next
  case False
  then show ?thesis using assms by (simp add: slots_inv_unfold)
qed

lemma inv_unbind:
  assumes "slots_inv E s"
  shows "slots_inv E (snd (kb_ble_unbind_slot E i s))"
  using assms inv_clear_slot [OF assms, of i]
  by (simp add: kb_ble_unbind_slot_def Let_def slots_inv_view [OF slots_view_frame(1)]
      slots_inv_view [OF slots_view_frame(4)])

text \<open>The label loop writes label characters only, and stays inside the first eleven cells.\<close>

lemma name_loop_spec:
  assumes "name_loop n name m = (ok, n', m')" "n \<le> SLOTNAME_LEN - 1" "\<forall>c\<in>set m. label_cell c"
  shows "length m' = length m \<and> (\<forall>c\<in>set m'. label_cell c) \<and> n' \<le> SLOTNAME_LEN - 1 \<and>
    (\<forall>j\<ge>SLOTNAME_LEN - 1. m' ! j = m ! j)"
  using assms
proof (induction n name m rule: name_loop.induct)
  case (2 n c cs m)
  show ?case
  proof (cases "n < SLOTNAME_LEN - 1 \<and> label_char c")
    case True
    have "\<forall>d\<in>set (m[n := c]). label_cell d"
      using 2(4) True set_update_subset_insert [of m n c] by (auto simp: label_cell_def)
    then show ?thesis using 2(1) 2(2) True by (auto simp: SLOTNAME_LEN_def)
  next
    case False
    then show ?thesis using 2(2-4) by (auto split: if_splits)
  qed
qed simp

lemma inv_set_name:
  assumes inv: "slots_inv E s"
  shows "slots_inv E (snd (kb_ble_slot_set_name E i name s))"
proof (cases "kb_slot_ok E i")
  case True
  then have i: "i < kbd_max_conn (mode E)" by (simp add: kb_slot_ok_def)
  obtain ok n m where r: "name_loop 0 name (slotname s ! i) = (ok, n, m)" by (metis prod_cases3)
  have lm: "label_mem (slotname s ! i)" using slots_wf_nth(3) [OF inv i] .
  have sp: "length m = SLOTNAME_LEN" "\<forall>c\<in>set m. label_cell c" "m ! (SLOTNAME_LEN - 1) = NUL" "n \<le> SLOTNAME_LEN - 1"
    using name_loop_spec [OF r] lm by (auto simp: label_mem_def)
  have "label_mem (m[n := NUL])"
    using sp set_update_subset_insert [of m n NUL]
    by (auto simp: label_mem_def label_cell_def nth_list_update SLOTNAME_LEN_def)
  moreover have "label_mem m" using sp by (simp add: label_mem_def)
  moreover have "slots_inv E (s\<lparr>slotname := (slotname s)[i := x]\<rparr>)" if "label_mem x" for x
    using inv i that by (auto simp: slots_inv_unfold nth_list_update)
  ultimately show ?thesis
    using True by (simp add: kb_ble_slot_set_name_def r slots_inv_view [OF slots_view_frame(4)])
qed (use inv in \<open>simp add: kb_ble_slot_set_name_def\<close>)

lemma inv_set_pace: "slots_inv E s \<Longrightarrow> slots_inv E (snd (kb_ble_slot_set_pace E i ms s))"
proof -
  assume inv: "slots_inv E s"
  then have "slots_inv E (s\<lparr>slotpace := (slotpace s)[i := ms]\<rparr>)" by (simp add: slots_inv_unfold)
  with inv show ?thesis
    by (simp add: kb_ble_slot_set_pace_def slots_inv_view [OF slots_view_frame(4)])
qed

lemma inv_set_mac:
  assumes inv: "slots_inv E s" and "length a = 6"
  shows "slots_inv E (snd (kb_ble_slot_set_mac E i a s))"
proof (cases "kb_slot_ok E i")
  case True
  then have "slots_inv E (s\<lparr>slotmac := (slotmac s)[i := a]\<rparr>)"
    using assms by (auto simp: slots_inv_unfold nth_list_update kb_slot_ok_def)
  with assms show ?thesis
    by (simp add: kb_ble_slot_set_mac_def slots_inv_view [OF slots_view_frame(4)])
qed (use inv in \<open>simp add: kb_ble_slot_set_mac_def\<close>)

end
