(* ===== verification/Slot_Hist.thy ===== *)
theory Slot_Hist
  imports Slot_Inv
begin

text \<open>
  Histories of the keyboard role: a step relation for what the stack and the timers do and one for
  the commands, the invariant along them, who gets in while the pairing window is closed, and that a
  host comes back to its own slot.  Then the advertising policy against its specification.
\<close>

section \<open>Steps\<close>

text \<open>What the stack and the scheduler cause.\<close>

inductive stack_step :: "env \<Rightarrow> 'a slots_state_scheme \<Rightarrow> 'a slots_state_scheme \<Rightarrow> bool" for E where
  link_up: "fresh_link E h a s \<Longrightarrow>
    stack_step E s (ble_hid_emu_state_cb E st (LinkEstablished h a ty intv lat) s)"
| link_down: "stack_step E s (ble_hid_emu_state_cb E st (LinkTerminated h r) s)"
| role_state: "stack_step E s (ble_hid_emu_state_cb E st (OtherGapEvent oc) s)"
| timer: "stack_step E s (snd (ble_hid_emu_process_event E ev s))"

text \<open>What a command can do without forgetting a host.\<close>

inductive user_step :: "env \<Rightarrow> 'a slots_state_scheme \<Rightarrow> 'a slots_state_scheme \<Rightarrow> bool" for E where
  rename: "user_step E s (snd (kb_ble_slot_set_name E i name s))"
| repace: "user_step E s (snd (kb_ble_slot_set_pace E i ms s))"
| readdress: "length a = 6 \<Longrightarrow> user_step E s (snd (kb_ble_slot_set_mac E i a s))"
| target: "user_step E s (kb_ble_activate_slot E k (s\<lparr>kb_target := m\<rparr>))"
| window: "user_step E s (kb_ble_pair_open E k s)"
| drop_slot: "user_step E s (snd (kb_ble_disconnect_slot E i s))"

inductive kbd_step :: "env \<Rightarrow> 'a slots_state_scheme \<Rightarrow> 'a slots_state_scheme \<Rightarrow> bool" for E where
  stack: "stack_step E s s' \<Longrightarrow> kbd_step E s s'"
| user: "user_step E s s' \<Longrightarrow> kbd_step E s s'"
| unbind: "kbd_step E s (snd (kb_ble_unbind_slot E i s))"

inductive_cases stack_stepE: "stack_step E s s'"
inductive_cases user_stepE: "user_step E s s'"
inductive_cases kbd_stepE: "kbd_step E s s'"

lemma stack_step_inv: "stack_step E s s' \<Longrightarrow> slots_inv E s \<Longrightarrow> slots_inv E s'"
  by (erule stack_stepE) (auto intro: inv_state_cb simp: slots_inv_view [OF slots_view_task])

lemma user_step_inv: "user_step E s s' \<Longrightarrow> slots_inv E s \<Longrightarrow> slots_inv E s'"
  by (erule user_stepE)
    (auto intro: inv_set_name inv_set_pace inv_set_mac simp: slots_inv_view [OF slots_view_activate]
      slots_inv_view [OF slots_view_frame(8)] slots_inv_view [OF slots_view_pair_open]
      slots_inv_view [OF slots_view_frame(1)] kb_ble_disconnect_slot_def)

lemma kbd_step_inv: "kbd_step E s s' \<Longrightarrow> slots_inv E s \<Longrightarrow> slots_inv E s'"
  by (erule kbd_stepE) (auto intro: stack_step_inv user_step_inv inv_unbind)

text \<open>
  C1: whatever links come and go, whatever timers fire and commands are given, no connection handle
  sits in two slots, no host is reserved in two slots, a link in a reserved slot belongs to the host
  the slot is reserved for, and every label is a terminated string of at most eleven label
  characters.
\<close>

theorem kbd_slots_invariant:
  assumes "(kbd_step E)\<^sup>*\<^sup>* s s'" "slots_inv E s"
  shows "slots_inv E s' \<and>
    (\<forall>i<kbd_max_conn (mode E).
       length (cstr_at (slotname s' ! i) 0) \<le> 11 \<and> list_all label_char (cstr_at (slotname s' ! i) 0))"
proof -
  have inv: "slots_inv E s'" using assms by (induction) (auto intro: kbd_step_inv)
  have "length (cstr_at m 0) \<le> 11 \<and> list_all label_char (cstr_at m 0)" if "label_mem m" for m
  proof
    have "cstr_at m 0 = takeWhile (\<lambda>c. c \<noteq> NUL) (take 11 m)"
    proof -
      have "m = take 11 m @ NUL # drop 12 m"
        using that id_take_nth_drop [of 11 m] by (simp add: label_mem_def SLOTNAME_LEN_def)
      then have "takeWhile (\<lambda>c. c \<noteq> NUL) m = takeWhile (\<lambda>c. c \<noteq> NUL) (take 11 m @ NUL # drop 12 m)"
        by simp
      also have "\<dots> = takeWhile (\<lambda>c. c \<noteq> NUL) (take 11 m)"
        by (simp add: takeWhile_tail)
      finally show ?thesis by (simp add: cstr_at_def)
    qed
    then show "length (cstr_at m 0) \<le> 11"
      using length_takeWhile_le [of "\<lambda>c. c \<noteq> NUL" "take 11 m"] by simp
    show "list_all label_char (cstr_at m 0)"
      using that by (auto simp: cstr_at_def label_mem_def label_cell_def list_all_iff
          dest: set_takeWhileD)
  qed
  then show ?thesis using inv slots_wf_nth(3) [OF inv] by blast
qed

section \<open>A closed window lets no new host in\<close>

lemma established_known:
  assumes "slots_inv E s" "fresh_link E h a s" "i < kbd_max_conn (mode E)" "slotmap s ! i = a"
    "slot_reserved s i" "\<not> kbd_policy_drop E a s"
  shows "kbd_conns (emu_link_established E h a ty s) = (kbd_conns s)[i := \<lparr>c_handle = h, c_addr = a\<rparr>]"
    "slotmap (emu_link_established E h a ty s) = slotmap s"
    "Resp (''+BT_CONNECTED:'' @ dec_int (int i + 1)) \<in> set (new_outs s (emu_link_established E h a ty s))"
proof -
  have "kbd_slot_alloc E h (Some a) s =
     (int i, s\<lparr>kbd_conns := (kbd_conns s)[i := \<lparr>c_handle = h, c_addr = a\<rparr>]\<rparr>)"
  proof (rule slot_alloc_cases [OF assms(1,2)])
    fix j assume j: "j < kbd_max_conn (mode E)" "slotmap s ! j = a" "slot_reserved s j"
      "kbd_slot_alloc E h (Some a) s =
         (int j, s\<lparr>kbd_conns := (kbd_conns s)[j := \<lparr>c_handle = h, c_addr = a\<rparr>]\<rparr>)"
    then have "i = j"
      using assms(1,3-5) by (auto simp: slots_inv_def hosts_ok_def Let_def)
    with j(4) show ?thesis by simp
  next
    assume "slotmap_find E a s = -1"
    then show ?thesis
      using assms(2-5) by (auto simp: slotmap_find_def first_index_miss fresh_link_def slot_reserved_def)
  next
    assume "slotmap_find E a s = -1"
    then show ?thesis
      using assms(2-5) by (auto simp: slotmap_find_def first_index_miss fresh_link_def slot_reserved_def)
  qed
  then show "kbd_conns (emu_link_established E h a ty s) = (kbd_conns s)[i := \<lparr>c_handle = h, c_addr = a\<rparr>]"
    "slotmap (emu_link_established E h a ty s) = slotmap s"
    "Resp (''+BT_CONNECTED:'' @ dec_int (int i + 1)) \<in> set (new_outs s (emu_link_established E h a ty s))"
    using assms(6)
    by (simp_all add: emu_link_established_def Let_def kbd_slot_set_type_def new_outs_def)
qed

lemma policy_admits_known:
  assumes "kbd_max_conn (mode E) > 1" "pair_slot s < 0" "length a = 6" "\<not> kbd_policy_drop E a s"
  obtains i where "i < kbd_max_conn (mode E)" "slotmap s ! i = a" "slot_reserved s i"
    "kb_ble_slot_allowed E i s"
proof (rule first_index_cases [of "kbd_max_conn (mode E)"
      "\<lambda>i. slotmap s ! i ! 0 \<noteq> 0xFF \<and> slotmap s ! i = take 6 a"])
  fix i assume i: "first_index (kbd_max_conn (mode E))
      (\<lambda>i. slotmap s ! i ! 0 \<noteq> 0xFF \<and> slotmap s ! i = take 6 a) = int i"
    "i < kbd_max_conn (mode E)" "slotmap s ! i ! 0 \<noteq> 0xFF \<and> slotmap s ! i = take 6 a"
  with assms show thesis
    by (intro that [of i]) (auto simp: kbd_policy_drop_def slotmap_find_def slot_reserved_def Let_def)
next
  assume "first_index (kbd_max_conn (mode E))
      (\<lambda>i. slotmap s ! i ! 0 \<noteq> 0xFF \<and> slotmap s ! i = take 6 a) = -1"
  with assms show thesis by (simp add: kbd_policy_drop_def slotmap_find_def Let_def)
qed

lemma alloc_frame:
  "kb_target (snd (kbd_slot_alloc E h a s)) = kb_target s"
  "pair_slot (snd (kbd_slot_alloc E h a s)) = pair_slot s"
  by (simp_all add: kbd_slot_alloc_def Let_def split: option.splits)

lemma set_type_frame:
  "kb_target (kbd_slot_set_type E i ty s) = kb_target s"
  "pair_slot (kbd_slot_set_type E i ty s) = pair_slot s"
  by (simp_all add: kbd_slot_set_type_def)

lemma established_frame:
  "kb_target (emu_link_established E h a ty s) = kb_target s"
  "pair_slot (emu_link_established E h a ty s) = pair_slot s"
proof -
  obtain k s1 where k: "kbd_slot_alloc E h (Some a) s = (k, s1)" by fastforce
  then have "kb_target s1 = kb_target s" "pair_slot s1 = pair_slot s"
    using alloc_frame [of E h "Some a" s] by simp_all
  then show "kb_target (emu_link_established E h a ty s) = kb_target s"
    "pair_slot (emu_link_established E h a ty s) = pair_slot s"
    by (simp_all add: emu_link_established_def k Let_def set_type_frame)
qed

text \<open>What a step of the stack may do to the connections while the window is closed.\<close>

definition only_invited :: "env \<Rightarrow> 'a slots_state_scheme \<Rightarrow> 'a slots_state_scheme \<Rightarrow> bool" where
  "only_invited E s s' =
     (slotmap s' = slotmap s \<and> kb_target s' = kb_target s \<and> pair_slot s' < 0 \<and>
      (\<forall>i<kbd_max_conn (mode E). conn_up s' i \<longrightarrow>
         kbd_conns s' ! i = kbd_conns s ! i \<or>
         (slot_reserved s i \<and> c_addr (kbd_conns s' ! i) = slotmap s ! i \<and> kb_ble_slot_allowed E i s)))"

lemma only_invited_refl: "pair_slot s < 0 \<Longrightarrow> only_invited E s s"
  by (simp add: only_invited_def)

lemma only_invited_trans:
  assumes "only_invited E s t" "only_invited E t u"
  shows "only_invited E s u"
  unfolding only_invited_def
proof (intro conjI allI impI)
  fix i assume i: "i < kbd_max_conn (mode E)" "conn_up u i"
  from assms have e: "slotmap t = slotmap s" "kb_target t = kb_target s" by (simp_all add: only_invited_def)
  from assms(2) i consider "kbd_conns u ! i = kbd_conns t ! i" |
    "slot_reserved t i \<and> c_addr (kbd_conns u ! i) = slotmap t ! i \<and> kb_ble_slot_allowed E i t"
    unfolding only_invited_def by blast
  then show "kbd_conns u ! i = kbd_conns s ! i \<or>
      (slot_reserved s i \<and> c_addr (kbd_conns u ! i) = slotmap s ! i \<and> kb_ble_slot_allowed E i s)"
  proof cases
    case 1
    then have "conn_up t i" using i(2) by (simp add: conn_up_def)
    with assms(1) i(1) 1 show ?thesis unfolding only_invited_def by auto
  next
    case 2
    then show ?thesis using e by (simp add: slot_reserved_def kb_ble_slot_allowed_def)
  qed
qed (use assms in \<open>simp_all add: only_invited_def\<close>)

lemma role_state_target [simp]: "kb_target (emu_role_state E st s) = kb_target s"
  by (simp add: emu_role_state_def Let_def)

lemma role_state_tabs [simp]:
  "kbd_conns (emu_role_state E st s) = kbd_conns s" "slotmap (emu_role_state E st s) = slotmap s"
  using slots_view_role_state(1) [of E st s] by (simp_all add: slots_view_def)

lemma for_links_tabs [simp]:
  "kbd_conns (for_links E f s) = kbd_conns s" "slotmap (for_links E f s) = slotmap s"
  using slots_view_for_links(1) [of E f s] by (simp_all add: slots_view_def)

lemma for_links_target [simp]: "kb_target (for_links E f s) = kb_target s"
proof -
  have "kb_target (fold (\<lambda>i s. if c_handle (kbd_conns s ! i) \<noteq> GAP_CONNHANDLE_INIT
      then emit (f (c_handle (kbd_conns s ! i))) s else s) xs t) = kb_target t" for xs and t :: "'a slots_state_scheme"
    by (induction xs arbitrary: t) auto
  then show ?thesis by (simp add: for_links_def)
qed

lemma stack_step_invited:
  assumes "stack_step E s s'" "slots_inv E s" "kbd_max_conn (mode E) > 1" "pair_slot s < 0"
  shows "only_invited E s s'"
  using assms(1)
proof cases
  case (link_up h a st ty intv lat)
  then have len: "length a = 6" by (simp add: fresh_link_def)
  have kl: "length (kbd_conns s) = kbd_max_conn (mode E)"
    using assms(2) by (simp add: slots_inv_def slots_wf_def Let_def)
  show ?thesis
  proof (cases "kbd_policy_drop E a s")
    case True
    then show ?thesis
      using link_up(1) assms(4) by (simp add: ble_hid_emu_state_cb_def emu_link_established_def only_invited_def)
  next
    case False
    from policy_admits_known [OF assms(3,4) len False] obtain i where i:
      "i < kbd_max_conn (mode E)" "slotmap s ! i = a" "slot_reserved s i" "kb_ble_slot_allowed E i s"
      by blast
    note k = established_known [OF assms(2) link_up(2) i(1-3) False]
    have "kb_target s' = kb_target s" "pair_slot s' = pair_slot s"
      by (simp_all add: link_up(1) ble_hid_emu_state_cb_def established_frame)
    then show ?thesis
      using k(1,2) link_up(1) assms(4) i kl
      by (auto simp: ble_hid_emu_state_cb_def only_invited_def nth_list_update)
  qed
next
  case (link_down st h r)
  have kl: "length (kbd_conns s) = kbd_max_conn (mode E)"
    using assms(2) by (simp add: slots_inv_def slots_wf_def Let_def)
  have "nat (kbd_slot_of E h s) < kbd_max_conn (mode E)" if "0 \<le> kbd_slot_of E h s"
    using kbdtab.slot_of_Some(1) [OF assms(2) that] .
  then show ?thesis
    using link_down assms(4) kl
    by (auto simp: ble_hid_emu_state_cb_def emu_link_terminated_def only_invited_def conn_up_def Let_def
        nth_list_update split: if_splits)
next
  case (role_state st oc)
  then show ?thesis using assms(4) by (simp add: ble_hid_emu_state_cb_def only_invited_def)
next
  case (timer ev)
  then show ?thesis using assms(4)
    by (auto simp: ble_hid_emu_process_event_def only_invited_def)
qed

text \<open>
  C2: in the multi-host keyboard, while no pairing window is open, nothing the outside world does
  changes which hosts are reserved; and every link that is up at the end was up at the start or
  belongs to the host for which its slot is reserved, in the slot the output target selects.
\<close>

theorem closed_window_admits_no_stranger:
  assumes "(stack_step E)\<^sup>*\<^sup>* s s'" "slots_inv E s" "mode E = MODE_KBD_MULTI" "pair_slot s < 0"
  shows "only_invited E s s'"
proof -
  have m: "kbd_max_conn (mode E) > 1" using assms(3) by (simp add: kbd_max_conn_def)
  from assms(1) have "only_invited E s s' \<and> slots_inv E s'"
  proof induction
    case base
    then show ?case using assms(2,4) only_invited_refl by blast
  next
    case (step t u)
    then have p: "pair_slot t < 0" by (simp add: only_invited_def)
    then show ?case
      using step stack_step_invited [OF step(2) _ m p] stack_step_inv [OF step(2)] only_invited_trans
      by blast
  qed
  then show ?thesis by blast
qed

section \<open>A host keeps its slot\<close>

lemma established_keeps:
  assumes inv: "slots_inv E s" and fr: "fresh_link E h a s" and res: "slot_reserved s i"
    and i: "i < kbd_max_conn (mode E)"
  shows "slotmap (emu_link_established E h a ty s) ! i = slotmap s ! i"
proof -
  obtain k s1 where k: "kbd_slot_alloc E h (Some a) s = (k, s1)" by fastforce
  have "slotmap s1 ! i = slotmap s ! i"
  proof (rule slot_alloc_cases [OF inv fr])
    fix j assume "slot_free s j" "kbd_slot_alloc E h (Some a) s =
         (int j, slotmap_save E (s\<lparr>kbd_conns := (kbd_conns s)[j := \<lparr>c_handle = h, c_addr = a\<rparr>],
                                   slotmap := (slotmap s)[j := a]\<rparr>))"
    then show ?thesis using res k by (cases "j = i") (auto simp: slot_free_iff)
  qed (use k in auto)
  then show ?thesis
    by (simp add: emu_link_established_def k Let_def kbd_slot_set_type_def)
qed

lemma stack_step_keeps:
  assumes "stack_step E s s'" "slots_inv E s" "slot_reserved s i" "i < kbd_max_conn (mode E)"
  shows "slotmap s' ! i = slotmap s ! i"
  using assms(1)
proof cases
  case (link_up h a st ty intv lat)
  then show ?thesis using established_keeps [OF assms(2) link_up(2) assms(3,4)]
    by (simp add: ble_hid_emu_state_cb_def)
next
  case (timer ev)
  then show ?thesis using slots_view_task [of E ev s] by (simp add: slots_view_def)
qed (simp_all add: ble_hid_emu_state_cb_def emu_link_terminated_def Let_def)

lemma user_step_slotmap: "user_step E s s' \<Longrightarrow> slotmap s' = slotmap s"
proof (induction rule: user_step.induct)
  case (target s k m)
  then show ?case using slots_view_activate [of E k "s\<lparr>kb_target := m\<rparr>"] by (simp add: slots_view_def)
next
  case (window s k)
  then show ?case using slots_view_pair_open [of E k s] by (simp add: slots_view_def)
next
  case (rename s i name)
  obtain ok n m where "name_loop 0 name (slotname s ! i) = (ok, n, m)" by (metis prod_cases3)
  then show ?case by (simp add: kb_ble_slot_set_name_def)
qed (simp_all add: kb_ble_slot_set_pace_def kb_ble_slot_set_mac_def kb_ble_disconnect_slot_def)

text \<open>
  C7: a host is recognised: once slot \<open>i\<close> is reserved for it, then after any links, drops, timers,
  and commands that do not unbind a slot, its next admitted connection lands on slot \<open>i\<close> again,
  is announced as such, and leaves the reservations alone.
\<close>

theorem known_host_reclaims_slot:
  assumes "(\<lambda>s s'. stack_step E s s' \<or> user_step E s s')\<^sup>*\<^sup>* s s'" "slots_inv E s"
    and "i < kbd_max_conn (mode E)" "slot_reserved s i" "slotmap s ! i = a"
    and "fresh_link E h a s'" "\<not> kbd_policy_drop E a s'"
  shows "let s'' = emu_link_established E h a ty s'
    in kbd_conns s'' = (kbd_conns s')[i := \<lparr>c_handle = h, c_addr = a\<rparr>] \<and> slotmap s'' = slotmap s' \<and>
       Resp (''+BT_CONNECTED:'' @ dec_int (int i + 1)) \<in> set (new_outs s' s'')"
proof -
  from assms(1) have "slots_inv E s' \<and> slotmap s' ! i = slotmap s ! i"
  proof induction
    case (step t u)
    have r: "slot_reserved t i" using step assms(4) by (simp add: slot_reserved_def)
    from step(2) show ?case
    proof
      assume st: "stack_step E t u"
      then show ?thesis using step stack_step_inv stack_step_keeps [OF st _ r assms(3)] by metis
    next
      assume "user_step E t u"
      then show ?thesis using step user_step_inv user_step_slotmap by metis
    qed
  qed (use assms(2) in simp)
  then have "slots_inv E s'" "slotmap s' ! i = a" "slot_reserved s' i"
    using assms(4,5) by (simp_all add: slot_reserved_def)
  from established_known [OF this(1) assms(6,3) this(2,3) assms(7)] show ?thesis
    by (simp add: Let_def)
qed


section \<open>Concrete runs\<close>

abbreviation multi_env :: env where "multi_env \<equiv> demo_env MODE_KBD_MULTI"

text \<open>BLE2 selected and reserved for \<open>06:05:04:03:02:01\<close>.\<close>

lemma demo_slots_sel [simp]:
  "kb_target (demo_slots E) = KB_TGT_BLE1" "pair_slot (demo_slots E) = -1"
  "kbd_conns (demo_slots E) =
     replicate (kbd_max_conn (mode E)) \<lparr>c_handle = GAP_CONNHANDLE_INIT, c_addr = replicate 6 0\<rparr>"
  "slotmap (demo_slots E) = replicate (kbd_max_conn (mode E)) (replicate 6 0xFF)"
  "slotname (demo_slots E) = replicate (kbd_max_conn (mode E)) (replicate SLOTNAME_LEN NUL)"
  "slotpace (demo_slots E) = replicate (kbd_max_conn (mode E)) SLOTPACE_DFLT"
  "slottype (demo_slots E) = replicate (kbd_max_conn (mode E)) 0"
  "outs (demo_slots E) = []" "flash (demo_slots E) = (\<lambda>_. 0xFF)" "at_channel (demo_slots E) = AT_CH_UART"
  by (simp_all add: demo_slots_def demo_hid_def hid_state.defs)

definition reserved_state :: slots_state where
  "reserved_state = (demo_slots multi_env)\<lparr>kb_target := KB_TGT_BLE2,
     slotmap := [replicate 6 0xFF, [1, 2, 3, 4, 5, 6], replicate 6 0xFF]\<rparr>"

lemma less3: "(\<forall>i<3::nat. P i) = (P 0 \<and> P 1 \<and> P 2)"
  by (auto simp: less_Suc_eq numeral_3_eq_3 numeral_2_eq_2)

lemma multi_max: "kbd_max_conn (mode multi_env) = 3"
  by (simp add: kbd_max_conn_def)

lemmas multi_eval = slots_inv_def Let_def slots_wf_def conns_ok_def hosts_ok_def links_ok_def
  fresh_link_def multi_max less3

lemma demo_slots_inv: "slots_inv multi_env (demo_slots multi_env)"
  unfolding multi_eval by code_simp

lemma reserved_inv: "slots_inv multi_env reserved_state"
  unfolding multi_eval by code_simp

theorem kbd_slots_invariant_witness:
  "slots_inv multi_env (snd (kb_ble_slot_set_name multi_env 0 ''desk-1'' (demo_slots multi_env))) \<and>
   cstr_at (slotname (snd (kb_ble_slot_set_name multi_env 0 ''desk-1'' (demo_slots multi_env))) ! 0) 0 = ''desk-1''"
proof -
  let ?s = "(demo_slots multi_env)"
  have "(kbd_step multi_env)\<^sup>*\<^sup>* ?s (snd (kb_ble_slot_set_name multi_env 0 ''desk-1'' ?s))"
    by (intro r_into_rtranclp kbd_step.user user_step.rename)
  from kbd_slots_invariant [OF this demo_slots_inv] have
    "slots_inv multi_env (snd (kb_ble_slot_set_name multi_env 0 ''desk-1'' ?s))" by blast
  moreover have "cstr_at (slotname (snd (kb_ble_slot_set_name multi_env 0 ''desk-1'' ?s)) ! 0) 0 = ''desk-1''"
    by (simp add: kb_ble_slot_set_name_def kb_slot_ok_def kbd_max_conn_def SLOTNAME_LEN_def
        label_char_def cc_def cstr_at_def eval_nat_numeral)
  ultimately show ?thesis by blast
qed

theorem closed_window_admits_no_stranger_witness:
  "let s' = ble_hid_emu_state_cb multi_env 5 (LinkEstablished 9 [7, 7, 7, 7, 7, 7] 0 24 0) (demo_slots multi_env)
   in only_invited multi_env (demo_slots multi_env) s' \<and> \<not> conn_up s' 0"
proof -
  have "fresh_link multi_env 9 [7, 7, 7, 7, 7, 7] (demo_slots multi_env)"
    unfolding multi_eval by code_simp
  from r_into_rtranclp [where r = "stack_step multi_env", OF stack_step.link_up [OF this, of 5 0 24 0]]
  have "only_invited multi_env (demo_slots multi_env)
     (ble_hid_emu_state_cb multi_env 5 (LinkEstablished 9 [7, 7, 7, 7, 7, 7] 0 24 0) (demo_slots multi_env))"
    by (rule closed_window_admits_no_stranger [OF _ demo_slots_inv]) (simp_all add: demo_slots_def hid_state.defs)
  moreover have "\<not> conn_up (ble_hid_emu_state_cb multi_env 5
      (LinkEstablished 9 [7, 7, 7, 7, 7, 7] 0 24 0) (demo_slots multi_env)) 0"
    by code_simp
  ultimately show ?thesis by (simp add: Let_def)
qed

theorem known_host_reclaims_slot_witness:
  "let s' = snd (kb_ble_slot_set_pace multi_env 0 40 reserved_state);
       s'' = emu_link_established multi_env 9 [1, 2, 3, 4, 5, 6] 1 s'
   in c_handle (kbd_conns s'' ! 1) = 9 \<and> slotmap s'' = slotmap s'"
proof -
  let ?s' = "snd (kb_ble_slot_set_pace multi_env 0 40 reserved_state)"
  have r: "(\<lambda>s s'. stack_step multi_env s s' \<or> user_step multi_env s s')\<^sup>*\<^sup>* reserved_state ?s'"
    by (intro r_into_rtranclp disjI2 user_step.repace)
  have e: "slotmap ?s' = slotmap reserved_state" "kbd_conns ?s' = kbd_conns reserved_state"
    "kb_target ?s' = KB_TGT_BLE2"
    by (simp_all add: kb_ble_slot_set_pace_def reserved_state_def)
  have f: "fresh_link multi_env 9 [1, 2, 3, 4, 5, 6] ?s'"
    unfolding fresh_link_def conn_up_def e multi_eval by code_simp
  have p: "\<not> kbd_policy_drop multi_env [1, 2, 3, 4, 5, 6] ?s'"
    unfolding kbd_policy_drop_def slotmap_find_def kb_ble_slot_allowed_def e by code_simp
  have "let s'' = emu_link_established multi_env 9 [1, 2, 3, 4, 5, 6] 1 ?s'
    in kbd_conns s'' = (kbd_conns ?s')[1 := \<lparr>c_handle = 9, c_addr = [1, 2, 3, 4, 5, 6]\<rparr>] \<and>
       slotmap s'' = slotmap ?s' \<and>
       Resp (''+BT_CONNECTED:'' @ dec_int (int 1 + 1)) \<in> set (new_outs ?s' s'')"
    by (rule known_host_reclaims_slot [OF r reserved_inv _ _ _ f p])
      (simp_all add: kbd_max_conn_def reserved_state_def slot_reserved_def)
  moreover have "c_handle ((kbd_conns reserved_state)[1 := \<lparr>c_handle = 9, c_addr = [1, 2, 3, 4, 5, 6]\<rparr>] ! 1) = 9"
    by (simp add: reserved_state_def kbd_max_conn_def)
  ultimately show ?thesis unfolding Let_def e by metis
qed

section \<open>A host that can never come back\<close>

text \<open>
  the reservation of a host whose address ends in \<open>FF\<close> is lost.  Such an address is stored, but
  its first byte is the mark of a free slot, so with the window closed the multi-host keyboard drops
  the host on sight, whatever slot it was given, though known hosts are meant to return always.
\<close>

theorem ff_address_never_readmitted:
  assumes "mode E = MODE_KBD_MULTI" "length a = 6" "a ! 0 = 0xFF" "pair_slot s < 0"
  shows "emu_link_established E h a ty s = emit (Terminate h) s"
proof -
  have "slotmap_find E a s = -1"
    using assms(2,3) by (auto simp: slotmap_find_def first_index_miss)
  then show ?thesis
    using assms(1,4) by (simp add: emu_link_established_def kbd_policy_drop_def kbd_max_conn_def)
qed

theorem ff_address_never_readmitted_witness:
  "let a = [0xFF, 2, 3, 4, 5, 6];
       s = snd (kbd_slot_alloc multi_env 9 (Some a) (demo_slots multi_env));
       s2 = emu_link_terminated multi_env 9 0x13 s
   in slotmap s2 ! 0 = a \<and> kb_target s2 = KB_TGT_BLE1 \<and>
      emu_link_established multi_env 9 a 1 s2 = emit (Terminate 9) s2"
proof -
  let ?a = "[0xFF, 2, 3, 4, 5, 6] :: u8 list"
  let ?s = "snd (kbd_slot_alloc multi_env 9 (Some ?a) (demo_slots multi_env))"
  let ?s2 = "emu_link_terminated multi_env 9 0x13 ?s"
  have k: "kbd_slot_of multi_env 9 (demo_slots multi_env) = -1" by code_simp
  have f: "slotmap_find multi_env ?a (demo_slots multi_env) = -1" by code_simp
  have n: "kbd_next_pair_slot multi_env (demo_slots multi_env) = 0" by code_simp
  have s: "slotmap ?s ! 0 = ?a" "pair_slot ?s = -1" "kb_target ?s = KB_TGT_BLE1"
    by (simp_all add: kbd_slot_alloc_def k f n kbd_max_conn_def)
  then have p: "pair_slot ?s2 < 0" "slotmap ?s2 ! 0 = ?a" "kb_target ?s2 = KB_TGT_BLE1"
    by (simp_all add: emu_link_terminated_def Let_def)
  have "emu_link_established multi_env 9 ?a 1 ?s2 = emit (Terminate 9) ?s2"
    by (rule ff_address_never_readmitted [OF _ _ _ p(1)]) simp_all
  with p show ?thesis by (simp add: Let_def)
qed

section \<open>The advertising policy\<close>

text \<open>The advertiser as the log of parameter writes leaves it, and whether its type was changed while on.\<close>

record radio =
  adv_on :: bool
  adv_type :: "u8 list"
  adv_addr :: "u8 list"
  adv_bad :: bool

fun radio_step :: "act \<Rightarrow> radio \<Rightarrow> radio" where
  "radio_step (GapSet GAPROLE_ADVERT_ENABLED v) r = r\<lparr>adv_on := (v = [1])\<rparr>"
| "radio_step (GapSet GAPROLE_ADV_EVENT_TYPE v) r = r\<lparr>adv_type := v, adv_bad := adv_bad r \<or> adv_on r\<rparr>"
| "radio_step (GapSet GAPROLE_ADV_DIRECT_ADDR v) r = r\<lparr>adv_addr := v\<rparr>"
| "radio_step _ r = r"

datatype adv_goal = Quiet | General | Directed "u8 list"

definition ble_targeted :: "env \<Rightarrow> 'a slots_state_scheme \<Rightarrow> bool" where
  "ble_targeted E s = (kb_target s AND 0x0E \<noteq> 0)"

text \<open>The active slot: the first one the output target selects.\<close>

definition selected_slot :: "env \<Rightarrow> 'a slots_state_scheme \<Rightarrow> nat option" where
  "selected_slot E s = find (\<lambda>i. kb_target s AND tgt_bit i \<noteq> 0) [0..<kbd_max_conn (mode E)]"

text \<open>
  The table in the comment above \<open>kbd_adv_update\<close>: an open window is general advertising, when BLE is
  a target at all; a link means quiet; a waiting host that the active slot is reserved for is
  advertised at directly; otherwise, so for a free active slot and with USB alone, quiet.
\<close>

definition adv_policy :: "env \<Rightarrow> 'a slots_state_scheme \<Rightarrow> adv_goal" where
  "adv_policy E s =
     (if pair_slot s \<ge> 0 \<and> ble_targeted E s then General
      else if \<exists>i<kbd_max_conn (mode E). conn_up s i then Quiet
      else case selected_slot E s of
        None \<Rightarrow> Quiet
      | Some i \<Rightarrow> if slot_reserved s i then Directed (slotmap s ! i) else Quiet)"

text \<open>
  The one case in which the code leaves the table: a single-host build with its slot selected but
  free, no link and no open window.
\<close>

definition single_free :: "env \<Rightarrow> 'a slots_state_scheme \<Rightarrow> bool" where
  "single_free E s =
     (mode E \<noteq> MODE_KBD_MULTI \<and> pair_slot s < 0 \<and> \<not> conn_up s 0 \<and> selected_slot E s = Some 0 \<and>
      \<not> slot_reserved s 0)"

text \<open>What the code advertises: the single-host build does not ask whether the slot is reserved.\<close>

definition adv_goal :: "env \<Rightarrow> 'a slots_state_scheme \<Rightarrow> adv_goal" where
  "adv_goal E s =
     (if pair_slot s \<ge> 0 \<and> ble_targeted E s then General
      else if \<exists>i<kbd_max_conn (mode E). conn_up s i then Quiet
      else case selected_slot E s of
        None \<Rightarrow> Quiet
      | Some i \<Rightarrow> if mode E = MODE_KBD_MULTI \<and> \<not> slot_reserved s i then Quiet else Directed (slotmap s ! i))"

fun radio_meets :: "adv_goal \<Rightarrow> radio \<Rightarrow> bool" where
  "radio_meets Quiet r = (\<not> adv_on r)"
| "radio_meets General r = (adv_on r \<and> adv_type r = [0])"
| "radio_meets (Directed a) r = (adv_on r \<and> adv_type r = [1] \<and> adv_addr r = a)"


lemma goal_cases_adv:
  assumes "has_kbd (mode E)"
  shows "adv_goal E s = (case adv_want E s of
     (False, act) \<Rightarrow> Quiet | (True, act) \<Rightarrow> if act < 0 then General else Directed (slotmap s ! nat act))"
    "snd (adv_want E s) \<ge> 0 \<Longrightarrow> fst (adv_want E s) \<and> \<not> (pair_slot s \<ge> 0 \<and> kb_ble_advert_wanted s)"
proof -
  let ?n = "kbd_max_conn (mode E)"
  have tgt: "ble_targeted E s = kb_ble_advert_wanted s"
    by (simp add: ble_targeted_def kb_ble_advert_wanted_def kb_tgt_defs)
  have cnt: "(kb_ble_conn_count E s > 0) = (\<exists>i<?n. conn_up s i)"
    using assms by (auto simp: kb_ble_conn_count_def count_index_def conn_up_def filter_empty_conv)
  have wanted: "kb_ble_advert_wanted s" if "i < ?n" "kb_target s AND tgt_bit i \<noteq> 0" for i
  proof -
    have "i = 0 \<or> i = 1 \<or> i = 2" using that(1) kbd_max_conn_bounds(2) [of "mode E"] by linarith
    then have "tgt_bit i AND KB_TGT_BLE_ALL = tgt_bit i"
      by (auto simp: tgt_bit_def kb_tgt_defs)
    then have "(kb_target s AND tgt_bit i) = (kb_target s AND KB_TGT_BLE_ALL) AND tgt_bit i"
      by (metis and.assoc and.commute)
    with that(2) show ?thesis by (auto simp: kb_ble_advert_wanted_def)
  qed
  have multi: "(1 < ?n) = (mode E = MODE_KBD_MULTI)" by (simp add: kbd_max_conn_def)
  have act: "kb_ble_active_slot E s =
      (case find (\<lambda>i. kb_target s AND tgt_bit i \<noteq> 0) [0..<?n] of None \<Rightarrow> -1 | Some i \<Rightarrow> int i)"
    using assms by (simp add: kb_ble_active_slot_def first_index_def)
  show "adv_goal E s = (case adv_want E s of
     (False, act) \<Rightarrow> Quiet | (True, act) \<Rightarrow> if act < 0 then General else Directed (slotmap s ! nat act))"
  proof (cases "find (\<lambda>i. kb_target s AND tgt_bit i \<noteq> 0) [0..<?n]")
    case None
    then show ?thesis
      unfolding adv_goal_def selected_slot_def adv_want_def tgt cnt act None by simp
  next
    case (Some i)
    then have w: "kb_ble_advert_wanted s" using wanted [of i] by (auto simp: find_Some_iff)
    show ?thesis
      unfolding adv_goal_def selected_slot_def adv_want_def tgt cnt act Some multi slot_reserved_def Let_def using w
      by (cases "\<exists>i<?n. conn_up s i"; cases "slotmap s ! i ! 0 = 0xFF"; cases "0 \<le> pair_slot s") auto
  qed
  show "snd (adv_want E s) \<ge> 0 \<Longrightarrow> fst (adv_want E s) \<and> \<not> (pair_slot s \<ge> 0 \<and> kb_ble_advert_wanted s)"
    by (auto simp: adv_want_def Let_def split: if_splits)
qed

lemma adv_update_goal:
  assumes "has_kbd (mode E)"
  shows "let s' = kbd_adv_update E s; r' = fold radio_step (new_outs s s') r
    in radio_meets (adv_goal E s) r' \<and> adv_bad r' = adv_bad r \<and>
       last (new_outs s s') =
         (if adv_goal E s \<noteq> Quiet \<and> pair_slot s < 0
          then StartTask EmuTask ADV_REARM_EVT 4800 else StopTask EmuTask ADV_REARM_EVT)"
proof -
  obtain want act where w: "adv_want E s = (want, act)" by fastforce
  note g = goal_cases_adv [OF assms, of s, unfolded w]
  show ?thesis
  proof (cases want)
    case True
    then show ?thesis
      using g by (simp add: kbd_adv_update_def w new_outs_def Let_def bool_byte_def
          GAP_ADTYPE_ADV_IND_def GAP_ADTYPE_ADV_HDC_DIRECT_IND_def ms1_to_system_time_def ADV_REARM_MS_def)
  next
    case False
    then show ?thesis
      using g by (simp add: kbd_adv_update_def w new_outs_def Let_def bool_byte_def)
  qed
qed

lemma selected_targets: "selected_slot E s = Some i \<Longrightarrow> ble_targeted E s"
proof -
  assume "selected_slot E s = Some i"
  then have i: "i < kbd_max_conn (mode E)" "kb_target s AND tgt_bit i \<noteq> 0"
    by (auto simp: selected_slot_def find_Some_iff)
  then have "i = 0 \<or> i = 1 \<or> i = 2" using kbd_max_conn_bounds(2) [of "mode E"] by linarith
  then have "tgt_bit i AND 0x0E = tgt_bit i" by (auto simp: tgt_bit_def kb_tgt_defs)
  then have "(kb_target s AND tgt_bit i) = (kb_target s AND 0x0E) AND tgt_bit i" by (metis and.assoc and.commute)
  with i(2) show ?thesis by (auto simp: ble_targeted_def)
qed

text \<open>The code follows the table but for that case.\<close>

lemma goal_policy:
  "adv_goal E s = (if single_free E s then Directed (slotmap s ! 0) else adv_policy E s)"
  "single_free E s \<Longrightarrow> adv_policy E s = Quiet"
  "adv_policy E s = Directed a \<Longrightarrow> pair_slot s < 0" "adv_policy E s = General \<Longrightarrow> 0 \<le> pair_slot s"
proof -
  let ?n = "kbd_max_conn (mode E)"
  have one: "i = 0" if "mode E \<noteq> MODE_KBD_MULTI" "i < ?n" for i
    using that by (simp add: kbd_max_conn_def split: if_splits)
  have bound: "i < ?n" if "selected_slot E s = Some i" for i
    using that by (auto simp: selected_slot_def find_Some_iff)
  show "single_free E s \<Longrightarrow> adv_policy E s = Quiet" by (simp add: single_free_def adv_policy_def)
  show "adv_policy E s = Directed a \<Longrightarrow> pair_slot s < 0"
    using selected_targets [of E s] by (auto simp: adv_policy_def split: if_splits option.splits)
  show "adv_policy E s = General \<Longrightarrow> 0 \<le> pair_slot s"
    by (auto simp: adv_policy_def split: if_splits option.splits)
  show "adv_goal E s = (if single_free E s then Directed (slotmap s ! 0) else adv_policy E s)"
  proof (cases "selected_slot E s")
    case None
    then show ?thesis by (simp add: adv_goal_def adv_policy_def single_free_def)
  next
    case (Some i)
    have m: "mode E \<noteq> MODE_KBD_MULTI \<Longrightarrow> i = 0 \<and> ((\<exists>j<?n. conn_up s j) = conn_up s 0)"
      using one bound [OF Some] by (metis gr_implies_not0 neq0_conv)
    show ?thesis
      using Some m selected_targets [OF Some]
      by (cases "mode E = MODE_KBD_MULTI"; cases "slot_reserved s i"; cases "pair_slot s < 0")
        (auto simp: adv_goal_def adv_policy_def single_free_def)
  qed
qed

text \<open>
  C10: a run of the advertising policy leaves the advertiser where the policy's table says, with one
  exception: on and undirected while a pairing window is open and BLE is a target, off while a host is
  linked, directed at the waiting host the active slot is reserved for, off otherwise, and the timer
  that repeats the directed burst runs exactly while such a host is waited for.  The
  exception is a single-host build whose selected slot is free, with no link and no window, where the
  table says off: there the code advertises, directed at the unset address of the free slot, and the
  timer runs.  The advertising type is only ever written while advertising is off.
\<close>

theorem adv_update_meets_policy:
  assumes "has_kbd (mode E)"
  shows "let s' = kbd_adv_update E s; r' = fold radio_step (new_outs s s') r;
             on = StartTask EmuTask ADV_REARM_EVT 4800; off = StopTask EmuTask ADV_REARM_EVT
    in adv_bad r' = adv_bad r \<and>
       (if single_free E s
        then adv_policy E s = Quiet \<and> radio_meets (Directed (slotmap s ! 0)) r' \<and> last (new_outs s s') = on
        else radio_meets (adv_policy E s) r' \<and>
          last (new_outs s s') = (if \<exists>a. adv_policy E s = Directed a then on else off))"
proof -
  have f: "pair_slot s < 0" if "single_free E s" using that by (simp add: single_free_def)
  show ?thesis
    using adv_update_goal [OF assms, of s r] goal_policy [of E s] f
    by (cases "single_free E s"; cases "adv_policy E s") (auto simp: Let_def)
qed

theorem adv_update_meets_policy_witness:
  "adv_policy multi_env reserved_state = Directed [1, 2, 3, 4, 5, 6] \<and>
   (let r = fold radio_step (new_outs reserved_state (kbd_adv_update multi_env reserved_state))
       \<lparr>adv_on = False, adv_type = [], adv_addr = [], adv_bad = False\<rparr>
    in adv_on r \<and> adv_addr r = [1, 2, 3, 4, 5, 6])"
proof -
  have g: "adv_policy multi_env reserved_state = Directed [1, 2, 3, 4, 5, 6]"
  proof -
    have "\<not> (\<exists>i<3. conn_up reserved_state i)"
      by (simp add: reserved_state_def conn_up_def kbd_max_conn_def)
    moreover have "find (\<lambda>i. kb_target reserved_state AND tgt_bit i \<noteq> 0) [0..<3] = Some 1"
      by code_simp
    ultimately show ?thesis
      by (simp add: adv_policy_def selected_slot_def kbd_max_conn_def reserved_state_def slot_reserved_def)
  qed
  moreover have "\<not> single_free multi_env reserved_state" by (simp add: single_free_def)
  moreover have "has_kbd (mode multi_env)" by simp
  ultimately show ?thesis
    using adv_update_meets_policy [of multi_env reserved_state
      "\<lparr>adv_on = False, adv_type = [], adv_addr = [], adv_bad = False\<rparr>"]
    by (simp add: Let_def)
qed

text \<open>The exception happens: a single-host keyboard with an empty slot calls out to the address FF:FF:FF:FF:FF:FF.\<close>

lemma single_host_calls_nobody:
  assumes "mode E = MODE_KBD" "pair_slot s < 0" "\<not> conn_up s 0" "kb_target s = KB_TGT_BLE1"
    "slotmap s ! 0 = replicate 6 0xFF"
  shows "let r' = fold radio_step (new_outs s (kbd_adv_update E s)) r
    in adv_on r' \<and> adv_type r' = [1] \<and> adv_addr r' = replicate 6 0xFF"
proof -
  have k: "has_kbd (mode E)" using assms(1) by simp
  have "single_free E s"
    using assms by (simp add: single_free_def selected_slot_def kbd_max_conn_def slot_reserved_def
        tgt_bit_def kb_tgt_defs)
  with adv_update_goal [OF k, of s r] goal_policy(1) [of E s] assms(5) show ?thesis
    by (simp add: Let_def)
qed

section \<open>The HID device under this application\<close>

lemma link_view_slots [simp]:
  "link_view (AT_Response t s) = link_view s"
  "link_view (s\<lparr>flash := f\<rparr>) = link_view s"
  by (simp_all add: link_view_def AT_Response_def)

lemma link_view_emu [simp]:
  "link_view (kbd_name_update E s) = link_view s"
  "link_view (slotmap_save E s) = link_view s"
  "link_view (kbd_adv_update E s) = link_view s"
  "link_view (kb_ble_apply_addr E k s) = link_view s"
proof -
  show n: "link_view (kbd_name_update E s) = link_view s" for s :: "'a slots_state_scheme"
    by (simp add: kbd_name_update_def link_view_def Let_def)
  show "link_view (slotmap_save E s) = link_view s"
    by (simp add: slotmap_save_def n EEPROM_ERASE_def EEPROM_WRITE_def Let_def split: prod.splits)
  show "link_view (kbd_adv_update E s) = link_view s"
    by (simp add: kbd_adv_update_def Let_def split: prod.splits)
  show "link_view (kb_ble_apply_addr E k s) = link_view s"
    by (simp add: kb_ble_apply_addr_def Let_def n)
qed

lemma link_view_tabs [simp]:
  "link_view (s\<lparr>kbd_conns := c\<rparr>) = link_view s"
  "link_view (s\<lparr>kbd_conns := c, slotmap := m\<rparr>) = link_view s"
  "link_view (s\<lparr>slottype := ty\<rparr>) = link_view s"
  by (simp_all add: link_view_def)

lemma link_view_alloc [simp]: "link_view (snd (kbd_slot_alloc E h a s)) = link_view s"
  by (simp add: kbd_slot_alloc_def Let_def split: option.splits)

lemma link_view_state_cb: "link_view (ble_hid_emu_state_cb E st ev s) = link_view s"
proof (cases ev)
  case (LinkEstablished h addr ty intv lat)
  obtain k s1 where k: "kbd_slot_alloc E h (Some addr) s = (k, s1)" by fastforce
  then have "link_view s1 = link_view s" using link_view_alloc [of E h "Some addr" s] by simp
  then show ?thesis
    by (simp add: LinkEstablished ble_hid_emu_state_cb_def emu_link_established_def k Let_def
        kbd_slot_set_type_def)
qed (simp_all add: ble_hid_emu_state_cb_def emu_link_terminated_def emu_role_state_def Let_def)

interpretation emu_app: hid_app "ble_hid_emu_state_cb E" for E
  by unfold_locales (rule link_view_state_cb)

text \<open>
  C11: the HID device, with the keyboard application's callback in place, trusts no one by default:
  after any history of link, pairing, parameter, report, timer and attribute events, a connection
  counts as secure only if that handle has paired or bonded with status \<open>SUCCESS\<close> since its link
  last came up.
\<close>

theorem hid_secure_needs_pairing:
  assumes "hid_inv E s" "real_links evs" "h \<noteq> GAP_CONNHANDLE_INIT" "\<not> ble_hid_dev_conn_secure E h s"
    and "ble_hid_dev_conn_secure E h (hid_run (ble_hid_emu_state_cb E) E evs s)"
  shows "trusted h evs"
  using emu_app.run_trust [OF assms(1-4)] assms(5) by blast

theorem hid_secure_needs_pairing_witness:
  "let s = (demo_slots multi_env)\<lparr>gapConnHandles := [7, GAP_CONNHANDLE_INIT, GAP_CONNHANDLE_INIT]\<rparr>;
       evs = [EvParam 7 24 0, EvPair 7 PairComplete SUCCESS]
   in ble_hid_dev_conn_secure multi_env 7 (hid_run (ble_hid_emu_state_cb multi_env) multi_env evs s) \<and>
      trusted 7 evs"
proof -
  let ?s = "(demo_slots multi_env)\<lparr>gapConnHandles := [7, GAP_CONNHANDLE_INIT, GAP_CONNHANDLE_INIT]\<rparr>"
  let ?evs = "[EvParam 7 24 0, EvPair 7 PairComplete SUCCESS]"
  have i: "hid_inv multi_env ?s" unfolding hid_inv_def multi_max less3 by code_simp
  have sec: "ble_hid_dev_conn_secure multi_env 7 (hid_run (ble_hid_emu_state_cb multi_env) multi_env ?evs ?s)"
    by code_simp
  have n: "\<not> ble_hid_dev_conn_secure multi_env 7 ?s" by code_simp
  have "trusted 7 ?evs"
    by (rule hid_secure_needs_pairing [OF i _ _ n sec]) (simp_all add: real_links_def GAP_CONNHANDLE_INIT_def)
  with sec show ?thesis by (simp add: Let_def)
qed

end
