(* ===== verification/Slot_Flash.thy ===== *)
theory Slot_Flash
  imports Slot_Hist
begin

text \<open>
  The page of DataFlash that keeps the host slots: what \<open>slotmap_save\<close> writes, \<open>slotmap_load\<close> reads
  back; and what the keyboard starts with when the page holds nothing.
\<close>

section \<open>Cutting a page into fields\<close>

lemma slice_append: "slice (length p + a) k (p @ q) = slice a k q"
  by (simp add: slice_def)

lemma slice_append_le: "a + k \<le> length p \<Longrightarrow> slice a k (p @ q) = slice a k p"
  by (simp add: slice_def)

lemma length_concat_uniform: "\<forall>x\<in>set xss. length x = k \<Longrightarrow> length (concat xss) = length xss * k"
  by (induction xss) auto

lemma slice_concat:
  assumes "\<forall>x\<in>set xss. length x = k" "i < length xss"
  shows "slice (i * k) k (concat xss @ ys) = xss ! i"
proof -
  have "concat xss = concat (take i xss) @ xss ! i @ concat (drop (Suc i) xss)"
    using assms(2) by (metis concat.simps(2) concat_append id_take_nth_drop)
  moreover have "length (concat (take i xss)) = i * k"
    using assms length_concat_uniform [of "take i xss" k] by (auto dest: in_set_takeD)
  moreover have "length (xss ! i) = k" using assms by simp
  ultimately show ?thesis by (simp add: slice_def)
qed

lemma bytes_of_concat: "bytes_of (concat xs) = concat (map bytes_of xs)"
  by (induction xs) (simp_all add: bytes_of_def)

lemma chars_of_bytes_of [simp]: "map char_of_byte (bytes_of s) = s"
  by (induction s) (simp_all add: bytes_of_def)

section \<open>What may be stored\<close>

text \<open>The values the setters accept for a slot: a pace from 5 to 2000, an address type of 0 or 1.\<close>

definition settings_ok :: "nat \<Rightarrow> 'a slots_state_scheme \<Rightarrow> bool" where
  "settings_ok n s = (\<forall>i<n. 5 \<le> slotpace s ! i \<and> slotpace s ! i \<le> 2000 \<and> slottype s ! i \<le> 1)"

definition storable :: "nat \<Rightarrow> 'a slots_state_scheme \<Rightarrow> bool" where
  "storable n s = (slots_wf n s \<and> settings_ok n s)"

lemma settings_view: "slots_view s' = slots_view s \<Longrightarrow> settings_ok n s' = settings_ok n s"
  by (simp add: settings_ok_def slots_view_def)

lemma settings_role [simp]: "settings_ok n (emu_role_state E st s) = settings_ok n s"
  by (rule settings_view) (rule slots_view_role_state)

text \<open>Every step of the keyboard keeps them so.\<close>

lemma settings_alloc: "settings_ok n (snd (kbd_slot_alloc E h a s)) = settings_ok n s"
  by (simp add: kbd_slot_alloc_def settings_ok_def Let_def split: option.split)

lemma settings_set_type:
  assumes "slots_inv E s" "settings_ok (kbd_max_conn (mode E)) s"
  shows "settings_ok (kbd_max_conn (mode E)) (kbd_slot_set_type E i ty s)"
proof -
  have l: "length (slottype s) = kbd_max_conn (mode E)" using assms(1) by (simp add: slots_inv_def slots_wf_def Let_def)
  then show ?thesis using assms(2)
    by (auto simp: settings_ok_def kbd_slot_set_type_def nth_list_update)
qed

lemma settings_established:
  assumes "slots_inv E s" "settings_ok (kbd_max_conn (mode E)) s" "fresh_link E h a s"
  shows "settings_ok (kbd_max_conn (mode E)) (emu_link_established E h a ty s)"
proof -
  obtain k s1 where k: "kbd_slot_alloc E h (Some a) s = (k, s1)" by fastforce
  have l: "length (slottype s1) = kbd_max_conn (mode E)"
  proof -
    have "slottype (snd (kbd_slot_alloc E h (Some a) s)) = slottype s"
      by (simp add: kbd_slot_alloc_def Let_def)
    then show ?thesis using assms(1) k by (simp add: slots_inv_def slots_wf_def Let_def)
  qed
  have s1: "settings_ok (kbd_max_conn (mode E)) s1" using settings_alloc [of _ E h "Some a" s] assms(2) k by simp
  have "settings_ok (kbd_max_conn (mode E)) (kbd_slot_set_type E j ty s1)" for j
    using l s1 by (auto simp: settings_ok_def kbd_slot_set_type_def nth_list_update)
  then show ?thesis using s1 assms(2)
    by (simp add: emu_link_established_def k Let_def settings_ok_def)
qed

lemma settings_step:
  assumes "kbd_step E s s'" "slots_inv E s" "settings_ok (kbd_max_conn (mode E)) s"
  shows "settings_ok (kbd_max_conn (mode E)) s'"
proof -
  let ?n = "kbd_max_conn (mode E)"
  have l: "length (slotpace s) = ?n" using assms(2) by (simp add: slots_inv_def slots_wf_def Let_def)
  have "settings_ok ?n s'" if "stack_step E s s'"
    using that
  proof cases
    case (link_up h a st ty intv lat)
    then show ?thesis using settings_established [OF assms(2,3)] by (simp add: ble_hid_emu_state_cb_def)
  next
    case (timer ev)
    have "slots_view s' = slots_view s" using timer by simp
    then show ?thesis using assms(3) settings_view by blast
  next
    case (link_down st h r)
    then have "settings_ok ?n s' = settings_ok ?n (emu_link_terminated E h r s)"
      by (simp add: ble_hid_emu_state_cb_def)
    then show ?thesis using assms(3)
      by (simp add: emu_link_terminated_def Let_def settings_ok_def)
  next
    case (role_state st oc)
    have "slots_view s' = slots_view s" using role_state by (simp add: ble_hid_emu_state_cb_def)
    then show ?thesis using assms(3) settings_view by blast
  qed
  moreover have "settings_ok ?n s'" if "user_step E s s'"
    using that
  proof cases
    case (rename i name)
    obtain ok k m where "name_loop 0 name (slotname s ! i) = (ok, k, m)" by (metis prod_cases3)
    then show ?thesis using rename assms(3) by (simp add: kb_ble_slot_set_name_def settings_ok_def)
  next
    case (repace i ms)
    then show ?thesis using assms(3) l
      by (auto simp: kb_ble_slot_set_pace_def settings_ok_def kb_slot_ok_def nth_list_update not_less)
  next
    case (target k m)
    have "slots_view s' = slots_view s" using target by simp
    then show ?thesis using assms(3) settings_view by blast
  next
    case (window k)
    have "slots_view s' = slots_view s" using window by simp
    then show ?thesis using assms(3) settings_view by blast
  qed (use assms(3) in \<open>simp_all add: kb_ble_slot_set_mac_def kb_ble_disconnect_slot_def settings_ok_def\<close>)
  moreover have "settings_ok ?n (snd (kb_ble_unbind_slot E i s))" for i
    using assms(3) l
    by (auto simp: kb_ble_unbind_slot_def settings_ok_def kb_slot_ok_def Let_def nth_list_update SLOTPACE_DFLT_def)
  ultimately show ?thesis using assms(1) by (auto elim: kbd_stepE)
qed

text \<open>So what any history leaves can be stored.\<close>

lemma storable_steps:
  assumes "(kbd_step E)\<^sup>*\<^sup>* s s'" "slots_inv E s" "settings_ok (kbd_max_conn (mode E)) s"
  shows "slots_inv E s'" "storable (kbd_max_conn (mode E)) s'"
proof -
  have "slots_inv E s' \<and> settings_ok (kbd_max_conn (mode E)) s'"
    using assms by (induction) (auto intro: kbd_step_inv settings_step)
  then show "slots_inv E s'" "storable (kbd_max_conn (mode E)) s'"
    by (simp_all add: storable_def slots_inv_def Let_def)
qed

text \<open>And what a load finds is in those ranges again.\<close>

lemma settings_load:
  assumes "\<forall>i<kbd_max_conn (mode E). slottype t ! i \<le> 1"
  shows "settings_ok (kbd_max_conn (mode E)) (slotmap_load E t)"
  using assms by (auto simp: settings_ok_def slotmap_load_def Let_def load_pace_def SLOTPACE_DFLT_def)

text \<open>
  The own address after a load: an address whose first and last byte are \<open>0xFF\<close> reads as unset and
  the slot gets its default again.
\<close>

definition mac_after_load :: "env \<Rightarrow> nat \<Rightarrow> u8 list \<Rightarrow> u8 list" where
  "mac_after_load E i m =
     (if m ! 0 = 0xFF \<and> m ! 5 = 0xFF then (take 6 (chip_mac E))[0 := chip_mac E ! 0 + of_nat i] else m)"

lemma label_byte: "label_cell c \<Longrightarrow> byte_of c \<noteq> 0xFF"
proof
  assume l: "label_cell c" and b: "byte_of c = 0xFF"
  have "c = char_of_byte (byte_of c)" by simp
  then have "cc c = 255" unfolding b by (simp add: char_of_byte_def cc_def)
  then show False using l by (auto simp: label_cell_def label_char_def cc_def)
qed

lemma load_name_stored: "label_mem m \<Longrightarrow> load_name True (bytes_of m) = m"
proof -
  assume m: "label_mem m"
  then have l: "length m = 12" "m ! 11 = NUL" by (simp_all add: label_mem_def SLOTNAME_LEN_def)
  then have "label_cell (m ! 0)" using m by (auto simp: label_mem_def)
  then have "bytes_of m ! 0 \<noteq> 0xFF" using l label_byte by (simp add: bytes_of_def)
  then show ?thesis
    using l by (simp add: load_name_def SLOTNAME_LEN_def) (metis list_update_id)
qed

lemma load_pace_stored: "5 \<le> v \<Longrightarrow> v \<le> 2000 \<Longrightarrow> load_pace True (le16 v) = v"
  by (auto simp: load_pace_def Let_def)

lemma wf_uniform:
  assumes "slots_wf n s"
  shows "\<forall>x\<in>set (slotmap s). length x = 6" "\<forall>x\<in>set (slotname s). length x = 12"
    "\<forall>x\<in>set (map bytes_of (slotname s)). length x = 12"
    "\<forall>x\<in>set (map le16 (slotpace s)). length x = 2" "\<forall>x\<in>set (slotmac s). length x = 6"
    "length (slotmap s) = n" "length (slotname s) = n" "length (slotpace s) = n"
    "length (slotmac s) = n" "length (slottype s) = n"
  using assms unfolding slots_wf_def label_mem_def SLOTNAME_LEN_def
  by (auto simp: in_set_conv_nth)

lemma length_image:
  assumes "slots_wf n s"
  shows "length (slotmap_image s) = 4 + 27 * n"
proof -
  note u = wf_uniform [OF assms]
  have "length (concat (slotmap s)) = n * 6" "length (concat (slotname s)) = n * 12"
    "length (concat (map le16 (slotpace s))) = n * 2" "length (concat (slotmac s)) = n * 6"
    using length_concat_uniform [OF u(1)] length_concat_uniform [OF u(2)]
      length_concat_uniform [OF u(4)] length_concat_uniform [OF u(5)] u by simp_all
  then show ?thesis using assms by (simp add: slotmap_image_def slots_wf_def)
qed

lemma length_buf: "slots_wf n s \<Longrightarrow> n \<le> 3 \<Longrightarrow> length (slotmap_buf E s) = 96"
  by (simp add: slotmap_buf_def length_image)

text \<open>The fields of the image, one by one.\<close>

lemma image_fields:
  assumes wf: "slots_wf n s" and i: "i < n"
  shows "slice (4 + i * 6) 6 (slotmap_image s @ ys) = slotmap s ! i"
    and "slice (4 + n * 6 + i * 12) 12 (slotmap_image s @ ys) = bytes_of (slotname s ! i)"
    and "slice (4 + n * 6 + n * 12 + i * 2) 2 (slotmap_image s @ ys) = le16 (slotpace s ! i)"
    and "slice (4 + n * 6 + n * 12 + n * 2 + i * 6) 6 (slotmap_image s @ ys) = slotmac s ! i"
    and "(slotmap_image s @ ys) ! (4 + n * 6 + n * 12 + n * 2 + n * 6 + i) = slottype s ! i"
proof -
  note u = wf_uniform(1,3,4,5) [OF wf]
  have n: "length (slotmap s) = n" "length (map bytes_of (slotname s)) = n" "length (slotpace s) = n"
    "length (slotmac s) = n" "length (slottype s) = n" "length (slotname s) = n"
    using wf_uniform [OF wf] by simp_all
  let ?a = "le32 SLOTMAP_MAGIC" and ?b = "concat (slotmap s)" and ?c = "concat (map bytes_of (slotname s))"
    and ?d = "concat (map le16 (slotpace s))" and ?e = "concat (slotmac s)"
  have L: "length ?a = 4" "length ?b = n * 6" "length ?c = n * 12" "length ?d = n * 2" "length ?e = n * 6"
    using u n length_concat_uniform [OF u(1)] length_concat_uniform [OF u(2)]
      length_concat_uniform [OF u(3)] length_concat_uniform [OF u(4)] by simp_all
  have I: "slotmap_image s @ ys = ?a @ ?b @ ?c @ ?d @ ?e @ slottype s @ ys"
    by (simp add: slotmap_image_def bytes_of_concat)
  show "slice (4 + i * 6) 6 (slotmap_image s @ ys) = slotmap s ! i"
    using slice_append [of ?a "i * 6" 6] slice_concat [OF u(1), of i] i n by (simp add: I L)
  show "slice (4 + n * 6 + i * 12) 12 (slotmap_image s @ ys) = bytes_of (slotname s ! i)"
    using slice_append [of "?a @ ?b" "i * 12" 12] slice_concat [OF u(2), of i] i n by (simp add: I L)
  show "slice (4 + n * 6 + n * 12 + i * 2) 2 (slotmap_image s @ ys) = le16 (slotpace s ! i)"
    using slice_append [of "?a @ ?b @ ?c" "i * 2" 2] slice_concat [OF u(3), of i] i n
    by (simp add: I L add.assoc)
  show "slice (4 + n * 6 + n * 12 + n * 2 + i * 6) 6 (slotmap_image s @ ys) = slotmac s ! i"
    using slice_append [of "?a @ ?b @ ?c @ ?d" "i * 6" 6] slice_concat [OF u(4), of i] i n
    by (simp add: I L add.assoc)
  show "(slotmap_image s @ ys) ! (4 + n * 6 + n * 12 + n * 2 + n * 6 + i) = slottype s ! i"
    using nth_append_length_plus [of "?a @ ?b @ ?c @ ?d @ ?e" "slottype s @ ys" i] i n
    by (simp add: I L add.assoc nth_append)
qed

lemma map_upt_eqI: "length xs = n \<Longrightarrow> (\<And>i. i < n \<Longrightarrow> f i = xs ! i) \<Longrightarrow> map f [0..<n] = xs"
  by (auto intro: nth_equalityI)

text \<open>
  what the keyboard stores about its hosts survives a reset: when the erase and the write of the
  page succeed, loading it into any later state brings back the reservations, labels, paces and
  address types exactly, and the own addresses but for those that read as unset.
\<close>

theorem slotmap_round_trip:
  assumes "ee_spec E" "storable (kbd_max_conn (mode E)) s"
    and "EEPROM_ERASE E APP_SLOTMAP_FLASH_ADDR 96 s = (0, s1)"
    and "EEPROM_WRITE E APP_SLOTMAP_FLASH_ADDR (slotmap_buf E s) s1 = (0, s2)"
    and "flash t = flash (slotmap_save E s)"
  shows "slotmap (slotmap_load E t) = slotmap s \<and> slotname (slotmap_load E t) = slotname s \<and>
    slotpace (slotmap_load E t) = slotpace s \<and>
    slotmac (slotmap_load E t) = map (\<lambda>i. mac_after_load E i (slotmac s ! i)) [0..<kbd_max_conn (mode E)] \<and>
    slottype (slotmap_load E t) = slottype s"
proof -
  let ?n = "kbd_max_conn (mode E)" and ?t = "slotmap_load E t"
  have wf: "slots_wf ?n s" using assms(2) by (simp add: storable_def)
  have lb: "length (slotmap_buf E s) = 96" by (rule length_buf [OF wf]) simp
  have "flash t = flash s2" using assms(3-5) by (simp add: slotmap_save_def lb Let_def)
  moreover have "EEPROM_READ E APP_SLOTMAP_FLASH_ADDR 96 s2 = slotmap_buf E s"
    using EEPROM_round_trip [OF assms(1) _ _ assms(4)] assms(3) lb
    by (simp add: in_page_def APP_SLOTMAP_FLASH_ADDR_def)
  ultimately have rd: "EEPROM_READ E APP_SLOTMAP_FLASH_ADDR 96 t = slotmap_buf E s"
    by (simp add: EEPROM_READ_def)
  have m: "take 4 (slotmap_buf E s) = le32 SLOTMAP_MAGIC"
    by (simp add: slotmap_buf_def slotmap_image_def)
  note f = image_fields [OF wf, where ys = "map (stack_junk E (outs s)) [length (slotmap_image s)..<96]",
      folded slotmap_buf_def]
  have len: "length (slotmap s) = ?n" "length (slotname s) = ?n" "length (slotpace s) = ?n"
    "length (slotmac s) = ?n" "length (slottype s) = ?n"
    using wf by (simp_all add: slots_wf_def)
  have st: "label_mem (slotname s ! i)" "5 \<le> slotpace s ! i" "slotpace s ! i \<le> 2000"
    "slottype s ! i \<le> 1" if "i < ?n" for i
    using assms(2) that by (auto simp: storable_def settings_ok_def slots_wf_def)
  let ?b = "slotmap_buf E s"
  have "slotmap ?t = map (\<lambda>i. slice (4 + i * 6) 6 ?b) [0..<?n]"
    by (simp add: slotmap_load_def Let_def rd m)
  also have "\<dots> = slotmap s" by (rule map_upt_eqI [OF len(1) f(1)])
  finally have 1: "slotmap ?t = slotmap s" .
  have "slotname ?t = map (\<lambda>i. load_name True (slice (4 + ?n * 6 + i * 12) 12 ?b)) [0..<?n]"
    by (simp add: slotmap_load_def Let_def rd m SLOTNAME_LEN_def)
  also have "\<dots> = slotname s"
    by (rule map_upt_eqI [OF len(2)], subst f(2)) (simp_all add: load_name_stored st(1))
  finally have 2: "slotname ?t = slotname s" .
  have "slotpace ?t = map (\<lambda>i. load_pace True (slice (4 + ?n * 6 + ?n * 12 + i * 2) 2 ?b)) [0..<?n]"
    by (simp add: slotmap_load_def Let_def rd m SLOTNAME_LEN_def)
  also have "\<dots> = slotpace s"
    by (rule map_upt_eqI [OF len(3)], subst f(3)) (simp_all add: load_pace_stored st(2,3))
  finally have 3: "slotpace ?t = slotpace s" .
  have "slotmac ?t = map (\<lambda>i. load_mac E True i (slice (4 + ?n * 6 + ?n * 12 + ?n * 2 + i * 6) 6 ?b)) [0..<?n]"
    by (simp add: slotmap_load_def Let_def rd m SLOTNAME_LEN_def)
  also have "\<dots> = map (\<lambda>i. mac_after_load E i (slotmac s ! i)) [0..<?n]"
    by (rule map_cong [OF refl], subst f(4)) (auto simp: load_mac_def mac_after_load_def Let_def)
  finally have 4: "slotmac ?t = map (\<lambda>i. mac_after_load E i (slotmac s ! i)) [0..<?n]" .
  have "slottype ?t = map (\<lambda>i. let x = ?b ! (4 + ?n * 6 + ?n * 12 + ?n * 2 + ?n * 6 + i)
      in if x > 1 then 1 else x) [0..<?n]"
    by (simp add: slotmap_load_def Let_def rd m SLOTNAME_LEN_def)
  also have "\<dots> = slottype s"
    by (rule map_upt_eqI [OF len(5)], subst f(5)) (use st(4) in \<open>simp_all add: Let_def leD\<close>)
  finally have 5: "slottype ?t = slottype s" .
  from 1 2 3 4 5 show ?thesis by blast
qed

theorem slotmap_round_trip_witness:
  "slotmap (slotmap_load multi_env (slotmap_save multi_env reserved_state)) =
     [replicate 6 0xFF, [1, 2, 3, 4, 5, 6], replicate 6 0xFF]"
proof -
  let ?s = "reserved_state" and ?E = multi_env
  have st: "storable (kbd_max_conn (mode ?E)) ?s"
    unfolding storable_def settings_ok_def slots_wf_def multi_max less3 by code_simp
  have e: "EEPROM_ERASE ?E APP_SLOTMAP_FLASH_ADDR 96 ?s = (0, snd (EEPROM_ERASE ?E APP_SLOTMAP_FLASH_ADDR 96 ?s))"
    by (simp add: EEPROM_ERASE_def demo_env_def nor_erase_def)
  have w: "EEPROM_WRITE ?E APP_SLOTMAP_FLASH_ADDR b t = (0, snd (EEPROM_WRITE ?E APP_SLOTMAP_FLASH_ADDR b t))"
    for b and t :: slots_state
    by (simp add: EEPROM_WRITE_def demo_env_def nor_write_def)
  from slotmap_round_trip [OF ee_spec_demo st e w refl] show ?thesis
    by (simp add: reserved_state_def)
qed

section \<open>An empty page\<close>

lemma slots_fold_emit [simp]:
  "slots_view (fold emit as s) = slots_view s" "pair_slot (fold emit as s) = pair_slot s"
  by (simp_all add: slots_view_fold pair_slot_fold)

lemma slots_view_hid [simp]:
  "slots_view (ble_hid_kbd_add_service E s) = slots_view s"
  "slots_view (ble_batt_set_critical E v s) = slots_view s"
proof -
  show "slots_view (ble_hid_kbd_add_service E s) = slots_view s"
    by (simp add: ble_hid_kbd_add_service_def slots_view_def)
  have n: "slots_view (battNotifyLevel E t) = slots_view t" for t :: "'a slots_state_scheme"
    unfolding battNotifyLevel_def
    by (rule slots_view_fold) (simp add: battNotifyCB_def HidDev_sendNoti_def call_def Let_def split: prod.splits)
  show "slots_view (ble_batt_set_critical E v s) = slots_view s"
    unfolding ble_batt_set_critical_def Let_def by (simp add: n, simp add: slots_view_def)
qed

lemma slots_view_init:
  assumes "has_kbd (mode E)"
  shows "slots_view (ble_hid_emu_init E s) =
    slots_view (slotmap_load E (kbd_name_update E (emit (RegisterTask EmuTask) s)))"
  unfolding ble_hid_emu_init_def Let_def using assms by simp

text \<open>
  a keyboard that starts with no valid page in its DataFlash has every slot free, unnamed, at
  the default pace, and gives slot \<open>i\<close> the chip's address with \<open>i\<close> added to its last byte; and this
  state satisfies the invariant of the slots.
\<close>

theorem start_on_empty_page:
  assumes "has_kbd (mode E)" "length (chip_mac E) = 6"
    and "take 4 (EEPROM_READ E APP_SLOTMAP_FLASH_ADDR 96 (slots_init_state E)) \<noteq> le32 SLOTMAP_MAGIC"
  shows "let s = ble_hid_emu_init E (slots_init_state E)
    in slots_inv E s \<and>
       (\<forall>i<kbd_max_conn (mode E). slot_free s i \<and> cstr_at (slotname s ! i) 0 = [] \<and>
          slotpace s ! i = 30 \<and> slotmac s ! i = (chip_mac E)[0 := chip_mac E ! 0 + of_nat i])"
proof -
  let ?s = "ble_hid_emu_init E (slots_init_state E)" and ?n = "kbd_max_conn (mode E)"
  let ?t = "slotmap_load E (kbd_name_update E (emit (RegisterTask EmuTask) (slots_init_state E)))"
  have no: "take 4 (EEPROM_READ E APP_SLOTMAP_FLASH_ADDR 96
      (kbd_name_update E (emit (RegisterTask EmuTask) (slots_init_state E)))) \<noteq> le32 SLOTMAP_MAGIC"
    using assms(3) by (simp add: EEPROM_READ_def)
  have nm: "load_name False x = replicate 12 NUL" for x
  proof -
    have "(replicate 12 NUL)[11 := NUL] = replicate 12 NUL" by code_simp
    then show ?thesis by (simp add: load_name_def SLOTNAME_LEN_def)
  qed
  have t: "kbd_conns ?t = replicate ?n \<lparr>c_handle = GAP_CONNHANDLE_INIT, c_addr = replicate 6 0\<rparr>"
    "slotmap ?t = replicate ?n (replicate 6 0xFF)"
    "slotname ?t = map (\<lambda>i. replicate 12 NUL) [0..<?n]"
    "slotpace ?t = map (\<lambda>i. 30) [0..<?n]"
    "slotmac ?t = map (\<lambda>i. (chip_mac E)[0 := chip_mac E ! 0 + of_nat i]) [0..<?n]"
    "slottype ?t = replicate ?n 0"
    using no assms(2)
    by (simp_all add: slotmap_load_def Let_def nm load_pace_def load_mac_def SLOTPACE_DFLT_def
        slots_init_state_def hid_state.defs)
  have s: "kbd_conns ?s = kbd_conns ?t" "slotmap ?s = slotmap ?t" "slotname ?s = slotname ?t"
    "slotpace ?s = slotpace ?t" "slotmac ?s = slotmac ?t" "slottype ?s = slottype ?t"
    using slots_view_init [OF assms(1), of "slots_init_state E"] by (simp_all add: slots_view_def)
  have lm: "label_mem (replicate 12 NUL)"
    by (simp add: label_mem_def SLOTNAME_LEN_def label_cell_def)
  have "slots_inv E ?s"
    by (simp add: slots_inv_unfold s t lm assms(2))
  then show ?thesis
    by (simp add: s t Let_def slot_free_def cstr_at_def)
qed

theorem start_on_empty_page_witness:
  "slots_inv multi_env (ble_hid_emu_init multi_env (slots_init_state multi_env)) \<and>
   slotmac (ble_hid_emu_init multi_env (slots_init_state multi_env)) ! 2 = [0x13, 0x22, 0x33, 0x44, 0x55, 0xC6]"
proof -
  let ?E = multi_env
  have mac: "chip_mac ?E = [0x11, 0x22, 0x33, 0x44, 0x55, 0xC6]" by (simp add: demo_env_def)
  have ee: "ee_read ?E = nor_read" by (simp add: demo_env_def)
  have fl: "flash (slots_init_state ?E) = (\<lambda>_. 0xFF)"
    by (simp add: slots_init_state_def hid_state.defs hid_init_state_def hws_state.defs hws_init_state_def
        led_state.defs led_init_state_def base.defs base_init_def)
  have "EEPROM_READ ?E APP_SLOTMAP_FLASH_ADDR 96 (slots_init_state ?E) = replicate 96 0xFF"
    using ee by (simp add: EEPROM_READ_def fl nor_read_def map_replicate_const)
  then have no: "take 4 (EEPROM_READ ?E APP_SLOTMAP_FLASH_ADDR 96 (slots_init_state ?E)) \<noteq> le32 SLOTMAP_MAGIC"
  proof -
    have "le32 SLOTMAP_MAGIC ! 0 = 1" by code_simp
    moreover assume "EEPROM_READ ?E APP_SLOTMAP_FLASH_ADDR 96 (slots_init_state ?E) = replicate 96 0xFF"
    then have "take 4 (EEPROM_READ ?E APP_SLOTMAP_FLASH_ADDR 96 (slots_init_state ?E)) ! 0 = 0xFF" by simp
    ultimately show ?thesis by force
  qed
  from start_on_empty_page [OF _ _ no] show ?thesis
    by (simp add: mac kbd_max_conn_def Let_def)
qed

end
