(* ===== verification/Role.thy ===== *)
theory Role
  imports Slot_Flash
begin

text \<open>
  The runtime role of a dual build (\<^verbatim>\<open>role.c\<close>): a four-byte record in its own page of DataFlash,
  checked when it is read, next to the pages of the host slots and of the custom keys.
\<close>

definition ROLE_KBD :: u8 where "ROLE_KBD = 0"
definition ROLE_DONGLE :: u8 where "ROLE_DONGLE = 1"
definition APP_ROLE_FLASH_ADDR :: nat where "APP_ROLE_FLASH_ADDR = 0x7C00"
definition ROLE_MAGIC0 :: u8 where "ROLE_MAGIC0 = 0x41"
definition ROLE_MAGIC1 :: u8 where "ROLE_MAGIC1 = 0x52"

lemmas role_consts = ROLE_KBD_def ROLE_DONGLE_def ROLE_MAGIC0_def ROLE_MAGIC1_def

definition role_current :: "env \<Rightarrow> 'a base_scheme \<Rightarrow> u8" where
  "role_current E s =
     (if mode E = MODE_DUAL then
        (let r = EEPROM_READ E APP_ROLE_FLASH_ADDR 4 s
         in if r ! 0 = ROLE_MAGIC0 \<and> r ! 1 = ROLE_MAGIC1 \<and> r ! 2 = NOT (r ! 3) \<and> r ! 2 \<le> ROLE_DONGLE
            then r ! 2 else ROLE_KBD)
      else if has_dongle (mode E) then ROLE_DONGLE else ROLE_KBD)"

definition role_name :: "u8 \<Rightarrow> string" where
  "role_name r = (if r = ROLE_DONGLE then ''dongle'' else ''kbd'')"

text \<open>\<open>s[0] & ~0x20\<close> turns a lower-case letter into its upper-case one; only it is looked at.\<close>

definition role_parse :: "string option \<Rightarrow> int" where
  "role_parse arg =
     (case arg of
        None \<Rightarrow> -1
      | Some s \<Rightarrow>
          let c0 = (if s = [] then 0 else byte_of (hd s) AND NOT 0x20)
          in if c0 = 0x4B then 0 else if c0 = 0x44 then 1 else -1)"

definition role_request :: "env \<Rightarrow> u8 \<Rightarrow> 'a base_scheme \<Rightarrow> int \<times> 'a base_scheme" where
  "role_request E role s =
     (if mode E = MODE_DUAL then
        (if role > ROLE_DONGLE then (-1, s)
         else
           let rec = [ROLE_MAGIC0, ROLE_MAGIC1, role, NOT role];
               (r1, s1) = EEPROM_ERASE E APP_ROLE_FLASH_ADDR 4 s
           in if r1 \<noteq> 0 then (-1, s1)
              else let (r2, s2) = EEPROM_WRITE E APP_ROLE_FLASH_ADDR rec s1
                   in if r2 \<noteq> 0 then (-1, s2) else (0, s2))
      else (-1, s))"

lemma role_current_range: "role_current E s = ROLE_KBD \<or> role_current E s = ROLE_DONGLE"
proof -
  have "r = 0 \<or> r = 1" if "r \<le> 1" for r :: u8
  proof -
    have "unat r \<le> 1" using that by (simp add: word_le_nat_alt)
    then have "unat r = 0 \<or> unat r = 1" by linarith
    then show ?thesis by (auto simp: word_eq_iff_unsigned [where ?'a = nat])
  qed
  from this [of "NOT (EEPROM_READ E APP_ROLE_FLASH_ADDR 4 s ! 3)"] show ?thesis
    by (auto simp: role_current_def role_consts Let_def)
qed

lemma length4: "length [a, b, c, d] = 4"
  by simp

lemma role_page: "in_page APP_ROLE_FLASH_ADDR 4" "in_page APP_ROLE_FLASH_ADDR (length [a, b, c, d])"
  by (simp_all add: in_page_def APP_ROLE_FLASH_ADDR_def)

text \<open>
  a role switch that reports success is what the next start reads back; one that reports failure
  in a single-role build has written nothing; and neither the role record nor the page of the host
  slots disturbs the other.
\<close>

theorem role_request_round_trip:
  assumes "ee_spec E" "role_request E role s = (r, s')"
  shows "(r = 0 \<longrightarrow> mode E = MODE_DUAL \<and> role \<le> ROLE_DONGLE \<and> role_current E s' = role) \<and>
    (mode E \<noteq> MODE_DUAL \<or> role > ROLE_DONGLE \<longrightarrow> r = -1 \<and> s' = s) \<and>
    EEPROM_READ E APP_SLOTMAP_FLASH_ADDR 96 s' = EEPROM_READ E APP_SLOTMAP_FLASH_ADDR 96 s"
proof (cases "mode E = MODE_DUAL \<and> role \<le> ROLE_DONGLE")
  case False
  then have "r = -1" "s' = s" using assms(2) by (auto simp: role_request_def split: if_splits)
  then show ?thesis using False by auto
next
  case True
  let ?rec = "[ROLE_MAGIC0, ROLE_MAGIC1, role, NOT role]"
  obtain r1 s1 where e: "EEPROM_ERASE E APP_ROLE_FLASH_ADDR 4 s = (r1, s1)" by fastforce
  obtain r2 s2 where w: "EEPROM_WRITE E APP_ROLE_FLASH_ADDR ?rec s1 = (r2, s2)" by fastforce
  have p: "in_page APP_SLOTMAP_FLASH_ADDR 96" "APP_ROLE_FLASH_ADDR div 256 \<noteq> APP_SLOTMAP_FLASH_ADDR div 256"
    by (simp_all add: in_page_def APP_SLOTMAP_FLASH_ADDR_def APP_ROLE_FLASH_ADDR_def)
  have k1: "EEPROM_READ E APP_SLOTMAP_FLASH_ADDR 96 s1 = EEPROM_READ E APP_SLOTMAP_FLASH_ADDR 96 s"
    using EEPROM_ERASE_other_page [OF assms(1) role_page(1) p, of s] e by simp
  have k2: "EEPROM_READ E APP_SLOTMAP_FLASH_ADDR 96 s2 = EEPROM_READ E APP_SLOTMAP_FLASH_ADDR 96 s"
    using EEPROM_WRITE_other_page [OF assms(1) role_page(2) p, of ROLE_MAGIC0 ROLE_MAGIC1 role "NOT role" s1]
      w k1 by simp
  have res: "(r, s') = (if r1 \<noteq> 0 then (-1, s1) else if r2 \<noteq> 0 then (-1, s2) else (0, s2))"
    using assms(2) True leD [of role ROLE_DONGLE] e w by (simp add: role_request_def Let_def split: if_splits)
  have rd: "role_current E s2 = role" if "r1 = 0" "r2 = 0"
  proof -
    have "EEPROM_READ E APP_ROLE_FLASH_ADDR 4 s2 = ?rec"
      using EEPROM_round_trip [OF assms(1) role_page(2) [of ROLE_MAGIC0 ROLE_MAGIC1 role "NOT role"], of s s1 s2, unfolded length4] e w that
      by simp
    then show ?thesis using True by (simp add: role_current_def)
  qed
  show ?thesis using res rd k1 k2 True by (auto split: if_splits)
qed

theorem role_request_round_trip_witness:
  "fst (role_request (demo_env MODE_DUAL) ROLE_DONGLE base_init) = 0 \<and>
   role_current (demo_env MODE_DUAL) (snd (role_request (demo_env MODE_DUAL) ROLE_DONGLE base_init)) = ROLE_DONGLE"
proof -
  let ?E = "demo_env MODE_DUAL"
  have r: "fst (role_request ?E ROLE_DONGLE base_init) = 0"
    by (simp add: role_request_def EEPROM_ERASE_def EEPROM_WRITE_def demo_env_def nor_erase_def nor_write_def Let_def)
  have "role_request ?E ROLE_DONGLE base_init =
      (fst (role_request ?E ROLE_DONGLE base_init), snd (role_request ?E ROLE_DONGLE base_init))" by simp
  from role_request_round_trip [OF ee_spec_demo this] r show ?thesis by blast
qed

text \<open>
  Saving the host slots leaves the role record alone: a change of a host's label, pace or address
  cannot switch a dual build to its other role.
\<close>

theorem slotmap_save_keeps_role:
  assumes "ee_spec E" "slots_inv E s"
  shows "role_current E (slotmap_save E s) = role_current E s"
proof -
  have lb: "length (slotmap_buf E s) = 96"
    using assms(2) length_buf [of "kbd_max_conn (mode E)" s E] by (simp add: slots_inv_def Let_def)
  have p: "in_page APP_SLOTMAP_FLASH_ADDR 96" "APP_SLOTMAP_FLASH_ADDR div 256 \<noteq> APP_ROLE_FLASH_ADDR div 256"
    by (simp_all add: in_page_def APP_SLOTMAP_FLASH_ADDR_def APP_ROLE_FLASH_ADDR_def)
  let ?s1 = "snd (EEPROM_ERASE E APP_SLOTMAP_FLASH_ADDR 96 s)"
  let ?s2 = "snd (EEPROM_WRITE E APP_SLOTMAP_FLASH_ADDR (slotmap_buf E s) ?s1)"
  have "EEPROM_READ E APP_ROLE_FLASH_ADDR 4 ?s1 = EEPROM_READ E APP_ROLE_FLASH_ADDR 4 s"
    by (rule EEPROM_ERASE_other_page [OF assms(1) p(1) role_page(1) p(2)])
  moreover have "EEPROM_READ E APP_ROLE_FLASH_ADDR 4 ?s2 = EEPROM_READ E APP_ROLE_FLASH_ADDR 4 ?s1"
    by (rule EEPROM_WRITE_other_page [OF assms(1) _ role_page(1) p(2)]) (use p lb in simp)
  moreover have "EEPROM_READ E APP_ROLE_FLASH_ADDR 4 (slotmap_save E s) = EEPROM_READ E APP_ROLE_FLASH_ADDR 4 ?s2"
    by (simp add: slotmap_save_def lb Let_def EEPROM_READ_def)
  ultimately show ?thesis by (simp add: role_current_def)
qed

theorem slotmap_save_keeps_role_witness:
  "let E = demo_env MODE_DUAL in
   role_current E (slotmap_save E (demo_slots E)) = role_current E (demo_slots E)"
proof -
  have "slots_inv (demo_env MODE_DUAL) (demo_slots (demo_env MODE_DUAL))"
  proof -
    have n: "kbd_max_conn (mode (demo_env MODE_DUAL)) = 1" by (simp add: kbd_max_conn_def)
    have "(\<forall>i<1::nat. P i) = P 0" for P by auto
    then show ?thesis
      unfolding slots_inv_def Let_def slots_wf_def conns_ok_def hosts_ok_def links_ok_def n by simp code_simp
  qed
  from slotmap_save_keeps_role [OF ee_spec_demo this] show ?thesis by (simp add: Let_def)
qed

end
