(* ===== verification/Kb_Router.thy ===== *)
theory Kb_Router
  imports Role
begin

text \<open>
  The keyboard half of \<^verbatim>\<open>at_cmds.c\<close>: the router that sends a report to the selected outputs, the
  timer that plays back queued reports and typed text, the custom keys with their page of DataFlash,
  and the commands on top of them.  \<^verbatim>\<open>hidkbd_usb.c\<close> is the USB output.
\<close>

section \<open>State\<close>

record key_cfg_entry =
  k_pin :: u8
  k_mods :: u8
  k_kc :: u8
  k_last :: bool

record router_state = slots_state +
  kb_ble_drops :: "u16 list"
  kb_ble_lasterr :: "u8 list"
  seq_task :: bool
  seq_buf :: "u8 list list"
  seq_count :: nat
  seq_idx :: nat
  seq_delay_ms :: u16
  keystr_buf :: string
  keystr_len :: nat
  keystr_idx :: nat
  keystr_active :: bool
  key_cfg :: "key_cfg_entry list"
  key_cfg_loaded :: bool

text \<open>
  \<open>seq_task\<close> says that the playback task has been registered, \<open>key_cfg_loaded\<close> is the static flag of
  \<open>at_cmd_KEY_CFG\<close>.
\<close>

section \<open>The router\<close>

definition kb_usb_send_report :: "u8 \<Rightarrow> u8 list \<Rightarrow> nat \<Rightarrow> 'a base_scheme \<Rightarrow> 'a base_scheme" where
  "kb_usb_send_report mods keys count s =
     (let buf = report_bytes mods keys count
      in emit (UsbReport buf) (s\<lparr>usb := USB_HID_SendReport buf (usb s)\<rparr>))"

text \<open>The budget of attempts at one report; \<open>st\<close> is the status so far.\<close>

fun send_budget ::
  "env \<Rightarrow> nat \<Rightarrow> nat \<Rightarrow> u8 \<Rightarrow> u8 list \<Rightarrow> nat \<Rightarrow> u8 \<Rightarrow> 'a slots_state_scheme \<Rightarrow> u8 \<times> 'a slots_state_scheme" where
  "send_budget E 0 slot mods keys count st s = (st, s)"
| "send_budget E (Suc n) slot mods keys count st s =
     (let (st1, s1) = kb_ble_send_report_slot E slot mods keys count s
      in if st1 \<noteq> blePending \<and> st1 \<noteq> bleMemAllocError then (st1, s1)
         else send_budget E n slot mods keys count st1 s1)"

definition SEND_BUDGET :: nat where "SEND_BUDGET = 60"

definition slot_targeted :: "env \<Rightarrow> 'a slots_state_scheme \<Rightarrow> nat \<Rightarrow> bool" where
  "slot_targeted E s i =
     (kb_target s AND tgt_bit i \<noteq> 0 \<and> kb_ble_slot_handle E i s \<noteq> GAP_CONNHANDLE_INIT)"

definition flush_slot ::
  "env \<Rightarrow> u8 \<Rightarrow> u8 list \<Rightarrow> nat \<Rightarrow> nat \<Rightarrow> bool \<times> 'a router_state_scheme \<Rightarrow> bool \<times> 'a router_state_scheme" where
  "flush_slot E mods keys count i r =
     (let (sent, s) = r in
      if slot_targeted E s i then
        let (st, s1) = send_budget E SEND_BUDGET i mods keys count SUCCESS s
        in (True,
            if st \<noteq> SUCCESS \<and> st \<noteq> bleNotReady
            then s1\<lparr>kb_ble_drops := (kb_ble_drops s1)[i := kb_ble_drops s1 ! i + 1],
                    kb_ble_lasterr := (kb_ble_lasterr s1)[i := st]\<rparr>
            else s1)
      else (sent, s))"

definition kb_flush ::
  "env \<Rightarrow> u8 \<Rightarrow> u8 list \<Rightarrow> nat \<Rightarrow> 'a router_state_scheme \<Rightarrow> int \<times> 'a router_state_scheme" where
  "kb_flush E mods keys count s =
     (let (sent, s1) =
            (if kb_target s AND KB_TGT_BLE_ALL \<noteq> 0
             then fold (flush_slot E mods keys count) [0..<kbd_max_conn (mode E)] (False, s)
             else (False, s))
      in if kb_target s1 AND KB_TGT_USB \<noteq> 0 \<and> usb_ready (usb s1)
         then (0, kb_usb_send_report mods keys count s1)
         else (if sent then 0 else -1, s1))"

definition kb_press :: "env \<Rightarrow> u8 \<Rightarrow> 'a router_state_scheme \<Rightarrow> int \<times> 'a router_state_scheme" where
  "kb_press E keycode = kb_flush E 0 (keycode # replicate 5 0) 1"

definition kb_release :: "env \<Rightarrow> 'a router_state_scheme \<Rightarrow> int \<times> 'a router_state_scheme" where
  "kb_release E = kb_flush E 0 (replicate 6 0) 0"

definition kb_set_mods :: "env \<Rightarrow> u8 \<Rightarrow> 'a router_state_scheme \<Rightarrow> int \<times> 'a router_state_scheme" where
  "kb_set_mods E mods = kb_flush E mods (replicate 6 0) 0"

section \<open>Typing text\<close>

definition plain_keys :: "(char \<times> u8) list" where
  "plain_keys = [(CHR '' '', 44), (CHR 0x09, 43), (LF, 40), (CHR ''-'', 45), (CHR ''='', 46),
     (CHR ''['', 47), (CHR '']'', 48), (CHR 0x5C, 49), (CHR '';'', 51), (CHR 0x27, 52),
     (CHR 0x60, 53), (CHR '','', 54), (CHR ''.'', 55), (CHR ''/'', 56)]"

definition shift_digits :: string where
  "shift_digits = ''!@#$%^&*()''"

definition shift_keys :: "(char \<times> u8) list" where
  "shift_keys = [(CHR ''_'', 45), (CHR ''+'', 46), (CHR ''{'', 47), (CHR ''}'', 48), (CHR ''|'', 49),
     (CHR '':'', 51), (CHR 0x22, 52), (CHR ''~'', 53), (CHR ''<'', 54), (CHR ''>'', 55), (CHR ''?'', 56)]"

text \<open>The modifiers and the key of a character, \<open>None\<close> when it is not mapped.\<close>

definition keystr_map :: "char \<Rightarrow> (u8 \<times> u8) option" where
  "keystr_map c =
     (if 97 \<le> cc c \<and> cc c \<le> 122 then Some (0, of_nat (cc c - 97) + 4)
      else if 65 \<le> cc c \<and> cc c \<le> 90 then Some (2, of_nat (cc c - 65) + 4)
      else if 49 \<le> cc c \<and> cc c \<le> 57 then Some (0, of_nat (cc c - 49) + 30)
      else if c = CHR ''0'' then Some (0, 39)
      else case map_of plain_keys c of
        Some k \<Rightarrow> Some (0, k)
      | None \<Rightarrow>
          (let i = length (takeWhile (\<lambda>d. d \<noteq> c) shift_digits)
           in if i < length shift_digits then Some (2, if i = 9 then 39 else of_nat (30 + i))
              else map_option (\<lambda>k. (2, k)) (map_of shift_keys c)))"

definition KEYSTR_MAX :: nat where "KEYSTR_MAX = 96"

text \<open>
  The copy loop of \<open>at_cmd_KEY_STR\<close> with room for \<open>n\<close> characters: the characters stored and what is
  left of the text.
\<close>

definition escape_of :: "char \<Rightarrow> char option" where
  "escape_of c = (if c = CHR ''n'' then Some LF else if c = CHR ''t'' then Some (CHR 0x09)
                  else if c = CHR 0x5C then Some (CHR 0x5C) else None)"

fun keystr_copy :: "nat \<Rightarrow> string \<Rightarrow> string \<times> string" where
  "keystr_copy 0 p = ([], p)"
| "keystr_copy (Suc n) [] = ([], [])"
| "keystr_copy (Suc n) [c] = (let (b, r) = keystr_copy n [] in (c # b, r))"
| "keystr_copy (Suc n) (c # d # p) =
     (case if c = CHR 0x5C then escape_of d else None of
        Some e \<Rightarrow> (let (b, r) = keystr_copy n p in (e # b, r))
      | None \<Rightarrow> (let (b, r) = keystr_copy n (d # p) in (c # b, r)))"

section \<open>The playback timer\<close>

definition SEQ_EVENT :: u16 where "SEQ_EVENT = 0x0001"
definition SEQ_MAX_REPORTS :: nat where "SEQ_MAX_REPORTS = 8"

definition keystr_cur_pace :: "env \<Rightarrow> 'a router_state_scheme \<Rightarrow> u16" where
  "keystr_cur_pace E s =
     (let k = kb_ble_active_slot E s in if k \<ge> 0 then kb_ble_slot_pace E (nat k) s else 15)"

definition seq_timer :: "u16 \<Rightarrow> 'a base_scheme \<Rightarrow> 'a base_scheme" where
  "seq_timer ms s = emit (StartTask SeqTask SEQ_EVENT (ms1_to_system_time (unat ms))) s"

definition keystr_tick :: "env \<Rightarrow> 'a router_state_scheme \<Rightarrow> 'a router_state_scheme" where
  "keystr_tick E s =
     (let ci = keystr_idx s div 2 in
      if ci \<ge> keystr_len s then AT_Response ''+KEY_DONE'' (s\<lparr>keystr_active := False\<rparr>)
      else
        let s1 = (if odd (keystr_idx s) then snd (kb_flush E 0 (replicate 6 0) 0 s)
                  else case keystr_map (keystr_buf s ! ci) of
                    Some (mods, key) \<Rightarrow> snd (kb_flush E mods (key # replicate 5 0) 1 s)
                  | None \<Rightarrow> s);
            s2 = s1\<lparr>keystr_idx := keystr_idx s1 + 1\<rparr>
        in seq_timer (keystr_cur_pace E s2) s2)"

definition seq_tick :: "env \<Rightarrow> 'a router_state_scheme \<Rightarrow> 'a router_state_scheme" where
  "seq_tick E s =
     (if seq_idx s < seq_count s then
        let r = seq_buf s ! seq_idx s;
            s1 = snd (kb_flush E (hd r) (tl r) 6 s);
            s2 = s1\<lparr>seq_idx := seq_idx s1 + 1\<rparr>
        in if seq_idx s2 < seq_count s2 then seq_timer (seq_delay_ms s2) s2
           else AT_Response ''+KEY_DONE'' s2
      else s)"

definition kb_seq_process_event ::
  "env \<Rightarrow> u16 \<Rightarrow> 'a router_state_scheme \<Rightarrow> u16 \<times> 'a router_state_scheme" where
  "kb_seq_process_event E ev s =
     (if ev AND SEQ_EVENT \<noteq> 0
      then (ev XOR SEQ_EVENT, if keystr_active s then keystr_tick E s else seq_tick E s)
      else (0, s))"

definition seq_register :: "'a router_state_scheme \<Rightarrow> 'a router_state_scheme" where
  "seq_register s = (if seq_task s then s else (emit (RegisterTask SeqTask) s)\<lparr>seq_task := True\<rparr>)"

section \<open>Commands\<close>

text \<open>
  A handler takes the number of arguments and the argument vector, whose entries from \<open>argc\<close> on are
  what earlier lines left there, \<open>None\<close> being the null pointer.  Its result is what it returns,
  \<open>None\<close> when it does not return.
\<close>

type_synonym argv = "string option list"

definition arg :: "argv \<Rightarrow> nat \<Rightarrow> string" where
  "arg argv i = (case argv ! i of Some t \<Rightarrow> t | None \<Rightarrow> [])"

definition u8_of_int :: "int \<Rightarrow> u8" where "u8_of_int v = of_int v"

definition em_dash :: string where "em_dash = [CHR 0xE2, CHR 0x80, CHR 0x94]"

definition fail :: "string \<Rightarrow> 'a base_scheme \<Rightarrow> int option \<times> 'a base_scheme" where
  "fail msg s = (Some (-1), AT_Response msg s)"

definition no_output :: string where
  "no_output = ''ERROR: no active output '' @ em_dash @ '' check AT+DEV status''"

definition at_cmd_KEY ::
  "env \<Rightarrow> nat \<Rightarrow> argv \<Rightarrow> 'a router_state_scheme \<Rightarrow> int option \<times> 'a router_state_scheme" where
  "at_cmd_KEY E argc argv s =
     (if argc < 2 then fail ''usage: AT+KEY=<mods>,<k1>,..,<k6>'' s
      else
        let mods = u8_of_int (atoi (arg argv 1));
            ks = filter (\<lambda>k. k \<noteq> 0)
                   (map (\<lambda>i. if i < argc then u8_of_int (atoi (arg argv i)) else 0) [2..<8]);
            (r, s1) = kb_flush E mods (ks @ replicate (6 - length ks) 0) (length ks) s
        in if r < 0 then fail no_output s1 else (Some 0, s1))"

definition at_cmd_MOD ::
  "env \<Rightarrow> nat \<Rightarrow> argv \<Rightarrow> 'a router_state_scheme \<Rightarrow> int option \<times> 'a router_state_scheme" where
  "at_cmd_MOD E argc argv s =
     (if argc < 2 then fail ''usage: AT+MOD=<mask>'' s
      else
        let (r, s1) = kb_set_mods E (u8_of_int (atoi (arg argv 1))) s
        in if r < 0 then fail no_output s1 else (Some 0, s1))"

definition at_cmd_TAP ::
  "env \<Rightarrow> nat \<Rightarrow> argv \<Rightarrow> 'a router_state_scheme \<Rightarrow> int option \<times> 'a router_state_scheme" where
  "at_cmd_TAP E argc argv s =
     (if argc < 3 then fail ''usage: AT+TAP=<ms>,<mods>,<k1>,..,<k6>'' s
      else
        let h0 = atoi (arg argv 1);
            h1 = (if h0 = 0 then 50 else h0);
            h2 = (if h1 < 10 then 10 else h1);
            h3 = (if h2 > 1000 then 1000 else h2);
            press = map (\<lambda>i. if i < argc then u8_of_int (atoi (arg argv i)) else 0) [2..<9];
            s1 = seq_register (s\<lparr>seq_buf := (seq_buf s)[0 := press, 1 := replicate 7 0]\<rparr>);
            s2 = s1\<lparr>seq_count := 2, seq_idx := 0, seq_delay_ms := of_int h3\<rparr>
        in (Some 0, emit (StartTask SeqTask SEQ_EVENT 0) s2))"

text \<open>\<open>nvals % 7\<close> of a negative count is never reached.\<close>

definition at_cmd_KEY_SEQ ::
  "env \<Rightarrow> nat \<Rightarrow> argv \<Rightarrow> 'a router_state_scheme \<Rightarrow> int option \<times> 'a router_state_scheme" where
  "at_cmd_KEY_SEQ E argc argv s =
     (let nvals = int argc - 2 in
      if nvals < 7 \<or> nvals mod 7 \<noteq> 0 then fail ''usage: AT+KEY_SEQ=<delay_ms>,<mods>,<k1>..<k6>,...'' s
      else
        let n = nat nvals div 7 in
        if n > SEQ_MAX_REPORTS
        then fail (''ERROR: max '' @ dec_nat SEQ_MAX_REPORTS @ '' reports per command'') s
        else
          let d0 = atoi (arg argv 1);
              d1 = (if d0 < 1 then 1 else d0);
              d2 = (if d1 > 200 then 200 else d1);
              reps = map (\<lambda>r. map (\<lambda>i. u8_of_int (atoi (arg argv (2 + r * 7 + i)))) [0..<7]) [0..<n];
              s1 = seq_register (s\<lparr>seq_buf := reps @ drop n (seq_buf s)\<rparr>);
              s2 = s1\<lparr>seq_count := n, seq_idx := 0, seq_delay_ms := of_int d2\<rparr>;
              s3 = emit (StartTask SeqTask SEQ_EVENT 0) s2
          in (Some 0, AT_Response (dec_nat n @ '' reports queued'') s3))"

definition at_cmd_KEY_STR ::
  "env \<Rightarrow> nat \<Rightarrow> argv \<Rightarrow> 'a router_state_scheme \<Rightarrow> int option \<times> 'a router_state_scheme" where
  "at_cmd_KEY_STR E argc argv s =
     (if argc < 2
      then fail (''usage: AT+KEY_STR=<text> (no '' @ [CHR 0x27, CHR '','', CHR 0x27] @ '' or '' @
                 [CHR 0x27, CHR ''='', CHR 0x27] @ ''; '' @ [CHR 0x5C] @ ''n=Enter '' @ [CHR 0x5C] @
                 ''t=Tab '' @ [CHR 0x5C, CHR 0x5C] @ ''=backslash)'') s
      else
        let (b, rest) = keystr_copy KEYSTR_MAX (arg argv 1);
            s1 = s\<lparr>keystr_buf := b @ NUL # drop (length b + 1) (keystr_buf s),
                   keystr_len := length b, keystr_idx := 0\<rparr>;
            s2 = (seq_register s1)\<lparr>keystr_active := True\<rparr>;
            s3 = emit (StartTask SeqTask SEQ_EVENT 0) s2
        in (Some 0, if rest \<noteq> [] then AT_Response (''truncated to '' @ dec_nat KEYSTR_MAX @ '' chars'') s3
                    else s3))"

section \<open>Custom keys\<close>

definition KEY_CFG_MAGIC :: u32 where "KEY_CFG_MAGIC = 0xA77E0002"
definition APP_KEYCFG_FLASH_ADDR :: nat where "APP_KEYCFG_FLASH_ADDR = 0x7A00"

definition key_cfg_image :: "key_cfg_entry list \<Rightarrow> u8 list" where
  "key_cfg_image ks = le32 KEY_CFG_MAGIC @ concat (map (\<lambda>k. [k_mods k, k_kc k]) ks)"

definition key_cfg_save :: "env \<Rightarrow> 'a router_state_scheme \<Rightarrow> 'a router_state_scheme" where
  "key_cfg_save E s =
     (let buf = key_cfg_image (key_cfg s)
      in snd (EEPROM_WRITE E APP_KEYCFG_FLASH_ADDR buf (snd (EEPROM_ERASE E APP_KEYCFG_FLASH_ADDR 8 s))))"

definition key_cfg_load :: "env \<Rightarrow> 'a router_state_scheme \<Rightarrow> 'a router_state_scheme" where
  "key_cfg_load E s =
     (let buf = EEPROM_READ E APP_KEYCFG_FLASH_ADDR 8 s;
          c = key_cfg s;
          c0 = (c ! 0)\<lparr>k_pin := 38\<rparr>; c1 = (c ! 1)\<lparr>k_pin := 39\<rparr>
      in s\<lparr>key_cfg :=
            (if take 4 buf = le32 KEY_CFG_MAGIC
             then [c0\<lparr>k_mods := buf ! 4, k_kc := buf ! 5\<rparr>, c1\<lparr>k_mods := buf ! 6, k_kc := buf ! 7\<rparr>]
             else [c0\<lparr>k_mods := 0, k_kc := 0x3A\<rparr>, c1\<lparr>k_mods := 0, k_kc := 0x28\<rparr>])\<rparr>)"

definition hws_key_cfg_factory_reset :: "env \<Rightarrow> 'a router_state_scheme \<Rightarrow> 'a router_state_scheme" where
  "hws_key_cfg_factory_reset E s =
     snd (EEPROM_ERASE E APP_KEYCFG_FLASH_ADDR 8
       (s\<lparr>key_cfg := [\<lparr>k_pin = 38, k_mods = 0, k_kc = 0x3A, k_last = False\<rparr>,
                      \<lparr>k_pin = 39, k_mods = 0, k_kc = 0x28, k_last = False\<rparr>]\<rparr>))"

text \<open>
  With three arguments the key code is read from the fourth entry of the vector, which this line has
  not set.
\<close>

definition at_cmd_KEY_CFG ::
  "env \<Rightarrow> nat \<Rightarrow> argv \<Rightarrow> 'a router_state_scheme \<Rightarrow> int option \<times> 'a router_state_scheme" where
  "at_cmd_KEY_CFG E argc argv s0 =
     (let s = (if key_cfg_loaded s0 then s0 else (key_cfg_load E s0)\<lparr>key_cfg_loaded := True\<rparr>) in
      if argc < 2 then
        (Some 0,
         fold (\<lambda>i s. AT_Response (dec_nat i @ '','' @ dec_nat (unat (k_pin (key_cfg s ! i))) @ '','' @
                       (if k_kc (key_cfg s ! i) \<noteq> 0 then ''active'' else ''disabled'')) s) [0..<2] s)
      else
        let pin = u8_of_int (atoi (arg argv 1)) in
        if pin \<noteq> 38 \<and> pin \<noteq> 39 then fail ''ERROR: pin 38(PB22) or 39(PB23)'' s
        else
          let idx = (if pin = 38 then 0 else 1); c = key_cfg s ! idx in
          if argc < 3 then
            (Some 0, AT_Response (dec_nat idx @ '','' @ dec_nat (unat pin) @ '',mods='' @
                       dec_nat (unat (k_mods c)) @ '',kc='' @ hex02 (k_kc c)) s)
          else
            let mods = u8_of_int (atoi (arg argv 2));
                kc = u8_of_int (atoi (arg argv 3));
                s1 = (if argv ! 3 = None then set_ub s else s);
                s2 = key_cfg_save E (s1\<lparr>key_cfg := (key_cfg s1)
                       [idx := \<lparr>k_pin = pin, k_mods = mods, k_kc = kc, k_last = False\<rparr>]\<rparr>)
            in (Some 0, AT_Response (''KEY_CFG='' @ dec_nat (unat pin) @ '' mods='' @ dec_nat (unat mods) @
                          '' kc='' @ hex02 kc) s2))"

definition key_cfg_poll_one :: "env \<Rightarrow> nat \<Rightarrow> 'a router_state_scheme \<Rightarrow> 'a router_state_scheme" where
  "key_cfg_poll_one E i s =
     (let c = key_cfg s ! i in
      if k_kc c = 0 then s
      else
        let now = (if k_pin c = 38 then HWS_PUSH_BUTTON1 E s else HWS_PUSH_BUTTON3 E s);
            s1 = (if now \<and> \<not> k_last c then snd (kb_press E (k_kc c) (snd (kb_set_mods E (k_mods c) s)))
                  else if \<not> now \<and> k_last c then snd (kb_release E (snd (kb_set_mods E 0 s)))
                  else s)
        in s1\<lparr>key_cfg := (key_cfg s1)[i := (key_cfg s1 ! i)\<lparr>k_last := now\<rparr>]\<rparr>)"

definition hws_key_cfg_poll :: "env \<Rightarrow> 'a router_state_scheme \<Rightarrow> 'a router_state_scheme" where
  "hws_key_cfg_poll E s = fold (key_cfg_poll_one E) [0..<2] s"

text \<open>\<open>key_press\<close> of \<^verbatim>\<open>main.c\<close>, the callback of the key scanner.\<close>

definition key_press :: "env \<Rightarrow> u8 \<Rightarrow> 'a router_state_scheme \<Rightarrow> 'a router_state_scheme" where
  "key_press E key s = hws_key_cfg_poll E s"

text \<open>The static variables of \<^verbatim>\<open>at_cmds.c\<close> as they start, on top of a state of the slots.\<close>

definition router_start :: "env \<Rightarrow> slots_state \<Rightarrow> router_state" where
  "router_start E s = slots_state.extend s
     \<lparr>kb_ble_drops = replicate (kbd_max_conn (mode E)) 0,
      kb_ble_lasterr = replicate (kbd_max_conn (mode E)) 0,
      seq_task = False, seq_buf = replicate SEQ_MAX_REPORTS (replicate 7 0), seq_count = 0,
      seq_idx = 0, seq_delay_ms = 0, keystr_buf = replicate (KEYSTR_MAX + 1) NUL,
      keystr_len = 0, keystr_idx = 0, keystr_active = False,
      key_cfg = replicate 2 \<lparr>k_pin = 0, k_mods = 0, k_kc = 0, k_last = False\<rparr>, key_cfg_loaded = False\<rparr>"

end
