(* ===== verification/Dgl_Scan.thy ===== *)
theory Dgl_Scan
  imports Kb_Router
begin

text \<open>
  The receiver (\<^verbatim>\<open>ble_dongle.c\<close>), first part: its state, the parser of advertising data, and the
  list of scan results.  The diagnostics of \<^verbatim>\<open>BLE_DONGLE_DEBUG\<close>, on by default, are modelled with the
  rest.
\<close>

section \<open>State\<close>

definition DGL_MAX_SCAN_RES :: nat where "DGL_MAX_SCAN_RES = 16"
definition DGL_NAME_LEN :: nat where "DGL_NAME_LEN = 20"
definition DGL_MAX_REPORTS :: nat where "DGL_MAX_REPORTS = 8"
definition DGL_MAX_CCCD :: nat where "DGL_MAX_CCCD = 8"
definition DGL_SCAN_SECONDS :: u8 where "DGL_SCAN_SECONDS = 5"
definition DGL_LINK_TIMEOUT_MS :: nat where "DGL_LINK_TIMEOUT_MS = 5000"
definition DGL_AUTO_RETRY_MS :: nat where "DGL_AUTO_RETRY_MS = 2000"
definition DGL_AUTO_MAX_FAILS :: u8 where "DGL_AUTO_MAX_FAILS = 5"
definition DGL_START_DEVICE_EVT :: u16 where "DGL_START_DEVICE_EVT = 0x0001"
definition DGL_SVC_DISC_EVT :: u16 where "DGL_SVC_DISC_EVT = 0x0002"
definition DGL_LINK_TIMEOUT_EVT :: u16 where "DGL_LINK_TIMEOUT_EVT = 0x0004"
definition DGL_SCAN_EVT :: u16 where "DGL_SCAN_EVT = 0x0008"
definition DGL_CONN_EVT :: u16 where "DGL_CONN_EVT = 0x0010"
definition DGL_AUTO_EVT :: u16 where "DGL_AUTO_EVT = 0x0020"
definition HID_SERV_UUID :: u16 where "HID_SERV_UUID = 0x1812"
definition BATT_SERV_UUID :: u16 where "BATT_SERV_UUID = 0x180F"
definition ATT_ERR_INSUFFICIENT_AUTHEN :: u8 where "ATT_ERR_INSUFFICIENT_AUTHEN = 0x05"

datatype dgl_disc =
    DISC_IDLE | DISC_SVC | DISC_BOOT_CHAR | DISC_PROTO_CHAR | DISC_RPT_CHAR | DISC_CCCD
  | DISC_BATT_SVC | DISC_BATT_CHAR

datatype dgl_link =
    DGL_IDLE | DGL_SCANNING | DGL_CONNECTING | DGL_CONNECTED | DGL_ARMED | DGL_AUTOCONN

text \<open>The numbers of the two enumerations, as the diagnostics print them.\<close>

fun disc_number :: "dgl_disc \<Rightarrow> nat" where
  "disc_number DISC_IDLE = 0" | "disc_number DISC_SVC = 1" | "disc_number DISC_BOOT_CHAR = 2"
| "disc_number DISC_PROTO_CHAR = 3" | "disc_number DISC_RPT_CHAR = 4" | "disc_number DISC_CCCD = 5"
| "disc_number DISC_BATT_SVC = 6" | "disc_number DISC_BATT_CHAR = 7"

fun link_number :: "dgl_link \<Rightarrow> nat" where
  "link_number DGL_IDLE = 0" | "link_number DGL_SCANNING = 1" | "link_number DGL_CONNECTING = 2"
| "link_number DGL_CONNECTED = 3" | "link_number DGL_ARMED = 4" | "link_number DGL_AUTOCONN = 5"

record dgl_scan_rec =
  r_addr :: "u8 list"
  r_type :: u8
  r_rssi :: int
  r_name :: string

record dongle_state = router_state +
  dgl_pend_scan_sec :: int
  dgl_pend_conn_idx :: int
  dgl_watch_active :: bool
  dgl_watch_is_mac :: bool
  dgl_watch_addr :: "u8 list"
  dgl_watch_name :: string
  dgl_auto :: bool
  dgl_auto_hold :: bool
  dgl_auto_fails :: u8
  dgl_start_status :: u8
  dgl_disc_retries :: u8
  dgl_passkey_conn :: u16
  dgl_passkey_pending :: bool
  dgl_passkey_preset :: u32
  dgl_state :: dgl_link
  dgl_disc_state :: dgl_disc
  dgl_conn_handle :: u16
  dgl_scan_list :: "dgl_scan_rec list"
  dgl_scan_count :: nat
  dgl_filter :: string
  dgl_svc_start :: u16
  dgl_svc_end :: u16
  dgl_boot_hdl :: u16
  dgl_proto_hdl :: u16
  dgl_rpt_hdls :: "u16 list"
  dgl_rpt_count :: nat
  dgl_cccd_list :: "u16 list"
  dgl_cccd_count :: nat
  dgl_cccd_wr :: nat
  dgl_batt_hdl :: u16
  dgl_batt_reading :: bool
  dgl_proto_pending :: bool
  dgl_rd_idx :: nat

text \<open>
  The character buffers hold C strings; they are kept as the string up to the terminator.  The
  counters of the three tables never leave the small ranges of the tables, so they are natural
  numbers; \<open>dgl_auto_fails\<close> and \<open>dgl_disc_retries\<close> stay bytes.
\<close>

abbreviation DGL_DBG :: "string \<Rightarrow> 'a base_scheme \<Rightarrow> 'a base_scheme" where
  "DGL_DBG \<equiv> AT_Response"

section \<open>Advertising data\<close>

text \<open>
  The payload of an advertisement is memory: \<open>d i\<close> is the byte at offset \<open>i\<close>, whatever \<open>len\<close> says, so
  that a read behind the payload is visible.  The loop variable is a byte and wraps; for a payload
  of 255 bytes the loop may not end, and the result is \<open>None\<close>.
\<close>

definition BUILD_UINT16 :: "u8 \<Rightarrow> u8 \<Rightarrow> u16" where
  "BUILD_UINT16 lo hi = ucast lo OR push_bit 8 (ucast hi)"

definition adv_uuids :: "(nat \<Rightarrow> u8) \<Rightarrow> nat \<Rightarrow> nat \<Rightarrow> u16 list" where
  "adv_uuids d i ad_len = map (\<lambda>k. BUILD_UINT16 (d (i + 2 + 2 * k)) (d (i + 3 + 2 * k))) [0..<(ad_len - 1) div 2]"

partial_function (option) adv_hid_loop :: "(nat \<Rightarrow> u8) \<Rightarrow> nat \<Rightarrow> nat \<Rightarrow> bool option" where
  "adv_hid_loop d len i =
     (if i + 1 < len then
        (let ad_len = unat (d i); ad_type = d (i + 1) in
         if ad_len = 0 \<or> i + ad_len > len then Some False
         else if (ad_type = 0x02 \<or> ad_type = 0x03) \<and> ad_len \<ge> 3 \<and>
                 HID_SERV_UUID \<in> set (adv_uuids d i ad_len) then Some True
         else adv_hid_loop d len ((i + ad_len + 1) mod 256))
      else Some False)"

definition dgl_adv_is_hid :: "(nat \<Rightarrow> u8) \<Rightarrow> u8 \<Rightarrow> bool option" where
  "dgl_adv_is_hid d len = adv_hid_loop d (unat len) 0"

definition c_string :: "(nat \<Rightarrow> u8) \<Rightarrow> nat \<Rightarrow> nat \<Rightarrow> string" where
  "c_string d i n = takeWhile (\<lambda>c. c \<noteq> NUL) (map (\<lambda>k. char_of_byte (d (i + k))) [0..<n])"

partial_function (option) adv_name_loop :: "(nat \<Rightarrow> u8) \<Rightarrow> nat \<Rightarrow> nat \<Rightarrow> string option" where
  "adv_name_loop d len i =
     (if i + 1 < len then
        (let ad_len = unat (d i); ad_type = d (i + 1) in
         if ad_len = 0 \<or> i + ad_len > len then Some []
         else if ad_type = 0x09 \<or> ad_type = 0x08 then
           Some (c_string d (i + 2) (if ad_len - 1 > DGL_NAME_LEN then DGL_NAME_LEN else ad_len - 1))
         else adv_name_loop d len ((i + ad_len + 1) mod 256))
      else Some [])"

definition dgl_adv_get_name :: "(nat \<Rightarrow> u8) \<Rightarrow> u8 \<Rightarrow> string option" where
  "dgl_adv_get_name d len = adv_name_loop d (unat len) 0"

definition dgl_tolower :: "char \<Rightarrow> char" where
  "dgl_tolower c = (if 65 \<le> cc c \<and> cc c \<le> 90 then char_of (cc c - 65 + 97) else c)"

text \<open>
  The comparison of the rest of the needle at one place: \<open>None\<close> when the haystack ends first, which
  ends the whole search.
\<close>

fun needle_at :: "string \<Rightarrow> string \<Rightarrow> bool option" where
  "needle_at p [] = Some True"
| "needle_at [] (n # ns) = None"
| "needle_at (a # p) (n # ns) = (if dgl_tolower a \<noteq> dgl_tolower n then Some False else needle_at p ns)"

fun strcasestr_loop :: "string \<Rightarrow> string \<Rightarrow> bool" where
  "strcasestr_loop [] n = False"
| "strcasestr_loop (c # p) n =
     (if dgl_tolower c = dgl_tolower (hd n) then
        (case needle_at p (tl n) of
           None \<Rightarrow> False
         | Some True \<Rightarrow> True
         | Some False \<Rightarrow> strcasestr_loop p n)
      else strcasestr_loop p n)"

definition dgl_strcasestr :: "string \<Rightarrow> string \<Rightarrow> bool" where
  "dgl_strcasestr haystack needle = (if needle = [] then True else strcasestr_loop haystack needle)"

section \<open>The scan list\<close>

definition scan_line :: "nat \<Rightarrow> dgl_scan_rec \<Rightarrow> string \<Rightarrow> string" where
  "scan_line pos r tail =
     ''+BT_SCAN:'' @ dec_nat pos @ '','' @ mac_hex (r_addr r) @ '','' @ dec_int (r_rssi r) @ '','' @ tail"

text \<open>What the filter of \<open>AT+BT_SCAN\<close> lets pass.\<close>

definition scan_filter :: "string \<Rightarrow> bool \<Rightarrow> string \<Rightarrow> bool" where
  "scan_filter f is_hid name =
     (if f = [] then True
      else if strcaseeq f ''HID'' then is_hid
      else name \<noteq> [] \<and> dgl_strcasestr name f)"

text \<open>Merging a known advertiser: its signal is refreshed, a missing name filled in.\<close>

definition scan_merge :: "nat \<Rightarrow> int \<Rightarrow> string \<Rightarrow> dgl_scan_rec list \<Rightarrow> dgl_scan_rec list" where
  "scan_merge i rssi name xs =
     xs[i := (xs ! i)\<lparr>r_name := (if name \<noteq> [] \<and> r_name (xs ! i) = [] then name else r_name (xs ! i)),
                      r_rssi := rssi\<rparr>]"

definition scan_pos :: "nat \<Rightarrow> int \<Rightarrow> dgl_scan_rec list \<Rightarrow> nat" where
  "scan_pos n rssi xs = length (takeWhile (\<lambda>r. r_rssi r \<ge> rssi) (take n xs))"

text \<open>The entries from \<open>pos\<close> to the tail move down by one, the last one falls off a full list.\<close>

definition scan_insert :: "nat \<Rightarrow> nat \<Rightarrow> dgl_scan_rec \<Rightarrow> dgl_scan_rec list \<Rightarrow> dgl_scan_rec list" where
  "scan_insert n pos r xs =
     (let tail = (if n < DGL_MAX_SCAN_RES then n else DGL_MAX_SCAN_RES - 1)
      in take pos xs @ r # take (tail - pos) (drop pos xs) @ drop (tail + 1) xs)"

definition watch_hit :: "u8 list \<Rightarrow> string \<Rightarrow> 'a dongle_state_scheme \<Rightarrow> bool" where
  "watch_hit addr name s =
     (if dgl_watch_is_mac s then take 6 addr = take 6 (dgl_watch_addr s)
      else name \<noteq> [] \<and> dgl_strcasestr name (dgl_watch_name s))"

definition dgl_add_scan_rec ::
  "u8 list \<Rightarrow> u8 \<Rightarrow> int \<Rightarrow> u8 \<Rightarrow> (nat \<Rightarrow> u8) \<Rightarrow> 'a dongle_state_scheme \<Rightarrow> 'a dongle_state_scheme option" where
  "dgl_add_scan_rec addr ty rssi len d s =
     (case dgl_adv_is_hid d len of None \<Rightarrow> None | Some is_hid \<Rightarrow>
      case dgl_adv_get_name d len of None \<Rightarrow> None | Some name \<Rightarrow> Some (
        if \<not> is_hid \<and> name = [] then s
        else if \<not> scan_filter (dgl_filter s) is_hid name then s
        else
          let n = dgl_scan_count s; xs = dgl_scan_list s;
              k = first_index n (\<lambda>i. r_addr (xs ! i) = take 6 addr) in
          if k \<ge> 0 then s\<lparr>dgl_scan_list := scan_merge (nat k) rssi name xs\<rparr>
          else if n \<ge> DGL_MAX_SCAN_RES \<and> rssi \<le> r_rssi (xs ! (DGL_MAX_SCAN_RES - 1)) then s
          else
            let pos = scan_pos n rssi xs;
                r = \<lparr>r_addr = take 6 addr, r_type = ty, r_rssi = rssi, r_name = name\<rparr>;
                s1 = s\<lparr>dgl_scan_list := scan_insert n pos r xs,
                       dgl_scan_count := (if n < DGL_MAX_SCAN_RES then n + 1 else n)\<rparr>;
                s2 = AT_Response (scan_line pos r ((if name \<noteq> [] then name else ''?'') @
                                    (if is_hid then '' [HID]'' else ''''))) s1
            in if dgl_watch_active s2 \<and> watch_hit addr name s2 then
                 (let s3 = emit (Cent CancelDiscovery) (s2\<lparr>dgl_watch_active := False\<rparr>)
                  in emit (SetEvent DongleTask DGL_CONN_EVT)
                       (s3\<lparr>dgl_state := DGL_IDLE, dgl_pend_conn_idx := int8_of (int pos)\<rparr>))
               else s2))"

text \<open>A directed advertisement has no payload; it is appended whatever its signal.\<close>

definition dgl_add_directed ::
  "u8 list \<Rightarrow> u8 \<Rightarrow> int \<Rightarrow> 'a dongle_state_scheme \<Rightarrow> 'a dongle_state_scheme" where
  "dgl_add_directed addr ty rssi s =
     (let n = dgl_scan_count s; xs = dgl_scan_list s in
      if dgl_state s = DGL_SCANNING \<and> n < DGL_MAX_SCAN_RES then
        (if first_index n (\<lambda>i. r_addr (xs ! i) = take 6 addr) \<ge> 0 then s
         else
           let r = \<lparr>r_addr = take 6 addr, r_type = ty, r_rssi = rssi, r_name = []\<rparr>;
               s1 = AT_Response (scan_line n r ''(directed)'') (s\<lparr>dgl_scan_list := xs[n := r]\<rparr>)
           in s1\<lparr>dgl_scan_count := n + 1\<rparr>)
      else s)"

section \<open>Finding an entry\<close>

text \<open>The prefix comparison of the name search; setting bit 5 folds the case of letters.\<close>

definition fold32 :: "char \<Rightarrow> u8" where
  "fold32 c = byte_of c OR 0x20"

fun prefix32 :: "string \<Rightarrow> string \<Rightarrow> bool" where
  "prefix32 a [] = True"
| "prefix32 [] (b # bs) = False"
| "prefix32 (a # as) (b # bs) = (fold32 a = fold32 b \<and> prefix32 as bs)"

fun contains32 :: "string \<Rightarrow> string \<Rightarrow> bool" where
  "contains32 [] s = False"
| "contains32 (c # p) s = (prefix32 (c # p) s \<or> contains32 p s)"

definition find_best :: "string \<Rightarrow> dgl_scan_rec list \<Rightarrow> nat \<Rightarrow> int \<Rightarrow> int" where
  "find_best t xs i best =
     (if r_name (xs ! i) \<noteq> [] \<and> contains32 (r_name (xs ! i)) t \<and>
         (best < 0 \<or> r_rssi (xs ! i) > r_rssi (xs ! nat best))
      then int i else best)"

definition is_upper_hex :: "char \<Rightarrow> bool" where
  "is_upper_hex c = (is_digit c \<or> (65 \<le> cc c \<and> cc c \<le> 70))"

definition ble_dongle_find :: "string \<Rightarrow> 'a dongle_state_scheme \<Rightarrow> int" where
  "ble_dongle_find t s =
     (let n = dgl_scan_count s; xs = dgl_scan_list s in
      if t = [] \<or> n = 0 then -1
      else if list_all is_digit t \<and> length t \<le> 3 then
        (let idx = dec_value 0 t in if idx < n then int idx else -1)
      else if list_all is_upper_hex t \<and> length t = 12 then
        first_index n (\<lambda>i. mac_hex (r_addr (xs ! i)) = t)
      else fold (find_best t xs) [0..<n] (-1))"

end
