(* ===== verification/Dongle.thy ===== *)
theory Dongle
  imports Dgl_Scan
begin

text \<open>
  The receiver (\<^verbatim>\<open>ble_dongle.c\<close>), second part: discovery of the keyboard's services, the queue of
  notification switches, forwarding of reports, link events, automatic reconnection, the task, and
  the operations the AT commands call.
\<close>

section \<open>Messages and events\<close>

text \<open>
  A message of the GATT client.  The value of a response is memory again.  \<open>ReadByTypeRsp\<close> carries the
  number of items and the size of one.
\<close>

datatype att_msg =
    ErrorRsp u8 u16
  | FindByTypeValueRsp "(u16 \<times> u16) list"
  | ReadByTypeRsp nat nat "nat \<Rightarrow> u8"
  | WriteRsp
  | ReadRsp nat "nat \<Rightarrow> u8"
  | HandleValueNoti u16 nat "nat \<Rightarrow> u8"
  | OtherMsg

record gatt_msg =
  g_status :: u8
  g_msg :: att_msg

datatype central_event =
    DeviceInitDone
  | DeviceInfo "u8 list" u8 int u8 "nat \<Rightarrow> u8"
  | DirectInfo "u8 list" u8 int
  | DiscoveryDone
  | LinkEstablished u8 u16
  | LinkTerminated u8
  | OtherEvent

section \<open>Link state\<close>

definition dgl_reset_link_state :: "'a dongle_state_scheme \<Rightarrow> 'a dongle_state_scheme" where
  "dgl_reset_link_state s =
     s\<lparr>dgl_conn_handle := GAP_CONNHANDLE_INIT, dgl_disc_state := DISC_IDLE, dgl_disc_retries := 0,
       dgl_svc_start := 0, dgl_svc_end := 0, dgl_boot_hdl := 0, dgl_proto_hdl := 0,
       dgl_rpt_count := 0, dgl_cccd_count := 0, dgl_cccd_wr := 0,
       dgl_cccd_list := (dgl_cccd_list s)[0 := 0], dgl_batt_hdl := 0, dgl_batt_reading := False,
       dgl_proto_pending := False, dgl_rd_idx := 0, dgl_passkey_pending := False,
       dgl_passkey_conn := 0xFFFF\<rparr>"

definition dgl_auto_fail_count :: "'a dongle_state_scheme \<Rightarrow> 'a dongle_state_scheme" where
  "dgl_auto_fail_count s =
     (let s1 = s\<lparr>dgl_auto_fails := dgl_auto_fails s + 1\<rparr> in
      if dgl_auto_fails s1 \<ge> DGL_AUTO_MAX_FAILS then
        AT_Response (''+BT_AUTO: giving up after '' @ dec_nat (unat DGL_AUTO_MAX_FAILS) @
                     '' fails '' @ em_dash @ '' bond mismatch? AT+BT_PAIR then AT+BT_AUTO=1'')
          (s1\<lparr>dgl_auto_fails := 0, dgl_auto_hold := True\<rparr>)
      else s1)"

definition dgl_timer :: "u16 \<Rightarrow> nat \<Rightarrow> 'a base_scheme \<Rightarrow> 'a base_scheme" where
  "dgl_timer ev ms s = emit (StartTask DongleTask ev (ms1_to_system_time ms)) s"

definition dgl_auto_kick :: "env \<Rightarrow> 'a dongle_state_scheme \<Rightarrow> 'a dongle_state_scheme" where
  "dgl_auto_kick E s =
     (let bonds = bond_count E (outs s) in
      if \<not> dgl_auto s \<or> dgl_auto_hold s \<or> bonds = 0 \<or> dgl_state s \<noteq> DGL_IDLE then s
      else case snv_bond E (outs s) 0 of
        None \<Rightarrow> dgl_timer DGL_AUTO_EVT DGL_AUTO_RETRY_MS (DGL_DBG ''+BT_AUTO: snv read err, retry'' s)
      | Some (addr, ty, fl) \<Rightarrow>
          (let (st, s1) = call E (Cent (EstablishLink True ty addr)) s in
           if st = SUCCESS then
             AT_Response (''+BT_AUTO: reconnecting ('' @ dec_nat (unat bonds) @ '' bonded)'')
               (s1\<lparr>dgl_state := DGL_AUTOCONN\<rparr>)
           else dgl_timer DGL_AUTO_EVT DGL_AUTO_RETRY_MS
                  (DGL_DBG (''+BT_AUTO: establish st='' @ dec_nat (unat st) @ '', retry'') s1)))"

section \<open>Discovery\<close>

definition dgl_discovery_failed :: "string \<Rightarrow> 'a dongle_state_scheme \<Rightarrow> 'a dongle_state_scheme" where
  "dgl_discovery_failed why s =
     (if dgl_disc_retries s > 0 \<and> dgl_state s = DGL_CONNECTED
      then dgl_timer DGL_SVC_DISC_EVT 1000
             (AT_Response (''+BT_CONN: '' @ why @ '' '' @ em_dash @ '' retry'')
                (s\<lparr>dgl_disc_retries := dgl_disc_retries s - 1\<rparr>))
      else AT_Response (''+BT_CONN: err '' @ why) s)\<lparr>dgl_disc_state := DISC_IDLE\<rparr>"

definition dgl_start_svc_discovery :: "env \<Rightarrow> 'a dongle_state_scheme \<Rightarrow> 'a dongle_state_scheme" where
  "dgl_start_svc_discovery E s =
     (let s1 = s\<lparr>dgl_svc_start := 0, dgl_svc_end := 0, dgl_boot_hdl := 0, dgl_proto_hdl := 0,
                 dgl_disc_state := DISC_SVC\<rparr>;
          (st, s2) = call E (Cent (DiscPrimary (dgl_conn_handle s1) HID_SERV_UUID)) s1
      in if st \<noteq> SUCCESS
         then dgl_discovery_failed ''svc start busy''
                (DGL_DBG (''+BT_GATT: disc svc start '' @ dec_nat (unat st)) s2)
         else s2)"

definition dgl_find_char :: "u16 \<Rightarrow> dgl_disc \<Rightarrow> 'a dongle_state_scheme \<Rightarrow> 'a dongle_state_scheme" where
  "dgl_find_char uuid next s =
     emit (Cent (ReadByUuid (dgl_conn_handle s) (dgl_svc_start s) (dgl_svc_end s) uuid))
       (s\<lparr>dgl_disc_state := next\<rparr>)"

definition dgl_write_handle ::
  "env \<Rightarrow> u16 \<Rightarrow> u16 \<Rightarrow> nat \<Rightarrow> 'a dongle_state_scheme \<Rightarrow> 'a dongle_state_scheme" where
  "dgl_write_handle E h v len s =
     (if \<not> bm_alloc E (outs s) (dgl_conn_handle s) len then AT_Response ''+BT_CONN: err alloc'' s
      else
        (let (st, s1) = call E (Cent (GattWrite (dgl_conn_handle s) h (take len (le16 v)))) s
         in if st \<noteq> SUCCESS then emit BmFree s1 else s1))"

definition dgl_dump_rbt_rsp ::
  "char \<Rightarrow> nat \<Rightarrow> nat \<Rightarrow> (nat \<Rightarrow> u8) \<Rightarrow> 'a base_scheme \<Rightarrow> 'a base_scheme" where
  "dgl_dump_rbt_rsp tag num len d s =
     (let n = (len * num) mod 65536; n' = (if n > 14 then 14 else n)
      in DGL_DBG (''+BT_DISC: '' @ [tag] @ '' plen='' @ dec_nat len @ '' np='' @ dec_nat num @ '' raw '' @
                  concat (map (\<lambda>i. hex02 (d i)) [0..<n'])) s)"

definition dgl_rbt_vhandle :: "nat \<Rightarrow> (nat \<Rightarrow> u8) \<Rightarrow> nat \<Rightarrow> u16" where
  "dgl_rbt_vhandle len d idx =
     BUILD_UINT16 (d ((idx mod 256) * len)) (d ((idx mod 256) * len + 1))"

definition in_service :: "u16 \<Rightarrow> 'a dongle_state_scheme \<Rightarrow> bool" where
  "in_service h s = (h > dgl_svc_start s \<and> h \<le> dgl_svc_end s)"

definition bad_handle :: "char \<Rightarrow> u16 \<Rightarrow> 'a base_scheme \<Rightarrow> 'a base_scheme" where
  "bad_handle tag h s = DGL_DBG (''+BT_DISC: '' @ [tag] @ '' bad hdl '' @ hex04 h) s"

text \<open>The first item of a response, kept by \<open>f\<close> when it lies in the service.\<close>

definition take_handle ::
  "char \<Rightarrow> (u16 \<Rightarrow> 'a dongle_state_scheme \<Rightarrow> 'a dongle_state_scheme) \<Rightarrow> att_msg \<Rightarrow>
   'a dongle_state_scheme \<Rightarrow> 'a dongle_state_scheme" where
  "take_handle tag f m s =
     (case m of
        ReadByTypeRsp num len d \<Rightarrow>
          if num > 0 then
            (let s1 = dgl_dump_rbt_rsp tag num len d s; h = dgl_rbt_vhandle len d 0
             in if in_service h s1 then f h s1 else bad_handle tag h s1)
          else s
      | _ \<Rightarrow> s)"

text \<open>The loops over the report characteristics and over the descriptors of a response.\<close>

definition collect_report :: "u16 \<Rightarrow> 'a dongle_state_scheme \<Rightarrow> 'a dongle_state_scheme" where
  "collect_report h s =
     (if dgl_rpt_count s < DGL_MAX_REPORTS then
        (if in_service h s
         then s\<lparr>dgl_rpt_hdls := (dgl_rpt_hdls s)[dgl_rpt_count s := h], dgl_rpt_count := dgl_rpt_count s + 1\<rparr>
         else bad_handle (CHR ''R'') h s)
      else s)"

definition collect_cccd :: "u16 \<Rightarrow> 'a dongle_state_scheme \<Rightarrow> 'a dongle_state_scheme" where
  "collect_cccd h s =
     (if dgl_cccd_count s < DGL_MAX_CCCD then
        (if \<not> in_service h s then bad_handle (CHR ''C'') h s
         else if dgl_boot_hdl s \<noteq> 0 then
           (if h > dgl_boot_hdl s \<and> (dgl_cccd_list s ! 0 = 0 \<or> h < dgl_cccd_list s ! 0)
            then s\<lparr>dgl_cccd_list := (dgl_cccd_list s)[0 := h], dgl_cccd_count := 1\<rparr>
            else DGL_DBG (''+BT_DISC: C skip '' @ hex04 h @ '' (boot='' @ hex04 (dgl_boot_hdl s) @ '')'') s)
         else s\<lparr>dgl_cccd_list := (dgl_cccd_list s)[dgl_cccd_count s := h],
                dgl_cccd_count := dgl_cccd_count s + 1\<rparr>)
      else s)"

definition collect_all ::
  "char \<Rightarrow> (u16 \<Rightarrow> 'a dongle_state_scheme \<Rightarrow> 'a dongle_state_scheme) \<Rightarrow> att_msg \<Rightarrow>
   'a dongle_state_scheme \<Rightarrow> 'a dongle_state_scheme" where
  "collect_all tag f m s =
     (case m of
        ReadByTypeRsp num len d \<Rightarrow>
          fold (\<lambda>i. f (dgl_rbt_vhandle len d i)) [0..<num] (dgl_dump_rbt_rsp tag num len d s)
      | _ \<Rightarrow> s)"

definition take_service :: "att_msg \<Rightarrow> 'a dongle_state_scheme \<Rightarrow> 'a dongle_state_scheme" where
  "take_service m s =
     (case m of
        FindByTypeValueRsp ((a, b) # _) \<Rightarrow> s\<lparr>dgl_svc_start := a, dgl_svc_end := b\<rparr>
      | _ \<Rightarrow> s)"

definition find_cccds :: "'a dongle_state_scheme \<Rightarrow> 'a dongle_state_scheme" where
  "find_cccds s =
     dgl_find_char GATT_CLIENT_CHAR_CFG_UUID DISC_CCCD
       (s\<lparr>dgl_cccd_count := 0, dgl_cccd_list := (dgl_cccd_list s)[0 := 0]\<rparr>)"

definition disc_svc :: "att_msg \<Rightarrow> bool \<Rightarrow> u8 \<Rightarrow> 'a dongle_state_scheme \<Rightarrow> 'a dongle_state_scheme" where
  "disc_svc m complete st s =
     (let s1 = take_service m s in
      if complete then
        (let s2 = DGL_DBG (''+BT_GATT: svc '' @ hex04 (dgl_svc_start s1) @ ''-'' @ hex04 (dgl_svc_end s1) @
                           '' hdrst='' @ dec_nat (unat st)) s1
         in if dgl_svc_start s2 \<noteq> 0 then dgl_find_char BOOT_KEY_INPUT_UUID DISC_BOOT_CHAR s2
            else dgl_discovery_failed ''no HID service'' s2)
      else s1)"

definition disc_boot :: "att_msg \<Rightarrow> bool \<Rightarrow> 'a dongle_state_scheme \<Rightarrow> 'a dongle_state_scheme" where
  "disc_boot m complete s =
     (let s1 = take_handle (CHR ''B'') (\<lambda>h s. s\<lparr>dgl_boot_hdl := h\<rparr>) m s in
      if complete then
        (if dgl_boot_hdl s1 \<noteq> 0 then dgl_find_char PROTOCOL_MODE_UUID DISC_PROTO_CHAR s1
         else dgl_find_char REPORT_UUID DISC_RPT_CHAR (s1\<lparr>dgl_rpt_count := 0\<rparr>))
      else s1)"

definition disc_rpt :: "att_msg \<Rightarrow> bool \<Rightarrow> 'a dongle_state_scheme \<Rightarrow> 'a dongle_state_scheme" where
  "disc_rpt m complete s =
     (let s1 = collect_all (CHR ''R'') collect_report m s in
      if complete then
        (if dgl_rpt_count s1 > 0 then find_cccds s1 else dgl_discovery_failed ''no HID reports'' s1)
      else s1)"

definition disc_proto :: "att_msg \<Rightarrow> bool \<Rightarrow> 'a dongle_state_scheme \<Rightarrow> 'a dongle_state_scheme" where
  "disc_proto m complete s =
     (let s1 = take_handle (CHR ''P'') (\<lambda>h s. s\<lparr>dgl_proto_hdl := h\<rparr>) m s
      in if complete then find_cccds s1 else s1)"

text \<open>The number of the method, for the diagnostics.\<close>

fun method_number :: "att_msg \<Rightarrow> u8" where
  "method_number (ErrorRsp _ _) = 0x01" | "method_number (FindByTypeValueRsp _) = 0x07"
| "method_number (ReadByTypeRsp _ _ _) = 0x09" | "method_number (ReadRsp _ _) = 0x0B"
| "method_number WriteRsp = 0x13" | "method_number (HandleValueNoti _ _ _) = 0x1B"
| "method_number OtherMsg = 0"

definition disc_cccd :: "env \<Rightarrow> att_msg \<Rightarrow> bool \<Rightarrow> 'a dongle_state_scheme \<Rightarrow> 'a dongle_state_scheme" where
  "disc_cccd E m complete s =
     (let s1 = collect_all (CHR ''C'') collect_cccd m s in
      if complete then
        (let s2 = DGL_DBG (''+BT_DISC: C done m='' @ hex02 (method_number m) @ '' cnt='' @
                     dec_nat (dgl_cccd_count s1) @ '' boot='' @ hex04 (dgl_boot_hdl s1) @
                     '' proto='' @ hex04 (dgl_proto_hdl s1)) s1
         in if dgl_cccd_count s2 > 0 then
              (let s3 = s2\<lparr>dgl_cccd_wr := 0\<rparr>
               in if dgl_boot_hdl s3 \<noteq> 0 \<and> dgl_proto_hdl s3 \<noteq> 0
                  then dgl_write_handle E (dgl_proto_hdl s3) 0 1 (s3\<lparr>dgl_proto_pending := True\<rparr>)
                  else dgl_write_handle E (dgl_cccd_list s3 ! 0) GATT_CLIENT_CFG_NOTIFY 2 s3)
            else dgl_discovery_failed ''no CCCD'' s2)
      else s1)"

definition disc_batt_svc :: "att_msg \<Rightarrow> bool \<Rightarrow> 'a dongle_state_scheme \<Rightarrow> 'a dongle_state_scheme" where
  "disc_batt_svc m complete s =
     (let s1 = take_service m s in
      if complete then
        (if dgl_svc_start s1 \<noteq> 0 \<and> dgl_svc_end s1 \<noteq> 0 then dgl_find_char BATT_LEVEL_UUID DISC_BATT_CHAR s1
         else s1\<lparr>dgl_disc_state := DISC_IDLE\<rparr>)
      else s1)"

definition disc_batt_char :: "att_msg \<Rightarrow> bool \<Rightarrow> 'a dongle_state_scheme \<Rightarrow> 'a dongle_state_scheme" where
  "disc_batt_char m complete s =
     (let s1 = (case m of
                  ReadByTypeRsp num len d \<Rightarrow>
                    if num > 0 \<and> in_service (dgl_rbt_vhandle len d 0) s
                    then s\<lparr>dgl_batt_hdl := dgl_rbt_vhandle len d 0\<rparr> else s
                | _ \<Rightarrow> s)
      in if complete then s1\<lparr>dgl_disc_state := DISC_IDLE\<rparr> else s1)"

definition disc_step ::
  "env \<Rightarrow> att_msg \<Rightarrow> bool \<Rightarrow> u8 \<Rightarrow> 'a dongle_state_scheme \<Rightarrow> 'a dongle_state_scheme" where
  "disc_step E m complete st s =
     (case dgl_disc_state s of
        DISC_SVC \<Rightarrow> disc_svc m complete st s
      | DISC_BOOT_CHAR \<Rightarrow> disc_boot m complete s
      | DISC_RPT_CHAR \<Rightarrow> disc_rpt m complete s
      | DISC_PROTO_CHAR \<Rightarrow> disc_proto m complete s
      | DISC_CCCD \<Rightarrow> disc_cccd E m complete s
      | DISC_BATT_SVC \<Rightarrow> disc_batt_svc m complete s
      | DISC_BATT_CHAR \<Rightarrow> disc_batt_char m complete s
      | DISC_IDLE \<Rightarrow> s)"

definition dgl_discovery_event :: "env \<Rightarrow> gatt_msg \<Rightarrow> 'a dongle_state_scheme \<Rightarrow> 'a dongle_state_scheme" where
  "dgl_discovery_event E g s =
     (case g_msg g of
        ErrorRsp err h \<Rightarrow>
          (let s1 = DGL_DBG (''+BT_GATT: err '' @ hex02 err @ '' hdl='' @ hex04 h @ '' state='' @
                             dec_nat (disc_number (dgl_disc_state s))) s
           in if err = ATT_ERR_INSUFFICIENT_AUTHEN then s1\<lparr>dgl_disc_state := DISC_IDLE\<rparr>
              else disc_step E (g_msg g) True (g_status g) s1)
      | m \<Rightarrow> disc_step E m (g_status g = bleProcedureComplete) (g_status g) s)"

section \<open>Arming and forwarding\<close>

definition ble_dongle_batt_read :: "env \<Rightarrow> 'a dongle_state_scheme \<Rightarrow> int \<times> 'a dongle_state_scheme" where
  "ble_dongle_batt_read E s =
     (if dgl_state s \<noteq> DGL_ARMED \<or> dgl_batt_hdl s = 0 \<or> dgl_batt_reading s then (-1, s)
      else
        (let (st, s1) = call E (Cent (GattRead (dgl_conn_handle s) (dgl_batt_hdl s)))
                          (s\<lparr>dgl_batt_reading := True\<rparr>)
         in if st \<noteq> SUCCESS then (-1, s1\<lparr>dgl_batt_reading := False\<rparr>) else (0, s1)))"

definition read_report :: "'a dongle_state_scheme \<Rightarrow> 'a dongle_state_scheme" where
  "read_report s = emit (Cent (GattRead (dgl_conn_handle s) (dgl_rpt_hdls s ! dgl_rd_idx s))) s"

definition dgl_cccd_write_next :: "env \<Rightarrow> 'a dongle_state_scheme \<Rightarrow> 'a dongle_state_scheme" where
  "dgl_cccd_write_next E s =
     (if dgl_proto_pending s then
        dgl_write_handle E (dgl_cccd_list s ! 0) GATT_CLIENT_CFG_NOTIFY 2 (s\<lparr>dgl_proto_pending := False\<rparr>)
      else
        (let s1 = s\<lparr>dgl_cccd_wr := dgl_cccd_wr s + 1\<rparr> in
         if dgl_cccd_wr s1 < dgl_cccd_count s1
         then dgl_write_handle E (dgl_cccd_list s1 ! dgl_cccd_wr s1) GATT_CLIENT_CFG_NOTIFY 2 s1
         else
           (let s2 = AT_Response (''+BT_CONN: armed ('' @ (if dgl_boot_hdl s1 \<noteq> 0 then ''boot'' else ''report'') @
                       '' mode, '' @ dec_nat (dgl_rpt_count s1) @ '' rpt, '' @ dec_nat (dgl_cccd_count s1) @
                       '' cccd)'') (s1\<lparr>dgl_state := DGL_ARMED, dgl_disc_state := DISC_IDLE\<rparr>);
                s3 = s2\<lparr>dgl_auto_fails := 0, dgl_disc_state := DISC_BATT_SVC\<rparr>;
                s4 = emit (Cent (DiscPrimary (dgl_conn_handle s3) BATT_SERV_UUID)) s3;
                s5 = s4\<lparr>dgl_rd_idx := 0\<rparr>
            in if dgl_rpt_count s5 > 0 then read_report s5 else s5)))"

definition hex_bytes :: "nat \<Rightarrow> (nat \<Rightarrow> u8) \<Rightarrow> string" where
  "hex_bytes l r = concat (map (\<lambda>i. '' '' @ hex02 (if i < l then r i else 0)) [0..<8])"

text \<open>The notification of a keystroke report on an armed link.\<close>

definition dgl_forward :: "u16 \<Rightarrow> nat \<Rightarrow> (nat \<Rightarrow> u8) \<Rightarrow> 'a dongle_state_scheme \<Rightarrow> 'a dongle_state_scheme" where
  "dgl_forward h l r s =
     (let s1 = DGL_DBG (''+BT_NTF:h='' @ hex04 h @ '' l='' @ dec_nat l @ hex_bytes l r) s;
          match = (h = dgl_boot_hdl s1 \<or> h \<in> set (take (dgl_rpt_count s1) (dgl_rpt_hdls s1)))
      in if match \<and> l \<ge> 8 then kb_usb_send_report (r 0) (map r [2..<8]) 6 s1 else s1)"

text \<open>The diagnostic chain of reads after arming.\<close>

definition rd_advance :: "string \<Rightarrow> 'a dongle_state_scheme \<Rightarrow> 'a dongle_state_scheme" where
  "rd_advance tail s =
     (let s1 = DGL_DBG (''+BT_RD:h='' @ hex04 (dgl_rpt_hdls s ! dgl_rd_idx s) @ tail) s;
          s2 = s1\<lparr>dgl_rd_idx := dgl_rd_idx s1 + 1\<rparr>
      in if dgl_rd_idx s2 < dgl_rpt_count s2 then read_report s2 else s2)"

definition dgl_dispatch :: "env \<Rightarrow> gatt_msg \<Rightarrow> 'a dongle_state_scheme \<Rightarrow> 'a dongle_state_scheme" where
  "dgl_dispatch E g s =
     (let armed = (dgl_state s = DGL_ARMED);
          writing = (dgl_cccd_count s > 0 \<and> dgl_disc_state s = DISC_CCCD);
          rest = (if dgl_disc_state s \<noteq> DISC_IDLE then dgl_discovery_event E g s else s) in
      case g_msg g of
        HandleValueNoti h l r \<Rightarrow> (if armed then dgl_forward h l r s else rest)
      | WriteRsp \<Rightarrow> (if writing then dgl_cccd_write_next E s else rest)
      | ErrorRsp err h \<Rightarrow>
          (if writing then
             dgl_cccd_write_next E (DGL_DBG (''+BT_GATT: wr err '' @ hex02 err @ '' hdl='' @ hex04 h) s)
           else if dgl_batt_reading s then
             AT_Response (''+BT_BATT: err '' @ hex02 err) (s\<lparr>dgl_batt_reading := False\<rparr>)
           else if armed \<and> dgl_rd_idx s < dgl_rpt_count s then rd_advance ('' err '' @ hex02 err) s
           else rest)
      | ReadRsp l r \<Rightarrow>
          (if dgl_batt_reading s then
             AT_Response (''+BT_BATT: '' @ dec_nat (unat (r 0)) @ ''%'') (s\<lparr>dgl_batt_reading := False\<rparr>)
           else if armed \<and> dgl_rd_idx s < dgl_rpt_count s
           then rd_advance ('' l='' @ dec_nat l @ hex_bytes 8 r) s
           else rest)
      | _ \<Rightarrow> rest)"

definition dgl_process_gatt_msg :: "env \<Rightarrow> gatt_msg \<Rightarrow> 'a dongle_state_scheme \<Rightarrow> 'a dongle_state_scheme" where
  "dgl_process_gatt_msg E g s = emit BmFree (dgl_dispatch E g s)"

section \<open>Link events\<close>

definition dgl_link_up :: "u8 \<Rightarrow> u16 \<Rightarrow> 'a dongle_state_scheme \<Rightarrow> 'a dongle_state_scheme" where
  "dgl_link_up st h s0 =
     (let s = emit (StopTask DongleTask DGL_LINK_TIMEOUT_EVT) s0 in
      if st = SUCCESS then
        (let was_auto = (dgl_state s = DGL_AUTOCONN);
             s1 = (dgl_reset_link_state s)\<lparr>dgl_conn_handle := h, dgl_state := DGL_CONNECTED,
                    dgl_auto_hold := False, dgl_disc_retries := 2\<rparr>
         in dgl_timer DGL_SVC_DISC_EVT 500
              (AT_Response (if was_auto then ''+BT_AUTO: connected'' else ''+BT_CONN: connected'') s1))
      else
        (let s1 = AT_Response (''+BT_CONN: failed '' @ hex_nat (unat st)) s;
             s2 = (dgl_reset_link_state s1)\<lparr>dgl_state := DGL_IDLE\<rparr>
         in dgl_timer DGL_AUTO_EVT DGL_AUTO_RETRY_MS (dgl_auto_fail_count s2)))"

definition dgl_link_down :: "u8 \<Rightarrow> 'a dongle_state_scheme \<Rightarrow> 'a dongle_state_scheme" where
  "dgl_link_down reason s =
     (let was_armed = (dgl_state s = DGL_ARMED);
          s1 = (dgl_reset_link_state s)\<lparr>dgl_state := DGL_IDLE\<rparr>;
          s2 = AT_Response (''+BT_DISC: reason '' @ hex_nat (unat reason)) s1;
          s3 = (if was_armed then s2 else dgl_auto_fail_count s2)
      in emit (SetEvent DongleTask DGL_AUTO_EVT) s3)"

definition dgl_scan_done :: "'a dongle_state_scheme \<Rightarrow> 'a dongle_state_scheme" where
  "dgl_scan_done s =
     (let s1 = (if dgl_watch_active s then AT_Response ''+BT_CONN: timeout'' (s\<lparr>dgl_watch_active := False\<rparr>)
                else s)
      in if dgl_state s1 = DGL_SCANNING
         then (AT_Response (''+BT_SCAN: done '' @ dec_nat (dgl_scan_count s1)) s1)\<lparr>dgl_state := DGL_IDLE\<rparr>
         else s1)"

fun dgl_event_cb :: "central_event \<Rightarrow> 'a dongle_state_scheme \<Rightarrow> 'a dongle_state_scheme option" where
  "dgl_event_cb DeviceInitDone s =
     Some (dgl_timer DGL_AUTO_EVT 1000 (AT_Response ''+BT: central ready'' s))"
| "dgl_event_cb (DeviceInfo addr ty rssi len d) s =
     (if dgl_state s = DGL_SCANNING
      then dgl_add_scan_rec addr ty rssi len d
             (DGL_DBG (''+BT_ADV:'' @ mac_hex addr @ '','' @ dec_int rssi @ '',len='' @ dec_nat (unat len)) s)
      else Some s)"
| "dgl_event_cb (DirectInfo addr ty rssi) s = Some (dgl_add_directed addr ty rssi s)"
| "dgl_event_cb DiscoveryDone s = Some (dgl_scan_done s)"
| "dgl_event_cb (LinkEstablished st h) s = Some (dgl_link_up st h s)"
| "dgl_event_cb (LinkTerminated reason) s = Some (dgl_link_down reason s)"
| "dgl_event_cb OtherEvent s = Some s"

definition dgl_pair_state_cb :: "pair_state \<Rightarrow> u8 \<Rightarrow> 'a dongle_state_scheme \<Rightarrow> 'a dongle_state_scheme" where
  "dgl_pair_state_cb st status s =
     (let restart = (\<lambda>s. if dgl_state s = DGL_CONNECTED then emit (SetEvent DongleTask DGL_SVC_DISC_EVT) s else s)
      in if st = PairComplete then
           (let s1 = AT_Response (''+BT_BOND: pair '' @ (if status = SUCCESS then ''ok'' else ''fail'')) s
            in if status = SUCCESS then restart s1 else s1)
         else if st = PairBonded then restart (AT_Response ''+BT_BOND: bonded'' s)
         else s)"

definition dgl_passcode_cb :: "u16 \<Rightarrow> 'a dongle_state_scheme \<Rightarrow> 'a dongle_state_scheme" where
  "dgl_passcode_cb h s =
     emit (PasscodeRsp h SUCCESS (dgl_passkey_preset s))
       (AT_Response (''+BT_BOND: passkey auto '' @ dec06 (sint (dgl_passkey_preset s)) @
                     '' (on fail: AT+BT_PASSKEY=<shown>, reconnect)'') s)"

definition ble_dongle_passkey :: "u32 \<Rightarrow> 'a dongle_state_scheme \<Rightarrow> int \<times> 'a dongle_state_scheme" where
  "ble_dongle_passkey code s =
     (if dgl_passkey_pending s
      then (0, (emit (PasscodeRsp (dgl_passkey_conn s) SUCCESS code)
                  (s\<lparr>dgl_passkey_pending := False\<rparr>))\<lparr>dgl_passkey_conn := 0xFFFF\<rparr>)
      else (0, s\<lparr>dgl_passkey_preset := code\<rparr>))"

section \<open>The task\<close>

definition dgl_start_scan :: "env \<Rightarrow> 'a dongle_state_scheme \<Rightarrow> 'a dongle_state_scheme" where
  "dgl_start_scan E s =
     (if dgl_state s = DGL_IDLE \<and> dgl_pend_scan_sec s \<ge> 0 then
        (let s1 = emit (GapParam TGAP_DISC_SCAN (nat (dgl_pend_scan_sec s) * 1600)) s;
             s2 = s1\<lparr>dgl_scan_count := 0,
                     dgl_scan_list := replicate DGL_MAX_SCAN_RES
                       \<lparr>r_addr = replicate 6 0, r_type = 0, r_rssi = 0, r_name = []\<rparr>,
                     dgl_state := DGL_SCANNING\<rparr>;
             (st, s3) = call E (Cent StartDiscovery) s2
         in AT_Response (''+BT: disc start '' @ dec_nat (unat st)) s3)
      else s)\<lparr>dgl_pend_scan_sec := -1\<rparr>"

definition dgl_start_connect :: "'a dongle_state_scheme \<Rightarrow> 'a dongle_state_scheme" where
  "dgl_start_connect s =
     (let k = dgl_pend_conn_idx s in
      if dgl_state s = DGL_IDLE \<and> k \<ge> 0 \<and> k < int (dgl_scan_count s) then
        (let r = dgl_scan_list s ! nat k
         in dgl_timer DGL_LINK_TIMEOUT_EVT DGL_LINK_TIMEOUT_MS
              (emit (Cent (EstablishLink False (r_type r) (r_addr r))) (s\<lparr>dgl_state := DGL_CONNECTING\<rparr>)))
      else s)\<lparr>dgl_pend_conn_idx := -1\<rparr>"

definition dgl_process_event ::
  "env \<Rightarrow> gatt_msg option list \<Rightarrow> u16 \<Rightarrow> 'a dongle_state_scheme \<Rightarrow> u16 \<times> 'a dongle_state_scheme" where
  "dgl_process_event E queue ev s =
     (if ev AND SYS_EVENT_MSG \<noteq> 0 then
        (ev XOR SYS_EVENT_MSG,
         fold (\<lambda>q s. case q of Some g \<Rightarrow> dgl_process_gatt_msg E g s | None \<Rightarrow> s) queue s)
      else if ev AND DGL_START_DEVICE_EVT \<noteq> 0 then
        (let (st, s1) = call E (Cent StartDevice) s
         in (ev XOR DGL_START_DEVICE_EVT,
             AT_Response (''+BT: start device '' @ dec_nat (unat st)) (s1\<lparr>dgl_start_status := st\<rparr>)))
      else if ev AND DGL_SVC_DISC_EVT \<noteq> 0 then
        (ev XOR DGL_SVC_DISC_EVT,
         if dgl_state s = DGL_CONNECTED \<and> dgl_disc_state s = DISC_IDLE then dgl_start_svc_discovery E s else s)
      else if ev AND DGL_AUTO_EVT \<noteq> 0 then
        (ev XOR DGL_AUTO_EVT,
         if dgl_state s = DGL_AUTOCONN \<and> (\<not> dgl_auto s \<or> dgl_auto_hold s)
         then AT_Response ''+BT_AUTO: aborted''
                ((emit (Terminate INVALID_CONNHANDLE) s)\<lparr>dgl_state := DGL_IDLE\<rparr>)
         else dgl_auto_kick E s)
      else if ev AND DGL_LINK_TIMEOUT_EVT \<noteq> 0 then
        (ev XOR DGL_LINK_TIMEOUT_EVT,
         if dgl_state s = DGL_CONNECTING
         then AT_Response ''+BT_CONN: timeout''
                ((emit (Terminate INVALID_CONNHANDLE) s)\<lparr>dgl_state := DGL_IDLE\<rparr>)
         else s)
      else if ev AND DGL_SCAN_EVT \<noteq> 0 then (ev XOR DGL_SCAN_EVT, dgl_start_scan E s)
      else if ev AND DGL_CONN_EVT \<noteq> 0 then (ev XOR DGL_CONN_EVT, dgl_start_connect s)
      else (0, s))"

section \<open>Operations of the AT commands\<close>

definition ble_dongle_init :: "env \<Rightarrow> 'a dongle_state_scheme \<Rightarrow> 'a dongle_state_scheme" where
  "ble_dongle_init E s =
     fold emit
       [Cent CentralInit, RegisterTask DongleTask, GapParam TGAP_DISC_SCAN (unat DGL_SCAN_SECONDS * 1600),
        GapParam TGAP_CONN_EST_INT_MIN 12, GapParam TGAP_CONN_EST_INT_MAX 18,
        GapParam TGAP_CONN_EST_SUPERV_TIMEOUT 500,
        BondSet GAPBOND_CENT_DEFAULT_PASSCODE (le32 0), BondSet GAPBOND_CENT_PAIRING_MODE [2],
        BondSet GAPBOND_CENT_MITM_PROTECTION [1], BondSet GAPBOND_CENT_IO_CAPABILITIES [2],
        BondSet GAPBOND_CENT_BONDING_ENABLED [1], Cent InitClient, Cent RegisterForInd,
        SetEvent DongleTask DGL_START_DEVICE_EVT] s"

definition ble_dongle_scan :: "u8 \<Rightarrow> string option \<Rightarrow> 'a dongle_state_scheme \<Rightarrow> int \<times> 'a dongle_state_scheme" where
  "ble_dongle_scan seconds filt s =
     (if dgl_state s \<noteq> DGL_IDLE then (-1, s)
      else
        (let sec = (if seconds = 0 then DGL_SCAN_SECONDS else seconds);
             s1 = s\<lparr>dgl_filter := (case filt of None \<Rightarrow> [] | Some f \<Rightarrow> take DGL_NAME_LEN f),
                    dgl_pend_scan_sec := int8_of (int (unat sec))\<rparr>
         in (0, emit (SetEvent DongleTask DGL_SCAN_EVT) s1)))"

definition ble_dongle_connect_watch ::
  "bool \<Rightarrow> u8 list \<Rightarrow> string \<Rightarrow> u8 \<Rightarrow> 'a dongle_state_scheme \<Rightarrow> int \<times> 'a dongle_state_scheme" where
  "ble_dongle_connect_watch is_mac addr name timeout_s s =
     (if dgl_state s \<noteq> DGL_IDLE \<or> dgl_watch_active s then (-1, s)
      else
        (let s1 = s\<lparr>dgl_watch_active := True, dgl_watch_is_mac := is_mac\<rparr>;
             s2 = (if is_mac then s1\<lparr>dgl_watch_addr := take 6 addr\<rparr>
                   else s1\<lparr>dgl_watch_name := take DGL_NAME_LEN name\<rparr>);
             t1 = (if timeout_s < 1 then 1 else timeout_s);
             t2 = (if t1 > 30 then 30 else t1)
         in ble_dongle_scan t2 None s2))"

definition ble_dongle_connect :: "u8 \<Rightarrow> 'a dongle_state_scheme \<Rightarrow> int \<times> 'a dongle_state_scheme" where
  "ble_dongle_connect index s =
     (if dgl_state s \<noteq> DGL_IDLE \<or> unat index \<ge> dgl_scan_count s then (-1, s)
      else (0, emit (SetEvent DongleTask DGL_CONN_EVT) (s\<lparr>dgl_pend_conn_idx := int8_of (int (unat index))\<rparr>)))"

definition ble_dongle_disconnect :: "'a dongle_state_scheme \<Rightarrow> int \<times> 'a dongle_state_scheme" where
  "ble_dongle_disconnect s =
     (if dgl_state s = DGL_AUTOCONN
      then (0, emit (SetEvent DongleTask DGL_AUTO_EVT) (s\<lparr>dgl_auto_hold := True\<rparr>))
      else if dgl_conn_handle s = GAP_CONNHANDLE_INIT then (-1, s)
      else (0, emit (Terminate (dgl_conn_handle s)) (s\<lparr>dgl_auto_hold := True\<rparr>)))"

definition ble_dongle_auto :: "int \<Rightarrow> 'a dongle_state_scheme \<Rightarrow> nat \<times> 'a dongle_state_scheme" where
  "ble_dongle_auto md s =
     (if md < 0 then (if dgl_auto s then 1 else 0, s)
      else
        (let s1 = s\<lparr>dgl_auto := (md \<noteq> 0)\<rparr>;
             s2 = (if dgl_auto s1 then s1\<lparr>dgl_auto_hold := False\<rparr> else s1)
         in (if dgl_auto s2 then 1 else 0, emit (SetEvent DongleTask DGL_AUTO_EVT) s2)))"

definition ble_dongle_forget_bonds :: "'a dongle_state_scheme \<Rightarrow> 'a dongle_state_scheme" where
  "ble_dongle_forget_bonds s = emit (BondSet GAPBOND_ERASE_ALLBONDS []) (s\<lparr>dgl_auto_fails := 0\<rparr>)"

definition ble_dongle_connected :: "'a dongle_state_scheme \<Rightarrow> bool" where
  "ble_dongle_connected s = (dgl_conn_handle s \<noteq> GAP_CONNHANDLE_INIT)"

definition ble_dongle_state_debug :: "'a dongle_state_scheme \<Rightarrow> nat" where
  "ble_dongle_state_debug s = link_number (dgl_state s)"

definition ble_dongle_start_status_debug :: "'a dongle_state_scheme \<Rightarrow> u8" where
  "ble_dongle_start_status_debug s = dgl_start_status s"

definition list_bond :: "env \<Rightarrow> nat \<Rightarrow> 'a base_scheme \<Rightarrow> 'a base_scheme" where
  "list_bond E i s =
     (case snv_bond E (outs s) i of
        None \<Rightarrow> AT_Response (''+BT_LIST:'' @ dec_nat i @ '' <snv read err>'') s
      | Some (addr, ty, fl) \<Rightarrow>
          AT_Response (''+BT_LIST:'' @ dec_nat i @ '','' @ mac_hex addr @ '',flags='' @ hex04 fl) s)"

definition ble_dongle_list_bonds :: "env \<Rightarrow> 'a base_scheme \<Rightarrow> int \<times> 'a base_scheme" where
  "ble_dongle_list_bonds E s =
     (let count = bond_count E (outs s) in
      if count = 0 then (0, AT_Response ''+BT_LIST: empty'' s)
      else (int (unat count), fold (list_bond E) [0..<unat count] s))"

text \<open>The static variables as they start, on top of a state of the router.\<close>

definition dongle_start :: "router_state \<Rightarrow> dongle_state" where
  "dongle_start s = router_state.extend s
     \<lparr>dgl_pend_scan_sec = -1, dgl_pend_conn_idx = -1, dgl_watch_active = False, dgl_watch_is_mac = False,
      dgl_watch_addr = replicate 6 0, dgl_watch_name = [], dgl_auto = True, dgl_auto_hold = False,
      dgl_auto_fails = 0, dgl_start_status = 0xFF, dgl_disc_retries = 0, dgl_passkey_conn = 0xFFFF,
      dgl_passkey_pending = False, dgl_passkey_preset = 123456, dgl_state = DGL_IDLE,
      dgl_disc_state = DISC_IDLE, dgl_conn_handle = GAP_CONNHANDLE_INIT,
      dgl_scan_list = replicate DGL_MAX_SCAN_RES \<lparr>r_addr = replicate 6 0, r_type = 0, r_rssi = 0, r_name = []\<rparr>,
      dgl_scan_count = 0, dgl_filter = [], dgl_svc_start = 0, dgl_svc_end = 0, dgl_boot_hdl = 0,
      dgl_proto_hdl = 0, dgl_rpt_hdls = replicate DGL_MAX_REPORTS 0, dgl_rpt_count = 0,
      dgl_cccd_list = replicate DGL_MAX_CCCD 0, dgl_cccd_count = 0, dgl_cccd_wr = 0, dgl_batt_hdl = 0,
      dgl_batt_reading = False, dgl_proto_pending = False, dgl_rd_idx = 0\<rparr>"

end
