(* ===== verification/At_Cmds.thy ===== *)
theory At_Cmds
  imports Dongle Role
begin

text \<open>
  The command handlers of \<^verbatim>\<open>at_cmds.c\<close> besides those of the keyboard: core, device, slots,
  peripherals, wireless, role, and the command table.  The peripheral drivers are compiled in, USB is
  on, so \<^verbatim>\<open>AT+SLEEP\<close> is the refusal of such a build.
\<close>

section \<open>State\<close>

record at_state = dongle_state +
  i2c_inited :: bool

definition reply :: "string \<Rightarrow> 'a base_scheme \<Rightarrow> int option \<times> 'a base_scheme" where
  "reply t s = (Some 0, AT_Response t s)"

section \<open>Core\<close>

definition at_cmd_AT :: "nat \<Rightarrow> argv \<Rightarrow> 'a base_scheme \<Rightarrow> int option \<times> 'a base_scheme" where
  "at_cmd_AT argc argv s = (Some 0, s)"

definition at_cmd_VER :: "env \<Rightarrow> nat \<Rightarrow> argv \<Rightarrow> 'a base_scheme \<Rightarrow> int option \<times> 'a base_scheme" where
  "at_cmd_VER E argc argv s =
     reply (''AT-Node v1.0 ['' @ role_name (role_current E s) @ ''] BLE: '' @ ver_lib E) s"

text \<open>Names and help texts of the command table, in its order.\<close>

definition cmd_help :: "env \<Rightarrow> (string \<times> string) list" where
  "cmd_help E =
     [(''AT'', ''handshake -> OK''), (''AT+VER'', ''firmware version''), (''AT+HELP'', ''command list''),
      (''AT+ECHO'', ''echo <text>''), (''AT+STATUS'', ''device status (role/dev/ble/batt)''),
      (''AT+RST'', ''software reset''), (''AT+FACTORY'', ''wipe all config + bonds, reset''),
      (''AT+ISP'', ''enter ISP bootloader (erases app!)''), (''AT+WDG'', ''watchdog [0|1], default off''),
      (''AT+ROLE'', ''query/switch role KBD|DONGLE (DUAL)'')] @
     (if has_kbd (mode E) then [(''AT+DEV'', ''output target USB|BLE'')] else []) @
     [(''AT+KEY'', ''raw HID report <mods>,<k1>,..,<k6>''),
      (''AT+TAP'', ''press+release <ms>,<mods>,<k1>..<k6>''), (''AT+MOD'', ''set modifiers <mask>''),
      (''AT+KEY_SEQ'', ''batch HID <delay>,<mods>,<k1>..<k6>,...''),
      (''AT+KEY_STR'', ''type text <string> (US layout)'')] @
     (if has_kbd (mode E)
      then [(''AT+PACE'', ''KEY_STR pacing <ms> (per-slot)''), (''AT+NAME'', ''slot label <BLEn>,<name>''),
            (''AT+MAC'', ''slot own MAC <BLEn>[,<addr>]'')] else []) @
     [(''AT+GPIO_W'', ''write <pin>,<level> (PA0-15,PB16-39)''), (''AT+GPIO_R'', ''read <pin>''),
      (''AT+LED'', ''LED ON|OFF|BLINK|FLASH|TOGGLE[,ms[,duty%%]]''),
      (''AT+KEY_CFG'', ''custom key <pin 38|39>,<mods>,<keycode>''),
      (''AT+ADC'', ''read ADC <ch>[,<pga>] -> +ADC:<raw>,<mV> mV''),
      (''AT+TEMP'', ''temperature sensor -> +TEMP:<raw>,<C> C''), (''AT+I2C_SCAN'', ''scan I2C bus''),
      (''AT+I2C_R'', ''I2C read <addr>,<reg>,<len> (hex)''),
      (''AT+I2C_W'', ''I2C write <addr>,<reg>,<data> (hex)''),
      (''AT+SLEEP'', ''sleep <mode 0-2>[,<sec>] RTC wake''),
      (''AT+BT_SCAN'', ''scan HID devices [sec] (dongle)''),
      (''AT+BT_CONN'', ''connect <idx|addr|name> (dongle)''),
      (''AT+BT_DISC'', ''drop BLE link (hold reconnect)''), (''AT+BT_PAIR'', ''open pairing window <BLEn>''),
      (''AT+BT_UNBIND'', ''forget one host <BLE1..3>''), (''AT+BT_STATE'', ''diag dongle state (dongle)''),
      (''AT+BT_BATT'', ''peer battery % (dongle)''), (''AT+BT_PASSKEY'', ''SMP passkey <6digits> (dongle)''),
      (''AT+BT_LIST'', ''bonded devices (dongle)''), (''AT+BT_AUTO'', ''auto-reconnect [0|1] (dongle)'')]"

definition lines :: "string list \<Rightarrow> string" where
  "lines ts = join_with [CR, LF] ts"

definition help_texts :: "string list" where
  "help_texts =
     [lines [''AT-Node Commands:'', ''  [Core]'', ''  AT       - handshake'', ''  AT+VER   - version'',
        ''  AT+HELP  - this help'', ''  AT+ECHO  - echo <text>'', ''  AT+STATUS - role/kb/ble/batt'',
        ''  AT+RST   - software reset'', ''  AT+ISP   - enter ISP bootloader (erases app!)'',
        ''  AT+WDG   - watchdog [0|1], default off''],
      lines [''  AT+ROLE  - role KBD|DONGLE (DUAL)'', ''  [Keyboard]'', ''  AT+DEV   - output target USB|BLE'',
        ''  AT+KEY   - raw HID <mods>,<k1>,..,<k6>'', ''  AT+TAP   - press+release <ms>,<mods>,<k1>..<k6>'',
        ''  AT+MOD   - modifiers <mask>'', ''  AT+KEY_SEQ  - batch HID <delay>,<mods>,<k1>..<k6>,...''],
      lines [''  [GPIO]'', ''  AT+GPIO_W   - write <pin>,<level> (PA0-15,PB16-39)'',
        ''  AT+GPIO_R   - read <pin>'', ''  [Sensor]'',
        ''  AT+ADC      - read <ch>[,<pga>] -> +ADC:<raw>,<mV> mV'', ''  AT+I2C_SCAN - scan bus''],
      lines [''  AT+I2C_R    - read <addr>,<reg>,<len> (hex)'', ''  AT+I2C_W    - write <addr>,<reg>,<data> (hex)'',
        ''  [Power]'', ''  AT+TEMP     - read internal temperature sensor -> '' @ [CHR 0xC2, CHR 0xB0] @ ''C'', ''''],
      lines [''  [Wireless]'', ''  AT+BT_SCAN  - scan HID devices [sec] (dongle)'',
        ''  AT+BT_CONN  - connect <idx|addr|name> (dongle)'', ''  AT+BT_DISC  - drop BLE link (suppress reconnect)'',
        ''  AT+BT_PAIR  - drop link + erase bonds''],
      lines [''  AT+BT_STATE - diag dongle state (dongle)'', ''  AT+BT_PASSKEY - SMP passkey <6digits> (dongle)'',
        ''  AT+BT_LIST  - bonded devices (dongle)'', ''  AT+BT_AUTO  - auto-reconnect [0|1] (dongle)'']]"

definition at_cmd_HELP :: "env \<Rightarrow> nat \<Rightarrow> argv \<Rightarrow> 'a base_scheme \<Rightarrow> int option \<times> 'a base_scheme" where
  "at_cmd_HELP E argc argv s =
     (if argc > 1 then
        (case find (\<lambda>(n, h). strcaseeq (arg argv 1) n) (cmd_help E) of
           Some (n, h) \<Rightarrow> reply (n @ '' - '' @ h) s
         | None \<Rightarrow> fail ''ERROR: unknown command (try AT+HELP)'' s)
      else (Some 0, fold AT_Response help_texts s))"

definition at_cmd_ECHO :: "nat \<Rightarrow> argv \<Rightarrow> 'a base_scheme \<Rightarrow> int option \<times> 'a base_scheme" where
  "at_cmd_ECHO argc argv s =
     (if argc < 2 then fail ''usage: AT+ECHO=text'' s else reply (arg argv 1) s)"

definition at_cmd_WDG :: "nat \<Rightarrow> argv \<Rightarrow> 'a hws_state_scheme \<Rightarrow> int option \<times> 'a hws_state_scheme" where
  "at_cmd_WDG argc argv s =
     (if argc < 2 then reply (''wdg='' @ dec_nat (hws_wdg_armed s) @ '' (0=off,1=armed)'') s
      else (Some 0, if atoi (arg argv 1) \<noteq> 0 then hws_wdg_arm s else hws_wdg_disarm s))"

section \<open>Output target and slots\<close>

definition dev_target_parse :: "string \<Rightarrow> u8" where
  "dev_target_parse t =
     (if t = ''USB'' then KB_TGT_USB
      else if t = ''BLE'' then KB_TGT_BLE1
      else if t = ''BLE1'' then KB_TGT_BLE1
      else if t = ''BLE2'' then push_bit 1 KB_TGT_BLE1
      else if t = ''BLE3'' then push_bit 2 KB_TGT_BLE1
      else 0)"

definition active_mark :: "nat \<Rightarrow> 'a slots_state_scheme \<Rightarrow> string" where
  "active_mark i s = (if kb_target s AND tgt_bit i \<noteq> 0 then '',active'' else '''')"

definition name_mark :: "env \<Rightarrow> nat \<Rightarrow> 'a slots_state_scheme \<Rightarrow> string" where
  "name_mark E i s = (if kb_ble_slot_name E i s \<noteq> [] then '',name='' else '''') @ kb_ble_slot_name E i s"

definition dev_line :: "env \<Rightarrow> nat \<Rightarrow> 'a router_state_scheme \<Rightarrow> 'a router_state_scheme" where
  "dev_line E i s =
     (let pre = dec_nat (i + 2) @ '',BLE'' @ dec_nat (i + 1) @ '','' in
      case kb_ble_slot_addr E i s of
        Some a \<Rightarrow>
          (let (iv, lt) = (case kb_ble_slot_params E i s of Some p \<Rightarrow> p | None \<Rightarrow> (0, 0));
               t = unat iv * 125
           in AT_Response (pre @ mac_str a @ '',connected'' @
                (if kb_ble_slot_secure E i s then '',secure'' else '',INSECURE'') @
                (if kb_ble_slot_notify E i s then '',notify'' else '',NO-CCCD'') @
                active_mark i s @ (if kb_ble_drops s ! i \<noteq> 0 then '',drops'' else '''') @
                '',err='' @ hex02 (kb_ble_lasterr s ! i) @
                '',int='' @ dec_nat (t div 100) @ ''.'' @ pad0 2 (dec_nat (t mod 100)) @
                ''ms/lat'' @ dec_nat (unat lt) @ name_mark E i s) s)
      | None \<Rightarrow>
          (case kb_ble_slot_bound_addr E i s of
             Some b \<Rightarrow> AT_Response (pre @ mac_str b @ '',reserved'' @ active_mark i s @ name_mark E i s) s
           | None \<Rightarrow> AT_Response (pre @ ''-,free'' @ active_mark i s) s))"

definition dev_valid :: "env \<Rightarrow> u8" where
  "dev_valid E =
     KB_TGT_USB OR KB_TGT_BLE1 OR (if kbd_max_conn (mode E) \<ge> 2 then KB_TGT_BLE2 else 0) OR
     (if kbd_max_conn (mode E) \<ge> 3 then KB_TGT_BLE3 else 0)"

definition at_cmd_DEV ::
  "env \<Rightarrow> nat \<Rightarrow> argv \<Rightarrow> 'a router_state_scheme \<Rightarrow> int option \<times> 'a router_state_scheme" where
  "at_cmd_DEV E argc argv s =
     (if argc < 2 then
        (Some 0, fold (dev_line E) [0..<kbd_max_conn (mode E)]
           (AT_Response (''1,USB,'' @ (if usb_ready (usb s) then ''ready'' else ''not-ready'') @
              (if kb_target s AND KB_TGT_USB \<noteq> 0 then '',active'' else '''')) s))
      else
        (let m = dev_target_parse (arg argv 1) in
         if m = 0 \<or> m AND NOT (dev_valid E) \<noteq> 0 then fail ''usage: AT+DEV[=USB|BLE1|BLE2|BLE3]'' s
         else
           (let s1 = s\<lparr>kb_target := m\<rparr>;
                k = first_index (kbd_max_conn (mode E)) (\<lambda>i. m AND tgt_bit i \<noteq> 0);
                s2 = (if m AND KB_TGT_BLE_ALL \<noteq> 0
                      then (if k \<ge> 0 then kb_ble_activate_slot E k s1 else s1)
                      else kb_ble_activate_slot E (-1) s1)
            in reply (''DEV='' @ arg argv 1) s2)))"

text \<open>The last slot a mask names, as the loops leave it in \<open>slot\<close>.\<close>

definition slot_of_mask :: "env \<Rightarrow> u8 \<Rightarrow> int" where
  "slot_of_mask E m =
     fold (\<lambda>i k. if m AND tgt_bit i \<noteq> 0 then int i else k) [0..<kbd_max_conn (mode E)] (-1)"

definition mac_nibble :: "char \<Rightarrow> u8 option" where
  "mac_nibble c =
     (if is_digit c then Some (byte_of c - 0x30)
      else if 0x61 \<le> fold32 c \<and> fold32 c \<le> 0x66 then Some (fold32 c - 0x61 + 10)
      else None)"

text \<open>
  The address \<open>AA:BB:CC:DD:EE:FF\<close>, most significant byte first; \<open>parse_mac i\<close> reads the bytes \<open>i\<close> to
  0.  What follows the last digit is not looked at.
\<close>

fun parse_mac :: "nat \<Rightarrow> string \<Rightarrow> u8 list option" where
  "parse_mac 0 (a # b # p) =
     (case (mac_nibble a, mac_nibble b) of
        (Some x, Some y) \<Rightarrow> Some [push_bit 4 x OR y]
      | _ \<Rightarrow> None)"
| "parse_mac (Suc i) (a # b # c # p) =
     (case (mac_nibble a, mac_nibble b) of
        (Some x, Some y) \<Rightarrow>
          if c = CHR '':'' then map_option (\<lambda>r. r @ [push_bit 4 x OR y]) (parse_mac i p) else None
      | _ \<Rightarrow> None)"
| "parse_mac _ _ = None"

definition mac_of :: "env \<Rightarrow> nat \<Rightarrow> 'a slots_state_scheme \<Rightarrow> u8 list" where
  "mac_of E i s = (case kb_ble_slot_mac E i s of Some m \<Rightarrow> m | None \<Rightarrow> [])"

definition kbd_disabled :: "'a base_scheme \<Rightarrow> int option \<times> 'a base_scheme" where
  "kbd_disabled s = fail ''ERROR: keyboard role disabled'' s"

definition at_cmd_MAC ::
  "env \<Rightarrow> nat \<Rightarrow> argv \<Rightarrow> 'a slots_state_scheme \<Rightarrow> int option \<times> 'a slots_state_scheme" where
  "at_cmd_MAC E argc argv s =
     (if \<not> has_kbd (mode E) then kbd_disabled s
      else if argc < 2 then
        (Some 0, fold (\<lambda>i s. AT_Response (dec_nat (i + 1) @ '',BLE'' @ dec_nat (i + 1) @ '','' @ mac_str (mac_of E i s)) s)
           [0..<kbd_max_conn (mode E)] s)
      else
        (let m = dev_target_parse (arg argv 1); k = slot_of_mask E m in
         if m = 0 \<or> m AND KB_TGT_BLE_ALL = 0
         then fail ''usage: AT+MAC[=<BLE1|BLE2|BLE3>[,<AA:BB:CC:DD:EE:FF>]]'' s
         else if k < 0 then (Some (-1), s)
         else if argc < 3 then reply (''BLE'' @ dec_int (k + 1) @ '','' @ mac_str (mac_of E (nat k) s)) s
         else
           (case parse_mac 5 (arg argv 2) of
              None \<Rightarrow> fail ''usage: AT+MAC=<BLEn>,<AA:BB:CC:DD:EE:FF>'' s
            | Some a \<Rightarrow>
                (let (r, s1) = kb_ble_slot_set_mac E (nat k) a s
                 in if r < 0 then fail ''ERROR: need static-random MAC (MSB top bits = 11)'' s1
                    else reply (''BLE'' @ dec_int (k + 1) @ '' mac='' @ mac_str a) s1))))"

definition at_cmd_PACE ::
  "env \<Rightarrow> nat \<Rightarrow> argv \<Rightarrow> 'a slots_state_scheme \<Rightarrow> int option \<times> 'a slots_state_scheme" where
  "at_cmd_PACE E argc argv s =
     (if \<not> has_kbd (mode E) then kbd_disabled s
      else
        (let k = kb_ble_active_slot E s in
         if k < 0 then fail ''pace: no BLE slot active (AT+DEV=BLEn first)'' s
         else if argc < 2
         then reply (''BLE'' @ dec_int (k + 1) @ '' pace='' @ dec_nat (unat (kb_ble_slot_pace E (nat k) s)) @ ''ms'') s
         else
           (let v = atoi (arg argv 1); (r, s1) = kb_ble_slot_set_pace E (nat k) (of_int v) s
            in if r < 0 then fail ''usage: AT+PACE=<ms 5-2000>'' s1
               else reply (''BLE'' @ dec_int (k + 1) @ '' pace='' @ dec_int v @ ''ms'') s1)))"

definition at_cmd_NAME ::
  "env \<Rightarrow> nat \<Rightarrow> argv \<Rightarrow> 'a slots_state_scheme \<Rightarrow> int option \<times> 'a slots_state_scheme" where
  "at_cmd_NAME E argc argv s =
     (if \<not> has_kbd (mode E) then kbd_disabled s
      else if argc < 2 then
        (Some 0, fold (\<lambda>i s. AT_Response (dec_nat (i + 1) @ '',BLE'' @ dec_nat (i + 1) @ '','' @
             (if kb_ble_slot_name E i s \<noteq> [] then kb_ble_slot_name E i s else ''-'')) s)
           [0..<kbd_max_conn (mode E)] s)
      else if argc < 3 then fail ''usage: AT+NAME=<BLE1|BLE2|BLE3>,<label>'' s
      else
        (let m = dev_target_parse (arg argv 1);
             k = first_index (kbd_max_conn (mode E)) (\<lambda>i. m AND tgt_bit i \<noteq> 0) in
         if m = 0 \<or> m AND KB_TGT_BLE_ALL = 0 then fail ''usage: AT+NAME=<BLE1|BLE2|BLE3>,<label>'' s
         else if k < 0 then (Some (-1), s)
         else
           (let (r, s1) = kb_ble_slot_set_name E (nat k) (arg argv 2) s
            in if r < 0 then fail ''ERROR: label chars A-Z a-z 0-9 - _ (max 11)'' s1
               else reply (''BLE'' @ dec_int (k + 1) @ '' name='' @ kb_ble_slot_name E (nat k) s1) s1)))"

section \<open>Status, reset, peripherals\<close>

definition target_text :: "env \<Rightarrow> 'a slots_state_scheme \<Rightarrow> string" where
  "target_text E s =
     (let t = (if kb_target s AND KB_TGT_USB \<noteq> 0 then ''USB'' else '''');
          u = fold (\<lambda>i t. if kb_target s AND tgt_bit i \<noteq> 0
                          then (if t \<noteq> [] then t @ ''+'' else t) @ ''BLE'' @ dec_nat (i + 1) else t)
                [0..<kbd_max_conn (mode E)] t
      in if u = [] then ''NONE'' else u)"

definition at_cmd_STATUS ::
  "env \<Rightarrow> nat \<Rightarrow> argv \<Rightarrow> 'a slots_state_scheme \<Rightarrow> int option \<times> 'a slots_state_scheme" where
  "at_cmd_STATUS E argc argv s =
     (let (mv, s1) = hws_batt_read_mv E s
      in reply (''role='' @ role_name (role_current E s) @ '' dev='' @ target_text E s @ '' ble='' @
                dec_nat (kb_ble_conn_count E s) @ ''conn batt='' @ dec_nat (unat mv) @ ''mV'') s1)"

definition at_cmd_RST :: "nat \<Rightarrow> argv \<Rightarrow> 'a base_scheme \<Rightarrow> int option \<times> 'a base_scheme" where
  "at_cmd_RST argc argv s = (None, emit SysReset (AT_Response ''resetting...'' s))"

definition at_cmd_ISP :: "nat \<Rightarrow> argv \<Rightarrow> 'a base_scheme \<Rightarrow> int option \<times> 'a base_scheme" where
  "at_cmd_ISP argc argv s =
     (None, emit IspErase (AT_Response (''entering ISP '' @ em_dash @
        '' app flash erased, reflash via wchisp (1a86:8010)'') s))"

definition at_cmd_GPIO_W :: "nat \<Rightarrow> argv \<Rightarrow> 'a base_scheme \<Rightarrow> int option \<times> 'a base_scheme" where
  "at_cmd_GPIO_W argc argv s =
     (if argc < 3 then fail ''usage: AT+GPIO_W=<pin>,<level>[,<drive 5|20>]'' s
      else
        (let (r, s1) = hws_gpio_write (u8_of_int (atoi (arg argv 1))) (u8_of_int (atoi (arg argv 2)))
                         (argc > 3 \<and> atoi (arg argv 3) = 20) s
         in if r < 0 then fail ''ERROR: bad pin (0-15=PA, 16-39=PB)'' s1 else (Some 0, s1)))"

definition at_cmd_GPIO_R :: "env \<Rightarrow> nat \<Rightarrow> argv \<Rightarrow> 'a base_scheme \<Rightarrow> int option \<times> 'a base_scheme" where
  "at_cmd_GPIO_R E argc argv s =
     (if argc < 2 then fail ''usage: AT+GPIO_R=<pin>[,<mode 0=PU 1=FLOAT 2=PD>]'' s
      else
        (let md = (if argc > 2 then u8_of_int (atoi (arg argv 2)) else 0);
             (v, s1) = hws_gpio_read E (u8_of_int (atoi (arg argv 1))) md s
         in if v < 0 then fail ''ERROR: bad pin (0-15=PA, 16-39=PB)'' s1 else reply (dec_int v) s1))"

definition at_cmd_ADC ::
  "env \<Rightarrow> nat \<Rightarrow> argv \<Rightarrow> 'a hws_state_scheme \<Rightarrow> int option \<times> 'a hws_state_scheme" where
  "at_cmd_ADC E argc argv s =
     (if argc < 2 then fail ''usage: AT+ADC=<ch 0-13>[,<pga 0-3>]'' s
      else
        (let ch = u8_of_int (atoi (arg argv 1));
             pga = (if argc \<ge> 3 then u8_of_int (atoi (arg argv 2)) else 2)
         in if ch > 13 \<or> pga > 3
            then fail ''ERROR: ch 0-13, pga 0-3 (0=-12dB,1=-6dB,2=0dB,3=6dB)'' s
            else
              (let ((mv, r), s1) = hws_adc_read_mv E ch pga s;
                   raw = (case r of Some v \<Rightarrow> v | None \<Rightarrow> 0)
               in if mv = 0xFFFF then fail ''ERROR: bad channel'' s1
                  else reply (''+ADC:'' @ dec_nat (unat raw) @ '','' @ dec_nat (unat mv) @ '' mV'') s1)))"

definition at_cmd_TEMP ::
  "env \<Rightarrow> nat \<Rightarrow> argv \<Rightarrow> 'a hws_state_scheme \<Rightarrow> int option \<times> 'a hws_state_scheme" where
  "at_cmd_TEMP E argc argv s =
     (let (t, s1) = hws_get_temp E s; raw = t AND 0x0FFF
      in reply (''+TEMP:'' @ dec_nat (unat raw) @ '','' @ dec_int (to_celsius E raw) @ '' C'') s1)"

definition led_mode_of :: "string \<Rightarrow> u8 option" where
  "led_mode_of m =
     (if strcaseeq m ''ON'' then Some HWS_LED_MODE_ON
      else if strcaseeq m ''OFF'' then Some HWS_LED_MODE_OFF
      else if strcaseeq m ''TOGGLE'' then Some HWS_LED_MODE_TOGGLE
      else if strcaseeq m ''BLINK'' then Some HWS_LED_MODE_BLINK
      else if strcaseeq m ''FLASH'' then Some HWS_LED_MODE_FLASH
      else None)"

definition at_cmd_LED ::
  "env \<Rightarrow> nat \<Rightarrow> argv \<Rightarrow> 'a led_state_scheme \<Rightarrow> int option \<times> 'a led_state_scheme" where
  "at_cmd_LED E argc argv s =
     (if argc < 2 then fail ''usage: AT+LED=ON|OFF|BLINK|FLASH|TOGGLE[,ms[,duty%]]'' s
      else
        (case led_mode_of (arg argv 1) of
           None \<Rightarrow> fail ''ERROR: ON|OFF|BLINK|FLASH|TOGGLE'' s
         | Some md \<Rightarrow>
             if md = HWS_LED_MODE_BLINK \<or> md = HWS_LED_MODE_FLASH then
               (let period = (if argc \<ge> 3 then of_int (atoi (arg argv 2)) else 500) :: u16;
                    duty = (if argc \<ge> 4 then u8_of_int (atoi (arg argv 3)) else 50);
                    count = (if md = HWS_LED_MODE_FLASH then 0 else 1)
                in reply (''LED='' @ arg argv 1 @ '' period='' @ dec_nat (unat period) @ ''ms duty='' @
                          dec_nat (unat duty) @ ''%'') (hws_led_blink E HWS_LED_1 count duty period s))
             else reply (''LED='' @ arg argv 1) (hws_led_set E HWS_LED_1 md s)))"

definition i2c_lazy_init :: "'a at_state_scheme \<Rightarrow> 'a at_state_scheme" where
  "i2c_lazy_init s = (if \<not> i2c_inited s then (hws_i2c_init s)\<lparr>i2c_inited := True\<rparr> else s)"

definition scan_addr :: "env \<Rightarrow> nat \<Rightarrow> nat \<times> 'a base_scheme \<Rightarrow> nat \<times> 'a base_scheme" where
  "scan_addr E a p =
     (let (r, s1) = hws_i2c_probe E (of_nat a) (snd p)
      in if r = 0 then (fst p + 1, AT_Response (''+I2C: 0x'' @ hex02 (of_nat a)) s1) else (fst p, s1))"

definition at_cmd_I2C_SCAN ::
  "env \<Rightarrow> nat \<Rightarrow> argv \<Rightarrow> 'a at_state_scheme \<Rightarrow> int option \<times> 'a at_state_scheme" where
  "at_cmd_I2C_SCAN E argc argv s =
     (let (found, s1) = fold (scan_addr E) [0x03..<0x78] (0, i2c_lazy_init s)
      in (Some 0, if found = 0 then AT_Response ''no devices'' s1 else s1))"

definition at_cmd_I2C_R ::
  "env \<Rightarrow> nat \<Rightarrow> argv \<Rightarrow> 'a at_state_scheme \<Rightarrow> int option \<times> 'a at_state_scheme" where
  "at_cmd_I2C_R E argc argv s =
     (if argc < 4 then fail ''usage: AT+I2C_R=<addr>,<reg>,<len> (hex)'' s
      else
        (let len = atoi (arg argv 3) in
         if len < 1 \<or> len > 32 then fail ''ERROR: len 1-32'' s
         else
           (case hws_i2c_read E (ucast (strtoul0 (arg argv 1))) (ucast (strtoul0 (arg argv 2))) (u8_of_int len)
                   (i2c_lazy_init s) of
              (None, s1) \<Rightarrow> fail ''ERROR: i2c read failed'' s1
            | (Some d, s1) \<Rightarrow> reply (join_with '' '' (map hex02 (take (nat len) d))) s1)))"

definition at_cmd_I2C_W ::
  "env \<Rightarrow> nat \<Rightarrow> argv \<Rightarrow> 'a at_state_scheme \<Rightarrow> int option \<times> 'a at_state_scheme" where
  "at_cmd_I2C_W E argc argv s =
     (if argc < 4 then fail ''usage: AT+I2C_W=<addr>,<reg>,<d0>[,<d1>,...] (hex)'' s
      else
        (let n = (if argc - 3 > 16 then 16 else argc - 3);
             d = map (\<lambda>i. ucast (strtoul0 (arg argv (3 + i)))) [0..<n];
             (r, s1) = hws_i2c_write E (ucast (strtoul0 (arg argv 1))) (ucast (strtoul0 (arg argv 2))) d
                         (i2c_lazy_init s)
         in if r < 0 then fail ''ERROR: i2c write failed'' s1 else (Some 0, s1)))"

definition at_cmd_SLEEP :: "nat \<Rightarrow> argv \<Rightarrow> 'a base_scheme \<Rightarrow> int option \<times> 'a base_scheme" where
  "at_cmd_SLEEP argc argv s =
     fail (''ERROR: sleep excluded with USB '' @ em_dash @ '' use HWS_SLEEP build over UART'') s"

section \<open>Wireless: receiver\<close>

definition bt_scan_dgl ::
  "env \<Rightarrow> nat \<Rightarrow> argv \<Rightarrow> 'a dongle_state_scheme \<Rightarrow> int option \<times> 'a dongle_state_scheme" where
  "bt_scan_dgl E argc argv s =
     (let c0 = (if argc > 1 then atoi (arg argv 1) else 5);
          c1 = (if c0 < 1 then 1 else c0);
          sec = (if c1 > 30 then 30 else c1);
          filt = (if argc > 2 then Some (arg argv 2) else None);
          (r, s1) = ble_dongle_scan (u8_of_int sec) filt s
      in if r < 0 then fail (''ERROR: busy state='' @ dec_nat (ble_dongle_state_debug s1)) s1
         else reply (''scanning '' @ dec_int sec @ ''s'' @
                (case filt of None \<Rightarrow> '''' | Some f \<Rightarrow> '' filter='' @ f) @ ''...'') s1)"

definition bt_conn_dgl ::
  "env \<Rightarrow> nat \<Rightarrow> argv \<Rightarrow> 'a dongle_state_scheme \<Rightarrow> int option \<times> 'a dongle_state_scheme" where
  "bt_conn_dgl E argc argv s =
     (if argc < 2 then fail ''usage: AT+BT_CONN=mac|name|index,<value>[,<sec>]'' s
      else if strcaseeq (arg argv 1) ''mac'' \<or> strcaseeq (arg argv 1) ''name'' then
        (if argc < 3 then fail (''usage: AT+BT_CONN='' @ arg argv 1 @ '',<value>[,<sec>]'') s
         else
           (let is_mac = strcaseeq (arg argv 1) ''mac'';
                addr = (if is_mac then parse_mac 5 (arg argv 2) else Some (replicate 6 0));
                sec = (if argc > 3 then atoi (arg argv 3) else 5)
            in case addr of
                 None \<Rightarrow> fail ''ERROR: bad MAC'' s
               | Some a \<Rightarrow>
                   (let (r, s1) = ble_dongle_connect_watch is_mac a (arg argv 2) (u8_of_int sec) s
                    in if r < 0 then fail ''ERROR: busy'' s1
                       else reply (''watching '' @ dec_int sec @ ''s for '' @ arg argv 2 @ ''...'') s1)))
      else if strcaseeq (arg argv 1) ''index'' then
        (if argc < 3 then fail ''usage: AT+BT_CONN=index,<n>'' s
         else
           (let idx = atoi (arg argv 2); (r, s1) = ble_dongle_connect (u8_of_int idx) s
            in if r < 0
               then fail (''ERROR: no such index or busy '' @ em_dash @ '' run AT+BT_SCAN first'') s1
               else reply (''connecting #'' @ dec_int idx @ ''...'') s1))
      else
        (let idx = ble_dongle_find (arg argv 1) s;
             (r, s1) = (if idx < 0 then (-1, s) else ble_dongle_connect (u8_of_int idx) s)
         in if r < 0 then fail (''ERROR: no match or busy '' @ em_dash @ '' run AT+BT_SCAN first'') s1
            else reply (''connecting #'' @ dec_int idx @ ''...'') s1))"

definition bt_disc_dgl ::
  "nat \<Rightarrow> argv \<Rightarrow> 'a dongle_state_scheme \<Rightarrow> int option \<times> 'a dongle_state_scheme" where
  "bt_disc_dgl argc argv s =
     (let (r, s1) = ble_dongle_disconnect s
      in if r < 0 then fail ''ERROR: not connected'' s1 else (Some 0, s1))"

definition bt_passkey_dgl ::
  "nat \<Rightarrow> argv \<Rightarrow> 'a dongle_state_scheme \<Rightarrow> int option \<times> 'a dongle_state_scheme" where
  "bt_passkey_dgl argc argv s =
     (if argc < 2 then fail ''usage: AT+BT_PASSKEY=<6digits>'' s
      else reply ''passkey set'' (snd (ble_dongle_passkey (of_int (atoi (arg argv 1))) s)))"

definition bt_list_dgl :: "env \<Rightarrow> nat \<Rightarrow> argv \<Rightarrow> 'a base_scheme \<Rightarrow> int option \<times> 'a base_scheme" where
  "bt_list_dgl E argc argv s = (Some 0, snd (ble_dongle_list_bonds E s))"

definition bt_auto_dgl ::
  "nat \<Rightarrow> argv \<Rightarrow> 'a dongle_state_scheme \<Rightarrow> int option \<times> 'a dongle_state_scheme" where
  "bt_auto_dgl argc argv s =
     (if argc < 2
      then (let (a, s1) = ble_dongle_auto (-1) s
            in reply (''auto='' @ dec_nat a @ '' state='' @ dec_nat (ble_dongle_state_debug s1)) s1)
      else (let (a, s1) = ble_dongle_auto (if atoi (arg argv 1) \<noteq> 0 then 1 else 0) s
            in reply (''auto='' @ dec_nat a) s1))"

definition bt_state_dgl ::
  "nat \<Rightarrow> argv \<Rightarrow> 'a dongle_state_scheme \<Rightarrow> int option \<times> 'a dongle_state_scheme" where
  "bt_state_dgl argc argv s =
     reply (''state='' @ dec_nat (ble_dongle_state_debug s) @ '' startDev='' @
            dec_nat (unat (ble_dongle_start_status_debug s)) @ '' (0=ok,24=badTask,0xFF=never)'') s"

definition bt_pair_dgl ::
  "nat \<Rightarrow> argv \<Rightarrow> 'a dongle_state_scheme \<Rightarrow> int option \<times> 'a dongle_state_scheme" where
  "bt_pair_dgl argc argv s =
     reply (''bonds erased '' @ em_dash @ '' scan+conn to pair a new keyboard'')
       (ble_dongle_forget_bonds (snd (ble_dongle_disconnect s)))"

section \<open>Wireless: keyboard\<close>

text \<open>How many of the slots of a mask an operation succeeds on.\<close>

definition count_slots ::
  "env \<Rightarrow> u8 \<Rightarrow> (nat \<Rightarrow> 'a slots_state_scheme \<Rightarrow> int \<times> 'a slots_state_scheme) \<Rightarrow>
   'a slots_state_scheme \<Rightarrow> nat \<times> 'a slots_state_scheme" where
  "count_slots E m f s =
     fold (\<lambda>i (n, s). if m AND tgt_bit i \<noteq> 0
             then (let (r, s1) = f i s in (if r = 0 then n + 1 else n, s1)) else (n, s))
       [0..<kbd_max_conn (mode E)] (0, s)"

definition bt_disc_kbd ::
  "env \<Rightarrow> nat \<Rightarrow> argv \<Rightarrow> 'a slots_state_scheme \<Rightarrow> int option \<times> 'a slots_state_scheme" where
  "bt_disc_kbd E argc argv s =
     (if argc \<ge> 2 then
        (let m = dev_target_parse (arg argv 1) in
         if m AND KB_TGT_BLE_ALL = 0 then fail ''usage: AT+BT_DISC[=BLE1|BLE2|BLE3]'' s
         else (let (n, s1) = count_slots E m (kb_ble_disconnect_slot E) s
               in if n = 0 then fail ''ERROR: not connected'' s1 else (Some 0, s1)))
      else
        (let (r, s1) = kb_ble_disconnect E s
         in if r < 0 then fail ''ERROR: not connected'' s1 else (Some 0, s1)))"

text \<open>
  In a build with fewer slots than the name says, \<open>slot\<close> stays -1: it is passed on as slot 255, and
  the mask is shifted by a negative amount.
\<close>

definition bt_pair_go :: "env \<Rightarrow> int \<Rightarrow> 'a slots_state_scheme \<Rightarrow> int option \<times> 'a slots_state_scheme" where
  "bt_pair_go E k s =
     (let s1 = (if k < 0 then (set_ub s)\<lparr>kb_target := 0\<rparr> else s\<lparr>kb_target := tgt_bit (nat k)\<rparr>)
      in (Some 0, kb_ble_pair_open E k (kb_ble_activate_slot E k s1)))"

definition bt_pair_kbd ::
  "env \<Rightarrow> nat \<Rightarrow> argv \<Rightarrow> 'a slots_state_scheme \<Rightarrow> int option \<times> 'a slots_state_scheme" where
  "bt_pair_kbd E argc argv s =
     (if argc \<ge> 2 then
        (let m = dev_target_parse (arg argv 1); k = slot_of_mask E m in
         if m = 0 \<or> m AND KB_TGT_BLE_ALL = 0 then fail ''usage: AT+BT_PAIR[=<BLE1|BLE2|BLE3>]'' s
         else bt_pair_go E k (snd (kb_ble_unbind_slot E (nat (k mod 256)) s)))
      else
        (let k = kb_ble_active_slot E s in
         if k < 0 then fail ''ERROR: AT+DEV=BLEn first'' s else bt_pair_go E k s))"

definition bt_unbind_kbd ::
  "env \<Rightarrow> nat \<Rightarrow> argv \<Rightarrow> 'a slots_state_scheme \<Rightarrow> int option \<times> 'a slots_state_scheme" where
  "bt_unbind_kbd E argc argv s =
     (if argc < 2 then fail ''usage: AT+BT_UNBIND=<BLE1|BLE2|BLE3>'' s
      else
        (let m = dev_target_parse (arg argv 1) in
         if m = 0 \<or> m AND KB_TGT_BLE_ALL = 0 then fail ''usage: AT+BT_UNBIND=<BLE1|BLE2|BLE3>'' s
         else (let (n, s1) = count_slots E m (kb_ble_unbind_slot E) s
               in if n = 0 then fail ''ERROR: slot not bound'' s1 else (Some 0, s1))))"

definition at_cmd_FACTORY ::
  "env \<Rightarrow> nat \<Rightarrow> argv \<Rightarrow> 'a dongle_state_scheme \<Rightarrow> int option \<times> 'a dongle_state_scheme" where
  "at_cmd_FACTORY E argc argv s =
     (let s1 = AT_Response ''factory reset...'' s;
          s2 = (if has_kbd (mode E)
                then hws_key_cfg_factory_reset E (kb_ble_factory_reset E
                       (kb_ble_forget_bonds E (snd (kb_ble_disconnect E s1))))
                else s1);
          s3 = (if has_dongle (mode E) then snd (bt_pair_dgl argc argv (snd (ble_dongle_disconnect s2))) else s2)
      in (None, emit SysReset s3))"

section \<open>Roles\<close>

text \<open>The guards of the receiver's commands; in a build without a receiver they are refused.\<close>

definition dgl_only ::
  "env \<Rightarrow> string \<Rightarrow> ('a dongle_state_scheme \<Rightarrow> int option \<times> 'a dongle_state_scheme) \<Rightarrow>
   'a dongle_state_scheme \<Rightarrow> int option \<times> 'a dongle_state_scheme" where
  "dgl_only E msg f s =
     (if \<not> has_dongle (mode E) then fail msg s
      else if mode E = MODE_DUAL \<and> role_current E s \<noteq> ROLE_DONGLE
      then fail ''ERROR: dongle-role command (AT+ROLE=DONGLE to switch)'' s
      else f s)"

definition scan_needs :: string where
  "scan_needs = ''ERROR: scan needs dongle mode (BLE_DONGLE)''"

definition dongle_off :: string where
  "dongle_off = ''ERROR: dongle mode disabled (BLE_DONGLE=FALSE)''"

definition at_cmd_BT_SCAN ::
  "env \<Rightarrow> nat \<Rightarrow> argv \<Rightarrow> 'a dongle_state_scheme \<Rightarrow> int option \<times> 'a dongle_state_scheme" where
  "at_cmd_BT_SCAN E argc argv = dgl_only E scan_needs (bt_scan_dgl E argc argv)"

definition at_cmd_BT_CONN ::
  "env \<Rightarrow> nat \<Rightarrow> argv \<Rightarrow> 'a dongle_state_scheme \<Rightarrow> int option \<times> 'a dongle_state_scheme" where
  "at_cmd_BT_CONN E argc argv = dgl_only E scan_needs (bt_conn_dgl E argc argv)"

text \<open>The two commands that both roles have.\<close>

definition dgl_role :: "env \<Rightarrow> 'a base_scheme \<Rightarrow> bool" where
  "dgl_role E s = (if mode E = MODE_DUAL then role_current E s = ROLE_DONGLE else has_dongle (mode E))"

definition at_cmd_BT_DISC ::
  "env \<Rightarrow> nat \<Rightarrow> argv \<Rightarrow> 'a dongle_state_scheme \<Rightarrow> int option \<times> 'a dongle_state_scheme" where
  "at_cmd_BT_DISC E argc argv s = (if dgl_role E s then bt_disc_dgl argc argv s else bt_disc_kbd E argc argv s)"

definition at_cmd_BT_PASSKEY ::
  "env \<Rightarrow> nat \<Rightarrow> argv \<Rightarrow> 'a dongle_state_scheme \<Rightarrow> int option \<times> 'a dongle_state_scheme" where
  "at_cmd_BT_PASSKEY E argc argv = dgl_only E dongle_off (bt_passkey_dgl argc argv)"

definition at_cmd_BT_LIST ::
  "env \<Rightarrow> nat \<Rightarrow> argv \<Rightarrow> 'a dongle_state_scheme \<Rightarrow> int option \<times> 'a dongle_state_scheme" where
  "at_cmd_BT_LIST E argc argv = dgl_only E dongle_off (bt_list_dgl E argc argv)"

definition at_cmd_BT_AUTO ::
  "env \<Rightarrow> nat \<Rightarrow> argv \<Rightarrow> 'a dongle_state_scheme \<Rightarrow> int option \<times> 'a dongle_state_scheme" where
  "at_cmd_BT_AUTO E argc argv = dgl_only E dongle_off (bt_auto_dgl argc argv)"

definition at_cmd_BT_STATE ::
  "env \<Rightarrow> nat \<Rightarrow> argv \<Rightarrow> 'a dongle_state_scheme \<Rightarrow> int option \<times> 'a dongle_state_scheme" where
  "at_cmd_BT_STATE E argc argv = dgl_only E dongle_off (bt_state_dgl argc argv)"

definition at_cmd_BT_BATT ::
  "env \<Rightarrow> nat \<Rightarrow> argv \<Rightarrow> 'a dongle_state_scheme \<Rightarrow> int option \<times> 'a dongle_state_scheme" where
  "at_cmd_BT_BATT E argc argv = dgl_only E ''ERROR: dongle mode only''
     (\<lambda>s. let (r, s1) = ble_dongle_batt_read E s
          in if r < 0 then fail ''ERROR: no battery service or not armed'' s1 else (Some 0, s1))"

definition at_cmd_BT_PAIR ::
  "env \<Rightarrow> nat \<Rightarrow> argv \<Rightarrow> 'a dongle_state_scheme \<Rightarrow> int option \<times> 'a dongle_state_scheme" where
  "at_cmd_BT_PAIR E argc argv s = (if dgl_role E s then bt_pair_dgl argc argv s else bt_pair_kbd E argc argv s)"

definition at_cmd_BT_UNBIND ::
  "env \<Rightarrow> nat \<Rightarrow> argv \<Rightarrow> 'a dongle_state_scheme \<Rightarrow> int option \<times> 'a dongle_state_scheme" where
  "at_cmd_BT_UNBIND E argc argv s =
     (if dgl_role E s then fail ''ERROR: kbd role only'' s else bt_unbind_kbd E argc argv s)"

definition at_cmd_ROLE :: "env \<Rightarrow> nat \<Rightarrow> argv \<Rightarrow> 'a base_scheme \<Rightarrow> int option \<times> 'a base_scheme" where
  "at_cmd_ROLE E argc argv s =
     (if argc < 2 then
        reply (if mode E = MODE_DUAL then ''role='' @ role_name (role_current E s) @ '' mode=DUAL''
               else if has_dongle (mode E) then ''role=dongle mode=DONGLE'' else ''role=kbd mode=KBD'') s
      else
        (let r = role_parse (argv ! 1) in
         if r < 0 then fail ''usage: AT+ROLE=KBD|DONGLE'' s
         else if mode E = MODE_DUAL then
           (if of_int r = role_current E s then reply (''role='' @ role_name (of_int r) @ '' (unchanged)'') s
            else
              (let (q, s1) = role_request E (of_int r) s
               in if q \<noteq> 0 then fail ''ERROR: role flag write failed'' s1
                  else (None, emit SysReset (AT_Response (''switching to '' @ role_name (of_int r) @ '' '' @
                          em_dash @ '' resetting...'') s1))))
         else fail (''ERROR: single-role build (role='' @ role_name (role_current E s) @ '')'') s))"

section \<open>The command table\<close>

type_synonym 'a handler = "nat \<Rightarrow> argv \<Rightarrow> 'a at_state_scheme \<Rightarrow> int option \<times> 'a at_state_scheme"

definition cmd_handlers :: "env \<Rightarrow> 'a handler list" where
  "cmd_handlers E =
     [at_cmd_AT, at_cmd_VER E, at_cmd_HELP E, at_cmd_ECHO, at_cmd_STATUS E, at_cmd_RST, at_cmd_FACTORY E,
      at_cmd_ISP, at_cmd_WDG, at_cmd_ROLE E] @
     (if has_kbd (mode E) then [at_cmd_DEV E] else []) @
     [at_cmd_KEY E, at_cmd_TAP E, at_cmd_MOD E, at_cmd_KEY_SEQ E, at_cmd_KEY_STR E] @
     (if has_kbd (mode E) then [at_cmd_PACE E, at_cmd_NAME E, at_cmd_MAC E] else []) @
     [at_cmd_GPIO_W, at_cmd_GPIO_R E, at_cmd_LED E, at_cmd_KEY_CFG E, at_cmd_ADC E, at_cmd_TEMP E,
      at_cmd_I2C_SCAN E, at_cmd_I2C_R E, at_cmd_I2C_W E, at_cmd_SLEEP, at_cmd_BT_SCAN E, at_cmd_BT_CONN E,
      at_cmd_BT_DISC E, at_cmd_BT_PAIR E, at_cmd_BT_UNBIND E, at_cmd_BT_STATE E, at_cmd_BT_BATT E,
      at_cmd_BT_PASSKEY E, at_cmd_BT_LIST E, at_cmd_BT_AUTO E]"

definition cmd_table :: "env \<Rightarrow> (string \<times> 'a handler) list" where
  "cmd_table E = zip (map fst (cmd_help E)) (cmd_handlers E)"

lemma length_cmd_table [simp]: "length (cmd_handlers E) = length (cmd_help E)"
  by (simp add: cmd_handlers_def cmd_help_def)

end
