(* ===== verification/At_Mac.thy ===== *)
theory At_Mac
  imports At_Cmds Slot_Hist
begin

text \<open>
  Addresses in commands: what is printed is read back, and \<^verbatim>\<open>AT+MAC\<close> sets what it then reports.
\<close>

lemma nibble_of_digit: "n < 16 \<Longrightarrow> mac_nibble (digit_char n) = Some (of_nat n)"
proof -
  have "\<forall>n\<in>set [0..<16]. mac_nibble (digit_char n) = Some (of_nat n)"
    by code_simp
  then show "n < 16 \<Longrightarrow> mac_nibble (digit_char n) = Some (of_nat n)" by simp
qed

lemma nibbles: "push_bit 4 (of_nat (unat b div 16)) OR of_nat (unat b mod 16) = (b :: u8)"
proof -
  have "unat (drop_bit 4 b) = unat b div 16"
    using unat_drop_bit_eq [of 4 b] by (simp add: drop_bit_eq_div [where 'a = nat])
  moreover have "of_nat (unat (drop_bit 4 b)) = drop_bit 4 b" by simp
  ultimately have "of_nat (unat b div 16) = drop_bit 4 b" by metis
  moreover have "of_nat (unat b mod 16) = take_bit 4 b"
  proof -
    have "unat (take_bit 4 b) = unat b mod 16"
      using unsigned_take_bit_eq [where ?'a = nat, of 4 b] by (simp add: take_bit_eq_mod [where 'a = nat])
    moreover have "of_nat (unat (take_bit 4 b)) = take_bit 4 b" by simp
    ultimately show ?thesis by metis
  qed
  ultimately show ?thesis
    by (auto simp: bit_eq_iff bit_simps)
qed

lemma nibbles_of_byte [simp]:
  "mac_nibble (digit_char (unat b div 16)) = Some (of_nat (unat b div 16))"
  "mac_nibble (digit_char (unat b mod 16)) = Some (of_nat (unat b mod 16))" for b :: u8
proof -
  have "unat b < 256" using unsigned_less [of b] by simp
  then show "mac_nibble (digit_char (unat b div 16)) = Some (of_nat (unat b div 16))"
    "mac_nibble (digit_char (unat b mod 16)) = Some (of_nat (unat b mod 16))"
    by (auto intro!: nibble_of_digit simp: div_less_iff_less_mult)
qed

lemma parse_mac_print:
  "length xs = Suc i \<Longrightarrow> parse_mac i (join_with '':'' (map hex02 xs)) = Some (rev xs)"
proof (induction i arbitrary: xs)
  case 0
  then obtain b where "xs = [b]" by (cases xs) auto
  then show ?case by (simp add: hex02_def nibbles)
next
  case (Suc i)
  then obtain b c ys where "xs = b # c # ys" "length (c # ys) = Suc i"
    by (cases xs; cases "tl xs") auto
  then show ?case using Suc.IH [of "c # ys"] by (simp add: hex02_def nibbles)
qed

lemma parse_mac_str: "length a = 6 \<Longrightarrow> parse_mac 5 (mac_str a) = Some a"
  using parse_mac_print [of "rev a" 5] by (simp add: mac_str_def)

section \<open>Setting an address\<close>

lemma target_names: "dev_target_parse (''BLE'' @ dec_nat (i + 1)) = tgt_bit i" if "i < 3"
proof -
  have "i = 0 \<or> i = 1 \<or> i = 2" using that by auto
  then show ?thesis
    by (elim disjE) (simp_all add: dev_target_parse_def tgt_bit_def dec_nat.simps digit_char_def kb_tgt_defs)
qed

lemma slot_of_mask_bit:
  assumes "i < kbd_max_conn (mode E)" shows "slot_of_mask E (tgt_bit i) = int i"
proof -
  have k: "kbd_max_conn (mode E) = 1 \<or> kbd_max_conn (mode E) = 3" by (rule kbd_max_conn_cases)
  have "[0..<3] = [0, 1, 2 :: nat]" by (simp add: upt_rec)
  moreover have "i = 0 \<or> i = 1 \<or> i = 2" using assms k by auto
  ultimately show ?thesis
    using k assms by (elim disjE) (simp_all add: slot_of_mask_def tgt_bit_def kb_tgt_defs)
qed

lemma tgt_bit_ble: "i < 3 \<Longrightarrow> tgt_bit i \<noteq> 0 \<and> tgt_bit i AND KB_TGT_BLE_ALL \<noteq> 0"
proof -
  assume "i < 3"
  then have "i = 0 \<or> i = 1 \<or> i = 2" by auto
  then show ?thesis by (elim disjE) (simp_all add: tgt_bit_def kb_tgt_defs)
qed

lemma save_mac [simp]: "slotmac (slotmap_save E s) = slotmac s"
  by (simp add: slotmap_save_def Let_def EEPROM_WRITE_def EEPROM_ERASE_def split: prod.splits)

text \<open>
  Setting and reading a slot's own address.  \<open>AT+MAC=BLEn,<address>\<close> with an address in the form in
  which the firmware prints addresses, the two top bits of a static random address set, succeeds and
  confirms that address; afterwards the slot has exactly it, and \<open>AT+MAC=BLEn\<close> prints the text that
  was given.
\<close>

theorem mac_command_round_trip:
  assumes "slots_inv E s" "has_kbd (mode E)" "i < kbd_max_conn (mode E)" "length a = 6" "a ! 5 AND 0xC0 = 0xC0"
  defines "name \<equiv> ''BLE'' @ dec_nat (i + 1)"
  shows "let (r, s') = at_cmd_MAC E 3 (Some c # Some name # Some (mac_str a) # stale) s in
     r = Some 0 \<and> new_outs s s' = [Resp (name @ '' mac='' @ mac_str a)] \<and>
     kb_ble_slot_mac E i s' = Some a \<and>
     (\<forall>stale'. at_cmd_MAC E 2 (Some c # Some name # stale') s' =
        (Some 0, AT_Response (name @ '','' @ mac_str a) s'))"
proof -
  have i3: "i < 3" using assms(3) kbd_max_conn_bounds(2) [of "mode E"] by linarith
  have t: "dev_target_parse name = tgt_bit i" unfolding name_def by (rule target_names [OF i3])
  have ok: "kb_slot_ok E i" using assms(2,3) by (simp add: kb_slot_ok_def)
  let ?s = "slotmap_save E (s\<lparr>slotmac := (slotmac s)[i := a]\<rparr>)"
  have l: "length (slotmac s) = kbd_max_conn (mode E)"
    using assms(1) by (simp add: slots_inv_def slots_wf_def Let_def)
  have "kb_ble_slot_set_mac E i a s = (0, ?s)"
    using ok assms(4,5) by (simp add: kb_ble_slot_set_mac_def)
  then have c: "at_cmd_MAC E 3 (Some c # Some name # Some (mac_str a) # stale) s =
      (Some 0, AT_Response (name @ '' mac='' @ mac_str a) ?s)"
    using assms(2) t tgt_bit_ble [OF i3] slot_of_mask_bit [OF assms(3)] parse_mac_str [OF assms(4)]
    by (simp add: at_cmd_MAC_def arg_def reply_def name_def dec_int_def nat_add_distrib)
  have m: "kb_ble_slot_mac E i (AT_Response x ?s) = Some a" for x
    using ok l assms(3) by (simp add: kb_ble_slot_mac_def AT_Response_def)
  have q: "at_cmd_MAC E 2 (Some c # Some name # stale') u = (Some 0, AT_Response (name @ '','' @ mac_str a) u)"
    if "kb_ble_slot_mac E i u = Some a" for u stale'
    using assms(2) t tgt_bit_ble [OF i3] slot_of_mask_bit [OF assms(3)] that
    by (simp add: at_cmd_MAC_def arg_def reply_def name_def dec_int_def nat_add_distrib mac_of_def)
  have "outs ?s = outs s"
    by (simp add: slotmap_save_def Let_def)
  then show ?thesis
    using c m q [OF m] by (simp add: new_outs_def)
qed

theorem mac_command_round_trip_witness:
  "kb_ble_slot_mac multi_env 0
     (snd (at_cmd_MAC multi_env 3 [Some ''AT+MAC'', Some (''BLE'' @ dec_nat 1), Some (mac_str [1, 2, 3, 4, 5, 0xC6])]
             (demo_slots multi_env))) = Some [1, 2, 3, 4, 5, 0xC6]"
  using mac_command_round_trip [OF demo_slots_inv, of 0 "[1, 2, 3, 4, 5, 0xC6]" "''AT+MAC''" "[]"]
  by (simp add: split_beta Let_def kbd_max_conn_def)

end
