(* ===== verification/Dgl_Adv.thy ===== *)
theory Dgl_Adv
  imports Dongle "HOL-Library.Sublist"
begin

text \<open>
  What the parser of advertising data and the name search of the receiver compute: on a well-formed
  payload the parser agrees with the structure of the payload, on any payload of fewer than 255
  bytes it ends, and the name search is the substring relation without case.
\<close>

section \<open>Well-formed payloads\<close>

text \<open>A payload is a sequence of structures, each a type and its data behind a length byte.\<close>

type_synonym ad_struct = "u8 \<times> u8 list"

definition ad_encode :: "ad_struct \<Rightarrow> u8 list" where
  "ad_encode ad = of_nat (length (snd ad) + 1) # fst ad # snd ad"

definition ad_bytes :: "ad_struct list \<Rightarrow> u8 list" where
  "ad_bytes ads = concat (map ad_encode ads)"

fun uuid_list :: "u8 list \<Rightarrow> u16 list" where
  "uuid_list (a # b # bs) = BUILD_UINT16 a b # uuid_list bs"
| "uuid_list _ = []"

definition ads_hid :: "ad_struct list \<Rightarrow> bool" where
  "ads_hid ads = (\<exists>ad \<in> set ads. (fst ad = 0x02 \<or> fst ad = 0x03) \<and> HID_SERV_UUID \<in> set (uuid_list (snd ad)))"

fun ads_name :: "ad_struct list \<Rightarrow> string" where
  "ads_name [] = []"
| "ads_name (ad # ads) =
     (if fst ad = 0x09 \<or> fst ad = 0x08
      then takeWhile (\<lambda>c. c \<noteq> NUL) (map char_of_byte (take DGL_NAME_LEN (snd ad)))
      else ads_name ads)"

text \<open>\<open>bytes_at d i bs\<close>: the bytes \<open>bs\<close> lie in the memory \<open>d\<close> from offset \<open>i\<close> on.\<close>

definition bytes_at :: "(nat \<Rightarrow> u8) \<Rightarrow> nat \<Rightarrow> u8 list \<Rightarrow> bool" where
  "bytes_at d i bs = (\<forall>k<length bs. d (i + k) = bs ! k)"

lemma bytes_at_Nil [simp]: "bytes_at d i []"
  by (simp add: bytes_at_def)

lemma bytes_at_Cons: "bytes_at d i (b # bs) = (d i = b \<and> bytes_at d (Suc i) bs)"
  by (auto simp: bytes_at_def less_Suc_eq_0_disj)

lemma bytes_at_append: "bytes_at d i (as @ bs) = (bytes_at d i as \<and> bytes_at d (i + length as) bs)"
  by (induction as arbitrary: i) (simp_all add: bytes_at_Cons bytes_at_Nil)

lemma map_bytes_at: "bytes_at d i bs \<Longrightarrow> map (\<lambda>k. f (d (i + k))) [0..<length bs] = map f bs"
  by (auto simp: bytes_at_def intro: nth_equalityI)

lemma length_ad_encode [simp]: "length (ad_encode ad) = length (snd ad) + 2"
  by (simp add: ad_encode_def)

lemma ad_bytes_simps [simp]: "ad_bytes [] = []" "ad_bytes (ad # ads) = ad_encode ad @ ad_bytes ads"
  by (simp_all add: ad_bytes_def)

lemma upt_Suc_map: "map f [0..<Suc n] = f 0 # map (\<lambda>k. f (Suc k)) [0..<n]"
  by (simp add: map_upt_Suc del: upt_Suc)

lemma uuid_list_at:
  assumes "bytes_at d i bs"
  shows "map (\<lambda>k. BUILD_UINT16 (d (i + 2 * k)) (d (i + 1 + 2 * k))) [0..<length bs div 2] = uuid_list bs"
  using assms
proof (induction bs arbitrary: i rule: uuid_list.induct)
  case (1 a b bs)
  then have h: "d i = a" "d (Suc i) = b" "bytes_at d (i + 2) bs"
    by (simp_all add: bytes_at_Cons)
  from "1.IH" [OF h(3)] show ?case
    by (simp add: upt_Suc_map h(1,2) add.assoc del: upt_Suc)
qed simp_all

text \<open>One round of each loop at a structure of the payload.\<close>

lemma ad_at:
  assumes "bytes_at d i (ad_encode ad @ rest)" "i + length (ad_encode ad @ rest) = len" "len < 255"
  shows "unat (d i) = length (snd ad) + 1" "d (i + 1) = fst ad" "bytes_at d (i + 2) (snd ad)"
    "bytes_at d (i + unat (d i) + 1) rest" "i + 1 < len" "i + unat (d i) < len"
    "(i + unat (d i) + 1) mod 256 = i + length (ad_encode ad)"
proof -
  have "d i = of_nat (length (snd ad) + 1)" "length (snd ad) + 1 < 256"
    using assms by (auto simp: ad_encode_def bytes_at_Cons)
  then show u: "unat (d i) = length (snd ad) + 1" by (simp only: unat_of_nat_u8)
  show "d (i + 1) = fst ad" "bytes_at d (i + 2) (snd ad)"
    using assms(1) by (auto simp: ad_encode_def bytes_at_Cons bytes_at_append)
  show "bytes_at d (i + unat (d i) + 1) rest"
    using assms(1) unfolding u by (auto simp: ad_encode_def bytes_at_Cons bytes_at_append)
  show "i + 1 < len" "i + unat (d i) < len" "(i + unat (d i) + 1) mod 256 = i + length (ad_encode ad)"
    using assms(2,3) by (simp_all add: u)
qed

lemma adv_hid_loop_ads:
  assumes "bytes_at d i (ad_bytes ads)" "i + length (ad_bytes ads) = len" "len < 255"
  shows "adv_hid_loop d len i = Some (ads_hid ads)"
  using assms
proof (induction ads arbitrary: i)
  case Nil
  then show ?case by (simp add: adv_hid_loop.simps ads_hid_def)
next
  case (Cons ad ads)
  note at = ad_at [OF Cons.prems(1) [unfolded ad_bytes_simps] Cons.prems(2) [unfolded ad_bytes_simps]
      Cons.prems(3)]
  have ids: "adv_uuids d i (unat (d i)) = uuid_list (snd ad)"
    using uuid_list_at [OF at(3)] by (simp add: adv_uuids_def at(1) numeral_3_eq_3)
  have short: "HID_SERV_UUID \<in> set (uuid_list (snd ad)) \<Longrightarrow> 3 \<le> unat (d i)"
    by (cases "snd ad" rule: uuid_list.cases) (auto simp: at(1))
  have "adv_hid_loop d len (i + length (ad_encode ad)) = Some (ads_hid ads)"
    using Cons.prems at(4) by (intro Cons.IH) (simp_all add: at(1) add.assoc)
  then show ?case
    using at(5,6,7) short [unfolded at(1)]
    by (subst adv_hid_loop.simps)
      (auto simp: Let_def at(1) at(2) [simplified] ids [unfolded at(1), simplified] ads_hid_def)
qed

lemma adv_name_loop_ads:
  assumes "bytes_at d i (ad_bytes ads)" "i + length (ad_bytes ads) = len" "len < 255"
  shows "adv_name_loop d len i = Some (ads_name ads)"
  using assms
proof (induction ads arbitrary: i)
  case Nil
  then show ?case by (simp add: adv_name_loop.simps)
next
  case (Cons ad ads)
  note at = ad_at [OF Cons.prems(1) [unfolded ad_bytes_simps] Cons.prems(2) [unfolded ad_bytes_simps]
      Cons.prems(3)]
  let ?n = "min DGL_NAME_LEN (length (snd ad))"
  have "bytes_at d (i + 2) (take ?n (snd ad))"
    using at(3) by (simp add: bytes_at_def)
  from map_bytes_at [OF this, of char_of_byte]
  have "map (\<lambda>k. char_of_byte (d (i + 2 + k))) [0..<?n] = map char_of_byte (take ?n (snd ad))"
    by simp
  then have "c_string d (i + 2) ?n = takeWhile (\<lambda>c. c \<noteq> NUL) (map char_of_byte (take ?n (snd ad)))"
    by (simp only: c_string_def)
  also have "take ?n (snd ad) = take DGL_NAME_LEN (snd ad)"
    by (simp add: min_def)
  finally have nm: "c_string d (i + 2) ?n =
    takeWhile (\<lambda>c. c \<noteq> NUL) (map char_of_byte (take DGL_NAME_LEN (snd ad)))" .
  have "adv_name_loop d len (i + length (ad_encode ad)) = Some (ads_name ads)"
    using Cons.prems at(4) by (intro Cons.IH) (simp_all add: at(1) add.assoc)
  then show ?case
    using at(5,6,7) nm
    by (subst adv_name_loop.simps)
      (simp add: Let_def at(1) at(2) [simplified] min_def split: if_splits)
qed

text \<open>
  C33: on a well-formed payload of fewer than 255 bytes the receiver finds exactly what is in it: the
  HID service if and only if some list of 16-bit services names it, and the name of the first name
  structure, cut to 20 characters, or no name.
\<close>

theorem adv_parser_correct:
  assumes "bytes_at d 0 (ad_bytes ads)" "length (ad_bytes ads) < 255"
  shows "dgl_adv_is_hid d (of_nat (length (ad_bytes ads))) = Some (ads_hid ads) \<and>
         dgl_adv_get_name d (of_nat (length (ad_bytes ads))) = Some (ads_name ads)"
proof -
  have "unat (of_nat (length (ad_bytes ads)) :: u8) = length (ad_bytes ads)"
    using assms(2) by (simp add: unat_of_nat_u8)
  with assms show ?thesis
    by (simp add: dgl_adv_is_hid_def dgl_adv_get_name_def adv_hid_loop_ads adv_name_loop_ads)
qed

definition demo_ads :: "ad_struct list" where
  "demo_ads = [(0x01, [6]), (0x03, [0x0F, 0x18, 0x12, 0x18]), (0x09, [75, 66])]"

lemma adv_parser_correct_witness:
  "dgl_adv_is_hid (\<lambda>k. ad_bytes demo_ads ! k) 13 = Some True \<and>
   dgl_adv_get_name (\<lambda>k. ad_bytes demo_ads ! k) 13 = Some ''KB''"
proof -
  have "bytes_at (\<lambda>k. ad_bytes demo_ads ! k) 0 (ad_bytes demo_ads)" by (simp add: bytes_at_def)
  moreover have l: "length (ad_bytes demo_ads) = 13" by (simp add: demo_ads_def)
  ultimately have "dgl_adv_is_hid (\<lambda>k. ad_bytes demo_ads ! k) (of_nat 13) = Some (ads_hid demo_ads)
    \<and> dgl_adv_get_name (\<lambda>k. ad_bytes demo_ads ! k) (of_nat 13) = Some (ads_name demo_ads)"
    using adv_parser_correct [of "\<lambda>k. ad_bytes demo_ads ! k" demo_ads] by simp
  moreover have "ads_hid demo_ads" "ads_name demo_ads = ''KB''" by code_simp+
  ultimately show ?thesis by simp
qed

section \<open>Any payload\<close>

lemma adv_hid_loop_ends: "len < 255 \<Longrightarrow> adv_hid_loop d len i \<noteq> None"
proof (induction "len - i" arbitrary: i rule: less_induct)
  case less
  show ?case
  proof (cases "i + 1 < len \<and> unat (d i) \<noteq> 0 \<and> i + unat (d i) \<le> len")
    case True
    then have "(i + unat (d i) + 1) mod 256 = i + unat (d i) + 1" using less.prems by simp
    with True less.hyps [of "i + unat (d i) + 1"] less.prems show ?thesis
      by (subst adv_hid_loop.simps) (auto simp: Let_def)
  qed (subst adv_hid_loop.simps, auto simp: Let_def)
qed

lemma adv_name_loop_ends: "len < 255 \<Longrightarrow> adv_name_loop d len i \<noteq> None"
proof (induction "len - i" arbitrary: i rule: less_induct)
  case less
  show ?case
  proof (cases "i + 1 < len \<and> unat (d i) \<noteq> 0 \<and> i + unat (d i) \<le> len")
    case True
    then have "(i + unat (d i) + 1) mod 256 = i + unat (d i) + 1" using less.prems by simp
    with True less.hyps [of "i + unat (d i) + 1"] less.prems show ?thesis
      by (subst adv_name_loop.simps) (auto simp: Let_def)
  qed (subst adv_name_loop.simps, auto simp: Let_def)
qed

lemma adv_hid_loop_stuck:
  "adv_hid_loop d len i = Some r \<Longrightarrow> d = (\<lambda>_. 255) \<longrightarrow> len = 255 \<longrightarrow> i \<noteq> 0"
proof (rule adv_hid_loop.raw_induct [of "\<lambda>d len i r. d = (\<lambda>_. 255) \<longrightarrow> len = 255 \<longrightarrow> i \<noteq> 0"])
  fix f and d :: "nat \<Rightarrow> u8" and len i :: nat and r :: bool
  assume ih: "\<And>d len i r. f d len i = Some r \<Longrightarrow> d = (\<lambda>_. 255) \<longrightarrow> len = 255 \<longrightarrow> i \<noteq> 0"
    and st: "(if i + 1 < len then
        (let ad_len = unat (d i); ad_type = d (i + 1) in
         if ad_len = 0 \<or> i + ad_len > len then Some False
         else if (ad_type = 0x02 \<or> ad_type = 0x03) \<and> ad_len \<ge> 3 \<and>
                 HID_SERV_UUID \<in> set (adv_uuids d i ad_len) then Some True
         else f d len ((i + ad_len + 1) mod 256))
      else Some False) = Some r"
  show "d = (\<lambda>_. 255) \<longrightarrow> len = 255 \<longrightarrow> i \<noteq> 0"
  proof (intro impI notI)
    assume "d = (\<lambda>_. 255)" "len = 255" "i = 0"
    with st ih [of d len 0 r] show False by (simp add: Let_def)
  qed
qed

text \<open>
  C34: whatever the air delivers, the parser of a payload of fewer than 255 bytes ends; only the
  byte-wide cursor can wrap around on a payload of 255 bytes, and there is one on which the loop
  never ends.
\<close>

theorem adv_parser_ends:
  "(\<forall>d len. len < 255 \<longrightarrow> dgl_adv_is_hid d len \<noteq> None \<and> dgl_adv_get_name d len \<noteq> None) \<and>
   dgl_adv_is_hid (\<lambda>_. 255) 255 = None"
proof (intro conjI allI impI)
  fix d and len :: u8 assume "len < 255"
  then have "unat len < 255" by (simp add: word_less_nat_alt)
  then show "dgl_adv_is_hid d len \<noteq> None" "dgl_adv_get_name d len \<noteq> None"
    by (simp_all only: dgl_adv_is_hid_def dgl_adv_get_name_def adv_hid_loop_ends adv_name_loop_ends
          not_False_eq_True)
next
  show "dgl_adv_is_hid (\<lambda>_. 255) 255 = None"
    using adv_hid_loop_stuck [of "\<lambda>_. 255" 255 0]
    by (cases "adv_hid_loop (\<lambda>_. 255) 255 0") (auto simp: dgl_adv_is_hid_def)
qed

lemma adv_parser_ends_witness: "dgl_adv_is_hid (\<lambda>_. 0) 31 \<noteq> None"
proof -
  have "(31 :: u8) < 255" by simp
  with adv_parser_ends show ?thesis by blast
qed


section \<open>The name search\<close>

lemma needle_at_prefix:
  "needle_at p n = Some True \<longleftrightarrow> prefix (map dgl_tolower n) (map dgl_tolower p)"
  by (induction p n rule: needle_at.induct) auto

lemma needle_at_end:
  "needle_at p n = None \<Longrightarrow> length p < length n \<and> prefix (map dgl_tolower p) (map dgl_tolower n)"
  by (induction p n rule: needle_at.induct) (auto split: if_splits)

lemma strcasestr_loop_sublist:
  assumes "n \<noteq> []"
  shows "strcasestr_loop h n = sublist (map dgl_tolower n) (map dgl_tolower h)"
proof (induction h)
  case Nil
  then show ?case using assms by simp
next
  case (Cons c h)
  obtain a m where n: "n = a # m" using assms by (cases n) auto
  have pre: "prefix (map dgl_tolower n) (map dgl_tolower (c # h)) =
             (dgl_tolower c = dgl_tolower a \<and> needle_at h m = Some True)"
    by (auto simp: n needle_at_prefix)
  have "\<not> sublist (map dgl_tolower n) (map dgl_tolower (c # h))" if "needle_at h m = None"
    using needle_at_end [OF that] sublist_length_le [of "map dgl_tolower n" "map dgl_tolower (c # h)"]
    by (auto simp: n)
  then show ?case
    using Cons pre by (auto simp: n sublist_Cons_right split: option.splits bool.splits)
qed

lemma dgl_tolower_eq: "dgl_tolower = to_lower"
  by (auto simp: dgl_tolower_def to_lower_def intro!: ext)

text \<open>
  The hand-written search, which gives up as soon as the name ends inside a partial match, finds
  the filter in a name exactly when the filter occurs in it up to case.
\<close>

theorem strcasestr_is_substring:
  "dgl_strcasestr name f = sublist (map to_lower f) (map to_lower name)"
  by (cases "f = []") (simp_all add: dgl_strcasestr_def strcasestr_loop_sublist dgl_tolower_eq)

end
