(* ===== verification/Dgl_Inv.thy ===== *)
theory Dgl_Inv
  imports Dgl_Adv
begin

text \<open>
  The receiver as a state machine: the invariant of its reachable states, what reaches USB, when it
  gives up reconnecting, and what a refused scan leaves behind.
\<close>

section \<open>Frames\<close>

lemma dgl_frame [simp]:
  "dgl_pend_scan_sec (emit a s) = dgl_pend_scan_sec s"
  "dgl_pend_conn_idx (emit a s) = dgl_pend_conn_idx s"
  "dgl_watch_active (emit a s) = dgl_watch_active s"
  "dgl_watch_is_mac (emit a s) = dgl_watch_is_mac s" "dgl_watch_addr (emit a s) = dgl_watch_addr s"
  "dgl_watch_name (emit a s) = dgl_watch_name s" "dgl_auto (emit a s) = dgl_auto s"
  "dgl_auto_hold (emit a s) = dgl_auto_hold s" "dgl_auto_fails (emit a s) = dgl_auto_fails s"
  "dgl_start_status (emit a s) = dgl_start_status s"
  "dgl_disc_retries (emit a s) = dgl_disc_retries s"
  "dgl_passkey_conn (emit a s) = dgl_passkey_conn s"
  "dgl_passkey_pending (emit a s) = dgl_passkey_pending s"
  "dgl_passkey_preset (emit a s) = dgl_passkey_preset s" "dgl_state (emit a s) = dgl_state s"
  "dgl_disc_state (emit a s) = dgl_disc_state s" "dgl_conn_handle (emit a s) = dgl_conn_handle s"
  "dgl_scan_list (emit a s) = dgl_scan_list s" "dgl_scan_count (emit a s) = dgl_scan_count s"
  "dgl_filter (emit a s) = dgl_filter s" "dgl_svc_start (emit a s) = dgl_svc_start s"
  "dgl_svc_end (emit a s) = dgl_svc_end s" "dgl_boot_hdl (emit a s) = dgl_boot_hdl s"
  "dgl_proto_hdl (emit a s) = dgl_proto_hdl s" "dgl_rpt_hdls (emit a s) = dgl_rpt_hdls s"
  "dgl_rpt_count (emit a s) = dgl_rpt_count s" "dgl_cccd_list (emit a s) = dgl_cccd_list s"
  "dgl_cccd_count (emit a s) = dgl_cccd_count s" "dgl_cccd_wr (emit a s) = dgl_cccd_wr s"
  "dgl_batt_hdl (emit a s) = dgl_batt_hdl s" "dgl_batt_reading (emit a s) = dgl_batt_reading s"
  "dgl_proto_pending (emit a s) = dgl_proto_pending s" "dgl_rd_idx (emit a s) = dgl_rd_idx s"
  "dgl_pend_scan_sec (AT_Response t s) = dgl_pend_scan_sec s"
  "dgl_pend_conn_idx (AT_Response t s) = dgl_pend_conn_idx s"
  "dgl_watch_active (AT_Response t s) = dgl_watch_active s"
  "dgl_watch_is_mac (AT_Response t s) = dgl_watch_is_mac s"
  "dgl_watch_addr (AT_Response t s) = dgl_watch_addr s"
  "dgl_watch_name (AT_Response t s) = dgl_watch_name s" "dgl_auto (AT_Response t s) = dgl_auto s"
  "dgl_auto_hold (AT_Response t s) = dgl_auto_hold s"
  "dgl_auto_fails (AT_Response t s) = dgl_auto_fails s"
  "dgl_start_status (AT_Response t s) = dgl_start_status s"
  "dgl_disc_retries (AT_Response t s) = dgl_disc_retries s"
  "dgl_passkey_conn (AT_Response t s) = dgl_passkey_conn s"
  "dgl_passkey_pending (AT_Response t s) = dgl_passkey_pending s"
  "dgl_passkey_preset (AT_Response t s) = dgl_passkey_preset s"
  "dgl_state (AT_Response t s) = dgl_state s" "dgl_disc_state (AT_Response t s) = dgl_disc_state s"
  "dgl_conn_handle (AT_Response t s) = dgl_conn_handle s"
  "dgl_scan_list (AT_Response t s) = dgl_scan_list s"
  "dgl_scan_count (AT_Response t s) = dgl_scan_count s"
  "dgl_filter (AT_Response t s) = dgl_filter s" "dgl_svc_start (AT_Response t s) = dgl_svc_start s"
  "dgl_svc_end (AT_Response t s) = dgl_svc_end s" "dgl_boot_hdl (AT_Response t s) = dgl_boot_hdl s"
  "dgl_proto_hdl (AT_Response t s) = dgl_proto_hdl s"
  "dgl_rpt_hdls (AT_Response t s) = dgl_rpt_hdls s"
  "dgl_rpt_count (AT_Response t s) = dgl_rpt_count s"
  "dgl_cccd_list (AT_Response t s) = dgl_cccd_list s"
  "dgl_cccd_count (AT_Response t s) = dgl_cccd_count s"
  "dgl_cccd_wr (AT_Response t s) = dgl_cccd_wr s" "dgl_batt_hdl (AT_Response t s) = dgl_batt_hdl s"
  "dgl_batt_reading (AT_Response t s) = dgl_batt_reading s"
  "dgl_proto_pending (AT_Response t s) = dgl_proto_pending s"
  "dgl_rd_idx (AT_Response t s) = dgl_rd_idx s"
  by (simp_all add: emit_def AT_Response_def)

lemma dgl_timer_frame [simp]: "dgl_timer ev ms s = emit (StartTask DongleTask ev (ms1_to_system_time ms)) s"
  by (simp add: dgl_timer_def)

section \<open>The scan list\<close>

definition scan_addrs :: "'a dongle_state_scheme \<Rightarrow> u8 list list" where
  "scan_addrs s = map r_addr (take (dgl_scan_count s) (dgl_scan_list s))"

definition scan_inv :: "'a dongle_state_scheme \<Rightarrow> bool" where
  "scan_inv s =
     (length (dgl_scan_list s) = DGL_MAX_SCAN_RES \<and> dgl_scan_count s \<le> DGL_MAX_SCAN_RES \<and>
      distinct (scan_addrs s))"

lemma scan_pos_le: "scan_pos n rssi xs \<le> n"
  by (simp add: scan_pos_def order_trans [OF length_takeWhile_le])

lemma scan_pos_full:
  assumes "length xs = DGL_MAX_SCAN_RES" "n = DGL_MAX_SCAN_RES"
    and "\<not> rssi \<le> r_rssi (xs ! (DGL_MAX_SCAN_RES - 1))"
  shows "scan_pos n rssi xs \<le> DGL_MAX_SCAN_RES - 1"
proof (rule ccontr)
  assume "\<not> ?thesis"
  then have "length (takeWhile (\<lambda>r. r_rssi r \<ge> rssi) xs) = length xs"
    using scan_pos_le [of n rssi xs] assms(1,2) by (simp add: scan_pos_def)
  then have "takeWhile (\<lambda>r. r_rssi r \<ge> rssi) xs = xs"
    by (metis takeWhile_eq_take take_all order_refl)
  then have "\<forall>r\<in>set xs. r_rssi r \<ge> rssi"
    by (simp add: takeWhile_eq_all_conv)
  with assms show False by (simp add: DGL_MAX_SCAN_RES_def)
qed

text \<open>The list after an insertion: \<open>pos\<close> old entries, the new one, then old ones.\<close>

lemma scan_insert_take:
  assumes "length xs = DGL_MAX_SCAN_RES" "n \<le> DGL_MAX_SCAN_RES" "pos \<le> n"
    and "n = DGL_MAX_SCAN_RES \<Longrightarrow> pos \<le> DGL_MAX_SCAN_RES - 1"
  shows "length (scan_insert n pos r xs) = DGL_MAX_SCAN_RES"
    and "\<exists>m. take (if n < DGL_MAX_SCAN_RES then n + 1 else n) (scan_insert n pos r xs) =
             take pos (take n xs) @ r # take m (drop pos (take n xs))"
proof -
  let ?t = "if n < DGL_MAX_SCAN_RES then n else DGL_MAX_SCAN_RES - 1"
  have t: "pos \<le> ?t" using assms by auto
  have l: "length (take (?t - pos) (drop pos xs)) = ?t - pos"
    using assms by (auto simp: DGL_MAX_SCAN_RES_def)
  with assms t show "length (scan_insert n pos r xs) = DGL_MAX_SCAN_RES"
    by (auto simp: scan_insert_def Let_def DGL_MAX_SCAN_RES_def min_def)
  have "take (?t + 1) (scan_insert n pos r xs) = take pos xs @ r # take (?t - pos) (drop pos xs)"
    using assms t l by (auto simp: scan_insert_def Let_def take_Cons' DGL_MAX_SCAN_RES_def split: if_splits)
  moreover have "take (?t - pos) (drop pos xs) = take (?t - pos) (drop pos (take n xs))"
    using assms by (simp add: drop_take min_def)
  moreover have "take pos xs = take pos (take n xs)"
    using assms(3) by (simp add: min_def)
  moreover have "?t + 1 = (if n < DGL_MAX_SCAN_RES then n + 1 else n)"
    using assms by (auto simp: DGL_MAX_SCAN_RES_def)
  ultimately show "\<exists>m. take (if n < DGL_MAX_SCAN_RES then n + 1 else n) (scan_insert n pos r xs) =
             take pos (take n xs) @ r # take m (drop pos (take n xs))"
    by metis
qed

lemma distinct_insert:
  assumes "distinct (map f xs)" "f r \<notin> f ` set xs"
  shows "distinct (map f (take p xs @ r # take m (drop p xs)))"
proof -
  have "distinct (map f (take p xs @ take m (drop p xs)))"
    using assms(1) by (metis append_take_drop_id distinct_take take_add take_drop take_map)
  then show ?thesis
    using assms(2) set_take_subset [of p xs] set_take_subset [of m "drop p xs"] set_drop_subset [of p xs]
    by (auto dest: in_set_takeD in_set_dropD)
qed

lemma scan_merge_addrs:
  "i < length xs \<Longrightarrow> map r_addr (take n (scan_merge i v nm xs)) = map r_addr (take n xs)"
  by (rule nth_equalityI) (auto simp: scan_merge_def nth_list_update)

lemma length_scan_merge [simp]: "length (scan_merge i v nm xs) = length xs"
  by (simp add: scan_merge_def)


lemma scan_inv_add:
  assumes "scan_inv s" "dgl_add_scan_rec addr ty rssi len d s = Some s'"
  shows "scan_inv s'"
proof -
  let ?n = "dgl_scan_count s" and ?xs = "dgl_scan_list s" and ?a = "take 6 addr"
  obtain hid name where hn: "dgl_adv_is_hid d len = Some hid" "dgl_adv_get_name d len = Some name"
    using assms(2) by (auto simp: dgl_add_scan_rec_def split: option.splits)
  consider (same) "s' = s" | (merge) i where "i < ?n" "s' = s\<lparr>dgl_scan_list := scan_merge i rssi name ?xs\<rparr>"
    | (insert) r where "r_addr r = ?a" "\<forall>i<?n. r_addr (?xs ! i) \<noteq> ?a"
      "\<not> (?n \<ge> DGL_MAX_SCAN_RES \<and> rssi \<le> r_rssi (?xs ! (DGL_MAX_SCAN_RES - 1)))"
      "dgl_scan_list s' = scan_insert ?n (scan_pos ?n rssi ?xs) r ?xs"
      "dgl_scan_count s' = (if ?n < DGL_MAX_SCAN_RES then ?n + 1 else ?n)"
  proof -
    note eq = assms(2) [unfolded dgl_add_scan_rec_def hn option.case option.inject Let_def]
    show thesis
    proof (cases "(\<not> hid \<and> name = []) \<or> \<not> scan_filter (dgl_filter s) hid name")
      case True
      with eq show thesis by (intro same) (auto split: if_splits)
    next
      case f: False
      show thesis
      proof (rule first_index_cases [of ?n "\<lambda>i. r_addr (?xs ! i) = ?a"])
        fix i assume "first_index ?n (\<lambda>i. r_addr (?xs ! i) = ?a) = int i" "i < ?n"
        with eq f show thesis by (intro merge [of i]) auto
      next
        assume m: "first_index ?n (\<lambda>i. r_addr (?xs ! i) = ?a) = -1" "\<forall>i<?n. r_addr (?xs ! i) \<noteq> ?a"
        show thesis
        proof (cases "?n \<ge> DGL_MAX_SCAN_RES \<and> rssi \<le> r_rssi (?xs ! (DGL_MAX_SCAN_RES - 1))")
          case True
          with eq f m(1) show thesis by (intro same) auto
        next
          case False
          then show thesis
            using eq [symmetric] f m
            by (intro insert [of "\<lparr>r_addr = ?a, r_type = ty, r_rssi = rssi, r_name = name\<rparr>"])
              (simp_all split: if_splits)
        qed
      qed
    qed
  qed
  then show ?thesis
  proof cases
    case same
    with assms(1) show ?thesis by simp
  next
    case merge
    with assms(1) show ?thesis by (simp add: scan_inv_def scan_addrs_def scan_merge_addrs)
  next
    case insert
    have l: "length ?xs = DGL_MAX_SCAN_RES" "?n \<le> DGL_MAX_SCAN_RES" "distinct (map r_addr (take ?n ?xs))"
      using assms(1) by (simp_all add: scan_inv_def scan_addrs_def)
    have p: "scan_pos ?n rssi ?xs \<le> ?n" "?n = DGL_MAX_SCAN_RES \<Longrightarrow> scan_pos ?n rssi ?xs \<le> DGL_MAX_SCAN_RES - 1"
      using scan_pos_le scan_pos_full [OF l(1)] insert(3) by auto
    from scan_insert_take(2) [OF l(1,2) p, of r] obtain m where
      m: "take (dgl_scan_count s') (dgl_scan_list s') =
          take (scan_pos ?n rssi ?xs) (take ?n ?xs) @ r # take m (drop (scan_pos ?n rssi ?xs) (take ?n ?xs))"
      unfolding insert(4,5) by blast
    have "r_addr r \<notin> r_addr ` set (take ?n ?xs)"
      using insert(1,2) l(1,2) by (fastforce simp: in_set_conv_nth)
    from distinct_insert [OF l(3) this] have "distinct (scan_addrs s')"
      by (simp only: scan_addrs_def m)
    moreover have "length (dgl_scan_list s') = DGL_MAX_SCAN_RES"
      unfolding insert(4) by (rule scan_insert_take(1) [OF l(1,2) p])
    moreover have "dgl_scan_count s' \<le> DGL_MAX_SCAN_RES"
      using l(2) insert(5) by simp
    ultimately show ?thesis by (simp only: scan_inv_def)
  qed
qed

lemma scan_inv_directed:
  assumes "scan_inv s"
  shows "scan_inv (dgl_add_directed addr ty rssi s)"
proof -
  let ?n = "dgl_scan_count s" and ?xs = "dgl_scan_list s"
  have l: "length ?xs = DGL_MAX_SCAN_RES" "?n \<le> DGL_MAX_SCAN_RES" "distinct (map r_addr (take ?n ?xs))"
    using assms by (simp_all add: scan_inv_def scan_addrs_def)
  show ?thesis
  proof (cases "dgl_state s = DGL_SCANNING \<and> ?n < DGL_MAX_SCAN_RES \<and>
                first_index ?n (\<lambda>i. r_addr (?xs ! i) = take 6 addr) = -1")
    case True
    then have new: "take 6 addr \<notin> r_addr ` set (take ?n ?xs)"
      using l(1) by (fastforce simp: in_set_conv_nth first_index_miss)
    have "take (Suc ?n) (?xs[?n := r]) = take ?n ?xs @ [r]" for r
      using True l(1) by (simp add: take_Suc_conv_app_nth)
    with True l new show ?thesis
      by (simp add: dgl_add_directed_def Let_def scan_inv_def scan_addrs_def)
  next
    case False
    then show ?thesis
      using assms first_index_range [of ?n "\<lambda>i. r_addr (?xs ! i) = take 6 addr"]
      by (auto simp: dgl_add_directed_def Let_def)
  qed
qed

section \<open>The invariant\<close>

definition linked :: "'a dongle_state_scheme \<Rightarrow> bool" where
  "linked s = (dgl_state s = DGL_CONNECTED \<or> dgl_state s = DGL_ARMED)"

text \<open>What a discovery in progress needs: keystroke service before arming, battery after.\<close>

fun disc_phase :: "dgl_disc \<Rightarrow> dgl_link \<Rightarrow> bool" where
  "disc_phase DISC_IDLE l = True"
| "disc_phase DISC_BATT_SVC l = (l = DGL_ARMED)"
| "disc_phase DISC_BATT_CHAR l = (l = DGL_ARMED)"
| "disc_phase _ l = (l = DGL_CONNECTED)"

definition tables_ok :: "'a dongle_state_scheme \<Rightarrow> bool" where
  "tables_ok s =
     (length (dgl_rpt_hdls s) = DGL_MAX_REPORTS \<and> dgl_rpt_count s \<le> DGL_MAX_REPORTS \<and>
      length (dgl_cccd_list s) = DGL_MAX_CCCD \<and> dgl_cccd_count s \<le> DGL_MAX_CCCD \<and>
      dgl_cccd_wr s \<le> DGL_MAX_CCCD \<and> (dgl_state s \<noteq> DGL_ARMED \<longrightarrow> dgl_cccd_wr s < DGL_MAX_CCCD))"

definition link_inv :: "'a dongle_state_scheme \<Rightarrow> bool" where
  "link_inv s =
     ((dgl_conn_handle s \<noteq> GAP_CONNHANDLE_INIT) = linked s \<and>
      disc_phase (dgl_disc_state s) (dgl_state s) \<and> tables_ok s \<and>
      dgl_auto_fails s < DGL_AUTO_MAX_FAILS)"

lemmas link_inv_defs = link_inv_def linked_def tables_ok_def

lemma link_inv_frame [simp]:
  "link_inv (emit a s) = link_inv s" "link_inv (AT_Response t s) = link_inv s"
  by (simp_all add: link_inv_defs)

lemma scan_inv_frame [simp]:
  "scan_inv (emit a s) = scan_inv s" "scan_inv (AT_Response t s) = scan_inv s"
  by (simp_all add: scan_inv_def scan_addrs_def)


section \<open>Every operation keeps the invariant\<close>

text \<open>What the operations on a link leave alone.\<close>

definition scan_view where
  "scan_view s = (dgl_scan_list s, dgl_scan_count s)"

lemma scan_inv_view: "scan_view s' = scan_view s \<Longrightarrow> scan_inv s' = scan_inv s"
  by (simp add: scan_view_def scan_inv_def scan_addrs_def)

lemma scan_view_frame [simp]:
  "scan_view (emit a s) = scan_view s" "scan_view (AT_Response t s) = scan_view s"
  by (simp_all add: scan_view_def)

lemma reset_scan_view [simp]: "scan_view (dgl_reset_link_state s) = scan_view s"
  by (simp add: dgl_reset_link_state_def scan_view_def)

lemma fail_count_inv:
  assumes "dgl_auto_fails s < DGL_AUTO_MAX_FAILS"
  shows "dgl_auto_fails (dgl_auto_fail_count s) < DGL_AUTO_MAX_FAILS"
  using assms by (auto simp: dgl_auto_fail_count_def Let_def DGL_AUTO_MAX_FAILS_def)

lemma fail_count_frame [simp]:
  "dgl_pend_scan_sec (dgl_auto_fail_count s) = dgl_pend_scan_sec s"
  "dgl_pend_conn_idx (dgl_auto_fail_count s) = dgl_pend_conn_idx s"
  "dgl_watch_active (dgl_auto_fail_count s) = dgl_watch_active s"
  "dgl_watch_is_mac (dgl_auto_fail_count s) = dgl_watch_is_mac s"
  "dgl_watch_addr (dgl_auto_fail_count s) = dgl_watch_addr s"
  "dgl_watch_name (dgl_auto_fail_count s) = dgl_watch_name s"
  "dgl_auto (dgl_auto_fail_count s) = dgl_auto s"
  "dgl_start_status (dgl_auto_fail_count s) = dgl_start_status s"
  "dgl_disc_retries (dgl_auto_fail_count s) = dgl_disc_retries s"
  "dgl_passkey_conn (dgl_auto_fail_count s) = dgl_passkey_conn s"
  "dgl_passkey_pending (dgl_auto_fail_count s) = dgl_passkey_pending s"
  "dgl_passkey_preset (dgl_auto_fail_count s) = dgl_passkey_preset s"
  "dgl_state (dgl_auto_fail_count s) = dgl_state s"
  "dgl_disc_state (dgl_auto_fail_count s) = dgl_disc_state s"
  "dgl_conn_handle (dgl_auto_fail_count s) = dgl_conn_handle s"
  "dgl_scan_list (dgl_auto_fail_count s) = dgl_scan_list s"
  "dgl_scan_count (dgl_auto_fail_count s) = dgl_scan_count s"
  "dgl_filter (dgl_auto_fail_count s) = dgl_filter s"
  "dgl_svc_start (dgl_auto_fail_count s) = dgl_svc_start s"
  "dgl_svc_end (dgl_auto_fail_count s) = dgl_svc_end s"
  "dgl_boot_hdl (dgl_auto_fail_count s) = dgl_boot_hdl s"
  "dgl_proto_hdl (dgl_auto_fail_count s) = dgl_proto_hdl s"
  "dgl_rpt_hdls (dgl_auto_fail_count s) = dgl_rpt_hdls s"
  "dgl_rpt_count (dgl_auto_fail_count s) = dgl_rpt_count s"
  "dgl_cccd_list (dgl_auto_fail_count s) = dgl_cccd_list s"
  "dgl_cccd_count (dgl_auto_fail_count s) = dgl_cccd_count s"
  "dgl_cccd_wr (dgl_auto_fail_count s) = dgl_cccd_wr s"
  "dgl_batt_hdl (dgl_auto_fail_count s) = dgl_batt_hdl s"
  "dgl_batt_reading (dgl_auto_fail_count s) = dgl_batt_reading s"
  "dgl_proto_pending (dgl_auto_fail_count s) = dgl_proto_pending s"
  "dgl_rd_idx (dgl_auto_fail_count s) = dgl_rd_idx s"
  by (simp_all add: dgl_auto_fail_count_def Let_def)

lemma fail_count_scan_view [simp]: "scan_view (dgl_auto_fail_count s) = scan_view s"
  by (simp add: scan_view_def)

lemma link_up_inv:
  assumes "link_inv s" "h \<noteq> GAP_CONNHANDLE_INIT"
  shows "link_inv (dgl_link_up st h s)"
proof (cases "st = SUCCESS")
  case True
  then show ?thesis
    using assms by (simp add: dgl_link_up_def Let_def dgl_reset_link_state_def link_inv_defs DGL_MAX_CCCD_def)
next
  case False
  with assms show ?thesis
    by (simp add: dgl_link_up_def Let_def dgl_reset_link_state_def link_inv_defs fail_count_inv DGL_MAX_CCCD_def)
qed

lemma link_down_inv:
  assumes "link_inv s"
  shows "link_inv (dgl_link_down reason s)"
  using assms
  by (simp add: dgl_link_down_def Let_def dgl_reset_link_state_def link_inv_defs fail_count_inv DGL_MAX_CCCD_def)

lemma link_events_scan_view [simp]:
  "scan_view (dgl_link_up st h s) = scan_view s" "scan_view (dgl_link_down reason s) = scan_view s"
  by (simp_all add: dgl_link_up_def dgl_link_down_def Let_def dgl_reset_link_state_def scan_view_def)

text \<open>The operations of a discovery keep tables, link and phase.\<close>

lemma discovery_failed_inv:
  assumes "link_inv s" shows "link_inv (dgl_discovery_failed why s)"
  using assms by (simp add: dgl_discovery_failed_def link_inv_defs)

lemma write_handle_frame [simp]:
  "link_inv (dgl_write_handle E h v n s) = link_inv s" "scan_view (dgl_write_handle E h v n s) = scan_view s"
  by (simp_all add: dgl_write_handle_def call_def Let_def)

lemma debug_frame [simp]:
  "link_inv (dgl_dump_rbt_rsp t n l d s) = link_inv s" "link_inv (bad_handle t h s) = link_inv s"
  "scan_view (dgl_dump_rbt_rsp t n l d s) = scan_view s" "scan_view (bad_handle t h s) = scan_view s"
  "dgl_state (dgl_dump_rbt_rsp t n l d s) = dgl_state s" "dgl_state (bad_handle t h s) = dgl_state s"
  "dgl_disc_state (dgl_dump_rbt_rsp t n l d s) = dgl_disc_state s"
  "dgl_disc_state (bad_handle t h s) = dgl_disc_state s"
  by (simp_all add: dgl_dump_rbt_rsp_def bad_handle_def Let_def)

text \<open>\<open>keeps f\<close>: the step \<open>f\<close> keeps the invariant, the phase and the scan list.\<close>

definition keeps :: "('a dongle_state_scheme \<Rightarrow> 'a dongle_state_scheme) \<Rightarrow> bool" where
  "keeps f =
     (\<forall>s. scan_view (f s) = scan_view s \<and>
          (link_inv s \<longrightarrow> link_inv (f s) \<and> dgl_state (f s) = dgl_state s \<and> dgl_disc_state (f s) = dgl_disc_state s))"

lemma keeps_fold: "(\<And>x. keeps (f x)) \<Longrightarrow> keeps (fold f xs)"
  by (induction xs) (auto simp: keeps_def)

lemma keeps_report: "keeps (collect_report h)"
  by (auto simp: keeps_def collect_report_def link_inv_defs scan_view_def bad_handle_def)

lemma keeps_cccd: "keeps (collect_cccd h)"
  by (auto simp: keeps_def collect_cccd_def link_inv_defs scan_view_def bad_handle_def DGL_MAX_CCCD_def)

lemma keeps_comp: "keeps f \<Longrightarrow> keeps g \<Longrightarrow> keeps (\<lambda>s. g (f s))"
  by (simp add: keeps_def)

lemma keeps_id: "keeps (\<lambda>s. s)"
  by (simp add: keeps_def)

lemma keeps_debug: "keeps (dgl_dump_rbt_rsp t n l d)" "keeps (bad_handle t h)"
  by (simp_all add: keeps_def)

lemma keeps_collect:
  assumes "\<And>h. keeps (f h)"
  shows "keeps (collect_all tag f m)"
proof (cases m)
  case (ReadByTypeRsp n l d)
  then have "collect_all tag f m =
    (\<lambda>s. fold (\<lambda>i. f (dgl_rbt_vhandle l d i)) [0..<n] (dgl_dump_rbt_rsp tag n l d s))"
    by (simp add: collect_all_def [abs_def])
  with keeps_comp [OF keeps_debug(1) keeps_fold [OF assms]] show ?thesis by metis
qed (simp_all add: collect_all_def [abs_def] keeps_id)

lemma keeps_take: "(\<And>h. keeps (f h)) \<Longrightarrow> keeps (take_handle tag f m)"
  by (cases m) (auto simp: keeps_def take_handle_def Let_def)

lemma keeps_handles:
  "keeps (\<lambda>s. s\<lparr>dgl_boot_hdl := h\<rparr>)" "keeps (\<lambda>s. s\<lparr>dgl_proto_hdl := h\<rparr>)"
  by (auto simp: keeps_def link_inv_defs scan_view_def)

lemma keeps_service: "keeps (take_service m)"
  by (auto simp: keeps_def take_service_def link_inv_defs scan_view_def split: att_msg.splits list.splits)

lemma find_char_inv:
  assumes "link_inv s" "disc_phase next (dgl_state s)" shows "link_inv (dgl_find_char uuid next s)"
  using assms by (simp add: dgl_find_char_def link_inv_defs)

lemma disc_scan_view [simp]:
  "scan_view (dgl_find_char uuid next s) = scan_view s" "scan_view (dgl_discovery_failed why s) = scan_view s"
  by (simp_all add: dgl_find_char_def dgl_discovery_failed_def scan_view_def)


lemma keepsD:
  assumes "keeps f" "link_inv s"
  shows "link_inv (f s)" "dgl_state (f s) = dgl_state s" "dgl_disc_state (f s) = dgl_disc_state s"
  using assms by (simp_all add: keeps_def)

lemma keeps_scan_view: "keeps f \<Longrightarrow> scan_view (f s) = scan_view s"
  by (simp add: keeps_def)

lemma disc_keeps:
  "keeps (take_service m)" "keeps (take_handle tag (\<lambda>h s. s\<lparr>dgl_boot_hdl := h\<rparr>) m)"
  "keeps (take_handle tag (\<lambda>h s. s\<lparr>dgl_proto_hdl := h\<rparr>) m)"
  "keeps (collect_all tag collect_report m)" "keeps (collect_all tag collect_cccd m)"
  by (simp_all add: keeps_service keeps_take keeps_handles keeps_collect keeps_report keeps_cccd)

lemmas disc_keeps_scan_view [simp] = disc_keeps [THEN keeps_scan_view]

lemmas disc_defs = disc_svc_def disc_boot_def disc_rpt_def disc_proto_def disc_cccd_def disc_batt_svc_def
  disc_batt_char_def

lemma find_cccds_inv:
  assumes "link_inv s" "dgl_state s = DGL_CONNECTED" shows "link_inv (find_cccds s)"
  using assms by (simp add: find_cccds_def dgl_find_char_def link_inv_defs DGL_MAX_CCCD_def)

lemma disc_idle_inv: "link_inv s \<Longrightarrow> link_inv (s\<lparr>dgl_disc_state := DISC_IDLE\<rparr>)"
  by (simp add: link_inv_defs)

lemma scan_view_upd [simp]:
  "scan_view (s\<lparr>dgl_disc_state := x\<rparr>) = scan_view s" "scan_view (s\<lparr>dgl_rpt_count := n\<rparr>) = scan_view s"
  "scan_view (s\<lparr>dgl_cccd_wr := n\<rparr>) = scan_view s" "scan_view (s\<lparr>dgl_proto_pending := b\<rparr>) = scan_view s"
  "scan_view (s\<lparr>dgl_batt_hdl := h\<rparr>) = scan_view s" "scan_view (find_cccds s) = scan_view s"
  "scan_view (s\<lparr>dgl_batt_reading := b\<rparr>) = scan_view s" "scan_view (s\<lparr>dgl_rd_idx := n\<rparr>) = scan_view s"
  "scan_view (s\<lparr>dgl_state := l\<rparr>) = scan_view s" "scan_view (s\<lparr>dgl_auto_fails := w\<rparr>) = scan_view s"
  "scan_view (s\<lparr>dgl_passkey_preset := c\<rparr>) = scan_view s" "scan_view (s\<lparr>dgl_auto_hold := b\<rparr>) = scan_view s"
  "scan_view (s\<lparr>dgl_auto := b\<rparr>) = scan_view s" "scan_view (s\<lparr>dgl_start_status := w\<rparr>) = scan_view s"
  by (simp_all add: scan_view_def find_cccds_def dgl_find_char_def)

lemma disc_svc_inv:
  assumes "link_inv s" "dgl_disc_state s = DISC_SVC" shows "link_inv (disc_svc m c st s)"
proof -
  note k = keepsD [OF keeps_service [of m] assms(1)]
  have "dgl_state s = DGL_CONNECTED" using assms by (simp add: link_inv_def)
  then show ?thesis using k by (simp add: disc_svc_def Let_def find_char_inv discovery_failed_inv)
qed

lemma disc_boot_inv:
  assumes "link_inv s" "dgl_disc_state s = DISC_BOOT_CHAR" shows "link_inv (disc_boot m c s)"
proof -
  note k = keepsD [OF disc_keeps(2) [where tag = "CHR ''B''" and m = m] assms(1)]
  have "dgl_state s = DGL_CONNECTED" using assms by (simp add: link_inv_def)
  moreover have "link_inv (t\<lparr>dgl_rpt_count := 0\<rparr>)" if "link_inv t" for t :: "'a dongle_state_scheme"
    using that by (simp add: link_inv_defs)
  ultimately show ?thesis using k by (simp add: disc_boot_def Let_def find_char_inv)
qed

lemma disc_rpt_inv:
  assumes "link_inv s" "dgl_disc_state s = DISC_RPT_CHAR" shows "link_inv (disc_rpt m c s)"
proof -
  note k = keepsD [OF disc_keeps(4) [where tag = "CHR ''R''" and m = m] assms(1)]
  have "dgl_state s = DGL_CONNECTED" using assms by (simp add: link_inv_def)
  then show ?thesis using k by (simp add: disc_rpt_def Let_def find_cccds_inv discovery_failed_inv)
qed

lemma disc_proto_inv:
  assumes "link_inv s" "dgl_disc_state s = DISC_PROTO_CHAR" shows "link_inv (disc_proto m c s)"
proof -
  note k = keepsD [OF disc_keeps(3) [where tag = "CHR ''P''" and m = m] assms(1)]
  have "dgl_state s = DGL_CONNECTED" using assms by (simp add: link_inv_def)
  then show ?thesis using k by (simp add: disc_proto_def Let_def find_cccds_inv)
qed

lemma disc_cccd_inv:
  assumes "link_inv s" "dgl_disc_state s = DISC_CCCD" shows "link_inv (disc_cccd E m c s)"
proof -
  note k = keepsD [OF disc_keeps(5) [where tag = "CHR ''C''" and m = m] assms(1)]
  have "link_inv (t\<lparr>dgl_cccd_wr := 0\<rparr>)" "link_inv (t\<lparr>dgl_cccd_wr := 0, dgl_proto_pending := b\<rparr>)"
    if "link_inv t" for t :: "'a dongle_state_scheme" and b
    using that by (simp_all add: link_inv_defs DGL_MAX_CCCD_def)
  then show ?thesis using k by (simp add: disc_cccd_def Let_def discovery_failed_inv)
qed

lemma disc_batt_inv:
  assumes "link_inv s"
  shows "dgl_disc_state s = DISC_BATT_SVC \<Longrightarrow> link_inv (disc_batt_svc m c s)"
    and "link_inv (disc_batt_char m c s)"
proof -
  note k = keepsD [OF keeps_service [of m] assms]
  { assume d: "dgl_disc_state s = DISC_BATT_SVC"
    then have "dgl_state s = DGL_ARMED" using assms by (simp add: link_inv_def)
    then show "link_inv (disc_batt_svc m c s)"
      using k by (simp add: disc_batt_svc_def Let_def find_char_inv disc_idle_inv) }
  have "link_inv (s\<lparr>dgl_batt_hdl := h\<rparr>)" for h
    using assms by (simp add: link_inv_defs)
  then show "link_inv (disc_batt_char m c s)"
    using assms by (simp add: disc_batt_char_def Let_def disc_idle_inv split: att_msg.splits)
qed

lemma disc_step_inv: "link_inv s \<Longrightarrow> link_inv (disc_step E m c st s)"
  by (simp add: disc_step_def disc_svc_inv disc_boot_inv disc_rpt_inv disc_proto_inv disc_cccd_inv
      disc_batt_inv split: dgl_disc.splits)

lemma batt_char_scan_view:
  "scan_view (case m of ReadByTypeRsp num len d \<Rightarrow>
      if num > 0 \<and> in_service (dgl_rbt_vhandle len d 0) s
      then s\<lparr>dgl_batt_hdl := dgl_rbt_vhandle len d 0\<rparr> else s | _ \<Rightarrow> s) = scan_view s"
  by (cases m) simp_all

lemma disc_step_scan_view [simp]: "scan_view (disc_step E m c st s) = scan_view s"
  by (simp add: disc_step_def disc_defs Let_def batt_char_scan_view split: dgl_disc.splits)

lemma discovery_event_inv:
  assumes "link_inv s"
  shows "link_inv (dgl_discovery_event E g s)" "scan_view (dgl_discovery_event E g s) = scan_view s"
  using assms
  by (simp_all add: dgl_discovery_event_def disc_step_inv disc_idle_inv Let_def split: att_msg.splits)

lemma cccd_write_next_inv:
  assumes "link_inv s" "dgl_disc_state s = DISC_CCCD"
  shows "link_inv (dgl_cccd_write_next E s)" "scan_view (dgl_cccd_write_next E s) = scan_view s"
proof -
  have c: "dgl_state s = DGL_CONNECTED" using assms by (simp add: link_inv_def)
  have p: "link_inv (s\<lparr>dgl_proto_pending := False\<rparr>)"
    using assms by (simp add: link_inv_defs)
  show "link_inv (dgl_cccd_write_next E s)"
  proof (cases "dgl_proto_pending s \<or> dgl_cccd_wr s + 1 < dgl_cccd_count s")
    case True
    with assms(1) p show ?thesis
      by (auto simp: dgl_cccd_write_next_def Let_def) (auto simp: link_inv_defs)
  next
    case False
    with assms c show ?thesis
      by (simp add: dgl_cccd_write_next_def Let_def read_report_def)
        (simp add: link_inv_defs DGL_AUTO_MAX_FAILS_def)
  qed
  show "scan_view (dgl_cccd_write_next E s) = scan_view s"
    by (simp add: dgl_cccd_write_next_def Let_def read_report_def)
qed

end
