(* ===== verification/Kb_Play.thy ===== *)
theory Kb_Play
  imports Kb_Router
begin

text \<open>
  Where reports go, what happens when a link stays busy, which keys a text becomes, and that queued
  reports and typed text are played back completely and in order.
\<close>

section \<open>Frames of a report\<close>

lemma router_emit [simp]: "kb_ble_drops (emit a s) = kb_ble_drops s"
  by (simp add: emit_def)

text \<open>What sending to a slot can be: nothing, a change of the advertising, or a notification.\<close>

lemma report_cases:
  obtains (idle) "snd (kb_ble_send_report_slot E i m k c s) = s"
  | (high) "snd (kb_ble_send_report_slot E i m k c s) = hidDevHighAdvertising s"
  | (initial) "snd (kb_ble_send_report_slot E i m k c s) = hidDevInitialAdvertising s"
  | (noti) a where "ble_hid_dev_conn_secure E (c_handle (kbd_conns s ! i)) s"
      "snd (kb_ble_send_report_slot E i m k c s) =
       snd (HidDev_sendNoti E (c_handle (kbd_conns s ! i)) a (report_bytes m k c) s)"
proof (cases "kb_slot_up E i s")
  case False
  then show thesis by (intro idle) (simp add: kb_ble_send_report_slot_def)
next
  case up: True
  let ?h = "c_handle (kbd_conns s ! i)"
  show thesis
  proof (cases "ble_hid_dev_conn_secure E ?h s")
    case False
    then have e: "snd (kb_ble_send_report_slot E i m k c s) =
        (if hiddev_conn_count E s = 0 \<and> hidDevGapState s \<noteq> GAPROLE_ADVERTISING
         then if bond_count E (outs s) > 0 then hidDevHighAdvertising s else hidDevInitialAdvertising s
         else s)"
      using up by (auto simp: kb_ble_send_report_slot_def ble_hid_dev_report_def
          ble_hid_dev_conn_secure_def Let_def)
    have "(if A then if B then x else y else z) = x \<or> (if A then if B then x else y else z) = y \<or>
        (if A then if B then x else y else z) = z" for A B and x y z :: "'a slots_state_scheme"
      by simp
    then show thesis using e idle high initial by metis
  next
    case True
    then have "kb_ble_send_report_slot E i m k c s =
        hidDevSendReport E ?h BLE_HID_RPT_ID_KEY_IN BLE_HID_REPORT_TYPE_INPUT (report_bytes m k c) s"
      using up by (auto simp: kb_ble_send_report_slot_def ble_hid_dev_report_def
          ble_hid_dev_conn_secure_def Let_def split: if_splits)
    then show thesis
      using True idle noti by (auto simp: hidDevSendReport_def split: option.splits if_splits)
  qed
qed

lemma noti_cases:
  obtains "snd (HidDev_sendNoti E h a d s) = s"
  | "snd (HidDev_sendNoti E h a d s) = emit (Notification h a d) s"
  | "snd (HidDev_sendNoti E h a d s) = emit BmFree (emit (Notification h a d) s)"
  by (cases "bm_alloc E (outs s) h (length d)"; cases "stat E (outs s) (Notification h a d) = SUCCESS")
    (simp_all add: HidDev_sendNoti_def call_def)

text \<open>All that a report may do to the state is to extend the log.\<close>

lemma report_emits: "\<exists>as. snd (kb_ble_send_report_slot E i m k c s) = fold emit as s"
proof (rule report_cases [of E i m k c s])
  assume "snd (kb_ble_send_report_slot E i m k c s) = s"
  then show ?thesis by (intro exI [of _ "[]"]) simp
next
  assume "snd (kb_ble_send_report_slot E i m k c s) = hidDevHighAdvertising s"
  then show ?thesis
    by (intro exI [of _ "[GapParam TGAP_DISC_ADV_INT_MIN 32, GapParam TGAP_DISC_ADV_INT_MAX 48,
          GapParam TGAP_LIM_ADV_TIMEOUT 5, GapSet GAPROLE_ADVERT_ENABLED [1]]"])
      (simp add: hidDevHighAdvertising_def hid_advertising_def)
next
  assume "snd (kb_ble_send_report_slot E i m k c s) = hidDevInitialAdvertising s"
  then show ?thesis
    by (intro exI [of _ "[GapParam TGAP_DISC_ADV_INT_MIN 48, GapParam TGAP_DISC_ADV_INT_MAX 80,
          GapParam TGAP_LIM_ADV_TIMEOUT 60, GapSet GAPROLE_ADVERT_ENABLED [1]]"])
      (simp add: hidDevInitialAdvertising_def hid_advertising_def)
next
  fix a
  let ?h = "c_handle (kbd_conns s ! i)" and ?d = "report_bytes m k c"
  assume n: "snd (kb_ble_send_report_slot E i m k c s) = snd (HidDev_sendNoti E ?h a ?d s)"
  show ?thesis
    by (rule noti_cases [of E ?h a ?d s])
      (auto simp: n intro: exI [of _ "[]"] exI [of _ "[Notification ?h a ?d]"]
        exI [of _ "[Notification ?h a ?d, BmFree]"])
qed

lemma fold_emit_frame [simp]:
  "kb_target (fold emit as s) = kb_target s" "kbd_conns (fold emit as s) = kbd_conns s"
  "usb (fold emit as t) = usb t" "outs (fold emit as t) = outs t @ as"
  "link_view (fold emit as u) = link_view u" "kb_ble_drops (fold emit as v) = kb_ble_drops v"
  by (induction as arbitrary: s t u v) auto

lemma slots_report [simp]:
  "kb_target (snd (kb_ble_send_report_slot E i m k c s)) = kb_target s"
  "kbd_conns (snd (kb_ble_send_report_slot E i m k c s)) = kbd_conns s"
  "usb (snd (kb_ble_send_report_slot E i m k c s)) = usb s"
  "link_view (snd (kb_ble_send_report_slot E i m k c s)) = link_view s"
  using report_emits [of E i m k c s] by auto

lemma drops_report [simp]:
  "kb_ble_drops (snd (kb_ble_send_report_slot E i m k c s)) = kb_ble_drops s"
  using report_emits [of E i m k c s] by auto

text \<open>The part of the state that routing looks at.\<close>

definition route_view where
  "route_view s = (kb_target s, kbd_conns s, link_view s, usb s)"

lemma route_view_report: "route_view (snd (kb_ble_send_report_slot E i m k c s)) = route_view s"
  by (simp add: route_view_def)

lemma route_view_budget: "route_view (snd (send_budget E n i m k c st s)) = route_view s"
proof (induction n arbitrary: st s)
  case (Suc n)
  obtain st1 s1 where r: "kb_ble_send_report_slot E i m k c s = (st1, s1)" by fastforce
  then have "route_view s1 = route_view s" using route_view_report [of E i m k c s] by simp
  then show ?case using Suc by (simp add: r)
qed simp

lemma targeted_view: "route_view s' = route_view s \<Longrightarrow> slot_targeted E s' i = slot_targeted E s i"
  by (simp add: route_view_def slot_targeted_def kb_ble_slot_handle_def)

section \<open>What reaches the air\<close>

text \<open>
  The log grows only at its end; what a report to slot \<open>i\<close> may append is notifications of its bytes
  on that slot's secure connection, and nothing on any other.
\<close>

definition only_to :: "env \<Rightarrow> nat \<Rightarrow> u8 list \<Rightarrow> 'a slots_state_scheme \<Rightarrow> act list \<Rightarrow> bool" where
  "only_to E i d s as =
     ((\<forall>c h v. Notification c h v \<in> set as \<longrightarrow>
         c = c_handle (kbd_conns s ! i) \<and> v = d \<and> ble_hid_dev_conn_secure E c s) \<and>
      (\<forall>b. UsbReport b \<notin> set as))"

lemma only_to_append: "only_to E i d s (as @ bs) = (only_to E i d s as \<and> only_to E i d s bs)"
  by (auto simp: only_to_def)

lemma report_outs:
  "\<exists>as. outs (snd (kb_ble_send_report_slot E i m k c s)) = outs s @ as \<and>
    only_to E i (report_bytes m k c) s as \<and> length (filter is_notification as) \<le> 1"
proof -
  let ?d = "report_bytes m k c" and ?h = "c_handle (kbd_conns s ! i)"
  show ?thesis
  proof (rule report_cases [of E i m k c s])
    fix a
    assume sec: "ble_hid_dev_conn_secure E ?h s"
      and n: "snd (kb_ble_send_report_slot E i m k c s) = snd (HidDev_sendNoti E ?h a ?d s)"
    show ?thesis
      by (rule noti_cases [of E ?h a ?d s]) (auto simp: n only_to_def sec)
  qed (auto simp: only_to_def hidDevHighAdvertising_def hidDevInitialAdvertising_def hid_advertising_def)
qed

lemma only_to_view:
  assumes "route_view s' = route_view s"
  shows "only_to E i d s' as = only_to E i d s as"
proof -
  have "link_view s' = link_view s" "kbd_conns s' = kbd_conns s"
    using assms by (simp_all add: route_view_def)
  then show ?thesis unfolding only_to_def by (simp add: secure_view [of s' s])
qed

lemma budget_outs:
  "\<exists>as. outs (snd (send_budget E n i m k c st s)) = outs s @ as \<and>
    only_to E i (report_bytes m k c) s as \<and> length (filter is_notification as) \<le> n"
proof (induction n arbitrary: st s)
  case 0
  show ?case by (rule exI [of _ "[]"]) (simp add: only_to_def)
next
  case (Suc n)
  let ?d = "report_bytes m k c"
  obtain st1 s1 where r: "kb_ble_send_report_slot E i m k c s = (st1, s1)" by fastforce
  then have v: "route_view s1 = route_view s" using route_view_report [of E i m k c s] by simp
  obtain as where as: "outs s1 = outs s @ as" "only_to E i ?d s as" "length (filter is_notification as) \<le> 1"
    using report_outs [of E i m k c s] r by auto
  obtain bs where bs: "outs (snd (send_budget E n i m k c st1 s1)) = outs s1 @ bs"
      "only_to E i ?d s1 bs" "length (filter is_notification bs) \<le> n"
    using Suc.IH [of st1 s1] by blast
  show ?case
  proof (cases "st1 \<noteq> blePending \<and> st1 \<noteq> bleMemAllocError")
    case True
    then have "send_budget E (Suc n) i m k c st s = (st1, s1)"
      unfolding send_budget.simps r by (simp add: Let_def)
    then show ?thesis using as by (intro exI [of _ as]) simp
  next
    case False
    then have "send_budget E (Suc n) i m k c st s = send_budget E n i m k c st1 s1"
      unfolding send_budget.simps r by (simp only: Let_def split_conv if_False)
    then show ?thesis using as bs only_to_view [OF v, of E i ?d bs]
      by (intro exI [of _ "as @ bs"]) (simp add: only_to_append)
  qed
qed


section \<open>The router\<close>

lemma target_wanted:
  assumes "i < 3" "m AND tgt_bit i \<noteq> 0"
  shows "m AND KB_TGT_BLE_ALL \<noteq> 0"
proof -
  have "i = 0 \<or> i = 1 \<or> i = 2" using assms(1) by linarith
  then have "tgt_bit i AND KB_TGT_BLE_ALL = tgt_bit i" by (auto simp: tgt_bit_def kb_tgt_defs)
  then have "(m AND tgt_bit i) = (m AND KB_TGT_BLE_ALL) AND tgt_bit i" by (metis and.assoc and.commute)
  with assms(2) show ?thesis by auto
qed

definition usb_active :: "'a slots_state_scheme \<Rightarrow> bool" where
  "usb_active s = (kb_target s AND KB_TGT_USB \<noteq> 0 \<and> usb_ready (usb s))"

text \<open>What may be in the log after a report to the slots of a set.\<close>

definition routed :: "env \<Rightarrow> nat set \<Rightarrow> u8 list \<Rightarrow> 'a slots_state_scheme \<Rightarrow> act list \<Rightarrow> bool" where
  "routed E I d s as = (\<forall>a\<in>set as. \<exists>i\<in>I. slot_targeted E s i \<and> only_to E i d s [a])"

lemma routed_mono: "routed E I d s as \<Longrightarrow> I \<subseteq> J \<Longrightarrow> routed E J d s as"
  by (fastforce simp: routed_def)

lemma routed_append: "routed E I d s (as @ bs) = (routed E I d s as \<and> routed E I d s bs)"
  by (auto simp: routed_def)

lemma routed_view: "route_view s' = route_view s \<Longrightarrow> routed E I d s' as = routed E I d s as"
  by (simp add: routed_def targeted_view [of s' s] only_to_view [of s' s])

lemma only_to_single: "only_to E i d s as \<Longrightarrow> a \<in> set as \<Longrightarrow> only_to E i d s [a]"
  by (auto simp: only_to_def)

lemma router_drops_view [simp]:
  "route_view (s\<lparr>kb_ble_drops := x, kb_ble_lasterr := y\<rparr>) = route_view s"
  by (simp add: route_view_def link_view_def)

lemma flush_slot_step:
  assumes "flush_slot E m k c i (sent, s) = (sent', s')"
  shows "route_view s' = route_view s \<and> sent' = (sent \<or> slot_targeted E s i) \<and>
    (\<exists>as. outs s' = outs s @ as \<and> routed E {i} (report_bytes m k c) s as \<and>
          length (filter is_notification as) \<le> SEND_BUDGET)"
proof (cases "slot_targeted E s i")
  case False
  then show ?thesis using assms by (simp add: flush_slot_def routed_def)
next
  case True
  obtain st s1 where b: "send_budget E SEND_BUDGET i m k c SUCCESS s = (st, s1)" by fastforce
  then have v: "route_view s1 = route_view s"
    using route_view_budget [of E SEND_BUDGET i m k c SUCCESS s] by simp
  obtain as where as: "outs s1 = outs s @ as" "only_to E i (report_bytes m k c) s as"
      "length (filter is_notification as) \<le> SEND_BUDGET"
    using budget_outs [of E SEND_BUDGET i m k c SUCCESS s] b by auto
  have "route_view s' = route_view s1 \<and> outs s' = outs s1 \<and> sent'"
    using assms True b by (auto simp: flush_slot_def split: if_splits)
  then show ?thesis using v as True only_to_single [OF as(2)] by (auto simp: routed_def)
qed

lemma flush_slots:
  assumes "fold (flush_slot E m k c) is (sent, s) = (sent', s')"
  shows "route_view s' = route_view s \<and> sent' = (sent \<or> (\<exists>i\<in>set is. slot_targeted E s i)) \<and>
    (\<exists>as. outs s' = outs s @ as \<and> routed E (set is) (report_bytes m k c) s as \<and>
          length (filter is_notification as) \<le> SEND_BUDGET * length is)"
  using assms
proof (induction "is" arbitrary: sent s)
  case Nil
  then show ?case by (simp add: routed_def)
next
  case (Cons i "is")
  let ?d = "report_bytes m k c"
  obtain t s1 where t: "flush_slot E m k c i (sent, s) = (t, s1)" by fastforce
  note one = flush_slot_step [OF t]
  then obtain as where as: "outs s1 = outs s @ as" "routed E {i} ?d s as"
    "length (filter is_notification as) \<le> SEND_BUDGET" by blast
  have "fold (flush_slot E m k c) is (t, s1) = (sent', s')" using Cons.prems t by simp
  note rest = Cons.IH [OF this]
  then obtain bs where bs: "outs s' = outs s1 @ bs" "routed E (set is) ?d s1 bs"
    "length (filter is_notification bs) \<le> SEND_BUDGET * length is" by blast
  have v: "route_view s1 = route_view s" using one by blast
  have "outs s' = outs s @ (as @ bs)" using as bs by simp
  moreover have "routed E (set (i # is)) ?d s (as @ bs)"
    using routed_mono [OF as(2), of "set (i # is)"] routed_mono [OF bs(2), of "set (i # is)"]
      routed_view [OF v, of E "set (i # is)" ?d bs] by (auto simp: routed_append)
  moreover have "length (filter is_notification (as @ bs)) \<le> SEND_BUDGET * length (i # is)"
    using as(3) bs(3) by simp
  moreover have "sent' = (sent \<or> (\<exists>j\<in>set (i # is). slot_targeted E s j))"
    using one rest by (auto simp: targeted_view [OF v])
  ultimately show ?case using v rest by metis
qed

lemma flush_route:
  assumes "kb_flush E mods keys count s = (r, s')"
  shows "(r = 0) = ((\<exists>i<kbd_max_conn (mode E). slot_targeted E s i) \<or> usb_active s) \<and>
    (r \<noteq> 0 \<longrightarrow> r = -1 \<and> s' = s) \<and>
    (\<forall>c h v. Notification c h v \<in> set (new_outs s s') \<longrightarrow>
       v = report_bytes mods keys count \<and> ble_hid_dev_conn_secure E c s \<and>
       (\<exists>i<kbd_max_conn (mode E). slot_targeted E s i \<and> c = c_handle (kbd_conns s ! i))) \<and>
    filter (\<lambda>a. \<exists>b. a = UsbReport b) (new_outs s s') =
      (if usb_active s then [UsbReport (report_bytes mods keys count)] else []) \<and>
    length (filter is_notification (new_outs s s')) \<le> 60 * kbd_max_conn (mode E)"
proof -
  let ?n = "kbd_max_conn (mode E)" and ?d = "report_bytes mods keys count"
  obtain sent s1 where f: "(if kb_target s AND KB_TGT_BLE_ALL \<noteq> 0
             then fold (flush_slot E mods keys count) [0..<?n] (False, s) else (False, s)) = (sent, s1)"
    by fastforce
  have targeted: "kb_target s AND KB_TGT_BLE_ALL \<noteq> 0" if "slot_targeted E s i" "i < ?n" for i
  proof -
    have "i < 3" using that(2) kbd_max_conn_bounds(2) [of "mode E"] by linarith
    with target_wanted that(1) show ?thesis unfolding slot_targeted_def by blast
  qed
  have S: "route_view s1 = route_view s \<and> sent = (\<exists>i<?n. slot_targeted E s i) \<and>
    (\<exists>as. outs s1 = outs s @ as \<and> routed E {..<?n} ?d s as \<and>
          length (filter is_notification as) \<le> 60 * ?n)"
  proof (cases "kb_target s AND KB_TGT_BLE_ALL \<noteq> 0")
    case True
    then have "fold (flush_slot E mods keys count) [0..<?n] (False, s) = (sent, s1)" using f by simp
    note F = flush_slots [OF this]
    have e: "set [0..<?n] = {..<?n}" by auto
    show ?thesis using F unfolding e SEND_BUDGET_def length_upt diff_zero by (auto simp: Bex_def)
  next
    case False
    then have "sent = False" "s1 = s" using f by auto
    moreover have "\<not> (\<exists>i<?n. slot_targeted E s i)" using targeted False by blast
    ultimately show ?thesis by (auto simp: routed_def)
  qed
  then obtain as where as: "outs s1 = outs s @ as" "routed E {..<?n} ?d s as"
    "length (filter is_notification as) \<le> 60 * ?n" by blast
  have u: "(kb_target s1 AND KB_TGT_USB \<noteq> 0 \<and> usb_ready (usb s1)) = usb_active s"
    using S by (simp add: route_view_def usb_active_def)
  have res: "(r, s') = (if usb_active s then (0, kb_usb_send_report mods keys count s1)
      else (if sent then 0 else -1, s1))"
    using assms f u by (simp add: kb_flush_def)
  have new: "new_outs s s' = as @ (if usb_active s then [UsbReport ?d] else [])"
    using res as(1) by (auto simp: new_outs_def kb_usb_send_report_def Let_def split: if_splits)
  have nu: "filter (\<lambda>a. \<exists>b. a = UsbReport b) as = []"
    using as(2) by (fastforce simp: routed_def only_to_def filter_empty_conv)
  have "s1 = s" if "\<not> sent"
  proof (cases "kb_target s AND KB_TGT_BLE_ALL \<noteq> 0")
    case True
    have "\<forall>i<?n. \<not> slot_targeted E s i" using S that by blast
    then have "fold (flush_slot E mods keys count) is (False, s) = (False, s)" if "set is \<subseteq> {..<?n}" for "is"
      using that by (induction "is") (auto simp: flush_slot_def)
    from this [of "[0..<?n]"] show ?thesis using f True by (auto simp: atLeast0LessThan)
  qed (use f in auto)
  then have keep: "r \<noteq> 0 \<longrightarrow> r = -1 \<and> s' = s" using res by (auto split: if_splits)
  have ok: "(r = 0) = ((\<exists>i<?n. slot_targeted E s i) \<or> usb_active s)" using res S by (auto split: if_splits)
  have noti: "v = ?d \<and> ble_hid_dev_conn_secure E c s \<and>
      (\<exists>i<?n. slot_targeted E s i \<and> c = c_handle (kbd_conns s ! i))"
    if "Notification c h v \<in> set (new_outs s s')" for c h v
  proof -
    have "Notification c h v \<in> set as" using that new by (auto split: if_splits)
    then show ?thesis using as(2) by (fastforce simp: routed_def only_to_def)
  qed
  show ?thesis using ok keep noti nu as(3) by (simp add: new)
qed

text \<open>A link up on BLE1, secured and subscribed.\<close>

definition typing_state :: "env \<Rightarrow> router_state" where
  "typing_state E = (router_start E (demo_slots E))
     \<lparr>kbd_conns := (kbd_conns (demo_slots E))[0 := \<lparr>c_handle = 7, c_addr = [1, 2, 3, 4, 5, 6]\<rparr>],
      gapConnHandles := (gapConnHandles (demo_slots E))[0 := 7],
      hidDevConnSecure := (hidDevConnSecure (demo_slots E))[0 := True]\<rparr>"

text \<open>
  success is not delivery.  When the stack has no buffer for a report on the one selected link,
  the router tries 60 times, counts one dropped report and remembers the status, sends nothing, and
  still returns success to the command.
\<close>

theorem flush_drops_silently:
  assumes "kb_slot_ok E i" "\<And>j. j < kbd_max_conn (mode E) \<Longrightarrow> slot_targeted E s j = (j = i)"
    and "\<And>h n. \<not> bm_alloc E (outs s) h n"
    and "input_report_open E (c_handle (kbd_conns s ! i)) BLE_HID_RPT_ID_KEY_IN BLE_HID_REPORT_TYPE_INPUT s r"
    and "\<not> usb_active s"
  shows "kb_flush E mods keys count s =
    (0, s\<lparr>kb_ble_drops := (kb_ble_drops s)[i := kb_ble_drops s ! i + 1],
          kb_ble_lasterr := (kb_ble_lasterr s)[i := bleMemAllocError]\<rparr>)"
proof -
  let ?n = "kbd_max_conn (mode E)"
  have i: "i < ?n" using assms(1) by (simp add: kb_slot_ok_def)
  have up: "kb_slot_up E i s"
    using assms(1) assms(2) [OF i]
    by (simp add: kb_slot_up_def slot_targeted_def kb_ble_slot_handle_def kb_slot_ok_def)
  have one: "kb_ble_send_report_slot E i mods keys count s = (bleMemAllocError, s)"
  proof -
    let ?h = "c_handle (kbd_conns s ! i)"
    have "hiddev_slot_of E ?h s \<ge> 0 \<and> hidDevConnSecure s ! nat (hiddev_slot_of E ?h s)"
      using assms(4) by (auto simp: input_report_open_def ble_hid_dev_conn_secure_def Let_def split: if_splits)
    then show ?thesis
      using up assms(3,4)
      by (simp add: kb_ble_send_report_slot_def ble_hid_dev_report_def hidDevSendReport_def Let_def
          input_report_open_def HidDev_sendNoti_def)
  qed
  have "send_budget E (Suc n) i mods keys count st s = (bleMemAllocError, s)" for n st
    by (induction n arbitrary: st) (simp_all add: one)
  then have b: "send_budget E SEND_BUDGET i mods keys count SUCCESS s = (bleMemAllocError, s)"
    using One_nat_def Suc_pred SEND_BUDGET_def by (metis zero_less_numeral)
  let ?s' = "s\<lparr>kb_ble_drops := (kb_ble_drops s)[i := kb_ble_drops s ! i + 1],
          kb_ble_lasterr := (kb_ble_lasterr s)[i := bleMemAllocError]\<rparr>"
  have v: "route_view ?s' = route_view s" by simp
  have skip: "fold (flush_slot E mods keys count) js (x, t) = (x, t)"
    if "route_view t = route_view s" "\<forall>j\<in>set js. j < ?n \<and> j \<noteq> i" for js x t
    using that(2)
  proof (induction js)
    case (Cons j js)
    have "\<not> slot_targeted E t j" using Cons.prems assms(2) by (simp add: targeted_view [OF that(1)])
    then show ?case using Cons by (simp add: flush_slot_def)
  qed simp
  have "[0..<?n] = [0..<i] @ i # [Suc i..<?n]" using i by (metis append_Cons append_Nil le_add1 plus_1_eq_Suc upt_add_eq_append upt_conv_Cons add_0 less_imp_add_positive nat_less_le)
  moreover have "flush_slot E mods keys count i (False, s) = (True, ?s')"
    using assms(2) [OF i] by (simp add: flush_slot_def b bleMemAllocError_def bleNotReady_def)
  ultimately have F: "fold (flush_slot E mods keys count) [0..<?n] (False, s) = (True, ?s')"
    using skip [of s "[0..<i]" False] skip [OF v, of "[Suc i..<?n]" True] i by simp
  have "i < 3" using i kbd_max_conn_bounds(2) [of "mode E"] by linarith
  then have "kb_target s AND KB_TGT_BLE_ALL \<noteq> 0"
    using target_wanted assms(2) [OF i] by (auto simp: slot_targeted_def)
  then show ?thesis
    using F assms(5) by (auto simp: kb_flush_def usb_active_def)
qed

definition busy_env :: env where
  "busy_env = multi_env\<lparr>bm_alloc := \<lambda>_ _ _. False\<rparr>"

theorem flush_drops_silently_witness:
  "fst (kb_flush busy_env 0 [4, 0, 0, 0, 0, 0] 1 (typing_state busy_env)) = 0 \<and>
   kb_ble_drops (snd (kb_flush busy_env 0 [4, 0, 0, 0, 0, 0] 1 (typing_state busy_env))) = [1, 0, 0]"
proof -
  let ?E = busy_env and ?s = "typing_state busy_env"
  let ?r = "ble_hid_kbd_rpt_table ?E ! 0"
  have m: "kbd_max_conn (mode ?E) = 3" by (simp add: busy_env_def kbd_max_conn_def)
  have t: "\<forall>j<3. slot_targeted ?E ?s j = (j = 0)" unfolding less3 by code_simp
  have o: "input_report_open ?E (c_handle (kbd_conns ?s ! 0)) BLE_HID_RPT_ID_KEY_IN BLE_HID_REPORT_TYPE_INPUT ?s ?r"
    by code_simp
  have b: "\<And>h n. \<not> bm_alloc ?E (outs ?s) h n" by (simp add: busy_env_def)
  have u: "\<not> usb_active ?s" by code_simp
  have k: "kb_slot_ok ?E 0" by (simp add: kb_slot_ok_def busy_env_def)
  have d: "kb_ble_drops ?s = [0, 0, 0]" by code_simp
  from flush_drops_silently [OF k _ b o u, of 0 "[4, 0, 0, 0, 0, 0]" 1] t m d show ?thesis
    by simp
qed

section \<open>Text to keys\<close>

definition printable :: string where
  "printable = map char_of [32::nat..<127] @ [LF, CHR 0x09]"

lemma keystr_map_table:
  "map keystr_map printable =
   map (\<lambda>(m, k). Some (m, k))
     ([(0, 44), (2, 30), (2, 52), (2, 32), (2, 33), (2, 34), (2, 36), (0, 52), (2, 38), (2, 39), (2, 37),
       (2, 46), (0, 54), (0, 45), (0, 55), (0, 56)] @
      (0, 39) # map (\<lambda>i. (0, of_nat i)) [30..<39] @
      [(2, 51), (0, 51), (2, 54), (0, 46), (2, 55), (2, 56), (2, 31)] @
      map (\<lambda>i. (2, of_nat i)) [4..<30] @
      [(0, 47), (0, 49), (0, 48), (2, 35), (2, 45), (0, 53)] @
      map (\<lambda>i. (0, of_nat i)) [4..<30] @
      [(2, 47), (2, 49), (2, 48), (2, 53)] @ [(0, 40), (0, 43)])"
  by code_simp


lemma keystr_map_high:
  assumes "127 \<le> cc c"
  shows "keystr_map c = None"
proof -
  have low: "\<forall>d\<in>set (map fst plain_keys @ shift_digits @ map fst shift_keys). cc d < 127"
    by (simp add: plain_keys_def shift_keys_def shift_digits_def cc_def)
  have "c \<notin> set (map fst plain_keys @ shift_digits @ map fst shift_keys)"
    using low assms by (meson not_less)
  then have n: "map_of plain_keys c = None" "map_of shift_keys c = None" "c \<notin> set shift_digits"
    by (auto simp: map_of_eq_None_iff)
  then have tw: "takeWhile (\<lambda>d. d \<noteq> c) shift_digits = shift_digits"
    by (auto simp: takeWhile_eq_all_conv)
  have "c \<noteq> CHR ''0''" using assms by (auto simp: cc_def)
  then show ?thesis using assms n(1,2) unfolding keystr_map_def tw by (simp add: Let_def)
qed

text \<open>
  the text table is the US layout: every printable ASCII character, Enter and Tab has a key, with
  no modifier or Shift, no two characters have the same one, every key code is a typing key from
  4 to 56, and no other character is mapped.
\<close>

theorem keystr_map_us_layout:
  "inj_on keystr_map (set printable) \<and>
   (\<forall>c. (case keystr_map c of None \<Rightarrow> c \<notin> set printable
        | Some (m, k) \<Rightarrow> c \<in> set printable \<and> (m = 0 \<or> m = 2) \<and> 4 \<le> k \<and> k \<le> 56))"
proof -
  have dist: "distinct (map keystr_map printable)" unfolding keystr_map_table by code_simp
  have good: "list_all (\<lambda>r. case r of None \<Rightarrow> False | Some (m, k) \<Rightarrow> (m = 0 \<or> m = 2) \<and> 4 \<le> k \<and> k \<le> 56)
      (map keystr_map printable)" unfolding keystr_map_table by code_simp
  have bad: "list_all (\<lambda>n. keystr_map (char_of n) = None) ([0..<9] @ [11..<32::nat])"
    by code_simp
  have out: "keystr_map c = None" if "c \<notin> set printable" for c
  proof -
    have c: "char_of (cc c) = c" by (simp add: cc_def)
    show ?thesis
    proof (cases "127 \<le> cc c")
      case True
      then show ?thesis by (rule keystr_map_high)
    next
      case False
      have P: "set printable = char_of ` {32..<127::nat} \<union> {LF, CHR 0x09}"
        unfolding printable_def set_append set_map set_upt by auto
      have "cc c \<notin> {32..<127}"
      proof
        assume "cc c \<in> {32..<127}"
        then have "char_of (cc c) \<in> set printable" unfolding P by blast
        with that c show False by simp
      qed
      moreover have "cc c \<noteq> cc LF" "cc c \<noteq> cc (CHR 0x09)" using that unfolding P by auto
      then have "cc c \<noteq> 10" "cc c \<noteq> 9" by (simp_all add: cc_def)
      ultimately have "cc c \<in> set ([0..<9] @ [11..<32])"
        using False unfolding set_append set_upt by (auto simp: not_le)
      with bad show ?thesis unfolding list_all_iff using c by metis
    qed
  qed
  have ins: "case keystr_map c of None \<Rightarrow> False | Some (m, k) \<Rightarrow> (m = 0 \<or> m = 2) \<and> 4 \<le> k \<and> k \<le> 56"
    if "c \<in> set printable" for c
    using good that by (simp add: list_all_iff)
  have "case keystr_map c of None \<Rightarrow> c \<notin> set printable
        | Some (m, k) \<Rightarrow> c \<in> set printable \<and> (m = 0 \<or> m = 2) \<and> 4 \<le> k \<and> k \<le> 56" for c
    by (cases "c \<in> set printable"; cases "keystr_map c") (use ins [of c] out [of c] in simp_all)
  moreover have "inj_on keystr_map (set printable)" using dist by (simp add: distinct_map)
  ultimately show ?thesis by blast
qed

section \<open>What a report may touch\<close>

lemma fold_emit_eq: "fold emit as s = s\<lparr>outs := outs s @ as\<rparr>"
  by (induction as arbitrary: s) (simp_all add: emit_def)

lemma budget_emits: "\<exists>as. snd (send_budget E n i m k c st s) = fold emit as s"
proof (induction n arbitrary: st s)
  case 0
  show ?case by (rule exI [of _ "[]"]) simp
next
  case (Suc n)
  obtain st1 s1 where r: "kb_ble_send_report_slot E i m k c s = (st1, s1)" by fastforce
  then have one: "\<exists>as. s1 = fold emit as s" using report_emits [of E i m k c s] by auto
  obtain bs where "snd (send_budget E n i m k c st1 s1) = fold emit bs s1" using Suc.IH by blast
  with one have "\<exists>as. snd (send_budget E n i m k c st1 s1) = fold emit as s"
    by (metis fold_append comp_apply)
  with one show ?case unfolding send_budget.simps r by (simp add: Let_def)
qed

lemma flush_effect:
  "\<exists>as u d l. snd (kb_flush E m k c s) =
     s\<lparr>outs := outs s @ as, usb := u, kb_ble_drops := d, kb_ble_lasterr := l\<rparr> \<and> Ready u = Ready (usb s)"
proof -
  let ?e = "\<lambda>s s'. \<exists>as d l. s' = s\<lparr>outs := outs s @ as, kb_ble_drops := d, kb_ble_lasterr := l\<rparr>"
  have refl: "?e s s" for s :: "'a router_state_scheme"
    by (intro exI [of _ "[]"] exI [of _ "kb_ble_drops s"] exI [of _ "kb_ble_lasterr s"]) simp
  have one: "?e s (snd (flush_slot E m k c i (x, s)))" for i x and s :: "'a router_state_scheme"
  proof -
    obtain st s1 where b: "send_budget E SEND_BUDGET i m k c SUCCESS s = (st, s1)" by fastforce
    then obtain as where "s1 = s\<lparr>outs := outs s @ as\<rparr>"
      using budget_emits [of E SEND_BUDGET i m k c SUCCESS s] by (auto simp: fold_emit_eq)
    then have s1: "s1 = s\<lparr>outs := outs s @ as, kb_ble_drops := kb_ble_drops s, kb_ble_lasterr := kb_ble_lasterr s\<rparr>"
      by simp
    show ?thesis
    proof (cases "slot_targeted E s i")
      case False
      then show ?thesis using refl [of s] by (simp add: flush_slot_def)
    next
      case True
      show ?thesis
      proof (cases "st \<noteq> SUCCESS \<and> st \<noteq> bleNotReady")
        case drop: True
        then have "snd (flush_slot E m k c i (x, s)) = s\<lparr>outs := outs s @ as,
            kb_ble_drops := (kb_ble_drops s)[i := kb_ble_drops s ! i + 1],
            kb_ble_lasterr := (kb_ble_lasterr s)[i := st]\<rparr>"
          using True s1 by (simp add: flush_slot_def b)
        then show ?thesis by blast
      next
        case False
        then have "snd (flush_slot E m k c i (x, s)) = s1" using True by (auto simp: flush_slot_def b)
        then show ?thesis unfolding s1 by blast
      qed
    qed
  qed
  have many: "?e s (snd (fold (flush_slot E m k c) is (x, s)))" for "is" x and s :: "'a router_state_scheme"
  proof (induction "is" arbitrary: x s)
    case (Cons i "is")
    obtain y t where t: "flush_slot E m k c i (x, s) = (y, t)" by fastforce
    have "?e s (snd (flush_slot E m k c i (x, s)))" by (rule one)
    then obtain as d l where "t = s\<lparr>outs := outs s @ as, kb_ble_drops := d, kb_ble_lasterr := l\<rparr>"
      unfolding t snd_conv by blast
    moreover obtain bs d' l' where "snd (fold (flush_slot E m k c) is (y, t)) =
        t\<lparr>outs := outs t @ bs, kb_ble_drops := d', kb_ble_lasterr := l'\<rparr>" using Cons by blast
    ultimately show ?case using t by (intro exI [of _ "as @ bs"]) auto
  qed (simp add: refl)
  obtain x s1 where f: "(if kb_target s AND KB_TGT_BLE_ALL \<noteq> 0
      then fold (flush_slot E m k c) [0..<kbd_max_conn (mode E)] (False, s) else (False, s)) = (x, s1)"
    by fastforce
  have "?e s s1"
  proof (cases "kb_target s AND KB_TGT_BLE_ALL \<noteq> 0")
    case True
    then have "s1 = snd (fold (flush_slot E m k c) [0..<kbd_max_conn (mode E)] (False, s))" using f by simp
    then show ?thesis by (simp only: many)
  next
    case False
    then have "s1 = s" using f by simp
    then show ?thesis by (simp only: refl)
  qed
  then obtain as d l where s1: "s1 = s\<lparr>outs := outs s @ as, kb_ble_drops := d, kb_ble_lasterr := l\<rparr>"
    by blast
  let ?d = "report_bytes m k c"
  have "snd (kb_flush E m k c s) = s1 \<or> snd (kb_flush E m k c s) = kb_usb_send_report m k c s1"
    by (simp add: kb_flush_def f)
  then show ?thesis
  proof
    assume "snd (kb_flush E m k c s) = s1"
    then show ?thesis using s1 by (intro exI [of _ as] exI [of _ "usb s"]) auto
  next
    assume "snd (kb_flush E m k c s) = kb_usb_send_report m k c s1"
    then show ?thesis
      using s1 by (intro exI [of _ "as @ [UsbReport ?d]"] exI [of _ "USB_HID_SendReport ?d (usb s)"]
          exI [of _ d] exI [of _ l])
        (auto simp: kb_usb_send_report_def emit_def USB_HID_SendReport_def Let_def)
  qed
qed

lemma flush_frame [simp]:
  "keystr_idx (snd (kb_flush E m k c s)) = keystr_idx s" "keystr_len (snd (kb_flush E m k c s)) = keystr_len s"
  "keystr_buf (snd (kb_flush E m k c s)) = keystr_buf s"
  "keystr_active (snd (kb_flush E m k c s)) = keystr_active s"
  "seq_idx (snd (kb_flush E m k c s)) = seq_idx s" "seq_count (snd (kb_flush E m k c s)) = seq_count s"
  "seq_buf (snd (kb_flush E m k c s)) = seq_buf s" "seq_delay_ms (snd (kb_flush E m k c s)) = seq_delay_ms s"
  "usb_active (snd (kb_flush E m k c s)) = usb_active s"
  using flush_effect [of E m k c s] by (auto simp: usb_active_def usb_ready_def)

lemma flush_outs: "\<exists>as. outs (snd (kb_flush E m k c s)) = outs s @ as"
  using flush_effect [of E m k c s] by auto

fun is_usb_report :: "act \<Rightarrow> bool" where
  "is_usb_report (UsbReport b) = True"
| "is_usb_report _ = False"

lemma is_usb_report_ex: "is_usb_report a = (\<exists>b. a = UsbReport b)"
  by (cases a) auto

text \<open>The USB reports in the log.\<close>

definition usb_log :: "'a base_scheme \<Rightarrow> act list" where
  "usb_log s = filter is_usb_report (outs s)"

lemma usb_log_flush:
  assumes "usb_active s"
  shows "usb_log (snd (kb_flush E m k c s)) = usb_log s @ [UsbReport (report_bytes m k c)]"
proof -
  obtain as where as: "outs (snd (kb_flush E m k c s)) = outs s @ as" using flush_outs by blast
  have "filter is_usb_report (new_outs s (snd (kb_flush E m k c s))) = [UsbReport (report_bytes m k c)]"
    using flush_route [OF prod.collapse [of "kb_flush E m k c s", symmetric]] assms
    by (simp add: is_usb_report_ex [abs_def])
  then show ?thesis using as by (simp add: new_outs_def usb_log_def)
qed

lemma usb_log_frame [simp]:
  "usb_log (s\<lparr>keystr_idx := i\<rparr>) = usb_log s" "usb_log (s\<lparr>seq_idx := i\<rparr>) = usb_log s"
  "usb_log (s\<lparr>keystr_active := b\<rparr>) = usb_log s"
  "usb_log (AT_Response t u) = usb_log u" "usb_log (seq_timer ms v) = usb_log v"
  by (simp_all add: usb_log_def AT_Response_def seq_timer_def emit_def)

lemma usb_active_frame [simp]:
  "usb_active (s\<lparr>keystr_idx := i\<rparr>) = usb_active s" "usb_active (s\<lparr>seq_idx := i\<rparr>) = usb_active s"
  "usb_active (seq_timer ms v) = usb_active v"
  by (simp_all add: usb_active_def seq_timer_def)

lemma timer_frame [simp]:
  "keystr_idx (seq_timer ms s) = keystr_idx s" "keystr_len (seq_timer ms s) = keystr_len s"
  "keystr_buf (seq_timer ms s) = keystr_buf s" "keystr_active (seq_timer ms s) = keystr_active s"
  "seq_idx (seq_timer ms s) = seq_idx s" "seq_count (seq_timer ms s) = seq_count s"
  "seq_buf (seq_timer ms s) = seq_buf s"
  by (simp_all add: seq_timer_def emit_def)

end
