(* ===== verification/Dgl_Step.thy ===== *)
theory Dgl_Step
  imports Dgl_Inv Kb_Play
begin

text \<open>
  The receiver as a step relation: what the stack delivers, the task, and the commands, in any order.
  The invariant of its reachable states, what reaches USB, when it stops reconnecting, and what a
  refused scan leaves behind.
\<close>

section \<open>The task keeps the invariant\<close>

lemma usb_report_frame [simp]:
  "link_inv (kb_usb_send_report m k c s) = link_inv s" "scan_inv (kb_usb_send_report m k c s) = scan_inv s"
  "scan_view (kb_usb_send_report m k c s) = scan_view s"
  by (simp_all add: kb_usb_send_report_def Let_def link_inv_defs scan_inv_def scan_addrs_def scan_view_def)

lemma link_inv_upd [simp]:
  "link_inv (s\<lparr>dgl_batt_reading := b\<rparr>) = link_inv s" "link_inv (s\<lparr>dgl_rd_idx := n\<rparr>) = link_inv s"
  "link_inv (s\<lparr>dgl_start_status := st\<rparr>) = link_inv s" "link_inv (s\<lparr>dgl_pend_scan_sec := i\<rparr>) = link_inv s"
  "link_inv (s\<lparr>dgl_pend_conn_idx := i\<rparr>) = link_inv s" "link_inv (s\<lparr>dgl_watch_active := b\<rparr>) = link_inv s"
  "link_inv (s\<lparr>dgl_watch_is_mac := b\<rparr>) = link_inv s" "link_inv (s\<lparr>dgl_watch_addr := a\<rparr>) = link_inv s"
  "link_inv (s\<lparr>dgl_watch_name := t\<rparr>) = link_inv s" "link_inv (s\<lparr>dgl_filter := t\<rparr>) = link_inv s"
  "link_inv (s\<lparr>dgl_auto := b\<rparr>) = link_inv s" "link_inv (s\<lparr>dgl_auto_hold := b\<rparr>) = link_inv s"
  "link_inv (s\<lparr>dgl_passkey_pending := b\<rparr>) = link_inv s" "link_inv (s\<lparr>dgl_passkey_conn := h\<rparr>) = link_inv s"
  "link_inv (s\<lparr>dgl_passkey_preset := c\<rparr>) = link_inv s" "link_inv (s\<lparr>dgl_scan_list := xs\<rparr>) = link_inv s"
  "link_inv (s\<lparr>dgl_scan_count := n\<rparr>) = link_inv s"
  by (simp_all add: link_inv_defs)

lemma scan_inv_upd [simp]:
  "scan_inv (s\<lparr>dgl_batt_reading := b\<rparr>) = scan_inv s" "scan_inv (s\<lparr>dgl_rd_idx := n\<rparr>) = scan_inv s"
  "scan_inv (s\<lparr>dgl_start_status := st\<rparr>) = scan_inv s" "scan_inv (s\<lparr>dgl_pend_scan_sec := i\<rparr>) = scan_inv s"
  "scan_inv (s\<lparr>dgl_pend_conn_idx := i\<rparr>) = scan_inv s" "scan_inv (s\<lparr>dgl_watch_active := b\<rparr>) = scan_inv s"
  "scan_inv (s\<lparr>dgl_watch_is_mac := b\<rparr>) = scan_inv s" "scan_inv (s\<lparr>dgl_watch_addr := a\<rparr>) = scan_inv s"
  "scan_inv (s\<lparr>dgl_watch_name := t\<rparr>) = scan_inv s" "scan_inv (s\<lparr>dgl_filter := t\<rparr>) = scan_inv s"
  "scan_inv (s\<lparr>dgl_auto := b\<rparr>) = scan_inv s" "scan_inv (s\<lparr>dgl_auto_hold := b\<rparr>) = scan_inv s"
  "scan_inv (s\<lparr>dgl_passkey_pending := b\<rparr>) = scan_inv s" "scan_inv (s\<lparr>dgl_passkey_conn := h\<rparr>) = scan_inv s"
  "scan_inv (s\<lparr>dgl_passkey_preset := c\<rparr>) = scan_inv s" "scan_inv (s\<lparr>dgl_state := l\<rparr>) = scan_inv s"
  "scan_inv (s\<lparr>dgl_auto_fails := w\<rparr>) = scan_inv s" "scan_inv (s\<lparr>dgl_disc_state := d\<rparr>) = scan_inv s"
  by (simp_all add: scan_inv_def scan_addrs_def)

definition dgl_inv :: "'a dongle_state_scheme \<Rightarrow> bool" where
  "dgl_inv s = (link_inv s \<and> scan_inv s)"

lemma dgl_invI: "link_inv s' \<Longrightarrow> scan_view s' = scan_view s \<Longrightarrow> dgl_inv s \<Longrightarrow> dgl_inv s'"
  using scan_inv_view [of s' s] by (simp add: dgl_inv_def)

lemma forward_inv: "dgl_inv s \<Longrightarrow> dgl_inv (dgl_forward h l r s)"
  by (simp add: dgl_forward_def dgl_inv_def Let_def)

lemma rd_advance_inv: "dgl_inv s \<Longrightarrow> dgl_inv (rd_advance t s)"
  by (simp add: rd_advance_def dgl_inv_def Let_def read_report_def)

lemma rest_inv: "dgl_inv s \<Longrightarrow> dgl_inv (dgl_discovery_event E g s)"
  by (rule dgl_invI [OF discovery_event_inv]) (simp_all add: dgl_inv_def)

lemma write_next_inv:
  assumes "dgl_inv s" "dgl_disc_state s = DISC_CCCD"
  shows "dgl_inv (dgl_cccd_write_next E s)"
  by (rule dgl_invI [OF cccd_write_next_inv]) (use assms in \<open>simp_all add: dgl_inv_def\<close>)

lemma dispatch_inv:
  assumes "dgl_inv s" shows "dgl_inv (dgl_process_gatt_msg E g s)"
proof -
  have dbg: "dgl_inv (emit a t) = dgl_inv t" "dgl_inv (AT_Response x t) = dgl_inv t"
    "dgl_inv (t\<lparr>dgl_batt_reading := b\<rparr>) = dgl_inv t" for a x b and t :: "'a dongle_state_scheme"
    by (simp_all add: dgl_inv_def)
  show ?thesis
    using assms
    by (cases "g_msg g")
      (simp_all add: dgl_process_gatt_msg_def dgl_dispatch_def Let_def dbg forward_inv rd_advance_inv
        rest_inv write_next_inv)
qed

lemma idle_disc: "link_inv s \<Longrightarrow> \<not> linked s \<Longrightarrow> dgl_disc_state s = DISC_IDLE"
  by (cases "dgl_disc_state s") (auto simp: link_inv_defs)

lemma unlinked_move:
  assumes "link_inv s" "\<not> linked s" "l \<noteq> DGL_CONNECTED" "l \<noteq> DGL_ARMED"
  shows "link_inv (s\<lparr>dgl_state := l\<rparr>)"
  using assms idle_disc [OF assms(1,2)] by (simp add: link_inv_defs)

lemma dgl_inv_frame [simp]:
  "dgl_inv (emit a s) = dgl_inv s" "dgl_inv (AT_Response t s) = dgl_inv s"
  by (simp_all add: dgl_inv_def)

lemma dgl_inv_move:
  assumes "dgl_inv s" "\<not> linked s" "l \<noteq> DGL_CONNECTED" "l \<noteq> DGL_ARMED"
  shows "dgl_inv (s\<lparr>dgl_state := l\<rparr>)"
  using assms unlinked_move [of s l] by (simp add: dgl_inv_def)

lemma auto_kick_inv:
  assumes "dgl_inv s" shows "dgl_inv (dgl_auto_kick E s)"
proof (cases "dgl_state s = DGL_IDLE")
  case True
  then have "dgl_inv (s\<lparr>dgl_state := DGL_AUTOCONN\<rparr>)"
    using assms by (intro dgl_inv_move) (auto simp: linked_def)
  then have "dgl_inv ((emit a s)\<lparr>dgl_state := DGL_AUTOCONN\<rparr>)" for a
    by (simp add: dgl_inv_def link_inv_defs scan_inv_def scan_addrs_def)
  with assms show ?thesis
    by (simp add: dgl_auto_kick_def Let_def call_def split: option.splits)
next
  case False
  with assms show ?thesis by (simp add: dgl_auto_kick_def Let_def)
qed

lemma svc_discovery_inv:
  assumes "dgl_inv s" "dgl_state s = DGL_CONNECTED" shows "dgl_inv (dgl_start_svc_discovery E s)"
proof (rule dgl_invI [OF _ _ assms(1)])
  let ?s = "s\<lparr>dgl_svc_start := 0, dgl_svc_end := 0, dgl_boot_hdl := 0, dgl_proto_hdl := 0,
              dgl_disc_state := DISC_SVC\<rparr>"
  have "link_inv ?s" using assms by (simp add: dgl_inv_def link_inv_defs)
  then show "link_inv (dgl_start_svc_discovery E s)"
    by (simp add: dgl_start_svc_discovery_def Let_def call_def discovery_failed_inv)
  show "scan_view (dgl_start_svc_discovery E s) = scan_view s"
    by (simp add: dgl_start_svc_discovery_def Let_def call_def) (simp add: scan_view_def)
qed

lemma start_scan_inv:
  assumes "dgl_inv s" shows "dgl_inv (dgl_start_scan E s)"
proof -
  have "dgl_inv ((emit a s)\<lparr>dgl_scan_count := 0, dgl_scan_list := replicate DGL_MAX_SCAN_RES r,
                            dgl_state := DGL_SCANNING\<rparr>)" if "dgl_state s = DGL_IDLE" for a r
    using assms that idle_disc [of s]
    by (simp add: dgl_inv_def link_inv_defs scan_inv_def scan_addrs_def)
  moreover have "dgl_inv (t\<lparr>dgl_pend_scan_sec := i\<rparr>) = dgl_inv t" for i and t :: "'a dongle_state_scheme"
    by (simp add: dgl_inv_def)
  ultimately show ?thesis
    using assms by (simp add: dgl_start_scan_def Let_def call_def)
qed

lemma dgl_inv_pend [simp]:
  "dgl_inv (s\<lparr>dgl_pend_conn_idx := i\<rparr>) = dgl_inv s" "dgl_inv (s\<lparr>dgl_auto := b\<rparr>) = dgl_inv s"
  "dgl_inv (s\<lparr>dgl_auto_hold := b\<rparr>) = dgl_inv s" "dgl_inv (s\<lparr>dgl_start_status := st\<rparr>) = dgl_inv s"
  "dgl_inv (s\<lparr>dgl_pend_scan_sec := i\<rparr>) = dgl_inv s" "dgl_inv (s\<lparr>dgl_watch_active := b\<rparr>) = dgl_inv s"
  "dgl_inv (s\<lparr>dgl_watch_is_mac := b\<rparr>) = dgl_inv s" "dgl_inv (s\<lparr>dgl_watch_addr := a\<rparr>) = dgl_inv s"
  "dgl_inv (s\<lparr>dgl_watch_name := t\<rparr>) = dgl_inv s" "dgl_inv (s\<lparr>dgl_filter := t\<rparr>) = dgl_inv s"
  "dgl_inv (s\<lparr>dgl_batt_reading := b\<rparr>) = dgl_inv s" "dgl_inv (s\<lparr>dgl_passkey_preset := c\<rparr>) = dgl_inv s"
  "dgl_inv (s\<lparr>dgl_passkey_pending := b\<rparr>) = dgl_inv s" "dgl_inv (s\<lparr>dgl_passkey_conn := h\<rparr>) = dgl_inv s"
  by (simp_all add: dgl_inv_def)

lemma dgl_inv_emit_move [simp]:
  "dgl_inv ((emit a s)\<lparr>dgl_state := l\<rparr>) = dgl_inv (s\<lparr>dgl_state := l\<rparr>)"
  "dgl_inv ((AT_Response t s)\<lparr>dgl_state := l\<rparr>) = dgl_inv (s\<lparr>dgl_state := l\<rparr>)"
  by (simp_all add: dgl_inv_def link_inv_defs scan_inv_def scan_addrs_def)

lemma start_connect_inv:
  assumes "dgl_inv s" shows "dgl_inv (dgl_start_connect s)"
proof -
  have "dgl_inv (s\<lparr>dgl_state := DGL_CONNECTING\<rparr>)" if "dgl_state s = DGL_IDLE"
    using assms that by (intro dgl_inv_move) (auto simp: linked_def)
  with assms show ?thesis by (simp add: dgl_start_connect_def Let_def)
qed

lemma queue_inv:
  "dgl_inv s \<Longrightarrow>
   dgl_inv (fold (\<lambda>q s. case q of Some g \<Rightarrow> dgl_process_gatt_msg E g s | None \<Rightarrow> s) queue s)"
  by (induction queue arbitrary: s) (auto simp: dispatch_inv split: option.splits)

lemma process_event_inv:
  assumes "dgl_inv s" shows "dgl_inv (snd (dgl_process_event E queue ev s))"
proof -
  have "dgl_inv (s\<lparr>dgl_state := DGL_IDLE\<rparr>)" if "dgl_state s = DGL_AUTOCONN \<or> dgl_state s = DGL_CONNECTING"
    using assms that by (intro dgl_inv_move) (auto simp: linked_def)
  with assms show ?thesis
    by (simp add: dgl_process_event_def Let_def call_def queue_inv auto_kick_inv svc_discovery_inv
        start_scan_inv start_connect_inv)
qed

section \<open>The callbacks keep the invariant\<close>

text \<open>
  The handle of an established link is a real one: the library never hands out the value that stands
  for no connection.
\<close>

fun real_handle :: "central_event \<Rightarrow> bool" where
  "real_handle (LinkEstablished st h) = (st = SUCCESS \<longrightarrow> h \<noteq> GAP_CONNHANDLE_INIT)"
| "real_handle _ = True"

lemma add_scan_rec_inv:
  assumes "dgl_inv s" "dgl_state s = DGL_SCANNING" "dgl_add_scan_rec addr ty rssi len d s = Some s'"
  shows "dgl_inv s'"
proof -
  have m: "link_inv (s\<lparr>dgl_state := DGL_IDLE\<rparr>)"
    using assms(1,2) by (intro unlinked_move) (auto simp: linked_def dgl_inv_def)
  have e: "link_inv (f s) = link_inv s" if "\<And>t. link_inv (f t) = link_inv t" for f :: "'a dongle_state_scheme \<Rightarrow> _"
    by (rule that)
  have "link_inv s'"
    using assms(1,3) m
    by (auto simp: dgl_add_scan_rec_def Let_def dgl_inv_def link_inv_defs split: option.splits if_splits)
  moreover have "scan_inv s'"
    using scan_inv_add [OF _ assms(3)] assms(1) by (simp add: dgl_inv_def)
  ultimately show ?thesis by (simp add: dgl_inv_def)
qed

lemma add_directed_inv: "dgl_inv s \<Longrightarrow> dgl_inv (dgl_add_directed addr ty rssi s)"
  using scan_inv_directed [of s addr ty rssi]
  by (auto simp: dgl_inv_def dgl_add_directed_def Let_def)

lemma scan_done_inv:
  assumes "dgl_inv s" shows "dgl_inv (dgl_scan_done s)"
proof -
  have "dgl_inv (t\<lparr>dgl_state := DGL_IDLE\<rparr>)" if "dgl_inv t" "dgl_state t = DGL_SCANNING"
    for t :: "'a dongle_state_scheme"
    using that by (intro dgl_inv_move) (auto simp: linked_def)
  with assms show ?thesis by (simp add: dgl_scan_done_def Let_def)
qed

lemma link_events_scan_inv [simp]:
  "scan_inv (dgl_link_up st h s) = scan_inv s" "scan_inv (dgl_link_down reason s) = scan_inv s"
  by (rule scan_inv_view, simp)+

lemma link_up_dgl_inv:
  assumes "dgl_inv s" "real_handle (LinkEstablished st h)"
  shows "dgl_inv (dgl_link_up st h s)"
proof (cases "st = SUCCESS")
  case True
  with assms show ?thesis by (simp add: dgl_inv_def link_up_inv)
next
  case False
  then have "dgl_link_up st h s = dgl_link_up st 0 s" by (simp add: dgl_link_up_def Let_def)
  with assms(1) show ?thesis by (simp add: dgl_inv_def link_up_inv GAP_CONNHANDLE_INIT_def)
qed

lemma link_down_dgl_inv: "dgl_inv s \<Longrightarrow> dgl_inv (dgl_link_down reason s)"
  by (simp add: dgl_inv_def link_down_inv)

lemma event_cb_inv:
  assumes "dgl_inv s" "real_handle e" "dgl_event_cb e s = Some s'"
  shows "dgl_inv s'"
proof (cases e)
  case (DeviceInfo addr ty rssi len d)
  let ?t = "DGL_DBG (''+BT_ADV:'' @ mac_hex addr @ '','' @ dec_int rssi @ '',len='' @ dec_nat (unat len)) s"
  have t: "dgl_inv ?t" "dgl_state ?t = dgl_state s" using assms(1) by simp_all
  show ?thesis
  proof (cases "dgl_state s = DGL_SCANNING")
    case True
    have "dgl_add_scan_rec addr ty rssi len d ?t = Some s'"
      using assms(3) True DeviceInfo by simp
    then show ?thesis by (rule add_scan_rec_inv [rotated 2]) (use t True in simp_all)
  qed (use assms DeviceInfo in auto)
qed (use assms in \<open>auto simp: add_directed_inv scan_done_inv link_up_dgl_inv link_down_dgl_inv\<close>)

lemma pair_cb_inv: "dgl_inv s \<Longrightarrow> dgl_inv (dgl_pair_state_cb ps status s)"
  by (simp add: dgl_pair_state_cb_def Let_def)

lemma passcode_cb_inv: "dgl_inv s \<Longrightarrow> dgl_inv (dgl_passcode_cb h s)"
  by (simp add: dgl_passcode_cb_def)

section \<open>The commands keep the invariant\<close>

lemma scan_cmd_inv: "dgl_inv s \<Longrightarrow> dgl_inv (snd (ble_dongle_scan sec f s))"
  by (simp add: ble_dongle_scan_def Let_def)

lemma commands_inv:
  assumes "dgl_inv s"
  shows "dgl_inv (snd (ble_dongle_connect_watch m a n t s))" "dgl_inv (snd (ble_dongle_connect i s))"
    "dgl_inv (snd (ble_dongle_disconnect s))" "dgl_inv (snd (ble_dongle_auto md s))"
    "dgl_inv (ble_dongle_forget_bonds s)" "dgl_inv (snd (ble_dongle_passkey c s))"
    "dgl_inv (snd (ble_dongle_batt_read E s))"
proof -
  show "dgl_inv (ble_dongle_forget_bonds s)"
    using assms by (simp add: ble_dongle_forget_bonds_def dgl_inv_def link_inv_defs DGL_AUTO_MAX_FAILS_def)
  show "dgl_inv (snd (ble_dongle_passkey c s))"
    using assms by (simp add: ble_dongle_passkey_def)
qed (use assms in \<open>simp_all add: ble_dongle_connect_watch_def ble_dongle_connect_def ble_dongle_disconnect_def
      ble_dongle_auto_def ble_dongle_batt_read_def Let_def call_def scan_cmd_inv\<close>)

section \<open>Reachable states\<close>

text \<open>
  \<open>dgl_local\<close> is what the program does by itself: its task, with any message queue, and the commands.
  \<open>dgl_step\<close> adds what the library calls back.
\<close>

inductive dgl_local :: "env \<Rightarrow> 'a dongle_state_scheme \<Rightarrow> 'a dongle_state_scheme \<Rightarrow> bool" for E where
  Task: "dgl_local E s (snd (dgl_process_event E queue ev s))"
| Scan: "dgl_local E s (snd (ble_dongle_scan sec f s))"
| Watch: "dgl_local E s (snd (ble_dongle_connect_watch m a n t s))"
| Connect: "dgl_local E s (snd (ble_dongle_connect i s))"
| Disconnect: "dgl_local E s (snd (ble_dongle_disconnect s))"
| Auto: "dgl_local E s (snd (ble_dongle_auto md s))"
| Forget: "dgl_local E s (ble_dongle_forget_bonds s)"
| Passkey: "dgl_local E s (snd (ble_dongle_passkey c s))"
| Battery: "dgl_local E s (snd (ble_dongle_batt_read E s))"

inductive dgl_step :: "env \<Rightarrow> 'a dongle_state_scheme \<Rightarrow> 'a dongle_state_scheme \<Rightarrow> bool" for E where
  Local: "dgl_local E s s' \<Longrightarrow> dgl_step E s s'"
| Event: "dgl_event_cb e s = Some s' \<Longrightarrow> real_handle e \<Longrightarrow> dgl_step E s s'"
| Pair: "dgl_step E s (dgl_pair_state_cb ps status s)"
| Passcode: "dgl_step E s (dgl_passcode_cb h s)"

inductive_cases dgl_localE: "dgl_local E s s'"
inductive_cases dgl_stepE: "dgl_step E s s'"

lemma local_inv: "dgl_local E s s' \<Longrightarrow> dgl_inv s \<Longrightarrow> dgl_inv s'"
  by (induction rule: dgl_local.induct) (simp_all add: process_event_inv scan_cmd_inv commands_inv)

lemma dgl_step_inv: "dgl_step E s s' \<Longrightarrow> dgl_inv s \<Longrightarrow> dgl_inv s'"
  by (induction rule: dgl_step.induct)
    (auto simp: pair_cb_inv passcode_cb_inv intro: local_inv event_cb_inv)

lemma steps_inv: "(dgl_step E)\<^sup>*\<^sup>* s s' \<Longrightarrow> dgl_inv s \<Longrightarrow> dgl_inv s'"
  by (induction rule: rtranclp_induct) (auto intro: dgl_step_inv)

lemma dgl_inv_start: "dgl_inv (dongle_start r)"
  by (simp add: dgl_inv_def link_inv_defs scan_inv_def scan_addrs_def dongle_start_def
      router_state.defs DGL_MAX_REPORTS_def DGL_MAX_CCCD_def DGL_MAX_SCAN_RES_def DGL_AUTO_MAX_FAILS_def)

text \<open>
  C8: The receiver keeps its bookkeeping straight.  From start-up, through any interleaving of link
  events, advertisements, GATT messages, pairing callbacks, timer events and AT commands: it holds a
  connection handle exactly when its state is CONNECTED or ARMED; a discovery of the keystroke service
  is in progress only while CONNECTED, one of the battery service only while ARMED; the counters of
  the report, descriptor and scan tables stay inside the tables, and the counter of failed
  reconnections below its limit; and no advertiser is listed twice.  Real connection handles are
  assumed of the library.
\<close>

theorem dongle_invariant:
  assumes "(dgl_step E)\<^sup>*\<^sup>* (dongle_start r) s"
  shows "(ble_dongle_connected s \<longleftrightarrow> dgl_state s \<in> {DGL_CONNECTED, DGL_ARMED}) \<and>
    (dgl_disc_state s \<in> {DISC_SVC, DISC_BOOT_CHAR, DISC_RPT_CHAR, DISC_PROTO_CHAR, DISC_CCCD} \<longrightarrow>
       dgl_state s = DGL_CONNECTED) \<and>
    (dgl_disc_state s \<in> {DISC_BATT_SVC, DISC_BATT_CHAR} \<longrightarrow> dgl_state s = DGL_ARMED) \<and>
    length (dgl_rpt_hdls s) = DGL_MAX_REPORTS \<and> dgl_rpt_count s \<le> DGL_MAX_REPORTS \<and>
    length (dgl_cccd_list s) = DGL_MAX_CCCD \<and> dgl_cccd_count s \<le> DGL_MAX_CCCD \<and>
    length (dgl_scan_list s) = DGL_MAX_SCAN_RES \<and> dgl_scan_count s \<le> DGL_MAX_SCAN_RES \<and>
    distinct (map r_addr (take (dgl_scan_count s) (dgl_scan_list s))) \<and>
    dgl_auto_fails s < DGL_AUTO_MAX_FAILS"
proof -
  have i: "link_inv s" "scan_inv s"
    using steps_inv [OF assms dgl_inv_start] by (simp_all add: dgl_inv_def)
  have d: "disc_phase (dgl_disc_state s) (dgl_state s)" using i(1) by (simp add: link_inv_def)
  have "dgl_disc_state s \<in> {DISC_SVC, DISC_BOOT_CHAR, DISC_RPT_CHAR, DISC_PROTO_CHAR, DISC_CCCD} \<longrightarrow>
       dgl_state s = DGL_CONNECTED" "dgl_disc_state s \<in> {DISC_BATT_SVC, DISC_BATT_CHAR} \<longrightarrow> dgl_state s = DGL_ARMED"
    using d by auto
  with i show ?thesis
    by (auto simp: link_inv_defs scan_inv_def scan_addrs_def ble_dongle_connected_def)
qed

text \<open>A receiver that has connected.\<close>

definition connected_dongle :: dongle_state where
  "connected_dongle =
     dgl_link_up SUCCESS 7 (dongle_start (router_start (demo_env MODE_DUAL) (demo_slots (demo_env MODE_DUAL))))"

theorem dongle_invariant_witness:
  "ble_dongle_connected connected_dongle \<and> dgl_state connected_dongle = DGL_CONNECTED"
proof -
  have "(dgl_step (demo_env MODE_DUAL))\<^sup>*\<^sup>*
     (dongle_start (router_start (demo_env MODE_DUAL) (demo_slots (demo_env MODE_DUAL)))) connected_dongle"
    unfolding connected_dongle_def
    by (rule r_into_rtranclp, rule dgl_step.Event [where e = "LinkEstablished SUCCESS 7"])
      (simp_all add: GAP_CONNHANDLE_INIT_def)
  from dongle_invariant [OF this]
  have "ble_dongle_connected connected_dongle \<longleftrightarrow> dgl_state connected_dongle \<in> {DGL_CONNECTED, DGL_ARMED}"
    by blast
  moreover have "dgl_state connected_dongle = DGL_CONNECTED"
    by (simp add: connected_dongle_def dgl_link_up_def Let_def)
  ultimately show ?thesis by simp
qed

section \<open>What reaches USB\<close>

text \<open>
  \<open>quiet s s'\<close>: nothing went to the keystroke endpoint, and the link state and the bookkeeping of the
  reconnection are as before.
\<close>

definition quiet_view where
  "quiet_view s = (usb_log s, dgl_state s, dgl_auto_fails s, dgl_auto_hold s)"

lemma quiet_AT_Response [simp]: "quiet_view (AT_Response t s) = quiet_view s"
  by (simp add: quiet_view_def usb_log_def)

lemma quiet_emit [simp]: "\<not> is_usb_report a \<Longrightarrow> quiet_view (emit a s) = quiet_view s"
  by (simp add: quiet_view_def usb_log_def)

lemma quiet_upd [simp]:
  "quiet_view (s\<lparr>dgl_disc_state := x\<rparr>) = quiet_view s" "quiet_view (s\<lparr>dgl_rpt_count := n\<rparr>) = quiet_view s"
  "quiet_view (s\<lparr>dgl_cccd_wr := n\<rparr>) = quiet_view s" "quiet_view (s\<lparr>dgl_proto_pending := b\<rparr>) = quiet_view s"
  "quiet_view (s\<lparr>dgl_batt_hdl := h\<rparr>) = quiet_view s" "quiet_view (s\<lparr>dgl_boot_hdl := h\<rparr>) = quiet_view s"
  "quiet_view (s\<lparr>dgl_proto_hdl := h\<rparr>) = quiet_view s" "quiet_view (s\<lparr>dgl_batt_reading := b\<rparr>) = quiet_view s"
  "quiet_view (s\<lparr>dgl_rd_idx := n\<rparr>) = quiet_view s" "quiet_view (s\<lparr>dgl_rpt_hdls := hs\<rparr>) = quiet_view s"
  "quiet_view (s\<lparr>dgl_cccd_count := n\<rparr>) = quiet_view s" "quiet_view (s\<lparr>dgl_cccd_list := hs\<rparr>) = quiet_view s"
  "quiet_view (s\<lparr>dgl_svc_start := h\<rparr>) = quiet_view s" "quiet_view (s\<lparr>dgl_svc_end := h\<rparr>) = quiet_view s"
  "quiet_view (s\<lparr>dgl_disc_retries := w\<rparr>) = quiet_view s"
  by (simp_all add: quiet_view_def usb_log_def)

lemma quiet_fold: "(\<And>x s. quiet_view (f x s) = quiet_view s) \<Longrightarrow> quiet_view (fold f xs s) = quiet_view s"
  by (induction xs arbitrary: s) auto

lemma quiet_collect [simp]:
  "quiet_view (bad_handle t h s) = quiet_view s" "quiet_view (dgl_dump_rbt_rsp t n l d s) = quiet_view s"
  "quiet_view (collect_report h s) = quiet_view s" "quiet_view (collect_cccd h s) = quiet_view s"
  "quiet_view (dgl_find_char u x s) = quiet_view s" "quiet_view (dgl_discovery_failed w s) = quiet_view s"
  "quiet_view (find_cccds s) = quiet_view s" "quiet_view (dgl_write_handle E h v l s) = quiet_view s"
  "quiet_view (take_service m s) = quiet_view s" "quiet_view (read_report s) = quiet_view s"
  "quiet_view (rd_advance txt s) = quiet_view s"
  by (simp_all add: bad_handle_def dgl_dump_rbt_rsp_def collect_report_def collect_cccd_def dgl_find_char_def
      dgl_discovery_failed_def find_cccds_def dgl_write_handle_def take_service_def call_def Let_def
      read_report_def rd_advance_def split: att_msg.splits list.splits)

lemma quiet_take [simp]:
  "(\<And>h s. quiet_view (f h s) = quiet_view s) \<Longrightarrow> quiet_view (take_handle tag f m s) = quiet_view s"
  by (simp add: take_handle_def Let_def split: att_msg.splits)

lemma quiet_all [simp]:
  "(\<And>h s. quiet_view (f h s) = quiet_view s) \<Longrightarrow> quiet_view (collect_all tag f m s) = quiet_view s"
  by (simp add: collect_all_def quiet_fold split: att_msg.splits)

lemma quiet_batt_char:
  "quiet_view (case m of ReadByTypeRsp num len d \<Rightarrow>
      if num > 0 \<and> in_service (dgl_rbt_vhandle len d 0) s
      then s\<lparr>dgl_batt_hdl := dgl_rbt_vhandle len d 0\<rparr> else s | _ \<Rightarrow> s) = quiet_view s"
  by (cases m) simp_all

lemma quiet_disc [simp]: "quiet_view (dgl_discovery_event E g s) = quiet_view s"
proof -
  have "quiet_view (disc_step E m c st t) = quiet_view t" for m c st and t :: "'a dongle_state_scheme"
    by (simp add: disc_step_def disc_defs Let_def quiet_batt_char split: dgl_disc.splits)
  then show ?thesis by (simp add: dgl_discovery_event_def Let_def split: att_msg.splits)
qed

text \<open>What a message makes of the link, the counters of failures and the keystroke endpoint.\<close>

definition forwarded :: "gatt_msg \<Rightarrow> 'a dongle_state_scheme \<Rightarrow> act list" where
  "forwarded g s =
     (case g_msg g of
        HandleValueNoti h l r \<Rightarrow>
          if dgl_state s = DGL_ARMED \<and> (h = dgl_boot_hdl s \<or> h \<in> set (take (dgl_rpt_count s) (dgl_rpt_hdls s))) \<and>
             8 \<le> l
          then [UsbReport (r 0 # 0 # map r [2..<8])] else []
      | _ \<Rightarrow> [])"

lemma write_next_usb [simp]: "usb_log (dgl_cccd_write_next E s) = usb_log s"
proof -
  have v: "usb_log t = usb_log u" if "quiet_view t = quiet_view u" for t u :: "'a dongle_state_scheme"
    using that by (simp add: quiet_view_def)
  show ?thesis
  proof (cases "dgl_proto_pending s \<or> dgl_cccd_wr s + 1 < dgl_cccd_count s")
    case True
    then show ?thesis by (intro v) (auto simp: dgl_cccd_write_next_def Let_def)
  next
    case False
    then show ?thesis by (simp add: dgl_cccd_write_next_def Let_def read_report_def usb_log_def)
  qed
qed

lemma quiet_usb: "quiet_view t = quiet_view u \<Longrightarrow> usb_log t = usb_log u"
  by (simp add: quiet_view_def)

lemmas disc_usb = quiet_disc [THEN quiet_usb] quiet_collect(11) [THEN quiet_usb]

lemma usb_log_cent [simp]:
  "usb_log (emit BmFree s) = usb_log s" "usb_log (t\<lparr>dgl_batt_reading := b\<rparr>) = usb_log t"
  by (simp_all add: usb_log_def)

lemma forward_usb:
  "usb_log (dgl_forward h l r s) = usb_log s @
     (if (h = dgl_boot_hdl s \<or> h \<in> set (take (dgl_rpt_count s) (dgl_rpt_hdls s))) \<and> 8 \<le> l
      then [UsbReport (r 0 # 0 # map r [2..<8])] else [])"
proof -
  have "[0..<6] = [0, 1, 2, 3, 4, 5 :: nat]" by (simp add: upt_rec)
  then show ?thesis
    by (simp add: dgl_forward_def Let_def kb_usb_send_report_def report_bytes_def usb_log_def)
qed

text \<open>
  C9: What the receiver types.  A message of the GATT client reaches the keystroke endpoint exactly
  when it is a notification of at least eight bytes, on an armed link, from the boot input handle or
  one of the discovered report handles; then exactly one report is sent: the notified modifiers, a
  zero, and the six notified key codes.  Responses, errors, notifications of other characteristics,
  and everything received before the link is armed send nothing.
\<close>

theorem dongle_forwards_exactly:
  "usb_log (dgl_process_gatt_msg E g s) = usb_log s @ forwarded g s"
  by (cases "g_msg g")
    (simp_all add: dgl_process_gatt_msg_def dgl_dispatch_def forwarded_def forward_usb disc_usb Let_def)

section \<open>Giving up\<close>

text \<open>
  An unattended receiver: its reconnection timer, attempts that succeed or fail, discovery, messages
  that do not arm the link, and links that are lost before they are armed.  The number counts the
  failures.
\<close>

inductive unattended ::
  "env \<Rightarrow> nat \<Rightarrow> 'a dongle_state_scheme \<Rightarrow> 'a dongle_state_scheme \<Rightarrow> bool" for E where
  Start: "unattended E 0 s s"
| Kick: "unattended E n s t \<Longrightarrow> unattended E n s (snd (dgl_process_event E queue DGL_AUTO_EVT t))"
| Up: "unattended E n s t \<Longrightarrow> dgl_state t = DGL_AUTOCONN \<Longrightarrow> unattended E n s (dgl_link_up SUCCESS h t)"
| Refused: "unattended E n s t \<Longrightarrow> dgl_state t = DGL_AUTOCONN \<Longrightarrow> st \<noteq> SUCCESS \<Longrightarrow>
    unattended E (Suc n) s (dgl_link_up st h t)"
| Discover: "unattended E n s t \<Longrightarrow> dgl_state t = DGL_CONNECTED \<Longrightarrow>
    unattended E n s (snd (dgl_process_event E queue DGL_SVC_DISC_EVT t))"
| Message: "unattended E n s t \<Longrightarrow> dgl_state (dgl_process_gatt_msg E g t) \<noteq> DGL_ARMED \<Longrightarrow>
    unattended E n s (dgl_process_gatt_msg E g t)"
| Lost: "unattended E n s t \<Longrightarrow> dgl_state t = DGL_CONNECTED \<Longrightarrow>
    unattended E (Suc n) s (dgl_link_down reason t)"

definition counting :: "nat \<Rightarrow> 'a dongle_state_scheme \<Rightarrow> bool" where
  "counting n s =
     (if n < 5 then dgl_state s \<in> {DGL_IDLE, DGL_AUTOCONN, DGL_CONNECTED} \<and> \<not> dgl_auto_hold s \<and> dgl_auto_fails s = of_nat n
      else n = 5 \<and> dgl_auto_hold s \<and> dgl_state s = DGL_IDLE)"

lemma counting_quiet: "quiet_view s' = quiet_view s \<Longrightarrow> counting n s \<Longrightarrow> counting n s'"
  by (auto simp: counting_def quiet_view_def split: if_splits)

lemma counting_idle: "counting n s \<Longrightarrow> counting n ((emit a s)\<lparr>dgl_state := DGL_IDLE\<rparr>)"
  by (auto simp: counting_def split: if_splits)

lemma auto_event: "snd (dgl_process_event E queue DGL_AUTO_EVT s) =
   (if dgl_state s = DGL_AUTOCONN \<and> (\<not> dgl_auto s \<or> dgl_auto_hold s)
    then AT_Response ''+BT_AUTO: aborted'' ((emit (Terminate INVALID_CONNHANDLE) s)\<lparr>dgl_state := DGL_IDLE\<rparr>)
    else dgl_auto_kick E s)"
  by (simp add: dgl_process_event_def DGL_AUTO_EVT_def SYS_EVENT_MSG_def DGL_START_DEVICE_EVT_def
      DGL_SVC_DISC_EVT_def)

lemma disc_event: "snd (dgl_process_event E queue DGL_SVC_DISC_EVT s) =
   (if dgl_state s = DGL_CONNECTED \<and> dgl_disc_state s = DISC_IDLE then dgl_start_svc_discovery E s else s)"
  by (simp add: dgl_process_event_def SYS_EVENT_MSG_def DGL_START_DEVICE_EVT_def DGL_SVC_DISC_EVT_def)

lemma kick_hold [simp]: "dgl_auto_hold s \<Longrightarrow> dgl_auto_kick E s = s"
  by (simp add: dgl_auto_kick_def Let_def)

lemma counting_kick: "counting n s \<Longrightarrow> counting n (dgl_auto_kick E s)"
  by (cases "n < 5") (auto simp: counting_def dgl_auto_kick_def Let_def call_def split: option.splits)

lemma counting_up: "counting n s \<Longrightarrow> dgl_state s = DGL_AUTOCONN \<Longrightarrow> counting n (dgl_link_up SUCCESS h s)"
  by (auto simp: counting_def dgl_link_up_def Let_def dgl_reset_link_state_def split: if_splits)

lemma fail_count_counts:
  assumes "counting n s" "dgl_state t = DGL_IDLE" "dgl_auto_fails t = dgl_auto_fails s"
    "dgl_auto_hold t = dgl_auto_hold s" "n < 5"
  shows "counting (Suc n) (dgl_auto_fail_count t)"
proof -
  have "n \<in> {0, 1, 2, 3, 4}" using assms(5) by auto
  with assms show ?thesis
    by (auto simp: counting_def dgl_auto_fail_count_def Let_def DGL_AUTO_MAX_FAILS_def word_le_nat_alt)
qed

lemma counting_emit [simp]: "counting n (emit a s) = counting n s"
  by (simp add: counting_def)

lemma counting_fail:
  assumes "counting n s" "dgl_state s = DGL_AUTOCONN \<or> dgl_state s = DGL_CONNECTED"
  shows "st \<noteq> SUCCESS \<Longrightarrow> counting (Suc n) (dgl_link_up st h s)" "counting (Suc n) (dgl_link_down reason s)"
proof -
  have n: "n < 5" using assms by (auto simp: counting_def split: if_splits)
  { assume "st \<noteq> SUCCESS"
    then show "counting (Suc n) (dgl_link_up st h s)"
      by (simp add: dgl_link_up_def Let_def)
        (rule fail_count_counts [OF assms(1) _ _ _ n], simp_all add: dgl_reset_link_state_def) }
  show "counting (Suc n) (dgl_link_down reason s)"
    using assms(2)
    by (auto simp: dgl_link_down_def Let_def)
      (rule fail_count_counts [OF assms(1) _ _ _ n], simp_all add: dgl_reset_link_state_def)+
qed

lemma quiet_discovery [simp]: "quiet_view (dgl_start_svc_discovery E s) = quiet_view s"
  by (simp add: dgl_start_svc_discovery_def Let_def call_def)

lemma dispatch_quiet_or_armed:
  assumes "dgl_state s \<noteq> DGL_ARMED"
  shows "quiet_view (dgl_process_gatt_msg E g s) = quiet_view s \<or> dgl_state (dgl_process_gatt_msg E g s) = DGL_ARMED"
proof -
  have w: "quiet_view (dgl_cccd_write_next E s) = quiet_view s \<or> dgl_state (dgl_cccd_write_next E s) = DGL_ARMED"
    for s :: "'a dongle_state_scheme"
    by (simp add: dgl_cccd_write_next_def Let_def read_report_def)
  show ?thesis
    using assms w [of s] w [of "DGL_DBG t s" for t]
    by (cases "g_msg g") (auto simp: dgl_process_gatt_msg_def dgl_dispatch_def Let_def)
qed

lemma unattended_counting:
  assumes "unattended E n s t" "dgl_state s = DGL_IDLE" "dgl_auto_fails s = 0" "\<not> dgl_auto_hold s"
  shows "counting n t"
  using assms
proof (induction)
  case (Start s)
  then show ?case by (simp add: counting_def)
next
  case (Kick n s t)
  then have c: "counting n t" by blast
  then have "counting n (AT_Response x ((emit a t)\<lparr>dgl_state := DGL_IDLE\<rparr>))" for x a
    using counting_quiet [OF quiet_AT_Response] counting_idle by blast
  with c show ?case by (simp add: auto_event counting_kick)
next
  case (Message n s t g)
  then have c: "counting n t" by blast
  then have "dgl_state t \<noteq> DGL_ARMED" by (auto simp: counting_def split: if_splits)
  with dispatch_quiet_or_armed [of t E g] Message(2) have "quiet_view (dgl_process_gatt_msg E g t) = quiet_view t"
    by blast
  then show ?case using c by (rule counting_quiet)
next
  case (Discover n s t queue)
  then show ?case using counting_quiet [OF quiet_discovery] by (auto simp: disc_event)
qed (auto simp: counting_up counting_fail)

text \<open>
  C32: The receiver gives up.  Left alone from idle with a clean counter, whatever the library answers,
  it sees at most five failures: attempts that are refused and links lost before they were armed
  count alike.  After the fifth it is idle and on hold, and its timer starts no further attempt.
\<close>

theorem auto_gives_up:
  assumes "unattended E n s t" "dgl_state s = DGL_IDLE" "dgl_auto_fails s = 0" "\<not> dgl_auto_hold s"
  shows "n \<le> 5 \<and>
    (n = 5 \<longrightarrow> dgl_auto_hold t \<and> dgl_state t = DGL_IDLE \<and>
       snd (dgl_process_event E queue DGL_AUTO_EVT t) = t)"
proof -
  have "counting n t" by (rule unattended_counting [OF assms])
  then show ?thesis by (auto simp: counting_def auto_event split: if_splits)
qed

theorem auto_gives_up_witness:
  "let E = demo_env MODE_DUAL; kick = \<lambda>s. snd (dgl_process_event E [] DGL_AUTO_EVT s);
       fail = \<lambda>s. dgl_link_up 0x3E 0 (kick s);
       s = dongle_start (router_start E (demo_slots E))
   in dgl_auto_hold (fail (fail (fail (fail (fail s))))) \<and>
      kick (fail (fail (fail (fail (fail s))))) = fail (fail (fail (fail (fail s))))"
proof -
  define E where "E = demo_env MODE_DUAL"
  define kick where "kick = (\<lambda>s :: dongle_state. snd (dgl_process_event E [] DGL_AUTO_EVT s))"
  define fail where "fail = (\<lambda>s. dgl_link_up 0x3E 0 (kick s))"
  define s where "s = dongle_start (router_start E (demo_slots E))"
  have k: "dgl_state (kick t) = DGL_AUTOCONN"
    if "dgl_state t = DGL_IDLE" "dgl_auto t" "\<not> dgl_auto_hold t" for t
    using that by (simp add: kick_def auto_event dgl_auto_kick_def Let_def call_def E_def demo_env_def)
  have step: "unattended E (Suc n) s (fail t)"
    if "unattended E n s t" "dgl_state t = DGL_IDLE" "dgl_auto t" "\<not> dgl_auto_hold t" for n t
    unfolding fail_def using that k [OF that(2-4)]
    by (intro unattended.Refused) (auto simp: kick_def intro: unattended.Kick)
  have f: "dgl_state (fail t) = DGL_IDLE" "dgl_auto (fail t) = dgl_auto t" for t
    by (simp_all add: fail_def dgl_link_up_def Let_def dgl_reset_link_state_def kick_def auto_event
        dgl_auto_kick_def call_def split: option.splits)
  have s: "dgl_state s = DGL_IDLE" "dgl_auto_fails s = 0" "\<not> dgl_auto_hold s" "dgl_auto s"
    by (simp_all add: s_def dongle_start_def router_state.defs)
  have h: "\<not> dgl_auto_hold t" if "unattended E n s t" "n < 5" for n t
    using unattended_counting [OF that(1) s(1,2,3)] that(2) by (simp add: counting_def)
  have u0: "unattended E 0 s s" by (rule unattended.Start)
  have u: "unattended E 1 s (fail s)" using step [OF u0] s by simp
  have u: "unattended E 2 s (fail (fail s))" using step [OF u] f s h [OF u] by (simp add: numeral_2_eq_2)
  have u: "unattended E 3 s (fail (fail (fail s)))" using step [OF u] f s h [OF u] by simp
  have u: "unattended E 4 s (fail (fail (fail (fail s))))" using step [OF u] f s h [OF u] by simp
  have u: "unattended E 5 s (fail (fail (fail (fail (fail s)))))" using step [OF u] f s h [OF u] by simp
  from auto_gives_up [OF this s(1,2,3), of "[]"] show ?thesis
    by (simp add: Let_def kick_def fail_def E_def s_def)
qed

section \<open>A refused scan\<close>

text \<open>
  While SCANNING the program itself never leaves the state: only the library's report of a finished
  discovery, a match of the watcher, or a link event does.
\<close>

lemma dispatch_scanning:
  assumes "dgl_inv s" "dgl_state s = DGL_SCANNING" shows "dgl_process_gatt_msg E g s = emit BmFree
    (case g_msg g of
       ErrorRsp err h \<Rightarrow> if dgl_batt_reading s
         then AT_Response (''+BT_BATT: err '' @ hex02 err) (s\<lparr>dgl_batt_reading := False\<rparr>) else s
     | ReadRsp l r \<Rightarrow> if dgl_batt_reading s
         then AT_Response (''+BT_BATT: '' @ dec_nat (unat (r 0)) @ ''%'') (s\<lparr>dgl_batt_reading := False\<rparr>) else s
     | _ \<Rightarrow> s)"
proof -
  have "dgl_disc_state s = DISC_IDLE"
    using idle_disc [of s] assms by (simp add: dgl_inv_def linked_def)
  with assms(2) show ?thesis
    by (cases "g_msg g") (simp_all add: dgl_process_gatt_msg_def dgl_dispatch_def Let_def)
qed

lemma queue_scanning:
  "dgl_inv s \<Longrightarrow> dgl_state s = DGL_SCANNING \<Longrightarrow>
   dgl_state (fold (\<lambda>q s. case q of Some g \<Rightarrow> dgl_process_gatt_msg E g s | None \<Rightarrow> s) queue s) = DGL_SCANNING"
proof (induction queue arbitrary: s)
  case (Cons q queue)
  show ?case
  proof (cases q)
    case (Some g)
    have "dgl_state (dgl_process_gatt_msg E g s) = DGL_SCANNING"
      using dispatch_scanning [OF Cons.prems, of E g] Cons.prems(2) by (simp split: att_msg.splits)
    with Cons Some show ?thesis by (simp add: dispatch_inv)
  qed (use Cons in simp)
qed simp

lemma local_scanning:
  assumes "dgl_local E s s'" "dgl_inv s" "dgl_state s = DGL_SCANNING"
  shows "dgl_state s' = DGL_SCANNING"
  using assms
proof cases
  case (Task queue ev)
  with assms(2,3) show ?thesis
    by (simp add: dgl_process_event_def Let_def call_def queue_scanning dgl_auto_kick_def
        dgl_start_scan_def dgl_start_connect_def)
qed (use assms in \<open>simp_all add: ble_dongle_scan_def ble_dongle_connect_watch_def ble_dongle_connect_def
      ble_dongle_disconnect_def ble_dongle_auto_def ble_dongle_forget_bonds_def ble_dongle_passkey_def
      ble_dongle_batt_read_def Let_def\<close>)

lemma locals_scanning:
  assumes "(dgl_local E)\<^sup>*\<^sup>* s s'" "dgl_inv s" "dgl_state s = DGL_SCANNING"
  shows "dgl_inv s' \<and> dgl_state s' = DGL_SCANNING"
  using assms(1)
proof (induction rule: rtranclp_induct)
  case base
  show ?case using assms(2,3) by simp
next
  case (step t u)
  then show ?case by (blast intro: local_inv local_scanning)
qed

text \<open>
  A refused scan wedges the receiver.  Whatever status \<open>st\<close> the library gives for the start of
  the discovery, it is printed and the state becomes SCANNING; from there nothing the program does by
  itself, no timer and no command, leads out: the state stays SCANNING, and scanning, connecting and
  watching are all refused.  After a refused start no scan is running, so the library has nothing to
  report either.
\<close>

theorem scan_failure_wedges:
  assumes "(dgl_step E)\<^sup>*\<^sup>* (dongle_start r) s" "dgl_state s = DGL_IDLE" "dgl_pend_scan_sec s \<ge> 0"
    and "\<And>log. stat E log (Cent StartDiscovery) = st"
    and "(dgl_local E)\<^sup>*\<^sup>* (dgl_start_scan E s) s'"
  shows "Resp (''+BT: disc start '' @ dec_nat (unat st)) \<in> set (outs (dgl_start_scan E s)) \<and>
    dgl_state s' = DGL_SCANNING \<and> fst (ble_dongle_scan sec f s') = -1 \<and>
    fst (ble_dongle_connect i s') = -1 \<and> fst (ble_dongle_connect_watch m a nm t s') = -1"
proof -
  have "dgl_inv s" using steps_inv [OF assms(1) dgl_inv_start] .
  then have i: "dgl_inv (dgl_start_scan E s)" by (rule start_scan_inv)
  have sc: "dgl_state (dgl_start_scan E s) = DGL_SCANNING"
    using assms(2,3) by (simp add: dgl_start_scan_def Let_def call_def)
  have "Resp (''+BT: disc start '' @ dec_nat (unat st)) \<in> set (outs (dgl_start_scan E s))"
    using assms(2-4) by (simp add: dgl_start_scan_def Let_def call_def)
  with locals_scanning [OF assms(5) i sc] show ?thesis
    by (simp add: ble_dongle_scan_def ble_dongle_connect_def ble_dongle_connect_watch_def)
qed

text \<open>A library that refuses every discovery, and a receiver asked to scan and then asked again.\<close>

definition refusing_env :: env where
  "refusing_env = (demo_env MODE_DUAL)\<lparr>stat := \<lambda>_ a. if a = Cent StartDiscovery then 0x11 else 0\<rparr>"

definition wedged :: dongle_state where
  "wedged = dgl_start_scan refusing_env
     (snd (ble_dongle_scan 5 None (dongle_start (router_start refusing_env (demo_slots refusing_env)))))"

theorem scan_failure_wedges_witness:
  "dgl_state (snd (ble_dongle_disconnect wedged)) = DGL_SCANNING \<and>
   fst (ble_dongle_scan 5 None (snd (ble_dongle_disconnect wedged))) = -1"
proof -
  let ?init = "dongle_start (router_start refusing_env (demo_slots refusing_env))"
  let ?s = "snd (ble_dongle_scan 5 None ?init)"
  have r: "(dgl_step refusing_env)\<^sup>*\<^sup>* ?init ?s"
    by (rule r_into_rtranclp, rule dgl_step.Local, rule dgl_local.Scan)
  have i: "dgl_state ?s = DGL_IDLE" "dgl_pend_scan_sec ?s \<ge> 0"
    by (simp_all add: ble_dongle_scan_def dongle_start_def router_state.defs Let_def int8_of_def)
  have st: "stat refusing_env log (Cent StartDiscovery) = 0x11" for log
    by (simp add: refusing_env_def)
  have l: "(dgl_local refusing_env)\<^sup>*\<^sup>* (dgl_start_scan refusing_env ?s) (snd (ble_dongle_disconnect wedged))"
    unfolding wedged_def by (rule r_into_rtranclp, rule dgl_local.Disconnect)
  show ?thesis using scan_failure_wedges [OF r i st l] by blast
qed

end
