(* ===== verification/Esp_Str.thy ===== *)
theory Esp_Str
  imports CString
begin

text \<open>
  The string helpers of the ESP32 sketch (\<open>src/esp32/arduino/arduino.ino\<close>): \<open>parse_uint8\<close>,
  \<open>url_decode\<close> and \<open>query_get\<close>, over the operations of Arduino's \<open>String\<close> that the sketch calls.
  A \<open>String\<close> is a character list with a length of its own; \<open>indexOf\<close> and \<open>c_str\<close> work on the C
  string inside it, that is up to the first NUL.  The theory shows that \<open>url_decode\<close> undoes
  percent encoding and that \<open>query_get\<close> is the look-up of a key in a list of \<open>k=v\<close> pairs.
\<close>

section \<open>Arduino strings\<close>

definition starts_with :: "string \<Rightarrow> string \<Rightarrow> bool" where
  "starts_with p s = (take (length p) s = p)"

fun find_sub :: "string \<Rightarrow> string \<Rightarrow> nat option" where
  "find_sub p [] = (if p = [] then Some 0 else None)"
| "find_sub p (c # cs) =
     (if starts_with p (c # cs) then Some 0 else map_option Suc (find_sub p cs))"

text \<open>\<open>s.indexOf (p, from)\<close>; the value -1 is \<open>None\<close>.\<close>

definition index_of :: "string \<Rightarrow> string \<Rightarrow> nat \<Rightarrow> nat option" where
  "index_of s p i =
     (if i \<ge> length s then None else map_option (\<lambda>j. i + j) (find_sub p (cstr_at s i)))"

fun last_pos :: "char \<Rightarrow> string \<Rightarrow> nat option" where
  "last_pos c [] = None"
| "last_pos c (x # xs) =
     (case last_pos c xs of Some j \<Rightarrow> Some (Suc j) | None \<Rightarrow> if x = c then Some 0 else None)"

text \<open>\<open>s.lastIndexOf (c)\<close>, \<open>s.substring (l, r)\<close>, \<open>s.substring (l)\<close> and \<open>s.trim ()\<close>.\<close>

definition last_index_of :: "string \<Rightarrow> char \<Rightarrow> nat option" where
  "last_index_of s c = last_pos c (cstr_at s 0)"

definition substr :: "string \<Rightarrow> nat \<Rightarrow> nat \<Rightarrow> string" where
  "substr s l r =
     (let a = min l r; b = max l r
      in if a \<ge> length s then [] else take (min b (length s) - a) (drop a s))"

definition substr_from :: "string \<Rightarrow> nat \<Rightarrow> string" where
  "substr_from s l = substr s l (length s)"

definition trim :: "string \<Rightarrow> string" where
  "trim s = rev (dropWhile is_space (rev (dropWhile is_space s)))"

text \<open>\<open>s.toInt ()\<close> is \<open>atol\<close>, whose \<open>long\<close> has 32 bits on the ESP32.\<close>

definition to_int :: "string \<Rightarrow> int" where
  "to_int s = (if s = [] then 0 else atoi s)"

text \<open>\<open>strtoul (s, NULL, 16)\<close>.\<close>

definition strtoul16 :: "string \<Rightarrow> u32" where
  "strtoul16 s =
     (let t = dropWhile is_space s;
          neg = (t \<noteq> [] \<and> hd t = CHR ''-'');
          u = (if t \<noteq> [] \<and> (hd t = CHR ''-'' \<or> hd t = CHR ''+'') then tl t else t);
          v = (if 2 < length u \<and> u ! 0 = CHR ''0'' \<and> to_lower (u ! 1) = CHR ''x''
                  \<and> hex_digit_value (u ! 2) \<noteq> None
               then base_value 16 0 (drop 2 u)
               else base_value 16 0 u)
      in if v \<ge> 2 ^ 32 then 0xFFFFFFFF
         else if neg then - of_nat v else of_nat v)"

definition parse_uint8 :: "string \<Rightarrow> u8" where
  "parse_uint8 s = (if s = [] then 0 else ucast (strtoul0 s))"

section \<open>URL queries\<close>

fun url_decode :: "string \<Rightarrow> string" where
  "url_decode [] = []"
| "url_decode (c # s) =
     (if c = CHR ''%'' \<and> 2 \<le> length s
      then char_of_byte (ucast (strtoul16 (take 2 s))) # url_decode (drop 2 s)
      else if c = CHR ''+'' then CHR '' '' # url_decode s
      else c # url_decode s)"

definition query_get :: "string \<Rightarrow> string \<Rightarrow> string" where
  "query_get q key =
     (let k = key @ ''='';
          here = (case index_of q k 0 of
                    None \<Rightarrow> None
                  | Some i \<Rightarrow> if i > 0 \<and> q ! (i - 1) \<noteq> CHR ''&'' then None else Some i);
          pos = (case here of
                   Some i \<Rightarrow> Some i
                 | None \<Rightarrow> map_option (\<lambda>i. i + 1) (index_of q (CHR ''&'' # k) 0))
      in case pos of
           None \<Rightarrow> []
         | Some i \<Rightarrow>
             let start = i + length k
             in case index_of q ''&'' start of
                  Some amp \<Rightarrow> if amp > 0 then url_decode (substr q start amp)
                              else url_decode (substr_from q start)
                | None \<Rightarrow> url_decode (substr_from q start))"

section \<open>Requests and comma lists\<close>

text \<open>
  A request of the web server as its arguments in order: \<open>arg\<close> is the first one with the name and
  empty when there is none, \<open>hasArg\<close> tells the two apart.  A response is a status and a body.
\<close>

type_synonym http_req = "(string \<times> string) list"
type_synonym http_resp = "nat \<times> string"

definition http_arg :: "http_req \<Rightarrow> string \<Rightarrow> string" where
  "http_arg r k = (case map_of r k of None \<Rightarrow> [] | Some v \<Rightarrow> v)"

definition http_has :: "http_req \<Rightarrow> string \<Rightarrow> bool" where
  "http_has r k = (map_of r k \<noteq> None)"

text \<open>
  The loop by which \<open>AT+KEY_SEQ\<close>, \<open>AT+IR=RAW\<close> and \<open>ir/send\<close> cut a text at its commas, at most \<open>n\<close>
  parts.  A comma at index 0 does not cut: that part is the whole text.
\<close>

fun comma_parts :: "nat \<Rightarrow> string \<Rightarrow> nat \<Rightarrow> string list" where
  "comma_parts 0 s start = []"
| "comma_parts (Suc n) s start =
     (case index_of s '','' start of
        Some comma \<Rightarrow>
          (if comma > 0 then substr s start comma else substr_from s start)
            # comma_parts n s (comma + 1)
      | None \<Rightarrow> [substr_from s start])"

section \<open>Searching\<close>

lemma starts_with_Cons: "starts_with (a # p) s = (\<exists>t. s = a # t \<and> starts_with p t)"
  by (cases s) (auto simp: starts_with_def)

lemma starts_with_append [simp]: "starts_with p (p @ s)"
  by (simp add: starts_with_def)

lemma starts_with_iff: "starts_with p s = (\<exists>t. s = p @ t)"
  by (metis append_take_drop_id starts_with_append starts_with_def)

lemma find_sub_Some:
  assumes "p \<noteq> []"
  shows "find_sub p s = Some i \<longleftrightarrow>
    starts_with p (drop i s) \<and> (\<forall>j<i. \<not> starts_with p (drop j s))"
proof (induction s arbitrary: i)
  case Nil
  with assms show ?case by (simp add: starts_with_def)
next
  case (Cons c cs)
  show ?case
  proof (cases i)
    case 0
    then show ?thesis by (auto simp: option.map_sel)
  next
    case (Suc n)
    have "(\<forall>j<Suc n. \<not> starts_with p (drop j (c # cs))) \<longleftrightarrow>
      \<not> starts_with p (c # cs) \<and> (\<forall>j<n. \<not> starts_with p (drop j cs))"
      using All_less_Suc2 [of n "\<lambda>j. \<not> starts_with p (drop j (c # cs))"] by simp
    with Suc Cons.IH [of n] show ?thesis by auto
  qed
qed

lemma find_sub_None:
  assumes "p \<noteq> []"
  shows "find_sub p s = None \<longleftrightarrow> (\<forall>j. \<not> starts_with p (drop j s))"
proof (induction s)
  case Nil
  with assms show ?case by (simp add: starts_with_def)
next
  case (Cons c cs)
  have "(\<forall>j. \<not> starts_with p (drop j (c # cs))) \<longleftrightarrow>
    \<not> starts_with p (c # cs) \<and> (\<forall>j. \<not> starts_with p (drop j cs))"
    by (metis drop0 drop_Suc_Cons not0_implies_Suc)
  with Cons.IH show ?case by simp
qed

lemma cstr_at_nul_free: "NUL \<notin> set s \<Longrightarrow> cstr_at s i = drop i s"
  unfolding cstr_at_def by (rule takeWhile_all) (auto dest: in_set_dropD)

lemma index_of_nul_free:
  assumes "NUL \<notin> set s" "p \<noteq> []"
  shows "index_of s p i = map_option (\<lambda>j. i + j) (find_sub p (drop i s))"
  using assms by (simp add: index_of_def cstr_at_nul_free)

lemma substr_from_drop [simp]: "substr_from s l = drop l s"
  by (auto simp: substr_from_def substr_def Let_def min_def max_def)

lemma find_sub_char:
  "find_sub [c] s = (if c \<in> set s then Some (length (takeWhile (\<lambda>x. x \<noteq> c) s)) else None)"
  by (induction s) (auto simp: starts_with_def)

lemma substr_takeWhile:
  assumes "find_sub [c] (drop l s) = Some j"
  shows "substr s l (l + j) = takeWhile (\<lambda>x. x \<noteq> c) (drop l s)"
proof -
  from assms have c: "c \<in> set (drop l s)" and j: "j = length (takeWhile (\<lambda>x. x \<noteq> c) (drop l s))"
    by (auto simp: find_sub_char split: if_splits)
  from c have "drop l s \<noteq> []" by auto
  then have l: "l < length s" by simp
  have jl: "l + j \<le> length s"
    using length_takeWhile_le [of "\<lambda>x. x \<noteq> c" "drop l s"] l j by simp
  have "substr s l (l + j) = take j (drop l s)"
    using l jl by (simp add: substr_def Let_def)
  also have "\<dots> = takeWhile (\<lambda>x. x \<noteq> c) (drop l s)"
    unfolding j by (metis takeWhile_eq_take)
  finally show ?thesis .
qed

section \<open>Decimal arguments\<close>

lemma digit_value: "is_digit c \<Longrightarrow> hex_digit_value c = Some (cc c - 48) \<and> cc c - 48 < 10"
  by (auto simp: is_digit_def hex_digit_value_def)

lemma base_value_digits:
  assumes "set ds \<subseteq> Collect is_digit" "r = [] \<or> hex_digit_value (hd r) = None"
  shows "base_value 10 acc (ds @ r) = dec_value acc ds"
  using assms(1)
proof (induction ds arbitrary: acc)
  case Nil
  then show ?case using assms(2) by (cases r) auto
next
  case (Cons d ds)
  with digit_value [of d] show ?case by auto
qed

lemma dec_nat_hd_zero: "hd (dec_nat n) = CHR ''0'' \<Longrightarrow> n = 0"
proof (induction n rule: dec_nat.induct)
  case (1 n)
  show ?case
  proof (cases "n < 10")
    case True
    then have "cc (hd (dec_nat n)) = 48 + n"
      by (subst dec_nat.simps) (simp add: cc_digit_char)
    with 1 show ?thesis by (simp add: cc_def)
  next
    case False
    then have "hd (dec_nat n) = hd (dec_nat (n div 10))"
      by (subst dec_nat.simps) (simp add: dec_nat_nonempty)
    with 1 False show ?thesis by simp
  qed
qed

lemma to_int_dec_nat: "n \<le> 2147483647 \<Longrightarrow> to_int (dec_nat n) = int n"
  by (simp add: to_int_def dec_nat_nonempty atoi_dec_nat)

lemma digit_not_sign: "is_digit c \<Longrightarrow> \<not> is_space c \<and> c \<noteq> CHR ''-'' \<and> c \<noteq> CHR ''+''
    \<and> c \<noteq> CHR '','' \<and> c \<noteq> NUL \<and> to_lower c \<noteq> CHR ''x''"
  by (auto simp: is_digit_def is_space_def cc_def to_lower_def)

lemma strtoul0_dec_nat:
  assumes n: "n < 2 ^ 32" and r: "r = [] \<or> hd r = CHR '',''"
  shows "strtoul0 (dec_nat n @ r) = of_nat n"
proof -
  obtain d ds where ds: "dec_nat n = d # ds"
    using dec_nat_nonempty by (cases "dec_nat n") auto
  have dig: "is_digit d" "set ds \<subseteq> Collect is_digit"
    using dec_nat_digits [of n] by (auto simp: ds)
  have comma: "hex_digit_value CHR '','' = None"
    by (simp add: hex_digit_value_def cc_def)
  have r': "r = [] \<or> hex_digit_value (hd r) = None"
    using r comma by auto
  have v: "base_value 10 0 (dec_nat n @ r) = n"
    using base_value_digits [of "dec_nat n" r 0] dec_nat_digits r' dec_value_dec_nat by auto
  note sign = digit_not_sign [OF dig(1)]
  show ?thesis
  proof (cases "n = 0")
    case True
    have "dec_nat 0 = ''0''" by (subst dec_nat.simps) (simp add: digit_char_def)
    moreover have "base_value 8 0 (CHR ''0'' # r) = 0"
      using r' by (cases r) (auto simp: hex_digit_value_def cc_def)
    moreover have "\<not> (2 < length (CHR ''0'' # r) \<and> to_lower ((CHR ''0'' # r) ! 1) = CHR ''x'')"
      using r by (cases r) (auto simp: to_lower_def cc_def)
    ultimately show ?thesis
      using True by (auto simp: strtoul0_def Let_def is_space_def cc_def simp del: base_value.simps)
  next
    case False
    then have "d \<noteq> CHR ''0''" using dec_nat_hd_zero [of n] ds by auto
    with sign have "strtoul0 (d # ds @ r) = (if base_value 10 0 (d # ds @ r) \<ge> 2 ^ 32 then 0xFFFFFFFF
        else of_nat (base_value 10 0 (d # ds @ r)))"
      by (simp add: strtoul0_def Let_def del: base_value.simps)
    with v ds n show ?thesis by simp
  qed
qed

lemma ucast_u32_u8: "ucast (ucast b :: u32) = (b :: u8)"
  by (rule bit_word_eqI) (auto simp: bit_simps dest: bit_imp_le_length)

lemma parse_uint8_dec:
  assumes "r = [] \<or> hd r = CHR '',''"
  shows "parse_uint8 (dec_nat (unat v) @ r) = v"
proof -
  have "unat v < 2 ^ 32" using unat_u8_less [of v] by (simp del: unat_u8_less)
  then have "strtoul0 (dec_nat (unat v) @ r) = of_nat (unat v)"
    using assms by (rule strtoul0_dec_nat)
  moreover have "ucast (of_nat (unat v) :: u32) = v"
    by (simp add: ucast_u32_u8)
  ultimately show ?thesis
    using dec_nat_nonempty [of "unat v"] by (simp add: parse_uint8_def)
qed

text \<open>Bytes written in decimal with commas between them.\<close>

definition dec_list :: "u8 list \<Rightarrow> string" where
  "dec_list vs = join_with '','' (map (\<lambda>v. dec_nat (unat v)) vs)"

lemma dec_list_Cons:
  "dec_list (v # vs) = dec_nat (unat v) @ (if vs = [] then [] else CHR '','' # dec_list vs)"
  by (cases vs) (simp_all add: dec_list_def)

lemma dec_nat_chars: "c \<in> set (dec_nat n) \<Longrightarrow> c \<noteq> CHR '','' \<and> c \<noteq> NUL"
  using dec_nat_digits [of n] digit_not_sign [of c] by auto

lemma dec_list_nul_free: "NUL \<notin> set (dec_list vs)"
  by (induction vs) (auto simp: dec_list_Cons dec_list_def [of "[]"] dest: dec_nat_chars)

lemma dec_list_comma:
  "find_sub '','' (dec_list (v # vs)) =
     (if vs = [] then None else Some (length (dec_nat (unat v))))"
proof -
  have "\<forall>c\<in>set (dec_nat (unat v)). c \<noteq> CHR '',''" by (auto dest: dec_nat_chars)
  then show ?thesis by (auto simp: find_sub_char dec_list_Cons takeWhile_append2)
qed

lemma comma_parts_dec_list:
  "map parse_uint8 (comma_parts n (p @ dec_list (v # vs)) (length p)) = take n (v # vs)"
  if "NUL \<notin> set p"
  using that
proof (induction n arbitrary: p v vs)
  case (Suc n)
  let ?w = "dec_nat (unat v)"
  have nul: "NUL \<notin> set (p @ dec_list (v # vs))"
    using Suc.prems dec_list_nul_free by simp
  have wne: "?w \<noteq> []" by (rule dec_nat_nonempty)
  show ?case
  proof (cases vs)
    case Nil
    have "index_of (p @ dec_list (v # vs)) '','' (length p) = None"
      using dec_list_comma [of v vs] nul by (simp add: index_of_nul_free Nil)
    with Nil show ?thesis
      using parse_uint8_dec [of "[]" v] by (simp add: dec_list_Cons)
  next
    case (Cons v' vs')
    have idx: "index_of (p @ dec_list (v # vs)) '','' (length p) = Some (length p + length ?w)"
      using dec_list_comma [of v vs] nul by (simp add: index_of_nul_free Cons)
    have whole: "p @ dec_list (v # vs) = (p @ ?w @ '','') @ dec_list (v' # vs')"
      by (simp add: dec_list_Cons [of v] Cons)
    have part: "substr (p @ dec_list (v # vs)) (length p) (length p + length ?w) = ?w"
      by (simp add: substr_def Let_def dec_list_Cons [of v] wne)
    have rest: "map parse_uint8 (comma_parts n ((p @ ?w @ '','') @ dec_list (v' # vs'))
        (length (p @ ?w @ '',''))) = take n (v' # vs')"
      by (rule Suc.IH) (use Suc.prems in \<open>auto dest: dec_nat_chars\<close>)
    show ?thesis
      using rest parse_uint8_dec [of "[]" v] wne idx part
      by (simp add: Cons whole [symmetric, unfolded Cons] del: append_assoc)
  qed
qed simp

section \<open>Percent encoding\<close>

definition url_plain :: "char \<Rightarrow> bool" where
  "url_plain c = (is_digit c \<or> (65 \<le> cc c \<and> cc c \<le> 90) \<or> (97 \<le> cc c \<and> cc c \<le> 122))"

fun url_encode :: "string \<Rightarrow> string" where
  "url_encode [] = []"
| "url_encode (c # s) =
     (if url_plain c then [c] else CHR ''%'' # hex02 (byte_of c)) @ url_encode s"

lemma digit_char_cc: "n < 16 \<Longrightarrow> cc (digit_char n) = (if n < 10 then 48 + n else 55 + n)"
proof -
  assume "n < 16"
  then have "n \<in> {0..<16}" by simp
  then have "n \<in> set [0..<16]" by simp
  then show ?thesis
    by (simp add: upt_rec del: set_upt) (elim disjE; simp add: digit_char_def cc_def)
qed

lemma hex_digit_value_digit_char: "n < 16 \<Longrightarrow> hex_digit_value (digit_char n) = Some n"
  by (simp add: hex_digit_value_def digit_char_cc)

lemma digit_char_not_blank:
  "n < 16 \<Longrightarrow> \<not> is_space (digit_char n) \<and> digit_char n \<noteq> CHR ''-'' \<and> digit_char n \<noteq> CHR ''+''
     \<and> digit_char n \<noteq> CHR ''&'' \<and> digit_char n \<noteq> CHR ''%''
     \<and> digit_char n \<noteq> NUL \<and> digit_char n \<noteq> CHR ''=''"
proof -
  assume n: "n < 16"
  have ne: "c \<noteq> digit_char n" if "cc c < 48 \<or> cc c = 61" for c
    using that digit_char_cc [OF n] n by (auto split: if_splits)
  have "\<not> is_space (digit_char n)"
    using digit_char_cc [OF n] by (simp add: is_space_def split: if_splits)
  moreover have "CHR ''-'' \<noteq> digit_char n" "CHR ''+'' \<noteq> digit_char n" "CHR ''&'' \<noteq> digit_char n"
      "CHR ''%'' \<noteq> digit_char n" "NUL \<noteq> digit_char n" "CHR ''='' \<noteq> digit_char n"
    by (rule ne, simp add: cc_def)+
  ultimately show ?thesis by auto
qed

lemma nibble_less: "unat (b :: u8) div 16 < 16" "unat b mod 16 < 16"
  using unat_u8_less [of b] by (simp_all add: less_mult_imp_div_less)

lemma strtoul16_hex02: "strtoul16 (hex02 b) = ucast b"
proof -
  let ?h = "unat b div 16" and ?l = "unat b mod 16"
  have h: "?h < 16" and l: "?l < 16"
    using nibble_less [of b] by auto
  have v: "?h * 16 + ?l = unat b" by simp
  have d: "hex_digit_value (digit_char ?h) = Some ?h" "hex_digit_value (digit_char ?l) = Some ?l"
    using h l by (simp_all only: hex_digit_value_digit_char)
  have small: "\<not> 4294967296 \<le> unat b" using unat_u8_less [of b] by linarith
  have b: "base_value 16 0 [digit_char ?h, digit_char ?l] = ?h * 16 + ?l"
    using h l by (simp add: d)
  have "strtoul16 [digit_char ?h, digit_char ?l] = of_nat (?h * 16 + ?l)"
    using digit_char_not_blank [OF h] small
    by (simp add: strtoul16_def Let_def b del: base_value.simps)
  then show ?thesis
    using v by (simp add: hex02_def)
qed

lemma char_of_byte_ucast: "char_of_byte (ucast (ucast b :: u32)) = char_of_byte b"
  by (simp add: ucast_u32_u8)

lemma url_plain_chars: "url_plain c \<Longrightarrow> c \<noteq> CHR ''%'' \<and> c \<noteq> CHR ''+'' \<and> c \<noteq> CHR ''&'' \<and> c \<noteq> NUL"
  by (auto simp: url_plain_def is_digit_def cc_def)

lemma url_decode_encode: "url_decode (url_encode s) = s"
proof (induction s)
  case (Cons c s)
  show ?case
  proof (cases "url_plain c")
    case True
    with Cons url_plain_chars [OF True] show ?thesis by simp
  next
    case False
    have "url_decode (CHR ''%'' # hex02 (byte_of c) @ url_encode s)
      = char_of_byte (ucast (strtoul16 (hex02 (byte_of c)))) # url_decode (url_encode s)"
      by (simp add: hex02_def)
    with False Cons show ?thesis by (simp add: strtoul16_hex02 char_of_byte_ucast)
  qed
qed simp

lemma url_encode_chars: "c \<in> set (url_encode s) \<Longrightarrow> c \<noteq> CHR ''&'' \<and> c \<noteq> NUL"
proof (induction s)
  case (Cons a s)
  let ?h = "unat (byte_of a) div 16" and ?l = "unat (byte_of a) mod 16"
  have "?h < 16" "?l < 16" using nibble_less [of "byte_of a"] by auto
  with Cons digit_char_not_blank [of ?h] digit_char_not_blank [of ?l] show ?case
    by (auto simp: hex02_def dest: url_plain_chars split: if_splits)
qed simp

section \<open>The query as a list of pairs\<close>

text \<open>
  The reference: the text after the first \<open>k=\<close> that begins the query or follows an \<open>&\<close>.
\<close>

function query_find :: "string \<Rightarrow> string \<Rightarrow> string option" where
  "query_find k q =
     (if starts_with k q then Some (drop (length k) q)
      else case dropWhile (\<lambda>c. c \<noteq> CHR ''&'') q of
             [] \<Rightarrow> None
           | _ # r \<Rightarrow> query_find k r)"
  by auto
termination
proof (relation "measure (\<lambda>(k, q). length q)")
  fix k q c r
  assume "dropWhile (\<lambda>c. c \<noteq> CHR ''&'') q = c # r"
  then have "length (c # r) \<le> length q" by (metis length_dropWhile_le)
  then show "((k, r), (k, q)) \<in> measure (\<lambda>(k, q). length q)" by simp
qed simp

declare query_find.simps [simp del]

definition query_next :: "string \<Rightarrow> string \<Rightarrow> string option" where
  "query_next k q =
     (case dropWhile (\<lambda>c. c \<noteq> CHR ''&'') q of [] \<Rightarrow> None | _ # r \<Rightarrow> query_find k r)"

lemma query_find_unfold:
  "query_find k q = (if starts_with k q then Some (drop (length k) q) else query_next k q)"
  by (subst query_find.simps) (simp add: query_next_def)

lemma query_next_find_sub:
  "query_next k q = map_option (\<lambda>i. drop (i + 1 + length k) q) (find_sub (CHR ''&'' # k) q)"
proof (induction q)
  case Nil
  then show ?case by (simp add: query_next_def)
next
  case (Cons c q)
  have step: "query_next k (c # q) =
      (if c = CHR ''&'' \<and> starts_with k q then Some (drop (length k) q) else query_next k q)"
    by (simp add: query_next_def query_find_unfold)
  show ?case
    unfolding step by (auto simp: Cons.IH starts_with_Cons option.map_comp o_def)
qed

lemma query_get_pairs:
  assumes nul: "NUL \<notin> set q"
  shows "query_get q key =
    (case query_find (key @ ''='') q of
       None \<Rightarrow> []
     | Some r \<Rightarrow> url_decode (takeWhile (\<lambda>c. c \<noteq> CHR ''&'') r))"
proof -
  let ?k = "key @ ''=''" and ?ak = "CHR ''&'' # key @ ''=''"
  let ?val = "\<lambda>i. url_decode (takeWhile (\<lambda>c. c \<noteq> CHR ''&'') (drop (i + length ?k) q))"
  define here where "here = (case find_sub ?k q of
      None \<Rightarrow> None | Some i \<Rightarrow> if i > 0 \<and> q ! (i - 1) \<noteq> CHR ''&'' then None else Some i)"
  define pos where "pos = (case here of
      Some i \<Rightarrow> Some i | None \<Rightarrow> map_option (\<lambda>i. i + 1) (find_sub ?ak q))"
  have val: "(case index_of q ''&'' s of
        Some amp \<Rightarrow> if amp > 0 then url_decode (substr q s amp) else url_decode (substr_from q s)
      | None \<Rightarrow> url_decode (substr_from q s))
    = url_decode (takeWhile (\<lambda>c. c \<noteq> CHR ''&'') (drop s q))" if "s > 0" for s
  proof (cases "find_sub ''&'' (drop s q)")
    case None
    then have all: "takeWhile (\<lambda>c. c \<noteq> CHR ''&'') (drop s q) = drop s q"
      by (subst takeWhile_eq_all_conv) (auto simp: find_sub_char split: if_splits)
    show ?thesis by (simp add: index_of_nul_free [OF nul] None all del: takeWhile_eq_all_conv)
  next
    case (Some j)
    then show ?thesis
      using that by (simp add: index_of_nul_free [OF nul] substr_takeWhile)
  qed
  have at_start: "index_of q ?k 0 = find_sub ?k q" "index_of q ?ak 0 = find_sub ?ak q"
    by (simp_all add: index_of_nul_free [OF nul] option.map_ident)
  have get: "query_get q key = (case pos of None \<Rightarrow> [] | Some i \<Rightarrow> ?val i)"
    unfolding query_get_def Let_def pos_def here_def at_start
    by (rule option.case_cong [OF refl refl], rule val) simp
  have "map_option (\<lambda>i. drop (i + length ?k) q) pos = query_find ?k q"
  proof (cases here)
    case None
    have "\<not> starts_with ?k q"
    proof
      assume "starts_with ?k q"
      then have "find_sub ?k q = Some 0" by (simp add: find_sub_Some)
      with None show False by (simp add: here_def)
    qed
    with None show ?thesis
      by (simp add: pos_def query_find_unfold query_next_find_sub option.map_comp o_def)
  next
    case (Some i)
    then have i: "find_sub ?k q = Some i" and sep: "i = 0 \<or> q ! (i - 1) = CHR ''&''"
      by (auto simp: here_def split: option.splits if_splits)
    from i have at: "starts_with ?k (drop i q)" and first: "\<forall>j<i. \<not> starts_with ?k (drop j q)"
      by (auto simp: find_sub_Some)
    show ?thesis
    proof (cases "i = 0")
      case True
      with at Some show ?thesis by (simp add: pos_def query_find_unfold)
    next
      case False
      then obtain n where n: "i = Suc n" by (cases i) auto
      have len: "n < length q"
      proof (rule ccontr)
        assume "\<not> n < length q"
        with at n show False by (simp add: starts_with_def)
      qed
      have "drop n q = CHR ''&'' # drop i q"
        using sep n len False by (metis Cons_nth_drop_Suc diff_Suc_1)
      then have "find_sub ?ak q = Some n"
        using at first n len
        by (auto simp: find_sub_Some starts_with_Cons)
           (metis Cons_nth_drop_Suc Suc_less_eq drop_eq_Nil2 leI list.distinct(1) list.inject)
      moreover have "\<not> starts_with ?k q" using first False by (metis drop0 gr0I)
      ultimately show ?thesis
        using Some n by (simp add: pos_def query_find_unfold query_next_find_sub)
    qed
  qed
  with get show ?thesis by (cases pos) (auto split: option.splits)
qed

text \<open>The text of a query: the pairs in order, each value percent encoded.\<close>

definition query_pair :: "string \<times> string \<Rightarrow> string" where
  "query_pair p = fst p @ ''='' @ url_encode (snd p)"

definition query_text :: "(string \<times> string) list \<Rightarrow> string" where
  "query_text ps = join_with ''&'' (map query_pair ps)"

definition query_key :: "string \<Rightarrow> bool" where
  "query_key k = (\<forall>c\<in>set k. c \<noteq> CHR ''='' \<and> c \<noteq> CHR ''&'' \<and> c \<noteq> NUL)"

lemma query_text_Cons:
  "query_text (p # ps) = query_pair p @ (if ps = [] then [] else CHR ''&'' # query_text ps)"
  by (cases ps) (simp_all add: query_text_def)

lemma query_pair_chars:
  "query_key (fst p) \<Longrightarrow> c \<in> set (query_pair p) \<Longrightarrow> c \<noteq> CHR ''&'' \<and> c \<noteq> NUL"
  by (auto simp: query_pair_def query_key_def dest: url_encode_chars)

lemma query_text_nul_free:
  "\<forall>p\<in>set ps. query_key (fst p) \<Longrightarrow> NUL \<notin> set (query_text ps)"
proof (induction ps)
  case (Cons p ps)
  then have "NUL \<notin> set (query_pair p)" using query_pair_chars [of p NUL] by auto
  with Cons show ?case by (auto simp: query_text_Cons)
qed (simp add: query_text_def)

lemma starts_with_key:
  assumes "query_key k" "query_key k'"
  shows "starts_with (k @ ''='') (k' @ CHR ''='' # t) = (k = k')"
proof
  assume "starts_with (k @ ''='') (k' @ CHR ''='' # t)"
  then obtain u where "k @ CHR ''='' # u = k' @ CHR ''='' # t"
    by (auto simp: starts_with_iff)
  then have "takeWhile (\<lambda>c. c \<noteq> CHR ''='') (k @ CHR ''='' # u)
    = takeWhile (\<lambda>c. c \<noteq> CHR ''='') (k' @ CHR ''='' # t)" by simp
  with assms show "k = k'"
    by (simp add: takeWhile_append2 query_key_def)
next
  assume "k = k'"
  then show "starts_with (k @ ''='') (k' @ CHR ''='' # t)"
    by (simp add: starts_with_iff)
qed

lemma takeWhile_no_amp:
  "\<forall>c\<in>set v. c \<noteq> CHR ''&'' \<Longrightarrow> takeWhile (\<lambda>c. c \<noteq> CHR ''&'') (v @ CHR ''&'' # w) = v"
  "\<forall>c\<in>set v. c \<noteq> CHR ''&'' \<Longrightarrow> takeWhile (\<lambda>c. c \<noteq> CHR ''&'') v = v"
  by (simp_all add: takeWhile_append2 takeWhile_eq_all_conv)

lemma query_find_text:
  assumes "\<forall>p\<in>set ps. query_key (fst p)" "query_key k"
  shows "map_option (takeWhile (\<lambda>c. c \<noteq> CHR ''&'')) (query_find (k @ ''='') (query_text ps))
    = map_option url_encode (map_of ps k)"
  using assms(1)
proof (induction ps)
  case Nil
  then show ?case
    by (simp add: query_text_def query_find_unfold query_next_def starts_with_def)
next
  case (Cons p ps)
  obtain k' v where p: "p = (k', v)" by (cases p) auto
  have k': "query_key k'" using Cons.prems p by simp
  let ?rest = "if ps = [] then [] else CHR ''&'' # query_text ps"
  have qt: "query_text (p # ps) = k' @ CHR ''='' # (url_encode v @ ?rest)"
    by (simp add: query_text_Cons query_pair_def p)
  have plain: "\<forall>c\<in>set (query_pair p). c \<noteq> CHR ''&''" "\<forall>c\<in>set (url_encode v). c \<noteq> CHR ''&''"
    using query_pair_chars [of p] k' p url_encode_chars [of _ v] by auto
  show ?case
  proof (cases "k' = k")
    case True
    have "query_find (k @ ''='') (query_text (p # ps)) = Some (url_encode v @ ?rest)"
      unfolding qt using starts_with_key [OF assms(2) k'] True
      by (simp add: query_find_unfold)
    with True p plain show ?thesis
      by (auto simp: takeWhile_no_amp)
  next
    case False
    have "query_find (k @ ''='') (query_text (p # ps)) = query_next (k @ ''='') (query_text (p # ps))"
      using starts_with_key [OF assms(2) k', of "url_encode v @ ?rest"] False qt
      by (simp add: query_find_unfold)
    also have "\<dots> = (if ps = [] then None else query_find (k @ ''='') (query_text ps))"
      using plain(1) by (auto simp: query_next_def query_text_Cons dropWhile_append2
          dropWhile_append1 dropWhile_eq_Nil_conv)
    finally show ?thesis
      using False p Cons by auto
  qed
qed

text \<open>
  C37: Reading a parameter of a command that arrives over MQTT.  For every list of pairs with keys
  that contain no separator, \<open>query_get\<close> on the rendered query, values percent encoded, returns
  exactly the value of the first pair with that key, whatever characters the value holds, and the
  empty string when no pair has the key.
\<close>
theorem query_get_roundtrip:
  assumes "\<forall>p\<in>set ps. query_key (fst p)" "query_key k"
  shows "query_get (query_text ps) k = (case map_of ps k of None \<Rightarrow> [] | Some v \<Rightarrow> v)"
proof -
  have "query_get (query_text ps) k =
    (case map_option (takeWhile (\<lambda>c. c \<noteq> CHR ''&'')) (query_find (k @ ''='') (query_text ps)) of
       None \<Rightarrow> [] | Some r \<Rightarrow> url_decode r)"
    by (simp add: query_get_pairs query_text_nul_free assms(1) split: option.splits)
  then show ?thesis
    unfolding query_find_text [OF assms] by (cases "map_of ps k") (simp_all add: url_decode_encode)
qed

theorem query_get_roundtrip_witness:
  "query_get (query_text [(''ms'', ''60''), (''s'', ''a&b=%41''), (''s'', ''c'')]) ''s'' = ''a&b=%41''"
  using query_get_roundtrip [of "[(''ms'', ''60''), (''s'', ''a&b=%41''), (''s'', ''c'')]" "''s''"]
  by (simp add: query_key_def)

end
