(* ===== verification/Esp_Tunnel.thy ===== *)
theory Esp_Tunnel
  imports Esp_Str
begin

text \<open>
  The reverse-tunnel client of the ESP32 sketch (\<open>src/esp32/arduino/rathole_client.cpp\<close>): the
  configuration of a tunnel and its store in the NVS namespace, the wire format, the handshake, the
  pool of standby data channels, the manager task and the calls other tasks make.

  The manager task is a transition function: \<open>tn_pc\<close> says where the task is (at the top of its
  endless loop, in the poll loop of an open control channel, or in its sliced wait), and one step is
  one round of that loop.  The calls of other tasks happen between two rounds.  A round gets what the
  network, the clock and the allocator return in it as an argument.  Data-channel sockets are numbered
  in the order of their creation; \<open>rh_freed\<close> lists those that were deleted, so leaks and double
  deletes are visible, and \<open>rh_sent\<close> what the client writes on them.  The hash function and the NVS write are arguments of the definitions.
\<close>

section \<open>NVS\<close>

record nvs_state =
  nvs :: "string \<Rightarrow> string option"

type_synonym nvs_write = "string \<Rightarrow> string \<Rightarrow> (string \<Rightarrow> string option) \<Rightarrow> (string \<Rightarrow> string option)"

text \<open>The documented effect of \<open>Preferences.putString\<close> that succeeds.\<close>

definition nvs_stores :: "nvs_write \<Rightarrow> bool" where
  "nvs_stores W = (\<forall>k v m. W k v m = m(k \<mapsto> v))"

definition nvs_get :: "string \<Rightarrow> string \<Rightarrow> (string \<Rightarrow> string option) \<Rightarrow> string" where
  "nvs_get k d m = (case m k of None \<Rightarrow> d | Some v \<Rightarrow> v)"

definition save_config :: "nvs_write \<Rightarrow> string \<Rightarrow> string \<Rightarrow> 'a nvs_state_scheme \<Rightarrow> 'a nvs_state_scheme" where
  "save_config W k v s = s\<lparr>nvs := W k v (nvs s)\<rparr>"

section \<open>State\<close>

definition RATHOLE_MAX_TUNNELS :: nat where "RATHOLE_MAX_TUNNELS = 1"
definition RATHOLE_POOL_SIZE :: nat where "RATHOLE_POOL_SIZE = 1"
definition RATHOLE_PROTO_VERSION :: u8 where "RATHOLE_PROTO_VERSION = 1"
definition RATHOLE_HEARTBEAT_MS :: u32 where "RATHOLE_HEARTBEAT_MS = 45000"
definition RATHOLE_MIN_FREE_HEAP :: nat where "RATHOLE_MIN_FREE_HEAP = 12000"

record tunnel_cfg =
  tc_server :: string
  tc_token :: string
  tc_svc :: string
  tc_local :: string
  tc_auto :: bool
  tc_enabled :: bool
  tc_retry :: nat

text \<open>\<open>TunnelCfg()\<close>: every member value-initialised.\<close>

definition tunnel_cfg_zero :: tunnel_cfg where
  "tunnel_cfg_zero = \<lparr>tc_server = [], tc_token = [], tc_svc = [], tc_local = [], tc_auto = False,
     tc_enabled = False, tc_retry = 0\<rparr>"

text \<open>Local variables of \<open>manager_task\<close> while a control channel is up, and the place of the task.\<close>

record tun_sess =
  ss_cfg :: tunnel_cfg
  ss_cmd :: "u8 list"
  ss_rx :: u32
  ss_up :: u32

datatype mgr_pc = Top | Waiting nat | Session tun_sess

record tunnel =
  tn_cfg :: tunnel_cfg
  tn_task :: bool
  tn_pool :: "nat option list"
  tn_want :: bool
  tn_reconfig :: bool
  tn_connected :: bool
  tn_error :: string
  tn_key :: "u8 list"
  tn_host :: string
  tn_port :: nat
  tn_pc :: mgr_pc
  tn_backoff :: nat

record rathole = nvs_state +
  rh_enabled :: bool
  rh_tun :: "tunnel list"
  rh_count :: int
  rh_fwd :: "nat list"
  rh_next :: nat
  rh_freed :: "nat list"
  rh_sent :: "(nat \<times> u8 list) list"

definition set_err :: "string \<Rightarrow> tunnel \<Rightarrow> tunnel" where
  "set_err e t = t\<lparr>tn_error := take 63 e\<rparr>"

definition on_tunnel :: "nat \<Rightarrow> (tunnel \<Rightarrow> tunnel) \<Rightarrow> 'a rathole_scheme \<Rightarrow> 'a rathole_scheme" where
  "on_tunnel i f s = s\<lparr>rh_tun := (rh_tun s)[i := f (rh_tun s ! i)]\<rparr>"

section \<open>Wire format\<close>

definition split_host_port :: "string \<Rightarrow> nat \<Rightarrow> (string \<times> nat) option" where
  "split_host_port s host_len =
     (case last_index_of s CHR '':'' of
        None \<Rightarrow> None
      | Some colon \<Rightarrow>
          if colon = 0 \<or> colon = length s - 1 then None
          else let h = substr s 0 colon; p = to_int (substr_from s (colon + 1))
               in if p \<le> 0 \<or> p > 65535 \<or> length h \<ge> host_len then None else Some (h, nat p))"

definition build_hello :: "u32 \<Rightarrow> u8 list \<Rightarrow> u8 list" where
  "build_hello variant digest =
     [ucast (variant AND 0xFF), ucast (drop_bit 8 variant AND 0xFF), ucast (drop_bit 16 variant AND 0xFF),
      ucast (drop_bit 24 variant AND 0xFF), RATHOLE_PROTO_VERSION] @ take 32 digest"

definition le_u32 :: "u8 list \<Rightarrow> u32" where
  "le_u32 b = ucast (b ! 0) OR push_bit 8 (ucast (b ! 1)) OR push_bit 16 (ucast (b ! 2))
     OR push_bit 24 (ucast (b ! 3))"

text \<open>
  \<open>read_exact\<close> as a run over what each round of its loop finds: data that a read returned (none is
  the non-positive result), or nothing available, with the state of the connection and the clock.
  \<open>None\<close> means that the loop is still running when the observations end.
\<close>

datatype rx_round = Rx_data "u8 list" | Rx_idle bool u32

fun read_exact :: "nat \<Rightarrow> u32 \<Rightarrow> u32 \<Rightarrow> u8 list \<Rightarrow> rx_round list \<Rightarrow> (bool \<times> u8 list) option" where
  "read_exact len start timeout got rs =
     (if length got \<ge> len then Some (True, got)
      else case rs of
        [] \<Rightarrow> None
      | Rx_data d # rs' \<Rightarrow>
          if d = [] then Some (False, got)
          else read_exact len start timeout (got @ take (len - length got) d) rs'
      | Rx_idle up now # rs' \<Rightarrow>
          if \<not> up then Some (False, got)
          else if now - start > timeout then Some (False, got)
          else read_exact len start timeout got rs')"

declare read_exact.simps [simp del]

text \<open>\<open>write_all\<close> likewise: each round reports how many bytes were taken and whether the peer is there.\<close>

fun write_all :: "nat \<Rightarrow> nat \<Rightarrow> (nat \<times> bool) list \<Rightarrow> bool option" where
  "write_all len sent rs =
     (if sent \<ge> len then Some True
      else case rs of
        [] \<Rightarrow> None
      | (w, up) # rs' \<Rightarrow>
          if w = 0 then (if \<not> up then Some False else write_all len sent rs')
          else write_all len (sent + min w (len - sent)) rs')"

declare write_all.simps [simp del]

section \<open>Handshake\<close>

text \<open>
  The outcome of the network operations of one handshake; what the server sends is a function of what
  it has been sent.
\<close>

record hs_io =
  io_connect :: bool
  io_hello :: bool
  io_reply :: "u8 list \<Rightarrow> u8 list option"
  io_auth :: bool
  io_ack :: "u8 list \<Rightarrow> u8 list \<Rightarrow> u8 list option"

definition control_handshake ::
  "(u8 list \<Rightarrow> u8 list) \<Rightarrow> hs_io \<Rightarrow> tunnel_cfg \<Rightarrow> tunnel \<Rightarrow> bool \<times> tunnel" where
  "control_handshake sha io cfg t =
     (case split_host_port (tc_server cfg) 64 of
        None \<Rightarrow> (False, set_err ''bad server addr'' t)
      | Some (h, p) \<Rightarrow>
          let t1 = t\<lparr>tn_host := h, tn_port := p\<rparr> in
          if \<not> io_connect io then (False, set_err ''tcp connect failed'' t1)
          else let hello = build_hello 0 (sha (bytes_of (tc_svc cfg))) in
          if \<not> io_hello io then (False, set_err ''write hello failed'' t1)
          else (case io_reply io hello of
            None \<Rightarrow> (False, set_err ''read hello failed'' t1)
          | Some sh \<Rightarrow>
              if le_u32 sh \<noteq> 0 \<or> sh ! 4 \<noteq> RATHOLE_PROTO_VERSION
              then (False, set_err ''bad server hello'' t1)
              else let key = sha (bytes_of (tc_token cfg) @ take 32 (drop 5 sh));
                       t2 = t1\<lparr>tn_key := key\<rparr> in
              if \<not> io_auth io then (False, set_err ''write auth failed'' t2)
              else (case io_ack io hello key of
                None \<Rightarrow> (False, set_err ''read ack failed'' t2)
              | Some ack \<Rightarrow>
                  if le_u32 ack \<noteq> 0
                  then (False, set_err (if le_u32 ack = 1 then ''service not exist'' else ''auth failed'') t2)
                  else (True, t2))))"

section \<open>Data channels\<close>

text \<open>What the allocator and the network return when a standby channel is opened.\<close>

record fill_io =
  fi_heap :: nat
  fi_alloc :: bool
  fi_connect :: bool
  fi_write :: bool

definition free_sock :: "nat \<Rightarrow> 'a rathole_scheme \<Rightarrow> 'a rathole_scheme" where
  "free_sock c s = s\<lparr>rh_freed := rh_freed s @ [c]\<rparr>"

definition set_pool :: "nat \<Rightarrow> nat \<Rightarrow> nat option \<Rightarrow> 'a rathole_scheme \<Rightarrow> 'a rathole_scheme" where
  "set_pool i slot v = on_tunnel i (\<lambda>t. t\<lparr>tn_pool := (tn_pool t)[slot := v]\<rparr>)"

definition pool_fill_one :: "fill_io \<Rightarrow> nat \<Rightarrow> nat \<Rightarrow> 'a rathole_scheme \<Rightarrow> 'a rathole_scheme" where
  "pool_fill_one io i slot s =
     (if fi_heap io < RATHOLE_MIN_FREE_HEAP then s
      else if \<not> fi_alloc io then s
      else let c = rh_next s; s1 = s\<lparr>rh_next := rh_next s + 1\<rparr> in
        if \<not> fi_connect io then free_sock c s1
        else let s2 = s1\<lparr>rh_sent := rh_sent s @ [(c, build_hello 1 (tn_key (rh_tun s ! i)))]\<rparr> in
        if \<not> fi_write io then free_sock c s2
        else (set_pool i slot (Some c) s2)\<lparr>rh_count := rh_count s + 1\<rparr>)"

definition drop_channel :: "nat \<Rightarrow> nat \<Rightarrow> nat \<Rightarrow> 'a rathole_scheme \<Rightarrow> 'a rathole_scheme" where
  "drop_channel i slot c s = (set_pool i slot None (free_sock c s))\<lparr>rh_count := rh_count s - 1\<rparr>"

definition pool_drain :: "nat \<Rightarrow> 'a rathole_scheme \<Rightarrow> 'a rathole_scheme" where
  "pool_drain i s =
     fold (\<lambda>k u. case tn_pool (rh_tun u ! i) ! k of None \<Rightarrow> u | Some c \<Rightarrow> drop_channel i k c u)
       [0..<RATHOLE_POOL_SIZE] s"

record fwd_io =
  fw_alloc :: bool
  fw_heap :: nat
  fw_task :: bool

text \<open>Ownership of the channel \<open>c\<close> moves to a forward task, or the channel is deleted.\<close>

definition start_forward :: "fwd_io \<Rightarrow> nat \<Rightarrow> tunnel_cfg \<Rightarrow> 'a rathole_scheme \<Rightarrow> 'a rathole_scheme" where
  "start_forward io c cfg s =
     (if fw_alloc io \<and> \<not> fw_heap io < RATHOLE_MIN_FREE_HEAP
         \<and> split_host_port (tc_local cfg) 64 \<noteq> None \<and> fw_task io
      then s\<lparr>rh_fwd := rh_fwd s @ [c]\<rparr>
      else (free_sock c s)\<lparr>rh_count := rh_count s - 1\<rparr>)"

text \<open>The end of the forward task that owns \<open>c\<close>.\<close>

definition forward_end :: "nat \<Rightarrow> 'a rathole_scheme \<Rightarrow> 'a rathole_scheme" where
  "forward_end c s =
     (if c \<in> set (rh_fwd s)
      then (free_sock c s)\<lparr>rh_fwd := remove1 c (rh_fwd s), rh_count := rh_count s - 1\<rparr>
      else s)"

text \<open>
  One round of the pump of a forward task.  What a side offers: nothing, data that was read, or a read
  that failed with the state of the connection.  The state is what has been passed on to the local and
  to the remote side; the result names the cause when the loop is left.
\<close>

datatype fwd_read = Fr_none | Fr_data "u8 list" | Fr_fail bool

record fwd_in =
  fr_remote :: fwd_read
  fr_local_ok :: bool
  fr_local :: fwd_read
  fr_remote_ok :: bool
  fr_remote_up :: bool
  fr_local_up :: bool

definition fwd_round :: "fwd_in \<Rightarrow> u8 list \<times> u8 list \<Rightarrow> string option \<times> u8 list \<times> u8 list" where
  "fwd_round i st =
     (let (to_local, to_remote) = st;
          r1 = (case fr_remote i of
                  Fr_none \<Rightarrow> (None, True, to_local)
                | Fr_data d \<Rightarrow> if fr_local_ok i then (None, False, to_local @ d)
                               else (Some ''local write fail'', False, to_local)
                | Fr_fail up \<Rightarrow> if \<not> up then (Some ''remote read eof'', True, to_local)
                                else (None, True, to_local));
          (cause1, idle1, tl1) = r1
      in case cause1 of
           Some c \<Rightarrow> (Some c, tl1, to_remote)
         | None \<Rightarrow>
             let r2 = (case fr_local i of
                     Fr_none \<Rightarrow> (None, idle1, to_remote)
                   | Fr_data d \<Rightarrow> if fr_remote_ok i then (None, False, to_remote @ d)
                                  else (Some ''remote write fail'', False, to_remote)
                   | Fr_fail up \<Rightarrow> if \<not> up then (Some ''local read eof'', idle1, to_remote)
                                   else (None, idle1, to_remote));
                 (cause2, idle2, tr2) = r2
             in case cause2 of
                  Some c \<Rightarrow> (Some c, tl1, tr2)
                | None \<Rightarrow>
                    if idle2 \<and> \<not> fr_remote_up i then (Some ''remote closed'', tl1, tr2)
                    else if idle2 \<and> \<not> fr_local_up i then (Some ''local closed'', tl1, tr2)
                    else (None, tl1, tr2))"

fun fwd_pump :: "fwd_in list \<Rightarrow> u8 list \<times> u8 list \<Rightarrow> string option \<times> u8 list \<times> u8 list" where
  "fwd_pump [] st = (None, st)"
| "fwd_pump (i # is) st =
     (case fwd_round i st of
        (Some c, st') \<Rightarrow> (Some c, st')
      | (None, st') \<Rightarrow> fwd_pump is st')"

section \<open>The manager task\<close>

text \<open>What a poll of one standby channel finds: \<open>got\<close> is what the timed read loop delivered.\<close>

datatype ch_poll =
    Ch_closed
  | Ch_quiet
  | Ch_read (cp_got: "u8 list") (cp_up: bool) (cp_fwd: fwd_io)

definition poll_channel :: "nat \<Rightarrow> tunnel_cfg \<Rightarrow> nat \<times> ch_poll \<Rightarrow> 'a rathole_scheme \<Rightarrow> 'a rathole_scheme" where
  "poll_channel i cfg kp s =
     (let (k, p) = kp in
      case tn_pool (rh_tun s ! i) ! k of
        None \<Rightarrow> s
      | Some c \<Rightarrow>
          (case p of
             Ch_closed \<Rightarrow> drop_channel i k c s
           | Ch_quiet \<Rightarrow> s
           | Ch_read got up io \<Rightarrow>
               if length got = 4 \<and> le_u32 got = 0
               then start_forward io c cfg (set_pool i k None s)
               else if got = [] \<and> up then s
               else drop_channel i k c s))"

record mgr_in =
  mi_now :: u32
  mi_mqtt :: bool
  mi_wifi :: bool
  mi_heap :: nat
  mi_hs :: hs_io
  mi_ctl :: "u8 list"
  mi_ctl_up :: bool
  mi_fill :: fill_io
  mi_polls :: "ch_poll list"

definition first_free :: "nat option list \<Rightarrow> nat option" where
  "first_free ps = find (\<lambda>k. ps ! k = None) [0..<RATHOLE_POOL_SIZE]"

text \<open>After the poll loop: the channel is closed, the pool drained, and the wait begins.\<close>

definition session_down :: "mgr_in \<Rightarrow> nat \<Rightarrow> tun_sess \<Rightarrow> 'a rathole_scheme \<Rightarrow> 'a rathole_scheme" where
  "session_down mi i ss s =
     (let s1 = pool_drain i (on_tunnel i (\<lambda>t. t\<lparr>tn_connected := False\<rparr>) s)
      in on_tunnel i (\<lambda>t.
           let t1 = (if \<not> tn_want t \<or> tn_reconfig t then set_err [] t else t)
           in t1\<lparr>tn_backoff := (if mi_now mi - ss_up ss > 3000 then tc_retry (ss_cfg ss) * 1000
                                else tn_backoff t),
                tn_pc := Waiting 0\<rparr>) s1)"

text \<open>One round of the poll loop.\<close>

definition mgr_session :: "mgr_in \<Rightarrow> nat \<Rightarrow> tun_sess \<Rightarrow> 'a rathole_scheme \<Rightarrow> 'a rathole_scheme" where
  "mgr_session mi i ss s =
     (let t = rh_tun s ! i in
      if \<not> (tn_want t \<and> \<not> tn_reconfig t) then session_down mi i ss s
      else let got = take (4 - length (ss_cmd ss)) (mi_ctl mi);
               cmd = ss_cmd ss @ got;
               rx = (if got = [] then ss_rx ss else mi_now mi);
               full = (length cmd = 4);
               ss1 = ss\<lparr>ss_cmd := (if full then [] else cmd), ss_rx := rx\<rparr>;
               s1 = (if full \<and> le_u32 cmd = 0
                     then (case first_free (tn_pool t) of
                             None \<Rightarrow> s
                           | Some k \<Rightarrow> pool_fill_one (mi_fill mi) i k s)
                     else s)
           in if \<not> mi_ctl_up mi
              then session_down mi i ss1 (on_tunnel i (set_err ''control channel closed'') s1)
              else if mi_now mi - rx > RATHOLE_HEARTBEAT_MS
              then session_down mi i ss1 (on_tunnel i (set_err ''heartbeat timeout'') s1)
              else on_tunnel i (\<lambda>t. t\<lparr>tn_pc := Session ss1\<rparr>)
                     (fold (poll_channel i (ss_cfg ss)) (zip [0..<RATHOLE_POOL_SIZE] (mi_polls mi)) s1))"

text \<open>One round of the endless loop up to the poll loop, or to the wait after a failed handshake.\<close>

definition mgr_top :: "(u8 list \<Rightarrow> u8 list) \<Rightarrow> mgr_in \<Rightarrow> tunnel \<Rightarrow> tunnel" where
  "mgr_top sha mi t =
     (if \<not> tn_want t then t\<lparr>tn_backoff := 0\<rparr>
      else let base = tc_retry (tn_cfg t) * 1000;
               t1 = t\<lparr>tn_backoff := max (tn_backoff t) base\<rparr> in
        if mi_now mi < 30000 \<and> \<not> mi_mqtt mi then t1
        else if \<not> mi_wifi mi then t1
        else if mi_heap mi < RATHOLE_MIN_FREE_HEAP then set_err ''low heap, draining'' t1
        else let t2 = t1\<lparr>tn_reconfig := False\<rparr>; cfg = tn_cfg t;
                 (ok, t3) = control_handshake sha (mi_hs mi) cfg t2 in
          if \<not> ok then t3\<lparr>tn_pc := Waiting 0\<rparr>
          else set_err [] (t3\<lparr>tn_connected := True,
            tn_pc := Session \<lparr>ss_cfg = cfg, ss_cmd = [], ss_rx = mi_now mi, ss_up = mi_now mi\<rparr>\<rparr>))"

text \<open>One slice of the wait, or its end.\<close>

definition mgr_wait :: "nat \<Rightarrow> tunnel \<Rightarrow> tunnel" where
  "mgr_wait w t =
     (if w < tn_backoff t \<and> tn_want t \<and> \<not> tn_reconfig t then t\<lparr>tn_pc := Waiting (w + 100)\<rparr>
      else t\<lparr>tn_backoff := min (tn_backoff t * 2) 30000, tn_pc := Top\<rparr>)"

definition manager_task ::
  "(u8 list \<Rightarrow> u8 list) \<Rightarrow> mgr_in \<Rightarrow> nat \<Rightarrow> 'a rathole_scheme \<Rightarrow> 'a rathole_scheme" where
  "manager_task sha mi i s =
     (case tn_pc (rh_tun s ! i) of
        Top \<Rightarrow> on_tunnel i (mgr_top sha mi) s
      | Waiting w \<Rightarrow> on_tunnel i (mgr_wait w) s
      | Session ss \<Rightarrow> mgr_session mi i ss s)"

section \<open>Configuration and control\<close>

definition nvs_key :: "nat \<Rightarrow> string \<Rightarrow> string" where
  "nvs_key idx field = take 15 (''tun'' @ dec_nat (idx + 1) @ ''_'' @ field)"

definition constrain :: "int \<Rightarrow> int \<Rightarrow> int \<Rightarrow> int" where
  "constrain x l h = (if x < l then l else if x > h then h else x)"

definition load_cfg :: "nat \<Rightarrow> (string \<Rightarrow> string option) \<Rightarrow> tunnel_cfg" where
  "load_cfg idx m =
     \<lparr>tc_server = nvs_get (nvs_key idx ''server'') [] m,
      tc_token = nvs_get (nvs_key idx ''token'') [] m,
      tc_svc = nvs_get (nvs_key idx ''svc'') [] m,
      tc_local = nvs_get (nvs_key idx ''local'') [] m,
      tc_auto = (nvs_get (nvs_key idx ''auto'') ''0'' m = ''1''),
      tc_enabled = (nvs_get (nvs_key idx ''en'') ''1'' m = ''1''),
      tc_retry = nat (constrain (to_int (nvs_get (nvs_key idx ''retry'') ''1'' m)) 1 60)\<rparr>"

definition load_one :: "nat \<Rightarrow> 'a rathole_scheme \<Rightarrow> 'a rathole_scheme" where
  "load_one idx s = on_tunnel idx (\<lambda>t. t\<lparr>tn_cfg := load_cfg idx (nvs s)\<rparr>) s"

definition configured :: "tunnel_cfg \<Rightarrow> bool" where
  "configured c = (tc_server c \<noteq> [] \<and> tc_token c \<noteq> [] \<and> tc_svc c \<noteq> [] \<and> tc_local c \<noteq> [])"

text \<open>The argument \<open>ok\<close> is the result of \<open>xTaskCreate\<close>.\<close>

definition rathole_start :: "bool \<Rightarrow> nat \<Rightarrow> 'a rathole_scheme \<Rightarrow> bool \<times> 'a rathole_scheme" where
  "rathole_start ok idx s =
     (if idx \<ge> RATHOLE_MAX_TUNNELS then (False, s)
      else let t = rh_tun s ! idx in
        if \<not> rh_enabled s then (False, on_tunnel idx (set_err ''globally disabled'') s)
        else if \<not> tc_enabled (tn_cfg t) then (False, on_tunnel idx (set_err ''tunnel disabled'') s)
        else if \<not> configured (tn_cfg t) then (False, on_tunnel idx (set_err ''not configured'') s)
        else let s1 = on_tunnel idx (\<lambda>t. t\<lparr>tn_reconfig := True, tn_want := True\<rparr>) s in
          if tn_task t then (True, s1)
          else if \<not> ok
          then (False, on_tunnel idx (\<lambda>t. set_err ''task create failed'' (t\<lparr>tn_want := False, tn_task := False\<rparr>)) s1)
          else (True, on_tunnel idx (\<lambda>t. t\<lparr>tn_task := True, tn_pc := Top, tn_backoff := 0\<rparr>) s1))"

definition rathole_stop :: "nat \<Rightarrow> 'a rathole_scheme \<Rightarrow> 'a rathole_scheme" where
  "rathole_stop idx s =
     (if idx \<ge> RATHOLE_MAX_TUNNELS then s
      else on_tunnel idx (\<lambda>t. t\<lparr>tn_want := False, tn_reconfig := True\<rparr>) s)"

definition rathole_set_enabled ::
  "nvs_write \<Rightarrow> bool \<Rightarrow> bool \<Rightarrow> 'a rathole_scheme \<Rightarrow> 'a rathole_scheme" where
  "rathole_set_enabled W ok en s =
     (let s1 = save_config W ''rathole_en'' (if en then ''1'' else ''0'') (s\<lparr>rh_enabled := en\<rparr>)
      in if \<not> en then fold rathole_stop [0..<RATHOLE_MAX_TUNNELS] s1
         else fold (\<lambda>i u. if tc_enabled (tn_cfg (rh_tun u ! i)) \<and> tc_auto (tn_cfg (rh_tun u ! i))
                          then snd (rathole_start ok i u) else u) [0..<RATHOLE_MAX_TUNNELS] s1)"

definition rathole_init :: "bool \<Rightarrow> 'a rathole_scheme \<Rightarrow> 'a rathole_scheme" where
  "rathole_init ok s =
     fold (\<lambda>i u.
         let u1 = load_one i (on_tunnel i (\<lambda>t. t\<lparr>tn_task := False, tn_want := False,
                    tn_reconfig := False, tn_connected := False,
                    tn_pool := replicate RATHOLE_POOL_SIZE None\<rparr>) u)
         in if rh_enabled u1 \<and> tc_enabled (tn_cfg (rh_tun u1 ! i)) \<and> tc_auto (tn_cfg (rh_tun u1 ! i))
               \<and> configured (tn_cfg (rh_tun u1 ! i))
            then snd (rathole_start ok i u1) else u1)
       [0..<RATHOLE_MAX_TUNNELS]
       (s\<lparr>rh_enabled := (nvs_get ''rathole_en'' ''1'' (nvs s) = ''1'')\<rparr>)"

text \<open>The NVS name of a field and the configuration with the field set; \<open>None\<close> is an unknown key.\<close>

definition cfg_field :: "string \<Rightarrow> string \<Rightarrow> tunnel_cfg \<Rightarrow> (string \<times> tunnel_cfg) option" where
  "cfg_field key val c =
     (if key = ''server'' then Some (''server'', c\<lparr>tc_server := val\<rparr>)
      else if key = ''token'' then Some (''token'', c\<lparr>tc_token := val\<rparr>)
      else if key = ''service'' then Some (''svc'', c\<lparr>tc_svc := val\<rparr>)
      else if key = ''local'' then Some (''local'', c\<lparr>tc_local := val\<rparr>)
      else if key = ''auto'' then Some (''auto'', c\<lparr>tc_auto := (val = ''1'' \<or> val = ''true'')\<rparr>)
      else if key = ''enable'' then Some (''en'', c\<lparr>tc_enabled := (val = ''1'' \<or> val = ''true'')\<rparr>)
      else if key = ''retry'' then
        (let r = constrain (to_int val) 1 60
         in if r \<le> 0 then None else Some (''retry'', c\<lparr>tc_retry := nat r\<rparr>))
      else None)"

definition cfg_text :: "string \<Rightarrow> string \<Rightarrow> tunnel_cfg \<Rightarrow> string" where
  "cfg_text key val c =
     (if key = ''auto'' then (if tc_auto c then ''1'' else ''0'')
      else if key = ''enable'' then (if tc_enabled c then ''1'' else ''0'')
      else if key = ''retry'' then dec_nat (tc_retry c)
      else val)"

definition rathole_set ::
  "nvs_write \<Rightarrow> nat \<Rightarrow> string \<Rightarrow> string \<Rightarrow> 'a rathole_scheme \<Rightarrow> bool \<times> 'a rathole_scheme" where
  "rathole_set W idx key val s =
     (if idx \<ge> RATHOLE_MAX_TUNNELS then (False, s)
      else case cfg_field key val (tn_cfg (rh_tun s ! idx)) of
        None \<Rightarrow> (False, s)
      | Some (field, c) \<Rightarrow>
          let s1 = save_config W (nvs_key idx field) (cfg_text key val c)
                     (on_tunnel idx (\<lambda>t. t\<lparr>tn_cfg := c\<rparr>) s)
          in if key = ''enable'' \<and> \<not> tc_enabled c then (True, rathole_stop idx s1)
             else if key \<noteq> ''auto'' \<and> tn_want (rh_tun s1 ! idx)
             then (True, on_tunnel idx (\<lambda>t. t\<lparr>tn_reconfig := True\<rparr>) s1)
             else (True, s1))"

definition rathole_get :: "nat \<Rightarrow> string \<Rightarrow> 'a rathole_scheme \<Rightarrow> string" where
  "rathole_get idx key s =
     (if idx \<ge> RATHOLE_MAX_TUNNELS then []
      else let c = tn_cfg (rh_tun s ! idx) in
        if key = ''server'' then tc_server c
        else if key = ''token'' then tc_token c
        else if key = ''service'' then tc_svc c
        else if key = ''local'' then tc_local c
        else if key = ''auto'' then (if tc_auto c then ''1'' else ''0'')
        else if key = ''enable'' then (if tc_enabled c then ''1'' else ''0'')
        else if key = ''retry'' then dec_nat (tc_retry c)
        else [])"

definition rathole_clear :: "nat \<Rightarrow> 'a rathole_scheme \<Rightarrow> 'a rathole_scheme" where
  "rathole_clear idx s =
     (if idx \<ge> RATHOLE_MAX_TUNNELS then s
      else let s1 = rathole_stop idx s;
               s2 = s1\<lparr>nvs := fold (\<lambda>f m. m(nvs_key idx f := None))
                     [''server'', ''token'', ''svc'', ''local'', ''auto'', ''en'', ''retry''] (nvs s1)\<rparr>
           in on_tunnel idx (\<lambda>t. set_err [] (t\<lparr>tn_cfg := tunnel_cfg_zero\<rparr>)) s2)"

definition json_bool :: "bool \<Rightarrow> string" where
  "json_bool b = (if b then ''true'' else ''false'')"

definition rathole_status_json :: "nat \<Rightarrow> nat \<Rightarrow> 'a rathole_scheme \<Rightarrow> string" where
  "rathole_status_json heap idx s =
     (if idx \<ge> RATHOLE_MAX_TUNNELS then ''{}''
      else let t = rh_tun s ! idx; c = tn_cfg t;
               pooled = length (filter (\<lambda>k. tn_pool t ! k \<noteq> None) [0..<RATHOLE_POOL_SIZE])
        in concat [''{\"id\":'', dec_nat (idx + 1), '',\"configured\":'', json_bool (configured c),
             '',\"server\":\"'', tc_server c, ''\",\"service\":\"'', tc_svc c,
             ''\",\"local\":\"'', tc_local c, ''\",\"auto\":'', json_bool (tc_auto c),
             '',\"retry\":'', dec_nat (tc_retry c), '',\"master\":'', json_bool (rh_enabled s),
             '',\"enabled\":'', json_bool (tc_enabled c), '',\"running\":'', json_bool (tn_want t),
             '',\"connected\":'', json_bool (tn_connected t), '',\"pool\":'', dec_nat pooled,
             '',\"data_channels\":'', dec_int (rh_count s), '',\"free_heap\":'', dec_nat heap,
             '',\"last_error\":\"'', tn_error t, ''\"}''])"

end
