(* ===== verification/Esp_Cfg.thy ===== *)
theory Esp_Cfg
  imports Esp_Tunnel
begin

text \<open>
  The configuration of the ESP32 sketch (\<open>src/esp32/arduino/arduino.ino\<close>): the settings kept in NVS
  and their copies in memory, \<open>load_config\<close>, the switches of the HTTP server and of BLE, the clear
  operations, and the registry \<open>CFG_TABLE\<close> behind \<open>config_set\<close>, \<open>config_get\<close>, \<open>config_known\<close> and
  \<open>config_list_json\<close>.  The build has every feature on (the defaults of \<open>features.h\<close>).  Calls of the
  libraries are entries of the log \<open>ec_out\<close>.  \<open>WIFI_SSID\<close> and \<open>WIFI_PASSWORD\<close> come from a header outside
  the repository and are arguments, as is the MAC address.
\<close>

section \<open>State\<close>

datatype esp_act =
    Http_begin | Http_stop | Ssdp_begin | Ssdp_stop
  | Adv_start | Adv_stop | Adv_directed string
  | Host_drop nat | Bond_delete string | Bonds_delete
  | Mqtt_server string int | Mqtt_open string string string string | Mqtt_disconnect | Mqtt_loop | Mqtt_wake
  | Mqtt_publish string string bool | Mqtt_subscribe string
  | Wifi_begin string string | Wifi_disconnect | Mdns_begin string | Restart

record esp_conf = rathole +
  g_device_name :: string
  g_hostname :: string
  g_wifi_ssid :: string
  g_wifi_pass :: string
  g_mqtt_broker :: string
  g_mqtt_port :: int
  g_mqtt_user :: string
  g_mqtt_pass :: string
  g_mqtt_ca_fp :: string
  g_mqtt_auto :: bool
  g_mqtt_enabled :: bool
  g_mqtt_connected :: bool
  g_mqtt_pending :: bool
  g_ble_auto :: bool
  g_ble_enabled :: bool
  g_pairing_mode :: bool
  g_pair_timeout_at :: u32
  g_adv_restart_at :: u32
  g_directed_pending :: bool
  g_directed_addr :: string
  g_http_auto :: bool
  g_http_enabled :: bool
  g_wifi_ready :: bool
  g_wifi_lost_at :: u32
  g_restart_at :: u32
  ec_out :: "esp_act list"

definition emit_act :: "esp_act list \<Rightarrow> 'a esp_conf_scheme \<Rightarrow> 'a esp_conf_scheme" where
  "emit_act as s = s\<lparr>ec_out := ec_out s @ as\<rparr>"

section \<open>Loading and switches\<close>

definition get_default_name :: "u16 \<Rightarrow> string" where
  "get_default_name mac = ''AT-Node-ESP'' @ ''-'' @ hex04 mac"

definition get_default_hostname :: "u16 \<Rightarrow> string" where
  "get_default_hostname mac = ''atnodeesp'' @ ''-'' @ hex04 mac"

definition load_config :: "u16 \<Rightarrow> string \<Rightarrow> string \<Rightarrow> 'a esp_conf_scheme \<Rightarrow> 'a esp_conf_scheme" where
  "load_config mac ssid pw s =
     (let m = nvs s;
          port0 = to_int (nvs_get ''mqtt_port'' ''8883'' m);
          mauto = (to_int (nvs_get ''mqtt_auto'' ''0'' m) \<noteq> 0);
          bauto = (to_int (nvs_get ''ble_auto'' ''1'' m) \<noteq> 0);
          hauto = (to_int (nvs_get ''http_auto'' ''1'' m) \<noteq> 0)
      in s\<lparr>g_device_name := nvs_get ''name'' (get_default_name mac) m,
           g_hostname := nvs_get ''hostname'' (get_default_hostname mac) m,
           g_wifi_ssid := nvs_get ''wifi_ssid'' ssid m,
           g_wifi_pass := nvs_get ''wifi_pass'' pw m,
           g_mqtt_broker := nvs_get ''mqtt_broker'' [] m,
           g_mqtt_port := (if port0 \<le> 0 then 8883 else port0),
           g_mqtt_user := nvs_get ''mqtt_user'' [] m,
           g_mqtt_pass := nvs_get ''mqtt_pass'' [] m,
           g_mqtt_ca_fp := nvs_get ''mqtt_ca_fp'' [] m,
           g_mqtt_auto := mauto, g_mqtt_enabled := mauto,
           g_ble_auto := bauto, g_ble_enabled := bauto,
           g_http_auto := hauto, g_http_enabled := hauto\<rparr>)"

definition set_http_enabled :: "bool \<Rightarrow> 'a esp_conf_scheme \<Rightarrow> 'a esp_conf_scheme" where
  "set_http_enabled enable s =
     (let s1 = s\<lparr>g_http_enabled := enable\<rparr>
      in if \<not> g_wifi_ready s then s1
         else if enable then emit_act [Http_begin, Ssdp_begin] s1
         else emit_act [Ssdp_stop, Http_stop] s1)"

definition nvs_clear_config :: "'a esp_conf_scheme \<Rightarrow> 'a esp_conf_scheme" where
  "nvs_clear_config s = s\<lparr>nvs := (\<lambda>k. None), g_http_enabled := True\<rparr>"

definition schedule_restart :: "u32 \<Rightarrow> u32 \<Rightarrow> 'a esp_conf_scheme \<Rightarrow> 'a esp_conf_scheme" where
  "schedule_restart now delay_ms s = s\<lparr>g_restart_at := now + delay_ms\<rparr>"

definition mqtt_clear_config :: "'a esp_conf_scheme \<Rightarrow> 'a esp_conf_scheme" where
  "mqtt_clear_config s =
     (let s1 = s\<lparr>nvs := fold (\<lambda>k m. m(k := None))
            [''mqtt_broker'', ''mqtt_port'', ''mqtt_user'', ''mqtt_pass'', ''mqtt_ca_fp'', ''mqtt_auto''] (nvs s)\<rparr>;
          s2 = (if g_mqtt_connected s1 then (emit_act [Mqtt_disconnect] s1)\<lparr>g_mqtt_connected := False\<rparr> else s1)
      in s2\<lparr>g_mqtt_broker := [], g_mqtt_port := 8883, g_mqtt_user := [], g_mqtt_pass := [],
            g_mqtt_ca_fp := [], g_mqtt_auto := False\<rparr>)"

section \<open>The registry\<close>

definition cfg_truthy :: "string \<Rightarrow> bool" where
  "cfg_truthy v = (v = ''1'' \<or> v = ''true'')"

definition bit_text :: "bool \<Rightarrow> string" where
  "bit_text b = (if b then ''1'' else ''0'')"

text \<open>A setter gets the NVS write, the result of a task creation, and the value.\<close>

type_synonym cfg_setter = "nvs_write \<Rightarrow> bool \<Rightarrow> string \<Rightarrow> esp_conf \<Rightarrow> bool \<times> esp_conf"

definition cfg_s_name :: cfg_setter where
  "cfg_s_name W ok v s = (True, save_config W ''name'' v (s\<lparr>g_device_name := v\<rparr>))"

definition cfg_s_hostn :: cfg_setter where
  "cfg_s_hostn W ok v s = (True, save_config W ''hostname'' v (s\<lparr>g_hostname := v\<rparr>))"

definition cfg_s_wssid :: cfg_setter where
  "cfg_s_wssid W ok v s = (True, save_config W ''wifi_ssid'' v (s\<lparr>g_wifi_ssid := v\<rparr>))"

definition cfg_s_wpass :: cfg_setter where
  "cfg_s_wpass W ok v s = (True, save_config W ''wifi_pass'' v (s\<lparr>g_wifi_pass := v\<rparr>))"

definition cfg_s_httpen :: cfg_setter where
  "cfg_s_httpen W ok v s = (True, set_http_enabled (cfg_truthy v) s)"

definition cfg_s_httpauto :: cfg_setter where
  "cfg_s_httpauto W ok v s =
     (True, save_config W ''http_auto'' (bit_text (cfg_truthy v)) (s\<lparr>g_http_auto := cfg_truthy v\<rparr>))"

definition cfg_s_mbroker :: cfg_setter where
  "cfg_s_mbroker W ok v s = (True, save_config W ''mqtt_broker'' v (s\<lparr>g_mqtt_broker := v\<rparr>))"

definition cfg_s_mport :: cfg_setter where
  "cfg_s_mport W ok v s =
     (let p = to_int v
      in if p \<le> 0 \<or> p > 65535 then (False, s)
         else (True, save_config W ''mqtt_port'' (dec_int p) (s\<lparr>g_mqtt_port := p\<rparr>)))"

definition cfg_s_muser :: cfg_setter where
  "cfg_s_muser W ok v s = (True, save_config W ''mqtt_user'' v (s\<lparr>g_mqtt_user := v\<rparr>))"

definition cfg_s_mpass :: cfg_setter where
  "cfg_s_mpass W ok v s = (True, save_config W ''mqtt_pass'' v (s\<lparr>g_mqtt_pass := v\<rparr>))"

definition cfg_s_mca :: cfg_setter where
  "cfg_s_mca W ok v s = (True, save_config W ''mqtt_ca_fp'' v (s\<lparr>g_mqtt_ca_fp := v\<rparr>))"

definition cfg_s_mauto :: cfg_setter where
  "cfg_s_mauto W ok v s =
     (True, save_config W ''mqtt_auto'' (bit_text (cfg_truthy v)) (s\<lparr>g_mqtt_auto := cfg_truthy v\<rparr>))"

definition cfg_s_mten :: cfg_setter where
  "cfg_s_mten W ok v s =
     (True, emit_act [Mqtt_wake] (s\<lparr>g_mqtt_enabled := cfg_truthy v, g_mqtt_pending := False\<rparr>))"

definition cfg_s_bleten :: cfg_setter where
  "cfg_s_bleten W ok v s =
     (let s1 = s\<lparr>g_ble_enabled := cfg_truthy v\<rparr>
      in (True, if \<not> cfg_truthy v then emit_act [Adv_stop] s1
                else if g_pairing_mode s1 then emit_act [Adv_start] s1 else s1))"

definition cfg_s_bleauto :: cfg_setter where
  "cfg_s_bleauto W ok v s =
     (True, save_config W ''ble_auto'' (bit_text (cfg_truthy v)) (s\<lparr>g_ble_auto := cfg_truthy v\<rparr>))"

definition cfg_s_tunen :: cfg_setter where
  "cfg_s_tunen W ok v s = (True, rathole_set_enabled W ok (cfg_truthy v) s)"

record cfg_entry =
  ce_key :: string
  ce_secret :: bool
  ce_set :: cfg_setter
  ce_get :: "esp_conf \<Rightarrow> string"

definition CFG_TABLE :: "cfg_entry list" where
  "CFG_TABLE =
    [\<lparr>ce_key = ''device.name'', ce_secret = False, ce_set = cfg_s_name, ce_get = g_device_name\<rparr>,
     \<lparr>ce_key = ''device.hostname'', ce_secret = False, ce_set = cfg_s_hostn, ce_get = g_hostname\<rparr>,
     \<lparr>ce_key = ''wifi.ssid'', ce_secret = False, ce_set = cfg_s_wssid, ce_get = g_wifi_ssid\<rparr>,
     \<lparr>ce_key = ''wifi.pass'', ce_secret = True, ce_set = cfg_s_wpass, ce_get = (\<lambda>s. [])\<rparr>,
     \<lparr>ce_key = ''mqtt.broker'', ce_secret = False, ce_set = cfg_s_mbroker, ce_get = g_mqtt_broker\<rparr>,
     \<lparr>ce_key = ''mqtt.port'', ce_secret = False, ce_set = cfg_s_mport, ce_get = (\<lambda>s. dec_int (g_mqtt_port s))\<rparr>,
     \<lparr>ce_key = ''mqtt.user'', ce_secret = False, ce_set = cfg_s_muser, ce_get = g_mqtt_user\<rparr>,
     \<lparr>ce_key = ''mqtt.pass'', ce_secret = True, ce_set = cfg_s_mpass, ce_get = (\<lambda>s. [])\<rparr>,
     \<lparr>ce_key = ''mqtt.ca'', ce_secret = False, ce_set = cfg_s_mca, ce_get = g_mqtt_ca_fp\<rparr>,
     \<lparr>ce_key = ''mqtt.auto'', ce_secret = False, ce_set = cfg_s_mauto, ce_get = (\<lambda>s. bit_text (g_mqtt_auto s))\<rparr>,
     \<lparr>ce_key = ''mqtt.enable'', ce_secret = False, ce_set = cfg_s_mten, ce_get = (\<lambda>s. bit_text (g_mqtt_enabled s))\<rparr>,
     \<lparr>ce_key = ''http.enable'', ce_secret = False, ce_set = cfg_s_httpen, ce_get = (\<lambda>s. bit_text (g_http_enabled s))\<rparr>,
     \<lparr>ce_key = ''http.auto'', ce_secret = False, ce_set = cfg_s_httpauto, ce_get = (\<lambda>s. bit_text (g_http_auto s))\<rparr>,
     \<lparr>ce_key = ''ble.enable'', ce_secret = False, ce_set = cfg_s_bleten, ce_get = (\<lambda>s. bit_text (g_ble_enabled s))\<rparr>,
     \<lparr>ce_key = ''ble.auto'', ce_secret = False, ce_set = cfg_s_bleauto, ce_get = (\<lambda>s. bit_text (g_ble_auto s))\<rparr>,
     \<lparr>ce_key = ''rathole.enable'', ce_secret = False, ce_set = cfg_s_tunen, ce_get = (\<lambda>s. bit_text (rh_enabled s))\<rparr>]"

definition cfg_find :: "string \<Rightarrow> cfg_entry option" where
  "cfg_find key = find (\<lambda>e. key = ce_key e) CFG_TABLE"

text \<open>\<open>tunnel.<id>.<field>\<close>: the index and the field.\<close>

definition config_tunnel_key :: "string \<Rightarrow> (nat \<times> string) option" where
  "config_tunnel_key key =
     (if \<not> starts_with ''tunnel.'' key then None
      else case index_of key ''.'' 7 of
        None \<Rightarrow> None
      | Some dot \<Rightarrow>
          let id = to_int (substr key 7 dot)
          in if id < 1 \<or> id > int RATHOLE_MAX_TUNNELS then None
             else Some (nat (id - 1), substr_from key (dot + 1)))"

definition config_set :: "nvs_write \<Rightarrow> bool \<Rightarrow> string \<Rightarrow> string \<Rightarrow> esp_conf \<Rightarrow> bool \<times> esp_conf" where
  "config_set W ok key val s =
     (case config_tunnel_key key of
        Some (idx, field) \<Rightarrow> rathole_set W idx field val s
      | None \<Rightarrow>
          (case cfg_find key of
             Some e \<Rightarrow> ce_set e W ok val s
           | None \<Rightarrow> (False, s)))"

definition config_get :: "string \<Rightarrow> esp_conf \<Rightarrow> string" where
  "config_get key s =
     (case config_tunnel_key key of
        Some (idx, field) \<Rightarrow> if field = ''token'' then [] else rathole_get idx field s
      | None \<Rightarrow>
          (case cfg_find key of
             Some e \<Rightarrow> ce_get e s
           | None \<Rightarrow> []))"

definition config_known :: "string \<Rightarrow> bool" where
  "config_known key =
     (case config_tunnel_key key of
        Some (idx, field) \<Rightarrow> field = ''server'' \<or> field = ''token'' \<or> field = ''service'' \<or> field = ''local''
          \<or> field = ''auto'' \<or> field = ''retry'' \<or> field = ''enable''
      | None \<Rightarrow> cfg_find key \<noteq> None)"

definition tunnel_fields :: "string list" where
  "tunnel_fields = [''server'', ''token'', ''service'', ''local'', ''auto'', ''retry'', ''enable'']"

definition config_list_json :: "esp_conf \<Rightarrow> string" where
  "config_list_json s =
     ''['' @ concat (map (\<lambda>i. let e = CFG_TABLE ! i in
           (if i > 0 then '','' else []) @ ''{\"key\":\"'' @ ce_key e @ ''\"''
           @ (if ce_secret e then '',\"secret\":true'' else '',\"value\":\"'' @ ce_get e s @ ''\"'') @ ''}'')
         [0..<length CFG_TABLE])
     @ concat (map (\<lambda>t. concat (map (\<lambda>f.
           '',{\"key\":\"tunnel.'' @ dec_nat (t + 1) @ ''.'' @ f @ ''\"''
           @ (if f = ''token'' then '',\"secret\":true'' else '',\"value\":\"'' @ rathole_get t f s @ ''\"'') @ ''}'')
         tunnel_fields)) [0..<RATHOLE_MAX_TUNNELS])
     @ '']''"

end
