(* ===== verification/Esp_Tunnel_Inv.thy ===== *)
theory Esp_Tunnel_Inv
  imports Esp_Tunnel "HOL-Library.Multiset"
begin

text \<open>
  Correctness of the tunnel client.  The invariant of the reachable states: every data-channel socket
  that was ever created is in exactly one place, the pool, a forward task, or deleted; the global
  counter counts the first two; a tunnel that is switched off never wants to run.  Stopping a tunnel
  closes its channels within two rounds of the manager.  The handshake is checked against a server
  that follows the protocol, and the stored configuration against the one in memory.
\<close>

section \<open>Steps\<close>

text \<open>
  A step is a round of the manager task, the end of a forward task, or a call from another task.
\<close>

datatype rh_event =
    Ev_manager nat mgr_in
  | Ev_forward_end nat
  | Ev_set nat string string
  | Ev_start bool nat
  | Ev_stop nat
  | Ev_clear nat
  | Ev_enable bool bool

definition rh_step ::
  "(u8 list \<Rightarrow> u8 list) \<Rightarrow> nvs_write \<Rightarrow> rh_event \<Rightarrow> 'a rathole_scheme \<Rightarrow> 'a rathole_scheme" where
  "rh_step sha W e s =
     (case e of
        Ev_manager i mi \<Rightarrow>
          (if i < RATHOLE_MAX_TUNNELS \<and> tn_task (rh_tun s ! i) then manager_task sha mi i s else s)
      | Ev_forward_end c \<Rightarrow> forward_end c s
      | Ev_set i key val \<Rightarrow> snd (rathole_set W i key val s)
      | Ev_start ok i \<Rightarrow> snd (rathole_start ok i s)
      | Ev_stop i \<Rightarrow> rathole_stop i s
      | Ev_clear i \<Rightarrow> rathole_clear i s
      | Ev_enable ok en \<Rightarrow> rathole_set_enabled W ok en s)"

definition rh_run ::
  "(u8 list \<Rightarrow> u8 list) \<Rightarrow> nvs_write \<Rightarrow> rh_event list \<Rightarrow> 'a rathole_scheme \<Rightarrow> 'a rathole_scheme" where
  "rh_run sha W es s = fold (rh_step sha W) es s"

text \<open>The memory at power-on: static objects are zero.\<close>

definition tunnel_zero :: tunnel where
  "tunnel_zero = \<lparr>tn_cfg = tunnel_cfg_zero, tn_task = False, tn_pool = replicate RATHOLE_POOL_SIZE None,
     tn_want = False, tn_reconfig = False, tn_connected = False, tn_error = [],
     tn_key = replicate 32 0, tn_host = [], tn_port = 0, tn_pc = Top, tn_backoff = 0\<rparr>"

definition rathole_zero :: "(string \<Rightarrow> string option) \<Rightarrow> rathole" where
  "rathole_zero m = \<lparr>nvs = m, rh_enabled = True, rh_tun = replicate RATHOLE_MAX_TUNNELS tunnel_zero,
     rh_count = 0, rh_fwd = [], rh_next = 0, rh_freed = [], rh_sent = []\<rparr>"

text \<open>A configured node, a server that knows its service, and a round in which everything succeeds.\<close>

definition demo_sha :: "u8 list \<Rightarrow> u8 list" where
  "demo_sha x = replicate 32 (fold (+) x 0)"

definition demo_write :: nvs_write where
  "demo_write k v m = m(k \<mapsto> v)"

definition demo_store :: "string \<Rightarrow> string option" where
  "demo_store = [''tun1_server'' \<mapsto> ''h:2333'', ''tun1_token'' \<mapsto> ''t'', ''tun1_svc'' \<mapsto> ''ssh'',
     ''tun1_local'' \<mapsto> ''l:22'', ''tun1_auto'' \<mapsto> ''1'']"

section \<open>The channel invariant\<close>

definition live_socks :: "tunnel list \<Rightarrow> nat list" where
  "live_socks ts = concat (map (\<lambda>t. List.map_filter (\<lambda>x. x) (tn_pool t)) ts)"

definition chan_inv :: "'a rathole_scheme \<Rightarrow> bool" where
  "chan_inv s =
     (length (rh_tun s) = RATHOLE_MAX_TUNNELS
      \<and> (\<forall>t\<in>set (rh_tun s). length (tn_pool t) = RATHOLE_POOL_SIZE)
      \<and> mset (live_socks (rh_tun s)) + mset (rh_fwd s) + mset (rh_freed s) = mset [0..<rh_next s]
      \<and> rh_count s = int (length (live_socks (rh_tun s)) + length (rh_fwd s)))"

lemmas one_tunnel = RATHOLE_MAX_TUNNELS_def RATHOLE_POOL_SIZE_def

lemma chan_inv_single:
  assumes "chan_inv s"
  obtains t p where "rh_tun s = [t]" "tn_pool t = [p]"
  using assms by (auto simp: chan_inv_def one_tunnel length_Suc_conv)

text \<open>
  What the channel operations leave alone: everything of the tunnels but the pools.
\<close>

definition pool_only :: "'a rathole_scheme \<Rightarrow> 'a rathole_scheme \<Rightarrow> bool" where
  "pool_only s s' =
     (chan_inv s' \<and> rh_enabled s' = rh_enabled s \<and> nvs s' = nvs s
      \<and> (\<exists>ps. rh_tun s' ! 0 = (rh_tun s ! 0)\<lparr>tn_pool := ps\<rparr>))"

lemma pool_only_refl: "chan_inv s \<Longrightarrow> pool_only s s"
  by (auto simp: pool_only_def intro: exI [of _ "tn_pool (rh_tun s ! 0)"])

lemma pool_only_trans: "pool_only s s' \<Longrightarrow> pool_only s' s'' \<Longrightarrow> pool_only s s''"
  by (auto simp: pool_only_def)

lemma pool_onlyD: "pool_only s s' \<Longrightarrow> chan_inv s'"
  by (simp add: pool_only_def)

named_theorems chan_ops \<open>channel operations keep the channel invariant\<close>

lemmas chan_defs = chan_inv_def live_socks_def pool_only_def one_tunnel on_tunnel_def set_pool_def
  free_sock_def List.map_filter_def

lemma mset_new_sock: "mset_set {0..<Suc n} = add_mset n (mset_set {0..<n})"
  by (simp add: atLeast0_lessThan_Suc)

lemma pool_fill_one_chan [chan_ops]:
  assumes "chan_inv s" "tn_pool (rh_tun s ! 0) ! 0 = None"
  shows "pool_only s (pool_fill_one io 0 0 s)"
proof -
  obtain t p where "rh_tun s = [t]" "tn_pool t = [p]"
    using assms(1) by (rule chan_inv_single)
  with assms show ?thesis
    by (auto simp: pool_fill_one_def chan_defs Let_def mset_new_sock intro: exI [of _ "[p]"])
qed

lemma drop_channel_chan [chan_ops]:
  assumes "chan_inv s" "tn_pool (rh_tun s ! 0) ! 0 = Some c"
  shows "pool_only s (drop_channel 0 0 c s)"
proof -
  obtain t p where "rh_tun s = [t]" "tn_pool t = [p]"
    using assms(1) by (rule chan_inv_single)
  with assms show ?thesis
    by (auto simp: drop_channel_def chan_defs)
qed

lemma pool_drain_chan:
  assumes "chan_inv s"
  shows "pool_only s (pool_drain 0 s) \<and> tn_pool (rh_tun (pool_drain 0 s) ! 0) = [None]"
proof (cases "tn_pool (rh_tun s ! 0) ! 0")
  case None
  with assms show ?thesis
    by (auto elim: chan_inv_single simp: pool_drain_def RATHOLE_POOL_SIZE_def pool_only_refl)
next
  case (Some c)
  then have "pool_drain 0 s = drop_channel 0 0 c s"
    by (simp add: pool_drain_def RATHOLE_POOL_SIZE_def)
  moreover obtain t p where "rh_tun s = [t]" "tn_pool t = [p]"
    using assms by (rule chan_inv_single)
  then have "tn_pool (rh_tun (drop_channel 0 0 c s) ! 0) = [None]"
    by (simp add: drop_channel_def set_pool_def on_tunnel_def free_sock_def)
  ultimately show ?thesis
    using drop_channel_chan [OF assms Some] by simp
qed

lemma take_pooled_chan:
  assumes "chan_inv s" "tn_pool (rh_tun s ! 0) ! 0 = Some c"
  shows "pool_only s (start_forward io c cfg (set_pool 0 0 None s))"
proof -
  obtain t p where "rh_tun s = [t]" "tn_pool t = [p]"
    using assms(1) by (rule chan_inv_single)
  with assms show ?thesis
    by (auto simp: start_forward_def chan_defs)
qed

lemma poll_channel_chan:
  assumes "chan_inv s"
  shows "pool_only s (poll_channel 0 cfg (0, p) s)"
  using assms drop_channel_chan [OF assms] take_pooled_chan [OF assms]
  by (auto simp: poll_channel_def pool_only_refl split: option.splits ch_poll.splits)

lemma forward_end_chan:
  assumes "chan_inv s"
  shows "pool_only s (forward_end c s)"
proof (cases "c \<in> set (rh_fwd s)")
  case True
  then obtain R where R: "mset (rh_fwd s) = add_mset c R" "length (rh_fwd s) = Suc (size R)"
    by (metis insert_DiffM set_mset_mset size_add_mset size_mset)
  have "length (remove1 c (rh_fwd s)) = size R"
    using True R by (simp add: length_remove1)
  then show ?thesis
    using assms True R
    by (auto simp: forward_end_def chan_inv_def free_sock_def pool_only_def
        intro: exI [of _ "tn_pool (rh_tun s ! 0)"])
next
  case False
  with assms show ?thesis by (simp add: forward_end_def pool_only_refl)
qed

section \<open>The invariant of the client\<close>

text \<open>Flags and counters of one tunnel, and what the place of its manager says about its channels.\<close>

definition flags_ok :: "bool \<Rightarrow> tunnel \<Rightarrow> bool" where
  "flags_ok en t =
     ((tn_want t \<longrightarrow> tn_task t \<and> en \<and> tc_enabled (tn_cfg t))
      \<and> tc_retry (tn_cfg t) \<le> 60 \<and> tn_backoff t \<le> 60000)"

definition place_ok :: "tunnel \<Rightarrow> bool" where
  "place_ok t =
     (case tn_pc t of
        Session ss \<Rightarrow> tn_task t \<and> tn_connected t \<and> length (ss_cmd ss) < 4 \<and> tc_retry (ss_cfg ss) \<le> 60
      | Waiting _ \<Rightarrow> tn_task t \<and> \<not> tn_connected t \<and> tn_pool t = replicate RATHOLE_POOL_SIZE None
      | Top \<Rightarrow> \<not> tn_connected t \<and> tn_pool t = replicate RATHOLE_POOL_SIZE None)"

definition rathole_inv :: "'a rathole_scheme \<Rightarrow> bool" where
  "rathole_inv s =
     (chan_inv s \<and> (\<forall>t\<in>set (rh_tun s). flags_ok (rh_enabled s) t \<and> place_ok t))"

lemma rathole_inv_nth:
  "rathole_inv s = (chan_inv s \<and> flags_ok (rh_enabled s) (rh_tun s ! 0) \<and> place_ok (rh_tun s ! 0))"
proof (cases "chan_inv s")
  case True
  then obtain t p where "rh_tun s = [t]" by (rule chan_inv_single)
  then show ?thesis by (simp add: rathole_inv_def)
qed (simp add: rathole_inv_def)

lemma nth_on_tunnel: "chan_inv s \<Longrightarrow> rh_tun (on_tunnel 0 f s) ! 0 = f (rh_tun s ! 0)"
  by (auto simp: on_tunnel_def elim!: chan_inv_single)

lemma on_tunnel_keeps [simp]:
  "rh_enabled (on_tunnel i f s) = rh_enabled s" "nvs (on_tunnel i f s) = nvs s"
  "rh_fwd (on_tunnel i f s) = rh_fwd s" "rh_count (on_tunnel i f s) = rh_count s"
  "rh_freed (on_tunnel i f s) = rh_freed s" "rh_sent (on_tunnel i f s) = rh_sent s" "rh_next (on_tunnel i f s) = rh_next s"
  by (simp_all add: on_tunnel_def)

lemma chan_on_tunnel:
  assumes "chan_inv s" "tn_pool (f (rh_tun s ! 0)) = tn_pool (rh_tun s ! 0)"
  shows "chan_inv (on_tunnel 0 f s)"
proof -
  obtain t p where "rh_tun s = [t]" "tn_pool t = [p]"
    using assms(1) by (rule chan_inv_single)
  with assms show ?thesis by (auto simp: chan_defs)
qed

lemma inv_on_tunnel:
  assumes "chan_inv s" "tn_pool (f (rh_tun s ! 0)) = tn_pool (rh_tun s ! 0)"
    "flags_ok (rh_enabled s) (f (rh_tun s ! 0))" "place_ok (f (rh_tun s ! 0))"
  shows "rathole_inv (on_tunnel 0 f s)"
  using assms by (simp add: rathole_inv_nth chan_on_tunnel nth_on_tunnel)

lemma set_err_keeps [simp]:
  "tn_cfg (set_err e t) = tn_cfg t" "tn_task (set_err e t) = tn_task t"
  "tn_pool (set_err e t) = tn_pool t" "tn_want (set_err e t) = tn_want t"
  "tn_reconfig (set_err e t) = tn_reconfig t" "tn_connected (set_err e t) = tn_connected t"
  "tn_pc (set_err e t) = tn_pc t" "tn_backoff (set_err e t) = tn_backoff t"
  by (simp_all add: set_err_def)

lemma flags_set_err [simp]: "flags_ok en (set_err e t) = flags_ok en t"
  by (simp add: flags_ok_def)

lemma place_set_err [simp]: "place_ok (set_err e t) = place_ok t"
  by (simp add: place_ok_def split: mgr_pc.splits)

lemma flags_pool_only:
  "pool_only s s' \<Longrightarrow> flags_ok (rh_enabled s') (rh_tun s' ! 0) = flags_ok (rh_enabled s) (rh_tun s ! 0)"
  by (auto simp: pool_only_def flags_ok_def)

section \<open>Rounds of the manager\<close>

lemma session_down_inv:
  assumes "chan_inv s" "flags_ok (rh_enabled s) (rh_tun s ! 0)" "tc_retry (ss_cfg ss) \<le> 60"
    "tn_task (rh_tun s ! 0)"
  shows "rathole_inv (session_down mi 0 ss s)"
proof -
  let ?s0 = "on_tunnel 0 (\<lambda>t. t\<lparr>tn_connected := False\<rparr>) s"
  let ?s1 = "pool_drain 0 ?s0"
  have "chan_inv ?s0" using assms(1) by (simp add: chan_on_tunnel)
  then have drain: "pool_only ?s0 ?s1" "tn_pool (rh_tun ?s1 ! 0) = [None]"
    using pool_drain_chan [of ?s0] by simp_all
  then obtain ps where t1: "rh_tun ?s1 ! 0 = (rh_tun s ! 0)\<lparr>tn_connected := False, tn_pool := ps\<rparr>"
    and en: "rh_enabled ?s1 = rh_enabled s"
    using assms(1) by (auto simp: pool_only_def nth_on_tunnel)
  have ps: "ps = [None]" using drain(2) t1 by simp
  show ?thesis
    unfolding session_down_def Let_def
    by (rule inv_on_tunnel)
      (use drain assms(2,3,4) t1 en ps in \<open>auto simp: pool_onlyD flags_ok_def place_ok_def RATHOLE_POOL_SIZE_def\<close>)
qed

lemma polls_chan:
  assumes "chan_inv s"
  shows "pool_only s (fold (poll_channel 0 cfg) (zip [0..<RATHOLE_POOL_SIZE] ps) s)"
  using poll_channel_chan [OF assms] pool_only_refl [OF assms]
  by (cases ps) (simp_all add: RATHOLE_POOL_SIZE_def)

text \<open>A round of the poll loop changes pools only, and then goes down or stays.\<close>

lemma mgr_session_shape:
  assumes c: "chan_inv s"
  obtains (down) s1 ss1 where "pool_only s s1" "mgr_session mi 0 ss s = session_down mi 0 ss1 s1"
      "ss_cfg ss1 = ss_cfg ss"
  | (err) e s1 ss1 where "pool_only s s1" "ss_cfg ss1 = ss_cfg ss"
      "mgr_session mi 0 ss s = session_down mi 0 ss1 (on_tunnel 0 (set_err e) s1)"
  | (stay) s1 ss1 where "pool_only s s1" "ss_cfg ss1 = ss_cfg ss"
      "length (ss_cmd ss) < 4 \<longrightarrow> length (ss_cmd ss1) < 4"
      "mgr_session mi 0 ss s = on_tunnel 0 (\<lambda>t. t\<lparr>tn_pc := Session ss1\<rparr>) s1"
proof -
  define t where "t = rh_tun s ! 0"
  define cmd where "cmd = ss_cmd ss @ take (4 - length (ss_cmd ss)) (mi_ctl mi)"
  define rx where "rx = (if take (4 - length (ss_cmd ss)) (mi_ctl mi) = [] then ss_rx ss else mi_now mi)"
  define ss1 where "ss1 = ss\<lparr>ss_cmd := (if length cmd = 4 then [] else cmd), ss_rx := rx\<rparr>"
  define s1 where "s1 = (if length cmd = 4 \<and> le_u32 cmd = 0
      then (case first_free (tn_pool t) of None \<Rightarrow> s | Some k \<Rightarrow> pool_fill_one (mi_fill mi) 0 k s) else s)"
  define s2 where "s2 = fold (poll_channel 0 (ss_cfg ss)) (zip [0..<RATHOLE_POOL_SIZE] (mi_polls mi)) s1"
  have s1: "pool_only s s1"
    using c pool_fill_one_chan [OF c, of "mi_fill mi"]
    by (auto simp: s1_def t_def first_free_def RATHOLE_POOL_SIZE_def pool_only_refl)
  have s2: "pool_only s s2"
    using pool_only_trans [OF s1 polls_chan [OF pool_onlyD [OF s1]]] by (simp add: s2_def)
  have cmd: "length (ss_cmd ss) < 4 \<longrightarrow> length (ss_cmd ss1) < 4" by (auto simp: ss1_def cmd_def)
  have cfg: "ss_cfg ss1 = ss_cfg ss" by (simp add: ss1_def)
  have round: "mgr_session mi 0 ss s =
      (if \<not> (tn_want t \<and> \<not> tn_reconfig t) then session_down mi 0 ss s
       else if \<not> mi_ctl_up mi
       then session_down mi 0 ss1 (on_tunnel 0 (set_err ''control channel closed'') s1)
       else if mi_now mi - rx > RATHOLE_HEARTBEAT_MS
       then session_down mi 0 ss1 (on_tunnel 0 (set_err ''heartbeat timeout'') s1)
       else on_tunnel 0 (\<lambda>t. t\<lparr>tn_pc := Session ss1\<rparr>) s2)"
    unfolding mgr_session_def Let_def t_def [symmetric] cmd_def [symmetric] rx_def [symmetric]
      ss1_def [symmetric] s1_def [symmetric] s2_def [symmetric] by (rule refl)
  show thesis
  proof (cases "tn_want t \<and> \<not> tn_reconfig t")
    case False
    with round have "mgr_session mi 0 ss s = session_down mi 0 ss s" by simp
    then show thesis by (rule down [OF pool_only_refl [OF c] _ refl])
  next
    case w: True
    show thesis
    proof (cases "mi_ctl_up mi \<and> \<not> mi_now mi - rx > RATHOLE_HEARTBEAT_MS")
      case True
      with w round show thesis by (intro stay [OF s2 cfg cmd]) simp
    next
      case False
      with w round show thesis
        by (cases "mi_ctl_up mi") (auto intro: err [OF s1 cfg])
    qed
  qed
qed

lemma mgr_session_inv:
  assumes inv: "rathole_inv s" and pc: "tn_pc (rh_tun s ! 0) = Session ss"
  shows "rathole_inv (mgr_session mi 0 ss s)"
proof -
  let ?t = "rh_tun s ! 0"
  from inv pc have c: "chan_inv s" and f: "flags_ok (rh_enabled s) ?t" and len: "length (ss_cmd ss) < 4"
    and r: "tc_retry (ss_cfg ss) \<le> 60" and up: "tn_connected ?t" "tn_task ?t"
    by (auto simp: rathole_inv_nth place_ok_def)
  have same: "chan_inv s1 \<and> flags_ok (rh_enabled s1) (rh_tun s1 ! 0) \<and> tn_connected (rh_tun s1 ! 0)
      \<and> tn_task (rh_tun s1 ! 0)" if "pool_only s s1" for s1
    using that f flags_pool_only [OF that] up by (auto simp: pool_only_def)
  from c show ?thesis
  proof (cases rule: mgr_session_shape [where mi = mi and ss = ss])
    case (down s1 ss1)
    then show ?thesis using same [OF down(1)] r by (simp add: session_down_inv)
  next
    case (err e s1 ss1)
    then show ?thesis
      using same [OF err(1)] r by (simp add: session_down_inv chan_on_tunnel nth_on_tunnel)
  next
    case (stay s1 ss1)
    have "rathole_inv (on_tunnel 0 (\<lambda>t. t\<lparr>tn_pc := Session ss1\<rparr>) s1)"
      by (rule inv_on_tunnel)
        (use same [OF stay(1)] stay len r in \<open>auto simp: flags_ok_def place_ok_def\<close>)
    with stay show ?thesis by simp
  qed
qed

lemma handshake_frame:
  "tn_cfg (snd (control_handshake sha io cfg t)) = tn_cfg t"
  "tn_task (snd (control_handshake sha io cfg t)) = tn_task t"
  "tn_pool (snd (control_handshake sha io cfg t)) = tn_pool t"
  "tn_want (snd (control_handshake sha io cfg t)) = tn_want t"
  "tn_reconfig (snd (control_handshake sha io cfg t)) = tn_reconfig t"
  "tn_connected (snd (control_handshake sha io cfg t)) = tn_connected t"
  "tn_pc (snd (control_handshake sha io cfg t)) = tn_pc t"
  "tn_backoff (snd (control_handshake sha io cfg t)) = tn_backoff t"
  unfolding control_handshake_def Let_def by (simp_all split: option.split prod.split)

lemma handshake_keeps:
  assumes "control_handshake sha io cfg t = (ok, t')"
  shows "tn_cfg t' = tn_cfg t \<and> tn_task t' = tn_task t \<and> tn_pool t' = tn_pool t \<and> tn_want t' = tn_want t
    \<and> tn_reconfig t' = tn_reconfig t \<and> tn_connected t' = tn_connected t \<and> tn_pc t' = tn_pc t
    \<and> tn_backoff t' = tn_backoff t"
  using handshake_frame [of sha io cfg t] assms by simp

lemma mgr_top_keeps:
  "tn_pool (mgr_top sha mi t) = tn_pool t" "tn_cfg (mgr_top sha mi t) = tn_cfg t"
  unfolding mgr_top_def Let_def case_prod_unfold by (simp_all add: handshake_frame)

lemma mgr_top_ok:
  assumes "flags_ok en t" "place_ok t" "tn_pc t = Top" "tn_task t"
  shows "flags_ok en (mgr_top sha mi t) \<and> place_ok (mgr_top sha mi t)
    \<and> tn_pool (mgr_top sha mi t) = tn_pool t"
proof -
  let ?t2 = "t\<lparr>tn_backoff := max (tn_backoff t) (tc_retry (tn_cfg t) * 1000), tn_reconfig := False\<rparr>"
  obtain ok t3 where h: "control_handshake sha (mi_hs mi) (tn_cfg t) ?t2 = (ok, t3)"
    by (cases "control_handshake sha (mi_hs mi) (tn_cfg t) ?t2")
  show ?thesis
    using assms handshake_keeps [OF h]
    by (auto simp: mgr_top_def Let_def h flags_ok_def place_ok_def)
qed

lemma manager_task_inv:
  assumes inv: "rathole_inv s" and task: "tn_task (rh_tun s ! 0)"
  shows "rathole_inv (manager_task sha mi 0 s)"
proof (cases "tn_pc (rh_tun s ! 0)")
  case Top
  with assms mgr_top_ok [of "rh_enabled s" "rh_tun s ! 0"] show ?thesis
    by (simp add: manager_task_def rathole_inv_nth chan_on_tunnel nth_on_tunnel)
next
  case (Waiting w)
  with assms show ?thesis
    by (auto simp: manager_task_def mgr_wait_def rathole_inv_nth flags_ok_def place_ok_def
        chan_on_tunnel nth_on_tunnel)
next
  case (Session ss)
  with assms mgr_session_inv [OF inv Session] show ?thesis by (simp add: manager_task_def)
qed

section \<open>Calls of other tasks\<close>

lemma pool_only_inv: "pool_only s s' \<Longrightarrow> flags_ok (rh_enabled s) (rh_tun s ! 0)
    \<Longrightarrow> place_ok (rh_tun s' ! 0) \<Longrightarrow> rathole_inv s'"
  by (simp add: rathole_inv_nth pool_onlyD flags_pool_only)

lemma forward_end_inv: "rathole_inv s \<Longrightarrow> rathole_inv (forward_end c s)"
proof -
  assume inv: "rathole_inv s"
  then have "chan_inv s" by (simp add: rathole_inv_nth)
  moreover have "rh_tun (forward_end c s) = rh_tun s"
    by (simp add: forward_end_def free_sock_def)
  ultimately show ?thesis
    using inv forward_end_chan [of s c] pool_only_inv [of s "forward_end c s"]
    by (simp add: rathole_inv_nth [of s])
qed

lemma start_inv: "rathole_inv s \<Longrightarrow> rathole_inv (snd (rathole_start ok 0 s))"
  by (cases "tn_task (rh_tun s ! 0)")
    (auto simp: rathole_start_def Let_def rathole_inv_nth chan_on_tunnel nth_on_tunnel RATHOLE_MAX_TUNNELS_def
      flags_ok_def place_ok_def split: mgr_pc.splits)

lemma stop_inv: "rathole_inv s \<Longrightarrow> rathole_inv (rathole_stop 0 s)"
  by (auto simp: rathole_stop_def rathole_inv_nth chan_on_tunnel nth_on_tunnel flags_ok_def place_ok_def
      split: mgr_pc.splits)

lemma chan_inv_nvs [simp]: "chan_inv (s\<lparr>nvs := m\<rparr>) = chan_inv s"
  "chan_inv (s\<lparr>rh_enabled := b\<rparr>) = chan_inv s"
  by (simp_all add: chan_inv_def)

lemma inv_nvs [simp]: "rathole_inv (s\<lparr>nvs := m\<rparr>) = rathole_inv s"
  by (simp add: rathole_inv_def)

lemma inv_save [simp]: "rathole_inv (save_config W k v s) = rathole_inv s"
  by (simp add: save_config_def)

lemma nat_constrain: "nat (constrain x 1 60) \<le> 60 \<and> 1 \<le> nat (constrain x 1 60)"
  unfolding constrain_def by auto

lemma cfg_field_retry:
  "cfg_field key val c = Some (field, c') \<Longrightarrow> tc_retry c \<le> 60 \<Longrightarrow> tc_retry c' \<le> 60"
  using nat_constrain [of "to_int val"] by (auto simp: cfg_field_def Let_def split: if_splits)

lemma cfg_field_enabled:
  "cfg_field key val c = Some (field, c') \<Longrightarrow> key \<noteq> ''enable'' \<Longrightarrow> tc_enabled c' = tc_enabled c"
  by (auto simp: cfg_field_def Let_def split: if_splits)

lemma set_inv:
  assumes inv: "rathole_inv s"
  shows "rathole_inv (snd (rathole_set W 0 key val s))"
proof (cases "cfg_field key val (tn_cfg (rh_tun s ! 0))")
  case None
  with inv show ?thesis by (simp add: rathole_set_def RATHOLE_MAX_TUNNELS_def)
next
  case (Some fc)
  obtain field c where fc: "cfg_field key val (tn_cfg (rh_tun s ! 0)) = Some (field, c)"
    using Some by (cases fc) auto
  let ?s1 = "save_config W (nvs_key 0 field) (cfg_text key val c) (on_tunnel 0 (\<lambda>t. t\<lparr>tn_cfg := c\<rparr>) s)"
  from inv have chan: "chan_inv s" by (simp add: rathole_inv_nth)
  have retry: "tc_retry c \<le> 60"
    using cfg_field_retry [OF fc] inv by (simp add: rathole_inv_nth flags_ok_def)
  have s1: "rh_tun ?s1 ! 0 = (rh_tun s ! 0)\<lparr>tn_cfg := c\<rparr>" "chan_inv ?s1"
      "rh_enabled ?s1 = rh_enabled s" "nvs ?s1 = W (nvs_key 0 field) (cfg_text key val c) (nvs s)"
    using chan by (simp_all add: save_config_def nth_on_tunnel chan_on_tunnel)
  show ?thesis
  proof (cases "key = ''enable'' \<and> \<not> tc_enabled c")
    case True
    have "rathole_inv (rathole_stop 0 ?s1)"
      using inv s1 retry by (auto simp: rathole_stop_def rathole_inv_nth chan_on_tunnel nth_on_tunnel
          flags_ok_def place_ok_def RATHOLE_MAX_TUNNELS_def split: mgr_pc.splits)
    with True fc show ?thesis
      by (simp add: rathole_set_def RATHOLE_MAX_TUNNELS_def Let_def)
  next
    case False
    then have "tc_enabled (tn_cfg (rh_tun s ! 0)) \<longrightarrow> tc_enabled c"
      using cfg_field_enabled [OF fc] by auto
    then have ok: "rathole_inv ?s1"
      using inv s1 retry by (auto simp: rathole_inv_nth flags_ok_def place_ok_def split: mgr_pc.splits)
    then have "rathole_inv (on_tunnel 0 (\<lambda>t. t\<lparr>tn_reconfig := True\<rparr>) ?s1)"
      by (auto simp: rathole_inv_nth chan_on_tunnel nth_on_tunnel flags_ok_def place_ok_def
          split: mgr_pc.splits)
    with ok False fc show ?thesis
      by (auto simp add: rathole_set_def RATHOLE_MAX_TUNNELS_def Let_def)
  qed
qed

lemma clear_form:
  "\<exists>m. rathole_clear 0 s = on_tunnel 0 (\<lambda>t. set_err [] (t\<lparr>tn_cfg := tunnel_cfg_zero\<rparr>))
     ((rathole_stop 0 s)\<lparr>nvs := m\<rparr>)"
proof -
  have "\<not> 0 \<ge> RATHOLE_MAX_TUNNELS" by (simp add: RATHOLE_MAX_TUNNELS_def)
  then show ?thesis by (simp only: rathole_clear_def Let_def if_False) (rule exI, rule refl)
qed

lemma clear_inv:
  assumes inv: "rathole_inv s"
  shows "rathole_inv (rathole_clear 0 s)"
proof -
  obtain m where m: "rathole_clear 0 s = on_tunnel 0 (\<lambda>t. set_err [] (t\<lparr>tn_cfg := tunnel_cfg_zero\<rparr>))
      ((rathole_stop 0 s)\<lparr>nvs := m\<rparr>)"
    using clear_form [of s] by blast
  have stopped: "rathole_inv (rathole_stop 0 s)" "\<not> tn_want (rh_tun (rathole_stop 0 s) ! 0)"
    using inv stop_inv [OF inv]
    by (simp_all add: rathole_stop_def nth_on_tunnel rathole_inv_nth RATHOLE_MAX_TUNNELS_def)
  then show ?thesis
    unfolding m by (auto simp: rathole_inv_nth chan_on_tunnel nth_on_tunnel flags_ok_def place_ok_def
        tunnel_cfg_zero_def split: mgr_pc.splits)
qed

lemma enable_form:
  "rathole_set_enabled W ok en s =
     (let s1 = save_config W ''rathole_en'' (if en then ''1'' else ''0'') (s\<lparr>rh_enabled := en\<rparr>)
      in if \<not> en then rathole_stop 0 s1
         else if tc_enabled (tn_cfg (rh_tun s1 ! 0)) \<and> tc_auto (tn_cfg (rh_tun s1 ! 0))
              then snd (rathole_start ok 0 s1) else s1)"
proof -
  have one: "[0..<RATHOLE_MAX_TUNNELS] = [0]" by (simp add: RATHOLE_MAX_TUNNELS_def)
  show ?thesis by (simp only: rathole_set_enabled_def one fold_simps id_apply Let_def split: if_split)
qed

lemma enable_inv:
  assumes inv: "rathole_inv s"
  shows "rathole_inv (rathole_set_enabled W ok en s)"
proof -
  have chan: "chan_inv (s\<lparr>rh_enabled := en, nvs := m\<rparr>)" for m using inv by (simp add: rathole_inv_nth)
  have "rathole_inv (s\<lparr>rh_enabled := True, nvs := m\<rparr>)" for m
    using inv by (auto simp: rathole_inv_nth flags_ok_def)
  moreover have "rathole_inv (rathole_stop 0 (s\<lparr>rh_enabled := False, nvs := m\<rparr>))" for m
    using inv by (auto simp: rathole_stop_def rathole_inv_nth chan_on_tunnel nth_on_tunnel flags_ok_def
        place_ok_def RATHOLE_MAX_TUNNELS_def split: mgr_pc.splits)
  ultimately show ?thesis
    by (simp add: enable_form save_config_def Let_def start_inv)
qed

lemma beyond_tunnels: "\<not> i < RATHOLE_MAX_TUNNELS \<Longrightarrow>
    snd (rathole_set W i key val s) = s \<and> snd (rathole_start ok i s) = s
    \<and> rathole_stop i s = s \<and> rathole_clear i s = s"
  by (simp add: rathole_set_def rathole_start_def rathole_stop_def rathole_clear_def)

lemma tunnel_index: "i < RATHOLE_MAX_TUNNELS \<Longrightarrow> i = 0"
  by (simp add: RATHOLE_MAX_TUNNELS_def)

text \<open>Every step is one of these, with the only tunnel, or changes nothing.\<close>

lemma rh_step_cases [case_names same manager forward set start stop clear enable]:
  assumes "rh_step sha W e s = s \<Longrightarrow> Q"
    "\<And>mi. e = Ev_manager 0 mi \<Longrightarrow> tn_task (rh_tun s ! 0) \<Longrightarrow> rh_step sha W e s = manager_task sha mi 0 s \<Longrightarrow> Q"
    "\<And>c. e = Ev_forward_end c \<Longrightarrow> rh_step sha W e s = forward_end c s \<Longrightarrow> Q"
    "\<And>key val. e = Ev_set 0 key val \<Longrightarrow> rh_step sha W e s = snd (rathole_set W 0 key val s) \<Longrightarrow> Q"
    "\<And>ok. e = Ev_start ok 0 \<Longrightarrow> rh_step sha W e s = snd (rathole_start ok 0 s) \<Longrightarrow> Q"
    "e = Ev_stop 0 \<Longrightarrow> rh_step sha W e s = rathole_stop 0 s \<Longrightarrow> Q"
    "e = Ev_clear 0 \<Longrightarrow> rh_step sha W e s = rathole_clear 0 s \<Longrightarrow> Q"
    "\<And>ok en. e = Ev_enable ok en \<Longrightarrow> rh_step sha W e s = rathole_set_enabled W ok en s \<Longrightarrow> Q"
  shows Q
proof -
  have idx: "i = 0" if "i < RATHOLE_MAX_TUNNELS" for i using that by (rule tunnel_index)
  have max: "0 < RATHOLE_MAX_TUNNELS" by (simp add: RATHOLE_MAX_TUNNELS_def)
  have beyond: "rh_step sha W (Ev_set i key val) s = s" "rh_step sha W (Ev_start ok i) s = s"
    "rh_step sha W (Ev_stop i) s = s" "rh_step sha W (Ev_clear i) s = s"
    if "\<not> i < RATHOLE_MAX_TUNNELS" for i key val ok
    using that by (simp_all add: rh_step_def beyond_tunnels)
  show Q
  proof (cases e)
    case (Ev_manager i mi)
    then show Q
      using assms(1,2) idx max by (cases "i < RATHOLE_MAX_TUNNELS \<and> tn_task (rh_tun s ! i)")
        (auto simp: rh_step_def)
  next
    case (Ev_forward_end c)
    then show Q using assms(3) by (simp add: rh_step_def)
  next
    case (Ev_set i key val)
    then show Q using assms(1,4) idx beyond [of i]
      by (cases "i < RATHOLE_MAX_TUNNELS") (auto simp: rh_step_def)
  next
    case (Ev_start ok i)
    then show Q using assms(1,5) idx beyond [of i]
      by (cases "i < RATHOLE_MAX_TUNNELS") (auto simp: rh_step_def)
  next
    case (Ev_stop i)
    then show Q using assms(1,6) idx beyond [of i]
      by (cases "i < RATHOLE_MAX_TUNNELS") (auto simp: rh_step_def)
  next
    case (Ev_clear i)
    then show Q using assms(1,7) idx beyond [of i]
      by (cases "i < RATHOLE_MAX_TUNNELS") (auto simp: rh_step_def)
  next
    case (Ev_enable ok en)
    then show Q using assms(8) by (simp add: rh_step_def)
  qed
qed

lemma rh_step_inv:
  assumes inv: "rathole_inv s"
  shows "rathole_inv (rh_step sha W e s)"
  by (cases sha W e s rule: rh_step_cases)
    (simp_all add: inv manager_task_inv forward_end_inv set_inv start_inv stop_inv clear_inv enable_inv)

lemma rh_run_inv: "rathole_inv s \<Longrightarrow> rathole_inv (rh_run sha W es s)"
  by (induction es arbitrary: s) (simp_all add: rh_run_def rh_step_inv)

section \<open>Start-up\<close>

lemma init_single:
  fixes m :: "string \<Rightarrow> string option" and ok :: bool
  defines "s0 \<equiv> (rathole_zero m)\<lparr>rh_enabled := (nvs_get ''rathole_en'' ''1'' m = ''1''),
    rh_tun := [tunnel_zero\<lparr>tn_cfg := load_cfg 0 m\<rparr>]\<rparr>"
  shows "rathole_init ok (rathole_zero m) =
      (if rh_enabled s0 \<and> tc_enabled (load_cfg 0 m) \<and> tc_auto (load_cfg 0 m) \<and> configured (load_cfg 0 m)
       then snd (rathole_start ok 0 s0) else s0)"
  by (simp add: rathole_init_def Let_def load_one_def on_tunnel_def rathole_zero_def tunnel_zero_def s0_def
      one_tunnel)

lemma load_cfg_retry: "tc_retry (load_cfg i m) \<le> 60 \<and> 1 \<le> tc_retry (load_cfg i m)"
  using nat_constrain by (simp add: load_cfg_def)

lemma init_inv: "rathole_inv (rathole_init ok (rathole_zero m))"
proof -
  let ?s0 = "(rathole_zero m)\<lparr>rh_enabled := (nvs_get ''rathole_en'' ''1'' m = ''1''),
    rh_tun := [tunnel_zero\<lparr>tn_cfg := load_cfg 0 m\<rparr>]\<rparr>"
  have "rathole_inv ?s0"
    using load_cfg_retry [of 0 m]
    by (simp add: rathole_inv_def chan_inv_def live_socks_def flags_ok_def place_ok_def tunnel_zero_def
        rathole_zero_def one_tunnel List.map_filter_def)
  then show ?thesis
    using start_inv [of ?s0 ok] unfolding init_single by (simp only: split: if_split) blast
qed

text \<open>
  C26: No data channel of the tunnel client is leaked, deleted twice or lost count of, and a tunnel
  that is switched off never runs.  After start-up on any stored configuration and any sequence of
  manager rounds, ends of forward tasks and calls of other tasks, whatever the network, the clock and
  the allocator returned: each socket ever created is in exactly one of the pool, a forward task and
  the deleted ones; the global counter is the number in the first two; outside an open control channel
  the pool is empty; a tunnel whose run flag is set has a task and is enabled globally and by itself.
\<close>
theorem tunnel_channels_accounted:
  "rathole_inv (rh_run sha W es (rathole_init ok (rathole_zero m)))"
  by (rule rh_run_inv) (rule init_inv)

section \<open>Stopping\<close>

definition starts_again :: "rh_event \<Rightarrow> bool" where
  "starts_again e = (case e of Ev_start _ _ \<Rightarrow> True | Ev_enable _ en \<Rightarrow> en | _ \<Rightarrow> False)"

definition is_round :: "rh_event \<Rightarrow> bool" where
  "is_round e = (case e of Ev_manager i _ \<Rightarrow> i = 0 | _ \<Rightarrow> False)"

definition place_rank :: "mgr_pc \<Rightarrow> nat" where
  "place_rank pc = (case pc of Top \<Rightarrow> 0 | Waiting _ \<Rightarrow> 1 | Session _ \<Rightarrow> 2)"

lemma session_down_place:
  assumes "chan_inv s"
  shows "tn_pc (rh_tun (session_down mi 0 ss s) ! 0) = Waiting 0
    \<and> tn_want (rh_tun (session_down mi 0 ss s) ! 0) = tn_want (rh_tun s ! 0)
    \<and> rh_next (session_down mi 0 ss s) = rh_next s"
proof -
  define s0 where "s0 = on_tunnel 0 (\<lambda>t. t\<lparr>tn_connected := False\<rparr>) s"
  define s1 where "s1 = pool_drain 0 s0"
  have "chan_inv s0" using assms by (simp add: s0_def chan_on_tunnel)
  then have d: "pool_only s0 s1" by (simp add: s1_def pool_drain_chan)
  have n: "rh_next s1 = rh_next s"
    by (simp add: s1_def s0_def pool_drain_def RATHOLE_POOL_SIZE_def drop_channel_def set_pool_def free_sock_def
        split: option.split)
  have w: "tn_want (rh_tun s1 ! 0) = tn_want (rh_tun s ! 0)"
    using d assms by (auto simp: pool_only_def s0_def nth_on_tunnel)
  show ?thesis
    unfolding session_down_def Let_def s0_def [symmetric] s1_def [symmetric]
    using n w pool_onlyD [OF d] by (simp add: nth_on_tunnel)
qed

lemma unwanted_round:
  assumes inv: "rathole_inv s" and "\<not> tn_want (rh_tun s ! 0)"
  shows "\<not> tn_want (rh_tun (manager_task sha mi 0 s) ! 0)
    \<and> rh_next (manager_task sha mi 0 s) = rh_next s
    \<and> place_rank (tn_pc (rh_tun (manager_task sha mi 0 s) ! 0)) = place_rank (tn_pc (rh_tun s ! 0)) - 1"
proof -
  have c: "chan_inv s" using inv by (simp add: rathole_inv_nth)
  show ?thesis
    using assms(2) session_down_place [OF c]
    by (cases "tn_pc (rh_tun s ! 0)")
      (simp_all add: manager_task_def mgr_top_def mgr_wait_def mgr_session_def Let_def c nth_on_tunnel
        place_rank_def)
qed

lemma set_place:
  assumes "chan_inv s" "\<not> tn_want (rh_tun s ! 0)"
  shows "\<not> tn_want (rh_tun (snd (rathole_set W 0 key val s)) ! 0)
    \<and> rh_next (snd (rathole_set W 0 key val s)) = rh_next s
    \<and> tn_pc (rh_tun (snd (rathole_set W 0 key val s)) ! 0) = tn_pc (rh_tun s ! 0)"
proof (cases "cfg_field key val (tn_cfg (rh_tun s ! 0))")
  case None
  then show ?thesis using assms by (simp add: rathole_set_def)
next
  case (Some fc)
  have c: "chan_inv (on_tunnel 0 (\<lambda>t. t\<lparr>tn_cfg := x\<rparr>) s)" for x
    using assms by (simp add: chan_on_tunnel)
  have t: "rh_tun (on_tunnel 0 (\<lambda>t. t\<lparr>tn_cfg := x\<rparr>) s) ! 0 = (rh_tun s ! 0)\<lparr>tn_cfg := x\<rparr>" for x
    using assms by (simp add: nth_on_tunnel)
  from Some show ?thesis
    by (cases fc) (simp add: rathole_set_def Let_def save_config_def rathole_stop_def nth_on_tunnel c t assms(2))
qed

lemma unwanted_other:
  assumes inv: "rathole_inv s" and w: "\<not> tn_want (rh_tun s ! 0)" and e: "\<not> is_round e" "\<not> starts_again e"
  shows "\<not> tn_want (rh_tun (rh_step sha W e s) ! 0) \<and> rh_next (rh_step sha W e s) = rh_next s
    \<and> tn_pc (rh_tun (rh_step sha W e s) ! 0) = tn_pc (rh_tun s ! 0)"
proof -
  have c: "chan_inv s" using inv by (simp add: rathole_inv_nth)
  have stop: "rh_next (rathole_stop 0 u) = rh_next u
    \<and> (chan_inv u \<longrightarrow> rh_tun (rathole_stop 0 u) ! 0 = (rh_tun u ! 0)\<lparr>tn_want := False, tn_reconfig := True\<rparr>)"
    for u :: "'a rathole_scheme"
    by (simp add: rathole_stop_def nth_on_tunnel RATHOLE_MAX_TUNNELS_def)
  show ?thesis
  proof (cases sha W e s rule: rh_step_cases)
    case (set key val)
    then show ?thesis using set_place [OF c w] by simp
  next
    case clear
    obtain m where "rathole_clear 0 s = on_tunnel 0 (\<lambda>t. set_err [] (t\<lparr>tn_cfg := tunnel_cfg_zero\<rparr>))
        ((rathole_stop 0 s)\<lparr>nvs := m\<rparr>)"
      using clear_form [of s] by blast
    with clear stop [of s] c show ?thesis
      using stop_inv [OF inv] by (simp add: nth_on_tunnel rathole_inv_nth)
  next
    case (enable ok en)
    then show ?thesis
      using e c w stop by (simp add: starts_again_def enable_form save_config_def Let_def)
  qed (use w e c stop in \<open>simp_all add: is_round_def starts_again_def forward_end_def free_sock_def\<close>)
qed

lemma unwanted_round_step:
  assumes "rathole_inv s" "\<not> tn_want (rh_tun s ! 0)" "is_round e"
  shows "\<not> tn_want (rh_tun (rh_step sha W e s) ! 0) \<and> rh_next (rh_step sha W e s) = rh_next s
    \<and> place_rank (tn_pc (rh_tun (rh_step sha W e s) ! 0)) = place_rank (tn_pc (rh_tun s ! 0)) - 1"
proof (cases "tn_task (rh_tun s ! 0)")
  case True
  with assms unwanted_round [OF assms(1,2)] show ?thesis
    by (auto simp: is_round_def rh_step_def RATHOLE_MAX_TUNNELS_def split: rh_event.splits)
next
  case False
  with assms(1) have "place_rank (tn_pc (rh_tun s ! 0)) = 0"
    by (auto simp: rathole_inv_nth place_ok_def place_rank_def split: mgr_pc.splits)
  with assms False show ?thesis
    by (auto simp: is_round_def rh_step_def split: rh_event.splits)
qed

lemma unwanted_run:
  assumes "rathole_inv s" "\<not> tn_want (rh_tun s ! 0)" "\<forall>e\<in>set es. \<not> starts_again e"
  shows "rh_next (rh_run sha W es s) = rh_next s
    \<and> place_rank (tn_pc (rh_tun (rh_run sha W es s) ! 0))
        \<le> place_rank (tn_pc (rh_tun s ! 0)) - length (filter is_round es)"
  using assms
proof (induction es arbitrary: s)
  case (Cons e es)
  let ?s = "rh_step sha W e s"
  have inv: "rathole_inv ?s" using Cons.prems by (simp add: rh_step_inv)
  have "\<not> tn_want (rh_tun ?s ! 0) \<and> rh_next ?s = rh_next s
    \<and> place_rank (tn_pc (rh_tun ?s ! 0)) =
        place_rank (tn_pc (rh_tun s ! 0)) - (if is_round e then 1 else 0)"
    using unwanted_other [of s e] unwanted_round_step [of s e] Cons.prems by auto
  with Cons.IH [of ?s] inv Cons.prems show ?case
    by (auto simp: rh_run_def)
qed (simp add: rh_run_def)

text \<open>
  C27: Stopping a tunnel takes effect, whatever the peer does.  In every reachable state, after a stop,
  two further rounds of the manager, mixed with any other calls that do not start it again, leave it
  parked at the top of its loop with the control channel down and the pool empty, and from the stop on
  no new data channel is created.
\<close>
theorem tunnel_stops:
  fixes es0 :: "rh_event list" and m :: "string \<Rightarrow> string option" and W :: nvs_write
    and sha :: "u8 list \<Rightarrow> u8 list" and ok :: bool
  defines "s \<equiv> rh_run sha W es0 (rathole_init ok (rathole_zero m))"
  assumes "\<forall>e\<in>set es. \<not> starts_again e" "2 \<le> length (filter is_round es)"
  shows "tn_pc (rh_tun (rh_run sha W es (rathole_stop 0 s)) ! 0) = Top
    \<and> \<not> tn_connected (rh_tun (rh_run sha W es (rathole_stop 0 s)) ! 0)
    \<and> tn_pool (rh_tun (rh_run sha W es (rathole_stop 0 s)) ! 0) = replicate RATHOLE_POOL_SIZE None
    \<and> rh_next (rh_run sha W es (rathole_stop 0 s)) = rh_next s"
proof -
  let ?s0 = "rathole_stop 0 s" let ?s' = "rh_run sha W es ?s0"
  have inv: "rathole_inv s" unfolding s_def by (rule rh_run_inv) (rule init_inv)
  then have "chan_inv s" by (simp add: rathole_inv_nth)
  then have w: "\<not> tn_want (rh_tun ?s0 ! 0)" "rh_next ?s0 = rh_next s"
    by (simp_all add: rathole_stop_def nth_on_tunnel RATHOLE_MAX_TUNNELS_def)
  have inv0: "rathole_inv ?s0" by (rule stop_inv [OF inv])
  have inv': "rathole_inv ?s'" by (rule rh_run_inv [OF inv0])
  have "place_rank (tn_pc (rh_tun ?s0 ! 0)) \<le> 2" by (simp add: place_rank_def split: mgr_pc.splits)
  with unwanted_run [OF inv0 w(1) assms(2)] assms(3)
  have pc: "place_rank (tn_pc (rh_tun ?s' ! 0)) = 0" and n: "rh_next ?s' = rh_next ?s0"
    by auto
  then have "tn_pc (rh_tun ?s' ! 0) = Top" by (simp add: place_rank_def split: mgr_pc.splits)
  with inv' n w(2) show ?thesis by (simp add: rathole_inv_nth place_ok_def)
qed

section \<open>The stored configuration\<close>

definition store_agrees :: "'a rathole_scheme \<Rightarrow> bool" where
  "store_agrees s =
     (load_cfg 0 (nvs s) = tn_cfg (rh_tun s ! 0)
      \<and> (nvs_get ''rathole_en'' ''1'' (nvs s) = ''1'') = rh_enabled s)"

lemma nvs_key_0: "nvs_key 0 f = take 15 (''tun1_'' @ f)"
proof -
  have "dec_nat 1 = ''1''" by (subst dec_nat.simps) (simp add: digit_char_def)
  then show ?thesis by (simp add: nvs_key_def)
qed

lemma nvs_keys:
  "nvs_key 0 ''server'' = ''tun1_server''" "nvs_key 0 ''token'' = ''tun1_token''"
  "nvs_key 0 ''svc'' = ''tun1_svc''" "nvs_key 0 ''local'' = ''tun1_local''"
  "nvs_key 0 ''auto'' = ''tun1_auto''" "nvs_key 0 ''en'' = ''tun1_en''"
  "nvs_key 0 ''retry'' = ''tun1_retry''"
  by (simp_all add: nvs_key_0)

lemma constrain_id: "constrain (int n) 1 60 = int n" if "1 \<le> n" "n \<le> 60"
  using that by (simp add: constrain_def)

lemma retry_reread:
  "nat (constrain (to_int (dec_nat (nat (constrain x 1 60)))) 1 60) = nat (constrain x 1 60)"
proof -
  define n where "n = nat (constrain x 1 60)"
  have "1 \<le> n" "n \<le> 60" using nat_constrain [of x] by (auto simp: n_def)
  then show ?thesis by (simp add: n_def [symmetric] to_int_dec_nat constrain_id)
qed

lemma nvs_get_update: "nvs_get k d (m(k' \<mapsto> v)) = (if k = k' then v else nvs_get k d m)"
  by (simp add: nvs_get_def)

text \<open>The fields of a tunnel and their NVS names.\<close>

lemma cfg_fieldE:
  assumes "cfg_field key val c = Some (field, c')"
  obtains "key = ''server''" "field = ''server''" "c' = c\<lparr>tc_server := val\<rparr>"
  | "key = ''token''" "field = ''token''" "c' = c\<lparr>tc_token := val\<rparr>"
  | "key = ''service''" "field = ''svc''" "c' = c\<lparr>tc_svc := val\<rparr>"
  | "key = ''local''" "field = ''local''" "c' = c\<lparr>tc_local := val\<rparr>"
  | "key = ''auto''" "field = ''auto''" "c' = c\<lparr>tc_auto := (val = ''1'' \<or> val = ''true'')\<rparr>"
  | "key = ''enable''" "field = ''en''" "c' = c\<lparr>tc_enabled := (val = ''1'' \<or> val = ''true'')\<rparr>"
  | "key = ''retry''" "field = ''retry''" "c' = c\<lparr>tc_retry := nat (constrain (to_int val) 1 60)\<rparr>"
proof -
  consider "key = ''server''" | "key = ''token''" | "key = ''service''" | "key = ''local''"
    | "key = ''auto''" | "key = ''enable''" | "key = ''retry''"
    | (other) "key \<noteq> ''server''" "key \<noteq> ''token''" "key \<noteq> ''service''" "key \<noteq> ''local''"
        "key \<noteq> ''auto''" "key \<noteq> ''enable''" "key \<noteq> ''retry''"
    by blast
  then show thesis
  proof cases
    case 1 then show thesis using assms by (intro that(1)) (simp_all add: cfg_field_def)
  next
    case 2 then show thesis using assms by (intro that(2)) (simp_all add: cfg_field_def)
  next
    case 3 then show thesis using assms by (intro that(3)) (simp_all add: cfg_field_def)
  next
    case 4 then show thesis using assms by (intro that(4)) (simp_all add: cfg_field_def)
  next
    case 5 then show thesis using assms by (intro that(5)) (simp_all add: cfg_field_def)
  next
    case 6 then show thesis using assms by (intro that(6)) (simp_all add: cfg_field_def)
  next
    case 7 then show thesis
      using assms by (intro that(7)) (simp_all add: cfg_field_def Let_def split: if_splits)
  next
    case other
    then have "cfg_field key val c = None" by (simp only: cfg_field_def if_False)
    with assms show thesis by simp
  qed
qed

lemma set_config_loads:
  assumes "cfg_field key val (load_cfg 0 m) = Some (field, c)"
  shows "load_cfg 0 (m(nvs_key 0 field \<mapsto> cfg_text key val c)) = c"
  using assms
  by (cases rule: cfg_fieldE)
    (simp_all add: load_cfg_def nvs_keys nvs_get_update cfg_text_def retry_reread)

lemma set_config_master:
  assumes "cfg_field key val c0 = Some (field, c)"
  shows "nvs_key 0 field \<noteq> ''rathole_en''"
  using assms by (cases rule: cfg_fieldE) (simp_all add: nvs_keys)

lemma load_cfg_master: "load_cfg 0 (m(''rathole_en'' \<mapsto> v)) = load_cfg 0 m"
  by (simp add: load_cfg_def nvs_keys nvs_get_def)

lemma store_agrees_cong:
  "store_agrees s \<Longrightarrow> nvs s' = nvs s \<Longrightarrow> rh_enabled s' = rh_enabled s
    \<Longrightarrow> tn_cfg (rh_tun s' ! 0) = tn_cfg (rh_tun s ! 0) \<Longrightarrow> store_agrees s'"
  by (simp add: store_agrees_def)

text \<open>What rounds of the manager and run-flag changes leave alone.\<close>

definition cfg_only :: "'a rathole_scheme \<Rightarrow> 'a rathole_scheme \<Rightarrow> bool" where
  "cfg_only s s' =
     (chan_inv s' \<and> nvs s' = nvs s \<and> rh_enabled s' = rh_enabled s
      \<and> tn_cfg (rh_tun s' ! 0) = tn_cfg (rh_tun s ! 0))"

lemma cfg_only_store: "cfg_only s s' \<Longrightarrow> store_agrees s' = store_agrees s"
  by (simp add: cfg_only_def store_agrees_def)

lemma cfg_only_trans: "cfg_only s s' \<Longrightarrow> cfg_only s' s'' \<Longrightarrow> cfg_only s s''"
  by (simp add: cfg_only_def)

lemma cfg_only_pool: "pool_only s s' \<Longrightarrow> cfg_only s s'"
  by (auto simp: pool_only_def cfg_only_def)

lemma cfg_only_on:
  "chan_inv s \<Longrightarrow> tn_pool (f (rh_tun s ! 0)) = tn_pool (rh_tun s ! 0)
    \<Longrightarrow> tn_cfg (f (rh_tun s ! 0)) = tn_cfg (rh_tun s ! 0) \<Longrightarrow> cfg_only s (on_tunnel 0 f s)"
  by (simp add: cfg_only_def chan_on_tunnel nth_on_tunnel)

lemma session_down_cfg:
  assumes "chan_inv s"
  shows "cfg_only s (session_down mi 0 ss s)"
proof -
  let ?s0 = "on_tunnel 0 (\<lambda>t. t\<lparr>tn_connected := False\<rparr>) s"
  have s0: "cfg_only s ?s0" using assms by (simp add: cfg_only_on)
  have c: "chan_inv ?s0" using assms by (simp add: chan_on_tunnel)
  have s1: "cfg_only s (pool_drain 0 ?s0)"
    using pool_drain_chan [OF c] s0 cfg_only_pool cfg_only_trans by blast
  then have "chan_inv (pool_drain 0 ?s0)" by (simp add: cfg_only_def)
  then show ?thesis
    unfolding session_down_def Let_def by (intro cfg_only_trans [OF s1] cfg_only_on) simp_all
qed

lemma manager_cfg:
  assumes inv: "rathole_inv s"
  shows "cfg_only s (manager_task sha mi 0 s)"
proof -
  have c: "chan_inv s" using inv by (simp add: rathole_inv_nth)
  show ?thesis
  proof (cases "tn_pc (rh_tun s ! 0)")
    case Top
    with c show ?thesis by (simp add: manager_task_def cfg_only_on mgr_top_keeps)
  next
    case (Waiting w)
    with c show ?thesis by (simp add: manager_task_def cfg_only_on mgr_wait_def)
  next
    case (Session ss)
    from c have "cfg_only s (mgr_session mi 0 ss s)"
    proof (cases rule: mgr_session_shape [where mi = mi and ss = ss])
      case (down s1 ss1)
      then show ?thesis
        using session_down_cfg cfg_only_pool cfg_only_trans pool_onlyD by metis
    next
      case (err e s1 ss1)
      have "cfg_only s1 (on_tunnel 0 (set_err e) s1)"
        using pool_onlyD [OF err(1)] by (simp add: cfg_only_on)
      then show ?thesis
        using err session_down_cfg cfg_only_pool cfg_only_trans by (metis cfg_only_def)
    next
      case (stay s1 ss1)
      then show ?thesis
        using cfg_only_on [of s1 "\<lambda>t. t\<lparr>tn_pc := Session ss1\<rparr>"] cfg_only_pool cfg_only_trans pool_onlyD
        by fastforce
    qed
    with Session show ?thesis by (simp add: manager_task_def)
  qed
qed

lemma start_cfg: "chan_inv s \<Longrightarrow> cfg_only s (snd (rathole_start ok 0 s))"
  by (simp add: rathole_start_def Let_def cfg_only_def chan_on_tunnel nth_on_tunnel)

lemma stop_cfg: "chan_inv s \<Longrightarrow> cfg_only s (rathole_stop 0 s)"
  by (simp add: rathole_stop_def cfg_only_def chan_on_tunnel nth_on_tunnel)

lemma forward_end_cfg: "chan_inv s \<Longrightarrow> cfg_only s (forward_end c s)"
  by (rule cfg_only_pool) (rule forward_end_chan)

lemma set_store:
  assumes W: "nvs_stores W" and c: "chan_inv s" and st: "store_agrees s"
  shows "store_agrees (snd (rathole_set W 0 key val s))"
proof (cases "cfg_field key val (tn_cfg (rh_tun s ! 0))")
  case None
  then show ?thesis using st by (simp add: rathole_set_def)
next
  case (Some fc)
  obtain field cfg where fc: "cfg_field key val (tn_cfg (rh_tun s ! 0)) = Some (field, cfg)"
    using Some by (cases fc) auto
  define s1 where "s1 = save_config W (nvs_key 0 field) (cfg_text key val cfg) (on_tunnel 0 (\<lambda>t. t\<lparr>tn_cfg := cfg\<rparr>) s)"
  have c1: "chan_inv s1" using c by (simp add: s1_def save_config_def chan_on_tunnel)
  have n1: "nvs s1 = (nvs s)(nvs_key 0 field \<mapsto> cfg_text key val cfg)"
    using W by (simp add: s1_def save_config_def nvs_stores_def)
  have "load_cfg 0 (nvs s1) = cfg"
    using set_config_loads [of key val "nvs s" field cfg] fc st by (simp add: n1 store_agrees_def)
  moreover have "tn_cfg (rh_tun s1 ! 0) = cfg" "rh_enabled s1 = rh_enabled s"
    using c by (simp_all add: s1_def save_config_def nth_on_tunnel)
  moreover have "nvs_get ''rathole_en'' ''1'' (nvs s1) = nvs_get ''rathole_en'' ''1'' (nvs s)"
    using set_config_master [OF fc] by (auto simp: n1 nvs_get_update)
  ultimately have s1: "store_agrees s1" using st by (simp add: store_agrees_def)
  have rec: "cfg_only s1 (on_tunnel 0 (\<lambda>t. t\<lparr>tn_reconfig := True\<rparr>) s1)"
    using c1 by (simp add: cfg_only_on)
  have "snd (rathole_set W 0 key val s) =
      (if key = ''enable'' \<and> \<not> tc_enabled cfg then rathole_stop 0 s1
       else if key \<noteq> ''auto'' \<and> tn_want (rh_tun s1 ! 0)
       then on_tunnel 0 (\<lambda>t. t\<lparr>tn_reconfig := True\<rparr>) s1 else s1)"
    unfolding rathole_set_def Let_def fc s1_def by (simp add: RATHOLE_MAX_TUNNELS_def)
  then show ?thesis
    using s1 cfg_only_store [OF stop_cfg [OF c1]] cfg_only_store [OF rec] by simp
qed

lemma enable_store:
  assumes W: "nvs_stores W" and c: "chan_inv s" and st: "store_agrees s"
  shows "store_agrees (rathole_set_enabled W ok en s)"
proof -
  define s1 where "s1 = save_config W ''rathole_en'' (if en then ''1'' else ''0'') (s\<lparr>rh_enabled := en\<rparr>)"
  have c1: "chan_inv s1" using c by (simp add: s1_def save_config_def)
  have "store_agrees s1"
    using W st by (simp add: s1_def save_config_def store_agrees_def nvs_stores_def nvs_get_update load_cfg_master)
  then show ?thesis
    unfolding enable_form s1_def [symmetric] Let_def
    using cfg_only_store [OF stop_cfg [OF c1]] cfg_only_store [OF start_cfg [OF c1]] by simp
qed

definition is_clear :: "rh_event \<Rightarrow> bool" where
  "is_clear e = (case e of Ev_clear _ \<Rightarrow> True | _ \<Rightarrow> False)"

lemma rh_step_store:
  assumes W: "nvs_stores W" and inv: "rathole_inv s" and st: "store_agrees s" and e: "\<not> is_clear e"
  shows "store_agrees (rh_step sha W e s)"
proof -
  have c: "chan_inv s" using inv by (simp add: rathole_inv_nth)
  show ?thesis
    by (cases sha W e s rule: rh_step_cases)
      (use st e cfg_only_store [OF manager_cfg [OF inv]] cfg_only_store [OF forward_end_cfg [OF c]]
        cfg_only_store [OF start_cfg [OF c]] cfg_only_store [OF stop_cfg [OF c]]
        set_store [OF W c st] enable_store [OF W c st] in \<open>simp_all add: is_clear_def\<close>)
qed

lemma rh_run_store:
  assumes "nvs_stores W" "rathole_inv s" "store_agrees s" "\<forall>e\<in>set es. \<not> is_clear e"
  shows "store_agrees (rh_run sha W es s)"
  using assms(2-4)
proof (induction es arbitrary: s)
  case (Cons e es)
  then have "rathole_inv (rh_step sha W e s)" "store_agrees (rh_step sha W e s)"
    using rh_step_inv rh_step_store [OF assms(1)] by auto
  with Cons show ?case by (simp add: rh_run_def)
qed (simp add: rh_run_def)

lemma init_cfg:
  "tn_cfg (rh_tun (rathole_init ok (rathole_zero m)) ! 0) = load_cfg 0 m
   \<and> rh_enabled (rathole_init ok (rathole_zero m)) = (nvs_get ''rathole_en'' ''1'' m = ''1'')
   \<and> nvs (rathole_init ok (rathole_zero m)) = m"
proof -
  define s0 where "s0 = (rathole_zero m)\<lparr>rh_enabled := (nvs_get ''rathole_en'' ''1'' m = ''1''),
    rh_tun := [tunnel_zero\<lparr>tn_cfg := load_cfg 0 m\<rparr>]\<rparr>"
  have "chan_inv s0"
    by (simp add: s0_def chan_inv_def live_socks_def tunnel_zero_def rathole_zero_def one_tunnel
        List.map_filter_def)
  then have "cfg_only s0 (snd (rathole_start ok 0 s0))" by (rule start_cfg)
  moreover have "tn_cfg (rh_tun s0 ! 0) = load_cfg 0 m" "nvs s0 = m"
    "rh_enabled s0 = (nvs_get ''rathole_en'' ''1'' m = ''1'')"
    by (simp_all add: s0_def rathole_zero_def)
  ultimately show ?thesis
    unfolding init_single s0_def [symmetric] by (simp add: cfg_only_def split: if_split)
qed

text \<open>
  C28: A tunnel's configuration survives a reset.  If NVS keeps what is written, then after start-up and
  any sequence of steps without \<open>rathole_clear\<close>, restarting the board from its NVS gives the same
  server, token, service, local address, switches and retry time, and the same master switch, as the
  running node had.
\<close>
theorem tunnel_config_survives_reset:
  fixes es :: "rh_event list" and m :: "string \<Rightarrow> string option" and W :: nvs_write
    and sha :: "u8 list \<Rightarrow> u8 list" and ok ok' :: bool
  assumes "nvs_stores W" "\<forall>e\<in>set es. \<not> is_clear e"
  defines "s \<equiv> rh_run sha W es (rathole_init ok (rathole_zero m))"
  shows "tn_cfg (rh_tun (rathole_init ok' (rathole_zero (nvs s))) ! 0) = tn_cfg (rh_tun s ! 0)
    \<and> rh_enabled (rathole_init ok' (rathole_zero (nvs s))) = rh_enabled s"
proof -
  have "store_agrees (rathole_init ok (rathole_zero m))"
    using init_cfg [of ok m] by (simp add: store_agrees_def)
  then have "store_agrees s"
    unfolding s_def by (intro rh_run_store [OF assms(1)] init_inv assms(2))
  then show ?thesis using init_cfg [of ok' "nvs s"] by (simp add: store_agrees_def)
qed

text \<open>A clear, and the four fields that make a tunnel configured.\<close>

lemma clear_nvs:
  "nvs (rathole_clear 0 s) = (nvs s)(''tun1_server'' := None, ''tun1_token'' := None, ''tun1_svc'' := None,
     ''tun1_local'' := None, ''tun1_auto'' := None, ''tun1_en'' := None, ''tun1_retry'' := None)"
proof -
  have "\<not> 0 \<ge> RATHOLE_MAX_TUNNELS" by (simp add: RATHOLE_MAX_TUNNELS_def)
  then show ?thesis
    by (simp only: rathole_clear_def Let_def if_False on_tunnel_keeps fold_simps id_apply nvs_keys
        rathole_stop_def) simp
qed

lemma clear_tunnel:
  assumes "chan_inv s"
  shows "chan_inv (rathole_clear 0 s) \<and> rh_enabled (rathole_clear 0 s) = rh_enabled s
    \<and> tn_cfg (rh_tun (rathole_clear 0 s) ! 0) = tunnel_cfg_zero
    \<and> \<not> tn_want (rh_tun (rathole_clear 0 s) ! 0)"
proof -
  obtain m where m: "rathole_clear 0 s = on_tunnel 0 (\<lambda>t. set_err [] (t\<lparr>tn_cfg := tunnel_cfg_zero\<rparr>))
      ((rathole_stop 0 s)\<lparr>nvs := m\<rparr>)"
    using clear_form [of s] by blast
  with assms show ?thesis
    by (simp add: rathole_stop_def RATHOLE_MAX_TUNNELS_def chan_on_tunnel nth_on_tunnel)
qed

lemma set_idle:
  assumes W: "nvs_stores W" and c: "chan_inv s" "\<not> tn_want (rh_tun s ! 0)"
    and f: "cfg_field key val (tn_cfg (rh_tun s ! 0)) = Some (field, cfg)" "key \<noteq> ''enable''"
  shows "chan_inv (snd (rathole_set W 0 key val s)) \<and> \<not> tn_want (rh_tun (snd (rathole_set W 0 key val s)) ! 0)
    \<and> tn_cfg (rh_tun (snd (rathole_set W 0 key val s)) ! 0) = cfg
    \<and> rh_enabled (snd (rathole_set W 0 key val s)) = rh_enabled s
    \<and> nvs (snd (rathole_set W 0 key val s)) = (nvs s)(nvs_key 0 field \<mapsto> cfg_text key val cfg)"
  using W c f by (simp add: rathole_set_def Let_def save_config_def nvs_stores_def RATHOLE_MAX_TUNNELS_def
      nth_on_tunnel chan_on_tunnel)

lemma four_fields:
  fixes srv tok svc loc :: string
  assumes W: "nvs_stores W" and c: "chan_inv s" "\<not> tn_want (rh_tun s ! 0)"
  defines "s1 \<equiv> fold (\<lambda>(k, v) u. snd (rathole_set W 0 k v u))
      [(''server'', srv), (''token'', tok), (''service'', svc), (''local'', loc)] s"
  shows "chan_inv s1 \<and> \<not> tn_want (rh_tun s1 ! 0) \<and> rh_enabled s1 = rh_enabled s
    \<and> tn_cfg (rh_tun s1 ! 0) = (tn_cfg (rh_tun s ! 0))\<lparr>tc_server := srv, tc_token := tok, tc_svc := svc,
        tc_local := loc\<rparr>
    \<and> nvs s1 = (nvs s)(''tun1_server'' \<mapsto> srv, ''tun1_token'' \<mapsto> tok, ''tun1_svc'' \<mapsto> svc, ''tun1_local'' \<mapsto> loc)"
proof -
  define a where "a = snd (rathole_set W 0 ''server'' srv s)"
  define b where "b = snd (rathole_set W 0 ''token'' tok a)"
  define d where "d = snd (rathole_set W 0 ''service'' svc b)"
  have a: "chan_inv a" "\<not> tn_want (rh_tun a ! 0)" "rh_enabled a = rh_enabled s"
    "tn_cfg (rh_tun a ! 0) = (tn_cfg (rh_tun s ! 0))\<lparr>tc_server := srv\<rparr>"
    "nvs a = (nvs s)(''tun1_server'' \<mapsto> srv)"
    using set_idle [OF W c, of "''server''" srv] by (simp_all add: a_def cfg_field_def nvs_keys cfg_text_def)
  have b: "chan_inv b" "\<not> tn_want (rh_tun b ! 0)" "rh_enabled b = rh_enabled a"
    "tn_cfg (rh_tun b ! 0) = (tn_cfg (rh_tun a ! 0))\<lparr>tc_token := tok\<rparr>"
    "nvs b = (nvs a)(''tun1_token'' \<mapsto> tok)"
    using set_idle [OF W a(1,2), of "''token''" tok] by (simp_all add: b_def cfg_field_def nvs_keys cfg_text_def)
  have d: "chan_inv d" "\<not> tn_want (rh_tun d ! 0)" "rh_enabled d = rh_enabled b"
    "tn_cfg (rh_tun d ! 0) = (tn_cfg (rh_tun b ! 0))\<lparr>tc_svc := svc\<rparr>"
    "nvs d = (nvs b)(''tun1_svc'' \<mapsto> svc)"
    using set_idle [OF W b(1,2), of "''service''" svc] by (simp_all add: d_def cfg_field_def nvs_keys cfg_text_def)
  have "s1 = snd (rathole_set W 0 ''local'' loc d)"
    by (simp add: s1_def a_def b_def d_def)
  with set_idle [OF W d(1,2), of "''local''" loc] show ?thesis
    by (simp add: cfg_field_def nvs_keys cfg_text_def a b d)
qed

text \<open>
  Clearing a tunnel leaves it switched off until the next reset, against the documented default.
  On a node whose master switch is on and stored as on, after a clear and new values for server, token,
  service and local address, a start is refused as disabled; the same start after a reset from the
  same NVS succeeds.
\<close>
theorem tunnel_clear_disables:
  fixes s :: rathole and W :: nvs_write and srv tok svc loc :: string
  assumes W: "nvs_stores W" and s: "rathole_inv s" "rh_enabled s" "nvs_get ''rathole_en'' ''1'' (nvs s) = ''1''"
    and vals: "srv \<noteq> []" "tok \<noteq> []" "svc \<noteq> []" "loc \<noteq> []"
  defines "s1 \<equiv> fold (\<lambda>(k, v) u. snd (rathole_set W 0 k v u))
      [(''server'', srv), (''token'', tok), (''service'', svc), (''local'', loc)] (rathole_clear 0 s)"
  shows "fst (rathole_start True 0 s1) = False
    \<and> tn_error (rh_tun (snd (rathole_start True 0 s1)) ! 0) = ''tunnel disabled''
    \<and> fst (rathole_start True 0 (rathole_init True (rathole_zero (nvs s1)))) = True"
proof -
  let ?c = "rathole_clear 0 s"
  have chan: "chan_inv s" using s(1) by (simp add: rathole_inv_nth)
  note c = clear_tunnel [OF chan]
  have f: "chan_inv s1" "rh_enabled s1"
    "tn_cfg (rh_tun s1 ! 0) = tunnel_cfg_zero\<lparr>tc_server := srv, tc_token := tok, tc_svc := svc, tc_local := loc\<rparr>"
    "nvs s1 = (nvs ?c)(''tun1_server'' \<mapsto> srv, ''tun1_token'' \<mapsto> tok, ''tun1_svc'' \<mapsto> svc, ''tun1_local'' \<mapsto> loc)"
    using four_fields [OF W, of ?c srv tok svc loc] c s(2) by (simp_all add: s1_def)
  have now: "rathole_start True 0 s1 = (False, on_tunnel 0 (set_err ''tunnel disabled'') s1)"
    using f by (simp add: rathole_start_def Let_def RATHOLE_MAX_TUNNELS_def tunnel_cfg_zero_def)
  have load: "load_cfg 0 (nvs s1) = \<lparr>tc_server = srv, tc_token = tok, tc_svc = svc, tc_local = loc,
      tc_auto = False, tc_enabled = True, tc_retry = 1\<rparr>"
  proof -
    have "nat (constrain (to_int ''1'') 1 60) = 1" by code_simp
    then show ?thesis by (simp add: load_cfg_def nvs_keys f(4) clear_nvs nvs_get_def)
  qed
  have master: "nvs_get ''rathole_en'' ''1'' (nvs s1) = ''1''"
    using s(3) by (simp add: f(4) clear_nvs nvs_get_def)
  have "fst (rathole_start True 0 (rathole_init True (rathole_zero (nvs s1))))"
    using init_cfg [of True "nvs s1"] load master vals
    by (simp add: rathole_start_def Let_def RATHOLE_MAX_TUNNELS_def configured_def)
  with now f(1) show ?thesis by (simp add: nth_on_tunnel set_err_def)
qed

section \<open>Forwarding\<close>

definition fwd_bytes :: "fwd_read \<Rightarrow> u8 list" where
  "fwd_bytes r = (case r of Fr_data d \<Rightarrow> d | _ \<Rightarrow> [])"

lemma fwd_round_cases:
  assumes "fwd_round i (tl0, tr0) = (c, tl1, tr1)"
  shows "(tl1 = tl0 \<or> tl1 = tl0 @ fwd_bytes (fr_remote i))
    \<and> (tr1 = tr0 \<or> tr1 = tr0 @ fwd_bytes (fr_local i))
    \<and> (c = None \<longrightarrow> tl1 = tl0 @ fwd_bytes (fr_remote i) \<and> tr1 = tr0 @ fwd_bytes (fr_local i))"
  using assms by (cases "fr_remote i"; cases "fr_local i")
    (auto simp: fwd_round_def fwd_bytes_def Let_def split: if_splits option.splits)

text \<open>
  A forward task relays both directions in order and without loss or repetition: what it has passed on
  is what it read up to some round, and in both directions everything read while it is still running.
\<close>

lemma forward_relays:
  assumes "fwd_pump is (tl0, tr0) = (c, tl1, tr1)"
  shows "\<exists>n m. n \<le> length is \<and> m \<le> length is
    \<and> tl1 = tl0 @ concat (map (\<lambda>i. fwd_bytes (fr_remote i)) (take n is))
    \<and> tr1 = tr0 @ concat (map (\<lambda>i. fwd_bytes (fr_local i)) (take m is))
    \<and> (c = None \<longrightarrow> n = length is \<and> m = length is)"
  using assms
proof (induction "is" arbitrary: tl0 tr0)
  case (Cons i "is")
  obtain c' tl' tr' where r: "fwd_round i (tl0, tr0) = (c', tl', tr')"
    by (cases "fwd_round i (tl0, tr0)") auto
  note rc = fwd_round_cases [OF r]
  show ?case
  proof (cases c')
    case None
    with Cons.prems r have p: "fwd_pump is (tl', tr') = (c, tl1, tr1)" by simp
    from Cons.IH [OF p] obtain n m where
      "n \<le> length is" "m \<le> length is"
      "tl1 = tl' @ concat (map (\<lambda>i. fwd_bytes (fr_remote i)) (take n is))"
      "tr1 = tr' @ concat (map (\<lambda>i. fwd_bytes (fr_local i)) (take m is))"
      "c = None \<longrightarrow> n = length is \<and> m = length is" by blast
    with rc None show ?thesis
      by - (rule exI [of _ "Suc n"], rule exI [of _ "Suc m"], simp)
  next
    case (Some cause)
    with Cons.prems r have "c = Some cause" "tl1 = tl'" "tr1 = tr'" by simp_all
    with rc show ?thesis
      by - (rule exI [of _ "if tl' = tl0 then 0 else 1"], rule exI [of _ "if tr' = tr0 then 0 else 1"], auto)
  qed
qed simp

section \<open>The handshake\<close>

lemma le_u32_bytes:
  "le_u32 (ucast w # ucast (drop_bit 8 w) # ucast (drop_bit 16 w) # ucast (drop_bit 24 w) # r) = w"
proof (rule bit_word_eqI)
  fix n assume "n < LENGTH(32)"
  then have n: "n < 32" by simp
  then consider "n < 8" | "8 \<le> n" "n < 16" | "16 \<le> n" "n < 24" | "24 \<le> n" by linarith
  then show "bit (le_u32 (ucast w # ucast (drop_bit 8 w) # ucast (drop_bit 16 w)
      # ucast (drop_bit 24 w) # r)) n = bit w n"
    using n by cases (auto simp: le_u32_def bit_simps)
qed

lemma ucast_low_byte: "ucast (w AND 0xFF :: u32) = (ucast w :: u8)"
proof -
  have "ucast (w AND mask 8 :: u32) = (ucast w :: u8)"
    by (rule bit_word_eqI) (simp add: bit_simps)
  then show ?thesis by (simp add: mask_eq_exp_minus_1)
qed

lemma le_u32_hello: "le_u32 (build_hello v d) = v"
  by (simp add: build_hello_def ucast_low_byte le_u32_bytes)

lemma le_u32_le32: "le_u32 (le32 w @ r) = w"
  by (simp add: le32_def le_u32_bytes)

text \<open>
  A server of the protocol (\<open>rathole_client.h\<close>): it knows the token of each service by the digest of
  the service's name, greets with a nonce, and acknowledges.
\<close>

definition server_io ::
  "(u8 list \<Rightarrow> u8 list) \<Rightarrow> (u8 list \<Rightarrow> u8 list option) \<Rightarrow> u8 list \<Rightarrow> hs_io" where
  "server_io sha tokens nonce =
     \<lparr>io_connect = True, io_hello = True,
      io_reply = (\<lambda>h. if length h = 37 \<and> le_u32 h = 0 \<and> h ! 4 = 1 then Some (le32 0 @ [1] @ nonce) else None),
      io_auth = True,
      io_ack = (\<lambda>h a. Some (le32 (case tokens (drop 5 h) of
                  None \<Rightarrow> 1
                | Some token \<Rightarrow> if a = sha (token @ nonce) then 0 else 2)))\<rparr>"

text \<open>
  C29: The handshake agrees with a server of the protocol.  For every hash function with 32-byte values,
  every server that follows the protocol and every nonce, the client's handshake succeeds exactly when
  the server knows the service and the hash of the client's token and the nonce is the hash of the
  server's token and the nonce; the session key is then that hash, and otherwise the recorded error
  tells an unknown service from a refused token.
\<close>
theorem handshake_meets_server:
  fixes sha :: "u8 list \<Rightarrow> u8 list" and tokens :: "u8 list \<Rightarrow> u8 list option" and t :: tunnel
  assumes sha: "\<forall>x. length (sha x) = 32" and nonce: "length nonce = 32"
    and addr: "split_host_port (tc_server cfg) 64 = Some (h, p)"
  defines "r \<equiv> control_handshake sha (server_io sha tokens nonce) cfg t"
    and "key \<equiv> sha (bytes_of (tc_token cfg) @ nonce)"
  shows "fst r = (case tokens (sha (bytes_of (tc_svc cfg))) of
        None \<Rightarrow> False | Some token \<Rightarrow> sha (token @ nonce) = key)
    \<and> tn_key (snd r) = key \<and> tn_host (snd r) = h \<and> tn_port (snd r) = p
    \<and> (\<not> fst r \<longrightarrow> tn_error (snd r) = (if tokens (sha (bytes_of (tc_svc cfg))) = None
          then ''service not exist'' else ''auth failed''))"
proof -
  let ?hello = "build_hello 0 (sha (bytes_of (tc_svc cfg)))"
  have hello: "length ?hello = 37" "le_u32 ?hello = 0" "?hello ! 4 = 1"
      "drop 5 ?hello = sha (bytes_of (tc_svc cfg))"
    using sha by (simp_all add: le_u32_hello) (simp_all add: build_hello_def RATHOLE_PROTO_VERSION_def)
  have sh: "le_u32 (le32 0 @ [1] @ nonce) = 0" "(le32 0 @ [1] @ nonce) ! 4 = RATHOLE_PROTO_VERSION"
      "take 32 (drop 5 (le32 0 @ [1] @ nonce)) = nonce"
    using nonce by (simp_all add: le_u32_def le32_def RATHOLE_PROTO_VERSION_def nth_append)
  show ?thesis
    unfolding r_def key_def control_handshake_def Let_def addr
    using hello sh
    by (auto simp: server_io_def le_u32_le32 [of _ "[]", simplified] set_err_def split: option.splits)
qed

definition demo_tokens :: "u8 list \<Rightarrow> u8 list option" where
  "demo_tokens d = (if d = demo_sha (bytes_of ''ssh'') then Some (bytes_of ''t'') else None)"

definition demo_round :: mgr_in where
  "demo_round = \<lparr>mi_now = 40000, mi_mqtt = True, mi_wifi = True, mi_heap = 50000,
     mi_hs = server_io demo_sha demo_tokens (replicate 32 7), mi_ctl = [0, 0, 0, 0], mi_ctl_up = True,
     mi_fill = \<lparr>fi_heap = 50000, fi_alloc = True, fi_connect = True, fi_write = True\<rparr>,
     mi_polls = [Ch_quiet]\<rparr>"

section \<open>Witnesses\<close>

lemma demo_write_stores: "nvs_stores demo_write"
  by (simp add: nvs_stores_def demo_write_def)

lemma demo_wants: "tn_want (rh_tun (rathole_init True (rathole_zero demo_store)) ! 0)"
  by code_simp

theorem tunnel_stops_witness:
  "tn_want (rh_tun (rathole_init True (rathole_zero demo_store)) ! 0)
    \<and> tn_pc (rh_tun (rh_run demo_sha demo_write [Ev_manager 0 demo_round, Ev_clear 0, Ev_manager 0 demo_round]
        (rathole_stop 0 (rh_run demo_sha demo_write [Ev_manager 0 demo_round]
          (rathole_init True (rathole_zero demo_store))))) ! 0) = Top"
  using demo_wants tunnel_stops [of "[Ev_manager 0 demo_round, Ev_clear 0, Ev_manager 0 demo_round]" demo_sha
      demo_write "[Ev_manager 0 demo_round]" True demo_store]
  by (simp add: starts_again_def is_round_def)

theorem tunnel_config_survives_reset_witness:
  "tc_retry (tn_cfg (rh_tun (rathole_init True (rathole_zero (nvs
     (rh_run demo_sha demo_write [Ev_set 0 ''retry'' ''99''] (rathole_init True (rathole_zero demo_store)))))) ! 0)) = 60"
proof -
  have "tc_retry (tn_cfg (rh_tun
      (rh_run demo_sha demo_write [Ev_set 0 ''retry'' ''99''] (rathole_init True (rathole_zero demo_store))) ! 0)) = 60"
    by code_simp
  then show ?thesis
    using tunnel_config_survives_reset [OF demo_write_stores, of "[Ev_set 0 ''retry'' ''99'']"
        True demo_sha True demo_store]
    by (simp add: is_clear_def)
qed

theorem tunnel_clear_disables_witness:
  "fst (rathole_start True 0 (fold (\<lambda>(k, v) u. snd (rathole_set demo_write 0 k v u))
      [(''server'', ''h:2333''), (''token'', ''t''), (''service'', ''ssh''), (''local'', ''l:22'')]
      (rathole_clear 0 (rathole_init True (rathole_zero demo_store))))) = False"
proof -
  let ?s = "rathole_init True (rathole_zero demo_store)"
  have "rh_enabled ?s" "nvs_get ''rathole_en'' ''1'' (nvs ?s) = ''1''"
    using init_cfg [of True demo_store] by (simp_all add: demo_store_def nvs_get_def)
  then show ?thesis
    using tunnel_clear_disables [OF demo_write_stores init_inv, of True demo_store "''h:2333''" "''t''" "''ssh''" "''l:22''"]
    by simp
qed

theorem handshake_meets_server_witness:
  "fst (control_handshake demo_sha (server_io demo_sha demo_tokens (replicate 32 7)) (load_cfg 0 demo_store)
     tunnel_zero)"
proof -
  have a: "split_host_port (tc_server (load_cfg 0 demo_store)) 64 = Some (''h'', 2333)"
    "demo_tokens (demo_sha (bytes_of (tc_svc (load_cfg 0 demo_store)))) = Some (bytes_of ''t'')"
    "bytes_of (tc_token (load_cfg 0 demo_store)) = bytes_of ''t''"
    by code_simp+
  have "\<forall>x. length (demo_sha x) = 32" by (simp add: demo_sha_def)
  from handshake_meets_server [OF this _ a(1), of "replicate 32 7" demo_tokens tunnel_zero]
  show ?thesis by (simp add: a(2,3))
qed

end
