(* ===== verification/Esp_Cfg_Spec.thy ===== *)
theory Esp_Cfg_Spec
  imports Esp_Cfg Esp_Tunnel_Inv
begin

text \<open>
  What the configuration registry of the ESP32 sketch promises.  The locale \<open>settings\<close> states the laws
  of a store of named settings; the registry is an instance of it, over the sixteen entries of the
  table and the seven fields of the tunnel.  The settings written to NVS come back after a reset, the
  secret ones never leave the device, and the HTTP switch, against a comment, is not kept.
\<close>

section \<open>The interface\<close>

locale settings =
  fixes put :: "'k \<Rightarrow> 'v \<Rightarrow> 's \<Rightarrow> bool \<times> 's"
    and get :: "'k \<Rightarrow> 's \<Rightarrow> 'v"
    and accepts :: "'k \<Rightarrow> 'v \<Rightarrow> bool"
    and shown :: "'k \<Rightarrow> 'v \<Rightarrow> 'v"
    and keys :: "'k set"
    and wf :: "'s \<Rightarrow> bool"
  assumes put_wf: "wf s \<Longrightarrow> k \<in> keys \<Longrightarrow> wf (snd (put k v s))"
    and put_accepts: "wf s \<Longrightarrow> k \<in> keys \<Longrightarrow> fst (put k v s) = accepts k v"
    and put_get: "wf s \<Longrightarrow> k \<in> keys \<Longrightarrow> accepts k v \<Longrightarrow> get k (snd (put k v s)) = shown k v"
    and put_other: "wf s \<Longrightarrow> k \<in> keys \<Longrightarrow> k' \<in> keys \<Longrightarrow> k' \<noteq> k
      \<Longrightarrow> get k' (snd (put k v s)) = get k' s"
    and put_refused: "wf s \<Longrightarrow> k \<in> keys \<Longrightarrow> \<not> accepts k v \<Longrightarrow> snd (put k v s) = s"
begin

lemma puts_wf:
  "wf s \<Longrightarrow> fst ` set kvs \<subseteq> keys \<Longrightarrow> wf (fold (\<lambda>(k, v) u. snd (put k v u)) kvs s)"
  by (induction kvs arbitrary: s) (auto simp: put_wf)

text \<open>A setting reads as the last value that was accepted for it.\<close>

lemma get_after_puts:
  assumes "wf s" "fst ` set kvs \<subseteq> keys" "k \<in> keys"
  shows "get k (fold (\<lambda>(k, v) u. snd (put k v u)) kvs s) =
    (case map_of (rev (filter (\<lambda>(k, v). accepts k v) kvs)) k of
       None \<Rightarrow> get k s | Some v \<Rightarrow> shown k v)"
  using assms
proof (induction kvs rule: rev_induct)
  case (snoc kv kvs)
  obtain k' v where kv: "kv = (k', v)" by (cases kv)
  let ?u = "fold (\<lambda>(k, v) u. snd (put k v u)) kvs s"
  have wf: "wf ?u" using snoc.prems by (intro puts_wf) auto
  have k': "k' \<in> keys" using snoc.prems kv by auto
  have IH: "get k ?u = (case map_of (rev (filter (\<lambda>(k, v). accepts k v) kvs)) k of
       None \<Rightarrow> get k s | Some v \<Rightarrow> shown k v)"
    using snoc by auto
  show ?case
  proof (cases "accepts k' v")
    case True
    then show ?thesis
      using IH kv put_get [OF wf k'] put_other [OF wf k' snoc.prems(3)] by (cases "k = k'") simp_all
  next
    case False
    then show ?thesis using IH kv put_refused [OF wf k'] by simp
  qed
qed simp

end

section \<open>Keys\<close>

definition tunnel_name :: "string \<Rightarrow> string" where
  "tunnel_name f = ''tunnel.1.'' @ f"

definition all_keys :: "string list" where
  "all_keys = map ce_key CFG_TABLE @ map tunnel_name tunnel_fields"

lemma table_keys: "map ce_key CFG_TABLE = [''device.name'', ''device.hostname'', ''wifi.ssid'', ''wifi.pass'',
    ''mqtt.broker'', ''mqtt.port'', ''mqtt.user'', ''mqtt.pass'', ''mqtt.ca'', ''mqtt.auto'', ''mqtt.enable'',
    ''http.enable'', ''http.auto'', ''ble.enable'', ''ble.auto'', ''rathole.enable'']"
  by (simp add: CFG_TABLE_def)

lemma distinct_table: "distinct (map ce_key CFG_TABLE)"
  unfolding table_keys by simp

lemma distinct_all_keys: "distinct all_keys"
  unfolding all_keys_def table_keys tunnel_fields_def by (simp add: tunnel_name_def)

lemma find_distinct:
  "distinct (map f xs) \<Longrightarrow> x \<in> set xs \<Longrightarrow> find (\<lambda>y. f x = f y) xs = Some x"
  by (induction xs) (auto simp: rev_image_eqI)

lemma cfg_find_entry: "e \<in> set CFG_TABLE \<Longrightarrow> cfg_find (ce_key e) = Some e"
  unfolding cfg_find_def by (rule find_distinct [OF distinct_table])

lemma table_not_tunnel:
  assumes "e \<in> set CFG_TABLE"
  shows "config_tunnel_key (ce_key e) = None"
proof -
  have "\<forall>k\<in>set (map ce_key CFG_TABLE). \<not> starts_with ''tunnel.'' k"
    unfolding table_keys by (simp add: starts_with_def)
  with assms show ?thesis by (simp add: config_tunnel_key_def)
qed

lemma tunnel_key:
  assumes "f \<in> set tunnel_fields"
  shows "config_tunnel_key (tunnel_name f) = Some (0, f)"
proof -
  have "\<forall>f\<in>set tunnel_fields. config_tunnel_key (tunnel_name f) = Some (0, f)"
    unfolding tunnel_fields_def by code_simp
  with assms show ?thesis by blast
qed

lemma config_set_entry:
  "e \<in> set CFG_TABLE \<Longrightarrow> config_set W ok (ce_key e) v s = ce_set e W ok v s"
  by (simp add: config_set_def table_not_tunnel cfg_find_entry)

lemma config_get_entry: "e \<in> set CFG_TABLE \<Longrightarrow> config_get (ce_key e) s = ce_get e s"
  by (simp add: config_get_def table_not_tunnel cfg_find_entry)

lemma config_set_tunnel:
  "f \<in> set tunnel_fields \<Longrightarrow> config_set W ok (tunnel_name f) v s = rathole_set W 0 f v s"
  by (simp add: config_set_def tunnel_key)

lemma config_get_tunnel:
  "f \<in> set tunnel_fields \<Longrightarrow> config_get (tunnel_name f) s = (if f = ''token'' then [] else rathole_get 0 f s)"
  by (simp add: config_get_def tunnel_key)

section \<open>What a setter changes\<close>

definition cfg_view :: "esp_conf \<Rightarrow> string list" where
  "cfg_view s = map (\<lambda>e. ce_get e s) CFG_TABLE"

definition entry_accepts :: "string \<Rightarrow> string \<Rightarrow> bool" where
  "entry_accepts k v = (k = ''mqtt.port'' \<longrightarrow> 0 < to_int v \<and> to_int v \<le> 65535)"

definition entry_shown :: "string \<Rightarrow> string \<Rightarrow> string" where
  "entry_shown k v =
     (if k = ''wifi.pass'' \<or> k = ''mqtt.pass'' \<or> k = ''tunnel.1.token'' then []
      else if k = ''mqtt.port'' then dec_int (to_int v)
      else if k \<in> {''mqtt.auto'', ''mqtt.enable'', ''http.enable'', ''http.auto'', ''ble.enable'', ''ble.auto'',
                   ''rathole.enable'', ''tunnel.1.auto'', ''tunnel.1.enable''}
      then bit_text (cfg_truthy v)
      else if k = ''tunnel.1.retry'' then dec_nat (nat (constrain (to_int v) 1 60))
      else v)"

lemmas setter_defs = cfg_s_name_def cfg_s_hostn_def cfg_s_wssid_def cfg_s_wpass_def cfg_s_httpen_def
  cfg_s_httpauto_def cfg_s_mbroker_def cfg_s_mport_def cfg_s_muser_def cfg_s_mpass_def cfg_s_mca_def
  cfg_s_mauto_def cfg_s_mten_def cfg_s_bleten_def cfg_s_bleauto_def cfg_s_tunen_def

lemma cfg_view_expand: "cfg_view s = [g_device_name s, g_hostname s, g_wifi_ssid s, [], g_mqtt_broker s,
    dec_int (g_mqtt_port s), g_mqtt_user s, [], g_mqtt_ca_fp s, bit_text (g_mqtt_auto s),
    bit_text (g_mqtt_enabled s), bit_text (g_http_enabled s), bit_text (g_http_auto s),
    bit_text (g_ble_enabled s), bit_text (g_ble_auto s), bit_text (rh_enabled s)]"
  by (simp add: cfg_view_def CFG_TABLE_def)

text \<open>The calls of the tunnel client touch none of the settings of the sketch.\<close>

definition conf_part :: "esp_conf \<Rightarrow> esp_conf" where
  "conf_part s = s\<lparr>nvs := (\<lambda>k. None), rh_enabled := True, rh_tun := [], rh_count := 0, rh_fwd := [],
     rh_next := 0, rh_freed := [], rh_sent := []\<rparr>"

lemma conf_part_on_tunnel [simp]: "conf_part (on_tunnel i f s) = conf_part s"
  by (simp add: conf_part_def on_tunnel_def)

lemma conf_part_start [simp]: "conf_part (snd (rathole_start ok i s)) = conf_part s"
  by (simp add: rathole_start_def Let_def)

lemma conf_part_stop [simp]: "conf_part (rathole_stop i s) = conf_part s"
  by (simp add: rathole_stop_def)

lemma conf_part_save [simp]: "conf_part (save_config W k v s) = conf_part s"
  by (simp add: save_config_def conf_part_def)

lemma conf_part_enabled [simp]: "conf_part (s\<lparr>rh_enabled := b\<rparr>) = conf_part s"
  by (simp add: conf_part_def)

lemma conf_part_enable [simp]: "conf_part (rathole_set_enabled W ok en s) = conf_part s"
  by (simp add: enable_form Let_def)

lemma conf_part_set [simp]: "conf_part (snd (rathole_set W i k v s)) = conf_part s"
  by (simp add: rathole_set_def Let_def split: option.split)

lemma conf_part_fields:
  assumes "conf_part s = conf_part s'"
  shows "g_device_name s = g_device_name s'" "g_hostname s = g_hostname s'" "g_wifi_ssid s = g_wifi_ssid s'"
    "g_wifi_pass s = g_wifi_pass s'" "g_mqtt_broker s = g_mqtt_broker s'" "g_mqtt_port s = g_mqtt_port s'"
    "g_mqtt_user s = g_mqtt_user s'" "g_mqtt_pass s = g_mqtt_pass s'" "g_mqtt_ca_fp s = g_mqtt_ca_fp s'"
    "g_mqtt_auto s = g_mqtt_auto s'" "g_mqtt_enabled s = g_mqtt_enabled s'" "g_http_enabled s = g_http_enabled s'"
    "g_http_auto s = g_http_auto s'" "g_ble_enabled s = g_ble_enabled s'" "g_ble_auto s = g_ble_auto s'"
  using assms by (cases s; cases s'; simp add: conf_part_def)+

lemma chan_inv_conf [simp]:
  "chan_inv (s\<lparr>g_device_name := a\<rparr>) = chan_inv s" "chan_inv (s\<lparr>g_hostname := a\<rparr>) = chan_inv s"
  "chan_inv (s\<lparr>g_wifi_ssid := a\<rparr>) = chan_inv s" "chan_inv (s\<lparr>g_wifi_pass := a\<rparr>) = chan_inv s"
  "chan_inv (s\<lparr>g_mqtt_broker := a\<rparr>) = chan_inv s" "chan_inv (s\<lparr>g_mqtt_port := p\<rparr>) = chan_inv s"
  "chan_inv (s\<lparr>g_mqtt_user := a\<rparr>) = chan_inv s" "chan_inv (s\<lparr>g_mqtt_pass := a\<rparr>) = chan_inv s"
  "chan_inv (s\<lparr>g_mqtt_ca_fp := a\<rparr>) = chan_inv s" "chan_inv (s\<lparr>g_mqtt_auto := b\<rparr>) = chan_inv s"
  "chan_inv (s\<lparr>g_mqtt_enabled := b\<rparr>) = chan_inv s" "chan_inv (s\<lparr>g_mqtt_pending := b\<rparr>) = chan_inv s"
  "chan_inv (s\<lparr>g_http_auto := b\<rparr>) = chan_inv s" "chan_inv (s\<lparr>g_http_enabled := b\<rparr>) = chan_inv s"
  "chan_inv (s\<lparr>g_ble_auto := b\<rparr>) = chan_inv s" "chan_inv (s\<lparr>g_ble_enabled := b\<rparr>) = chan_inv s"
  "chan_inv (s\<lparr>ec_out := out\<rparr>) = chan_inv s"
  by (simp_all add: chan_inv_def)

lemma enable_chan: "chan_inv s \<Longrightarrow> chan_inv (rathole_set_enabled W ok en s)
    \<and> tn_cfg (rh_tun (rathole_set_enabled W ok en s) ! 0) = tn_cfg (rh_tun s ! 0)
    \<and> rh_enabled (rathole_set_enabled W ok en s) = en"
proof -
  assume c: "chan_inv s"
  define s1 where "s1 = save_config W ''rathole_en'' (if en then ''1'' else ''0'') (s\<lparr>rh_enabled := en\<rparr>)"
  have c1: "chan_inv s1" "tn_cfg (rh_tun s1 ! 0) = tn_cfg (rh_tun s ! 0)" "rh_enabled s1 = en"
    using c by (simp_all add: s1_def save_config_def)
  show ?thesis
    unfolding enable_form s1_def [symmetric] Let_def
    using c1 start_cfg [OF c1(1), of ok] stop_cfg [OF c1(1)] by (simp add: cfg_only_def)
qed

lemma chan_save [simp]: "chan_inv (save_config W k v s) = chan_inv s"
  by (simp add: save_config_def)

lemma save_keeps [simp]:
  "rh_tun (save_config W k v s) = rh_tun s" "rh_enabled (save_config W k v s) = rh_enabled s"
  by (simp_all add: save_config_def)

lemma less_16: "i < 16 \<Longrightarrow> i \<in> {0, 1, 2, 3, 4, 5, 6, 7, 8, 9, 10, 11, 12, 13, 14, 15 :: nat}"
  by simp arith

lemma setter_accepts:
  assumes "i < 16"
  shows "fst (ce_set (CFG_TABLE ! i) W ok v s) = entry_accepts (ce_key (CFG_TABLE ! i)) v
    \<and> (\<not> entry_accepts (ce_key (CFG_TABLE ! i)) v \<longrightarrow> snd (ce_set (CFG_TABLE ! i) W ok v s) = s)"
  using less_16 [OF assms]
  by (elim insertE emptyE) (auto simp: CFG_TABLE_def setter_defs entry_accepts_def Let_def)

lemma setter_chan:
  assumes "i < 16" "chan_inv s"
  shows "chan_inv (snd (ce_set (CFG_TABLE ! i) W ok v s))
    \<and> tn_cfg (rh_tun (snd (ce_set (CFG_TABLE ! i) W ok v s)) ! 0) = tn_cfg (rh_tun s ! 0)"
  using less_16 [OF assms(1)] assms(2)
  by (elim insertE emptyE)
    (simp_all add: CFG_TABLE_def setter_defs Let_def set_http_enabled_def emit_act_def enable_chan)

lemma setter_view:
  assumes "i < 16" "chan_inv s" "entry_accepts (ce_key (CFG_TABLE ! i)) v"
  shows "cfg_view (snd (ce_set (CFG_TABLE ! i) W ok v s)) =
    (cfg_view s)[i := entry_shown (ce_key (CFG_TABLE ! i)) v]"
  using less_16 [OF assms(1)] assms(2,3) conf_part_fields [OF conf_part_enable [of W ok "cfg_truthy v" s]]
  by (elim insertE emptyE)
    (simp_all add: CFG_TABLE_def setter_defs Let_def set_http_enabled_def emit_act_def enable_chan
      cfg_view_expand entry_accepts_def entry_shown_def save_config_def)

section \<open>The fields of the tunnel\<close>

definition cfg_show :: "string \<Rightarrow> tunnel_cfg \<Rightarrow> string" where
  "cfg_show f c =
     (if f = ''server'' then tc_server c
      else if f = ''service'' then tc_svc c
      else if f = ''local'' then tc_local c
      else if f = ''auto'' then bit_text (tc_auto c)
      else if f = ''enable'' then bit_text (tc_enabled c)
      else if f = ''retry'' then dec_nat (tc_retry c)
      else [])"

lemma tunnel_get: "(if f = ''token'' then [] else rathole_get 0 f s) = cfg_show f (tn_cfg (rh_tun s ! 0))"
  by (simp add: rathole_get_def cfg_show_def bit_text_def Let_def RATHOLE_MAX_TUNNELS_def)

definition tun_view :: "tunnel_cfg \<Rightarrow> string list" where
  "tun_view c = map (\<lambda>f. cfg_show f c) tunnel_fields"

lemma tun_view_expand: "tun_view c = [tc_server c, [], tc_svc c, tc_local c, bit_text (tc_auto c),
    dec_nat (tc_retry c), bit_text (tc_enabled c)]"
  by (simp add: tun_view_def tunnel_fields_def cfg_show_def)

lemma set_tunnel_state:
  assumes c: "chan_inv s" and f: "cfg_field f v (tn_cfg (rh_tun s ! 0)) = Some (field, cfg)"
  shows "fst (rathole_set W 0 f v s) \<and> chan_inv (snd (rathole_set W 0 f v s))
    \<and> tn_cfg (rh_tun (snd (rathole_set W 0 f v s)) ! 0) = cfg
    \<and> rh_enabled (snd (rathole_set W 0 f v s)) = rh_enabled s
    \<and> nvs (snd (rathole_set W 0 f v s)) = W (nvs_key 0 field) (cfg_text f v cfg) (nvs s)"
proof -
  define s1 where "s1 = save_config W (nvs_key 0 field) (cfg_text f v cfg) (on_tunnel 0 (\<lambda>t. t\<lparr>tn_cfg := cfg\<rparr>) s)"
  have s1: "chan_inv s1" "tn_cfg (rh_tun s1 ! 0) = cfg" "rh_enabled s1 = rh_enabled s"
      "nvs s1 = W (nvs_key 0 field) (cfg_text f v cfg) (nvs s)"
    using c by (simp_all add: s1_def chan_on_tunnel nth_on_tunnel) (simp add: save_config_def)
  have "rathole_set W 0 f v s =
      (if f = ''enable'' \<and> \<not> tc_enabled cfg then (True, rathole_stop 0 s1)
       else if f \<noteq> ''auto'' \<and> tn_want (rh_tun s1 ! 0)
       then (True, on_tunnel 0 (\<lambda>t. t\<lparr>tn_reconfig := True\<rparr>) s1) else (True, s1))"
    unfolding rathole_set_def Let_def f s1_def by (simp add: RATHOLE_MAX_TUNNELS_def)
  then show ?thesis
    using s1 stop_cfg [OF s1(1)] cfg_only_on [OF s1(1), of "\<lambda>t. t\<lparr>tn_reconfig := True\<rparr>"]
    by (auto simp: cfg_only_def)
qed

lemma tunnel_field_cfg:
  assumes "j < 7"
  shows "\<exists>field cfg. cfg_field (tunnel_fields ! j) v c = Some (field, cfg)
    \<and> tun_view cfg = (tun_view c)[j := entry_shown (tunnel_name (tunnel_fields ! j)) v]"
proof -
  have "j \<in> {0, 1, 2, 3, 4, 5, 6}" using assms by simp arith
  moreover have "0 < constrain x 1 60" for x by (simp add: constrain_def)
  ultimately show ?thesis
    by (elim insertE emptyE)
      (simp_all add: tunnel_fields_def cfg_field_def tun_view_expand entry_shown_def tunnel_name_def cfg_truthy_def
        Let_def not_le)
qed

section \<open>The registry as a store of settings\<close>

definition view :: "esp_conf \<Rightarrow> string list" where
  "view s = map (\<lambda>k. config_get k s) all_keys"

lemma view_parts: "view s = cfg_view s @ tun_view (tn_cfg (rh_tun s ! 0))"
  by (simp add: view_def all_keys_def cfg_view_def tun_view_def config_get_entry config_get_tunnel tunnel_get)

lemma lengths: "length CFG_TABLE = 16" "length tunnel_fields = 7" "length all_keys = 23" "length (cfg_view s) = 16"
  by (simp_all add: CFG_TABLE_def tunnel_fields_def all_keys_def cfg_view_def)

lemma cfg_view_set [simp]: "chan_inv s \<Longrightarrow> cfg_field f v (tn_cfg (rh_tun s ! 0)) = Some (field, cfg)
    \<Longrightarrow> cfg_view (snd (rathole_set W 0 f v s)) = cfg_view s"
  using conf_part_fields [OF conf_part_set [of W 0 f v s]] set_tunnel_state [of s f v field cfg W]
  by (simp add: cfg_view_expand)

lemma entry_accepts_tunnel: "entry_accepts (tunnel_name f) v"
  by (simp add: entry_accepts_def tunnel_name_def)

lemma set_nth:
  assumes i: "i < 23" and c: "chan_inv s"
  shows "fst (config_set W ok (all_keys ! i) v s) = entry_accepts (all_keys ! i) v
    \<and> chan_inv (snd (config_set W ok (all_keys ! i) v s))
    \<and> (\<not> entry_accepts (all_keys ! i) v \<longrightarrow> snd (config_set W ok (all_keys ! i) v s) = s)
    \<and> (entry_accepts (all_keys ! i) v \<longrightarrow>
        view (snd (config_set W ok (all_keys ! i) v s)) = (view s)[i := entry_shown (all_keys ! i) v])"
proof (cases "i < 16")
  case True
  then have k: "all_keys ! i = ce_key (CFG_TABLE ! i)" "CFG_TABLE ! i \<in> set CFG_TABLE"
    by (simp_all add: all_keys_def nth_append lengths)
  show ?thesis
    unfolding k(1) config_set_entry [OF k(2)] view_parts
    using setter_accepts [OF True, of W ok v s] setter_chan [OF True c, of W ok v]
      setter_view [OF True c, of v W ok] True
    by (simp add: list_update_append lengths)
next
  case False
  let ?j = "i - 16"
  have j: "?j < 7" using i False by simp
  then have k: "all_keys ! i = tunnel_name (tunnel_fields ! ?j)" "tunnel_fields ! ?j \<in> set tunnel_fields"
    using False by (simp_all add: all_keys_def nth_append lengths)
  obtain field cfg where f: "cfg_field (tunnel_fields ! ?j) v (tn_cfg (rh_tun s ! 0)) = Some (field, cfg)"
    and t: "tun_view cfg = (tun_view (tn_cfg (rh_tun s ! 0)))[?j := entry_shown (tunnel_name (tunnel_fields ! ?j)) v]"
    using tunnel_field_cfg [OF j] by blast
  show ?thesis
    unfolding k(1) config_set_tunnel [OF k(2)] view_parts
    using set_tunnel_state [OF c f, of W] cfg_view_set [OF c f, of W] t False
    by (simp add: entry_accepts_tunnel list_update_append lengths)
qed

lemma view_nth: "i < 23 \<Longrightarrow> config_get (all_keys ! i) s = view s ! i"
  by (simp add: view_def lengths)

lemma length_view [simp]: "length (view s) = 23"
  by (simp add: view_def lengths)

interpretation registry: settings "config_set W ok" config_get entry_accepts entry_shown "set all_keys" chan_inv
  for W :: nvs_write and ok :: bool
proof
  fix s :: esp_conf and k v :: string
  assume c: "chan_inv s" and "k \<in> set all_keys"
  then obtain i where k: "k = all_keys ! i" and i: "i < 23"
    by (auto simp: in_set_conv_nth lengths)
  note set = set_nth [OF i c, of W ok v]
  show "chan_inv (snd (config_set W ok k v s))" using set k by simp
  show "fst (config_set W ok k v s) = entry_accepts k v" using set k by simp
  show "config_get k (snd (config_set W ok k v s)) = entry_shown k v" if "entry_accepts k v"
    using set k i that by (simp add: view_nth)
  show "snd (config_set W ok k v s) = s" if "\<not> entry_accepts k v"
    using set k that by simp
  fix k'
  assume "k' \<in> set all_keys" and ne: "k' \<noteq> k"
  then obtain j where k': "k' = all_keys ! j" and j: "j < 23"
    by (auto simp: in_set_conv_nth lengths)
  have "i \<noteq> j" using ne k k' by auto
  then show "config_get k' (snd (config_set W ok k v s)) = config_get k' s"
    using set k k' j by (cases "entry_accepts k v") (simp_all add: view_nth)
qed

text \<open>
  C21: The configuration registry is a store of named settings.  After any sequence of \<open>config_set\<close>
  calls on its 23 keys, \<open>config_get\<close> of a key returns the canonical form of the last value that was
  accepted for that very key, nothing for a secret one, and what it returned before where no value was
  accepted: no setting disturbs another, and only \<open>mqtt.port\<close> refuses values.
\<close>
theorem config_last_write:
  assumes "chan_inv s" "fst ` set kvs \<subseteq> set all_keys" "k \<in> set all_keys"
  shows "config_get k (fold (\<lambda>(k, v) u. snd (config_set W ok k v u)) kvs s) =
    (case map_of (rev (filter (\<lambda>(k, v). entry_accepts k v) kvs)) k of
       None \<Rightarrow> config_get k s | Some v \<Rightarrow> entry_shown k v)"
  using assms by (rule registry.get_after_puts)

section \<open>Start-up and reset\<close>

text \<open>Static objects at power-on, and the two calls of \<open>setup\<close> that read NVS.\<close>

definition esp_zero :: "(string \<Rightarrow> string option) \<Rightarrow> esp_conf" where
  "esp_zero m =
     \<lparr>nvs = m, rh_enabled = True, rh_tun = replicate RATHOLE_MAX_TUNNELS tunnel_zero, rh_count = 0,
      rh_fwd = [], rh_next = 0, rh_freed = [], rh_sent = [],
      g_device_name = [], g_hostname = [], g_wifi_ssid = [], g_wifi_pass = [], g_mqtt_broker = [],
      g_mqtt_port = 8883, g_mqtt_user = [], g_mqtt_pass = [], g_mqtt_ca_fp = [], g_mqtt_auto = False,
      g_mqtt_enabled = True, g_mqtt_connected = False, g_mqtt_pending = False, g_ble_auto = True,
      g_ble_enabled = True, g_pairing_mode = False, g_pair_timeout_at = 0, g_adv_restart_at = 0,
      g_directed_pending = False, g_directed_addr = [], g_http_auto = True, g_http_enabled = True,
      g_wifi_ready = False, g_wifi_lost_at = 0, g_restart_at = 0, ec_out = []\<rparr>"

definition esp_boot :: "u16 \<Rightarrow> string \<Rightarrow> string \<Rightarrow> bool \<Rightarrow> (string \<Rightarrow> string option) \<Rightarrow> esp_conf" where
  "esp_boot mac ssid pw ok m = rathole_init ok (load_config mac ssid pw (esp_zero m))"

lemma conf_part_nvs [simp]: "conf_part (s\<lparr>nvs := m\<rparr>) = conf_part s" "conf_part (s\<lparr>rh_tun := ts\<rparr>) = conf_part s"
  by (simp_all add: conf_part_def)

lemma conf_part_init [simp]: "conf_part (rathole_init ok s) = conf_part s"
  by (simp add: rathole_init_def RATHOLE_MAX_TUNNELS_def Let_def load_one_def split: if_split)

text \<open>Start-up of the tunnel client as part of the sketch.\<close>

lemma init_part:
  assumes z: "rh_tun s = replicate RATHOLE_MAX_TUNNELS tunnel_zero" "rh_count s = 0" "rh_fwd s = []"
    "rh_next s = 0" "rh_freed s = []"
  shows "chan_inv (rathole_init ok s) \<and> nvs (rathole_init ok s) = nvs s
    \<and> tn_cfg (rh_tun (rathole_init ok s) ! 0) = load_cfg 0 (nvs s)
    \<and> rh_enabled (rathole_init ok s) = (nvs_get ''rathole_en'' ''1'' (nvs s) = ''1'')"
proof -
  define s0 where "s0 = s\<lparr>rh_enabled := (nvs_get ''rathole_en'' ''1'' (nvs s) = ''1''),
    rh_tun := [tunnel_zero\<lparr>tn_cfg := load_cfg 0 (nvs s)\<rparr>]\<rparr>"
  have "chan_inv s0"
    using z by (simp add: s0_def chan_inv_def live_socks_def tunnel_zero_def one_tunnel List.map_filter_def)
  then have st: "cfg_only s0 (snd (rathole_start ok 0 s0))" "chan_inv s0" by (simp_all add: start_cfg)
  have "rathole_init ok s =
      (if rh_enabled s0 \<and> tc_enabled (load_cfg 0 (nvs s)) \<and> tc_auto (load_cfg 0 (nvs s))
          \<and> configured (load_cfg 0 (nvs s))
       then snd (rathole_start ok 0 s0) else s0)"
    using z by (simp add: rathole_init_def Let_def load_one_def on_tunnel_def tunnel_zero_def s0_def one_tunnel)
  moreover have "nvs s0 = nvs s" "tn_cfg (rh_tun s0 ! 0) = load_cfg 0 (nvs s)"
    "rh_enabled s0 = (nvs_get ''rathole_en'' ''1'' (nvs s) = ''1'')"
    by (simp_all add: s0_def)
  ultimately show ?thesis using st by (simp add: cfg_only_def split: if_split)
qed

lemma boot_tunnel:
  "chan_inv (esp_boot mac ssid pw ok m) \<and> nvs (esp_boot mac ssid pw ok m) = m
    \<and> tn_cfg (rh_tun (esp_boot mac ssid pw ok m) ! 0) = load_cfg 0 m
    \<and> rh_enabled (esp_boot mac ssid pw ok m) = (nvs_get ''rathole_en'' ''1'' m = ''1'')"
  using init_part [of "load_config mac ssid pw (esp_zero m)" ok]
  by (simp add: esp_boot_def load_config_def esp_zero_def Let_def)

lemma boot_conf: "conf_part (esp_boot mac ssid pw ok m) = conf_part (load_config mac ssid pw (esp_zero m))"
  by (simp add: esp_boot_def)

text \<open>Memory agrees with NVS when loading again would change the three runtime switches at most.\<close>

definition conf_agrees :: "u16 \<Rightarrow> string \<Rightarrow> string \<Rightarrow> esp_conf \<Rightarrow> bool" where
  "conf_agrees mac ssid pw s =
     (load_config mac ssid pw s =
        s\<lparr>g_mqtt_enabled := g_mqtt_auto s, g_ble_enabled := g_ble_auto s, g_http_enabled := g_http_auto s\<rparr>)"

lemma conf_agrees_iff: "conf_agrees mac ssid pw s =
    (g_device_name s = nvs_get ''name'' (get_default_name mac) (nvs s)
     \<and> g_hostname s = nvs_get ''hostname'' (get_default_hostname mac) (nvs s)
     \<and> g_wifi_ssid s = nvs_get ''wifi_ssid'' ssid (nvs s) \<and> g_wifi_pass s = nvs_get ''wifi_pass'' pw (nvs s)
     \<and> g_mqtt_broker s = nvs_get ''mqtt_broker'' [] (nvs s)
     \<and> g_mqtt_port s = (let p = to_int (nvs_get ''mqtt_port'' ''8883'' (nvs s)) in if p \<le> 0 then 8883 else p)
     \<and> g_mqtt_user s = nvs_get ''mqtt_user'' [] (nvs s) \<and> g_mqtt_pass s = nvs_get ''mqtt_pass'' [] (nvs s)
     \<and> g_mqtt_ca_fp s = nvs_get ''mqtt_ca_fp'' [] (nvs s)
     \<and> g_mqtt_auto s = (to_int (nvs_get ''mqtt_auto'' ''0'' (nvs s)) \<noteq> 0)
     \<and> g_ble_auto s = (to_int (nvs_get ''ble_auto'' ''1'' (nvs s)) \<noteq> 0)
     \<and> g_http_auto s = (to_int (nvs_get ''http_auto'' ''1'' (nvs s)) \<noteq> 0))"
  by (cases s) (auto simp: conf_agrees_def load_config_def Let_def)

lemma bit_text_reread: "(to_int (bit_text b) \<noteq> 0) = b"
proof -
  have "to_int ''1'' = 1" "to_int ''0'' = 0" by code_simp+
  then show ?thesis by (simp add: bit_text_def)
qed

lemma port_reread:
  assumes "0 < p" "p \<le> 65535"
  shows "to_int (dec_int p) = p"
  using assms by (simp add: dec_int_def to_int_dec_nat)

lemma enable_nvs: "chan_inv s \<Longrightarrow>
    nvs (rathole_set_enabled W ok en s) = W ''rathole_en'' (if en then ''1'' else ''0'') (nvs s)"
proof -
  assume c: "chan_inv s"
  define s1 where "s1 = save_config W ''rathole_en'' (if en then ''1'' else ''0'') (s\<lparr>rh_enabled := en\<rparr>)"
  have c1: "chan_inv s1" "nvs s1 = W ''rathole_en'' (if en then ''1'' else ''0'') (nvs s)"
    using c by (simp_all add: s1_def) (simp add: save_config_def)
  show ?thesis
    unfolding enable_form s1_def [symmetric] Let_def
    using c1 start_cfg [OF c1(1), of ok] stop_cfg [OF c1(1)] by (simp add: cfg_only_def)
qed

text \<open>A change of NVS outside the sketch's own names, with the settings of the sketch left alone.\<close>

lemma conf_agrees_cong:
  assumes "conf_part s' = conf_part s" "\<And>k. starts_with ''tun1_'' k \<or> k = ''rathole_en'' \<or> nvs s' k = nvs s k"
    "conf_agrees mac ssid pw s"
  shows "conf_agrees mac ssid pw s'"
proof -
  have "nvs s' k = nvs s k" if "\<not> starts_with ''tun1_'' k" "k \<noteq> ''rathole_en''" for k
    using assms(2) [of k] that by auto
  then have "nvs_get k d (nvs s') = nvs_get k d (nvs s)"
    if "\<not> starts_with ''tun1_'' k" "k \<noteq> ''rathole_en''" for k d
    using that by (simp add: nvs_get_def)
  with assms(3) conf_part_fields [OF assms(1)] show ?thesis
    by (simp add: conf_agrees_iff starts_with_def)
qed

lemma setter_agrees:
  assumes i: "i < 16" and W: "nvs_stores W" and c: "chan_inv s" and a: "conf_agrees mac ssid pw s"
  shows "conf_agrees mac ssid pw (snd (ce_set (CFG_TABLE ! i) W ok v s))"
proof (cases "i = 15")
  case True
  have "conf_agrees mac ssid pw (rathole_set_enabled W ok (cfg_truthy v) s)"
    by (rule conf_agrees_cong [OF _ _ a])
      (use W in \<open>simp_all add: enable_nvs [OF c] nvs_stores_def\<close>)
  then show ?thesis by (simp add: True CFG_TABLE_def cfg_s_tunen_def)
next
  case False
  have W: "W k v m = m(k \<mapsto> v)" for k v m using W by (simp add: nvs_stores_def)
  have "i \<in> {0, 1, 2, 3, 4, 5, 6, 7, 8, 9, 10, 11, 12, 13, 14}" using i False by simp arith
  then show ?thesis
    using a
    by (elim insertE emptyE)
      (simp_all add: CFG_TABLE_def setter_defs Let_def set_http_enabled_def emit_act_def save_config_def W
        conf_agrees_iff nvs_get_update bit_text_reread port_reread not_le)
qed

text \<open>Any call of \<open>config_set\<close>, of a known key or not, keeps memory and NVS in agreement.\<close>

lemma tunnel_key_index: "config_tunnel_key key = Some (i, f) \<Longrightarrow> i = 0"
  by (auto simp: config_tunnel_key_def RATHOLE_MAX_TUNNELS_def Let_def split: if_splits option.splits)

lemma cfg_find_index:
  assumes "cfg_find key = Some e"
  shows "\<exists>i<16. e = CFG_TABLE ! i"
proof -
  have "e \<in> set CFG_TABLE"
    using assms unfolding cfg_find_def by (rule find_Some_iff_first [THEN conjunct1])
  then show ?thesis by (auto simp: in_set_conv_nth lengths)
qed

definition config_inv :: "u16 \<Rightarrow> string \<Rightarrow> string \<Rightarrow> esp_conf \<Rightarrow> bool" where
  "config_inv mac ssid pw s = (chan_inv s \<and> conf_agrees mac ssid pw s \<and> store_agrees s)"

lemma cfg_field_name:
  assumes "cfg_field key val c = Some (field, c')"
  shows "starts_with ''tun1_'' (nvs_key 0 field)"
  using assms by (cases rule: cfg_fieldE) (simp_all add: nvs_keys starts_with_def)

lemma tunnel_set_inv:
  assumes W: "nvs_stores W" and inv: "config_inv mac ssid pw s"
  shows "config_inv mac ssid pw (snd (rathole_set W 0 f v s))"
proof (cases "cfg_field f v (tn_cfg (rh_tun s ! 0))")
  case None
  with inv show ?thesis by (simp add: rathole_set_def)
next
  case (Some fc)
  then obtain field cfg where f: "cfg_field f v (tn_cfg (rh_tun s ! 0)) = Some (field, cfg)"
    by (cases fc) auto
  have c: "chan_inv s" and a: "conf_agrees mac ssid pw s" and st: "store_agrees s"
    using inv by (simp_all add: config_inv_def)
  have "conf_agrees mac ssid pw (snd (rathole_set W 0 f v s))"
    by (rule conf_agrees_cong [OF _ _ a])
      (use set_tunnel_state [OF c f, of W] W cfg_field_name [OF f] in \<open>auto simp: nvs_stores_def\<close>)
  with set_tunnel_state [OF c f, of W] set_store [OF W c st] show ?thesis
    by (simp add: config_inv_def)
qed

lemma setter_store:
  assumes i: "i < 16" and W: "nvs_stores W" and c: "chan_inv s" and st: "store_agrees s"
  shows "store_agrees (snd (ce_set (CFG_TABLE ! i) W ok v s))"
proof (cases "i = 15")
  case True
  then show ?thesis using enable_store [OF W c st] by (simp add: CFG_TABLE_def cfg_s_tunen_def)
next
  case False
  have W: "W k v m = m(k \<mapsto> v)" for k v m using W by (simp add: nvs_stores_def)
  have "i \<in> {0, 1, 2, 3, 4, 5, 6, 7, 8, 9, 10, 11, 12, 13, 14}" using i False by simp arith
  then show ?thesis
    using st
    by (elim insertE emptyE)
      (simp_all add: CFG_TABLE_def setter_defs Let_def set_http_enabled_def emit_act_def save_config_def W
        store_agrees_def nvs_get_update load_cfg_def nvs_keys)
qed

lemma config_set_inv:
  assumes W: "nvs_stores W" and inv: "config_inv mac ssid pw s"
  shows "config_inv mac ssid pw (snd (config_set W ok k v s))"
proof (cases "config_tunnel_key k")
  case (Some p)
  then obtain f where "config_tunnel_key k = Some (0, f)"
    using tunnel_key_index by (cases p) blast
  then show ?thesis
    using tunnel_set_inv [OF assms] by (simp add: config_set_def)
next
  case None
  show ?thesis
  proof (cases "cfg_find k")
    case (Some e)
    then obtain i where "i < 16" "e = CFG_TABLE ! i" using cfg_find_index by blast
    with None Some inv show ?thesis
      using setter_chan setter_agrees [OF _ W] setter_store [OF _ W]
      by (simp add: config_set_def config_inv_def)
  qed (use None inv in \<open>simp add: config_set_def\<close>)
qed

lemma config_sets_inv:
  "nvs_stores W \<Longrightarrow> config_inv mac ssid pw s
    \<Longrightarrow> config_inv mac ssid pw (fold (\<lambda>(k, v) u. snd (config_set W ok k v u)) kvs s)"
  by (induction kvs arbitrary: s) (auto simp: config_set_inv)

lemma boot_inv: "config_inv mac ssid pw (esp_boot mac ssid pw ok m)"
proof -
  let ?l = "load_config mac ssid pw (esp_zero m)"
  have "conf_agrees mac ssid pw ?l"
    by (simp add: conf_agrees_iff) (simp add: load_config_def esp_zero_def Let_def)
  then have "conf_agrees mac ssid pw (esp_boot mac ssid pw ok m)"
    by (rule conf_agrees_cong [rotated 2])
      (simp_all add: boot_conf boot_tunnel, simp add: load_config_def esp_zero_def Let_def)
  then show ?thesis
    using boot_tunnel [of mac ssid pw ok m] by (simp add: config_inv_def store_agrees_def)
qed

text \<open>The three runtime switches, which a reset sets to their boot-time defaults.\<close>

definition runtime_switches :: "string set" where
  "runtime_switches = {''mqtt.enable'', ''http.enable'', ''ble.enable''}"

lemma persistent_index:
  assumes "k \<in> set all_keys - runtime_switches"
  shows "\<exists>i<23. k = all_keys ! i \<and> i \<noteq> 10 \<and> i \<noteq> 11 \<and> i \<noteq> 13"
proof -
  obtain i where i: "i < 23" "k = all_keys ! i"
    using assms by (auto simp: in_set_conv_nth lengths)
  moreover have "all_keys ! 10 = ''mqtt.enable''" "all_keys ! 11 = ''http.enable''" "all_keys ! 13 = ''ble.enable''"
    by (simp_all add: all_keys_def table_keys)
  ultimately have "i \<noteq> 10" "i \<noteq> 11" "i \<noteq> 13" using assms by (auto simp: runtime_switches_def)
  with i show ?thesis by blast
qed

text \<open>
  C22: Settings survive a reset.  If NVS keeps what is written, then after start-up and any sequence of
  \<open>config_set\<close> calls, with any keys and values, restarting the board from its NVS gives the same value
  for every key of the registry but the three runtime switches, and the same three secrets.
\<close>
theorem settings_survive_reset:
  fixes W :: nvs_write and kvs :: "(string \<times> string) list" and mac :: u16 and ssid pw :: string
    and ok ok' :: bool and m :: "string \<Rightarrow> string option"
  assumes "nvs_stores W" "k \<in> set all_keys - runtime_switches"
  defines "s \<equiv> fold (\<lambda>(k, v) u. snd (config_set W ok k v u)) kvs (esp_boot mac ssid pw ok m)"
  defines "s' \<equiv> esp_boot mac ssid pw ok' (nvs s)"
  shows "config_get k s' = config_get k s \<and> g_wifi_pass s' = g_wifi_pass s \<and> g_mqtt_pass s' = g_mqtt_pass s
    \<and> tc_token (tn_cfg (rh_tun s' ! 0)) = tc_token (tn_cfg (rh_tun s ! 0))"
proof -
  have inv: "config_inv mac ssid pw s" unfolding s_def by (rule config_sets_inv [OF assms(1) boot_inv])
  have inv': "config_inv mac ssid pw s'" unfolding s'_def by (rule boot_inv)
  have m: "nvs s' = nvs s" by (simp add: s'_def boot_tunnel)
  obtain i where i: "i < 23" "k = all_keys ! i" "i \<noteq> 10" "i \<noteq> 11" "i \<noteq> 13"
    using persistent_index [OF assms(2)] by blast
  have tun: "tn_cfg (rh_tun s' ! 0) = tn_cfg (rh_tun s ! 0)" "rh_enabled s' = rh_enabled s"
    using inv inv' m by (simp_all add: config_inv_def store_agrees_def)
  have conf: "conf_agrees mac ssid pw s" "conf_agrees mac ssid pw s'"
    using inv inv' by (simp_all add: config_inv_def)
  have "view s' ! i = view s ! i"
  proof (cases "i < 16")
    case True
    then show ?thesis
      using less_16 [OF True] i(3-5) conf m tun(2)
      by (elim insertE emptyE) (simp_all add: view_parts nth_append cfg_view_expand conf_agrees_iff)
  next
    case False
    then show ?thesis using tun(1) by (simp add: view_parts nth_append lengths)
  qed
  then show ?thesis
    using i conf m tun by (simp add: view_nth conf_agrees_iff)
qed

text \<open>
  Switching HTTP off is forgotten at the next reset, against the comment that calls it persisted.
  Setting \<open>http.enable\<close>, which is what \<open>AT+HTTP=0\<close> does, writes nothing to NVS; the restarted board
  serves HTTP again unless \<open>http.auto\<close> was switched off.
\<close>
theorem http_switch_not_kept:
  "nvs (snd (config_set W ok ''http.enable'' v s)) = nvs s
   \<and> g_http_enabled (esp_boot mac ssid pw ok' (nvs s)) = (to_int (nvs_get ''http_auto'' ''1'' (nvs s)) \<noteq> 0)"
proof -
  have "CFG_TABLE ! 11 \<in> set CFG_TABLE" by (simp add: lengths)
  from config_set_entry [OF this] have "config_set W ok ''http.enable'' v s = cfg_s_httpen W ok v s"
    by (simp add: CFG_TABLE_def)
  moreover have "g_http_enabled (esp_boot mac ssid pw ok' (nvs s)) =
      (to_int (nvs_get ''http_auto'' ''1'' (nvs s)) \<noteq> 0)"
    using conf_part_fields(12) [OF boot_conf, of mac ssid pw ok' "nvs s"]
    by (simp add: load_config_def Let_def esp_zero_def)
  ultimately show ?thesis
    by (simp add: cfg_s_httpen_def set_http_enabled_def emit_act_def Let_def)
qed

section \<open>Secrets\<close>

text \<open>
  The state with its secrets erased: the Wi-Fi and MQTT passwords, the tunnel tokens but for being
  empty or not, and NVS, which holds copies of them.
\<close>

definition hide_token :: "tunnel \<Rightarrow> tunnel" where
  "hide_token t = t\<lparr>tn_cfg := (tn_cfg t)\<lparr>tc_token := (if tc_token (tn_cfg t) = [] then [] else ''*'')\<rparr>\<rparr>"

definition hide :: "esp_conf \<Rightarrow> esp_conf" where
  "hide s = s\<lparr>nvs := (\<lambda>k. None), g_wifi_pass := [], g_mqtt_pass := [], rh_tun := map hide_token (rh_tun s)\<rparr>"

lemma nth_beyond: "length xs \<le> i \<Longrightarrow> xs ! i = [] ! (i - length xs)"
  by (induction xs arbitrary: i) (auto simp: nth_Cons split: nat.split)

text \<open>Reading any tunnel, in range or not, what erasing keeps.\<close>

lemma hide_reads:
  assumes "\<And>t. g (hide_token t) = g t"
  shows "g (rh_tun (hide s) ! i) = g (rh_tun s ! i)"
  using assms nth_beyond [of "rh_tun s" i] nth_beyond [of "map hide_token (rh_tun s)" i]
  by (cases "i < length (rh_tun s)") (simp_all add: hide_def)

lemma hide_reads_cfg:
  "tc_server (tn_cfg (rh_tun (hide s) ! i)) = tc_server (tn_cfg (rh_tun s ! i))"
  "tc_svc (tn_cfg (rh_tun (hide s) ! i)) = tc_svc (tn_cfg (rh_tun s ! i))"
  "tc_local (tn_cfg (rh_tun (hide s) ! i)) = tc_local (tn_cfg (rh_tun s ! i))"
  "tc_auto (tn_cfg (rh_tun (hide s) ! i)) = tc_auto (tn_cfg (rh_tun s ! i))"
  "tc_enabled (tn_cfg (rh_tun (hide s) ! i)) = tc_enabled (tn_cfg (rh_tun s ! i))"
  "tc_retry (tn_cfg (rh_tun (hide s) ! i)) = tc_retry (tn_cfg (rh_tun s ! i))"
  "configured (tn_cfg (rh_tun (hide s) ! i)) = configured (tn_cfg (rh_tun s ! i))"
  "tn_pool (rh_tun (hide s) ! i) = tn_pool (rh_tun s ! i)"
  "tn_want (rh_tun (hide s) ! i) = tn_want (rh_tun s ! i)"
  "tn_connected (rh_tun (hide s) ! i) = tn_connected (rh_tun s ! i)"
  "tn_error (rh_tun (hide s) ! i) = tn_error (rh_tun s ! i)"
  by (rule hide_reads, simp add: hide_token_def configured_def)+

lemma hide_tunnel: "f \<noteq> ''token'' \<Longrightarrow> rathole_get i f (hide s) = rathole_get i f s"
  by (simp add: rathole_get_def Let_def hide_reads_cfg)

lemma hide_entry: "i < 16 \<Longrightarrow> ce_get (CFG_TABLE ! i) (hide s) = ce_get (CFG_TABLE ! i) s"
  by (drule less_16, elim insertE emptyE) (simp_all add: CFG_TABLE_def hide_def)

lemma hide_status: "rathole_status_json heap i (hide s) = rathole_status_json heap i s"
proof -
  have "rh_enabled (hide s) = rh_enabled s" "rh_count (hide s) = rh_count s"
    by (simp_all add: hide_def)
  then show ?thesis
    by (simp add: rathole_status_json_def Let_def hide_reads_cfg)
qed

text \<open>
  No secret can be read back.  What \<open>config_get\<close> returns for any key, the list of all settings and
  the status of a tunnel are the same as from a state whose Wi-Fi password, MQTT password and NVS are
  erased and whose tokens are replaced by a mark of being set.
\<close>
theorem secrets_stay_inside:
  "config_get k (hide s) = config_get k s
   \<and> config_list_json (hide s) = config_list_json s
   \<and> rathole_status_json heap i (hide s) = rathole_status_json heap i s"
proof (intro conjI)
  show "config_get k (hide s) = config_get k s"
  proof (cases "config_tunnel_key k")
    case (Some p)
    then show ?thesis by (cases p) (simp add: config_get_def hide_tunnel)
  next
    case None
    show ?thesis
    proof (cases "cfg_find k")
      case (Some e)
      then obtain i where "i < 16" "e = CFG_TABLE ! i" using cfg_find_index by blast
      with None Some show ?thesis by (simp add: config_get_def hide_entry)
    qed (simp add: config_get_def None)
  qed
  have outer: "map (\<lambda>i. let e = CFG_TABLE ! i in
         (if i > 0 then '','' else []) @ ''{\"key\":\"'' @ ce_key e @ ''\"''
           @ (if ce_secret e then '',\"secret\":true'' else '',\"value\":\"'' @ ce_get e (hide s) @ ''\"'') @ ''}'')
         [0..<length CFG_TABLE] =
      map (\<lambda>i. let e = CFG_TABLE ! i in
         (if i > 0 then '','' else []) @ ''{\"key\":\"'' @ ce_key e @ ''\"''
           @ (if ce_secret e then '',\"secret\":true'' else '',\"value\":\"'' @ ce_get e s @ ''\"'') @ ''}'')
         [0..<length CFG_TABLE]"
    by (rule map_cong) (simp_all add: lengths hide_entry Let_def)
  have inner: "map (\<lambda>f. '',{\"key\":\"tunnel.'' @ dec_nat (t + 1) @ ''.'' @ f @ ''\"''
           @ (if f = ''token'' then '',\"secret\":true'' else '',\"value\":\"'' @ rathole_get t f (hide s) @ ''\"'') @ ''}'')
         tunnel_fields =
      map (\<lambda>f. '',{\"key\":\"tunnel.'' @ dec_nat (t + 1) @ ''.'' @ f @ ''\"''
           @ (if f = ''token'' then '',\"secret\":true'' else '',\"value\":\"'' @ rathole_get t f s @ ''\"'') @ ''}'')
         tunnel_fields" for t
    by (rule map_cong) (simp_all add: hide_tunnel)
  show "config_list_json (hide s) = config_list_json s"
    unfolding config_list_json_def outer inner ..
  show "rathole_status_json heap i (hide s) = rathole_status_json heap i s"
    by (rule hide_status)
qed

section \<open>At concrete inputs\<close>

definition demo_conf :: esp_conf where
  "demo_conf = esp_boot 0x1234 ''home'' ''hunter2'' True (\<lambda>k. None)"

lemma demo_conf_chan: "chan_inv demo_conf"
  unfolding demo_conf_def using boot_tunnel by blast

lemma demo_ports: "to_int ''1883'' = 1883" "to_int ''70000'' = 70000" "dec_int 1883 = ''1883''"
proof -
  have d: "dec_nat 1883 = ''1883''" "dec_nat 70000 = ''70000''"
    by (simp_all add: dec_nat.simps digit_char_def)
  then show "to_int ''1883'' = 1883" "to_int ''70000'' = 70000"
    using to_int_dec_nat [of 1883] to_int_dec_nat [of 70000] by simp_all
  show "dec_int 1883 = ''1883''" by (simp add: dec_int_def d)
qed

lemma demo_accepts: "entry_accepts ''mqtt.port'' ''1883''" "\<not> entry_accepts ''mqtt.port'' ''70000''"
    "entry_accepts ''device.name'' ''desk''" "entry_shown ''mqtt.port'' ''1883'' = ''1883''"
  unfolding entry_accepts_def entry_shown_def demo_ports by simp_all

text \<open>A valid port, a bad one, and a name: the bad port is refused.\<close>

theorem config_last_write_witness:
  "config_get ''mqtt.port'' (fold (\<lambda>(k, v) u. snd (config_set demo_write True k v u))
      [(''mqtt.port'', ''1883''), (''device.name'', ''desk''), (''mqtt.port'', ''70000'')] demo_conf) = ''1883''"
proof -
  let ?kvs = "[(''mqtt.port'', ''1883''), (''device.name'', ''desk''), (''mqtt.port'', ''70000'')]"
  have k: "''mqtt.port'' \<in> set all_keys" "''device.name'' \<in> set all_keys"
    unfolding all_keys_def table_keys by (simp_all only: set_append Un_iff list.set insert_iff simp_thms)
  have keys: "fst ` set ?kvs \<subseteq> set all_keys"
    unfolding list.set image_insert image_empty fst_conv using k by (intro insert_subsetI empty_subsetI)
  have "map_of (rev (filter (\<lambda>(k, v). entry_accepts k v) ?kvs)) ''mqtt.port'' = Some ''1883''"
    by (simp add: demo_accepts)
  then show ?thesis
    unfolding config_last_write [OF demo_conf_chan keys k(1)] by (simp only: option.case demo_accepts)
qed

theorem settings_survive_reset_witness:
  "config_get ''mqtt.broker'' (esp_boot 1 ''home'' ''hunter2'' False
      (nvs (fold (\<lambda>(k, v) u. snd (config_set demo_write True k v u))
         [(''mqtt.broker'', ''hub.lan''), (''mqtt.enable'', ''1'')] (esp_boot 1 ''home'' ''hunter2'' True (\<lambda>k. None)))))
   = config_get ''mqtt.broker'' (fold (\<lambda>(k, v) u. snd (config_set demo_write True k v u))
         [(''mqtt.broker'', ''hub.lan''), (''mqtt.enable'', ''1'')] (esp_boot 1 ''home'' ''hunter2'' True (\<lambda>k. None)))"
proof -
  have "''mqtt.broker'' \<in> set all_keys - runtime_switches"
    by (simp add: all_keys_def table_keys runtime_switches_def)
  from settings_survive_reset [OF demo_write_stores this, THEN conjunct1]
  show ?thesis .
qed

end
