(* ===== verification/Esp_Ble.thy ===== *)
theory Esp_Ble
  imports Esp_Cfg_Spec
begin

text \<open>
  Pairing and advertising of the ESP32 sketch: \<open>set_ble_adv_enabled\<close>, \<open>ble_adv_poll\<close>, the connection
  callbacks, the deferred restart in \<open>loop\<close>, and the requests that reach them over HTTP.  The calls of
  the BLE library are entries of \<open>ec_out\<close>; whether a host is connected is an argument.  The theory
  follows the board through connections, disconnections, requests and passes of \<open>loop\<close>: it shows
  when the board may be found by strangers, for how long, and two requests that never time out.
\<close>

section \<open>Operations\<close>

text \<open>\<open>(int32_t) (now - t) >= 0\<close>.\<close>

definition due :: "u32 \<Rightarrow> u32 \<Rightarrow> bool" where
  "due now t = (sint (now - t) \<ge> 0)"

definition set_ble_adv_enabled :: "u32 \<Rightarrow> bool \<Rightarrow> 'a esp_conf_scheme \<Rightarrow> 'a esp_conf_scheme" where
  "set_ble_adv_enabled now enable s =
     (let s1 = s\<lparr>g_pairing_mode := enable, g_adv_restart_at := 0\<rparr>
      in if enable then (emit_act [Adv_stop, Adv_start] s1)\<lparr>g_pair_timeout_at := now + 60000\<rparr>
         else (emit_act [Adv_stop] s1)\<lparr>g_pair_timeout_at := 0\<rparr>)"

definition ble_adv_poll :: "u32 \<Rightarrow> bool \<Rightarrow> 'a esp_conf_scheme \<Rightarrow> 'a esp_conf_scheme" where
  "ble_adv_poll now connected s =
     (if \<not> g_pairing_mode s then s
      else if connected then s\<lparr>g_pair_timeout_at := 0\<rparr>
      else if g_pair_timeout_at s \<noteq> 0 \<and> due now (g_pair_timeout_at s)
      then emit_act [Adv_stop] (s\<lparr>g_pair_timeout_at := 0, g_pairing_mode := False\<rparr>)
      else s)"

definition onConnect :: "'a esp_conf_scheme \<Rightarrow> 'a esp_conf_scheme" where
  "onConnect s = s\<lparr>g_pairing_mode := False, g_pair_timeout_at := 0, g_adv_restart_at := 0,
     g_directed_pending := False\<rparr>"

definition onDisconnect :: "u32 \<Rightarrow> bool \<Rightarrow> string \<Rightarrow> 'a esp_conf_scheme \<Rightarrow> 'a esp_conf_scheme" where
  "onDisconnect now bonded addr s =
     (if bonded then s\<lparr>g_directed_addr := addr, g_directed_pending := True, g_adv_restart_at := now + 500\<rparr>
      else emit_act [Adv_stop] (s\<lparr>g_directed_pending := False\<rparr>))"

text \<open>The deferred restart of \<open>loop\<close>, without its guard on \<open>g_ble_enabled\<close>.\<close>

definition adv_restart :: "u32 \<Rightarrow> bool \<Rightarrow> 'a esp_conf_scheme \<Rightarrow> 'a esp_conf_scheme" where
  "adv_restart now connected s =
     (if g_adv_restart_at s \<noteq> 0 \<and> due now (g_adv_restart_at s)
      then let s1 = s\<lparr>g_adv_restart_at := 0\<rparr>
           in if connected then s1
              else let s2 = emit_act [Adv_stop] s1
                   in if g_directed_pending s2
                      then emit_act [Adv_directed (g_directed_addr s2)] (s2\<lparr>g_directed_pending := False\<rparr>)
                      else if g_pairing_mode s2 then emit_act [Adv_start] s2
                      else s2
      else s)"

definition ble_loop :: "u32 \<Rightarrow> u32 \<Rightarrow> bool \<Rightarrow> 'a esp_conf_scheme \<Rightarrow> 'a esp_conf_scheme" where
  "ble_loop now1 now2 connected s =
     (let s1 = (if g_ble_enabled s then ble_adv_poll now1 connected s else s)
      in if g_ble_enabled s1 then adv_restart now2 connected s1 else s1)"

text \<open>Directed advertising at start-up, to the last bonded host.\<close>

definition ble_init_adv :: "string list \<Rightarrow> 'a esp_conf_scheme \<Rightarrow> 'a esp_conf_scheme" where
  "ble_init_adv bonds s =
     (if g_ble_auto s \<and> bonds \<noteq> [] then emit_act [Adv_directed (last bonds)] s else s)"

section \<open>Requests\<close>

text \<open>\<open>isAdvertising\<close> is the library's answer, a function of the calls made so far.\<close>

definition handle_ble_pair ::
  "(esp_act list \<Rightarrow> bool) \<Rightarrow> u32 \<Rightarrow> http_req \<Rightarrow> 'a esp_conf_scheme \<Rightarrow> http_resp \<times> 'a esp_conf_scheme" where
  "handle_ble_pair adv now r s =
     (let v0 = http_arg r ''enable'';
          v = (if v0 = [] then http_arg r ''start'' else v0);
          s1 = (if v = ''1'' \<or> v = ''true'' then set_ble_adv_enabled now True s
                else if v = ''0'' \<or> v = ''false'' then set_ble_adv_enabled now False s
                else s)
      in ((200, ''{\"ok\":true,\"cmd\":\"ble/pair\",\"advertising\":'' @ json_bool (adv (ec_out s1))
            @ '',\"pairing_mode\":'' @ json_bool (g_pairing_mode s1) @ ''}''), s1))"

section \<open>The board among other devices\<close>

datatype air = Silent | Public | Directed string

fun air_act :: "esp_act \<Rightarrow> air \<Rightarrow> air" where
  "air_act Adv_start a = Public"
| "air_act Adv_stop a = Silent"
| "air_act (Adv_directed d) a = Directed d"
| "air_act _ a = a"

text \<open>
  The events.  A connection ends the advertising it came from; a disconnection needs a connection.
  \<open>Switch\<close> is a setting of \<open>ble.enable\<close>.
\<close>

datatype ble_event =
    Pair u32 bool | Switch string | Conn | Disc u32 bool string | Loop u32 u32

record ble_sys =
  bs_conf :: esp_conf
  bs_peers :: nat
  bs_air :: air

definition on_conf :: "(esp_conf \<Rightarrow> esp_conf) \<Rightarrow> ble_sys \<Rightarrow> ble_sys" where
  "on_conf f b = (let c = f ((bs_conf b)\<lparr>ec_out := []\<rparr>)
     in b\<lparr>bs_conf := c, bs_air := fold air_act (ec_out c) (bs_air b)\<rparr>)"

fun ble_step :: "ble_event \<Rightarrow> ble_sys \<Rightarrow> ble_sys" where
  "ble_step (Pair now en) b = on_conf (set_ble_adv_enabled now en) b"
| "ble_step (Switch v) b = on_conf (\<lambda>c. snd (cfg_s_bleten (\<lambda>k w m. m) True v c)) b"
| "ble_step Conn b = on_conf onConnect (b\<lparr>bs_peers := bs_peers b + 1, bs_air := Silent\<rparr>)"
| "ble_step (Disc now bonded addr) b =
     (if bs_peers b = 0 then b else on_conf (onDisconnect now bonded addr) (b\<lparr>bs_peers := bs_peers b - 1\<rparr>))"
| "ble_step (Loop now1 now2) b = on_conf (ble_loop now1 now2 (bs_peers b > 0)) b"

definition ble_run :: "ble_event list \<Rightarrow> ble_sys \<Rightarrow> ble_sys" where
  "ble_run es b = fold ble_step es b"

lemma ble_run_Nil [simp]: "ble_run [] b = b"
  and ble_run_Cons [simp]: "ble_run (e # es) b = ble_run es (ble_step e b)"
  and ble_run_append: "ble_run (es @ fs) b = ble_run fs (ble_run es b)"
  by (simp_all add: ble_run_def)

lemmas ble_defs = on_conf_def set_ble_adv_enabled_def cfg_s_bleten_def onConnect_def onDisconnect_def
  ble_loop_def ble_adv_poll_def adv_restart_def emit_act_def Let_def

section \<open>Who can find the board\<close>

definition asks_pairing :: "ble_event \<Rightarrow> bool" where
  "asks_pairing e = (\<exists>now. e = Pair now True)"

definition found_only_when_pairing :: "ble_sys \<Rightarrow> bool" where
  "found_only_when_pairing b = (bs_air b = Public \<longrightarrow> g_pairing_mode (bs_conf b))"

lemma found_step: "found_only_when_pairing b \<Longrightarrow> found_only_when_pairing (ble_step e b)"
  by (cases e) (auto simp: found_only_when_pairing_def ble_defs)

lemma found_run: "found_only_when_pairing b \<Longrightarrow> found_only_when_pairing (ble_run es b)"
  by (induction es arbitrary: b) (simp_all add: found_step)

lemma no_pairing_step:
  "\<not> g_pairing_mode (bs_conf b) \<Longrightarrow> \<not> asks_pairing e \<Longrightarrow> \<not> g_pairing_mode (bs_conf (ble_step e b))"
  by (cases e) (auto simp: asks_pairing_def ble_defs)

lemma no_pairing_run:
  "\<not> g_pairing_mode (bs_conf b) \<Longrightarrow> \<forall>e\<in>set es. \<not> asks_pairing e
    \<Longrightarrow> \<not> g_pairing_mode (bs_conf (ble_run es b))"
  by (induction es arbitrary: b) (simp_all add: no_pairing_step)

definition ble_boot :: "string list \<Rightarrow> esp_conf \<Rightarrow> ble_sys" where
  "ble_boot bonds c = on_conf (ble_init_adv bonds) \<lparr>bs_conf = c, bs_peers = 0, bs_air = Silent\<rparr>"

lemma boot_not_pairing: "\<not> g_pairing_mode (esp_boot mac ssid pw ok m)"
proof -
  have "g_pairing_mode (conf_part (esp_boot mac ssid pw ok m)) =
      g_pairing_mode (conf_part (load_config mac ssid pw (esp_zero m)))"
    by (simp only: boot_conf)
  then show ?thesis
    by (simp add: conf_part_def load_config_def esp_zero_def Let_def)
qed

lemma boot_air: "\<not> g_pairing_mode (bs_conf (ble_boot bonds (esp_boot mac ssid pw ok m)))
    \<and> bs_air (ble_boot bonds (esp_boot mac ssid pw ok m)) \<noteq> Public
    \<and> bs_peers (ble_boot bonds (esp_boot mac ssid pw ok m)) = 0"
  using boot_not_pairing [of mac ssid pw ok m]
  by (simp add: ble_boot_def on_conf_def ble_init_adv_def emit_act_def Let_def)

text \<open>
  C18: Strangers find the board only when it was asked to pair.  From start-up, through any connections,
  disconnections, settings of the BLE switch and passes of \<open>loop\<close>, it never advertises publicly unless
  a pairing request was among them.
\<close>
theorem strangers_need_pairing_request:
  assumes "\<forall>e\<in>set es. \<not> asks_pairing e"
  shows "bs_air (ble_run es (ble_boot bonds (esp_boot mac ssid pw ok m))) \<noteq> Public"
proof -
  let ?b = "ble_boot bonds (esp_boot mac ssid pw ok m)"
  have "found_only_when_pairing (ble_run es ?b)"
    by (rule found_run) (simp add: found_only_when_pairing_def boot_air)
  moreover have "\<not> g_pairing_mode (bs_conf (ble_run es ?b))"
    using assms by (intro no_pairing_run) (simp_all add: boot_air)
  ultimately show ?thesis by (simp add: found_only_when_pairing_def)
qed

section \<open>For how long\<close>

text \<open>
  After a request at time \<open>t\<close> on a board that is switched on and not connected: pairing mode has its
  timer, and only a board that is on advertises publicly.
\<close>

definition window_inv :: "u32 \<Rightarrow> ble_sys \<Rightarrow> bool" where
  "window_inv t b =
     ((g_pairing_mode (bs_conf b) \<longrightarrow> bs_peers b = 0 \<and> g_pair_timeout_at (bs_conf b) = t + 60000)
      \<and> (bs_air b = Public \<longrightarrow> g_pairing_mode (bs_conf b) \<and> g_ble_enabled (bs_conf b)))"

lemma window_step:
  assumes "window_inv t b" "\<not> asks_pairing e"
  shows "window_inv t (ble_step e b)"
  using assms by (cases e) (auto simp: window_inv_def asks_pairing_def ble_defs)

lemma window_run:
  "window_inv t b \<Longrightarrow> \<forall>e\<in>set es. \<not> asks_pairing e \<Longrightarrow> window_inv t (ble_run es b)"
  by (induction es arbitrary: b) (simp_all add: window_step)

lemma window_open:
  "g_ble_enabled (bs_conf b) \<Longrightarrow> bs_peers b = 0 \<Longrightarrow> window_inv t (ble_step (Pair t True) b)"
  by (simp add: window_inv_def ble_defs)

text \<open>
  C19: Public pairing ends after a minute.  A pairing request at time \<open>t\<close>, made while BLE is switched on
  and no host is connected, followed by any events but another request: the first pass of \<open>loop\<close> at or
  after \<open>t\<close> plus 60 seconds, within half a turn of the clock, leaves the board no longer publicly
  visible.  The clock must not make the deadline 0, which means no deadline.
\<close>
theorem public_pairing_ends:
  assumes "g_ble_enabled (bs_conf b)" "bs_peers b = 0" "\<forall>e\<in>set es. \<not> asks_pairing e"
    "t + 60000 \<noteq> 0" "due now1 (t + 60000)"
  shows "bs_air (ble_run (Pair t True # es @ [Loop now1 now2]) b) \<noteq> Public"
proof -
  let ?b = "ble_run es (ble_step (Pair t True) b)"
  have "window_inv t ?b"
    using assms by (intro window_run window_open)
  then have "bs_air (ble_step (Loop now1 now2) ?b) \<noteq> Public"
    using assms(4,5) by (auto simp: window_inv_def ble_defs)
  then show ?thesis by (simp add: ble_run_append)
qed

text \<open>Passes of \<open>loop\<close>, and the states they cannot leave.\<close>

definition loops :: "(u32 \<times> u32) list \<Rightarrow> ble_event list" where
  "loops ts = map (\<lambda>(n1, n2). Loop n1 n2) ts"

lemma loops_keep:
  assumes "\<And>b n1 n2. P b \<Longrightarrow> P (ble_step (Loop n1 n2) b)"
  shows "P b \<Longrightarrow> P (ble_run (loops ts) b)"
  by (induction ts arbitrary: b) (auto simp: loops_def assms simp del: ble_step.simps)

definition off_public :: "ble_sys \<Rightarrow> bool" where
  "off_public b = (\<not> g_ble_enabled (bs_conf b) \<and> bs_air b = Public)"

definition endless :: "nat \<Rightarrow> ble_sys \<Rightarrow> bool" where
  "endless n b = (bs_air b = Public \<and> bs_peers b = n \<and> g_pairing_mode (bs_conf b)
     \<and> g_pair_timeout_at (bs_conf b) = 0 \<and> g_adv_restart_at (bs_conf b) = 0)"

lemma off_public_loops: "off_public b \<Longrightarrow> off_public (ble_run (loops ts) b)"
  by (rule loops_keep) (auto simp: off_public_def ble_defs)

lemma endless_loops: "endless n b \<Longrightarrow> endless n (ble_run (loops ts) b)"
  by (rule loops_keep) (auto simp: endless_def ble_defs)

lemma endless_after_loop:
  "g_ble_enabled (bs_conf b) \<Longrightarrow> bs_peers b = 1
    \<Longrightarrow> endless 1 (ble_step (Loop n1 n2) (ble_step (Pair t True) b))"
  by (simp add: endless_def ble_defs)

lemma endless_outlives_host:
  "endless 1 b \<Longrightarrow> endless 0 (ble_step (Switch ''1'') (ble_step (Disc t False a) b))"
  by (simp add: endless_def ble_defs cfg_truthy_def)

text \<open>
  C38: Two pairing requests have no end.  Made while BLE is switched off, the request starts public
  advertising all the same, and \<open>loop\<close>, which skips the time-out of a board that is off, never stops it.
  Made while a host is connected, the first pass of \<open>loop\<close> clears the timer: the advertising goes on,
  and pairing mode outlives the host, so that switching BLE on later advertises publicly for ever.
\<close>
theorem pairing_without_end:
  assumes "\<not> g_ble_enabled (bs_conf off)" "g_ble_enabled (bs_conf on)" "bs_peers on = 1" "ts \<noteq> []"
  shows "bs_air (ble_run (Pair t True # loops ts) off) = Public
    \<and> bs_air (ble_run (Pair t True # loops ts) on) = Public
    \<and> bs_air (ble_run (Pair t True # loops ts @ [Disc t' False a, Switch ''1''] @ loops ts') on) = Public"
proof -
  have "off_public (ble_step (Pair t True) off)"
    using assms(1) by (simp add: off_public_def ble_defs)
  then have off: "off_public (ble_run (loops ts) (ble_step (Pair t True) off))" by (rule off_public_loops)
  obtain n ns where ts: "loops ts = Loop (fst n) (snd n) # loops ns"
    using assms(4) by (cases ts) (auto simp: loops_def)
  have on: "endless 1 (ble_run (loops ts) (ble_step (Pair t True) on))"
    unfolding ts ble_run_Cons by (rule endless_loops [OF endless_after_loop [OF assms(2,3)]])
  have "endless 0 (ble_run (loops ts') (ble_step (Switch ''1'') (ble_step (Disc t' False a)
      (ble_run (loops ts) (ble_step (Pair t True) on)))))"
    by (rule endless_loops [OF endless_outlives_host [OF on]])
  with off on show ?thesis by (simp add: off_public_def endless_def ble_run_append)
qed

text \<open>
  A bonded host is invited back.  When a bonded host disconnects from a board whose BLE is switched
  on, the first pass of \<open>loop\<close> half a second later, if no other host is connected, advertises directly
  to it and to nobody else.
\<close>
theorem bonded_host_invited:
  assumes "g_ble_enabled (bs_conf b)" "bs_peers b = 1" "t + 500 \<noteq> 0" "due n2 (t + 500)"
  shows "bs_air (ble_run [Disc t True a, Loop n1 n2] b) = Directed a"
  using assms by (simp add: ble_defs)

section \<open>At concrete inputs\<close>

definition demo_air :: ble_sys where
  "demo_air = ble_boot [] demo_conf"

lemma demo_air_on: "g_ble_enabled (bs_conf demo_air) \<and> bs_peers demo_air = 0"
proof -
  have "to_int ''1'' \<noteq> 0" using bit_text_reread [of True] by (simp add: bit_text_def)
  then have "g_ble_enabled demo_conf"
    unfolding demo_conf_def conf_part_fields(14) [OF boot_conf]
    by (simp add: load_config_def esp_zero_def Let_def nvs_get_def)
  then show ?thesis by (simp add: demo_air_def ble_boot_def on_conf_def ble_init_adv_def Let_def)
qed

theorem strangers_need_pairing_request_witness:
  "bs_air (ble_run [Conn, Disc 10 False ''aa'', Switch ''0'', Switch ''1'', Loop 99999 99999]
     (ble_boot [] (esp_boot 1 ''home'' ''pw'' True (\<lambda>k. None)))) \<noteq> Public"
  by (rule strangers_need_pairing_request) (simp add: asks_pairing_def)

theorem public_pairing_ends_witness:
  "bs_air (ble_run (Pair 1000 True # [Switch ''0'', Switch ''1''] @ [Loop 61000 61000]) demo_air) \<noteq> Public"
  using public_pairing_ends [of demo_air "[Switch ''0'', Switch ''1'']" 1000 61000 61000] demo_air_on
  by (simp add: asks_pairing_def due_def)

theorem pairing_without_end_witness:
  "bs_air (ble_run (Pair 1000 True # loops [(61001, 61001), (999999, 999999)])
      (demo_air\<lparr>bs_conf := (bs_conf demo_air)\<lparr>g_ble_enabled := False\<rparr>\<rparr>)) = Public
   \<and> bs_air (ble_run (Pair 1000 True # loops [(61001, 61001), (999999, 999999)])
      (demo_air\<lparr>bs_peers := 1\<rparr>)) = Public"
  using pairing_without_end [of "demo_air\<lparr>bs_conf := (bs_conf demo_air)\<lparr>g_ble_enabled := False\<rparr>\<rparr>"
      "demo_air\<lparr>bs_peers := 1\<rparr>" "[(61001, 61001), (999999, 999999)]" 1000] demo_air_on
  by simp

theorem bonded_host_invited_witness:
  "bs_air (ble_run [Disc 1000 True ''aa:bb'', Loop 1500 1500] (demo_air\<lparr>bs_peers := 1\<rparr>)) = Directed ''aa:bb''"
  using bonded_host_invited [of "demo_air\<lparr>bs_peers := 1\<rparr>" 1000 1500 "''aa:bb''" 1500] demo_air_on
  by (simp add: due_def)

end
