(* ===== verification/Us_Layout.thy ===== *)
theory Us_Layout
  imports CString
begin

text \<open>
  A host with a US keyboard layout, as a reference for both firmwares: the text it reads from keyboard
  reports.
\<close>

section \<open>The host\<close>

text \<open>
  What a host with a US layout makes of keyboard reports, written from the HID usage tables and
  not from the firmware: the keys from usage 4 on with the character each gives alone and with Shift;
  Escape, Backspace and the key of usage 50, which US keyboards lack, give none.
\<close>

definition us_layout :: "(char \<times> char) option list" where
  "us_layout =
     map Some (zip ''abcdefghijklmnopqrstuvwxyz'' ''ABCDEFGHIJKLMNOPQRSTUVWXYZ'') @
     map Some (zip ''1234567890'' ''!@#$%^&*()'') @
     [Some (CHR 0x0A, CHR 0x0A), None, None, Some (CHR 0x09, CHR 0x09), Some (CHR '' '', CHR '' '')] @
     map Some (zip [CHR ''-'', CHR ''='', CHR ''['', CHR '']'', CHR 0x5C] ''_+{}|'') @
     [None] @
     map Some (zip [CHR '';'', CHR 0x27, CHR 0x60, CHR '','', CHR ''.'', CHR ''/'']
                   [CHR '':'', CHR 0x22, CHR ''~'', CHR ''<'', CHR ''>'', CHR ''?''])"

text \<open>The character of a key with modifiers; with Control, Alt or GUI held a key types nothing.\<close>

definition host_char :: "u8 \<Rightarrow> u8 \<Rightarrow> char option" where
  "host_char m k =
     (if 4 \<le> unat k \<and> unat k < 4 + length us_layout \<and> m AND 0xDD = 0
      then map_option (\<lambda>(p, q). if m AND 0x22 \<noteq> 0 then q else p) (us_layout ! (unat k - 4))
      else None)"

text \<open>A report types the keys it holds that the report before did not hold.\<close>

fun host_reads :: "u8 list \<Rightarrow> u8 list list \<Rightarrow> string" where
  "host_reads prev [] = []"
| "host_reads prev (b # bs) =
     List.map_filter (host_char (b ! 0)) (filter (\<lambda>k. k \<noteq> 0 \<and> k \<notin> set (drop 2 prev)) (drop 2 b)) @
     host_reads b bs"

definition typeable :: "char \<Rightarrow> bool" where
  "typeable c = list_ex (\<lambda>e. case e of None \<Rightarrow> False | Some (p, q) \<Rightarrow> c = p \<or> c = q) us_layout"

abbreviation no_key :: "u8 list" where "no_key \<equiv> [0, 0, 0, 0, 0, 0, 0, 0]"

lemma host_char_key: "host_char m k = Some c \<Longrightarrow> k \<noteq> 0"
  by (auto simp: host_char_def split: if_splits)

text \<open>One key, pressed and released.\<close>

lemma host_reads_tap:
  "host_char m k = Some c \<Longrightarrow> host_reads no_key ([m, 0, k, 0, 0, 0, 0, 0] # no_key # bs) = c # host_reads no_key bs"
  using host_char_key [of m k c] by (simp add: List.map_filter_simps)

lemma host_reads_release: "host_reads no_key (no_key # bs) = host_reads no_key bs"
  by (simp add: List.map_filter_simps)

end
