(* ===== verification/Esp_Kbd.thy ===== *)
theory Esp_Kbd
  imports Esp_Str Us_Layout
begin

text \<open>
  The keyboard of the ESP32 sketch: the report state \<open>g_key_state\<close>, the report and key functions,
  the typing queue polled from \<open>loop\<close>, the HTTP handlers of the group \<open>keyboard\<close> and the AT commands
  \<open>TAP\<close>, \<open>KEY\<close>, \<open>MOD\<close>, \<open>KEY_SEQ\<close> and \<open>TEXT\<close>.  What the host sees is the list of notified reports,
  with the delays between them.  \<open>ble_init\<close> has created the input report, so \<open>send_report\<close> always
  notifies.
\<close>

section \<open>State and reports\<close>

datatype kbd_out = Report "u8 list" | DelayMs int

record ekbd =
  ek_mods :: u8
  ek_keys :: "u8 list"
  ek_out :: "kbd_out list"
  ty_text :: string
  ty_idx :: nat
  ty_ms :: int
  ty_gap :: int
  ty_next :: u32
  ty_busy :: bool

definition ekbd_boot :: ekbd where
  "ekbd_boot = \<lparr>ek_mods = 0, ek_keys = replicate 6 0, ek_out = [], ty_text = [], ty_idx = 0,
     ty_ms = 40, ty_gap = 30, ty_next = 0, ty_busy = False\<rparr>"

definition kbd_report :: "u8 \<Rightarrow> u8 list \<Rightarrow> kbd_out" where
  "kbd_report m ks = Report (m # 0 # map (\<lambda>i. ks ! i) [0..<6])"

definition send_report :: "ekbd \<Rightarrow> ekbd" where
  "send_report s = s\<lparr>ek_out := ek_out s @ [kbd_report (ek_mods s) (ek_keys s)]\<rparr>"

definition kbd_delay :: "int \<Rightarrow> ekbd \<Rightarrow> ekbd" where
  "kbd_delay ms s = s\<lparr>ek_out := ek_out s @ [DelayMs ms]\<rparr>"

definition clear_keys :: "ekbd \<Rightarrow> ekbd" where
  "clear_keys s = send_report (s\<lparr>ek_mods := 0, ek_keys := replicate 6 0\<rparr>)"

text \<open>The scan of \<open>esp_key_press\<close>; \<open>None\<close> is its early return.\<close>

fun press_scan :: "u8 \<Rightarrow> u8 list \<Rightarrow> u8 list option" where
  "press_scan k [] = Some []"
| "press_scan k (x # xs) =
     (if x = 0 then Some (k # xs)
      else if x = k then None
      else map_option (\<lambda>ys. x # ys) (press_scan k xs))"

definition esp_key_press :: "u8 \<Rightarrow> ekbd \<Rightarrow> ekbd" where
  "esp_key_press k s =
     (case press_scan k (ek_keys s) of
        None \<Rightarrow> s
      | Some ks \<Rightarrow> send_report (s\<lparr>ek_keys := ks\<rparr>))"

definition key_release :: "u8 \<Rightarrow> ekbd \<Rightarrow> ekbd" where
  "key_release k s = send_report (s\<lparr>ek_keys := map (\<lambda>x. if x = k then 0 else x) (ek_keys s)\<rparr>)"

definition key_tap :: "u8 \<Rightarrow> u8 \<Rightarrow> int \<Rightarrow> ekbd \<Rightarrow> ekbd" where
  "key_tap mods k ms s =
     (let ms' = (if ms \<le> 0 then 100 else ms);
          s1 = send_report (s\<lparr>ek_keys := (replicate 6 0)[0 := k], ek_mods := ek_mods s OR mods\<rparr>);
          s2 = kbd_delay ms' s1
      in send_report (s2\<lparr>ek_keys := ek_keys s, ek_mods := ek_mods s\<rparr>))"

section \<open>The typing queue\<close>

text \<open>Modifier and key code that the queue taps for one character.\<close>

definition type_code :: "char \<Rightarrow> u8 \<times> u8" where
  "type_code ch =
     (let c = byte_of ch in
      if 97 \<le> c \<and> c \<le> 122 then (0, 0x04 + (c - 97))
      else if 65 \<le> c \<and> c \<le> 90 then (0x02, 0x04 + (c - 65))
      else if c = 32 then (0, 0x2C)
      else if 49 \<le> c \<and> c \<le> 57 then (0, 0x1E + (c - 49))
      else if c = 48 then (0, 0x27)
      else if c = 10 then (0, 0x28)
      else (0, c))"

definition type_poll :: "u32 \<Rightarrow> ekbd \<Rightarrow> ekbd" where
  "type_poll now s =
     (if \<not> ty_busy s then s
      else if now < ty_next s then s
      else if ty_idx s \<ge> length (ty_text s) then s\<lparr>ty_busy := False, ty_text := []\<rparr>
      else let (m, k) = type_code (ty_text s ! ty_idx s);
               s1 = key_tap m k (ty_ms s) s
           in s1\<lparr>ty_idx := ty_idx s + 1, ty_next := now + of_int (ty_ms s) + of_int (ty_gap s)\<rparr>)"

section \<open>HTTP handlers\<close>

definition handle_keyboard_tap :: "bool \<Rightarrow> http_req \<Rightarrow> ekbd \<Rightarrow> http_resp \<times> ekbd" where
  "handle_keyboard_tap connected r s =
     (if \<not> connected then ((409, ''{\"ok\":false,\"error\":\"BLE not connected\"}''), s)
      else let mods = parse_uint8 (http_arg r ''mods'');
               key = parse_uint8 (http_arg r ''k'');
               ms0 = to_int (http_arg r ''ms'');
               ms = (if ms0 \<le> 0 then 100 else ms0)
           in ((200, ''{\"ok\":true,\"cmd\":\"keyboard/tap\",\"ms\":'' @ dec_int ms @ ''}''),
               key_tap mods key ms s))"

definition type_start :: "string \<Rightarrow> int \<Rightarrow> int \<Rightarrow> ekbd \<Rightarrow> ekbd" where
  "type_start t ms gap s =
     s\<lparr>ty_ms := (if ms > 0 then ms else 40), ty_gap := (if gap > 0 then gap else 30),
       ty_text := t, ty_idx := 0, ty_next := 0, ty_busy := True\<rparr>"

definition handle_keyboard_text :: "bool \<Rightarrow> http_req \<Rightarrow> ekbd \<Rightarrow> http_resp \<times> ekbd" where
  "handle_keyboard_text connected r s =
     (if \<not> connected then ((409, ''{\"ok\":false,\"error\":\"BLE not connected\"}''), s)
      else if ty_busy s then ((423, ''{\"ok\":false,\"error\":\"typing in progress\"}''), s)
      else let t = http_arg r ''s'' in
        if t = [] then ((400, ''{\"ok\":false,\"error\":\"missing s\"}''), s)
        else ((200, ''{\"ok\":true,\"cmd\":\"keyboard/text\",\"queued\":true}''),
              type_start t (to_int (http_arg r ''ms'')) (to_int (http_arg r ''gap'')) s))"

definition handle_keyboard_key :: "bool \<Rightarrow> http_req \<Rightarrow> ekbd \<Rightarrow> http_resp \<times> ekbd" where
  "handle_keyboard_key connected r s =
     (if \<not> connected then ((409, ''{\"ok\":false,\"error\":\"BLE not connected\"}''), s)
      else let s1 = s\<lparr>ek_mods := parse_uint8 (http_arg r ''mods''),
                      ek_keys := map (\<lambda>i. parse_uint8 (http_arg r (''k'' @ dec_nat i))) [0..<6]\<rparr>
           in ((200, ''{\"ok\":true,\"cmd\":\"keyboard/key\"}''), send_report s1))"

section \<open>AT commands\<close>

text \<open>The argument of each command is the text after its \<open>=\<close>; the result is the reply.\<close>

definition esp_at_tap :: "string \<Rightarrow> ekbd \<Rightarrow> string \<times> ekbd" where
  "esp_at_tap args s =
     (let c1 = index_of args '','' 0;
          c2 = index_of args '','' (case c1 of None \<Rightarrow> 0 | Some i \<Rightarrow> i + 1)
      in case (c1, c2) of
           (Some i, Some j) \<Rightarrow>
             if i > 0 \<and> j > i
             then let ms = to_int (substr args 0 i);
                      mods = to_int (substr args (i + 1) j);
                      key = to_int (substr_from args (j + 1))
                  in (''OK'', key_tap (of_int mods) (of_int key) ms s)
             else (''ERROR'', s)
         | _ \<Rightarrow> (''ERROR'', s))"

text \<open>
  The loop of \<open>AT+KEY\<close> over the six keys: each takes the text before the first comma and drops it,
  or, where no comma is left, the whole rest, which stays for the next key.
\<close>

fun at_key_keys :: "nat \<Rightarrow> string \<Rightarrow> u8 list" where
  "at_key_keys 0 args = []"
| "at_key_keys (Suc n) args =
     (case index_of args '','' 0 of
        Some comma \<Rightarrow>
          if comma > 0
          then parse_uint8 (substr args 0 comma) # at_key_keys n (substr_from args (comma + 1))
          else parse_uint8 args # at_key_keys n args
      | None \<Rightarrow> parse_uint8 args # at_key_keys n args)"

definition esp_at_key :: "string \<Rightarrow> ekbd \<Rightarrow> string \<times> ekbd" where
  "esp_at_key args s =
     (''OK'', send_report (s\<lparr>ek_mods := parse_uint8 args, ek_keys := at_key_keys 6 args\<rparr>))"

definition esp_at_mod :: "string \<Rightarrow> ekbd \<Rightarrow> string \<times> ekbd" where
  "esp_at_mod args s = (''OK'', send_report (s\<lparr>ek_mods := parse_uint8 args\<rparr>))"

definition esp_at_text :: "string \<Rightarrow> ekbd \<Rightarrow> string \<times> ekbd" where
  "esp_at_text args s = (''OK'', s\<lparr>ty_text := args, ty_idx := 0, ty_busy := True\<rparr>)"

fun key_seq_reports :: "int \<Rightarrow> u8 list \<Rightarrow> ekbd \<Rightarrow> ekbd" where
  "key_seq_reports d (m # k1 # k2 # k3 # k4 # k5 # k6 # vs) s =
     key_seq_reports d vs
       (kbd_delay d (send_report (s\<lparr>ek_mods := m, ek_keys := [k1, k2, k3, k4, k5, k6]\<rparr>)))"
| "key_seq_reports d vs s = s"

definition esp_at_key_seq :: "string \<Rightarrow> ekbd \<Rightarrow> string list \<times> ekbd" where
  "esp_at_key_seq args s =
     (let vals = map parse_uint8 (comma_parts 128 args 0); n = length vals
      in if n < 8 \<or> (n - 1) mod 7 \<noteq> 0
         then ([''ERROR: usage AT+KEY_SEQ=<ms>,<mods>,<k1..6>,...''], s)
         else let d0 = int (unat (hd vals));
                  d1 = (if d0 < 1 then 1 else d0);
                  d = (if d1 > 200 then 200 else d1)
              in ([dec_nat ((n - 1) div 7) @ '' reports sent'', ''OK''],
                  key_seq_reports d (tl vals) s))"

section \<open>Taps and the typing queue\<close>

text \<open>What one tap shows the host on top of a report state.\<close>

definition tap_out :: "u8 \<Rightarrow> u8 list \<Rightarrow> int \<Rightarrow> u8 \<times> u8 \<Rightarrow> kbd_out list" where
  "tap_out m0 ks0 ms mk =
     [kbd_report (m0 OR fst mk) (snd mk # replicate 5 0), DelayMs (if ms \<le> 0 then 100 else ms),
      kbd_report m0 ks0]"

lemma key_tap_form:
  "key_tap m k ms s = s\<lparr>ek_out := ek_out s @ tap_out (ek_mods s) (ek_keys s) ms (m, k)\<rparr>"
  by (simp add: key_tap_def Let_def send_report_def kbd_delay_def tap_out_def eval_nat_numeral)

lemma type_poll_form:
  "\<exists>out idx next busy t. type_poll now s = s\<lparr>ek_out := out, ty_idx := idx, ty_next := next,
     ty_busy := busy, ty_text := t\<rparr>"
  by (cases s) (auto simp: type_poll_def Let_def key_tap_form split: prod.splits)

lemma type_poll_keeps [simp]:
  "ek_mods (type_poll now s) = ek_mods s" "ek_keys (type_poll now s) = ek_keys s"
  "ty_ms (type_poll now s) = ty_ms s" "ty_gap (type_poll now s) = ty_gap s"
  using type_poll_form [of now s] by auto

definition type_polls :: "u32 list \<Rightarrow> ekbd \<Rightarrow> ekbd" where
  "type_polls ts s = fold type_poll ts s"

lemma type_polls_Cons: "type_polls (t # ts) s = type_polls ts (type_poll t s)"
  by (simp add: type_polls_def)

lemma type_polls_idle: "\<not> ty_busy s \<Longrightarrow> type_polls ts s = s"
  by (induction ts) (simp_all add: type_polls_def type_poll_def)

text \<open>
  Poll times that respect the queue's own pace: each is due, and the sum that sets the next due time
  does not wrap.
\<close>

fun paced :: "int \<Rightarrow> u32 \<Rightarrow> u32 list \<Rightarrow> bool" where
  "paced step due [] = True"
| "paced step due (t # ts) = (due \<le> t \<and> paced step (t + of_int step) ts)"

lemma type_polls_all:
  assumes "ty_busy s" "ty_idx s \<le> length (ty_text s)"
    "length ts = Suc (length (ty_text s) - ty_idx s)" "paced (ty_ms s + ty_gap s) (ty_next s) ts"
  shows "ek_out (type_polls ts s) = ek_out s @
      concat (map (\<lambda>c. tap_out (ek_mods s) (ek_keys s) (ty_ms s) (type_code c))
        (drop (ty_idx s) (ty_text s)))
    \<and> \<not> ty_busy (type_polls ts s)
    \<and> ek_mods (type_polls ts s) = ek_mods s \<and> ek_keys (type_polls ts s) = ek_keys s"
  using assms
proof (induction ts arbitrary: s)
  case Nil
  then show ?case by simp
next
  case (Cons t ts)
  from Cons.prems have due: "\<not> t < ty_next s" by (simp add: not_less)
  show ?case
  proof (cases "ty_idx s = length (ty_text s)")
    case True
    with Cons.prems due have "type_poll t s = s\<lparr>ty_busy := False, ty_text := []\<rparr>" "ts = []"
      by (simp_all add: type_poll_def)
    with True show ?thesis by (simp add: type_polls_def)
  next
    case False
    then have lt: "ty_idx s < length (ty_text s)" using Cons.prems by simp
    let ?c = "ty_text s ! ty_idx s"
    let ?tap = "tap_out (ek_mods s) (ek_keys s) (ty_ms s) (type_code ?c)"
    let ?s = "s\<lparr>ek_out := ek_out s @ ?tap, ty_idx := ty_idx s + 1,
        ty_next := t + of_int (ty_ms s) + of_int (ty_gap s)\<rparr>"
    have step: "type_poll t s = ?s"
      using Cons.prems due lt
      by (cases "type_code ?c") (simp add: type_poll_def Let_def key_tap_form not_le)
    have "ek_out (type_polls ts ?s) = ek_out ?s @
        concat (map (\<lambda>c. tap_out (ek_mods ?s) (ek_keys ?s) (ty_ms ?s) (type_code c))
          (drop (ty_idx ?s) (ty_text ?s)))
      \<and> \<not> ty_busy (type_polls ts ?s)
      \<and> ek_mods (type_polls ts ?s) = ek_mods ?s \<and> ek_keys (type_polls ts ?s) = ek_keys ?s"
      by (rule Cons.IH) (use Cons.prems lt in \<open>simp_all add: add.assoc\<close>)
    moreover have "drop (ty_idx s) (ty_text s) = ?c # drop (Suc (ty_idx s)) (ty_text s)"
      using lt by (simp add: Cons_nth_drop_Suc)
    ultimately show ?thesis
      by (simp add: type_polls_Cons step)
  qed
qed

text \<open>The taps of a text that \<open>keyboard/text\<close> accepts, whatever its characters.\<close>

lemma keyboard_text_taps:
  assumes "\<not> ty_busy s" and t: "http_arg r ''s'' = t" "t \<noteq> []"
    and ms: "ms = (if to_int (http_arg r ''ms'') > 0 then to_int (http_arg r ''ms'') else 40)"
    and gap: "gap = (if to_int (http_arg r ''gap'') > 0 then to_int (http_arg r ''gap'') else 30)"
    and ts: "length ts = Suc (length t)" "paced (ms + gap) 0 ts"
  defines "s' \<equiv> type_polls ts (snd (handle_keyboard_text True r s))"
  shows "fst (fst (handle_keyboard_text True r s)) = 200
    \<and> ek_out s' = ek_out s @
        concat (map (\<lambda>c. tap_out (ek_mods s) (ek_keys s) ms (type_code c)) t)
    \<and> \<not> ty_busy s' \<and> ek_mods s' = ek_mods s \<and> ek_keys s' = ek_keys s"
proof -
  let ?s = "type_start t (to_int (http_arg r ''ms'')) (to_int (http_arg r ''gap'')) s"
  have acc: "handle_keyboard_text True r s =
      ((200, ''{\"ok\":true,\"cmd\":\"keyboard/text\",\"queued\":true}''), ?s)"
    using assms(1) t by (simp add: handle_keyboard_text_def Let_def)
  have "ek_out (type_polls ts ?s) = ek_out ?s @
      concat (map (\<lambda>c. tap_out (ek_mods ?s) (ek_keys ?s) (ty_ms ?s) (type_code c))
        (drop (ty_idx ?s) (ty_text ?s)))
    \<and> \<not> ty_busy (type_polls ts ?s)
    \<and> ek_mods (type_polls ts ?s) = ek_mods ?s \<and> ek_keys (type_polls ts ?s) = ek_keys ?s"
    by (rule type_polls_all) (use ts in \<open>simp_all add: type_start_def ms gap\<close>)
  then show ?thesis
    unfolding s'_def acc by (simp add: type_start_def ms gap)
qed

section \<open>What the host reads\<close>

definition typed_chars :: string where
  "typed_chars = ''abcdefghijklmnopqrstuvwxyzABCDEFGHIJKLMNOPQRSTUVWXYZ0123456789 -'' @ [CHR 0x0A]"

lemma type_code_host: "c \<in> set typed_chars \<Longrightarrow> host_char (fst (type_code c)) (snd (type_code c)) = Some c"
proof -
  have "list_all (\<lambda>c. host_char (fst (type_code c)) (snd (type_code c)) = Some c) typed_chars" by code_simp
  then show "c \<in> set typed_chars \<Longrightarrow> host_char (fst (type_code c)) (snd (type_code c)) = Some c"
    unfolding list_all_iff by blast
qed

text \<open>The report that presses the key of a character on an idle keyboard.\<close>

definition press_of :: "char \<Rightarrow> u8 list" where
  "press_of c = [fst (type_code c), 0, snd (type_code c), 0, 0, 0, 0, 0]"

lemma tap_out_idle: "0 < ms \<Longrightarrow> tap_out 0 (replicate 6 0) ms (type_code c) = [Report (press_of c), DelayMs ms, Report no_key]"
  by (simp add: tap_out_def kbd_report_def press_of_def upt_rec eval_nat_numeral)

lemma host_reads_presses:
  "set t \<subseteq> set typed_chars \<Longrightarrow> host_reads no_key (concat (map (\<lambda>p. [p, no_key]) (map press_of t))) = t"
  by (induction t) (simp_all add: press_of_def host_reads_tap type_code_host del: host_reads.simps,
    simp_all)

text \<open>
  C36: A text of letters, digits, blanks, hyphens and newlines that \<open>keyboard/text\<close> accepts is typed completely
  and in order.  When the request finds a host, an idle queue and no key held, and the text is not empty, then
  after one poll per character and one more, each no earlier than the queue's due time, the host has
  received one report for each character, held for the requested time and followed by a report with no
  key, and a host with a US layout reads from them exactly the text; the queue is idle again and no key is
  held.  The host's layout is a table of its own, from the HID usages.  Other characters are not in the claim:
  \<open>type_poll\<close> sends their codes as raw key codes, and \<open>punctuation_mistyped\<close> shows what the host reads.
\<close>
theorem keyboard_text_typed:
  assumes "\<not> ty_busy s" "ek_mods s = 0" "ek_keys s = replicate 6 0"
    and t: "http_arg r ''s'' = t" "t \<noteq> []" "set t \<subseteq> set typed_chars"
    and ms: "ms = (if to_int (http_arg r ''ms'') > 0 then to_int (http_arg r ''ms'') else 40)"
    and gap: "gap = (if to_int (http_arg r ''gap'') > 0 then to_int (http_arg r ''gap'') else 30)"
    and ts: "length ts = Suc (length t)" "paced (ms + gap) 0 ts"
  defines "s' \<equiv> type_polls ts (snd (handle_keyboard_text True r s))"
  shows "fst (fst (handle_keyboard_text True r s)) = 200
    \<and> (\<exists>ps. ek_out s' = ek_out s @ concat (map (\<lambda>p. [Report p, DelayMs ms, Report no_key]) ps)
         \<and> length ps = length t \<and> host_reads no_key (concat (map (\<lambda>p. [p, no_key]) ps)) = t)
    \<and> \<not> ty_busy s' \<and> ek_mods s' = 0 \<and> ek_keys s' = replicate 6 0"
proof -
  note T = keyboard_text_taps [OF assms(1) t(1,2) ms gap ts, folded s'_def]
  have "0 < ms" by (simp add: ms)
  then have "concat (map (\<lambda>c. tap_out (ek_mods s) (ek_keys s) ms (type_code c)) t)
      = concat (map (\<lambda>p. [Report p, DelayMs ms, Report no_key]) (map press_of t))"
    by (simp add: assms(2,3) tap_out_idle comp_def del: replicate.simps)
  with T host_reads_presses [OF t(3)] show ?thesis
    using assms(2,3) by (intro conjI exI [of _ "map press_of t"]) simp_all
qed

theorem keyboard_text_typed_witness:
  "\<exists>ps. ek_out (type_polls [5, 100, 200]
     (snd (handle_keyboard_text True [(''s'', ''aB''), (''ms'', ''20'')] ekbd_boot))) =
     concat (map (\<lambda>p. [Report p, DelayMs 20, Report no_key]) ps)
   \<and> host_reads no_key (concat (map (\<lambda>p. [p, no_key]) ps)) = ''aB''"
proof -
  let ?r = "[(''s'', ''aB''), (''ms'', ''20'')]"
  have n: "to_int (http_arg ?r ''ms'') = 20" "to_int (http_arg ?r ''gap'') = 0"
    "http_arg ?r ''s'' = ''aB''" "\<not> ty_busy ekbd_boot"
    by code_simp+
  have c: "set ''aB'' \<subseteq> set typed_chars" by (simp add: typed_chars_def)
  have p: "paced (20 + 30) 0 [5, 100, 200]" "length [5, 100, 200 :: u32] = Suc (length ''aB'')"
    by simp_all
  have b: "ek_mods ekbd_boot = 0" "ek_keys ekbd_boot = replicate 6 0" "ek_out ekbd_boot = []"
    by (simp_all add: ekbd_boot_def)
  from keyboard_text_typed [of ekbd_boot ?r "''aB''" 20 30 "[5, 100, 200]"] n c p b show ?thesis by auto
qed

text \<open>
  What happens to the rest: no other character that a US keyboard types is read as itself, the
  exclamation mark for example comes out as a 4.  The hyphen is right by chance: its code is that of its key.
\<close>

lemma punctuation_mistyped:
  "list_all (\<lambda>e. case e of None \<Rightarrow> True | Some (p, q) \<Rightarrow>
     list_all (\<lambda>c. c \<in> set typed_chars \<or> host_char (fst (type_code c)) (snd (type_code c)) \<noteq> Some c) [p, q]) us_layout"
  "host_char (fst (type_code CHR ''!'')) (snd (type_code CHR ''!'')) = Some CHR ''4''"
  by code_simp+

text \<open>
  A due time is compared as an unsigned number: when the clock wraps between two characters, every
  poll until the clock reaches the old due time again does nothing.
\<close>

lemma type_poll_before_due: "now < ty_next s \<Longrightarrow> type_poll now s = s"
  by (simp add: type_poll_def)

lemma type_polls_stuck: "\<forall>t\<in>set ts. t < ty_next s \<Longrightarrow> type_polls ts s = s"
  by (induction ts) (simp_all add: type_polls_def type_poll_before_due)

section \<open>AT commands on numbers\<close>

lemma parse_uint8_dec_list: "parse_uint8 (dec_list (v # vs)) = v"
  using parse_uint8_dec [of "if vs = [] then [] else CHR '','' # dec_list vs" v]
  by (simp add: dec_list_Cons)

lemma at_key_keys_last: "at_key_keys n (dec_list [v]) = replicate n v"
proof (induction n)
  case (Suc n)
  have "index_of (dec_list [v]) '','' 0 = None"
    using dec_list_comma [of v "[]"] dec_list_nul_free [of "[v]"] by (simp add: index_of_nul_free)
  with Suc show ?case by (simp add: parse_uint8_dec_list)
qed simp

lemma at_key_keys_dec_list:
  "at_key_keys n (dec_list (v # vs)) =
     take n (v # vs) @ replicate (n - length (v # vs)) (last (v # vs))"
proof (induction n arbitrary: v vs)
  case (Suc n)
  show ?case
  proof (cases vs)
    case Nil
    then show ?thesis by (simp only: at_key_keys_last) simp
  next
    case (Cons w ws)
    let ?d = "dec_nat (unat v)"
    have idx: "index_of (dec_list (v # vs)) '','' 0 = Some (length ?d)"
      using dec_list_comma [of v vs] dec_list_nul_free [of "v # vs"]
      by (simp add: index_of_nul_free Cons option.map_ident)
    have list: "dec_list (v # vs) = ?d @ CHR '','' # dec_list (w # ws)"
      by (simp add: dec_list_Cons [of v] Cons)
    have part: "substr (dec_list (v # vs)) 0 (length ?d) = ?d"
      by (simp add: substr_def Let_def list)
    have rest: "substr_from (dec_list (v # vs)) (length ?d + 1) = dec_list (w # ws)"
      by (simp add: list)
    show ?thesis
      using idx part rest dec_nat_nonempty [of "unat v"] parse_uint8_dec [of "[]" v]
        Suc.IH [of w ws] Cons by simp
  qed
qed simp

text \<open>
  What \<open>AT+KEY\<close> really sends.  For every list of numbers, the modifier first, the report's
  modifier byte is the first number and its six keys are the list itself from the first number on,
  the last number repeated where the list is shorter: the modifier value is pressed as a key code as
  well, every key moves one place, and the sixth key of a full command is lost.
\<close>
theorem at_key_report:
  assumes "vs \<noteq> []"
  shows "esp_at_key (dec_list vs) s =
    (''OK'', s\<lparr>ek_mods := hd vs, ek_keys := take 6 vs @ replicate (6 - length vs) (last vs),
       ek_out := ek_out s @
         [kbd_report (hd vs) (take 6 vs @ replicate (6 - length vs) (last vs))]\<rparr>)"
proof -
  obtain v ws where vs: "vs = v # ws" using assms by (cases vs) auto
  show ?thesis
    unfolding vs esp_at_key_def at_key_keys_dec_list parse_uint8_dec_list
    by (simp add: send_report_def)
qed

theorem at_key_report_witness:
  "ek_out (snd (esp_at_key (dec_list [2, 4]) ekbd_boot)) = [Report [2, 0, 2, 4, 4, 4, 4, 4]]"
  using at_key_report [of "[2, 4]" ekbd_boot]
  by (simp add: ekbd_boot_def kbd_report_def upt_rec eval_nat_numeral)

lemma key_seq_reports_groups:
  assumes "\<forall>g\<in>set gs. length g = 7"
  shows "ek_out (key_seq_reports d (concat gs) s) =
    ek_out s @ concat (map (\<lambda>g. [kbd_report (hd g) (tl g), DelayMs d]) gs)"
  using assms
proof (induction gs arbitrary: s)
  case (Cons g gs)
  then obtain m k1 k2 k3 k4 k5 k6 where g: "g = [m, k1, k2, k3, k4, k5, k6]"
    by (auto simp: eval_nat_numeral length_Suc_conv)
  with Cons show ?case by (simp add: kbd_delay_def send_report_def)
qed simp

text \<open>
  \<open>AT+KEY_SEQ\<close> replays a recorded sequence.  For at most 18 reports, the command written as the
  delay and then the seven numbers of each report sends exactly those reports, each followed by the
  delay clamped to 1 to 200 milliseconds, and answers with their number.
\<close>
theorem key_seq_replays:
  fixes d :: u8 and s :: ekbd
  assumes gs: "\<forall>g\<in>set gs. length g = 7" "gs \<noteq> []" "length gs \<le> 18"
  defines "r \<equiv> esp_at_key_seq (dec_list (d # concat gs)) s"
  shows "fst r = [dec_nat (length gs) @ '' reports sent'', ''OK'']
    \<and> ek_out (snd r) = ek_out s @
        concat (map (\<lambda>g. [kbd_report (hd g) (tl g), DelayMs (max 1 (min 200 (int (unat d))))]) gs)"
proof -
  have len: "length (concat gs) = 7 * length gs"
    using gs(1) by (induction gs) auto
  have vals: "map parse_uint8 (comma_parts 128 (dec_list (d # concat gs)) 0) = d # concat gs"
    using comma_parts_dec_list [of "[]" 128 d "concat gs"] gs(3) len by simp
  have n: "1 \<le> length gs" using gs(2) by (cases gs) auto
  have clamp: "(if 200 < (if d0 < 1 then 1 else d0) then 200 else (if d0 < 1 then 1 else d0))
      = max 1 (min 200 d0)" for d0 :: int
    by simp
  have "gs \<noteq> []" by fact
  then show ?thesis
    unfolding r_def esp_at_key_seq_def vals Let_def list.sel clamp
    using n len key_seq_reports_groups [OF gs(1), of "max 1 (min 200 (int (unat d)))" s]
    by simp
qed

theorem key_seq_replays_witness:
  "ek_out (snd (esp_at_key_seq (dec_list [0, 2, 4, 0, 0, 0, 0, 0, 0, 0, 0, 0, 0, 0, 0]) ekbd_boot)) =
     [Report [2, 0, 4, 0, 0, 0, 0, 0], DelayMs 1, Report [0, 0, 0, 0, 0, 0, 0, 0], DelayMs 1]"
  using key_seq_replays [of "[[2, 4, 0, 0, 0, 0, 0], [0, 0, 0, 0, 0, 0, 0]]" 0 ekbd_boot]
  by (simp add: ekbd_boot_def kbd_report_def upt_rec eval_nat_numeral)

end
