(* ===== verification/Esp_Hw.thy ===== *)
theory Esp_Hw
  imports Esp_Kbd
begin

text \<open>
  The peripherals of the ESP32 sketch: GPIO, ADC, I2C, infrared and Wake-on-LAN, with the functions of
  \<open>src/esp32/arduino/arduino.ino\<close> that the HTTP handlers, the AT commands and the MQTT methods share.
  A library call is an entry of the log \<open>hw_out\<close>; what it answers is given by the record \<open>hw_env\<close>,
  as a function of the log, so that an answer may depend on everything done before.
\<close>

section \<open>State and environment\<close>

text \<open>
  One word of the infrared peripheral, \<open>rmt_data_t\<close>: two level-and-duration halves.  A duration has
  15 bits.
\<close>

record rmt_item =
  level0 :: bool
  duration0 :: "15 word"
  level1 :: bool
  duration1 :: "15 word"

datatype hw =
    Pin_out int | Pin_in int | Pin_set int bool | Pin_read int | Adc_read int
  | I2c_begin int | I2c_write int | I2c_end bool | I2c_request int int
  | I2c_pins int int | Rmt_init int int | Rmt_carrier int | Rmt_write "rmt_item list" | Udp_open | Udp_packet "u8 list" nat | Udp_data "u8 list" | Udp_end | Udp_close

record esp_hw =
  hw_out :: "hw list"

record hw_env =
  he_level :: "hw list \<Rightarrow> int"
  he_mv :: "hw list \<Rightarrow> int"
  he_i2c_end :: "hw list \<Rightarrow> nat"
  he_i2c_rx :: "hw list \<Rightarrow> u8 list"
  he_rmt :: "hw list \<Rightarrow> bool"
  he_udp :: "hw list \<Rightarrow> nat"
  he_broadcast :: "u8 list"

definition hw_emit :: "hw list \<Rightarrow> 'a esp_hw_scheme \<Rightarrow> 'a esp_hw_scheme" where
  "hw_emit hs s = s\<lparr>hw_out := hw_out s @ hs\<rparr>"

text \<open>Lower-case hexadecimal digits, \<open>String (v, HEX)\<close>.\<close>

definition hex_low :: "u32 \<Rightarrow> string" where
  "hex_low v = map to_lower (hex_nat (unat v))"

definition err_json :: "string \<Rightarrow> string" where
  "err_json e = ''{\"ok\":false,\"error\":\"'' @ e @ ''\"}''"

section \<open>GPIO and ADC\<close>

definition gpio_write :: "int \<Rightarrow> int \<Rightarrow> 'a esp_hw_scheme \<Rightarrow> 'a esp_hw_scheme" where
  "gpio_write pin level s = hw_emit [Pin_out pin, Pin_set pin (level \<noteq> 0)] s"

definition gpio_read :: "hw_env \<Rightarrow> int \<Rightarrow> 'a esp_hw_scheme \<Rightarrow> int \<times> 'a esp_hw_scheme" where
  "gpio_read H pin s =
     (let s1 = hw_emit [Pin_in pin, Pin_read pin] s in (he_level H (hw_out s1), s1))"

definition adc_read :: "hw_env \<Rightarrow> int \<Rightarrow> 'a esp_hw_scheme \<Rightarrow> int \<times> 'a esp_hw_scheme" where
  "adc_read H ch s = (let s1 = hw_emit [Adc_read ch] s in (he_mv H (hw_out s1), s1))"

definition handle_gpio_write :: "http_req \<Rightarrow> 'a esp_hw_scheme \<Rightarrow> http_resp \<times> 'a esp_hw_scheme" where
  "handle_gpio_write r s =
     (let pin = to_int (http_arg r ''pin''); level = to_int (http_arg r ''level'')
      in if pin < 0 \<or> pin > 48 then ((400, err_json ''invalid pin''), s)
         else ((200, ''{\"ok\":true,\"cmd\":\"gpio/write\",\"pin\":'' @ dec_int pin @ '',\"level\":''
                  @ dec_int level @ ''}''),
               gpio_write pin level s))"

definition handle_gpio_read :: "hw_env \<Rightarrow> http_req \<Rightarrow> 'a esp_hw_scheme \<Rightarrow> http_resp \<times> 'a esp_hw_scheme" where
  "handle_gpio_read H r s =
     (let pin = to_int (http_arg r ''pin'')
      in if pin < 0 \<or> pin > 48 then ((400, err_json ''invalid pin''), s)
         else let (level, s1) = gpio_read H pin s
              in ((200, ''{\"ok\":true,\"cmd\":\"gpio/read\",\"pin\":'' @ dec_int pin @ '',\"level\":''
                    @ dec_int level @ ''}''), s1))"

definition handle_adc_read :: "hw_env \<Rightarrow> http_req \<Rightarrow> 'a esp_hw_scheme \<Rightarrow> http_resp \<times> 'a esp_hw_scheme" where
  "handle_adc_read H r s =
     (let ch = to_int (http_arg r ''ch'')
      in if ch < 0 \<or> ch > 7 then ((400, err_json ''invalid adc ch''), s)
         else let pin = (if ch \<ge> 5 \<and> ch \<le> 7 then ch else ch);
                  (mv, s1) = adc_read H pin s
              in ((200, ''{\"ok\":true,\"cmd\":\"adc/read\",\"ch\":'' @ dec_int ch @ '',\"mv\":''
                    @ dec_int mv @ ''}''), s1))"

section \<open>I2C\<close>

text \<open>Two digits at a time; a single one at the end makes a byte of its own.\<close>

fun hex_pairs :: "string \<Rightarrow> u8 list" where
  "hex_pairs [] = []"
| "hex_pairs [c] = [ucast (strtoul16 [c])]"
| "hex_pairs (c # d # s) = ucast (strtoul16 [c, d]) # hex_pairs s"

definition i2c_write_hex :: "string \<Rightarrow> 'a esp_hw_scheme \<Rightarrow> 'a esp_hw_scheme" where
  "i2c_write_hex hexData s = hw_emit (map (\<lambda>b. I2c_write (uint b)) (hex_pairs hexData)) s"

definition i2c_end :: "hw_env \<Rightarrow> bool \<Rightarrow> 'a esp_hw_scheme \<Rightarrow> nat \<times> 'a esp_hw_scheme" where
  "i2c_end H stop s = (let s1 = hw_emit [I2c_end stop] s in (he_i2c_end H (hw_out s1), s1))"

text \<open>The addresses of 1 to 126 that acknowledge, in order.\<close>

fun i2c_scan :: "hw_env \<Rightarrow> u8 list \<Rightarrow> 'a esp_hw_scheme \<Rightarrow> u8 list \<times> 'a esp_hw_scheme" where
  "i2c_scan H [] s = ([], s)"
| "i2c_scan H (a # as) s =
     (let (e, s1) = i2c_end H True (hw_emit [I2c_begin (uint a)] s);
          (found, s2) = i2c_scan H as s1
      in (if e = 0 then a # found else found, s2))"

definition i2c_addresses :: "u8 list" where
  "i2c_addresses = map of_nat [1..<127]"

definition i2c_to_int :: "string \<Rightarrow> int" where
  "i2c_to_int t = sint (strtoul0 t)"

text \<open>A value of \<open>hexData\<close> or a text of \<open>args\<close> without its blanks.\<close>

definition no_blanks :: "string \<Rightarrow> string" where
  "no_blanks t = filter (\<lambda>c. c \<noteq> CHR '' '') t"

definition i2c_write_reg :: "hw_env \<Rightarrow> int \<Rightarrow> int \<Rightarrow> string \<Rightarrow> 'a esp_hw_scheme \<Rightarrow> nat \<times> 'a esp_hw_scheme" where
  "i2c_write_reg H addr reg hexData s =
     i2c_end H True (i2c_write_hex hexData (hw_emit [I2c_begin addr, I2c_write reg] s))"

definition i2c_request :: "hw_env \<Rightarrow> int \<Rightarrow> int \<Rightarrow> 'a esp_hw_scheme \<Rightarrow> u8 list \<times> 'a esp_hw_scheme" where
  "i2c_request H addr len s = (let s1 = hw_emit [I2c_request addr len] s in (he_i2c_rx H (hw_out s1), s1))"

definition handle_i2c_scan :: "hw_env \<Rightarrow> 'a esp_hw_scheme \<Rightarrow> http_resp \<times> 'a esp_hw_scheme" where
  "handle_i2c_scan H s =
     (let (found, s1) = i2c_scan H i2c_addresses s;
          items = map (\<lambda>a. ''\"0x'' @ hex_low (ucast a) @ ''\"'') found;
          joined = concat (case items of [] \<Rightarrow> [] | x # xs \<Rightarrow> x # map (\<lambda>y. '','' @ y) xs)
      in ((200, ''{\"ok\":true,\"cmd\":\"i2c/scan\",\"devices\":['' @ joined @ '']}''), s1))"

definition handle_i2c_read :: "hw_env \<Rightarrow> http_req \<Rightarrow> 'a esp_hw_scheme \<Rightarrow> http_resp \<times> 'a esp_hw_scheme" where
  "handle_i2c_read H r s =
     (let addr = i2c_to_int (http_arg r ''addr''); reg = i2c_to_int (http_arg r ''reg'');
          len = to_int (http_arg r ''len'')
      in if len \<le> 0 \<or> len > 32 then ((400, err_json ''len must be 1-32''), s)
         else let (e, s1) = i2c_end H False (hw_emit [I2c_begin addr, I2c_write reg] s)
              in if e \<noteq> 0 then ((500, err_json ''i2c no ack''), s1)
                 else let (bs, s2) = i2c_request H addr len s1
                      in ((200, ''{\"ok\":true,\"cmd\":\"i2c/read\",\"addr\":\"0x'' @ hex_low (of_int addr)
                            @ ''\",\"reg\":\"0x'' @ hex_low (of_int reg) @ ''\",\"data\":\"''
                            @ trim (concat (map (\<lambda>b. hex02 b @ '' '') bs)) @ ''\"}''), s2))"

definition handle_i2c_write :: "hw_env \<Rightarrow> http_req \<Rightarrow> 'a esp_hw_scheme \<Rightarrow> http_resp \<times> 'a esp_hw_scheme" where
  "handle_i2c_write H r s =
     (let addr = i2c_to_int (http_arg r ''addr''); reg = i2c_to_int (http_arg r ''reg'');
          hexData = no_blanks (http_arg r ''data'')
      in if length hexData = 0 \<or> length hexData mod 2 \<noteq> 0
         then ((400, err_json ''data must be hex pairs''), s)
         else let (e, s1) = i2c_write_reg H addr reg hexData s
              in if e \<noteq> 0 then ((500, err_json ''i2c no ack''), s1)
                 else ((200, ''{\"ok\":true,\"cmd\":\"i2c/write\",\"addr\":\"0x'' @ hex_low (of_int addr)
                         @ ''\",\"reg\":\"0x'' @ hex_low (of_int reg) @ ''\"}''), s1))"

section \<open>Infrared\<close>

definition ir_init :: "hw_env \<Rightarrow> 'a esp_hw_scheme \<Rightarrow> bool \<times> 'a esp_hw_scheme" where
  "ir_init H s =
     (let s1 = hw_emit [Rmt_init 4 1000000] s
      in if \<not> he_rmt H (hw_out s1) then (False, s1)
         else let s2 = hw_emit [Rmt_carrier 38000] s1 in (he_rmt H (hw_out s2), s2))"

text \<open>The items of \<open>ir_send_raw\<close>: a mark or a space in the first half, nothing in the second.\<close>

definition ir_items :: "u16 list \<Rightarrow> rmt_item list" where
  "ir_items timings = map (\<lambda>i. \<lparr>level0 = (i mod 2 = 0), duration0 = ucast (timings ! i),
     level1 = False, duration1 = 0\<rparr>) [0..<length timings]"

definition ir_send_raw :: "hw_env \<Rightarrow> u16 list \<Rightarrow> 'a esp_hw_scheme \<Rightarrow> bool \<times> 'a esp_hw_scheme" where
  "ir_send_raw H timings s =
     (if timings = [] \<or> length timings > 256 then (False, s)
      else let s1 = hw_emit [Rmt_write (ir_items timings)] s in (he_rmt H (hw_out s1), s1))"

definition nec_timings :: "u32 \<Rightarrow> u16 list" where
  "nec_timings d = [9000, 4500]
     @ concat (map (\<lambda>i. [560, if d AND push_bit i 1 \<noteq> 0 then 1690 else 560]) [0..<32]) @ [560]"

definition ir_send_nec :: "hw_env \<Rightarrow> u32 \<Rightarrow> 'a esp_hw_scheme \<Rightarrow> bool \<times> 'a esp_hw_scheme" where
  "ir_send_nec H d s = ir_send_raw H (nec_timings d) s"

text \<open>
  The array of \<open>ir_send_sirc\<close> has 42 places.  \<open>None\<close> is an execution without defined behaviour, which
  writes behind it.
\<close>

definition sirc_timings :: "u32 \<Rightarrow> int \<Rightarrow> u16 list option" where
  "sirc_timings d bits =
     (if bits > 20 then None
      else Some ([2400, 600]
        @ concat (map (\<lambda>i. [if d AND push_bit i 1 \<noteq> 0 then 1200 else 600, 600]) [0..<nat bits])))"

definition ir_send_sirc ::
  "hw_env \<Rightarrow> u32 \<Rightarrow> int \<Rightarrow> 'a esp_hw_scheme \<Rightarrow> (bool \<times> 'a esp_hw_scheme) option" where
  "ir_send_sirc H d bits s = map_option (\<lambda>ts. ir_send_raw H ts s) (sirc_timings d bits)"

definition raw_timings :: "string \<Rightarrow> u16 list" where
  "raw_timings data = map (\<lambda>p. of_int (to_int p)) (comma_parts 256 data 0)"

definition handle_ir_send ::
  "hw_env \<Rightarrow> http_req \<Rightarrow> 'a esp_hw_scheme \<Rightarrow> (http_resp \<times> 'a esp_hw_scheme) option" where
  "handle_ir_send H r s =
     (let proto = http_arg r ''protocol''; data = http_arg r ''data''
      in if proto = [] \<or> data = [] then Some ((400, err_json ''missing protocol/data''), s)
         else let d = strtoul0 data;
                  bits0 = to_int (http_arg r ''bits'');
                  bits = (if bits0 \<le> 0 then 32 else bits0);
                  sent = (if strcaseeq proto ''NEC'' then Some (Some (ir_send_nec H d s))
                          else if strcaseeq proto ''SIRC'' then map_option Some (ir_send_sirc H d bits s)
                          else if strcaseeq proto ''RAW'' then Some (Some (ir_send_raw H (raw_timings data) s))
                          else Some None)
              in case sent of
                   None \<Rightarrow> None
                 | Some None \<Rightarrow> Some ((400, err_json ''unknown protocol''), s)
                 | Some (Some (ok, s1)) \<Rightarrow>
                     Some (if ok then (200, ''{\"ok\":true,\"cmd\":\"ir/send\",\"protocol\":\"'' @ proto @ ''\"}'')
                           else (500, err_json ''ir send failed''), s1))"

text \<open>
  The arguments of \<open>AT+IR\<close>.  Without a second comma \<open>substring (0, -1)\<close> and \<open>substring (0)\<close> are both
  the whole text.  \<open>Some None\<close> is a refused line.
\<close>

definition esp_at_ir :: "hw_env \<Rightarrow> string \<Rightarrow> 'a esp_hw_scheme \<Rightarrow> (bool \<times> 'a esp_hw_scheme) option" where
  "esp_at_ir H args s =
     (case index_of args '','' 0 of
        None \<Rightarrow> Some (False, s)
      | Some c1 \<Rightarrow>
          if c1 = 0 then Some (False, s)
          else let proto = substr args 0 c1; data = substr_from args (c1 + 1)
               in if strcaseeq proto ''NEC'' then Some (ir_send_nec H (strtoul0 data) s)
                  else if strcaseeq proto ''SIRC'' then
                    (case index_of data '','' 0 of
                       None \<Rightarrow> ir_send_sirc H (strtoul0 data) (to_int data) s
                     | Some c2 \<Rightarrow>
                         ir_send_sirc H (strtoul0 (substr data 0 c2)) (to_int (substr_from data (c2 + 1))) s)
                  else if strcaseeq proto ''RAW'' then Some (ir_send_raw H (raw_timings data) s)
                  else Some (False, s))"

section \<open>Wake-on-LAN\<close>

text \<open>
  The conversion \<open>%02x\<close> of \<open>sscanf\<close>: blanks, then at most two characters of sign and hexadecimal
  digits.
\<close>

definition scan_hex2 :: "string \<Rightarrow> (u32 \<times> string) option" where
  "scan_hex2 s =
     (let t = dropWhile is_space s;
          sign = (t \<noteq> [] \<and> (hd t = CHR ''-'' \<or> hd t = CHR ''+''));
          neg = (t \<noteq> [] \<and> hd t = CHR ''-'');
          u = (if sign then tl t else t);
          ds = takeWhile (\<lambda>c. hex_digit_value c \<noteq> None) (take (if sign then 1 else 2) u);
          v = of_nat (base_value 16 0 ds)
      in if ds = [] then None else Some (if neg then - v else v, drop (length ds) u))"

fun scan_mac :: "nat \<Rightarrow> string \<Rightarrow> u8 list option" where
  "scan_mac 0 s = Some []"
| "scan_mac (Suc n) s =
     (case scan_hex2 s of
        None \<Rightarrow> None
      | Some (v, r) \<Rightarrow>
          if n = 0 then Some [ucast v]
          else if r \<noteq> [] \<and> hd r = CHR '':'' then map_option (\<lambda>m. ucast v # m) (scan_mac n (tl r))
          else None)"

definition wol_packet :: "u8 list \<Rightarrow> u8 list" where
  "wol_packet mac = replicate 6 0xFF @ concat (map (\<lambda>i. map (\<lambda>j. mac ! j) [0..<6]) [0..<16])"

definition udp_send :: "hw_env \<Rightarrow> u8 list \<Rightarrow> u8 list \<Rightarrow> 'a esp_hw_scheme \<Rightarrow> bool \<times> 'a esp_hw_scheme" where
  "udp_send H dst pkt s =
     (let s1 = hw_emit [Udp_packet dst 9] s
      in if he_udp H (hw_out s1) = 1
         then let s2 = hw_emit [Udp_data pkt, Udp_end] s1 in (he_udp H (hw_out s2) = 1, s2)
         else (False, s1))"

definition wol_send :: "hw_env \<Rightarrow> string \<Rightarrow> 'a esp_hw_scheme \<Rightarrow> bool \<times> 'a esp_hw_scheme" where
  "wol_send H macStr s =
     (case scan_mac 6 (cstr_at macStr 0) of
        None \<Rightarrow> (False, s)
      | Some mac \<Rightarrow>
          let pkt = wol_packet mac;
              (ok1, s1) = udp_send H [255, 255, 255, 255] pkt (hw_emit [Udp_open] s);
              (ok2, s2) = udp_send H (he_broadcast H) pkt s1
          in (ok2 \<or> ok1, hw_emit [Udp_close] s2))"

definition handle_net_wol :: "hw_env \<Rightarrow> http_req \<Rightarrow> 'a esp_hw_scheme \<Rightarrow> http_resp \<times> 'a esp_hw_scheme" where
  "handle_net_wol H r s =
     (let mac = http_arg r ''mac''
      in if mac = [] then ((400, err_json ''missing mac''), s)
         else let (ok, s1) = wol_send H mac s
              in ((200, ''{\"ok\":'' @ (if ok then ''true'' else ''false'') @ '',\"cmd\":\"net/wol\",\"mac\":\"''
                    @ mac @ ''\"}''), s1))"

end
