(* ===== verification/Esp_Ssdp.thy ===== *)
theory Esp_Ssdp
  imports Esp_Str
begin

text \<open>
  Discovery (\<open>src/esp32/arduino/ssdp.cpp\<close>): the announcements, the answer to a search, the description
  document, and the operations \<open>ssdp_begin\<close>, \<open>ssdp_stop\<close> and \<open>ssdp_loop\<close>.  The calls of the UDP socket
  and of the web server go to a log.
\<close>

section \<open>State\<close>

datatype ssdp_out =
    Ss_route | Ss_multicast | Ss_send string nat string | Ss_delay nat | Ss_udp_stop

record ssdp =
  ss_uuid :: string
  ss_active :: bool
  ss_last_alive :: u32
  ss_log :: "ssdp_out list"
  ss_oob :: bool

text \<open>\<open>ss_oob\<close> says that bytes behind a buffer have been sent.\<close>

definition ssdp_zero :: ssdp where
  "ssdp_zero = \<lparr>ss_uuid = [], ss_active = False, ss_last_alive = 0, ss_log = [], ss_oob = False\<rparr>"

definition SSDP_MCAST :: string where "SSDP_MCAST = ''239.255.255.250''"
definition SSDP_PORT :: nat where "SSDP_PORT = 1900"

definition crlf :: "string list \<Rightarrow> string" where
  "crlf ls = concat (map (\<lambda>l. l @ [CR, LF]) ls)"

definition ssdp_emit :: "ssdp_out list \<Rightarrow> ssdp \<Rightarrow> ssdp" where
  "ssdp_emit os s = s\<lparr>ss_log := ss_log s @ os\<rparr>"

section \<open>Messages\<close>

text \<open>
  \<open>snprintf\<close> writes at most 511 characters of the text into the buffer of 512 and returns the length of
  the whole text, and that many bytes are handed to \<open>write\<close>: when the text does not fit, bytes from
  behind the buffer are sent as well.
\<close>

definition udp_send :: "string \<Rightarrow> nat \<Rightarrow> string \<Rightarrow> ssdp \<Rightarrow> ssdp" where
  "udp_send addr port t s = (ssdp_emit [Ss_send addr port (take 511 t)] s)\<lparr>ss_oob := ss_oob s \<or> 512 \<le> length t\<rparr>"

definition alive_text :: "string \<Rightarrow> string \<Rightarrow> string" where
  "alive_text ip uuid = crlf
     [''NOTIFY * HTTP/1.1'',
      ''HOST: '' @ SSDP_MCAST @ '':'' @ dec_nat SSDP_PORT,
      ''CACHE-CONTROL: max-age=1800'',
      ''LOCATION: http://'' @ ip @ '':80/description.xml'',
      ''NT: upnp:rootdevice'',
      ''NTS: ssdp:alive'',
      ''SERVER: Arduino/1.0 UPnP/1.1 atnode-esp32/1.0'',
      ''USN: '' @ uuid @ ''::upnp:rootdevice'',
      []]"

definition notify_alive :: "string \<Rightarrow> ssdp \<Rightarrow> ssdp" where
  "notify_alive ip s = udp_send SSDP_MCAST SSDP_PORT (alive_text ip (ss_uuid s)) s"

definition answer_text :: "string \<Rightarrow> string \<Rightarrow> string" where
  "answer_text ip uuid = crlf
     [''HTTP/1.1 200 OK'',
      ''CACHE-CONTROL: max-age=1800'',
      ''EXT:'',
      ''LOCATION: http://'' @ ip @ '':80/description.xml'',
      ''SERVER: Arduino/1.0 UPnP/1.1 atnode-esp32/1.0'',
      ''ST: upnp:rootdevice'',
      ''USN: '' @ uuid @ ''::upnp:rootdevice'',
      []]"

definition ssdp_uuid :: "u8 list \<Rightarrow> string" where
  "ssdp_uuid mac = ''uuid:38323636-4558-4dda-9188-'' @ concat (map (\<lambda>b. map to_lower (hex02 b)) mac)"

definition handle_description :: "string \<Rightarrow> string \<Rightarrow> ssdp \<Rightarrow> http_resp" where
  "handle_description device ip s = (200, crlf
     [''<?xml version=\"1.0\"?>'',
      ''<root xmlns=\"urn:schemas-upnp-org:device-1-0\">'',
      ''  <specVersion><major>1</major><minor>0</minor></specVersion>'',
      ''  <device>'',
      ''    <deviceType>urn:schemas-upnp-org:device:Basic:1</deviceType>'',
      ''    <friendlyName>'' @ device @ ''</friendlyName>'',
      ''    <manufacturer>AT-Node</manufacturer>'',
      ''    <modelName>atnode-esp32</modelName>'',
      ''    <modelNumber>1.0</modelNumber>'',
      ''    <UDN>'' @ ss_uuid s @ ''</UDN>'',
      ''    <presentationURL>http://'' @ ip @ ''/</presentationURL>'',
      ''  </device>'',
      ''</root>''])"

section \<open>Operations\<close>

text \<open>The three announcements at the start, each followed by a delay.\<close>

fun alive_times :: "nat \<Rightarrow> string \<Rightarrow> ssdp \<Rightarrow> ssdp" where
  "alive_times 0 ip s = s"
| "alive_times (Suc n) ip s = alive_times n ip (ssdp_emit [Ss_delay 100] (notify_alive ip s))"

definition ssdp_begin :: "bool \<Rightarrow> u8 list \<Rightarrow> string \<Rightarrow> u32 \<Rightarrow> ssdp \<Rightarrow> ssdp" where
  "ssdp_begin up mac ip now s =
     (if ss_active s \<or> \<not> up then s
      else (alive_times 3 ip ((ssdp_emit [Ss_route, Ss_multicast] (s\<lparr>ss_uuid := ssdp_uuid mac\<rparr>))\<lparr>ss_active := True\<rparr>))
             \<lparr>ss_last_alive := now\<rparr>)"

definition ssdp_stop :: "ssdp \<Rightarrow> ssdp" where
  "ssdp_stop s = (if \<not> ss_active s then s else ssdp_emit [Ss_udp_stop] (s\<lparr>ss_active := False\<rparr>))"

text \<open>A packet is the address and port of its sender and its bytes, of which 511 are read.\<close>

definition wants_us :: "string \<Rightarrow> bool" where
  "wants_us data =
     (let buf = cstr_at (take 511 data) 0
      in starts_with ''M-SEARCH'' buf
         \<and> (find_sub ''ssdp:all'' buf \<noteq> None \<or> find_sub ''upnp:rootdevice'' buf \<noteq> None \<or> find_sub ''Basic:1'' buf \<noteq> None))"

definition ssdp_answer :: "string \<Rightarrow> (string \<times> nat \<times> string) option \<Rightarrow> ssdp \<Rightarrow> ssdp" where
  "ssdp_answer ip packet s =
     (case packet of
        None \<Rightarrow> s
      | Some (addr, port, data) \<Rightarrow>
          if data = [] \<or> \<not> wants_us data then s else udp_send addr port (answer_text ip (ss_uuid s)) s)"

definition ssdp_loop ::
  "bool \<Rightarrow> string \<Rightarrow> u32 \<Rightarrow> u32 \<Rightarrow> (string \<times> nat \<times> string) option \<Rightarrow> ssdp \<Rightarrow> ssdp" where
  "ssdp_loop up ip now now' packet s =
     (if \<not> ss_active s then s
      else if \<not> up then ssdp_stop s
      else ssdp_answer ip packet
        (if now - ss_last_alive s > 900000 then notify_alive ip (s\<lparr>ss_last_alive := now'\<rparr>) else s))"

text \<open>The description document has its route from the first start on.\<close>

definition ssdp_routed :: "ssdp \<Rightarrow> bool" where
  "ssdp_routed s = (Ss_route \<in> set (ss_log s))"

end
