(* ===== verification/Esp_Node.thy ===== *)
theory Esp_Node
  imports Esp_Ble Esp_Hw Esp_Kbd Esp_Ssdp
begin

text \<open>
  The ESP32 sketch put together: one record with the state of its parts, the record of what the
  libraries answer, and the texts that describe the board: features, status and the catalog of the
  remote interface.
\<close>

section \<open>State\<close>

datatype board = C3 | Classic

text \<open>The library calls of the provisioning access point (\<open>ap_portal.cpp\<close>).\<close>

datatype portal_act =
    Sta_mode | Ap_mode string string | Dns_start | Ap_http_begin | Scan_start | Scan_delete
  | Ap_http_stop | Dns_stop | Ap_off | Dns_next | Ap_http_client | Delay_ms nat

text \<open>
  \<open>nd_tx\<close> is what was printed on the serial line, \<open>nd_line\<close> the line being read, \<open>nd_ap\<close> and the two
  fields after it the state of the provisioning access point, the four from \<open>nd_client_id\<close> on the static
  variables of the MQTT client, \<open>nd_ssdp\<close> the state of discovery, and \<open>nd_led\<close> the static variables of the
  breathing LED and the duty last written.
\<close>

record led_breath =
  lb_next :: u32
  lb_phase :: u16
  lb_duty :: u32

record esp_node =
  nd_conf :: esp_conf
  nd_kbd :: ekbd
  nd_hw :: esp_hw
  nd_line :: string
  nd_tx :: string
  nd_ap :: bool
  nd_ap_ssid :: string
  nd_ap_out :: "portal_act list"
  nd_client_id :: string
  nd_prefix :: string
  nd_alloc_fails :: nat
  nd_last_attempt :: u32
  nd_ssdp :: ssdp
  nd_led :: led_breath

text \<open>
  The environment during one operation: the NVS write, the clock, the BLE stack (connections, their
  handles, addresses and flags, bonds and deletion as functions of the calls made), the network with the
  state of the link and the MAC address, the measured values, and the compressed web page, which the
  build generates.  Temperature and addresses come as text.
\<close>

record node_env =
  ne_board :: board
  ne_hw :: hw_env
  ne_nvs :: nvs_write
  ne_task :: bool
  ne_now :: u32
  ne_peers :: "(nat \<times> string \<times> bool \<times> bool) list"
  ne_adv :: "esp_act list \<Rightarrow> bool"
  ne_bonds :: "esp_act list \<Rightarrow> string list"
  ne_unbond :: "esp_act list \<Rightarrow> bool"
  ne_ble_addr :: string
  ne_ble_rssi :: int
  ne_ip :: string
  ne_rssi :: int
  ne_heap :: nat
  ne_temp :: string
  ne_dns :: "string \<Rightarrow> string option"
  ne_ping :: "string \<Rightarrow> nat \<Rightarrow> nat \<times> string option"
  ne_mqtt_pub :: bool
  ne_link :: bool
  ne_mac :: "u8 list"
  ne_page :: string

definition is_connected :: "node_env \<Rightarrow> bool" where
  "is_connected E = (length (ne_peers E) > 0)"

definition in_conf :: "(esp_conf \<Rightarrow> esp_conf) \<Rightarrow> esp_node \<Rightarrow> esp_node" where
  "in_conf f s = s\<lparr>nd_conf := f (nd_conf s)\<rparr>"

definition by_conf :: "(esp_conf \<Rightarrow> 'a \<times> esp_conf) \<Rightarrow> esp_node \<Rightarrow> 'a \<times> esp_node" where
  "by_conf f s = (let (x, c) = f (nd_conf s) in (x, s\<lparr>nd_conf := c\<rparr>))"

definition by_kbd :: "(ekbd \<Rightarrow> 'a \<times> ekbd) \<Rightarrow> esp_node \<Rightarrow> 'a \<times> esp_node" where
  "by_kbd f s = (let (x, k) = f (nd_kbd s) in (x, s\<lparr>nd_kbd := k\<rparr>))"

definition in_kbd :: "(ekbd \<Rightarrow> ekbd) \<Rightarrow> esp_node \<Rightarrow> esp_node" where
  "in_kbd f s = s\<lparr>nd_kbd := f (nd_kbd s)\<rparr>"

definition in_hw :: "(esp_hw \<Rightarrow> esp_hw) \<Rightarrow> esp_node \<Rightarrow> esp_node" where
  "in_hw f s = s\<lparr>nd_hw := f (nd_hw s)\<rparr>"

definition by_hw :: "(esp_hw \<Rightarrow> 'a \<times> esp_hw) \<Rightarrow> esp_node \<Rightarrow> 'a \<times> esp_node" where
  "by_hw f s = (let (x, h) = f (nd_hw s) in (x, s\<lparr>nd_hw := h\<rparr>))"

text \<open>\<open>Serial.println\<close> of some lines.\<close>

definition println :: "string list \<Rightarrow> esp_node \<Rightarrow> esp_node" where
  "println ls s = s\<lparr>nd_tx := nd_tx s @ concat (map (\<lambda>l. l @ [CR, LF]) ls)\<rparr>"

section \<open>Features and status\<close>

definition build_ability_json :: "board \<Rightarrow> string" where
  "build_ability_json b =
     ''{\"ble\":true,\"mqtt\":true,\"rathole\":true,\"i2c\":true,\"http\":true''
     @ (case b of Classic \<Rightarrow> '',\"led\":\"breath\"'' | C3 \<Rightarrow> '',\"led\":\"none\"'')
     @ '',\"ssdp\":true}''"

definition rssi_to_pct :: "int \<Rightarrow> int" where
  "rssi_to_pct rssi = (let q = 2 * (rssi + 100) in if q < 0 then 0 else if q > 100 then 100 else q)"

definition commas :: "string list \<Rightarrow> string" where
  "commas xs = join_with '','' xs"

definition build_ble_status_json :: "node_env \<Rightarrow> esp_node \<Rightarrow> string" where
  "build_ble_status_json E s =
     (let c = nd_conf s; bonds = ne_bonds E (ec_out c)
      in ''{\"name\":\"'' @ g_device_name c @ ''\",\"addr\":\"'' @ ne_ble_addr E
         @ ''\",\"connected\":'' @ json_bool (is_connected E)
         @ '',\"advertising\":'' @ json_bool (ne_adv E (ec_out c))
         @ '',\"pairing_mode\":'' @ json_bool (g_pairing_mode c)
         @ (if g_pairing_mode c \<and> \<not> is_connected E \<and> g_pair_timeout_at c \<noteq> 0
            then '',\"pair_timeout_ms\":'' @ dec_int (max 0 (sint (g_pair_timeout_at c - ne_now E)))
            else [])
         @ '',\"peers\":['' @ commas (map (\<lambda>(h, addr, bonded, enc). ''{\"addr\":\"'' @ addr
              @ ''\",\"bonded\":'' @ json_bool bonded @ '',\"encrypted\":'' @ json_bool enc @ ''}'') (ne_peers E))
         @ ''],\"bonds\":['' @ commas (map (\<lambda>i. ''{\"idx\":'' @ dec_nat i @ '',\"addr\":\"'' @ bonds ! i @ ''\"}'')
              [0..<length bonds])
         @ '']}'')"

definition status_json :: "node_env \<Rightarrow> esp_node \<Rightarrow> string" where
  "status_json E s =
     (let c = nd_conf s; brssi = (if ne_peers E = [] then 0 else ne_ble_rssi E)
      in ''{\"device\":\"'' @ g_device_name c @ ''\",\"hostname\":\"'' @ g_hostname c
         @ ''\",\"connected\":'' @ json_bool (is_connected E) @ '',\"ip\":\"'' @ ne_ip E
         @ ''\",\"ble_addr\":\"'' @ ne_ble_addr E @ ''\",\"typing\":'' @ json_bool (ty_busy (nd_kbd s))
         @ '',\"mqtt\":'' @ json_bool (g_mqtt_connected c) @ '',\"ap\":'' @ json_bool (nd_ap s)
         @ '',\"http_enabled\":'' @ json_bool (g_http_enabled c) @ '',\"heap\":'' @ dec_nat (ne_heap E)
         @ '',\"temp_c\":'' @ ne_temp E @ '',\"wifi_rssi\":'' @ dec_int (ne_rssi E)
         @ '',\"wifi_pct\":'' @ dec_int (rssi_to_pct (ne_rssi E))
         @ '',\"ble_rssi\":'' @ dec_int brssi
         @ '',\"ble_pct\":'' @ dec_int (if brssi \<noteq> 0 then rssi_to_pct brssi else 0)
         @ '',\"ability\":'' @ build_ability_json (ne_board E) @ ''}'')"

section \<open>The catalog\<close>

record api_entry =
  ae_method :: string
  ae_params :: "(string \<times> string) list"
  ae_n :: nat
  ae_desc :: string

definition P_TAP :: "(string \<times> string) list" where
  "P_TAP =
    [(''mods'', ''modifier mask (0x01=Ctrl 0x02=Shift 0x04=Alt 0x08=GUI 0x10=LCtrl)''),
     (''k'', ''HID keycode (4=a 5=b ... 0x39=CapsLock)''),
     (''ms'', ''hold duration ms, default 100'')]"

definition P_TEXT :: "(string \<times> string) list" where
  "P_TEXT =
    [(''s'', ''ASCII text to type''),
     (''ms'', ''per-key hold ms, default 60''),
     (''gap'', ''inter-key gap ms, default 80'')]"

definition P_KEY :: "(string \<times> string) list" where
  "P_KEY =
    [(''mods'', ''modifier mask''),
     (''k0..k5'', ''up to 6 simultaneous HID keycodes (0=none)'')]"

definition P_GW :: "(string \<times> string) list" where
  "P_GW =
    [(''pin'', ''GPIO number (0-10, 18, 19, 20, 21)''),
     (''level'', ''0=LOW 1=HIGH'')]"

definition P_GR :: "(string \<times> string) list" where
  "P_GR =
    [(''pin'', ''GPIO number (input pullup)'')]"

definition P_ADC :: "(string \<times> string) list" where
  "P_ADC =
    [(''ch'', ''ADC channel (0=GPIO0 1=GPIO1 2=GPIO2 3=GPIO3 4=GPIO4)'')]"

definition P_I2CR :: "(string \<times> string) list" where
  "P_I2CR =
    [(''addr'', ''I2C device address (hex ok)''),
     (''reg'', ''register address''),
     (''len'', ''bytes to read, default 1'')]"

definition P_I2CW :: "(string \<times> string) list" where
  "P_I2CW =
    [(''addr'', ''I2C device address (hex ok)''),
     (''reg'', ''register address''),
     (''data'', ''hex bytes to write (e.g. FF01)'')]"

definition P_IR :: "(string \<times> string) list" where
  "P_IR =
    [(''protocol'', ''NEC | SIRC | RAW''),
     (''data'', ''NEC/SIRC: hex code; RAW: comma-separated us timings''),
     (''bits'', ''NEC/SIRC bit count (default 32/12)'')]"

definition P_PAIR :: "(string \<times> string) list" where
  "P_PAIR =
    [(''enable'', ''1=start 60s public advertising, 0=stop'')]"

definition P_BD :: "(string \<times> string) list" where
  "P_BD =
    [(''idx'', ''bond index (from ble/status list)'')]"

definition P_WOL :: "(string \<times> string) list" where
  "P_WOL =
    [(''mac'', ''target MAC address (AA:BB:CC:DD:EE:FF)'')]"

definition P_PING :: "(string \<times> string) list" where
  "P_PING =
    [(''host'', ''hostname or IP to ping''),
     (''count'', ''echo count, default 4'')]"

definition P_TUNCFG :: "(string \<times> string) list" where
  "P_TUNCFG =
    [(''id'', ''tunnel id (always 1)''),
     (''server'', ''rathole server host:port''),
     (''token'', ''service token''),
     (''service'', ''service name (must match server)''),
     (''local'', ''local host:port to forward to''),
     (''auto'', ''1=connect at boot''),
     (''retry'', ''reconnect backoff base, seconds 1-60'')]"

definition P_TUNID :: "(string \<times> string) list" where
  "P_TUNID =
    [(''id'', ''tunnel id (always 1)'')]"

definition P_TUNEN :: "(string \<times> string) list" where
  "P_TUNEN =
    [(''enable'', ''1|0 rathole master switch (NVS)'')]"

definition P_CFGSET :: "(string \<times> string) list" where
  "P_CFGSET =
    [(''key'', ''config key (see config/list)''),
     (''val'', ''value'')]"

definition P_CFGGET :: "(string \<times> string) list" where
  "P_CFGGET =
    [(''key'', ''config key'')]"

definition API_CATALOG :: "api_entry list" where
  "API_CATALOG =
    [\<lparr>ae_method = ''keyboard/tap'', ae_params = P_TAP, ae_n = 3, ae_desc = ''press+release one key''\<rparr>,
     \<lparr>ae_method = ''keyboard/text'', ae_params = P_TEXT, ae_n = 3, ae_desc = ''type ASCII string via BLE''\<rparr>,
     \<lparr>ae_method = ''keyboard/key'', ae_params = P_KEY, ae_n = 2, ae_desc = ''raw 6KRO report (hold until released)''\<rparr>,
     \<lparr>ae_method = ''gpio/write'', ae_params = P_GW, ae_n = 2, ae_desc = ''set GPIO output level''\<rparr>,
     \<lparr>ae_method = ''gpio/read'', ae_params = P_GR, ae_n = 1, ae_desc = ''read GPIO input (pullup)''\<rparr>,
     \<lparr>ae_method = ''adc/read'', ae_params = P_ADC, ae_n = 1, ae_desc = ''read ADC millivolts''\<rparr>,
     \<lparr>ae_method = ''i2c/scan'', ae_params = [], ae_n = 0, ae_desc = ''scan I2C bus for devices''\<rparr>,
     \<lparr>ae_method = ''i2c/read'', ae_params = P_I2CR, ae_n = 3, ae_desc = ''read I2C register''\<rparr>,
     \<lparr>ae_method = ''i2c/write'', ae_params = P_I2CW, ae_n = 3, ae_desc = ''write I2C register''\<rparr>,
     \<lparr>ae_method = ''ir/send'', ae_params = P_IR, ae_n = 3, ae_desc = ''send IR via RMT (NEC/SIRC/RAW)''\<rparr>,
     \<lparr>ae_method = ''ble/status'', ae_params = [], ae_n = 0, ae_desc = ''BLE name, addr, connections, bonds''\<rparr>,
     \<lparr>ae_method = ''ble/pair'', ae_params = P_PAIR, ae_n = 1, ae_desc = ''start/stop public pairing mode''\<rparr>,
     \<lparr>ae_method = ''ble/bonds/delete'', ae_params = P_BD, ae_n = 1, ae_desc = ''delete one bonded host by index''\<rparr>,
     \<lparr>ae_method = ''ble/bonds/clear'', ae_params = [], ae_n = 0, ae_desc = ''delete all bonded hosts''\<rparr>,
     \<lparr>ae_method = ''net/wol'', ae_params = P_WOL, ae_n = 1, ae_desc = ''send Wake-on-LAN magic packet''\<rparr>,
     \<lparr>ae_method = ''net/ping'', ae_params = P_PING, ae_n = 2, ae_desc = ''ICMP ping from device LAN''\<rparr>,
     \<lparr>ae_method = ''tunnel/status'', ae_params = [], ae_n = 0, ae_desc = ''rathole tunnel states''\<rparr>,
     \<lparr>ae_method = ''tunnel/config'', ae_params = P_TUNCFG, ae_n = 7, ae_desc = ''configure rathole tunnel (NVS)''\<rparr>,
     \<lparr>ae_method = ''tunnel/connect'', ae_params = P_TUNID, ae_n = 1, ae_desc = ''start tunnel control channel''\<rparr>,
     \<lparr>ae_method = ''tunnel/disconnect'', ae_params = P_TUNID, ae_n = 1, ae_desc = ''stop tunnel''\<rparr>,
     \<lparr>ae_method = ''tunnel/clear'', ae_params = P_TUNID, ae_n = 1, ae_desc = ''wipe tunnel config (NVS)''\<rparr>,
     \<lparr>ae_method = ''tunnel/enable'', ae_params = P_TUNEN, ae_n = 1, ae_desc = ''rathole master switch (NVS)''\<rparr>,
     \<lparr>ae_method = ''ability'', ae_params = [], ae_n = 0, ae_desc = ''compile-time feature flags''\<rparr>,
     \<lparr>ae_method = ''config/set'', ae_params = P_CFGSET, ae_n = 2, ae_desc = ''unified config: set key=val (NVS)''\<rparr>,
     \<lparr>ae_method = ''config/get'', ae_params = P_CFGGET, ae_n = 1, ae_desc = ''unified config: read key''\<rparr>,
     \<lparr>ae_method = ''config/list'', ae_params = [], ae_n = 0, ae_desc = ''unified config: list all keys''\<rparr>,
     \<lparr>ae_method = ''sys/info'', ae_params = [], ae_n = 0, ae_desc = ''device manifest + this API catalog''\<rparr>]"

definition build_services_json :: string where
  "build_services_json =
     ''{'' @ commas (map (\<lambda>e. ''\"'' @ ae_method e @ ''\":{\"d\":\"'' @ ae_desc e @ ''\",\"p\":{''
        @ commas (map (\<lambda>(n, d). ''\"'' @ n @ ''\":\"'' @ d @ ''\"'') (take (ae_n e) (ae_params e))) @ ''}}'')
        API_CATALOG) @ ''}''"

definition build_sys_info_json :: "node_env \<Rightarrow> esp_node \<Rightarrow> string" where
  "build_sys_info_json E s =
     (let c = nd_conf s
      in ''{\"device\":\"'' @ g_device_name c @ ''\",\"hostname\":\"'' @ g_hostname c
         @ ''\",\"ip\":\"'' @ ne_ip E @ ''\",\"ble_addr\":\"'' @ ne_ble_addr E
         @ ''\",\"ble_connected\":'' @ json_bool (is_connected E)
         @ '',\"typing\":'' @ json_bool (ty_busy (nd_kbd s))
         @ '',\"mqtt\":'' @ json_bool (g_mqtt_connected c)
         @ '',\"services\":'' @ build_services_json @ ''}'')"

section \<open>Power-on\<close>

definition node_zero :: "esp_conf \<Rightarrow> esp_node" where
  "node_zero c = \<lparr>nd_conf = c, nd_kbd = ekbd_boot, nd_hw = \<lparr>hw_out = []\<rparr>, nd_line = [], nd_tx = [],
     nd_ap = False, nd_ap_ssid = [], nd_ap_out = [], nd_client_id = [], nd_prefix = [],
     nd_alloc_fails = 0, nd_last_attempt = 0, nd_ssdp = ssdp_zero,
     nd_led = \<lparr>lb_next = 0, lb_phase = 0, lb_duty = 0\<rparr>\<rparr>"

text \<open>The percentage of a signal is one, and grows with the signal.\<close>

lemma rssi_to_pct_range: "0 \<le> rssi_to_pct r \<and> rssi_to_pct r \<le> 100"
  by (simp add: rssi_to_pct_def Let_def)

lemma rssi_to_pct_mono: "r \<le> r' \<Longrightarrow> rssi_to_pct r \<le> rssi_to_pct r'"
  by (simp add: rssi_to_pct_def Let_def)

end
