(* ===== verification/Esp_Portal.thy ===== *)
theory Esp_Portal
  imports Esp_Node
begin

text \<open>
  The provisioning access point (\<open>src/esp32/arduino/ap_portal.cpp\<close>): start, stop, polling, the button at
  power-on, and the two handlers with an effect.  The library calls go to the log \<open>nd_ap_out\<close>.
\<close>

definition AP_PASSWORD :: string where
  "AP_PASSWORD = ''ATNODECFG''"

definition ap_emit :: "portal_act list \<Rightarrow> esp_node \<Rightarrow> esp_node" where
  "ap_emit as s = s\<lparr>nd_ap_out := nd_ap_out s @ as\<rparr>"

definition ap_portal_start :: "esp_node \<Rightarrow> esp_node" where
  "ap_portal_start s =
     (if nd_ap s then s
      else let s1 = s\<lparr>nd_ap_ssid := ''AT-NODE-'' @ g_device_name (nd_conf s)\<rparr>
           in (ap_emit [Ap_mode (nd_ap_ssid s1) AP_PASSWORD, Dns_start, Ap_http_begin, Scan_start] s1)\<lparr>nd_ap := True\<rparr>)"

definition ap_portal_stop :: "esp_node \<Rightarrow> esp_node" where
  "ap_portal_stop s =
     (if \<not> nd_ap s then s else (ap_emit [Ap_http_stop, Dns_stop, Ap_off] s)\<lparr>nd_ap := False\<rparr>)"

definition ap_portal_poll :: "esp_node \<Rightarrow> esp_node" where
  "ap_portal_poll s = (if \<not> nd_ap s then s else ap_emit [Dns_next, Ap_http_client] s)"

text \<open>
  The button at power-on.  Each round is the clock at the loop's test and the two readings of the pin,
  \<open>True\<close> for pressed; the result tells whether the access point was started.
\<close>

fun ap_button_loop :: "u32 \<Rightarrow> (u32 \<times> bool \<times> bool) list \<Rightarrow> esp_node \<Rightarrow> bool \<times> esp_node" where
  "ap_button_loop start [] s = (False, s)"
| "ap_button_loop start ((now, low1, low2) # rounds) s =
     (if now - start \<ge> 3000 then (False, s)
      else if low1
      then let s1 = ap_emit [Delay_ms 50] s
           in if low2 then (True, ap_portal_start s1)
              else ap_button_loop start rounds (ap_emit [Delay_ms 10] s1)
      else ap_button_loop start rounds (ap_emit [Delay_ms 10] s))"

definition ap_portal_check_button :: "u32 \<Rightarrow> (u32 \<times> bool \<times> bool) list \<Rightarrow> esp_node \<Rightarrow> bool \<times> esp_node" where
  "ap_portal_check_button start rounds s = ap_button_loop start rounds s"

text \<open>
  The networks found: \<open>n\<close> is the value of \<open>scanComplete\<close>, -2 when there was no scan, -1 while one is
  running, the number of names otherwise.
\<close>

definition handle_scan :: "int \<Rightarrow> (nat \<Rightarrow> string) \<Rightarrow> esp_node \<Rightarrow> http_resp \<times> esp_node" where
  "handle_scan n ssid s =
     (if n = -2 then ((202, ''[]''), ap_emit [Scan_start] s)
      else ((200, ''['' @ commas (map (\<lambda>i. ''\"'' @ ssid i @ ''\"'') [0..<nat n]) @ '']''),
            ap_emit [Scan_delete] s))"

definition handle_save :: "node_env \<Rightarrow> http_req \<Rightarrow> esp_node \<Rightarrow> http_resp \<times> esp_node" where
  "handle_save E r s =
     (let ssid = http_arg r ''ssid''; pass = http_arg r ''pass''
      in if ssid = [] then ((400, ''SSID required''), s)
         else ((200, ''<html><head><meta charset=\"utf-8\">''
              @ ''<meta name=\"viewport\" content=\"width=device-width, initial-scale=1\">''
              @ ''<title>Saved</title></head><body style=\"font-family:sans-serif;text-align:center;padding:40px;\">''
              @ ''<h2>Saved!</h2><p>Rebooting to join <b>'' @ ssid @ ''</b>...</p></body></html>''),
            ap_emit [Delay_ms 2000]
              (in_conf (\<lambda>c. emit_act [Restart]
                 (save_config (ne_nvs E) ''wifi_pass'' pass (save_config (ne_nvs E) ''wifi_ssid'' ssid c))) s)))"

end
