(* ===== verification/Esp_Serial.thy ===== *)
theory Esp_Serial
  imports Esp_Portal
begin

text \<open>
  The serial command line of the ESP32 sketch: \<open>serial_exec\<close>, one function per group of commands, and
  \<open>handle_serial\<close>, which cuts the input into lines.  A command gets its argument, the text behind the
  \<open>=\<close>; \<open>None\<close> is an execution without defined behaviour (an infrared frame longer than its array).
\<close>

section \<open>Arguments\<close>

text \<open>The text before and behind the first comma, which must not come first.\<close>

definition split2 :: "string \<Rightarrow> (string \<times> string) option" where
  "split2 args =
     (case index_of args '','' 0 of
        Some c1 \<Rightarrow> if c1 > 0 then Some (substr args 0 c1, substr_from args (c1 + 1)) else None
      | None \<Rightarrow> None)"

definition split3 :: "string \<Rightarrow> (string \<times> string \<times> string) option" where
  "split3 args =
     (let c1 = index_of args '','' 0;
          c2 = index_of args '','' (case c1 of None \<Rightarrow> 0 | Some i \<Rightarrow> i + 1)
      in case (c1, c2) of
           (Some i, Some j) \<Rightarrow>
             if i > 0 \<and> j > i then Some (substr args 0 i, substr args (i + 1) j, substr_from args (j + 1))
             else None
         | _ \<Rightarrow> None)"

text \<open>The sub-command and its value, where the value may be missing.\<close>

definition sub_val :: "string \<Rightarrow> string \<times> string" where
  "sub_val args = (case split2 args of Some (a, b) \<Rightarrow> (a, b) | None \<Rightarrow> (args, []))"

definition at_reply :: "bool \<Rightarrow> string" where
  "at_reply ok = (if ok then ''OK'' else ''ERROR'')"

definition say :: "bool \<times> esp_node \<Rightarrow> esp_node" where
  "say r = println [at_reply (fst r)] (snd r)"

definition esp_config_set :: "node_env \<Rightarrow> string \<Rightarrow> string \<Rightarrow> esp_node \<Rightarrow> bool \<times> esp_node" where
  "esp_config_set E k v s = by_conf (config_set (ne_nvs E) (ne_task E) k v) s"

section \<open>Information\<close>

definition help_lines :: "string list" where
  "help_lines =
    [''AT-Node ESP32 commands:'',
     ''  AT / AT+STATUS / AT+VER / AT+HELP / AT+ABILITY'',
     ''  AT+TAP=<ms>,<mods>,<key>     press+release'',
     ''  AT+KEY=<mods>,<k1>..<k6>     raw HID report'',
     ''  AT+MOD=<mask>                modifiers only'',
     ''  AT+KEY_SEQ=<ms>,<mods>,<k1..6>,... batch reports'',
     ''  AT+TEXT=<text>               type ASCII text'',
     ''  AT+SET=<key>=<val> / AT+GET=<key> / AT+KEYS  unified config'',
     ''  AT+CONF=<key>=<val>          name/hostname (NVS, legacy alias)'',
     ''  AT+BT_LIST / AT+BT_DISC / AT+BT_PAIR'',
     ''  AT+GPIO_W=<pin>,<level> / AT+GPIO_R=<pin>'',
     ''  AT+ADC=<ch> / AT+I2C_SCAN / AT+I2C_R / AT+I2C_W'',
     ''  AT+IR=<NEC|SIRC|RAW>,...'',
     ''  AT+WIFI=ssid|pass|status,<val>'',
     ''  AT+MQTT=broker|port|enable|auto,<val> connect|status|clear'',
     ''  AT+TUNNEL=*  rathole-compatible tunnel client (single tunnel, plain TCP)'',
     ''  AT+TUNNEL=enable,<0|1>            rathole master switch (NVS)'',
     ''  AT+TUNNEL=server|token|service|local|auto|retry|enable,<val>'',
     ''  AT+TUNNEL=connect|disconnect|clear|status'',
     ''  AT+AP=<1|0>                  provisioning AP'',
     ''  AT+HTTP=<1|0|status|clear>   HTTP server control'',
     ''  AT+HTTP=enable,<1|0>         runtime toggle (temporary)'',
     ''  AT+HTTP=auto,<1|0>           auto-start on boot (NVS)'',
     ''  AT+PAIR=<1|0|status>       BLE public pairing advertising (60s timeout)'',
     ''  AT+BLE=enable,<1|0>          BLE runtime toggle (temporary)'',
     ''  AT+BLE=auto,<1|0>            BLE auto-start on boot (NVS)'',
     ''  AT+BLE=status                BLE enable/auto state'',
     ''  AT+NVS=clear                 erase all NVS settings and restart'',
     ''  Full API catalog: GET /at-node/help.json or MQTT sys/info'']"

definition status_lines :: "node_env \<Rightarrow> esp_node \<Rightarrow> string list" where
  "status_lines E s =
    [''role=esp32_at_node'',
     ''connected='' @ bit_text (is_connected E),
     ''ip='' @ ne_ip E,
     ''hostname='' @ g_hostname (nd_conf s),
     ''wifi_rssi='' @ dec_int (ne_rssi E) @ ''dBm ('' @ dec_int (rssi_to_pct (ne_rssi E)) @ ''%)'',
     ''temp_c='' @ ne_temp E,
     ''heap='' @ dec_nat (ne_heap E),
     ''mqtt='' @ (if g_mqtt_connected (nd_conf s) then ''connected'' else ''disconnected''),
     ''http='' @ (if g_http_enabled (nd_conf s) then ''on'' else ''off'')]"

section \<open>Bluetooth and settings\<close>

definition serial_bt_list :: "node_env \<Rightarrow> esp_node \<Rightarrow> esp_node" where
  "serial_bt_list E s =
     (let bonds = ne_bonds E (ec_out (nd_conf s))
      in println ((if bonds = [] then [''+BT_LIST:none''] else [])
           @ map (\<lambda>i. ''+BT_LIST:'' @ dec_nat i @ '' '' @ bonds ! i) [0..<length bonds] @ [''OK'']) s)"

definition drop_hosts :: "node_env \<Rightarrow> esp_node \<Rightarrow> esp_node" where
  "drop_hosts E s = in_conf (emit_act (map (\<lambda>(h, _). Host_drop h) (ne_peers E))) s"

definition serial_bt_disc :: "node_env \<Rightarrow> esp_node \<Rightarrow> esp_node" where
  "serial_bt_disc E s =
     (if is_connected E then println [''OK''] (drop_hosts E s)
      else println [''ERROR: not connected''] s)"

definition serial_bt_pair :: "node_env \<Rightarrow> esp_node \<Rightarrow> esp_node" where
  "serial_bt_pair E s =
     (let s1 = (if is_connected E then drop_hosts E s else s);
          s2 = in_conf (emit_act [Bonds_delete]) s1;
          ok = ne_unbond E (ec_out (nd_conf s2))
      in println [''bonds erased: '' @ bit_text ok, at_reply ok] s2)"

definition serial_set :: "node_env \<Rightarrow> string \<Rightarrow> esp_node \<Rightarrow> esp_node" where
  "serial_set E kv s =
     (case index_of kv ''='' 0 of
        Some eq \<Rightarrow> if eq > 0 then say (esp_config_set E (substr kv 0 eq) (substr_from kv (eq + 1)) s)
                   else println [''ERROR''] s
      | None \<Rightarrow> println [''ERROR''] s)"

definition serial_get :: "string \<Rightarrow> esp_node \<Rightarrow> esp_node" where
  "serial_get key s =
     (if config_known key then println [''+GET:'' @ key @ ''='' @ config_get key (nd_conf s), ''OK''] s
      else println [''ERROR''] s)"

definition serial_conf :: "node_env \<Rightarrow> string \<Rightarrow> esp_node \<Rightarrow> esp_node" where
  "serial_conf E kv s =
     (case index_of kv ''='' 0 of
        None \<Rightarrow> println [''ERROR''] s
      | Some eq \<Rightarrow>
          if eq = 0 then println [''ERROR''] s
          else let key = substr kv 0 eq; v = substr_from kv (eq + 1);
                   s1 = (if key = ''name'' then snd (esp_config_set E ''device.name'' v s)
                         else if key = ''hostname'' then snd (esp_config_set E ''device.hostname'' v s)
                         else if key = ''http_enable'' then snd (esp_config_set E ''http.enable'' v s)
                         else in_conf (save_config (ne_nvs E) key v) s)
               in println [''OK''] s1)"

section \<open>Peripherals\<close>

definition serial_gpio_w :: "string \<Rightarrow> esp_node \<Rightarrow> esp_node" where
  "serial_gpio_w args s =
     (case split2 args of
        Some (a, b) \<Rightarrow> println [''OK''] (in_hw (gpio_write (to_int a) (to_int b)) s)
      | None \<Rightarrow> println [''ERROR''] s)"

definition serial_gpio_r :: "node_env \<Rightarrow> string \<Rightarrow> esp_node \<Rightarrow> esp_node" where
  "serial_gpio_r E args s =
     (let (level, s1) = by_hw (gpio_read (ne_hw E) (to_int args)) s
      in println [''+GPIO_R:'' @ dec_int level, ''OK''] s1)"

definition serial_adc :: "node_env \<Rightarrow> string \<Rightarrow> esp_node \<Rightarrow> esp_node" where
  "serial_adc E args s =
     (let (mv, s1) = by_hw (adc_read (ne_hw E) (to_int args)) s
      in println [''+ADC:'' @ dec_int mv, ''OK''] s1)"

definition serial_i2c_scan :: "node_env \<Rightarrow> esp_node \<Rightarrow> esp_node" where
  "serial_i2c_scan E s =
     (let (found, s1) = by_hw (i2c_scan (ne_hw E) i2c_addresses) s
      in println (map (\<lambda>a. ''+I2C_SCAN:0x'' @ hex_nat (unat a)) found @ [''OK'']) s1)"

text \<open>The read of \<open>AT+I2C_R\<close>: the result of the first transmission is not looked at.\<close>

definition at_i2c_read :: "hw_env \<Rightarrow> string \<Rightarrow> string \<Rightarrow> string \<Rightarrow> esp_hw \<Rightarrow> u8 list \<times> esp_hw" where
  "at_i2c_read H a g l s =
     i2c_request H (i2c_to_int a) (to_int l)
       (snd (i2c_end H False (hw_emit [I2c_begin (i2c_to_int a), I2c_write (i2c_to_int g)] s)))"

definition serial_i2c_r :: "node_env \<Rightarrow> string \<Rightarrow> esp_node \<Rightarrow> esp_node" where
  "serial_i2c_r E args s =
     (case split3 args of
        Some (a, g, l) \<Rightarrow>
          let (bs, s1) = by_hw (at_i2c_read (ne_hw E) a g l) s
          in println [''+I2C_R:'' @ concat (map (\<lambda>b. hex02 b @ '' '') bs), ''OK''] s1
      | None \<Rightarrow> println [''ERROR''] s)"

definition serial_i2c_w :: "node_env \<Rightarrow> string \<Rightarrow> esp_node \<Rightarrow> esp_node" where
  "serial_i2c_w E args s =
     (case split3 args of
        Some (a, g, d) \<Rightarrow>
          let (e, s1) = by_hw (i2c_write_reg (ne_hw E) (i2c_to_int a) (i2c_to_int g) (no_blanks d)) s
          in println [at_reply (e = 0)] s1
      | None \<Rightarrow> println [''ERROR''] s)"

definition serial_ir :: "node_env \<Rightarrow> string \<Rightarrow> esp_node \<Rightarrow> esp_node option" where
  "serial_ir E args s =
     map_option (\<lambda>(ok, h). say (ok, in_hw (\<lambda>_. h) s)) (esp_at_ir (ne_hw E) args (nd_hw s))"

section \<open>Network\<close>

text \<open>The command of \<open>connect\<close>: a request for the MQTT task, and its semaphore.\<close>

definition mqtt_request :: "esp_node \<Rightarrow> esp_node" where
  "mqtt_request s = in_conf (\<lambda>c. emit_act [Mqtt_wake] (c\<lparr>g_mqtt_pending := True\<rparr>)) s"

definition serial_mqtt :: "node_env \<Rightarrow> string \<Rightarrow> esp_node \<Rightarrow> esp_node" where
  "serial_mqtt E args s =
     (if args = [] then println [''ERROR''] s
      else let (sub, v) = sub_val args; c = nd_conf s
           in if sub = ''broker'' then say (esp_config_set E ''mqtt.broker'' v s)
              else if sub = ''clear'' then println [''OK''] (in_conf mqtt_clear_config s)
              else if sub = ''port'' then say (esp_config_set E ''mqtt.port'' v s)
              else if sub = ''connect'' then println [''OK''] (mqtt_request s)
              else if sub = ''status'' then
                println [''+MQTT:'' @ (if g_mqtt_connected c then ''connected'' else ''disconnected'')
                  @ '',auto='' @ bit_text (g_mqtt_auto c) @ '',enabled='' @ bit_text (g_mqtt_enabled c), ''OK''] s
              else if sub = ''auto'' then say (esp_config_set E ''mqtt.auto'' v s)
              else if sub = ''enable'' then say (esp_config_set E ''mqtt.enable'' v s)
              else if sub = ''ca'' then
                (if v = ''status''
                 then println [if g_mqtt_ca_fp c \<noteq> [] then ''+MQTT_CA:'' @ g_mqtt_ca_fp c else ''+MQTT_CA:none''] s
                 else say (esp_config_set E ''mqtt.ca'' v s))
              else println [''ERROR''] s)"

definition serial_wifi :: "node_env \<Rightarrow> string \<Rightarrow> esp_node \<Rightarrow> esp_node" where
  "serial_wifi E args s =
     (case split2 args of
        Some (sub, v) \<Rightarrow>
          if sub = ''ssid'' then say (esp_config_set E ''wifi.ssid'' v s)
          else if sub = ''pass'' then say (esp_config_set E ''wifi.pass'' v s)
          else if sub = ''status'' then println [''+WIFI:'' @ g_wifi_ssid (nd_conf s), ''OK''] s
          else println [''ERROR''] s
      | None \<Rightarrow> println [''ERROR''] s)"

text \<open>HTTP back to its default: on, and the start-up setting removed from NVS.\<close>

definition http_clear :: "esp_conf \<Rightarrow> esp_conf" where
  "http_clear c =
     (let c1 = (if \<not> g_http_enabled c then set_http_enabled True c else c)
      in c1\<lparr>nvs := (nvs c1)(''http_auto'' := None)\<rparr>)"

definition http_status_line :: "esp_conf \<Rightarrow> string" where
  "http_status_line c = ''+HTTP:'' @ (if g_http_enabled c then ''enabled'' else ''disabled'')
     @ '',auto='' @ bit_text (g_http_auto c)"

definition serial_http :: "node_env \<Rightarrow> string \<Rightarrow> esp_node \<Rightarrow> esp_node" where
  "serial_http E line s =
     (let args = (if length line > 8 then substr_from line 8 else ''status'')
      in if args = ''status'' then println [http_status_line (nd_conf s), ''OK''] s
         else if args = ''clear'' then println [''OK''] (in_conf http_clear s)
         else if starts_with ''enable,'' args
         then println [''OK''] (snd (esp_config_set E ''http.enable'' (substr_from args 7) s))
         else if args = ''1'' \<or> args = ''0'' then println [''OK''] (snd (esp_config_set E ''http.enable'' args s))
         else println [''ERROR''] s)"

definition serial_pair :: "node_env \<Rightarrow> string \<Rightarrow> esp_node \<Rightarrow> esp_node" where
  "serial_pair E line s =
     (let args = (if length line > 8 then substr_from line 8 else ''status'')
      in if args = ''status''
         then println [''+PAIR:'' @ (if g_pairing_mode (nd_conf s) then ''enabled'' else ''disabled''), ''OK''] s
         else if args = ''1'' \<or> args = ''0''
         then println [''OK''] (in_conf (set_ble_adv_enabled (ne_now E) (args = ''1'')) s)
         else println [''ERROR''] s)"

definition serial_ble :: "node_env \<Rightarrow> string \<Rightarrow> esp_node \<Rightarrow> esp_node" where
  "serial_ble E line s =
     (let args = (if length line > 7 then substr_from line 7 else ''status'')
      in if args = ''status''
         then println [''+BLE:'' @ (if g_ble_enabled (nd_conf s) then ''enabled'' else ''disabled'')
                @ '',auto='' @ bit_text (g_ble_auto (nd_conf s)), ''OK''] s
         else if starts_with ''enable,'' args then say (esp_config_set E ''ble.enable'' (substr_from args 7) s)
         else if starts_with ''auto,'' args then say (esp_config_set E ''ble.auto'' (substr_from args 5) s)
         else println [''ERROR''] s)"

definition nvs_wipe :: "node_env \<Rightarrow> esp_conf \<Rightarrow> esp_conf" where
  "nvs_wipe E c = schedule_restart (ne_now E) 500 (nvs_clear_config c)"

definition serial_nvs :: "node_env \<Rightarrow> string \<Rightarrow> esp_node \<Rightarrow> esp_node" where
  "serial_nvs E sub s =
     (if sub = ''clear'' then println [''OK''] (in_conf (nvs_wipe E) s) else println [''ERROR''] s)"

definition serial_tunnel :: "node_env \<Rightarrow> string \<Rightarrow> esp_node \<Rightarrow> esp_node" where
  "serial_tunnel E args s =
     (let c = nd_conf s; en = ''+TUNNEL_EN:'' @ bit_text (rh_enabled c)
      in if args = ''status''
         then println (en # map (\<lambda>i. ''+TUNNEL:'' @ rathole_status_json (ne_heap E) i c) [0..<RATHOLE_MAX_TUNNELS]
                @ [''OK'']) s
         else if args = ''enable'' then println [en, ''OK''] s
         else if starts_with ''enable,'' args
         then println [''OK''] (in_conf (rathole_set_enabled (ne_nvs E) (ne_task E) (to_int (substr_from args 7) \<noteq> 0)) s)
         else let (sub, v) = (case index_of args '','' 0 of
                      None \<Rightarrow> (args, [])
                    | Some c2 \<Rightarrow> (substr args 0 c2, substr_from args (c2 + 1)))
              in if sub = [] then println [''ERROR''] s
                 else if sub \<in> set tunnel_fields
                 then (if v \<noteq> [] then say (by_conf (rathole_set (ne_nvs E) 0 sub v) s) else println [''ERROR''] s)
                 else if sub = ''connect'' then say (by_conf (rathole_start (ne_task E) 0) s)
                 else if sub = ''disconnect'' then println [''OK''] (in_conf (rathole_stop 0) s)
                 else if sub = ''clear'' then println [''OK''] (in_conf (rathole_clear 0) s)
                 else if sub = ''status'' then println [''+TUNNEL:'' @ rathole_status_json (ne_heap E) 0 c, ''OK''] s
                 else println [''ERROR''] s)"

definition serial_ap :: "string \<Rightarrow> esp_node \<Rightarrow> esp_node" where
  "serial_ap args s =
     (let v = to_int args
      in if v = 1 then println [''OK''] (ap_portal_start s)
         else if v = 0 then println [''OK''] (ap_portal_stop s)
         else println [''ERROR''] s)"

end
