(* ===== verification/Esp_Line.thy ===== *)
theory Esp_Line
  imports Esp_Serial
begin

text \<open>
  The dispatch of the serial command line, \<open>serial_exec\<close>, and the reader of lines, \<open>handle_serial\<close>.  The
  chain of tests of \<open>serial_exec\<close> is the list \<open>serial_table\<close>, tried in order.  The theory shows that
  the input is cut into its lines, that every command line is answered and an unknown one changes
  nothing, and what becomes of a line that is too long.
\<close>

section \<open>Dispatch\<close>

datatype cmd_match = Exactly string | Prefix string

fun matches :: "cmd_match \<Rightarrow> string \<Rightarrow> bool" where
  "matches (Exactly c) line = (line = c)"
| "matches (Prefix p) line = starts_with p line"

type_synonym serial_cmd = "string \<Rightarrow> esp_node \<Rightarrow> esp_node option"

text \<open>A command on the text behind its prefix, which always returns.\<close>

definition on_args :: "string \<Rightarrow> (string \<Rightarrow> esp_node \<Rightarrow> esp_node) \<Rightarrow> cmd_match \<times> serial_cmd" where
  "on_args p f = (Prefix p, \<lambda>line s. Some (f (substr_from line (length p)) s))"

definition on_word :: "string \<Rightarrow> (esp_node \<Rightarrow> esp_node) \<Rightarrow> cmd_match \<times> serial_cmd" where
  "on_word w f = (Exactly w, \<lambda>line s. Some (f s))"

definition kbd_cmd :: "(string \<Rightarrow> ekbd \<Rightarrow> string \<times> ekbd) \<Rightarrow> string \<Rightarrow> esp_node \<Rightarrow> esp_node" where
  "kbd_cmd f args s = (let (r, s1) = by_kbd (f args) s in println [r] s1)"

definition serial_key_seq :: "string \<Rightarrow> esp_node \<Rightarrow> esp_node" where
  "serial_key_seq args s = (let (ls, s1) = by_kbd (esp_at_key_seq args) s in println ls s1)"

definition serial_table :: "node_env \<Rightarrow> (cmd_match \<times> serial_cmd) list" where
  "serial_table E =
    [on_word ''AT'' (println [''OK'']),
     on_word ''AT+HELP'' (println help_lines),
     on_word ''AT+ABILITY'' (println [''+ABILITY:'' @ build_ability_json (ne_board E), ''OK'']),
     on_word ''AT+VER'' (println [''AT-Node v1.0 [esp32]'', ''OK'']),
     on_word ''AT+STATUS'' (\<lambda>s. println (status_lines E s) s),
     on_args ''AT+TAP='' (kbd_cmd esp_at_tap),
     on_args ''AT+KEY='' (kbd_cmd esp_at_key),
     on_args ''AT+MOD='' (kbd_cmd esp_at_mod),
     on_args ''AT+KEY_SEQ='' serial_key_seq,
     on_word ''AT+BT_LIST'' (serial_bt_list E),
     on_word ''AT+BT_DISC'' (serial_bt_disc E),
     on_word ''AT+BT_PAIR'' (serial_bt_pair E),
     on_args ''AT+TEXT='' (kbd_cmd esp_at_text),
     on_args ''AT+SET='' (serial_set E),
     on_args ''AT+GET='' serial_get,
     on_word ''AT+KEYS'' (\<lambda>s. println [''+KEYS:'' @ config_list_json (nd_conf s), ''OK''] s),
     on_args ''AT+CONF='' (serial_conf E),
     on_args ''AT+GPIO_W='' serial_gpio_w,
     on_args ''AT+GPIO_R='' (serial_gpio_r E),
     on_args ''AT+ADC='' (serial_adc E),
     on_word ''AT+I2C_SCAN'' (serial_i2c_scan E),
     on_args ''AT+I2C_R='' (serial_i2c_r E),
     on_args ''AT+I2C_W='' (serial_i2c_w E),
     (Prefix ''AT+IR='', \<lambda>line s. serial_ir E (substr_from line 6) s),
     on_args ''AT+MQTT='' (serial_mqtt E),
     on_args ''AT+WIFI='' (serial_wifi E),
     (Prefix ''AT+HTTP='', \<lambda>line s. Some (serial_http E line s)),
     (Exactly ''AT+HTTP'', \<lambda>line s. Some (serial_http E line s)),
     (Prefix ''AT+PAIR='', \<lambda>line s. Some (serial_pair E line s)),
     (Exactly ''AT+PAIR'', \<lambda>line s. Some (serial_pair E line s)),
     (Prefix ''AT+BLE='', \<lambda>line s. Some (serial_ble E line s)),
     (Exactly ''AT+BLE'', \<lambda>line s. Some (serial_ble E line s)),
     on_args ''AT+NVS='' (serial_nvs E),
     on_args ''AT+TUNNEL='' (serial_tunnel E),
     on_args ''AT+AP='' serial_ap]"

definition serial_exec :: "node_env \<Rightarrow> string \<Rightarrow> esp_node \<Rightarrow> esp_node option" where
  "serial_exec E line s =
     (case find (\<lambda>c. matches (fst c) line) (serial_table E) of
        Some (m, f) \<Rightarrow> f line s
      | None \<Rightarrow> Some (println [''ERROR''] s))"

section \<open>Lines\<close>

definition serial_byte :: "node_env \<Rightarrow> char \<Rightarrow> esp_node \<Rightarrow> esp_node option" where
  "serial_byte E c s =
     (if c = CR \<or> c = LF
      then let line = trim (nd_line s)
           in map_option (\<lambda>s1. s1\<lparr>nd_line := []\<rparr>) (if length line > 0 then serial_exec E line s else Some s)
      else if length (nd_line s) < 255 then Some (s\<lparr>nd_line := nd_line s @ [c]\<rparr>)
      else Some (s\<lparr>nd_line := []\<rparr>))"

fun handle_serial :: "node_env \<Rightarrow> string \<Rightarrow> esp_node \<Rightarrow> esp_node option" where
  "handle_serial E [] s = Some s"
| "handle_serial E (c # cs) s = Option.bind (serial_byte E c s) (handle_serial E cs)"

lemma handle_serial_append:
  "handle_serial E (xs @ ys) s = Option.bind (handle_serial E xs s) (handle_serial E ys)"
  by (induction xs arbitrary: s) (auto split: bind_split)

text \<open>Characters of a line, while it fits and when it does not.\<close>

definition in_line :: "char \<Rightarrow> bool" where
  "in_line c = (c \<noteq> CR \<and> c \<noteq> LF)"

lemma line_grows:
  "\<forall>c\<in>set xs. in_line c \<Longrightarrow> length (nd_line s) + length xs \<le> 255
    \<Longrightarrow> handle_serial E xs s = Some (s\<lparr>nd_line := nd_line s @ xs\<rparr>)"
  by (induction xs arbitrary: s) (auto simp: serial_byte_def in_line_def)

lemma line_overflows:
  "in_line c \<Longrightarrow> length (nd_line s) = 255 \<Longrightarrow> serial_byte E c s = Some (s\<lparr>nd_line := []\<rparr>)"
  by (simp add: serial_byte_def in_line_def)

lemma line_ends:
  "c = CR \<or> c = LF \<Longrightarrow> serial_byte E c s =
    map_option (\<lambda>s1. s1\<lparr>nd_line := []\<rparr>) (if trim (nd_line s) \<noteq> [] then serial_exec E (trim (nd_line s)) s else Some s)"
  by (simp add: serial_byte_def)

section \<open>What all commands have in common\<close>

text \<open>
  A tidy command prints at least one line and does not look at or change the line buffer.
\<close>

definition printed :: "esp_node \<Rightarrow> esp_node \<Rightarrow> bool" where
  "printed s t = (\<exists>ls. ls \<noteq> [] \<and> nd_tx t = nd_tx s @ concat (map (\<lambda>l. l @ [CR, LF]) ls))"

definition tidy :: "(esp_node \<Rightarrow> esp_node) \<Rightarrow> bool" where
  "tidy f = (\<forall>s. (\<forall>x. f (s\<lparr>nd_line := x\<rparr>) = (f s)\<lparr>nd_line := x\<rparr>) \<and> printed s (f s))"

lemma tidyI:
  "(\<And>s x. f (s\<lparr>nd_line := x\<rparr>) = (f s)\<lparr>nd_line := x\<rparr>) \<Longrightarrow> (\<And>s. printed s (f s)) \<Longrightarrow> tidy f"
  by (simp add: tidy_def)

lemma println_line [simp]: "println ls (s\<lparr>nd_line := x\<rparr>) = (println ls s)\<lparr>nd_line := x\<rparr>"
  by (simp add: println_def)

lemma println_tx [simp]: "nd_tx (println ls s) = nd_tx s @ concat (map (\<lambda>l. l @ [CR, LF]) ls)"
  by (simp add: println_def)

lemma in_conf_line [simp]: "in_conf f (s\<lparr>nd_line := x\<rparr>) = (in_conf f s)\<lparr>nd_line := x\<rparr>"
  and in_conf_tx [simp]: "nd_tx (in_conf f s) = nd_tx s"
  and in_conf_conf [simp]: "nd_conf (in_conf f s) = f (nd_conf s)"
  by (simp_all add: in_conf_def)

lemma in_hw_line [simp]: "in_hw f (s\<lparr>nd_line := x\<rparr>) = (in_hw f s)\<lparr>nd_line := x\<rparr>"
  and in_hw_tx [simp]: "nd_tx (in_hw f s) = nd_tx s"
  by (simp_all add: in_hw_def)

lemma by_line [simp]:
  "by_conf f (s\<lparr>nd_line := x\<rparr>) = (fst (by_conf f s), (snd (by_conf f s))\<lparr>nd_line := x\<rparr>)"
  "by_kbd g (s\<lparr>nd_line := x\<rparr>) = (fst (by_kbd g s), (snd (by_kbd g s))\<lparr>nd_line := x\<rparr>)"
  "by_hw h (s\<lparr>nd_line := x\<rparr>) = (fst (by_hw h s), (snd (by_hw h s))\<lparr>nd_line := x\<rparr>)"
  by (simp_all add: by_conf_def by_kbd_def by_hw_def split: prod.split)

lemma by_tx [simp]:
  "nd_tx (snd (by_conf f s)) = nd_tx s" "nd_tx (snd (by_kbd g s)) = nd_tx s" "nd_tx (snd (by_hw h s)) = nd_tx s"
  by (simp_all add: by_conf_def by_kbd_def by_hw_def split: prod.split)

lemma portal_line [simp]:
  "ap_portal_start (s\<lparr>nd_line := x\<rparr>) = (ap_portal_start s)\<lparr>nd_line := x\<rparr>"
  "ap_portal_stop (s\<lparr>nd_line := x\<rparr>) = (ap_portal_stop s)\<lparr>nd_line := x\<rparr>"
  "nd_tx (ap_portal_start s) = nd_tx s" "nd_tx (ap_portal_stop s) = nd_tx s"
  by (simp_all add: ap_portal_start_def ap_portal_stop_def ap_emit_def Let_def)

lemma say_line [simp]: "say (r, s\<lparr>nd_line := x\<rparr>) = (say (r, s))\<lparr>nd_line := x\<rparr>"
  by (simp add: say_def)

lemma printed_println [simp]: "nd_tx t = nd_tx s \<Longrightarrow> ls \<noteq> [] \<Longrightarrow> printed s (println ls t)"
  by (auto simp: printed_def)

lemma printed_say [simp]: "nd_tx (snd r) = nd_tx s \<Longrightarrow> printed s (say r)"
  by (simp add: say_def)

lemma esp_config_set_line [simp]:
  "esp_config_set E k v (s\<lparr>nd_line := x\<rparr>) = (fst (esp_config_set E k v s), (snd (esp_config_set E k v s))\<lparr>nd_line := x\<rparr>)"
  "nd_tx (snd (esp_config_set E k v s)) = nd_tx s"
  by (simp_all add: esp_config_set_def)

lemma status_lines_line [simp]: "status_lines E (s\<lparr>nd_line := x\<rparr>) = status_lines E s"
  by (simp add: status_lines_def)

lemma tidy_word: "ls \<noteq> [] \<Longrightarrow> tidy (println ls)"
  by (rule tidyI) simp_all

lemma tidy_kbd: "tidy (kbd_cmd f a)"
  by (rule tidyI) (simp_all add: kbd_cmd_def case_prod_beta Let_def)

lemma tidy_key_seq: "tidy (serial_key_seq a)"
proof (rule tidyI)
  fix s
  have "fst (by_kbd (esp_at_key_seq a) s) \<noteq> []"
    by (simp add: by_kbd_def esp_at_key_seq_def Let_def)
  then show "printed s (serial_key_seq a s)"
    by (simp add: serial_key_seq_def case_prod_beta Let_def)
qed (simp add: serial_key_seq_def case_prod_beta Let_def)

lemma tidy_bt: "tidy (serial_bt_list E)" "tidy (serial_bt_disc E)" "tidy (serial_bt_pair E)"
  by (rule tidyI; simp add: serial_bt_list_def serial_bt_disc_def serial_bt_pair_def drop_hosts_def Let_def)+

lemma tidy_settings: "tidy (serial_set E a)" "tidy (serial_get a)" "tidy (serial_conf E a)"
  by (rule tidyI; simp add: serial_set_def serial_get_def serial_conf_def Let_def split: option.split)+

lemma tidy_gpio: "tidy (serial_gpio_w a)" "tidy (serial_gpio_r E a)" "tidy (serial_adc E a)"
  by (rule tidyI; simp add: serial_gpio_w_def serial_gpio_r_def serial_adc_def case_prod_beta Let_def
      split: option.split)+

lemma tidy_i2c: "tidy (serial_i2c_scan E)" "tidy (serial_i2c_r E a)" "tidy (serial_i2c_w E a)"
  by (rule tidyI; simp add: serial_i2c_scan_def serial_i2c_r_def serial_i2c_w_def case_prod_beta Let_def
      split: option.split)+

lemma tidy_mqtt: "tidy (serial_mqtt E a)"
  by (rule tidyI; simp add: serial_mqtt_def mqtt_request_def case_prod_beta Let_def)

lemma tidy_net: "tidy (serial_wifi E a)" "tidy (serial_http E a)" "tidy (serial_pair E a)" "tidy (serial_ble E a)"
    "tidy (serial_nvs E a)" "tidy (serial_ap a)"
  by (rule tidyI; simp add: serial_wifi_def serial_http_def serial_pair_def serial_ble_def serial_nvs_def
      serial_ap_def case_prod_beta Let_def split: option.split)+

lemma tidy_tunnel: "tidy (serial_tunnel E a)"
  by (rule tidyI; simp add: serial_tunnel_def case_prod_beta Let_def split: option.split)

lemma ir_tidy:
  "serial_ir E a (s\<lparr>nd_line := x\<rparr>) = map_option (\<lambda>t. t\<lparr>nd_line := x\<rparr>) (serial_ir E a s)"
  "serial_ir E a s = Some t \<Longrightarrow> printed s t"
  by (cases "esp_at_ir (ne_hw E) a (nd_hw s)"; auto simp: serial_ir_def split_beta)+

text \<open>The same for the whole table.\<close>

definition tidy_cmd :: "serial_cmd \<Rightarrow> bool" where
  "tidy_cmd f = (\<forall>line s. (\<forall>x. f line (s\<lparr>nd_line := x\<rparr>) = map_option (\<lambda>t. t\<lparr>nd_line := x\<rparr>) (f line s))
     \<and> (\<forall>t. f line s = Some t \<longrightarrow> printed s t))"

lemma tidy_on_args: "(\<And>a. tidy (f a)) \<Longrightarrow> tidy_cmd (snd (on_args p f))"
  by (simp add: tidy_cmd_def on_args_def tidy_def)

lemma tidy_on_word: "tidy f \<Longrightarrow> tidy_cmd (snd (on_word w f))"
  by (simp add: tidy_cmd_def on_word_def tidy_def)

lemma tidy_line_cmd: "(\<And>a. tidy (f a)) \<Longrightarrow> tidy_cmd (\<lambda>line s. Some (f line s))"
  by (simp add: tidy_cmd_def tidy_def)

lemma tidy_table: "\<forall>c\<in>set (serial_table E). tidy_cmd (snd c)"
proof -
  have "tidy (\<lambda>s. println (status_lines E s) s)" "tidy (println help_lines)"
    "tidy (\<lambda>s. println [''+KEYS:'' @ config_list_json (nd_conf s), ''OK''] s)"
    by (rule tidyI; simp add: status_lines_def help_lines_def)+
  moreover have "tidy_cmd (\<lambda>line s. serial_ir E (substr_from line 6) s)"
    using ir_tidy by (simp add: tidy_cmd_def)
  ultimately show ?thesis
    unfolding serial_table_def list.set ball_simps snd_conv
    by (intro conjI tidy_on_args tidy_on_word tidy_line_cmd tidy_word tidy_kbd tidy_key_seq tidy_bt tidy_settings
        tidy_gpio tidy_i2c tidy_mqtt tidy_net tidy_tunnel TrueI list.distinct) (simp_all add: help_lines_def)
qed

lemma exec_tidy: "tidy_cmd (serial_exec E)"
proof -
  have "tidy_cmd f" if "find (\<lambda>c. matches (fst c) line) (serial_table E) = Some (m, f)" for line m f
    using tidy_table [of E] find_Some_iff_first [OF that] by auto
  then show ?thesis
    by (auto simp: tidy_cmd_def serial_exec_def split: option.split)
qed

lemma exec_line:
  "serial_exec E line (s\<lparr>nd_line := x\<rparr>) = map_option (\<lambda>t. t\<lparr>nd_line := x\<rparr>) (serial_exec E line s)"
  using exec_tidy [of E] by (simp add: tidy_cmd_def)

section \<open>Properties\<close>

text \<open>Reference: the lines in order, trimmed, the empty ones skipped.\<close>

fun serial_lines :: "node_env \<Rightarrow> string list \<Rightarrow> esp_node \<Rightarrow> esp_node option" where
  "serial_lines E [] s = Some s"
| "serial_lines E (l # ls) s =
     Option.bind (if trim l = [] then Some s else serial_exec E (trim l) s) (serial_lines E ls)"

lemma one_line:
  assumes "\<forall>c\<in>set l. in_line c" "length l \<le> 255" "c = CR \<or> c = LF" "nd_line s = []"
  shows "handle_serial E (l @ [c]) s = (if trim l = [] then Some s else serial_exec E (trim l) s)
    \<and> (\<forall>t. handle_serial E (l @ [c]) s = Some t \<longrightarrow> nd_line t = [])"
proof -
  have s: "s\<lparr>nd_line := []\<rparr> = s" using assms(4) by (cases s) simp
  have "handle_serial E (l @ [c]) s = serial_byte E c (s\<lparr>nd_line := l\<rparr>)"
    using line_grows [OF assms(1), of s E] assms(2,4)
    by (simp add: handle_serial_append) (cases "serial_byte E c (s\<lparr>nd_line := l\<rparr>)"; simp)
  also have "\<dots> = map_option (\<lambda>t. t\<lparr>nd_line := []\<rparr>)
      (if trim l = [] then Some s else serial_exec E (trim l) s)"
    by (simp add: line_ends [OF assms(3)] exec_line s option.map_comp comp_def)
  finally have e: "handle_serial E (l @ [c]) s = map_option (\<lambda>t. t\<lparr>nd_line := []\<rparr>)
      (if trim l = [] then Some s else serial_exec E (trim l) s)" .
  moreover have "map_option (\<lambda>t. t\<lparr>nd_line := []\<rparr>) (serial_exec E (trim l) s) = serial_exec E (trim l) s"
    using exec_line [of E "trim l" "[]" s] s by simp
  moreover have "nd_line t = []" if "handle_serial E (l @ [c]) s = Some t" for t
    using that e by auto
  ultimately show ?thesis using s by simp
qed

text \<open>
  C25: The serial reader runs the lines of its input.  For any lines of at most 255 characters, each ended
  by a carriage return or a line feed, the bytes read one by one have the effect of the trimmed lines
  run in order, the empty ones skipped, so that a terminal may end its lines with either or with both.
\<close>
theorem serial_input_lines:
  assumes "\<forall>(l, c)\<in>set lcs. (\<forall>x\<in>set l. in_line x) \<and> length l \<le> 255 \<and> (c = CR \<or> c = LF)" "nd_line s = []"
  shows "handle_serial E (concat (map (\<lambda>(l, c). l @ [c]) lcs)) s = serial_lines E (map fst lcs) s"
  using assms
proof (induction lcs arbitrary: s)
  case (Cons lc lcs)
  obtain l c where lc: "lc = (l, c)" by (cases lc)
  with Cons.prems have l: "\<forall>x\<in>set l. in_line x" "length l \<le> 255" "c = CR \<or> c = LF" by auto
  note one = one_line [OF l Cons.prems(2), of E]
  let ?rest = "concat (map (\<lambda>(l, c). l @ [c]) lcs)"
  have split: "handle_serial E (concat (map (\<lambda>(l, c). l @ [c]) (lc # lcs))) s =
      Option.bind (handle_serial E (l @ [c]) s) (handle_serial E ?rest)"
    by (simp only: lc list.map concat.simps prod.case handle_serial_append [of E "l @ [c]" ?rest])
  have "handle_serial E ?rest t = serial_lines E (map fst lcs) t" if "handle_serial E (l @ [c]) s = Some t" for t
    using Cons.prems(1) that one by (intro Cons.IH) auto
  then have "Option.bind (handle_serial E (l @ [c]) s) (handle_serial E ?rest) =
      Option.bind (handle_serial E (l @ [c]) s) (serial_lines E (map fst lcs))"
    by (intro Option.bind_cong) simp_all
  then show ?case
    unfolding split using one [THEN conjunct1] by (simp add: lc)
qed simp

text \<open>
  Every command line is answered, and a line that no test of \<open>serial_exec\<close> accepts prints \<open>ERROR\<close> and
  changes nothing else.
\<close>
theorem serial_line_answered:
  "(\<forall>t. serial_exec E line s = Some t \<longrightarrow> printed s t)
   \<and> ((\<forall>c\<in>set (serial_table E). \<not> matches (fst c) line) \<longrightarrow> serial_exec E line s = Some (println [''ERROR''] s))"
proof
  show "\<forall>t. serial_exec E line s = Some t \<longrightarrow> printed s t"
    using exec_tidy [of E] by (simp add: tidy_cmd_def)
  show "(\<forall>c\<in>set (serial_table E). \<not> matches (fst c) line) \<longrightarrow> serial_exec E line s = Some (println [''ERROR''] s)"
    by (auto simp: serial_exec_def find_None_iff split: option.split dest!: find_Some_iff_first)
qed

text \<open>
  The end of a line that is too long is run as a command.  The 256th character of a line empties the
  buffer, and what follows up to the end of the line is executed like a line of its own: garbage is not
  dropped, and a long \<open>AT+TEXT\<close> may end in \<open>AT+NVS=clear\<close>.
\<close>
theorem serial_overlong_tail_runs:
  assumes "\<forall>x\<in>set (head @ c # tail). in_line x" "length head = 255" "length tail \<le> 255" "trim tail \<noteq> []"
    "nd_line s = []"
  shows "handle_serial E (head @ [c] @ tail @ [CR]) s = serial_exec E (trim tail) s"
proof -
  have s: "s\<lparr>nd_line := []\<rparr> = s" using assms(5) by (cases s) simp
  have "handle_serial E (head @ [c]) s = Some s"
    using assms line_grows [of head s E] line_overflows [of c "s\<lparr>nd_line := head\<rparr>" E] s
    by (simp add: handle_serial_append)
  then have "handle_serial E (head @ [c] @ tail @ [CR]) s = handle_serial E (tail @ [CR]) s"
    using handle_serial_append [of E "head @ [c]" "tail @ [CR]" s] by simp
  also have "\<dots> = serial_exec E (trim tail) s"
    using one_line [of tail CR s E] assms by simp
  finally show ?thesis .
qed

section \<open>At concrete inputs\<close>

text \<open>A quiet board: nothing connected, every call succeeds.\<close>

definition demo_board :: node_env where
  "demo_board = \<lparr>ne_board = C3,
     ne_hw = \<lparr>he_level = (\<lambda>l. 1), he_mv = (\<lambda>l. 1650), he_i2c_end = (\<lambda>l. 0), he_i2c_rx = (\<lambda>l. [0x0A, 0xFF]),
       he_rmt = (\<lambda>l. True), he_udp = (\<lambda>l. 1), he_broadcast = [192, 168, 1, 255]\<rparr>,
     ne_nvs = demo_write, ne_task = True, ne_now = 1000, ne_peers = [], ne_adv = (\<lambda>l. False),
     ne_bonds = (\<lambda>l. []), ne_unbond = (\<lambda>l. True), ne_ble_addr = ''02:00:00:00:00:01'', ne_ble_rssi = 0,
     ne_ip = ''192.168.1.7'', ne_rssi = -60, ne_heap = 100000, ne_temp = ''41.5'',
     ne_dns = (\<lambda>h. None), ne_ping = (\<lambda>ip n. (0, None)), ne_mqtt_pub = True,
     ne_link = True, ne_mac = [2, 0, 0, 0, 0, 1], ne_page = []\<rparr>"

definition demo_node :: esp_node where
  "demo_node = node_zero demo_conf"

lemma demo_node_line [simp]: "nd_line demo_node = []"
  by (simp add: demo_node_def node_zero_def)

lemma exec_AT: "serial_exec E ''AT'' s = Some (println [''OK''] s)"
  by (simp add: serial_exec_def serial_table_def on_word_def)

lemma trim_AT: "trim ''AT'' = ''AT''" "trim [] = []" "trim '' AT '' = ''AT''"
  by code_simp+

theorem serial_input_lines_witness:
  "handle_serial demo_board ('' AT '' @ [CR, LF]) demo_node = Some (println [''OK''] demo_node)"
  using serial_input_lines [of "[('' AT '', CR), ([], LF)]" demo_node demo_board]
  by (simp add: in_line_def trim_AT exec_AT del: handle_serial.simps)

theorem serial_line_answered_witness:
  "printed demo_node (println [''OK''] demo_node)"
  using serial_line_answered [of demo_board "''AT''" demo_node] by (simp add: exec_AT)

theorem serial_overlong_tail_runs_witness:
  "handle_serial demo_board (replicate 255 CHR ''x'' @ ''x'' @ ''AT'' @ [CR]) demo_node
    = Some (println [''OK''] demo_node)"
proof -
  have "\<forall>x\<in>set (replicate 255 CHR ''x'' @ CHR ''x'' # ''AT''). in_line x"
    by (simp add: in_line_def)
  then show ?thesis
    using serial_overlong_tail_runs [of "replicate 255 CHR ''x''" "CHR ''x''" "''AT''" demo_node demo_board]
    by (simp add: trim_AT exec_AT)
qed

end
