(* ===== verification/Esp_Http.thy ===== *)
theory Esp_Http
  imports Esp_Line
begin

text \<open>
  The HTTP interface of the ESP32 sketch: AT commands in a request (\<open>handle_at\<close>), the handlers of the
  groups and their routes.  A handler gets the request and returns the response and the state.  The
  theory compares \<open>handle_at\<close> with \<open>serial_exec\<close>.
\<close>

section \<open>AT commands over HTTP\<close>

type_synonym http_cmd = "string \<Rightarrow> esp_node \<Rightarrow> (string \<times> esp_node) option"

definition h_args :: "string \<Rightarrow> (string \<Rightarrow> esp_node \<Rightarrow> string \<times> esp_node) \<Rightarrow> cmd_match \<times> http_cmd" where
  "h_args p f = (Prefix p, \<lambda>line s. Some (f (substr_from line (length p)) s))"

definition h_word :: "string \<Rightarrow> (esp_node \<Rightarrow> string \<times> esp_node) \<Rightarrow> cmd_match \<times> http_cmd" where
  "h_word w f = (Exactly w, \<lambda>line s. Some (f s))"

definition h_conf :: "node_env \<Rightarrow> string \<Rightarrow> esp_node \<Rightarrow> string \<times> esp_node" where
  "h_conf E kv s =
     (case index_of kv ''='' 0 of
        None \<Rightarrow> (''ERROR'', s)
      | Some eq \<Rightarrow>
          if eq = 0 then (''ERROR'', s)
          else let key = substr kv 0 eq; v = substr_from kv (eq + 1); W = ne_nvs E
               in (''OK'', in_conf (\<lambda>c.
                    if key = ''name'' then save_config W key v (c\<lparr>g_device_name := v\<rparr>)
                    else if key = ''hostname'' then save_config W key v (c\<lparr>g_hostname := v\<rparr>)
                    else if key = ''http_enable'' then set_http_enabled (to_int v \<noteq> 0) c
                    else save_config W key v c) s))"

definition h_gpio_w :: "string \<Rightarrow> esp_node \<Rightarrow> string \<times> esp_node" where
  "h_gpio_w args s =
     (case split2 args of
        Some (a, b) \<Rightarrow> (''OK'', in_hw (gpio_write (to_int a) (to_int b)) s)
      | None \<Rightarrow> (''ERROR'', s))"

definition h_gpio_r :: "node_env \<Rightarrow> string \<Rightarrow> esp_node \<Rightarrow> string \<times> esp_node" where
  "h_gpio_r E args s =
     (let (level, s1) = by_hw (gpio_read (ne_hw E) (to_int args)) s in (''+GPIO_R:'' @ dec_int level, s1))"

definition h_adc :: "node_env \<Rightarrow> string \<Rightarrow> esp_node \<Rightarrow> string \<times> esp_node" where
  "h_adc E args s = (let (mv, s1) = by_hw (adc_read (ne_hw E) (to_int args)) s in (''+ADC:'' @ dec_int mv, s1))"

definition h_i2c_scan :: "node_env \<Rightarrow> esp_node \<Rightarrow> string \<times> esp_node" where
  "h_i2c_scan E s =
     (let (found, s1) = by_hw (i2c_scan (ne_hw E) i2c_addresses) s;
          resp = concat (map (\<lambda>a. ''+I2C_SCAN:0x'' @ hex_low (ucast a) @ '' '') found)
      in (if length resp = 0 then ''+I2C_SCAN:none'' else resp, s1))"

definition h_i2c_r :: "node_env \<Rightarrow> string \<Rightarrow> esp_node \<Rightarrow> string \<times> esp_node" where
  "h_i2c_r E args s =
     (case split3 args of
        Some (a, g, l) \<Rightarrow>
          let (bs, s1) = by_hw (at_i2c_read (ne_hw E) a g l) s
          in (trim (''+I2C_R:'' @ concat (map (\<lambda>b. (if unat b < 16 then ''0'' else []) @ hex_low (ucast b) @ '' '') bs)), s1)
      | None \<Rightarrow> (''ERROR'', s))"

definition h_i2c_w :: "node_env \<Rightarrow> string \<Rightarrow> esp_node \<Rightarrow> string \<times> esp_node" where
  "h_i2c_w E args s =
     (case split3 args of
        Some (a, g, d) \<Rightarrow>
          let (e, s1) = by_hw (i2c_write_reg (ne_hw E) (i2c_to_int a) (i2c_to_int g) (no_blanks d)) s
          in (at_reply (e = 0), s1)
      | None \<Rightarrow> (''ERROR'', s))"

definition h_ir :: "node_env \<Rightarrow> string \<Rightarrow> esp_node \<Rightarrow> (string \<times> esp_node) option" where
  "h_ir E args s =
     map_option (\<lambda>(ok, h). (at_reply ok, in_hw (\<lambda>_. h) s)) (esp_at_ir (ne_hw E) args (nd_hw s))"

definition h_mqtt :: "node_env \<Rightarrow> string \<Rightarrow> esp_node \<Rightarrow> string \<times> esp_node" where
  "h_mqtt E args s =
     (if args = [] then (''ERROR'', s)
      else let (sub, v) = sub_val args; c = nd_conf s; W = ne_nvs E
           in if sub = ''broker'' then (''OK'', in_conf (\<lambda>c. save_config W ''mqtt_broker'' v (c\<lparr>g_mqtt_broker := v\<rparr>)) s)
              else if sub = ''port'' then (''OK'', in_conf (\<lambda>c. save_config W ''mqtt_port'' v (c\<lparr>g_mqtt_port := to_int v\<rparr>)) s)
              else if sub = ''connect'' then (''OK'', mqtt_request s)
              else if sub = ''clear'' then (''OK'', in_conf mqtt_clear_config s)
              else if sub = ''status'' then
                (''+MQTT:'' @ (if g_mqtt_connected c then ''connected'' else ''disconnected'')
                  @ '',auto='' @ bit_text (g_mqtt_auto c), s)
              else if sub = ''auto'' then
                (''OK'', in_conf (\<lambda>c. save_config W ''mqtt_auto'' (bit_text (v = ''1'')) (c\<lparr>g_mqtt_auto := (v = ''1'')\<rparr>)) s)
              else if sub = ''ca'' then
                (if v = ''status'' then (if g_mqtt_ca_fp c \<noteq> [] then ''+MQTT_CA:'' @ g_mqtt_ca_fp c else ''+MQTT_CA:none'', s)
                 else (''OK'', in_conf (\<lambda>c. save_config W ''mqtt_ca_fp'' v (c\<lparr>g_mqtt_ca_fp := v\<rparr>)) s))
              else (''ERROR'', s))"

definition h_wifi :: "node_env \<Rightarrow> string \<Rightarrow> esp_node \<Rightarrow> string \<times> esp_node" where
  "h_wifi E args s =
     (case split2 args of
        Some (sub, v) \<Rightarrow>
          if sub = ''ssid'' then (''OK'', in_conf (\<lambda>c. save_config (ne_nvs E) ''wifi_ssid'' v (c\<lparr>g_wifi_ssid := v\<rparr>)) s)
          else if sub = ''pass'' then (''OK'', in_conf (\<lambda>c. save_config (ne_nvs E) ''wifi_pass'' v (c\<lparr>g_wifi_pass := v\<rparr>)) s)
          else if sub = ''status'' then (''+WIFI:'' @ g_wifi_ssid (nd_conf s), s)
          else (''ERROR'', s)
      | None \<Rightarrow> (''ERROR'', s))"

definition h_http :: "string \<Rightarrow> esp_node \<Rightarrow> string \<times> esp_node" where
  "h_http line s =
     (let args = (if length line > 8 then substr_from line 8 else ''status'')
      in if args = ''status'' then (http_status_line (nd_conf s), s)
         else if args = ''clear'' then (''OK'', in_conf http_clear s)
         else if starts_with ''enable,'' args
         then (''OK'', in_conf (set_http_enabled (to_int (substr_from args 7) \<noteq> 0)) s)
         else if args = ''1'' \<or> args = ''0'' then (''OK'', in_conf (set_http_enabled (args = ''1'')) s)
         else (''ERROR'', s))"

definition h_pair :: "node_env \<Rightarrow> string \<Rightarrow> esp_node \<Rightarrow> string \<times> esp_node" where
  "h_pair E line s =
     (let args = (if length line > 8 then substr_from line 8 else ''status'')
      in if args = ''status'' then (''+PAIR:'' @ (if g_pairing_mode (nd_conf s) then ''enabled'' else ''disabled''), s)
         else if args = ''1'' \<or> args = ''0''
         then (''OK'', in_conf (set_ble_adv_enabled (ne_now E) (args = ''1'')) s)
         else (''ERROR'', s))"

definition h_nvs :: "node_env \<Rightarrow> string \<Rightarrow> esp_node \<Rightarrow> string \<times> esp_node" where
  "h_nvs E sub s = (if sub = ''clear'' then (''OK'', in_conf (nvs_wipe E) s) else (''ERROR'', s))"

definition h_ap :: "string \<Rightarrow> esp_node \<Rightarrow> string \<times> esp_node" where
  "h_ap args s =
     (let v = to_int args
      in if v = 1 then (''OK'', ap_portal_start s) else if v = 0 then (''OK'', ap_portal_stop s) else (''ERROR'', s))"

definition http_at_table :: "node_env \<Rightarrow> (cmd_match \<times> http_cmd) list" where
  "http_at_table E =
    [h_word ''AT'' (\<lambda>s. (''OK'', s)),
     h_word ''AT+ABILITY'' (\<lambda>s. (''+ABILITY:'' @ build_ability_json (ne_board E), s)),
     h_args ''AT+TAP='' (\<lambda>a. by_kbd (esp_at_tap a)),
     h_args ''AT+KEY='' (\<lambda>a. by_kbd (esp_at_key a)),
     h_args ''AT+TEXT='' (\<lambda>a. by_kbd (esp_at_text a)),
     h_args ''AT+CONF='' (h_conf E),
     h_args ''AT+GPIO_W='' h_gpio_w,
     h_args ''AT+GPIO_R='' (h_gpio_r E),
     h_args ''AT+ADC='' (h_adc E),
     h_word ''AT+I2C_SCAN'' (h_i2c_scan E),
     h_args ''AT+I2C_R='' (h_i2c_r E),
     h_args ''AT+I2C_W='' (h_i2c_w E),
     (Prefix ''AT+IR='', \<lambda>line s. h_ir E (substr_from line 6) s),
     h_args ''AT+MQTT='' (h_mqtt E),
     h_args ''AT+WIFI='' (h_wifi E),
     (Prefix ''AT+HTTP='', \<lambda>line s. Some (h_http line s)),
     (Exactly ''AT+HTTP'', \<lambda>line s. Some (h_http line s)),
     (Prefix ''AT+PAIR='', \<lambda>line s. Some (h_pair E line s)),
     (Exactly ''AT+PAIR'', \<lambda>line s. Some (h_pair E line s)),
     h_args ''AT+NVS='' (h_nvs E),
     h_args ''AT+AP='' h_ap]"

definition http_at_exec :: "node_env \<Rightarrow> string \<Rightarrow> esp_node \<Rightarrow> (string \<times> esp_node) option" where
  "http_at_exec E cmd s =
     (case find (\<lambda>c. matches (fst c) cmd) (http_at_table E) of
        Some (m, f) \<Rightarrow> f cmd s
      | None \<Rightarrow> Some (''ERROR: unknown command'', s))"

definition handle_at :: "node_env \<Rightarrow> http_req \<Rightarrow> esp_node \<Rightarrow> (http_resp \<times> esp_node) option" where
  "handle_at E r s =
     (let cmd = trim (http_arg r ''plain'')
      in if length cmd = 0 then Some ((400, err_json ''empty command''), s)
         else map_option (\<lambda>(resp, s1). ((200, ''{\"ok\":''
                @ json_bool (index_of resp ''OK'' 0 = Some 0 \<or> index_of resp ''+'' 0 = Some 0)
                @ '',\"response\":\"'' @ resp @ ''\"}''), s1))
              (http_at_exec E cmd s))"

end
