(* ===== verification/Esp_Routes.thy ===== *)
theory Esp_Routes
  imports Esp_Http
begin

text \<open>
  The JSON interface of the ESP32 sketch over HTTP: the handlers of status, pairing, tunnel, settings,
  MQTT, network and maintenance, the web page, the redirects of the old pages, the description document
  of discovery, and the routes to them all.  The compressed web page itself is data that the build
  generates: a field of the environment.
\<close>

section \<open>Status and pairing\<close>

definition handle_help_json :: "esp_node \<Rightarrow> http_resp \<times> esp_node" where
  "handle_help_json s = ((200, ''{\"ok\":true,\"services\":'' @ build_services_json @ ''}''), s)"

definition handle_ble_status :: "node_env \<Rightarrow> esp_node \<Rightarrow> http_resp \<times> esp_node" where
  "handle_ble_status E s = ((200, build_ble_status_json E s), s)"

definition handle_ability :: "node_env \<Rightarrow> esp_node \<Rightarrow> http_resp \<times> esp_node" where
  "handle_ability E s = ((200, ''{\"ok\":true,\"ability\":'' @ build_ability_json (ne_board E) @ ''}''), s)"

definition handle_cmd_status :: "node_env \<Rightarrow> esp_node \<Rightarrow> http_resp \<times> esp_node" where
  "handle_cmd_status E s = ((200, status_json E s), s)"

definition handle_ble_bonds_delete :: "node_env \<Rightarrow> http_req \<Rightarrow> esp_node \<Rightarrow> http_resp \<times> esp_node" where
  "handle_ble_bonds_delete E r s =
     (let idxStr = http_arg r ''idx''; idx = to_int idxStr; bonds = ne_bonds E (ec_out (nd_conf s))
      in if idxStr = [] then ((400, err_json ''missing idx''), s)
         else if idx < 0 \<or> idx \<ge> int (length bonds) then ((400, err_json ''invalid idx''), s)
         else let addr = bonds ! nat idx; s1 = in_conf (emit_act [Bond_delete addr]) s
              in if \<not> ne_unbond E (ec_out (nd_conf s1)) then ((500, err_json ''unpair failed''), s1)
                 else ((200, ''{\"ok\":true,\"cmd\":\"ble/bonds/delete\",\"addr\":\"'' @ addr @ ''\"}''), s1))"

definition handle_ble_bonds_clear :: "node_env \<Rightarrow> esp_node \<Rightarrow> http_resp \<times> esp_node" where
  "handle_ble_bonds_clear E s =
     (let s1 = in_conf (emit_act [Bonds_delete]) s
      in ((200, ''{\"ok\":'' @ json_bool (ne_unbond E (ec_out (nd_conf s1))) @ '',\"cmd\":\"ble/bonds/clear\"}''), s1))"

section \<open>Tunnel\<close>

definition tunnel_id_arg :: "http_req \<Rightarrow> nat option" where
  "tunnel_id_arg r =
     (let i = to_int (http_arg r ''id'')
      in if i < 1 \<or> i > int RATHOLE_MAX_TUNNELS then None else Some (nat (i - 1)))"

definition tunnel_cmd ::
  "(nat \<Rightarrow> esp_node \<Rightarrow> http_resp \<times> esp_node) \<Rightarrow> http_req \<Rightarrow> esp_node \<Rightarrow> http_resp \<times> esp_node" where
  "tunnel_cmd f r s = (case tunnel_id_arg r of None \<Rightarrow> ((400, err_json ''invalid id''), s) | Some idx \<Rightarrow> f idx s)"

definition tunnel_json :: "node_env \<Rightarrow> nat \<Rightarrow> esp_node \<Rightarrow> string" where
  "tunnel_json E idx s = rathole_status_json (ne_heap E) idx (nd_conf s)"

definition handle_tunnel_status :: "node_env \<Rightarrow> esp_node \<Rightarrow> http_resp \<times> esp_node" where
  "handle_tunnel_status E s =
     ((200, ''{\"ok\":true,\"tunnels\":['' @ commas (map (\<lambda>i. tunnel_json E i s) [0..<RATHOLE_MAX_TUNNELS]) @ '']}''), s)"

text \<open>
  The fields of a request, in the order of the code: those with a value, then \<open>auto\<close> and \<open>enable\<close> where
  they are present.
\<close>

definition tunnel_set :: "node_env \<Rightarrow> nat \<Rightarrow> string \<Rightarrow> string \<Rightarrow> esp_node \<Rightarrow> esp_node" where
  "tunnel_set E idx f v s = in_conf (\<lambda>c. snd (rathole_set (ne_nvs E) idx f v c)) s"

definition handle_tunnel_config :: "node_env \<Rightarrow> http_req \<Rightarrow> esp_node \<Rightarrow> http_resp \<times> esp_node" where
  "handle_tunnel_config E r = tunnel_cmd (\<lambda>idx s.
     let s1 = fold (\<lambda>k u. let v = http_arg r k in if v \<noteq> [] then tunnel_set E idx k v u else u)
                [''server'', ''token'', ''service'', ''local'', ''retry''] s;
         s2 = (if http_has r ''auto'' then tunnel_set E idx ''auto'' (http_arg r ''auto'') s1 else s1);
         s3 = (if http_has r ''enable'' then tunnel_set E idx ''enable'' (http_arg r ''enable'') s2 else s2)
     in ((200, ''{\"ok\":true,\"cmd\":\"tunnel/config\",\"tunnel\":'' @ tunnel_json E idx s3 @ ''}''), s3)) r"

definition handle_tunnel_enable :: "node_env \<Rightarrow> http_req \<Rightarrow> esp_node \<Rightarrow> http_resp \<times> esp_node" where
  "handle_tunnel_enable E r s =
     (let v0 = http_arg r ''enable''; v = trim (if v0 = [] then http_arg r ''plain'' else v0);
          s1 = (if v = ''1'' \<or> v = ''true'' then in_conf (rathole_set_enabled (ne_nvs E) (ne_task E) True) s
                else if v = ''0'' \<or> v = ''false'' then in_conf (rathole_set_enabled (ne_nvs E) (ne_task E) False) s
                else s)
      in ((200, ''{\"ok\":true,\"cmd\":\"tunnel/enable\",\"enabled\":'' @ json_bool (rh_enabled (nd_conf s1)) @ ''}''), s1))"

definition handle_tunnel_connect :: "node_env \<Rightarrow> http_req \<Rightarrow> esp_node \<Rightarrow> http_resp \<times> esp_node" where
  "handle_tunnel_connect E r = tunnel_cmd (\<lambda>idx s.
     let (ok, s1) = by_conf (rathole_start (ne_task E) idx) s
     in ((if ok then 200 else 400, ''{\"ok\":'' @ json_bool ok @ '',\"cmd\":\"tunnel/connect\",\"tunnel\":''
            @ tunnel_json E idx s1 @ ''}''), s1)) r"

definition handle_tunnel_disconnect :: "http_req \<Rightarrow> esp_node \<Rightarrow> http_resp \<times> esp_node" where
  "handle_tunnel_disconnect r = tunnel_cmd (\<lambda>idx s.
     ((200, ''{\"ok\":true,\"cmd\":\"tunnel/disconnect\"}''), in_conf (rathole_stop idx) s)) r"

definition handle_tunnel_clear :: "http_req \<Rightarrow> esp_node \<Rightarrow> http_resp \<times> esp_node" where
  "handle_tunnel_clear r = tunnel_cmd (\<lambda>idx s.
     ((200, ''{\"ok\":true,\"cmd\":\"tunnel/clear\"}''), in_conf (rathole_clear idx) s)) r"

section \<open>Settings\<close>

definition handle_config_get :: "http_req \<Rightarrow> esp_node \<Rightarrow> http_resp \<times> esp_node" where
  "handle_config_get r s =
     (let key = http_arg r ''key''
      in if \<not> config_known key then ((400, err_json ''unknown key''), s)
         else ((200, ''{\"ok\":true,\"key\":\"'' @ key @ ''\",\"value\":\"'' @ config_get key (nd_conf s) @ ''\"}''), s))"

definition handle_config_set :: "node_env \<Rightarrow> http_req \<Rightarrow> esp_node \<Rightarrow> http_resp \<times> esp_node" where
  "handle_config_set E r s =
     (if \<not> http_has r ''key'' then ((400, err_json ''missing key''), s)
      else let key = http_arg r ''key'';
               v = (if http_has r ''val'' then http_arg r ''val'' else http_arg r ''value'');
               (ok, s1) = esp_config_set E key v s
           in (if ok then (200, ''{\"ok\":true,\"cmd\":\"config\",\"key\":\"'' @ key @ ''\"}'')
               else (400, err_json ''unknown key or invalid value''), s1))"

definition handle_config_list :: "esp_node \<Rightarrow> http_resp \<times> esp_node" where
  "handle_config_list s = ((200, ''{\"ok\":true,\"keys\":'' @ config_list_json (nd_conf s) @ ''}''), s)"

text \<open>The legacy endpoints: each argument that is present goes to its key.\<close>

definition legacy_sets :: "node_env \<Rightarrow> http_req \<Rightarrow> (string \<times> string) list \<Rightarrow> esp_node \<Rightarrow> esp_node" where
  "legacy_sets E r aks s =
     fold (\<lambda>(a, k) u. if http_has r a then snd (esp_config_set E k (http_arg r a) u) else u) aks s"

definition handle_wifi_config :: "node_env \<Rightarrow> http_req \<Rightarrow> esp_node \<Rightarrow> http_resp \<times> esp_node" where
  "handle_wifi_config E r s =
     (let s1 = legacy_sets E r [(''ssid'', ''wifi.ssid''), (''pass'', ''wifi.pass'')] s
      in ((200, ''{\"ok\":true,\"cmd\":\"wifi/config\",\"ssid\":\"'' @ g_wifi_ssid (nd_conf s1) @ ''\"}''), s1))"

section \<open>MQTT\<close>

definition handle_mqtt_clear :: "esp_node \<Rightarrow> http_resp \<times> esp_node" where
  "handle_mqtt_clear s = ((200, ''{\"ok\":true,\"cmd\":\"mqtt/clear\"}''), in_conf mqtt_clear_config s)"

definition handle_mqtt_status :: "esp_node \<Rightarrow> http_resp \<times> esp_node" where
  "handle_mqtt_status s =
     (let c = nd_conf s
      in ((200, ''{\"connected\":'' @ json_bool (g_mqtt_connected c) @ '',\"broker\":\"'' @ g_mqtt_broker c
            @ ''\",\"port\":'' @ dec_int (g_mqtt_port c) @ '',\"client_id\":\"'' @ nd_client_id s
            @ ''\",\"ca_fp\":\"'' @ g_mqtt_ca_fp c @ ''\",\"auto\":'' @ json_bool (g_mqtt_auto c) @ ''}''), s))"

definition handle_mqtt_config :: "node_env \<Rightarrow> http_req \<Rightarrow> esp_node \<Rightarrow> http_resp \<times> esp_node" where
  "handle_mqtt_config E r s =
     ((200, ''{\"ok\":true,\"cmd\":\"mqtt/config\"}''),
      legacy_sets E r [(''broker'', ''mqtt.broker''), (''port'', ''mqtt.port''), (''user'', ''mqtt.user''),
        (''pass'', ''mqtt.pass''), (''auto'', ''mqtt.auto'')] s)"

definition handle_mqtt_ca :: "node_env \<Rightarrow> http_req \<Rightarrow> esp_node \<Rightarrow> http_resp \<times> esp_node" where
  "handle_mqtt_ca E r s =
     (let fp = http_arg r ''fp''
      in ((200, ''{\"ok\":true,\"cmd\":\"mqtt/ca\"}''),
          if fp \<noteq> [] then snd (esp_config_set E ''mqtt.ca'' fp s) else s))"

definition handle_mqtt_connect :: "esp_node \<Rightarrow> http_resp \<times> esp_node" where
  "handle_mqtt_connect s = ((200, ''{\"ok\":true,\"cmd\":\"mqtt/connect\",\"queued\":true}''), mqtt_request s)"

definition handle_mqtt_publish :: "node_env \<Rightarrow> http_req \<Rightarrow> esp_node \<Rightarrow> http_resp \<times> esp_node" where
  "handle_mqtt_publish E r s =
     (if \<not> g_mqtt_connected (nd_conf s) then ((409, err_json ''mqtt not connected''), s)
      else let topic = http_arg r ''topic''; msg = http_arg r ''msg''
           in if topic = [] then ((400, err_json ''missing topic''), s)
              else ((200, ''{\"ok\":'' @ json_bool (ne_mqtt_pub E) @ '',\"cmd\":\"mqtt/publish\"}''),
                    in_conf (emit_act [Mqtt_publish topic msg False]) s))"

definition handle_mqtt_subscribe :: "node_env \<Rightarrow> http_req \<Rightarrow> esp_node \<Rightarrow> http_resp \<times> esp_node" where
  "handle_mqtt_subscribe E r s =
     (if \<not> g_mqtt_connected (nd_conf s) then ((409, err_json ''mqtt not connected''), s)
      else let topic = http_arg r ''topic''
           in if topic = [] then ((400, err_json ''missing topic''), s)
              else ((200, ''{\"ok\":'' @ json_bool (ne_mqtt_pub E) @ '',\"cmd\":\"mqtt/subscribe\"}''),
                    in_conf (emit_act [Mqtt_subscribe topic]) s))"

section \<open>Network and maintenance\<close>

definition handle_ap :: "http_req \<Rightarrow> esp_node \<Rightarrow> http_resp \<times> esp_node" where
  "handle_ap r s =
     (let v0 = http_arg r ''plain''; v = trim (if v0 = [] then http_arg r ''v'' else v0)
      in if v = ''1'' then ((200, ''{\"ok\":true,\"cmd\":\"ap\",\"active\":true}''), ap_portal_start s)
         else if v = ''0'' then ((200, ''{\"ok\":true,\"cmd\":\"ap\",\"active\":false}''), ap_portal_stop s)
         else ((400, err_json ''expected 1=start,0=stop''), s))"

definition handle_http_config :: "node_env \<Rightarrow> http_req \<Rightarrow> esp_node \<Rightarrow> http_resp \<times> esp_node" where
  "handle_http_config E r s =
     (let v0 = http_arg r ''enable''; v = trim (if v0 = [] then http_arg r ''plain'' else v0)
      in if v = ''1'' \<or> v = ''true'' \<or> v = ''0'' \<or> v = ''false''
         then let s1 = snd (esp_config_set E ''http.enable'' v s)
              in ((200, ''{\"ok\":true,\"cmd\":\"http/config\",\"enabled\":'' @ json_bool (g_http_enabled (nd_conf s1)) @ ''}''), s1)
         else ((400, err_json ''expected enable=1|0''), s))"

definition handle_http_status :: "esp_node \<Rightarrow> http_resp \<times> esp_node" where
  "handle_http_status s =
     ((200, ''{\"ok\":true,\"cmd\":\"http/status\",\"enabled\":'' @ json_bool (g_http_enabled (nd_conf s)) @ ''}''), s)"

definition handle_http_clear :: "esp_node \<Rightarrow> http_resp \<times> esp_node" where
  "handle_http_clear s = ((200, ''{\"ok\":true,\"cmd\":\"http/clear\"}''), in_conf http_clear s)"

definition handle_nvs_clear :: "node_env \<Rightarrow> esp_node \<Rightarrow> http_resp \<times> esp_node" where
  "handle_nvs_clear E s = ((200, ''{\"ok\":true,\"cmd\":\"nvs/clear\",\"restarting\":true}''), in_conf (nvs_wipe E) s)"

text \<open>
  Ping: the count is held to 1 to 10; the result is the number of replies and the average time, where
  there were any.
\<close>

definition ping_host :: "node_env \<Rightarrow> string \<Rightarrow> int \<Rightarrow> nat \<times> string option" where
  "ping_host E ip cnt =
     (let n = (if cnt < 1 then 1 else if cnt > 10 then 10 else nat cnt);
          (recv, avg) = ne_ping E ip n
      in (recv, if recv = 0 then None else avg))"

definition handle_net_ping :: "node_env \<Rightarrow> http_req \<Rightarrow> esp_node \<Rightarrow> http_resp \<times> esp_node" where
  "handle_net_ping E r s =
     (let host = http_arg r ''host''; cnt = to_int (http_arg r ''count''); n = (if cnt > 0 then cnt else 4)
      in if host = [] then ((400, err_json ''missing host''), s)
         else case ne_dns E host of
           None \<Rightarrow> ((500, err_json ''dns failed''), s)
         | Some ip \<Rightarrow>
             let (recv, avg) = ping_host E ip n
             in ((if avg \<noteq> None then 200 else 500,
                  ''{\"ok\":'' @ json_bool (avg \<noteq> None) @ '',\"cmd\":\"net/ping\",\"ip\":\"'' @ ip
                  @ ''\",\"sent\":'' @ dec_int n @ '',\"recv\":'' @ dec_nat recv
                  @ (case avg of Some t \<Rightarrow> '',\"avg_ms\":'' @ t | None \<Rightarrow> []) @ ''}''), s))"

definition handle_esp_not_found :: "esp_node \<Rightarrow> http_resp \<times> esp_node" where
  "handle_esp_not_found s = ((404, err_json ''not found''), s)"

section \<open>Pages\<close>

definition handle_web_app :: "node_env \<Rightarrow> esp_node \<Rightarrow> http_resp \<times> esp_node" where
  "handle_web_app E s = ((200, ne_page E), s)"

text \<open>The pages of before the web page: a redirect to \<open>/\<close>.\<close>

definition handle_legacy_page :: "esp_node \<Rightarrow> http_resp \<times> esp_node" where
  "handle_legacy_page s = ((302, []), s)"

definition legacy_pages :: "string list" where
  "legacy_pages = [''/at-node/status'', ''/at-node/help'', ''/at-node/pair'', ''/at-node/tunnel'', ''/at-node/mqtt'']"

definition node_description :: "node_env \<Rightarrow> esp_node \<Rightarrow> http_resp \<times> esp_node" where
  "node_description E s = (handle_description (g_device_name (nd_conf s)) (ne_ip E) (nd_ssdp s), s)"

section \<open>Routes\<close>

type_synonym http_handler = "node_env \<Rightarrow> http_req \<Rightarrow> esp_node \<Rightarrow> (http_resp \<times> esp_node) option"

definition plain :: "(node_env \<Rightarrow> http_req \<Rightarrow> esp_node \<Rightarrow> http_resp \<times> esp_node) \<Rightarrow> http_handler" where
  "plain f E r s = Some (f E r s)"

datatype http_method = GET | POST

text \<open>The routes under \<open>/at-node/cmd/\<close>, in the order of registration.\<close>

definition http_routes :: "(string \<times> http_method \<times> http_handler) list" where
  "http_routes =
    [(''status'', GET, plain (\<lambda>E r. handle_cmd_status E)),
     (''ability'', GET, plain (\<lambda>E r. handle_ability E)),
     (''keyboard/tap'', POST, plain (\<lambda>E r. by_kbd (handle_keyboard_tap (is_connected E) r))),
     (''keyboard/text'', POST, plain (\<lambda>E r. by_kbd (handle_keyboard_text (is_connected E) r))),
     (''keyboard/key'', POST, plain (\<lambda>E r. by_kbd (handle_keyboard_key (is_connected E) r))),
     (''ble/status'', GET, plain (\<lambda>E r. handle_ble_status E)),
     (''ble/pair'', POST, plain (\<lambda>E r. by_conf (handle_ble_pair (ne_adv E) (ne_now E) r))),
     (''ble/bonds/delete'', POST, plain handle_ble_bonds_delete),
     (''ble/bonds/clear'', POST, plain (\<lambda>E r. handle_ble_bonds_clear E)),
     (''gpio/write'', POST, plain (\<lambda>E r. by_hw (handle_gpio_write r))),
     (''gpio/read'', POST, plain (\<lambda>E r. by_hw (handle_gpio_read (ne_hw E) r))),
     (''adc/read'', POST, plain (\<lambda>E r. by_hw (handle_adc_read (ne_hw E) r))),
     (''i2c/scan'', POST, plain (\<lambda>E r. by_hw (handle_i2c_scan (ne_hw E)))),
     (''i2c/read'', POST, plain (\<lambda>E r. by_hw (handle_i2c_read (ne_hw E) r))),
     (''i2c/write'', POST, plain (\<lambda>E r. by_hw (handle_i2c_write (ne_hw E) r))),
     (''ir/send'', POST, \<lambda>E r s. map_option (\<lambda>(x, h). (x, in_hw (\<lambda>_. h) s)) (handle_ir_send (ne_hw E) r (nd_hw s))),
     (''mqtt/status'', GET, plain (\<lambda>E r. handle_mqtt_status)),
     (''mqtt/config'', POST, plain handle_mqtt_config),
     (''mqtt/ca'', POST, plain handle_mqtt_ca),
     (''mqtt/connect'', POST, plain (\<lambda>E r. handle_mqtt_connect)),
     (''mqtt/publish'', POST, plain handle_mqtt_publish),
     (''mqtt/subscribe'', POST, plain handle_mqtt_subscribe),
     (''mqtt/clear'', POST, plain (\<lambda>E r. handle_mqtt_clear)),
     (''config'', GET, plain (\<lambda>E. handle_config_get)),
     (''config'', POST, plain handle_config_set),
     (''config/list'', GET, plain (\<lambda>E r. handle_config_list)),
     (''tunnel/status'', GET, plain (\<lambda>E r. handle_tunnel_status E)),
     (''tunnel/config'', POST, plain handle_tunnel_config),
     (''tunnel/enable'', POST, plain handle_tunnel_enable),
     (''tunnel/connect'', POST, plain handle_tunnel_connect),
     (''tunnel/disconnect'', POST, plain (\<lambda>E. handle_tunnel_disconnect)),
     (''tunnel/clear'', POST, plain (\<lambda>E. handle_tunnel_clear)),
     (''wifi/config'', POST, plain handle_wifi_config),
     (''ap'', POST, plain (\<lambda>E. handle_ap)),
     (''net/wol'', POST, plain (\<lambda>E r. by_hw (handle_net_wol (ne_hw E) r))),
     (''net/ping'', POST, plain handle_net_ping),
     (''http/config'', POST, plain handle_http_config),
     (''http/status'', GET, plain (\<lambda>E r. handle_http_status)),
     (''http/clear'', POST, plain (\<lambda>E r. handle_http_clear)),
     (''nvs/clear'', POST, plain (\<lambda>E r. handle_nvs_clear E))]"

text \<open>
  A request to the server: the page, the old pages, the paths above under \<open>/at-node/cmd/\<close>, the two beside
  them, and the description document once discovery has registered it.
\<close>

definition http_serve :: "http_method \<Rightarrow> string \<Rightarrow> http_handler" where
  "http_serve m uri E r s =
     (if m = GET \<and> uri = ''/'' then Some (handle_web_app E s)
      else if m = GET \<and> uri \<in> set legacy_pages then Some (handle_legacy_page s)
      else if m = GET \<and> uri = ''/at-node/help.json'' then Some (handle_help_json s)
      else if m = POST \<and> uri = ''/at-node/at'' then handle_at E r s
      else case find (\<lambda>(p, m', f). m' = m \<and> uri = ''/at-node/cmd/'' @ p) http_routes of
        Some (p, m', f) \<Rightarrow> f E r s
      | None \<Rightarrow>
          if m = GET \<and> uri = ''/description.xml'' \<and> ssdp_routed (nd_ssdp s) then Some (node_description E s)
          else Some (handle_esp_not_found s))"

text \<open>The headers the handlers set, but for the content type.\<close>

definition http_headers :: "http_method \<Rightarrow> string \<Rightarrow> esp_node \<Rightarrow> (string \<times> string) list" where
  "http_headers m uri s =
     (if m = GET \<and> uri = ''/''
      then [(''Access-Control-Allow-Origin'', ''*''), (''Content-Encoding'', ''gzip''), (''Cache-Control'', ''no-cache'')]
      else if m = GET \<and> uri \<in> set legacy_pages then [(''Location'', ''/'')]
      else if m = GET \<and> uri = ''/description.xml'' \<and> ssdp_routed (nd_ssdp s) then []
      else [(''Access-Control-Allow-Origin'', ''*'')])"

end
