(* ===== verification/Esp_Mqtt.thy ===== *)
theory Esp_Mqtt
  imports Esp_Routes
begin

text \<open>
  MQTT in the ESP32 sketch: the command channel (\<open>mqtt_callback\<close>, \<open>mqtt_exec\<close>), the connection with its
  fingerprint check (\<open>mqtt_connect\<close>, \<open>verify_fingerprint\<close>), and one round of the task that owns the
  client (\<open>mqtt_task_func\<close>).  The hash function and what the client library answers are arguments.
\<close>

section \<open>Commands\<close>

text \<open>The answer of a method: the inside of a JSON object.\<close>

definition mqtt_err :: "string \<Rightarrow> string" where
  "mqtt_err e = ''\"ok\":false,\"error\":\"'' @ e @ ''\"''"

definition mqtt_ok :: string where
  "mqtt_ok = ''\"ok\":true''"

type_synonym mqtt_method = "node_env \<Rightarrow> string \<Rightarrow> esp_node \<Rightarrow> string \<times> esp_node"

definition m_keyboard_tap :: mqtt_method where
  "m_keyboard_tap E q s =
     (if \<not> is_connected E then (mqtt_err ''BLE not connected'', s)
      else let mods = parse_uint8 (query_get q ''mods''); key = parse_uint8 (query_get q ''k'');
               ms = to_int (query_get q ''ms'')
           in (mqtt_ok, in_kbd (key_tap mods key (if ms > 0 then ms else 100)) s))"

definition m_keyboard_text :: mqtt_method where
  "m_keyboard_text E q s =
     (if \<not> is_connected E then (mqtt_err ''BLE not connected'', s)
      else if ty_busy (nd_kbd s) then (mqtt_err ''typing in progress'', s)
      else let t = query_get q ''s''
           in if t = [] then (mqtt_err ''missing s'', s)
              else (mqtt_ok @ '',\"queued\":true'',
                    in_kbd (type_start t (to_int (query_get q ''ms'')) (to_int (query_get q ''gap''))) s))"

definition m_keyboard_key :: mqtt_method where
  "m_keyboard_key E q s =
     (if \<not> is_connected E then (mqtt_err ''BLE not connected'', s)
      else (mqtt_ok, in_kbd (\<lambda>k. send_report (k\<lparr>ek_mods := parse_uint8 (query_get q ''mods''),
              ek_keys := map (\<lambda>i. parse_uint8 (query_get q (''k'' @ dec_nat i))) [0..<6]\<rparr>)) s))"

definition m_gpio_write :: mqtt_method where
  "m_gpio_write E q s =
     (mqtt_ok, in_hw (gpio_write (to_int (query_get q ''pin'')) (to_int (query_get q ''level''))) s)"

definition m_gpio_read :: mqtt_method where
  "m_gpio_read E q s =
     (let (level, s1) = by_hw (gpio_read (ne_hw E) (to_int (query_get q ''pin''))) s
      in (mqtt_ok @ '',\"level\":'' @ dec_int level, s1))"

definition m_adc_read :: mqtt_method where
  "m_adc_read E q s =
     (let (mv, s1) = by_hw (adc_read (ne_hw E) (to_int (query_get q ''ch''))) s
      in (mqtt_ok @ '',\"mv\":'' @ dec_int mv, s1))"

definition m_ble_pair :: mqtt_method where
  "m_ble_pair E q s =
     (let v0 = query_get q ''enable''; v = (if v0 = [] then query_get q ''start'' else v0)
      in if v = ''1'' \<or> v = ''true''
         then let s1 = in_conf (set_ble_adv_enabled (ne_now E) True) s
              in (mqtt_ok @ '',\"advertising\":'' @ json_bool (ne_adv E (ec_out (nd_conf s1))) @ '',\"pairing_mode\":true'', s1)
         else if v = ''0'' \<or> v = ''false''
         then (mqtt_ok @ '',\"advertising\":false,\"pairing_mode\":false'',
               in_conf (set_ble_adv_enabled (ne_now E) False) s)
         else (mqtt_err ''missing enable'', s))"

definition m_tunnel_status :: mqtt_method where
  "m_tunnel_status E q s =
     (mqtt_ok @ '',\"tunnels\":['' @ commas (map (\<lambda>i. tunnel_json E i s) [0..<RATHOLE_MAX_TUNNELS]) @ '']'', s)"

definition m_tunnel_enable :: mqtt_method where
  "m_tunnel_enable E q s =
     (let v = query_get q ''enable'';
          put = (\<lambda>b. let s1 = in_conf (rathole_set_enabled (ne_nvs E) (ne_task E) b) s
                 in (mqtt_ok @ '',\"enabled\":'' @ json_bool (rh_enabled (nd_conf s1)), s1))
      in if v = ''1'' \<or> v = ''true'' then put True
         else if v = ''0'' \<or> v = ''false'' then put False
         else (mqtt_err ''missing enable'', s))"

definition m_tunnel_config :: "nat \<Rightarrow> mqtt_method" where
  "m_tunnel_config idx E q s =
     (let s1 = fold (\<lambda>k u. let v = query_get q k in if v \<noteq> [] then tunnel_set E idx k v u else u)
            [''server'', ''token'', ''service'', ''local'', ''retry'', ''auto'', ''enable''] s
      in (mqtt_ok @ '',\"tunnel\":'' @ tunnel_json E idx s1, s1))"

definition m_tunnel :: "string \<Rightarrow> mqtt_method" where
  "m_tunnel m E q s =
     (let i = to_int (query_get q ''id'')
      in if i < 1 \<or> i > int RATHOLE_MAX_TUNNELS then (mqtt_err ''invalid id'', s)
         else let idx = nat (i - 1)
              in if m = ''tunnel/connect''
                 then (let (ok, s1) = by_conf (rathole_start (ne_task E) idx) s
                       in (if ok then mqtt_ok else mqtt_err ''start failed'', s1))
                 else if m = ''tunnel/disconnect'' then (mqtt_ok, in_conf (rathole_stop idx) s)
                 else if m = ''tunnel/clear'' then (mqtt_ok, in_conf (rathole_clear idx) s)
                 else if m = ''tunnel/config'' then m_tunnel_config idx E q s
                 else (mqtt_err ''unknown tunnel method'', s))"

definition m_config_set :: mqtt_method where
  "m_config_set E q s =
     (let key = query_get q ''key''; v = query_get q ''val''
      in if key = [] then (mqtt_err ''missing key'', s)
         else let (ok, s1) = esp_config_set E key v s
              in (if ok then mqtt_ok else mqtt_err ''unknown key or invalid value'', s1))"

definition m_config_get :: mqtt_method where
  "m_config_get E q s =
     (let key = query_get q ''key''
      in (if config_known key then mqtt_ok @ '',\"value\":\"'' @ config_get key (nd_conf s) @ ''\"''
          else mqtt_err ''unknown key'', s))"

definition m_net_wol :: mqtt_method where
  "m_net_wol E q s =
     (let mac = query_get q ''mac''
      in if mac = [] then (mqtt_err ''missing mac'', s)
         else let (ok, s1) = by_hw (wol_send (ne_hw E) mac) s
              in (if ok then mqtt_ok else mqtt_err ''wol send failed'', s1))"

definition m_net_ping :: mqtt_method where
  "m_net_ping E q s =
     (let host = query_get q ''host''; cnt = to_int (query_get q ''count'')
      in (if host = [] then mqtt_err ''missing host''
          else case ne_dns E host of
            None \<Rightarrow> mqtt_err ''dns failed''
          | Some ip \<Rightarrow>
              (case ping_host E ip (if cnt > 0 then cnt else 4) of
                 (recv, None) \<Rightarrow> ''\"ok\":false,\"error\":\"no reply\",\"ip\":\"'' @ ip @ ''\",\"recv\":'' @ dec_nat recv
               | (recv, Some avg) \<Rightarrow> ''\"ok\":true,\"ip\":\"'' @ ip @ ''\",\"recv\":'' @ dec_nat recv @ '',\"avg_ms\":'' @ avg), s))"

definition m_table :: "(cmd_match \<times> (string \<Rightarrow> mqtt_method)) list" where
  "m_table =
    [(Exactly ''keyboard/tap'', \<lambda>m. m_keyboard_tap),
     (Exactly ''keyboard/text'', \<lambda>m. m_keyboard_text),
     (Exactly ''keyboard/key'', \<lambda>m. m_keyboard_key),
     (Exactly ''gpio/write'', \<lambda>m. m_gpio_write),
     (Exactly ''gpio/read'', \<lambda>m. m_gpio_read),
     (Exactly ''adc/read'', \<lambda>m. m_adc_read),
     (Exactly ''ble/status'', \<lambda>m E q s. (mqtt_ok @ '',\"ble\":'' @ build_ble_status_json E s, s)),
     (Exactly ''ble/pair'', \<lambda>m. m_ble_pair),
     (Exactly ''sys/info'', \<lambda>m E q s. (mqtt_ok @ '',\"info\":'' @ build_sys_info_json E s, s)),
     (Exactly ''ability'', \<lambda>m E q s. (mqtt_ok @ '',\"ability\":'' @ build_ability_json (ne_board E), s)),
     (Exactly ''tunnel/status'', \<lambda>m. m_tunnel_status),
     (Exactly ''tunnel/enable'', \<lambda>m. m_tunnel_enable),
     (Prefix ''tunnel/'', m_tunnel),
     (Exactly ''config/set'', \<lambda>m. m_config_set),
     (Exactly ''config/get'', \<lambda>m. m_config_get),
     (Exactly ''config/list'', \<lambda>m E q s. (mqtt_ok @ '',\"keys\":'' @ config_list_json (nd_conf s), s)),
     (Exactly ''net/wol'', \<lambda>m. m_net_wol),
     (Exactly ''net/ping'', \<lambda>m. m_net_ping)]"

definition mqtt_exec :: "node_env \<Rightarrow> string \<Rightarrow> string \<Rightarrow> esp_node \<Rightarrow> string \<times> esp_node" where
  "mqtt_exec E m q s =
     (case find (\<lambda>c. matches (fst c) m) m_table of
        Some (p, f) \<Rightarrow> f m E q s
      | None \<Rightarrow> (mqtt_err ''unknown method'', s))"

text \<open>
  A message: on the command topic \<open><reqid> <method> <query>\<close>, answered on the response topic.  A message
  without a blank there is ignored; messages on other topics are only printed.
\<close>

definition mqtt_callback :: "node_env \<Rightarrow> string \<Rightarrow> string \<Rightarrow> esp_node \<Rightarrow> esp_node" where
  "mqtt_callback E topic body s =
     (if topic = nd_prefix s @ ''/cmd''
      then (case index_of body '' '' 0 of
              None \<Rightarrow> s
            | Some sp1 \<Rightarrow>
                let reqid = substr body 0 sp1;
                    (m, q) = (case index_of body '' '' (sp1 + 1) of
                                Some sp2 \<Rightarrow> if sp2 > 0 then (substr body (sp1 + 1) sp2, substr_from body (sp2 + 1))
                                            else (substr_from body (sp1 + 1), [])
                              | None \<Rightarrow> (substr_from body (sp1 + 1), []));
                    (inner, s1) = mqtt_exec E m q s
                in in_conf (emit_act [Mqtt_publish (nd_prefix s1 @ ''/resp'')
                      (''{\"id\":\"'' @ reqid @ ''\",'' @ inner @ ''}'') False]) s1)
      else s\<lparr>nd_tx := nd_tx s @ ''MQTT ['' @ cstr_at topic 0 @ ''] '' @ cstr_at body 0 @ [LF]\<rparr>)"

section \<open>Connection\<close>

text \<open>What the client library answers to one attempt.\<close>

record mqtt_env =
  me_connect :: bool
  me_cert :: "u8 list option"
  me_ssl_err :: string
  me_loop :: bool

definition hash_hex :: "u8 list \<Rightarrow> string" where
  "hash_hex h = concat (map (\<lambda>b. map to_lower (hex02 b)) h)"

definition verify_fingerprint :: "(u8 list \<Rightarrow> u8 list) \<Rightarrow> u8 list option \<Rightarrow> string \<Rightarrow> bool" where
  "verify_fingerprint sha cert fp_hex =
     (case cert of
        None \<Rightarrow> False
      | Some raw \<Rightarrow> map to_lower (filter (\<lambda>c. c \<noteq> CHR '':'') fp_hex) = hash_hex (sha raw))"

definition mqtt_connect ::
  "(u8 list \<Rightarrow> u8 list) \<Rightarrow> node_env \<Rightarrow> mqtt_env \<Rightarrow> esp_node \<Rightarrow> bool \<times> esp_node" where
  "mqtt_connect sha E M s =
     (let c = nd_conf s
      in if g_mqtt_broker c = [] then (False, s)
         else let s1 = s\<lparr>nd_client_id := ''atnode-'' @ g_hostname c, nd_prefix := ''atnode/'' @ g_hostname c\<rparr>;
                  will = nd_prefix s1 @ ''/state'';
                  user = g_mqtt_user c;
                  s2 = in_conf (emit_act [Mqtt_server (g_mqtt_broker c) (g_mqtt_port c),
                         Mqtt_open (nd_client_id s1) user (if user \<noteq> [] then g_mqtt_pass c else []) will]) s1;
                  bad = (me_connect M \<and> g_mqtt_port c = 8883 \<and> g_mqtt_ca_fp c \<noteq> []
                         \<and> \<not> verify_fingerprint sha (me_cert M) (g_mqtt_ca_fp c));
                  ok = (me_connect M \<and> \<not> bad);
                  s3 = (if bad then in_conf (emit_act [Mqtt_disconnect]) s2 else s2);
                  s4 = (if ok then in_conf (emit_act [Mqtt_subscribe (nd_prefix s1 @ ''/cmd''),
                               Mqtt_publish will ''online'' True,
                               Mqtt_publish (nd_prefix s1 @ ''/info'') (build_sys_info_json E s3) True]) s3
                        else s3);
                  s5 = in_conf (\<lambda>c. c\<lparr>g_mqtt_connected := ok\<rparr>) s4;
                  s6 = (if ok \<and> \<not> g_mqtt_auto c
                        then in_conf (\<lambda>c. save_config (ne_nvs E) ''mqtt_auto'' ''1'' (c\<lparr>g_mqtt_auto := True\<rparr>)) s5
                        else s5)
              in if ok then (True, s6\<lparr>nd_alloc_fails := 0\<rparr>)
                 else if g_mqtt_port c = 8883 \<and> find_sub ''Memory allocation'' (me_ssl_err M) \<noteq> None
                 then let n = nd_alloc_fails s6 + 1; s7 = s6\<lparr>nd_alloc_fails := n\<rparr>
                      in (False, if n \<ge> 5 then in_conf (schedule_restart (ne_now E) 1000) s7 else s7)
                 else (False, s6))"

text \<open>One round of the task, after its semaphore or a second.\<close>

definition mqtt_round ::
  "(u8 list \<Rightarrow> u8 list) \<Rightarrow> node_env \<Rightarrow> mqtt_env \<Rightarrow> esp_node \<Rightarrow> esp_node" where
  "mqtt_round sha E M s =
     (let c = nd_conf s
      in if \<not> g_mqtt_enabled c
         then (if g_mqtt_connected c
               then in_conf (\<lambda>c. emit_act [Mqtt_disconnect] (c\<lparr>g_mqtt_connected := False\<rparr>)) s else s)
         else let want = (g_mqtt_broker c \<noteq> [] \<and> g_wifi_ready c);
                  allowed = (g_mqtt_pending c \<or> g_mqtt_auto c);
                  interval = (if g_mqtt_pending c then 1000 else 10000 :: u32);
                  s1 = (if want \<and> \<not> g_mqtt_connected c \<and> allowed \<and> ne_now E - nd_last_attempt s > interval
                        then snd (mqtt_connect sha E M
                               (in_conf (\<lambda>c. c\<lparr>g_mqtt_pending := False\<rparr>) (s\<lparr>nd_last_attempt := ne_now E\<rparr>)))
                        else s)
              in if g_mqtt_connected (nd_conf s1)
                 then in_conf (\<lambda>c. emit_act [Mqtt_loop] (if me_loop M then c else c\<lparr>g_mqtt_connected := False\<rparr>)) s1
                 else s1)"

definition mqtt_poll :: "esp_node \<Rightarrow> esp_node" where
  "mqtt_poll s = (if g_mqtt_pending (nd_conf s) then in_conf (emit_act [Mqtt_wake]) s else s)"

end
