(* ===== verification/Esp_Http_Spec.thy ===== *)
theory Esp_Http_Spec
  imports Esp_Http
begin

text \<open>
  AT commands over the serial line and over HTTP: where the two dispatchers do the same, and where the
  code of the second, a copy of the first, has drifted from it.
\<close>

section \<open>Tables without ambiguity\<close>

text \<open>Two tests that some line passes both.\<close>

fun clash :: "cmd_match \<Rightarrow> cmd_match \<Rightarrow> bool" where
  "clash (Exactly v) (Exactly w) = (v = w)"
| "clash (Exactly w) (Prefix p) = starts_with p w"
| "clash (Prefix p) (Exactly w) = starts_with p w"
| "clash (Prefix p) (Prefix q) = (starts_with p q \<or> starts_with q p)"

lemma no_clash:
  assumes "\<not> clash m n" "matches n line"
  shows "\<not> matches m line"
proof -
  have pre: "starts_with p q \<or> starts_with q p" if "starts_with p line" "starts_with q line" for p q
    using that unfolding starts_with_iff by (metis append_eq_append_conv2)
  from assms pre show ?thesis by (cases m; cases n) auto
qed

lemma find_clash_free:
  assumes "sorted_wrt (\<lambda>a b. \<not> clash a b) (map fst cs)" "(m, f) \<in> set cs" "matches m line"
  shows "find (\<lambda>c. matches (fst c) line) cs = Some (m, f)"
  using assms
proof (induction cs)
  case (Cons c cs)
  show ?case
  proof (cases "c = (m, f)")
    case False
    with Cons.prems have mf: "(m, f) \<in> set cs" by auto
    with Cons.prems(1) have "\<not> clash (fst c) m" by force
    with Cons.prems mf Cons.IH show ?thesis by (simp add: no_clash)
  qed (use Cons.prems(3) in simp)
qed simp

lemma serial_clash_free: "sorted_wrt (\<lambda>a b. \<not> clash a b) (map fst (serial_table E))"
  by (simp add: serial_table_def on_word_def on_args_def starts_with_def)

lemma http_clash_free: "sorted_wrt (\<lambda>a b. \<not> clash a b) (map fst (http_at_table E))"
  by (simp add: http_at_table_def h_word_def h_args_def starts_with_def)

lemma serial_dispatch:
  "(m, f) \<in> set (serial_table E) \<Longrightarrow> matches m line \<Longrightarrow> serial_exec E line s = f line s"
  by (simp add: serial_exec_def find_clash_free [OF serial_clash_free])

lemma http_dispatch:
  "(m, f) \<in> set (http_at_table E) \<Longrightarrow> matches m line \<Longrightarrow> http_at_exec E line s = f line s"
  by (simp add: http_at_exec_def find_clash_free [OF http_clash_free])

section \<open>Where the channels agree\<close>

text \<open>The state without what was printed.\<close>

definition quiet :: "esp_node \<Rightarrow> esp_node" where
  "quiet s = s\<lparr>nd_tx := []\<rparr>"

definition same_effect :: "serial_cmd \<Rightarrow> http_cmd \<Rightarrow> bool" where
  "same_effect f g = (\<forall>line s. map_option quiet (f line s) = map_option (\<lambda>r. quiet (snd r)) (g line s))"

lemma quiet_println [simp]: "quiet (println ls s) = quiet s"
  by (simp add: quiet_def println_def)

lemma quiet_say [simp]: "quiet (say r) = quiet (snd r)"
  by (simp add: say_def)

lemma same_word: "(\<And>s. quiet (f s) = quiet (snd (g s)))
    \<Longrightarrow> same_effect (snd (on_word w f)) (snd (h_word v g))"
  by (simp add: same_effect_def on_word_def h_word_def)

lemma same_args: "(\<And>a s. quiet (f a s) = quiet (snd (g a s))) \<Longrightarrow> length p = length q
    \<Longrightarrow> same_effect (snd (on_args p f)) (snd (h_args q g))"
  by (simp add: same_effect_def on_args_def h_args_def)

lemma same_line: "(\<And>l s. quiet (f l s) = quiet (snd (g l s)))
    \<Longrightarrow> same_effect (\<lambda>l s. Some (f l s)) (\<lambda>l s. Some (g l s))"
  by (simp add: same_effect_def)

text \<open>The commands of both tables whose code does the same.\<close>

definition common :: "node_env \<Rightarrow> ((cmd_match \<times> serial_cmd) \<times> (cmd_match \<times> http_cmd)) list" where
  "common E =
    [(on_word ''AT'' (println [''OK'']), h_word ''AT'' (\<lambda>s. (''OK'', s))),
     (on_word ''AT+ABILITY'' (println [''+ABILITY:'' @ build_ability_json (ne_board E), ''OK'']),
        h_word ''AT+ABILITY'' (\<lambda>s. (''+ABILITY:'' @ build_ability_json (ne_board E), s))),
     (on_args ''AT+TAP='' (kbd_cmd esp_at_tap), h_args ''AT+TAP='' (\<lambda>a. by_kbd (esp_at_tap a))),
     (on_args ''AT+KEY='' (kbd_cmd esp_at_key), h_args ''AT+KEY='' (\<lambda>a. by_kbd (esp_at_key a))),
     (on_args ''AT+TEXT='' (kbd_cmd esp_at_text), h_args ''AT+TEXT='' (\<lambda>a. by_kbd (esp_at_text a))),
     (on_args ''AT+GPIO_W='' serial_gpio_w, h_args ''AT+GPIO_W='' h_gpio_w),
     (on_args ''AT+GPIO_R='' (serial_gpio_r E), h_args ''AT+GPIO_R='' (h_gpio_r E)),
     (on_args ''AT+ADC='' (serial_adc E), h_args ''AT+ADC='' (h_adc E)),
     (on_word ''AT+I2C_SCAN'' (serial_i2c_scan E), h_word ''AT+I2C_SCAN'' (h_i2c_scan E)),
     (on_args ''AT+I2C_R='' (serial_i2c_r E), h_args ''AT+I2C_R='' (h_i2c_r E)),
     (on_args ''AT+I2C_W='' (serial_i2c_w E), h_args ''AT+I2C_W='' (h_i2c_w E)),
     ((Prefix ''AT+IR='', \<lambda>line s. serial_ir E (substr_from line 6) s),
        (Prefix ''AT+IR='', \<lambda>line s. h_ir E (substr_from line 6) s)),
     (on_args ''AT+WIFI='' (serial_wifi E), h_args ''AT+WIFI='' (h_wifi E)),
     ((Prefix ''AT+PAIR='', \<lambda>line s. Some (serial_pair E line s)), (Prefix ''AT+PAIR='', \<lambda>line s. Some (h_pair E line s))),
     ((Exactly ''AT+PAIR'', \<lambda>line s. Some (serial_pair E line s)), (Exactly ''AT+PAIR'', \<lambda>line s. Some (h_pair E line s))),
     (on_args ''AT+NVS='' (serial_nvs E), h_args ''AT+NVS='' (h_nvs E)),
     (on_args ''AT+AP='' serial_ap, h_args ''AT+AP='' h_ap)]"

lemma common_tables:
  "\<forall>(a, b)\<in>set (common E). a \<in> set (serial_table E) \<and> b \<in> set (http_at_table E) \<and> fst b = fst a"
  unfolding common_def serial_table_def http_at_table_def
  by (simp add: on_word_def on_args_def h_word_def h_args_def)

lemma config_setters:
  "esp_config_set E ''wifi.ssid'' v s = (True, in_conf (\<lambda>c. save_config (ne_nvs E) ''wifi_ssid'' v (c\<lparr>g_wifi_ssid := v\<rparr>)) s)"
  "esp_config_set E ''wifi.pass'' v s = (True, in_conf (\<lambda>c. save_config (ne_nvs E) ''wifi_pass'' v (c\<lparr>g_wifi_pass := v\<rparr>)) s)"
proof -
  have e: "CFG_TABLE ! 2 \<in> set CFG_TABLE" "CFG_TABLE ! 3 \<in> set CFG_TABLE" by (simp_all add: lengths)
  show "esp_config_set E ''wifi.ssid'' v s = (True, in_conf (\<lambda>c. save_config (ne_nvs E) ''wifi_ssid'' v (c\<lparr>g_wifi_ssid := v\<rparr>)) s)"
    "esp_config_set E ''wifi.pass'' v s = (True, in_conf (\<lambda>c. save_config (ne_nvs E) ''wifi_pass'' v (c\<lparr>g_wifi_pass := v\<rparr>)) s)"
    using config_set_entry [OF e(1)] config_set_entry [OF e(2)]
    by (simp_all add: CFG_TABLE_def esp_config_set_def by_conf_def in_conf_def cfg_s_wssid_def cfg_s_wpass_def)
qed

lemma common_same: "\<forall>(a, b)\<in>set (common E). same_effect (snd a) (snd b)"
  unfolding common_def list.set ball_simps prod.case
proof (intro conjI TrueI)
  show "same_effect (snd (Prefix ''AT+IR='', \<lambda>line. serial_ir E (substr_from line 6)))
      (snd (Prefix ''AT+IR='', \<lambda>line. h_ir E (substr_from line 6)))"
    by (simp add: same_effect_def serial_ir_def h_ir_def option.map_comp comp_def case_prod_beta)
qed (rule same_word same_args | simp add: kbd_cmd_def serial_gpio_w_def h_gpio_w_def serial_gpio_r_def h_gpio_r_def
    serial_adc_def h_adc_def serial_i2c_scan_def h_i2c_scan_def serial_i2c_r_def h_i2c_r_def serial_i2c_w_def
    h_i2c_w_def serial_wifi_def h_wifi_def config_setters serial_pair_def h_pair_def serial_nvs_def h_nvs_def
    serial_ap_def h_ap_def same_effect_def case_prod_beta Let_def split: option.split)+

text \<open>
  C23: An AT command does the same over HTTP as on the serial line.  For each of the seventeen commands
  whose code both dispatchers share, with any argument, running the line either way leaves the board in
  the same state, but for what is printed, or has no defined behaviour either way.
\<close>
theorem at_channels_agree:
  assumes "(a, b) \<in> set (common E)" "matches (fst a) line"
  shows "map_option quiet (serial_exec E line s) = map_option (\<lambda>r. quiet (snd r)) (http_at_exec E line s)"
proof -
  obtain m f g where mfg: "a = (m, f)" "b = (m, g)"
    using assms(1) common_tables by (cases a; cases b) fastforce
  have "(m, f) \<in> set (serial_table E)" "(m, g) \<in> set (http_at_table E)" "same_effect f g"
    using assms(1) common_tables common_same mfg by fastforce+
  with assms(2) mfg show ?thesis
    by (simp add: serial_dispatch http_dispatch same_effect_def)
qed

section \<open>Where they differ\<close>

lemma serial_conf_in: "on_args ''AT+CONF='' (serial_conf E) \<in> set (serial_table E)"
    "on_args ''AT+MQTT='' (serial_mqtt E) \<in> set (serial_table E)"
  unfolding serial_table_def list.set insert_iff by simp_all

lemma http_conf_in: "h_args ''AT+CONF='' (h_conf E) \<in> set (http_at_table E)"
    "h_args ''AT+MQTT='' (h_mqtt E) \<in> set (http_at_table E)"
  unfolding http_at_table_def list.set insert_iff by simp_all

lemma exec_conf:
  "serial_exec E (''AT+CONF='' @ kv) s = Some (serial_conf E kv s)"
  "http_at_exec E (''AT+CONF='' @ kv) s = Some (h_conf E kv s)"
  "serial_exec E (''AT+MQTT='' @ kv) s = Some (serial_mqtt E kv s)"
  "http_at_exec E (''AT+MQTT='' @ kv) s = Some (h_mqtt E kv s)"
  using serial_dispatch [OF serial_conf_in(1) [unfolded on_args_def]] http_dispatch [OF http_conf_in(1) [unfolded h_args_def]]
    serial_dispatch [OF serial_conf_in(2) [unfolded on_args_def]] http_dispatch [OF http_conf_in(2) [unfolded h_args_def]]
  by (simp_all add: starts_with_def)

lemma config_http_port:
  "esp_config_set E ''http.enable'' v s = (True, in_conf (set_http_enabled (cfg_truthy v)) s)"
  "esp_config_set E ''mqtt.port'' v s = by_conf (cfg_s_mport (ne_nvs E) (ne_task E) v) s"
proof -
  have e: "CFG_TABLE ! 11 \<in> set CFG_TABLE" "CFG_TABLE ! 5 \<in> set CFG_TABLE" by (simp_all add: lengths)
  show "esp_config_set E ''http.enable'' v s = (True, in_conf (set_http_enabled (cfg_truthy v)) s)"
    "esp_config_set E ''mqtt.port'' v s = by_conf (cfg_s_mport (ne_nvs E) (ne_task E) v) s"
    using config_set_entry [OF e(1)] config_set_entry [OF e(2)]
    by (simp_all add: CFG_TABLE_def esp_config_set_def by_conf_def in_conf_def cfg_s_httpen_def)
qed

lemma http_enabled_set [simp]: "g_http_enabled (set_http_enabled b c) = b"
  by (simp add: set_http_enabled_def emit_act_def Let_def)

text \<open>
  Two commands do different things on the two channels.  \<open>AT+CONF=http_enable=true\<close> switches the
  HTTP server on when it comes over the serial line and off when it comes over HTTP, and
  \<open>AT+MQTT=port,70000\<close> is refused on the serial line and stored over HTTP.
\<close>
theorem at_channels_differ:
  "g_http_enabled (nd_conf (the (serial_exec E ''AT+CONF=http_enable=true'' s)))
   \<and> \<not> g_http_enabled (nd_conf (snd (the (http_at_exec E ''AT+CONF=http_enable=true'' s))))
   \<and> g_mqtt_port (nd_conf (the (serial_exec E ''AT+MQTT=port,70000'' s))) = g_mqtt_port (nd_conf s)
   \<and> g_mqtt_port (nd_conf (snd (the (http_at_exec E ''AT+MQTT=port,70000'' s)))) = 70000"
proof -
  have l: "''AT+CONF=http_enable=true'' = ''AT+CONF='' @ ''http_enable=true''"
      "''AT+MQTT=port,70000'' = ''AT+MQTT='' @ ''port,70000''" by simp_all
  have i: "index_of ''http_enable=true'' ''='' 0 = Some 11" "substr ''http_enable=true'' 0 11 = ''http_enable''"
      "substr_from ''http_enable=true'' 12 = ''true''" "to_int ''true'' = 0" "sub_val ''port,70000'' = (''port'', ''70000'')"
    by code_simp+
  have "g_http_enabled (nd_conf (serial_conf E ''http_enable=true'' s))"
    using i by (simp add: serial_conf_def config_http_port cfg_truthy_def println_def in_conf_def)
  moreover have "\<not> g_http_enabled (nd_conf (snd (h_conf E ''http_enable=true'' s)))"
    using i by (simp add: h_conf_def)
  moreover have "g_mqtt_port (nd_conf (serial_mqtt E ''port,70000'' s)) = g_mqtt_port (nd_conf s)"
    using i demo_ports(2)
    by (simp add: serial_mqtt_def config_http_port cfg_s_mport_def by_conf_def println_def say_def)
  moreover have "g_mqtt_port (nd_conf (snd (h_mqtt E ''port,70000'' s))) = 70000"
    using i demo_ports(2) by (simp add: h_mqtt_def in_conf_def save_config_def)
  ultimately show ?thesis
    unfolding l by (simp only: exec_conf option.sel simp_thms)
qed

section \<open>At concrete inputs\<close>

theorem at_channels_agree_witness:
  "map_option quiet (serial_exec demo_board ''AT+WIFI=ssid,home'' demo_node) =
   map_option (\<lambda>r. quiet (snd r)) (http_at_exec demo_board ''AT+WIFI=ssid,home'' demo_node)"
proof -
  have "(on_args ''AT+WIFI='' (serial_wifi demo_board), h_args ''AT+WIFI='' (h_wifi demo_board)) \<in> set (common demo_board)"
    unfolding common_def list.set insert_iff by simp
  then show ?thesis
    by (rule at_channels_agree) (simp add: on_args_def starts_with_def)
qed

end
