(* ===== verification/Esp_Hw_Spec.thy ===== *)
theory Esp_Hw_Spec
  imports Esp_Hw
begin

text \<open>
  What the peripherals of the ESP32 sketch do: infrared frames against a reference decoder, the pulses
  that leave the transmitter, frames longer than their array, I2C bytes read and written back, and the
  magic packet.
\<close>

lemma hw_out_emit [simp]: "hw_out (hw_emit hs s) = hw_out s @ hs"
  by (simp add: hw_emit_def)

lemma hw_emit_emit [simp]: "hw_emit hs (hw_emit gs s) = hw_emit (gs @ hs) s"
  by (simp add: hw_emit_def)

section \<open>Infrared frames\<close>

text \<open>
  A receiver of NEC frames: header, then 32 bits, least significant first, each a mark and a space whose
  length is the bit.
\<close>

fun nec_bits :: "u16 list \<Rightarrow> bool list option" where
  "nec_bits [m] = (if m = 560 then Some [] else None)"
| "nec_bits (m # sp # ts) =
     (if m = 560 \<and> (sp = 560 \<or> sp = 1690) then map_option (\<lambda>bs. (sp = 1690) # bs) (nec_bits ts) else None)"
| "nec_bits _ = None"

definition nec_receive :: "u16 list \<Rightarrow> u32 option" where
  "nec_receive ts =
     (case ts of
        h1 # h2 # rest \<Rightarrow>
          if h1 = 9000 \<and> h2 = 4500
          then (case nec_bits rest of
                  Some bs \<Rightarrow> if length bs = 32 then Some (horner_sum of_bool 2 bs) else None
                | None \<Rightarrow> None)
          else None
      | _ \<Rightarrow> None)"

lemma and_push_bit_one: "((d :: u32) AND push_bit i 1 \<noteq> 0) = bit d i"
  by (simp add: and_exp_eq_0_iff_not_bit)

lemma nec_bits_frame:
  "nec_bits (concat (map (\<lambda>i. [560, if b i then 1690 else 560]) is) @ [560]) = Some (map b is)"
  by (induction "is") simp_all

lemma nec_frame: "nec_receive (nec_timings d) = Some d"
proof -
  have "horner_sum of_bool 2 (map (bit d) [0..<32]) = take_bit 32 d"
    by (simp add: horner_sum_bit_eq_take_bit)
  also have "\<dots> = d" by (rule take_bit_word_eq_self) simp
  finally show ?thesis
    unfolding nec_timings_def and_push_bit_one by (simp add: nec_receive_def nec_bits_frame)
qed

lemma nec_length: "length (nec_timings d) = 67"
  by (simp add: nec_timings_def length_concat comp_def sum_list_triv)

lemma raw_sent: "ts \<noteq> [] \<Longrightarrow> length ts \<le> 256 \<Longrightarrow>
    ir_send_raw H ts s = (he_rmt H (hw_out s @ [Rmt_write (ir_items ts)]), hw_emit [Rmt_write (ir_items ts)] s)"
  by (simp add: ir_send_raw_def Let_def)

text \<open>
  SIRC frames: header, then the bits, each a mark whose length is the bit and a space.
\<close>

fun sirc_bits :: "u16 list \<Rightarrow> bool list option" where
  "sirc_bits [] = Some []"
| "sirc_bits (m # sp # ts) =
     (if sp = 600 \<and> (m = 600 \<or> m = 1200) then map_option (\<lambda>bs. (m = 1200) # bs) (sirc_bits ts) else None)"
| "sirc_bits _ = None"

definition sirc_receive :: "u16 list \<Rightarrow> u32 option" where
  "sirc_receive ts =
     (case ts of
        h1 # h2 # rest \<Rightarrow>
          if h1 = 2400 \<and> h2 = 600 then map_option (horner_sum of_bool 2) (sirc_bits rest) else None
      | _ \<Rightarrow> None)"

lemma sirc_bits_frame:
  "sirc_bits (concat (map (\<lambda>i. [if b i then 1200 else 600, 600]) is)) = Some (map b is)"
  by (induction "is") simp_all

lemma sirc_frame:
  "0 \<le> bits \<Longrightarrow> bits \<le> 20 \<Longrightarrow>
    \<exists>ts. sirc_timings d bits = Some ts \<and> sirc_receive ts = Some (take_bit (nat bits) d)
      \<and> length ts = 2 + 2 * nat bits"
  unfolding sirc_timings_def and_push_bit_one
  by (simp add: sirc_receive_def sirc_bits_frame horner_sum_bit_eq_take_bit length_concat comp_def sum_list_triv)

text \<open>
  The infrared encoders build the frames of their protocols.  The timings of an NEC code, read by a
  receiver of NEC frames, give the code back, all 32 bits; those of a SIRC code give its low bits, as
  many as were asked for, up to twenty; and what goes to the transmitter are those timings in order,
  marks and spaces alternating.
\<close>
theorem ir_frames_decode:
  assumes "0 \<le> bits" "bits \<le> 20"
  shows "nec_receive (nec_timings d) = Some d
    \<and> snd (ir_send_nec H d s) = hw_emit [Rmt_write (ir_items (nec_timings d))] s
    \<and> (\<exists>ts. sirc_receive ts = Some (take_bit (nat bits) d)
        \<and> ir_send_sirc H d bits s = Some (he_rmt H (hw_out s @ [Rmt_write (ir_items ts)]),
            hw_emit [Rmt_write (ir_items ts)] s))
    \<and> (\<forall>ts. map level0 (ir_items ts) = map even [0..<length ts])"
proof (intro conjI)
  show "snd (ir_send_nec H d s) = hw_emit [Rmt_write (ir_items (nec_timings d))] s"
    using raw_sent [of "nec_timings d" H s] nec_length [of d]
    by (cases "nec_timings d") (simp_all add: ir_send_nec_def)
  obtain ts where ts: "sirc_timings d bits = Some ts" "sirc_receive ts = Some (take_bit (nat bits) d)"
      "length ts = 2 + 2 * nat bits"
    using sirc_frame [OF assms] by blast
  moreover from ts(3) assms(2) have "ts \<noteq> []" "length ts \<le> 256" by auto
  ultimately show "\<exists>ts. sirc_receive ts = Some (take_bit (nat bits) d)
        \<and> ir_send_sirc H d bits s = Some (he_rmt H (hw_out s @ [Rmt_write (ir_items ts)]),
            hw_emit [Rmt_write (ir_items ts)] s)"
    using raw_sent [of ts H s] by (intro exI [of _ ts]) (simp add: ir_send_sirc_def)
  show "\<forall>ts. map level0 (ir_items ts) = map even [0..<length ts]"
    by (simp add: ir_items_def even_iff_mod_2_eq_zero)
qed (rule nec_frame)

section \<open>What leaves the transmitter\<close>

text \<open>
  The documented behaviour of the remote-control peripheral: the halves of the items go out in order, and
  a half of duration zero ends the transmission.
\<close>

definition rmt_halves :: "rmt_item list \<Rightarrow> (bool \<times> 15 word) list" where
  "rmt_halves items = concat (map (\<lambda>i. [(level0 i, duration0 i), (level1 i, duration1 i)]) items)"

definition rmt_documented :: "(rmt_item list \<Rightarrow> (bool \<times> 15 word) list) \<Rightarrow> bool" where
  "rmt_documented wave = (\<forall>items. wave items = takeWhile (\<lambda>h. snd h \<noteq> 0) (rmt_halves items))"

lemma items_Cons: "\<exists>rest. ir_items (t # ts) = \<lparr>level0 = True, duration0 = ucast t, level1 = False, duration1 = 0\<rparr> # rest"
  by (simp add: ir_items_def upt_rec [of 0])

text \<open>
  Only the first pulse of any frame is transmitted.  Every item that \<open>ir_send_raw\<close> builds has a
  second half of duration zero, which the peripheral takes for the end of the transmission: whatever
  the timings, at most the first mark goes out.
\<close>
theorem ir_stops_after_first_pulse:
  assumes "rmt_documented wave" "ir_send_raw H (t # ts) s = (True, s')"
  shows "\<exists>items. hw_out s' = hw_out s @ [Rmt_write items]
    \<and> wave items = (if (ucast t :: 15 word) = 0 then [] else [(True, ucast t)])"
proof -
  obtain rest where
    it: "ir_items (t # ts) = \<lparr>level0 = True, duration0 = ucast t, level1 = False, duration1 = 0\<rparr> # rest"
    using items_Cons by blast
  have "wave (ir_items (t # ts)) = (if (ucast t :: 15 word) = 0 then [] else [(True, ucast t)])"
    using assms(1) by (simp add: rmt_documented_def rmt_halves_def it)
  moreover have "hw_out s' = hw_out s @ [Rmt_write (ir_items (t # ts))]"
    using assms(2) by (simp add: ir_send_raw_def Let_def split: if_splits) auto
  ultimately show ?thesis by blast
qed

section \<open>Frames longer than their array\<close>

text \<open>
  A SIRC request without a bit count overruns the array of the timings.  The HTTP handler falls back
  to 32 bits, and \<open>AT+IR=SIRC,<code>\<close> reads the code itself as the count; the array has room for
  twenty, so the code behind it on the stack is overwritten.
\<close>
theorem sirc_default_overruns:
  assumes "data \<noteq> []" "20 < n" "n \<le> 2147483647"
  shows "handle_ir_send H [(''protocol'', ''SIRC''), (''data'', data)] s = None
    \<and> esp_at_ir H (''SIRC,'' @ dec_nat n) s = None"
proof
  have "strcaseeq ''SIRC'' ''SIRC''" "\<not> strcaseeq ''SIRC'' ''NEC''"
    by (auto dest: strcaseeq_length)
  note proto = this
  show "handle_ir_send H [(''protocol'', ''SIRC''), (''data'', data)] s = None"
    using assms(1) proto
    by (simp add: handle_ir_send_def http_arg_def to_int_def ir_send_sirc_def sirc_timings_def Let_def)
  have free: "NUL \<notin> set (''SIRC,'' @ dec_nat n)" "NUL \<notin> set (dec_nat n)"
    by (auto dest: dec_nat_chars)
  have "find_sub '','' (dec_nat n) = None"
    by (simp add: find_sub_char) (auto dest: dec_nat_chars)
  then have "index_of (''SIRC,'' @ dec_nat n) '','' 0 = Some 4" "index_of (dec_nat n) '','' 0 = None"
    unfolding index_of_nul_free [OF free(1) list.distinct(2)] index_of_nul_free [OF free(2) list.distinct(2)]
    by (simp_all add: starts_with_def)
  moreover have "substr (''SIRC,'' @ dec_nat n) 0 4 = ''SIRC''"
    "substr_from (''SIRC,'' @ dec_nat n) 5 = dec_nat n"
    by (simp_all add: substr_def numeral_eq_Suc)
  ultimately show "esp_at_ir H (''SIRC,'' @ dec_nat n) s = None"
    using proto assms(2,3)
    by (simp add: esp_at_ir_def ir_send_sirc_def sirc_timings_def to_int_dec_nat)
qed

section \<open>I2C\<close>

lemma hex_pairs_hex02: "hex_pairs (concat (map hex02 bs)) = bs"
proof (induction bs)
  case (Cons b bs)
  have "hex_pairs (hex02 b @ r) = ucast (strtoul16 (hex02 b)) # hex_pairs r" for r
    unfolding hex02_def by (simp only: append.simps hex_pairs.simps)
  then show ?case by (simp add: Cons strtoul16_hex02 ucast_u32_u8)
qed simp

lemma hex_digits_02: "\<exists>h l. hex02 b = [digit_char h, digit_char l] \<and> h < 16 \<and> l < 16 \<and> h * 16 + l = unat b"
  by (rule exI [of _ "unat b div 16"], rule exI [of _ "unat b mod 16"])
    (simp only: hex02_def nibble_less div_mult_mod_eq simp_thms)

lemma hex02_nonempty [simp]: "hex02 b \<noteq> []"
  by (simp add: hex02_def)

lemma no_blanks_hex: "no_blanks (trim (concat (map (\<lambda>b. hex02 b @ '' '') bs))) = concat (map hex02 bs)"
proof -
  have drop_left: "no_blanks (dropWhile is_space x) = no_blanks x"
    if "\<forall>c\<in>set x. is_space c \<longrightarrow> c = CHR '' ''" for x
  proof -
    have "no_blanks (takeWhile is_space x) = []"
      using that unfolding no_blanks_def filter_empty_conv by (blast dest: set_takeWhileD)
    then have "no_blanks (takeWhile is_space x @ dropWhile is_space x) = no_blanks (dropWhile is_space x)"
      unfolding no_blanks_def filter_append by simp
    then show ?thesis by simp
  qed
  have rev: "no_blanks (rev x) = rev (no_blanks x)" for x
    by (simp add: no_blanks_def rev_filter)
  have hex: "\<not> is_space c \<and> c \<noteq> CHR '' ''" if "c \<in> set (hex02 b)" for b c
  proof -
    have "\<not> is_space (digit_char k) \<and> digit_char k \<noteq> CHR '' ''" if "k < 16" for k
      using digit_char_not_blank [OF that] by (auto simp: is_space_def cc_def)
    with that hex_digits_02 [of b] show ?thesis by fastforce
  qed
  let ?x = "concat (map (\<lambda>b. hex02 b @ '' '') bs)"
  have sp: "\<forall>c\<in>set ?x. is_space c \<longrightarrow> c = CHR '' ''" using hex by auto
  have sp': "\<forall>c\<in>set (rev (dropWhile is_space ?x)). is_space c \<longrightarrow> c = CHR '' ''"
    using sp by (auto dest: set_dropWhileD)
  have "no_blanks (trim ?x) = no_blanks ?x"
    unfolding trim_def using sp sp' by (simp add: rev drop_left)
  also have "\<dots> = concat (map hex02 bs)"
  proof (induction bs)
    case (Cons b bs)
    have "no_blanks (hex02 b) = hex02 b"
      using hex [of _ b] by (simp add: no_blanks_def filter_id_conv)
    with Cons show ?case by (simp add: no_blanks_def)
  qed (simp add: no_blanks_def)
  finally show ?thesis .
qed

text \<open>
  What \<open>i2c/read\<close> reports can be written back with \<open>i2c/write\<close>.  If the device acknowledges the
  register and returns the bytes, the text of the reply's data field, used as the data of a write,
  puts exactly these bytes on the bus after the register, for any number of bytes but none.
\<close>
theorem i2c_read_write_back:
  fixes H :: hw_env and s :: "'a esp_hw_scheme"
  assumes "1 \<le> to_int len" "to_int len \<le> 32"
    "he_i2c_end H (hw_out s @ [I2c_begin (i2c_to_int a), I2c_write (i2c_to_int g), I2c_end False]) = 0"
    "he_i2c_rx H (hw_out s @ [I2c_begin (i2c_to_int a), I2c_write (i2c_to_int g), I2c_end False,
        I2c_request (i2c_to_int a) (to_int len)]) = bs"
    "bs \<noteq> []"
  shows "\<exists>txt. fst (handle_i2c_read H [(''addr'', a), (''reg'', g), (''len'', len)] s) =
        (200, ''{\"ok\":true,\"cmd\":\"i2c/read\",\"addr\":\"0x'' @ hex_low (of_int (i2c_to_int a))
           @ ''\",\"reg\":\"0x'' @ hex_low (of_int (i2c_to_int g)) @ ''\",\"data\":\"'' @ txt @ ''\"}'')
    \<and> snd (handle_i2c_write H [(''addr'', a), (''reg'', g), (''data'', txt)] s) =
        hw_emit ([I2c_begin (i2c_to_int a), I2c_write (i2c_to_int g)] @ map (\<lambda>b. I2c_write (uint b)) bs
          @ [I2c_end True]) s"
proof (intro exI conjI)
  let ?txt = "trim (concat (map (\<lambda>b. hex02 b @ '' '') bs))"
  show "fst (handle_i2c_read H [(''addr'', a), (''reg'', g), (''len'', len)] s) =
        (200, ''{\"ok\":true,\"cmd\":\"i2c/read\",\"addr\":\"0x'' @ hex_low (of_int (i2c_to_int a))
           @ ''\",\"reg\":\"0x'' @ hex_low (of_int (i2c_to_int g)) @ ''\",\"data\":\"'' @ ?txt @ ''\"}'')"
    using assms by (simp add: handle_i2c_read_def http_arg_def i2c_end_def i2c_request_def Let_def)
  have "length (concat (map hex02 bs)) = 2 * length bs"
    by (simp add: length_concat comp_def sum_list_triv)
  moreover from this have "concat (map hex02 bs) \<noteq> []"
    using assms(5) by auto
  ultimately show "snd (handle_i2c_write H [(''addr'', a), (''reg'', g), (''data'', ?txt)] s) =
        hw_emit ([I2c_begin (i2c_to_int a), I2c_write (i2c_to_int g)] @ map (\<lambda>b. I2c_write (uint b)) bs
          @ [I2c_end True]) s"
    using assms(5)
    by (simp add: handle_i2c_write_def http_arg_def no_blanks_hex hex_pairs_hex02 i2c_write_reg_def i2c_end_def
        i2c_write_hex_def Let_def split: prod.split)
qed

section \<open>Wake-on-LAN\<close>

definition mac_text :: "u8 list \<Rightarrow> string" where
  "mac_text m = join_with '':'' (map hex02 m)"

lemma scan_hex2_hex02:
  assumes "r = [] \<or> hd r = CHR '':''"
  shows "scan_hex2 (hex02 b @ r) = Some (of_nat (unat b), r)"
proof -
  obtain h l where hl: "hex02 b = [digit_char h, digit_char l]" "h < 16" "l < 16" "h * 16 + l = unat b"
    using hex_digits_02 by blast
  have d: "hex_digit_value (digit_char h) = Some h" "hex_digit_value (digit_char l) = Some l"
    using hl by (simp_all only: hex_digit_value_digit_char)
  have nb: "\<not> is_space (digit_char h)" "digit_char h \<noteq> CHR ''-''" "digit_char h \<noteq> CHR ''+''"
    using digit_char_not_blank [OF hl(2)] by simp_all
  have "base_value 16 0 [digit_char h, digit_char l] = unat b"
    using hl d by simp
  then show ?thesis
    using nb d by (simp add: scan_hex2_def Let_def hl(1) del: base_value.simps)
qed

lemma scan_mac_text:
  "length m = n \<Longrightarrow> 0 < n \<Longrightarrow> scan_mac n (mac_text m) = Some m"
proof (induction n arbitrary: m)
  case (Suc n)
  then obtain b bs where m: "m = b # bs" by (cases m) auto
  have u: "ucast (of_nat (unat b) :: u32) = b" by (simp add: ucast_u32_u8)
  show ?case
  proof (cases bs)
    case Nil
    with Suc m u show ?thesis using scan_hex2_hex02 [of "[]" b] by (simp add: mac_text_def)
  next
    case (Cons c cs)
    then have "mac_text m = hex02 b @ CHR '':'' # mac_text bs"
      by (simp add: mac_text_def m)
    with Suc m u Cons show ?thesis using scan_hex2_hex02 [of "CHR '':'' # mac_text bs" b] by simp
  qed
qed simp

lemma mac_text_nul_free: "NUL \<notin> set (mac_text m)"
proof -
  have "NUL \<notin> set (hex02 b)" for b
    using hex_digits_02 [of b] digit_char_not_blank by fastforce
  then show ?thesis unfolding mac_text_def by (induction m rule: induct_list012) auto
qed

text \<open>
  A Wake-on-LAN request sends the magic packet.  For an address written as six pairs of hexadecimal
  digits, six bytes 0xFF followed by the address sixteen times go to port 9 of both broadcast addresses,
  where the network accepts them, and the call succeeds exactly if one of the two was sent; text that is
  no address sends nothing.
\<close>
theorem wol_sends_magic_packet:
  fixes H :: hw_env and s :: "'a esp_hw_scheme"
  assumes "length m = 6" "\<And>log. he_udp H log = 1"
  shows "wol_send H (mac_text m) s = (True, hw_emit [Udp_open,
      Udp_packet [255, 255, 255, 255] 9, Udp_data (replicate 6 0xFF @ concat (replicate 16 m)), Udp_end,
      Udp_packet (he_broadcast H) 9, Udp_data (replicate 6 0xFF @ concat (replicate 16 m)), Udp_end,
      Udp_close] s)"
proof -
  have "map (\<lambda>j. m ! j) [0..<6] = m" using map_nth [of m] assms(1) by simp
  then have "wol_packet m = replicate 6 0xFF @ concat (replicate 16 m)"
    by (simp only: wol_packet_def map_replicate_const length_upt) simp
  moreover have "scan_mac 6 (cstr_at (mac_text m) 0) = Some m"
    using assms(1) scan_mac_text [of m 6] by (simp add: cstr_at_nul_free mac_text_nul_free)
  ultimately show ?thesis
    using assms(2) by (simp add: wol_send_def udp_send_def Let_def)
qed

section \<open>At concrete inputs\<close>

text \<open>A board on which every call succeeds, and a device that answers with two bytes.\<close>

definition demo_hw :: hw_env where
  "demo_hw = \<lparr>he_level = (\<lambda>l. 1), he_mv = (\<lambda>l. 1650), he_i2c_end = (\<lambda>l. 0),
     he_i2c_rx = (\<lambda>l. [0x0A, 0xFF]), he_rmt = (\<lambda>l. True), he_udp = (\<lambda>l. 1),
     he_broadcast = [192, 168, 1, 255]\<rparr>"

definition demo_wave :: "rmt_item list \<Rightarrow> (bool \<times> 15 word) list" where
  "demo_wave items = takeWhile (\<lambda>h. snd h \<noteq> 0) (rmt_halves items)"

theorem ir_frames_decode_witness:
  "nec_receive (nec_timings 0x20DF10EF) = Some 0x20DF10EF"
  using ir_frames_decode [of 12 "0x20DF10EF" demo_hw "\<lparr>hw_out = []\<rparr>"] by simp

theorem ir_stops_after_first_pulse_witness:
  "\<exists>items. hw_out (snd (ir_send_raw demo_hw [9000, 4500, 560] \<lparr>hw_out = []\<rparr>)) = [Rmt_write items]
    \<and> demo_wave items = [(True, 9000)]"
proof -
  have "rmt_documented demo_wave" by (simp add: rmt_documented_def demo_wave_def)
  moreover have "ir_send_raw demo_hw [9000, 4500, 560] \<lparr>hw_out = []\<rparr>
      = (True, snd (ir_send_raw demo_hw [9000, 4500, 560] \<lparr>hw_out = []\<rparr>))"
    by (simp add: ir_send_raw_def demo_hw_def Let_def)
  moreover have "(ucast (9000 :: u16) :: 15 word) = 9000" by simp
  ultimately show ?thesis
    using ir_stops_after_first_pulse [of demo_wave demo_hw 9000 "[4500, 560]" "\<lparr>hw_out = []\<rparr>"] by simp
qed

theorem sirc_default_overruns_witness:
  "handle_ir_send demo_hw [(''protocol'', ''SIRC''), (''data'', ''0xA90'')] \<lparr>hw_out = []\<rparr> = None
    \<and> esp_at_ir demo_hw (''SIRC,'' @ dec_nat 2704) \<lparr>hw_out = []\<rparr> = None"
  using sirc_default_overruns [of "''0xA90''" 2704 demo_hw "\<lparr>hw_out = []\<rparr>"] by simp

theorem i2c_read_write_back_witness:
  "\<exists>txt. fst (handle_i2c_read demo_hw [(''addr'', ''0x3C''), (''reg'', ''7''), (''len'', dec_nat 2)] \<lparr>hw_out = []\<rparr>) =
        (200, ''{\"ok\":true,\"cmd\":\"i2c/read\",\"addr\":\"0x'' @ hex_low (of_int (i2c_to_int ''0x3C''))
           @ ''\",\"reg\":\"0x'' @ hex_low (of_int (i2c_to_int ''7'')) @ ''\",\"data\":\"'' @ txt @ ''\"}'')
    \<and> hw_out (snd (handle_i2c_write demo_hw [(''addr'', ''0x3C''), (''reg'', ''7''), (''data'', txt)] \<lparr>hw_out = []\<rparr>)) =
        [I2c_begin (i2c_to_int ''0x3C''), I2c_write (i2c_to_int ''7''), I2c_write 10, I2c_write 255, I2c_end True]"
proof -
  have "to_int (dec_nat 2) = 2" by (simp add: to_int_dec_nat)
  then obtain u where
    r: "fst (handle_i2c_read demo_hw [(''addr'', ''0x3C''), (''reg'', ''7''), (''len'', dec_nat 2)] \<lparr>hw_out = []\<rparr>) =
        (200, ''{\"ok\":true,\"cmd\":\"i2c/read\",\"addr\":\"0x'' @ hex_low (of_int (i2c_to_int ''0x3C''))
           @ ''\",\"reg\":\"0x'' @ hex_low (of_int (i2c_to_int ''7'')) @ ''\",\"data\":\"'' @ u @ ''\"}'')"
    and w: "snd (handle_i2c_write demo_hw [(''addr'', ''0x3C''), (''reg'', ''7''), (''data'', u)] \<lparr>hw_out = []\<rparr>) =
        hw_emit ([I2c_begin (i2c_to_int ''0x3C''), I2c_write (i2c_to_int ''7'')]
          @ map (\<lambda>b. I2c_write (uint b)) [0x0A :: u8, 0xFF] @ [I2c_end True]) \<lparr>hw_out = []\<rparr>"
    using i2c_read_write_back [of "dec_nat 2" demo_hw "\<lparr>hw_out = []\<rparr>" "''0x3C''" "''7''" "[0x0A, 0xFF]"]
    by (auto simp: demo_hw_def)
  show ?thesis using r by (intro exI [of _ u] conjI) (simp_all add: w)
qed

theorem wol_sends_magic_packet_witness:
  "fst (wol_send demo_hw (mac_text [0xAA, 0xBB, 0xCC, 0xDD, 0xEE, 0xFF]) \<lparr>hw_out = []\<rparr>)"
  using wol_sends_magic_packet [of "[0xAA, 0xBB, 0xCC, 0xDD, 0xEE, 0xFF]" demo_hw "\<lparr>hw_out = []\<rparr>"]
  by (simp add: demo_hw_def)

end
