(* ===== verification/Esp_Mqtt_Spec.thy ===== *)
theory Esp_Mqtt_Spec
  imports Esp_Mqtt Esp_Http_Spec Esp_Hw_Spec
begin

text \<open>
  What the remote interfaces of the ESP32 sketch promise: reading over HTTP changes nothing and shows no
  secret, the methods of the command channel do what the HTTP handlers do, the catalog of the interface
  against what the two channels serve, and the fingerprint check of the broker.
\<close>

section \<open>Reading over HTTP\<close>

definition hide_node :: "esp_node \<Rightarrow> esp_node" where
  "hide_node s = s\<lparr>nd_conf := hide (nd_conf s)\<rparr>"

lemma hide_keeps [simp]:
  "g_device_name (hide c) = g_device_name c" "g_hostname (hide c) = g_hostname c"
  "g_pairing_mode (hide c) = g_pairing_mode c" "g_pair_timeout_at (hide c) = g_pair_timeout_at c"
  "g_mqtt_connected (hide c) = g_mqtt_connected c" "g_http_enabled (hide c) = g_http_enabled c"
  "g_mqtt_broker (hide c) = g_mqtt_broker c" "g_mqtt_port (hide c) = g_mqtt_port c"
  "g_mqtt_ca_fp (hide c) = g_mqtt_ca_fp c" "g_mqtt_auto (hide c) = g_mqtt_auto c" "ec_out (hide c) = ec_out c"
  by (simp_all add: hide_def)

lemma hide_node_keeps [simp]:
  "nd_conf (hide_node s) = hide (nd_conf s)" "nd_kbd (hide_node s) = nd_kbd s"
  "nd_ap (hide_node s) = nd_ap s" "nd_client_id (hide_node s) = nd_client_id s"
  "nd_ssdp (hide_node s) = nd_ssdp s"
  by (simp_all add: hide_node_def)

text \<open>A handler that reads: no change, and an answer that does not depend on the secrets.\<close>

definition reads :: "http_handler \<Rightarrow> bool" where
  "reads f = (\<forall>E r s. \<exists>x. f E r s = Some (x, s) \<and> f E r (hide_node s) = Some (x, hide_node s))"

lemma reads_plain:
  "(\<And>E r s. snd (f E r s) = s) \<Longrightarrow> (\<And>E r s. fst (f E r (hide_node s)) = fst (f E r s)) \<Longrightarrow> reads (plain f)"
  unfolding reads_def plain_def by (metis prod.collapse)

lemmas secrets = secrets_stay_inside [THEN conjunct1] secrets_stay_inside [THEN conjunct2, THEN conjunct1]
  secrets_stay_inside [THEN conjunct2, THEN conjunct2]

lemma get_routes_read: "\<forall>(p, m, f)\<in>set http_routes. m = GET \<longrightarrow> reads f"
  unfolding http_routes_def list.set ball_simps prod.case http_method.distinct
  by (intro conjI TrueI impI reads_plain)
    (simp_all add: handle_cmd_status_def status_json_def handle_ability_def handle_ble_status_def
      build_ble_status_json_def handle_mqtt_status_def handle_config_get_def handle_config_list_def
      handle_tunnel_status_def tunnel_json_def handle_http_status_def secrets Let_def)

text \<open>
  C20: Reading over HTTP is safe.  Every GET request to the sketch's server, be it for the web page, a
  redirect, a status, the description document or a path that does not exist, is answered, leaves the board
  as it was, and its answer and headers are the same as from a board whose Wi-Fi and MQTT passwords and
  NVS are erased and whose tunnel tokens are only marked as set: no secret leaves the board this way.
\<close>
theorem http_get_safe:
  "\<exists>x. http_serve GET uri E r s = Some (x, s) \<and> http_serve GET uri E r (hide_node s) = Some (x, hide_node s)
    \<and> http_headers GET uri (hide_node s) = http_headers GET uri s"
proof -
  have h: "http_headers GET uri (hide_node s) = http_headers GET uri s" by (simp add: http_headers_def)
  consider (page) "uri = ''/'' \<or> uri \<in> set legacy_pages \<or> uri = ''/at-node/help.json''"
    | (route) p m f where "\<not> (uri = ''/'' \<or> uri \<in> set legacy_pages \<or> uri = ''/at-node/help.json'')"
        "find (\<lambda>(p, m', f). m' = GET \<and> uri = ''/at-node/cmd/'' @ p) http_routes = Some (p, m, f)"
    | (other) "\<not> (uri = ''/'' \<or> uri \<in> set legacy_pages \<or> uri = ''/at-node/help.json'')"
        "find (\<lambda>(p, m', f). m' = GET \<and> uri = ''/at-node/cmd/'' @ p) http_routes = None"
    by (metis option.exhaust prod_cases3)
  then show ?thesis
  proof cases
    case page
    then show ?thesis
      using h by (auto simp: http_serve_def handle_web_app_def handle_legacy_page_def handle_help_json_def)
  next
    case route
    from find_Some_iff_first [OF route(2)] get_routes_read have "reads f" by auto
    then show ?thesis using h route by (simp add: http_serve_def reads_def)
  next
    case other
    then show ?thesis
      using h by (simp add: http_serve_def handle_esp_not_found_def node_description_def)
  qed
qed

section \<open>The two remote channels\<close>

text \<open>A request whose arguments read as those of the query, for the names that the methods use.\<close>

definition method_keys :: "string list" where
  "method_keys = [''mods'', ''k'', ''ms'', ''s'', ''gap'', ''enable'', ''start'', ''id'', ''mac'', ''host'', ''count'']
     @ map (\<lambda>i. ''k'' @ dec_nat i) [0..<6]"

definition same_args_req :: "http_req \<Rightarrow> string \<Rightarrow> bool" where
  "same_args_req r q = list_all (\<lambda>k. http_arg r k = query_get q k) method_keys"

definition method_pairs :: "(string \<times> http_handler \<times> mqtt_method) list" where
  "method_pairs =
    [(''keyboard/tap'', plain (\<lambda>E r. by_kbd (handle_keyboard_tap (is_connected E) r)), m_keyboard_tap),
     (''keyboard/text'', plain (\<lambda>E r. by_kbd (handle_keyboard_text (is_connected E) r)), m_keyboard_text),
     (''keyboard/key'', plain (\<lambda>E r. by_kbd (handle_keyboard_key (is_connected E) r)), m_keyboard_key),
     (''ble/status'', plain (\<lambda>E r. handle_ble_status E), \<lambda>E q s. (mqtt_ok @ '',\"ble\":'' @ build_ble_status_json E s, s)),
     (''ble/pair'', plain (\<lambda>E r. by_conf (handle_ble_pair (ne_adv E) (ne_now E) r)), m_ble_pair),
     (''ability'', plain (\<lambda>E r. handle_ability E), \<lambda>E q s. (mqtt_ok @ '',\"ability\":'' @ build_ability_json (ne_board E), s)),
     (''tunnel/status'', plain (\<lambda>E r. handle_tunnel_status E), m_tunnel_status),
     (''tunnel/connect'', plain handle_tunnel_connect, m_tunnel ''tunnel/connect''),
     (''tunnel/disconnect'', plain (\<lambda>E. handle_tunnel_disconnect), m_tunnel ''tunnel/disconnect''),
     (''tunnel/clear'', plain (\<lambda>E. handle_tunnel_clear), m_tunnel ''tunnel/clear''),
     (''config/list'', plain (\<lambda>E r. handle_config_list), \<lambda>E q s. (mqtt_ok @ '',\"keys\":'' @ config_list_json (nd_conf s), s)),
     (''net/wol'', plain (\<lambda>E r. by_hw (handle_net_wol (ne_hw E) r)), m_net_wol),
     (''net/ping'', plain handle_net_ping, m_net_ping)]"

lemma same_arg_results:
  assumes "same_args_req r q"
  shows "http_arg r ''mods'' = query_get q ''mods''" "http_arg r ''k'' = query_get q ''k''"
    "http_arg r ''ms'' = query_get q ''ms''" "http_arg r ''s'' = query_get q ''s''"
    "http_arg r ''gap'' = query_get q ''gap''" "http_arg r ''enable'' = query_get q ''enable''"
    "http_arg r ''start'' = query_get q ''start''" "http_arg r ''id'' = query_get q ''id''"
    "http_arg r ''mac'' = query_get q ''mac''" "http_arg r ''host'' = query_get q ''host''"
    "http_arg r ''count'' = query_get q ''count''"
    "i < 6 \<Longrightarrow> http_arg r (CHR ''k'' # dec_nat i) = query_get q (CHR ''k'' # dec_nat i)"
proof -
  note h = assms [unfolded same_args_req_def method_keys_def list_all_append list.pred_inject]
  show "http_arg r ''mods'' = query_get q ''mods''" "http_arg r ''k'' = query_get q ''k''"
    "http_arg r ''ms'' = query_get q ''ms''" "http_arg r ''s'' = query_get q ''s''"
    "http_arg r ''gap'' = query_get q ''gap''" "http_arg r ''enable'' = query_get q ''enable''"
    "http_arg r ''start'' = query_get q ''start''" "http_arg r ''id'' = query_get q ''id''"
    "http_arg r ''mac'' = query_get q ''mac''" "http_arg r ''host'' = query_get q ''host''"
    "http_arg r ''count'' = query_get q ''count''"
    using h by blast+
  have "list_all (\<lambda>k. http_arg r k = query_get q k) (map (\<lambda>i. ''k'' @ dec_nat i) [0..<6])"
    using h by blast
  then show "http_arg r (CHR ''k'' # dec_nat i) = query_get q (CHR ''k'' # dec_nat i)" if "i < 6"
    using that by (simp add: list_all_iff)
qed

lemma same_keys:
  assumes "same_args_req r q"
  shows "map (\<lambda>i. parse_uint8 (http_arg r (CHR ''k'' # dec_nat i))) [0..<6]
    = map (\<lambda>i. parse_uint8 (query_get q (CHR ''k'' # dec_nat i))) [0..<6]"
proof (rule map_cong [OF refl])
  fix i :: nat
  assume "i \<in> set [0..<6]"
  then have "i < 6" unfolding atLeast_upt [symmetric] by simp
  with same_arg_results(12) [OF assms] show "parse_uint8 (http_arg r (CHR ''k'' # dec_nat i))
      = parse_uint8 (query_get q (CHR ''k'' # dec_nat i))" by simp
qed

lemma method_pairs_agree:
  assumes "same_args_req r q"
  shows "\<forall>(m, f, g)\<in>set method_pairs. map_option snd (f E r s) = Some (snd (g E q s))"
  unfolding method_pairs_def list.set ball_simps prod.case
  by (intro conjI TrueI)
    (simp_all add: same_arg_results [OF assms] same_keys [OF assms] plain_def by_kbd_def by_conf_def by_hw_def in_kbd_def in_conf_def
      handle_keyboard_tap_def m_keyboard_tap_def handle_keyboard_text_def m_keyboard_text_def
      handle_keyboard_key_def m_keyboard_key_def handle_ble_status_def handle_ble_pair_def m_ble_pair_def
      handle_ability_def handle_tunnel_status_def m_tunnel_status_def handle_tunnel_connect_def
      handle_tunnel_disconnect_def handle_tunnel_clear_def tunnel_cmd_def tunnel_id_arg_def m_tunnel_def
      handle_config_list_def handle_net_wol_def m_net_wol_def handle_net_ping_def m_net_ping_def
      Let_def split: prod.split option.split)

lemma routes_distinct: "distinct (map (\<lambda>(p, m, f). (p, m)) http_routes)"
  unfolding http_routes_def by simp

lemma find_route:
  "distinct (map (\<lambda>(p, m, f). (p, m)) rs) \<Longrightarrow> (p, m, f) \<in> set rs
    \<Longrightarrow> find (\<lambda>(q, m', g). m' = m \<and> ''/at-node/cmd/'' @ p = ''/at-node/cmd/'' @ q) rs = Some (p, m, f)"
  by (induction rs) (auto simp: rev_image_eqI)

lemma serve_route:
  assumes "(p, m, f) \<in> set http_routes"
  shows "http_serve m (''/at-node/cmd/'' @ p) E r s = f E r s"
  using find_route [OF routes_distinct assms] by (simp add: http_serve_def legacy_pages_def)

lemma pairs_routes:
  "\<forall>(m, f, g)\<in>set method_pairs. (m, GET, f) \<in> set http_routes \<or> (m, POST, f) \<in> set http_routes"
  unfolding method_pairs_def http_routes_def by simp

lemma pairs_methods: "\<forall>(m, f, g)\<in>set method_pairs. mqtt_exec E m q s = g E q s"
  unfolding method_pairs_def list.set ball_simps prod.case
  by (intro conjI TrueI) (simp_all add: mqtt_exec_def m_table_def starts_with_def)

text \<open>
  C24: The two remote channels do the same.  Thirteen methods exist over HTTP and over MQTT with the same
  meaning: a message on the command topic and a request to the route of that name, whose arguments read
  the same, leave the board in the same state.
\<close>
theorem remote_channels_agree:
  assumes "(m, f, g) \<in> set method_pairs" "same_args_req r q"
  shows "\<exists>meth. map_option snd (http_serve meth (''/at-node/cmd/'' @ m) E r s) = Some (snd (mqtt_exec E m q s))"
proof -
  from assms(1) pairs_routes obtain meth where "(m, meth, f) \<in> set http_routes" by fastforce
  from serve_route [OF this] have "http_serve meth (''/at-node/cmd/'' @ m) E r s = f E r s" .
  moreover have "mqtt_exec E m q s = g E q s" using assms(1) pairs_methods by fastforce
  moreover have "map_option snd (f E r s) = Some (snd (g E q s))"
    using assms(1) method_pairs_agree [OF assms(2)] by fastforce
  ultimately show ?thesis by (intro exI [of _ meth]) simp
qed

section \<open>The catalog\<close>

lemma catalog_methods: "map ae_method API_CATALOG =
    [''keyboard/tap'', ''keyboard/text'', ''keyboard/key'', ''gpio/write'', ''gpio/read'', ''adc/read'', ''i2c/scan'',
     ''i2c/read'', ''i2c/write'', ''ir/send'', ''ble/status'', ''ble/pair'', ''ble/bonds/delete'', ''ble/bonds/clear'',
     ''net/wol'', ''net/ping'', ''tunnel/status'', ''tunnel/config'', ''tunnel/connect'', ''tunnel/disconnect'',
     ''tunnel/clear'', ''tunnel/enable'', ''ability'', ''config/set'', ''config/get'', ''config/list'', ''sys/info'']"
  by (simp add: API_CATALOG_def)

lemma catalog_unknown:
  "filter (\<lambda>m. find (\<lambda>c. matches (fst c) m) m_table = None) (map ae_method API_CATALOG) =
    [''i2c/scan'', ''i2c/read'', ''i2c/write'', ''ir/send'', ''ble/bonds/delete'', ''ble/bonds/clear'']"
  unfolding catalog_methods m_table_def by (simp add: starts_with_def)

lemma catalog_unrouted:
  "filter (\<lambda>m. m \<notin> set (map fst http_routes)) (map ae_method API_CATALOG) =
    [''config/set'', ''config/get'', ''sys/info'']"
  unfolding catalog_methods http_routes_def by simp

text \<open>
  The catalog names methods that its channels do not serve.  It is published over MQTT and at
  \<open>help.json\<close> as the whole remote interface.  Of its 27 methods, exactly six are not found by the
  dispatch of the command channel, which answers \<open>unknown method\<close> to them: the three of I2C, infrared, and
  the two that delete bonds; and exactly three have no route of their name over HTTP.
\<close>
theorem catalog_against_channels:
  "set (filter (\<lambda>m. find (\<lambda>c. matches (fst c) m) m_table = None) (map ae_method API_CATALOG))
     = {''i2c/scan'', ''i2c/read'', ''i2c/write'', ''ir/send'', ''ble/bonds/delete'', ''ble/bonds/clear''}
   \<and> map (\<lambda>m. mqtt_exec E m q s) [''i2c/scan'', ''i2c/read'', ''i2c/write'', ''ir/send'', ''ble/bonds/delete'', ''ble/bonds/clear'']
     = replicate 6 (mqtt_err ''unknown method'', s)
   \<and> set (filter (\<lambda>m. m \<notin> set (map fst http_routes)) (map ae_method API_CATALOG))
     = {''config/set'', ''config/get'', ''sys/info''}"
proof (intro conjI)
  have "\<forall>m\<in>set [''i2c/scan'', ''i2c/read'', ''i2c/write'', ''ir/send'', ''ble/bonds/delete'', ''ble/bonds/clear''].
      find (\<lambda>c. matches (fst c) m) m_table = None"
    unfolding catalog_unknown [symmetric] by simp
  then show "map (\<lambda>m. mqtt_exec E m q s)
       [''i2c/scan'', ''i2c/read'', ''i2c/write'', ''ir/send'', ''ble/bonds/delete'', ''ble/bonds/clear'']
     = replicate 6 (mqtt_err ''unknown method'', s)"
    by (simp add: mqtt_exec_def numeral_eq_Suc)
qed (simp_all only: catalog_unknown catalog_unrouted list.set)

section \<open>The broker's certificate\<close>

text \<open>A fingerprint as it is usually written: upper case, colons between the bytes.\<close>

definition fingerprint_text :: "u8 list \<Rightarrow> string" where
  "fingerprint_text h = join_with '':'' (map hex02 h)"

lemma hex02_no_colon: "filter (\<lambda>c. c \<noteq> CHR '':'') (hex02 b) = hex02 b"
proof -
  have "digit_char k \<noteq> CHR '':''" if "k < 16" for k
    using digit_char_cc [OF that] by (auto simp: cc_def split: if_splits)
  then show ?thesis using hex_digits_02 [of b] by fastforce
qed

lemma fingerprint_digits:
  "filter (\<lambda>c. c \<noteq> CHR '':'') (fingerprint_text h) = concat (map hex02 h)"
  unfolding fingerprint_text_def
  by (induction h rule: induct_list012) (simp_all add: hex02_no_colon)

lemma fingerprint_accepted: "verify_fingerprint sha (Some raw) (fingerprint_text (sha raw))"
  by (simp add: verify_fingerprint_def fingerprint_digits hash_hex_def map_concat comp_def)

text \<open>
  C30: A broker with another certificate is refused, but has the password.  With TLS, a fingerprint set and
  a user name, an attempt that connects to a broker whose certificate does not have the fingerprint
  reports failure, leaves the client disconnected, and neither subscribes nor publishes; the certificate
  that has it, with the fingerprint written in the usual way, passes.  The check comes after the client
  has sent user name and password.
\<close>
theorem wrong_broker_refused:
  assumes "g_mqtt_broker (nd_conf s) \<noteq> []" "g_mqtt_port (nd_conf s) = 8883" "g_mqtt_ca_fp (nd_conf s) \<noteq> []"
    "g_mqtt_user (nd_conf s) \<noteq> []" "me_connect M"
    "\<not> verify_fingerprint sha (me_cert M) (g_mqtt_ca_fp (nd_conf s))"
  shows "\<not> fst (mqtt_connect sha E M s) \<and> \<not> g_mqtt_connected (nd_conf (snd (mqtt_connect sha E M s)))
    \<and> ec_out (nd_conf (snd (mqtt_connect sha E M s))) = ec_out (nd_conf s)
        @ [Mqtt_server (g_mqtt_broker (nd_conf s)) 8883,
           Mqtt_open (''atnode-'' @ g_hostname (nd_conf s)) (g_mqtt_user (nd_conf s)) (g_mqtt_pass (nd_conf s))
             (''atnode/'' @ g_hostname (nd_conf s) @ ''/state''),
           Mqtt_disconnect]
    \<and> verify_fingerprint sha (Some raw) (fingerprint_text (sha raw))"
  using assms fingerprint_accepted [of sha raw]
  by (simp add: mqtt_connect_def in_conf_def emit_act_def schedule_restart_def Let_def)

section \<open>At concrete inputs\<close>

theorem remote_channels_agree_witness:
  "\<exists>meth. map_option snd (http_serve meth (''/at-node/cmd/'' @ ''ble/pair'') demo_board [(''enable'', ''1'')] demo_node)
     = Some (snd (mqtt_exec demo_board ''ble/pair'' ''enable=1'' demo_node))"
proof -
  have "(''ble/pair'', plain (\<lambda>E r. by_conf (handle_ble_pair (ne_adv E) (ne_now E) r)), m_ble_pair) \<in> set method_pairs"
    unfolding method_pairs_def list.set insert_iff by simp
  moreover have "same_args_req [(''enable'', ''1'')] ''enable=1''"
    by code_simp
  ultimately show ?thesis by (rule remote_channels_agree)
qed

definition demo_broker :: esp_node where
  "demo_broker = in_conf (\<lambda>c. c\<lparr>g_mqtt_broker := ''hub.lan'', g_mqtt_port := 8883, g_mqtt_ca_fp := ''AA:BB'',
     g_mqtt_user := ''node'', g_mqtt_pass := ''secret''\<rparr>) demo_node"

definition demo_mqtt :: mqtt_env where
  "demo_mqtt = \<lparr>me_connect = True, me_cert = None, me_ssl_err = [], me_loop = True\<rparr>"

theorem wrong_broker_refused_witness:
  "\<not> fst (mqtt_connect demo_sha demo_board demo_mqtt demo_broker)"
  using wrong_broker_refused [of demo_broker demo_mqtt demo_sha demo_board "[]"]
  by (simp add: demo_broker_def demo_mqtt_def in_conf_def verify_fingerprint_def)

end
