(* ===== verification/Esp_Loop.thy ===== *)
theory Esp_Loop
  imports Esp_Mqtt
begin

text \<open>
  \<open>setup\<close> and \<open>loop\<close> of the ESP32 sketch: the start-up in the order of the code, the Wi-Fi watchdog,
  one pass of the loop over all its parts, with the web server, discovery, the serial line, the typing
  queue, MQTT, the access point, BLE, the breathing LED and the deferred restart.  The clock is read
  anew by each part of a pass, so a pass has a reading for each.  The theory shows that the watchdog keeps
  trying, that a scheduled restart happens, that the LED's duty stays in range, and that an access point
  started by the button does not survive the start-up.
\<close>

section \<open>Parts of a pass\<close>

text \<open>
  The routes are those of \<open>http_serve\<close>, registered here once more at each recovery.  The watchdog reads
  the clock once in the model; the code reads it again for the comparison and for the new stamp.
\<close>

definition wifi_services_up :: "esp_conf \<Rightarrow> esp_conf" where
  "wifi_services_up c =
     (let c1 = emit_act [Mdns_begin (g_hostname c)] (c\<lparr>g_wifi_ready := True\<rparr>)
      in if g_http_enabled c1 then emit_act [Http_begin, Ssdp_begin] c1 else c1)"

definition wifi_watch :: "u32 \<Rightarrow> bool \<Rightarrow> esp_conf \<Rightarrow> esp_conf" where
  "wifi_watch now up c =
     (if up then (let c1 = (if \<not> g_wifi_ready c then wifi_services_up c else c) in c1\<lparr>g_wifi_lost_at := 0\<rparr>)
      else let c1 = (if g_wifi_ready c then c\<lparr>g_wifi_ready := False\<rparr> else c);
               c2 = (if g_wifi_lost_at c1 = 0 then c1\<lparr>g_wifi_lost_at := now\<rparr> else c1)
           in if now - g_wifi_lost_at c2 > 15000
              then emit_act [Wifi_disconnect, Wifi_begin (g_wifi_ssid c2) (g_wifi_pass c2)] (c2\<lparr>g_wifi_lost_at := now\<rparr>)
              else c2)"

definition restart_poll :: "u32 \<Rightarrow> esp_conf \<Rightarrow> esp_conf" where
  "restart_poll now c =
     (if g_restart_at c \<noteq> 0 \<and> due now (g_restart_at c) then emit_act [Restart] (c\<lparr>g_restart_at := 0\<rparr>) else c)"

definition LED_BREATH_ACTIVE_LOW :: "board \<Rightarrow> bool" where
  "LED_BREATH_ACTIVE_LOW b = (b = C3)"

definition led_poll :: "board \<Rightarrow> u32 \<Rightarrow> led_breath \<Rightarrow> led_breath" where
  "led_poll b now l =
     (if due now (lb_next l)
      then let phase = (lb_phase l + 5) mod 512;
               tri = (if phase < 256 then ucast phase else 511 - ucast phase);
               duty = drop_bit 8 (tri * tri)
           in \<lparr>lb_next = now + 15, lb_phase = phase,
               lb_duty = (if LED_BREATH_ACTIVE_LOW b then 255 - duty else duty)\<rparr>
      else l)"

section \<open>A pass\<close>

text \<open>
  What one pass meets: the environment of the watchdog's bring-up and of the other parts, the clock at the
  parts that read it, the readings of the link, the request waiting at the server, the packet waiting
  at the discovery socket, the bytes on the serial line.
\<close>

record loop_in =
  li_env :: node_env
  li_watch_env :: node_env
  li_wifi_now :: u32
  li_wifi_up :: bool
  li_request :: "(http_method \<times> string \<times> http_req) option"
  li_ssdp_up :: bool
  li_ssdp_now1 :: u32
  li_ssdp_now2 :: u32
  li_packet :: "(string \<times> nat \<times> string) option"
  li_serial :: string
  li_type_now :: u32
  li_ble_now1 :: u32
  li_ble_now2 :: u32
  li_led_now :: u32
  li_restart_now :: u32

text \<open>
  \<open>ssdp_begin\<close> and \<open>ssdp_stop\<close> are called from within the bring-up and the switch of the HTTP server, which
  log the calls; here they take effect, after the part of the pass that made them and before the
  next one, which is the first to look at the state of discovery.
\<close>

definition ssdp_call :: "node_env \<Rightarrow> esp_act \<Rightarrow> ssdp \<Rightarrow> ssdp" where
  "ssdp_call E a s =
     (case a of Ssdp_begin \<Rightarrow> ssdp_begin (ne_link E) (ne_mac E) (ne_ip E) (ne_now E) s
      | Ssdp_stop \<Rightarrow> ssdp_stop s | _ \<Rightarrow> s)"

definition ssdp_calls :: "node_env \<Rightarrow> esp_node \<Rightarrow> esp_node \<Rightarrow> esp_node" where
  "ssdp_calls E s t =
     t\<lparr>nd_ssdp := fold (ssdp_call E) (drop (length (ec_out (nd_conf s))) (ec_out (nd_conf t))) (nd_ssdp t)\<rparr>"

definition watch_part :: "loop_in \<Rightarrow> esp_node \<Rightarrow> esp_node" where
  "watch_part I s = ssdp_calls (li_watch_env I) s (in_conf (wifi_watch (li_wifi_now I) (li_wifi_up I)) s)"

definition serve_request :: "loop_in \<Rightarrow> esp_node \<Rightarrow> esp_node option" where
  "serve_request I s =
     (if g_wifi_ready (nd_conf s) \<and> g_http_enabled (nd_conf s)
      then case li_request I of
          None \<Rightarrow> Some s
        | Some (m, uri, r) \<Rightarrow> map_option (\<lambda>x. ssdp_calls (li_env I) s (snd x)) (http_serve m uri (li_env I) r s)
      else Some s)"

definition ssdp_part :: "loop_in \<Rightarrow> esp_node \<Rightarrow> esp_node" where
  "ssdp_part I s = s\<lparr>nd_ssdp :=
     ssdp_loop (li_ssdp_up I) (ne_ip (li_env I)) (li_ssdp_now1 I) (li_ssdp_now2 I) (li_packet I) (nd_ssdp s)\<rparr>"

definition serial_part :: "loop_in \<Rightarrow> esp_node \<Rightarrow> esp_node option" where
  "serial_part I s = map_option (ssdp_calls (li_env I) s) (handle_serial (li_env I) (li_serial I) s)"

text \<open>The parts after the serial line, which cannot fail; only the classic board has the LED.\<close>

definition loop_tail :: "loop_in \<Rightarrow> esp_node \<Rightarrow> esp_node" where
  "loop_tail I s =
     (let s1 = (if g_ble_enabled (nd_conf s) then in_kbd (type_poll (li_type_now I)) s else s);
          s2 = ap_portal_poll (mqtt_poll s1);
          s3 = in_conf (ble_loop (li_ble_now1 I) (li_ble_now2 I) (is_connected (li_env I))) s2;
          b = ne_board (li_env I);
          s4 = (if b = Classic then s3\<lparr>nd_led := led_poll b (li_led_now I) (nd_led s3)\<rparr> else s3)
      in in_conf (restart_poll (li_restart_now I)) s4)"

definition loop_pass :: "loop_in \<Rightarrow> esp_node \<Rightarrow> esp_node option" where
  "loop_pass I s =
     Option.bind (serve_request I (watch_part I s))
       (\<lambda>s1. map_option (loop_tail I) (serial_part I (ssdp_part I s1)))"

fun loop_run :: "loop_in list \<Rightarrow> esp_node \<Rightarrow> esp_node option" where
  "loop_run [] s = Some s"
| "loop_run (I # Is) s = Option.bind (loop_pass I s) (loop_run Is)"

text \<open>A pass without a request and without serial input.\<close>

definition idle_in :: "loop_in \<Rightarrow> bool" where
  "idle_in I = (li_request I = None \<and> li_serial I = [])"

lemma calls_conf [simp]:
  "nd_conf (ssdp_calls E s t) = nd_conf t" "nd_conf (ssdp_part I s) = nd_conf s"
  "nd_kbd (ssdp_calls E s t) = nd_kbd t" "nd_kbd (ssdp_part I s) = nd_kbd s"
  "nd_line (ssdp_calls E s t) = nd_line t" "nd_line (ssdp_part I s) = nd_line s"
  "nd_ap (ssdp_calls E s t) = nd_ap t" "nd_ap_ssid (ssdp_calls E s t) = nd_ap_ssid t"
  "nd_ap_out (ssdp_calls E s t) = nd_ap_out t"
  by (simp_all add: ssdp_calls_def ssdp_part_def)

lemma watch_conf [simp]: "nd_conf (watch_part I s) = wifi_watch (li_wifi_now I) (li_wifi_up I) (nd_conf s)"
  by (simp add: watch_part_def in_conf_def)

lemma calls_same [simp]: "ssdp_calls E s s = s"
  by (simp add: ssdp_calls_def)

lemma pass_idle: "idle_in I \<Longrightarrow> loop_pass I s = Some (loop_tail I (ssdp_part I (watch_part I s)))"
  by (simp add: loop_pass_def serve_request_def serial_part_def idle_in_def)

section \<open>Start-up\<close>

text \<open>
  The polls of the first connection, sixty at most; \<open>ups\<close> are the readings of the link at the loop's test
  and after the loop.
\<close>

fun boot_connected :: "nat \<Rightarrow> bool list \<Rightarrow> bool" where
  "boot_connected retry [] = False"
| "boot_connected retry (up # ups) =
     (if \<not> up \<and> retry < 60 then boot_connected (retry + 1) ups else up)"

definition PIN_I2C_SDA :: "board \<Rightarrow> int" where
  "PIN_I2C_SDA b = (case b of Classic \<Rightarrow> 21 | C3 \<Rightarrow> 8)"

definition PIN_I2C_SCL :: "board \<Rightarrow> int" where
  "PIN_I2C_SCL b = (case b of Classic \<Rightarrow> 22 | C3 \<Rightarrow> 9)"

definition esp_setup :: "node_env \<Rightarrow> u16 \<Rightarrow> string \<Rightarrow> string \<Rightarrow> u32 \<Rightarrow> (u32 \<times> bool \<times> bool) list \<Rightarrow> bool list
    \<Rightarrow> string list \<Rightarrow> (string \<Rightarrow> string option) \<Rightarrow> esp_node" where
  "esp_setup E mac ssid pw start rounds ups bonds m =
     (let s0 = in_conf (load_config mac ssid pw) (node_zero (esp_zero m));
          s1 = snd (ap_portal_check_button start rounds s0);
          c = nd_conf s1;
          s2 = in_conf (emit_act [Wifi_begin (g_wifi_ssid c) (g_wifi_pass c)]) (ap_emit [Sta_mode] s1);
          s3 = (if boot_connected 0 ups then ssdp_calls E s2 (in_conf wifi_services_up s2) else s2);
          s4 = in_hw (hw_emit [I2c_pins (PIN_I2C_SDA (ne_board E)) (PIN_I2C_SCL (ne_board E))]) s3;
          s5 = snd (by_hw (ir_init (ne_hw E)) s4)
      in in_conf (rathole_init (ne_task E)) (in_conf (ble_init_adv bonds) s5))"

section \<open>Wi-Fi\<close>

lemma watch_keeps [simp]:
  "g_wifi_ssid (wifi_watch now up c) = g_wifi_ssid c" "g_wifi_pass (wifi_watch now up c) = g_wifi_pass c"
  by (simp_all add: wifi_watch_def wifi_services_up_def emit_act_def Let_def)

definition link_down :: "u32 list \<Rightarrow> esp_conf \<Rightarrow> esp_conf" where
  "link_down ts c = fold (\<lambda>t. wifi_watch t False) ts c"

lemma link_down_append: "link_down (ts @ us) c = link_down us (link_down ts c)"
  by (simp add: link_down_def)

lemma link_down_keeps [simp]:
  "g_wifi_ssid (link_down ts c) = g_wifi_ssid c" "g_wifi_pass (link_down ts c) = g_wifi_pass c"
  by (induction ts arbitrary: c) (simp_all add: link_down_def)

text \<open>Either an attempt was made, or the time of the loss is still that of the first pass.\<close>

definition tried_or_waits :: "u32 \<Rightarrow> esp_act list \<Rightarrow> esp_conf \<Rightarrow> bool" where
  "tried_or_waits t0 out c =
     (\<exists>new. ec_out c = out @ new
        \<and> (Wifi_begin (g_wifi_ssid c) (g_wifi_pass c) \<in> set new \<or> g_wifi_lost_at c = t0))"

lemma tried_step:
  assumes "tried_or_waits t0 out c" "t0 \<noteq> 0"
  shows "tried_or_waits t0 out (wifi_watch t False c)"
proof -
  obtain new where new: "ec_out c = out @ new"
      "Wifi_begin (g_wifi_ssid c) (g_wifi_pass c) \<in> set new \<or> g_wifi_lost_at c = t0"
    using assms(1) by (auto simp: tried_or_waits_def)
  let ?more = "if t - (if g_wifi_lost_at c = 0 then t else g_wifi_lost_at c) > 15000
      then [Wifi_disconnect, Wifi_begin (g_wifi_ssid c) (g_wifi_pass c)] else []"
  have "ec_out (wifi_watch t False c) = out @ (new @ ?more)"
    using new(1) by (auto simp: wifi_watch_def emit_act_def Let_def)
  moreover have "Wifi_begin (g_wifi_ssid c) (g_wifi_pass c) \<in> set (new @ ?more)
      \<or> g_wifi_lost_at (wifi_watch t False c) = t0"
    using new(2) assms(2) by (auto simp: wifi_watch_def emit_act_def Let_def)
  ultimately show ?thesis unfolding tried_or_waits_def watch_keeps by blast
qed

lemma tried_run:
  "tried_or_waits t0 out c \<Longrightarrow> t0 \<noteq> 0 \<Longrightarrow> tried_or_waits t0 out (link_down ts c)"
  by (induction ts arbitrary: c) (simp_all add: link_down_def tried_step)

text \<open>
  C39: A lost network is tried again.  When the link goes down at a pass at time \<open>t0\<close> and stays down, a pass
  more than 15 seconds later finds that, by then at the latest, the board has asked the radio to join the
  configured network again, whatever passes came between.
\<close>
theorem wifi_tried_again:
  assumes "g_wifi_lost_at c = 0" "t0 \<noteq> 0" "t - t0 > 15000"
  shows "\<exists>new. ec_out (link_down (t0 # ts @ [t]) c) = ec_out c @ new
    \<and> Wifi_begin (g_wifi_ssid c) (g_wifi_pass c) \<in> set new"
proof -
  let ?c = "link_down ts (wifi_watch t0 False c)"
  have "tried_or_waits t0 (ec_out c) (wifi_watch t0 False c)"
    using assms(1) by (simp add: tried_or_waits_def wifi_watch_def Let_def)
  then have "tried_or_waits t0 (ec_out c) ?c" by (rule tried_run [OF _ assms(2)])
  then obtain new where new: "ec_out ?c = ec_out c @ new"
      "Wifi_begin (g_wifi_ssid c) (g_wifi_pass c) \<in> set new \<or> g_wifi_lost_at ?c = t0"
    by (auto simp: tried_or_waits_def)
  have run: "link_down (t0 # ts @ [t]) c = wifi_watch t False ?c"
    by (simp add: link_down_def)
  show ?thesis
  proof (cases "g_wifi_lost_at ?c = t0")
    case True
    then have "ec_out (wifi_watch t False ?c) =
        ec_out c @ (new @ [Wifi_disconnect, Wifi_begin (g_wifi_ssid c) (g_wifi_pass c)])"
      using assms(2,3) new(1) by (simp add: wifi_watch_def emit_act_def Let_def)
    then show ?thesis unfolding run
      by (intro exI [of _ "new @ [Wifi_disconnect, Wifi_begin (g_wifi_ssid c) (g_wifi_pass c)]"]) simp
  next
    case False
    with new have "Wifi_begin (g_wifi_ssid c) (g_wifi_pass c) \<in> set new" by simp
    moreover have "\<exists>more. ec_out (wifi_watch t False ?c) = ec_out ?c @ more"
      by (simp add: wifi_watch_def emit_act_def Let_def)
    ultimately show ?thesis unfolding run new(1) by auto
  qed
qed

section \<open>Restart\<close>

lemma type_in_conf [simp]: "nd_conf (in_kbd f s) = nd_conf s" "nd_conf (ap_portal_poll s) = nd_conf s"
  by (simp_all add: in_kbd_def ap_portal_poll_def ap_emit_def)

lemma ble_loop_keeps [simp]: "g_restart_at (ble_loop n1 n2 up c) = g_restart_at c"
  by (simp add: ble_defs)

lemma ble_loop_out: "\<exists>new. ec_out (ble_loop n1 n2 up c) = ec_out c @ new \<and> Restart \<notin> set new"
  by (auto simp: ble_defs)

lemma mqtt_poll_conf: "g_restart_at (nd_conf (mqtt_poll s)) = g_restart_at (nd_conf s)
    \<and> (\<exists>new. ec_out (nd_conf (mqtt_poll s)) = ec_out (nd_conf s) @ new \<and> Restart \<notin> set new)"
  by (auto simp: mqtt_poll_def in_conf_def emit_act_def)

lemma watch_out: "g_restart_at (wifi_watch now up c) = g_restart_at c
    \<and> (\<exists>new. ec_out (wifi_watch now up c) = ec_out c @ new \<and> Restart \<notin> set new)"
  by (auto simp: wifi_watch_def wifi_services_up_def emit_act_def Let_def)

lemma tail_restart:
  "\<exists>new. ec_out (nd_conf (loop_tail I s)) = ec_out (nd_conf s) @ new
    \<and> (Restart \<in> set new) = (g_restart_at (nd_conf s) \<noteq> 0 \<and> due (li_restart_now I) (g_restart_at (nd_conf s)))"
proof -
  define s1 where "s1 = (if g_ble_enabled (nd_conf s) then in_kbd (type_poll (li_type_now I)) s else s)"
  define s2 where "s2 = ap_portal_poll (mqtt_poll s1)"
  define c3 where "c3 = ble_loop (li_ble_now1 I) (li_ble_now2 I) (is_connected (li_env I)) (nd_conf s2)"
  have t: "nd_conf (loop_tail I s) = restart_poll (li_restart_now I) c3"
    by (simp add: loop_tail_def s1_def s2_def c3_def in_conf_def Let_def)
  have s1: "nd_conf s1 = nd_conf s" by (simp add: s1_def)
  obtain n2 where n2: "ec_out (nd_conf s2) = ec_out (nd_conf s) @ n2" "Restart \<notin> set n2"
    using mqtt_poll_conf [of s1] by (auto simp: s2_def s1)
  obtain n3 where n3: "ec_out c3 = ec_out (nd_conf s2) @ n3" "Restart \<notin> set n3"
    using ble_loop_out unfolding c3_def by blast
  have r: "g_restart_at c3 = g_restart_at (nd_conf s)"
    using mqtt_poll_conf [of s1] by (simp add: c3_def s2_def s1)
  let ?n4 = "if g_restart_at c3 \<noteq> 0 \<and> due (li_restart_now I) (g_restart_at c3) then [Restart] else []"
  have "ec_out (nd_conf (loop_tail I s)) = ec_out (nd_conf s) @ (n2 @ n3 @ ?n4)"
    using n2 n3 by (simp add: t restart_poll_def emit_act_def)
  then show ?thesis using n2 n3 r by (intro exI conjI) auto
qed

text \<open>
  A scheduled restart happens, and not before its time.  After \<open>schedule_restart\<close> at time \<open>t\<close>, which
  erasing the settings ends with, a pass of \<open>loop\<close> without input restarts the board exactly if its clock
  has reached the deadline; the deadline must not fall on 0, which means none.
\<close>
theorem scheduled_restart:
  assumes "nd_conf s = schedule_restart t d c" "t + d \<noteq> 0" "li_request I = None" "li_serial I = []"
  shows "\<exists>s' new. loop_pass I s = Some s' \<and> ec_out (nd_conf s') = ec_out c @ new
    \<and> (Restart \<in> set new) = due (li_restart_now I) (t + d)"
proof -
  let ?s = "ssdp_part I (watch_part I s)"
  have pass: "loop_pass I s = Some (loop_tail I ?s)"
    using assms(3,4) by (simp add: pass_idle idle_in_def)
  obtain n1 where n1: "ec_out (nd_conf ?s) = ec_out c @ n1" "Restart \<notin> set n1"
      "g_restart_at (nd_conf ?s) = t + d"
    using watch_out [of "li_wifi_now I" "li_wifi_up I" "nd_conf s"] assms(1)
    by (auto simp: in_conf_def schedule_restart_def)
  obtain n2 where n2: "ec_out (nd_conf (loop_tail I ?s)) = ec_out (nd_conf ?s) @ n2"
      "(Restart \<in> set n2) = (g_restart_at (nd_conf ?s) \<noteq> 0 \<and> due (li_restart_now I) (g_restart_at (nd_conf ?s)))"
    using tail_restart [of I ?s] by blast
  have "ec_out (nd_conf (loop_tail I ?s)) = ec_out c @ (n1 @ n2)" using n1(1) n2(1) by simp
  moreover have "(Restart \<in> set (n1 @ n2)) = due (li_restart_now I) (t + d)"
    using n1(2,3) n2(2) assms(2) by simp
  ultimately show ?thesis using pass by blast
qed

section \<open>The breathing LED\<close>

lemma unat_widen: "unat (ucast (p :: u16) :: u32) = unat p"
proof -
  have "unat p < 2 ^ 16" using unsigned_less [of p] by simp
  also have "(2 :: nat) ^ 16 < 2 ^ 32" by simp
  finally have "unat p mod 2 ^ 32 = unat p" by (rule mod_less)
  then show ?thesis by (simp only: unsigned_ucast_eq take_bit_eq_mod len_of_numeral_defs) simp
qed

lemma triangle_unat:
  fixes p :: u16
  assumes "unat p < 512"
  shows "unat (if p < 256 then ucast p else 511 - ucast p :: u32) = (if unat p < 256 then unat p else 511 - unat p)"
  using assms by (auto simp: word_less_nat_alt unat_sub word_le_nat_alt unat_widen)

lemma phase_unat: "unat ((p + 5) mod 512 :: u16) = (unat p + 5) mod 512"
proof -
  have "unat ((p + 5) mod 512 :: u16) = ((unat p + 5) mod 65536) mod 512"
    by (simp add: unat_mod unat_word_ariths)
  also have "\<dots> = (unat p + 5) mod 512" by (simp add: mod_mod_cancel)
  finally show ?thesis .
qed

lemma square_duty:
  fixes t :: u32
  assumes "unat t \<le> 255"
  shows "unat (drop_bit 8 (t * t)) = unat t * unat t div 256"
proof -
  have "unat t * unat t \<le> 255 * 255" using assms by (rule mult_le_mono [OF _ assms])
  then have "unat (t * t) = unat t * unat t" by (simp add: unat_word_ariths)
  then show ?thesis by (simp add: drop_bit_eq_div unat_div_distrib)
qed

text \<open>
  C40: The duty of the breathing LED fits its eight bits.  At every poll that is due, the phase moves on by
  five within its 512 steps and the duty is the square of the triangle wave over 256, at most 254, on
  either board: neither the subtraction from 511 nor that from 255 wraps.
\<close>
theorem led_duty_range:
  assumes "due now (lb_next l)"
  defines "p \<equiv> (unat (lb_phase l) + 5) mod 512"
  defines "tri \<equiv> (if p < 256 then p else 511 - p)"
  shows "unat (lb_phase (led_poll b now l)) = p \<and> tri * tri div 256 \<le> 254
    \<and> unat (lb_duty (led_poll b now l)) = (if b = C3 then 255 - tri * tri div 256 else tri * tri div 256)"
proof -
  let ?p = "(lb_phase l + 5) mod 512"
  let ?t = "if ?p < 256 then ucast ?p else 511 - ucast ?p :: u32"
  have p: "unat ?p = p" by (simp add: p_def phase_unat)
  have "p < 512" by (simp add: p_def)
  then have t: "unat ?t = tri" using triangle_unat [of ?p] unfolding p tri_def by blast
  have tri: "tri \<le> 255" using \<open>p < 512\<close> unfolding tri_def by (cases "p < 256") simp_all
  then have "tri * tri \<le> 255 * 255" by (rule mult_le_mono [OF _ tri])
  then have small: "tri * tri div 256 \<le> 254" by simp
  have d: "unat (drop_bit 8 (?t * ?t)) = tri * tri div 256" using square_duty [of ?t] t tri by simp
  then have "drop_bit 8 (?t * ?t) \<le> 255" using small by (simp add: word_le_nat_alt)
  then have "unat (255 - drop_bit 8 (?t * ?t)) = 255 - tri * tri div 256" using d by (simp add: unat_sub)
  then show ?thesis using assms(1) p d small
    by (cases b) (simp_all add: led_poll_def Let_def LED_BREATH_ACTIVE_LOW_def)
qed

section \<open>Provisioning\<close>

lemma portal_start_conf [simp]: "nd_conf (ap_portal_start s) = nd_conf s" "nd_conf (ap_emit as s) = nd_conf s"
  by (simp_all add: ap_portal_start_def ap_emit_def Let_def)

lemma button_conf [simp]: "nd_conf (snd (ap_portal_check_button start rounds s)) = nd_conf s"
proof -
  have "nd_conf (snd (ap_button_loop start rounds s)) = nd_conf s"
    by (induction start rounds s rule: ap_button_loop.induct) (simp_all add: Let_def)
  then show ?thesis by (simp add: ap_portal_check_button_def)
qed

lemma by_hw_conf [simp]: "nd_conf (snd (by_hw f s)) = nd_conf s" "nd_conf (in_hw g s) = nd_conf s"
  by (simp_all add: by_hw_def in_hw_def split: prod.splits)

text \<open>The networks that the board has asked the radio to join.\<close>

fun is_join :: "esp_act \<Rightarrow> bool" where
  "is_join (Wifi_begin n p) = True"
| "is_join _ = False"

definition joins :: "esp_conf \<Rightarrow> esp_act list" where
  "joins c = filter is_join (ec_out c)"

lemma joins_keep:
  "joins (wifi_services_up c) = joins c" "joins (rathole_init ok (ble_init_adv bonds c)) = joins c"
proof -
  show "joins (wifi_services_up c) = joins c"
    by (simp add: joins_def wifi_services_up_def emit_act_def Let_def)
  have part: "ec_out (conf_part d) = ec_out d" for d :: esp_conf
    by (simp add: conf_part_def)
  have "ec_out (rathole_init ok d) = ec_out d" for d :: esp_conf
    using part [of "rathole_init ok d"] part [of d] by simp
  then show "joins (rathole_init ok (ble_init_adv bonds c)) = joins c"
    by (simp add: joins_def ble_init_adv_def emit_act_def)
qed

lemma setup_joins:
  "joins (nd_conf (esp_setup E mac ssid pw start rounds ups bonds m))
     = [Wifi_begin (nvs_get ''wifi_ssid'' ssid m) (nvs_get ''wifi_pass'' pw m)]"
proof -
  define c where "c = load_config mac ssid pw (esp_zero m)"
  let ?join = "Wifi_begin (nvs_get ''wifi_ssid'' ssid m) (nvs_get ''wifi_pass'' pw m)"
  have c: "ec_out c = []" "g_wifi_ssid c = nvs_get ''wifi_ssid'' ssid m" "g_wifi_pass c = nvs_get ''wifi_pass'' pw m"
    by (simp_all add: c_def load_config_def esp_zero_def Let_def)
  define d where "d = emit_act [?join] c"
  define d' where "d' = (if boot_connected 0 ups then wifi_services_up d else d)"
  have "joins d = [?join]" by (simp add: d_def c emit_act_def joins_def)
  then have "joins (rathole_init (ne_task E) (ble_init_adv bonds d')) = [?join]"
    unfolding joins_keep by (simp add: d'_def joins_keep)
  moreover have "nd_conf (esp_setup E mac ssid pw start rounds ups bonds m)
      = rathole_init (ne_task E) (ble_init_adv bonds d')"
    by (simp add: esp_setup_def in_conf_def node_zero_def Let_def d'_def d_def c_def [symmetric] c)
  ultimately show ?thesis by simp
qed

text \<open>
  C31: Provisioning works.  If NVS keeps what is written, then saving a non-empty network name on the
  portal's page restarts the board, and in its start-up the restarted board asks to join one network, exactly
  the one that was entered with the password that was entered, whatever was configured before, whatever
  the defaults compiled in, and whether or not the button is held again.  (The mode of the radio and the
  access point that a held button starts are set before that; they join no network.)
\<close>
theorem portal_provisions:
  fixes s :: esp_node and E :: node_env and r :: http_req
  assumes "nvs_stores (ne_nvs E)" "http_arg r ''ssid'' \<noteq> []"
  defines "s' \<equiv> snd (handle_save E r s)"
  shows "last (ec_out (nd_conf s')) = Restart
    \<and> joins (nd_conf (esp_setup E' mac ssid pw start rounds ups bonds (nvs (nd_conf s'))))
      = [Wifi_begin (http_arg r ''ssid'') (http_arg r ''pass'')]"
proof -
  have "nvs_get ''wifi_ssid'' ssid (nvs (nd_conf s')) = http_arg r ''ssid''"
      "nvs_get ''wifi_pass'' pw (nvs (nd_conf s')) = http_arg r ''pass''"
      "last (ec_out (nd_conf s')) = Restart"
    using assms(1,2)
    by (simp_all add: s'_def handle_save_def in_conf_def save_config_def emit_act_def nvs_stores_def nvs_get_def Let_def)
  then show ?thesis using setup_joins by metis
qed

text \<open>
  The access point started by the button at power-on does not survive the start-up.  \<open>setup\<close> ignores
  that the button was seen and sets the radio to station mode afterwards: the last thing asked of the
  radio's mode is \<open>Sta_mode\<close>, while the portal believes the access point is up, so that
  asking for it again changes nothing.
\<close>
theorem button_portal_lost:
  fixes E :: node_env and rounds :: "(u32 \<times> bool \<times> bool) list" and ups :: "bool list"
    and bonds :: "string list" and mac :: u16 and ssid pw :: string and m :: "string \<Rightarrow> string option"
  assumes "now - start < 3000"
  defines "s \<equiv> esp_setup E mac ssid pw start ((now, True, True) # rounds) ups bonds m"
  shows "nd_ap s \<and> last (nd_ap_out s) = Sta_mode \<and> Ap_mode (nd_ap_ssid s) AP_PASSWORD \<in> set (nd_ap_out s)
    \<and> ap_portal_start s = s"
proof -
  define s0 where "s0 = in_conf (load_config mac ssid pw) (node_zero (esp_zero m))"
  define s1 where "s1 = snd (ap_portal_check_button start ((now, True, True) # rounds) s0)"
  have z: "\<not> nd_ap s0" by (simp add: s0_def in_conf_def node_zero_def)
  have s1: "s1 = ap_portal_start (ap_emit [Delay_ms 50] s0)"
    using assms(1) by (simp add: s1_def ap_portal_check_button_def Let_def)
  have ap: "nd_ap s1" "Ap_mode (nd_ap_ssid s1) AP_PASSWORD \<in> set (nd_ap_out s1)"
    using z by (simp_all add: s1 ap_portal_start_def ap_emit_def Let_def)
  have s: "nd_ap s = nd_ap s1" "nd_ap_ssid s = nd_ap_ssid s1" "nd_ap_out s = nd_ap_out s1 @ [Sta_mode]"
    unfolding s_def esp_setup_def s0_def [symmetric] s1_def [symmetric] Let_def
    by (simp_all add: in_conf_def by_hw_def in_hw_def ap_emit_def split: prod.splits)
  then show ?thesis using ap by (simp add: ap_portal_start_def)
qed

section \<open>At concrete inputs\<close>

definition demo_loop :: loop_in where
  "demo_loop = \<lparr>li_env = demo_board, li_watch_env = demo_board, li_wifi_now = 40000, li_wifi_up = False,
     li_request = None, li_ssdp_up = False, li_ssdp_now1 = 40000, li_ssdp_now2 = 40000, li_packet = None, li_serial = [],
     li_type_now = 40000, li_ble_now1 = 40000, li_ble_now2 = 40000, li_led_now = 40000, li_restart_now = 40600\<rparr>"

text \<open>The link goes down at 20 s, and is looked at again at 30 s and 36 s.\<close>

theorem wifi_tried_again_witness:
  "\<exists>new. ec_out (link_down [20000, 30000, 36000] (demo_conf\<lparr>g_wifi_lost_at := 0\<rparr>)) = ec_out demo_conf @ new
    \<and> Wifi_begin (g_wifi_ssid demo_conf) (g_wifi_pass demo_conf) \<in> set new"
  using wifi_tried_again [of "demo_conf\<lparr>g_wifi_lost_at := 0\<rparr>" 20000 36000 "[30000]"] by simp

theorem scheduled_restart_witness:
  "\<exists>s' new. loop_pass demo_loop (node_zero (schedule_restart 40000 500 demo_conf)) = Some s'
    \<and> ec_out (nd_conf s') = ec_out demo_conf @ new \<and> Restart \<in> set new"
proof -
  have "due (li_restart_now demo_loop) (40000 + 500)" by (simp add: due_def demo_loop_def)
  then show ?thesis
    using scheduled_restart [of "node_zero (schedule_restart 40000 500 demo_conf)" 40000 500 demo_conf demo_loop]
    by (simp add: node_zero_def demo_loop_def)
qed

theorem led_duty_range_witness:
  "unat (lb_duty (led_poll C3 100 \<lparr>lb_next = 90, lb_phase = 250, lb_duty = 0\<rparr>)) = 255 - 255 * 255 div 256"
  using led_duty_range [of 100 "\<lparr>lb_next = 90, lb_phase = 250, lb_duty = 0\<rparr>" C3] by (simp add: due_def)

definition demo_save :: http_req where
  "demo_save = [(''ssid'', ''attic''), (''pass'', ''correct horse'')]"

theorem portal_provisions_witness:
  "joins (nd_conf (esp_setup demo_board 1 ''home'' ''hunter2'' 0 [(0, False, False)] [True] []
        (nvs (nd_conf (snd (handle_save demo_board demo_save demo_node))))))
     = [Wifi_begin ''attic'' ''correct horse'']"
  using portal_provisions [of demo_board demo_save demo_node demo_board 1 "''home''" "''hunter2''" 0
      "[(0, False, False)]" "[True]" "[]"]
  by (simp add: demo_board_def demo_write_stores demo_save_def http_arg_def)

theorem button_portal_lost_witness:
  "last (nd_ap_out (esp_setup demo_board 1 ''home'' ''hunter2'' 0 [(5, True, True)] [True] [] (\<lambda>k. None))) = Sta_mode"
  using button_portal_lost [of 5 0 demo_board 1 "''home''" "''hunter2''" "[]" "[True]" "[]" "\<lambda>k. None"] by simp

end
