(* ===== verification/Esp_Ssdp_Spec.thy ===== *)
theory Esp_Ssdp_Spec
  imports Esp_Loop
begin

text \<open>
  What discovery promises: the messages fit their buffers, exactly the searches for this board are
  answered; and that a short loss of the link can silence the board for good.
\<close>

section \<open>The messages fit\<close>

lemma length_ssdp_uuid: "length mac = 6 \<Longrightarrow> length (ssdp_uuid mac) = 41"
  by (auto simp: ssdp_uuid_def length_concat comp_def sum_list_triv)

lemma length_texts:
  "length (alive_text ip uuid) = 225 + length ip + length uuid"
  "length (answer_text ip uuid) = 184 + length ip + length uuid"
  by (simp_all add: alive_text_def answer_text_def crlf_def SSDP_MCAST_def SSDP_PORT_def dec_nat.simps digit_char_def)

datatype ssdp_event =
    Ss_begin bool "u8 list" string u32 | Ss_stop
  | Ss_pass bool string u32 u32 "(string \<times> nat \<times> string) option"

fun ssdp_step :: "ssdp_event \<Rightarrow> ssdp \<Rightarrow> ssdp" where
  "ssdp_step (Ss_begin up mac ip now) s = ssdp_begin up mac ip now s"
| "ssdp_step Ss_stop s = ssdp_stop s"
| "ssdp_step (Ss_pass up ip now now' packet) s = ssdp_loop up ip now now' packet s"

text \<open>A MAC address has six bytes, the text of an IPv4 address at most fifteen characters.\<close>

fun ssdp_event_ok :: "ssdp_event \<Rightarrow> bool" where
  "ssdp_event_ok (Ss_begin up mac ip now) = (length mac = 6 \<and> length ip \<le> 15)"
| "ssdp_event_ok Ss_stop = True"
| "ssdp_event_ok (Ss_pass up ip now now' packet) = (length ip \<le> 15)"

definition in_bounds :: "ssdp \<Rightarrow> bool" where
  "in_bounds s = (length (ss_uuid s) < 48 \<and> \<not> ss_oob s)"

lemma in_bounds_updates [simp]:
  "in_bounds (ssdp_emit os s) = in_bounds s" "in_bounds (s\<lparr>ss_active := a\<rparr>) = in_bounds s"
  "in_bounds (s\<lparr>ss_last_alive := t\<rparr>) = in_bounds s"
  by (simp_all add: in_bounds_def ssdp_emit_def)

lemma notify_fits: "in_bounds s \<Longrightarrow> length ip \<le> 15 \<Longrightarrow> in_bounds (notify_alive ip s)"
  by (simp add: notify_alive_def udp_send_def in_bounds_def ssdp_emit_def length_texts)

lemma answer_fits: "in_bounds s \<Longrightarrow> length ip \<le> 15 \<Longrightarrow> in_bounds (ssdp_answer ip packet s)"
  by (simp add: ssdp_answer_def udp_send_def in_bounds_def ssdp_emit_def length_texts split: option.split)

lemma alive_times_fits: "in_bounds s \<Longrightarrow> length ip \<le> 15 \<Longrightarrow> in_bounds (alive_times n ip s)"
  by (induction n arbitrary: s) (simp_all add: notify_fits)

lemma ssdp_step_fits: "in_bounds s \<Longrightarrow> ssdp_event_ok e \<Longrightarrow> in_bounds (ssdp_step e s)"
proof (cases e)
  case (Ss_begin up mac ip now)
  assume s: "in_bounds s" "ssdp_event_ok e"
  then have "in_bounds (ssdp_emit [Ss_route, Ss_multicast] (s\<lparr>ss_uuid := ssdp_uuid mac\<rparr>))"
    by (simp add: Ss_begin in_bounds_def length_ssdp_uuid ssdp_emit_def)
  then show ?thesis using s alive_times_fits by (simp add: Ss_begin ssdp_begin_def)
qed (simp_all add: ssdp_stop_def ssdp_loop_def answer_fits notify_fits)

text \<open>
  Discovery messages never overrun their buffers.  From power-on, through any starts, stops and
  passes of \<open>loop\<close> with any packets received, the identifier fits its 48 characters and every announcement
  and answer its 512 bytes, so that \<open>snprintf\<close> never reports more than it wrote and no byte beyond
  the message is sent; the addresses are those of six bytes and of at most fifteen characters.
\<close>
theorem ssdp_messages_fit:
  assumes "list_all ssdp_event_ok es"
  shows "\<not> ss_oob (fold ssdp_step es ssdp_zero) \<and> length (ss_uuid (fold ssdp_step es ssdp_zero)) < 48"
proof -
  have "in_bounds s \<Longrightarrow> list_all ssdp_event_ok es \<Longrightarrow> in_bounds (fold ssdp_step es s)" for s
    by (induction es arbitrary: s) (simp_all add: ssdp_step_fits)
  then have "in_bounds (fold ssdp_step es ssdp_zero)" using assms by (simp add: in_bounds_def ssdp_zero_def)
  then show ?thesis by (simp add: in_bounds_def)
qed

section \<open>Answers\<close>

lemma find_sub_some:
  assumes "p \<noteq> []"
  shows "find_sub p s \<noteq> None \<longleftrightarrow> (\<exists>a b. s = a @ p @ b)"
proof
  assume "find_sub p s \<noteq> None"
  then obtain j where "starts_with p (drop j s)" unfolding find_sub_None [OF assms] by blast
  then obtain t where "drop j s = p @ t" unfolding starts_with_iff by blast
  then have "s = take j s @ p @ t" by (metis append_take_drop_id)
  then show "\<exists>a b. s = a @ p @ b" by blast
next
  assume "\<exists>a b. s = a @ p @ b"
  then obtain a b where "s = a @ p @ b" by blast
  then have "starts_with p (drop (length a) s)" by simp
  then show "find_sub p s \<noteq> None" unfolding find_sub_None [OF assms] by blast
qed

lemma wants_us_iff:
  assumes "length data < 512" "NUL \<notin> set data"
  shows "wants_us data = (\<exists>rest a b target. data = ''M-SEARCH'' @ rest \<and> data = a @ target @ b
    \<and> target \<in> {''ssdp:all'', ''upnp:rootdevice'', ''Basic:1''})"
proof -
  have "takeWhile (\<lambda>c. c \<noteq> NUL) data = data" unfolding takeWhile_eq_all_conv using assms(2) by metis
  then have c: "cstr_at (take 511 data) 0 = data" using assms(1) by (simp add: cstr_at_def)
  have names: "find_sub ''ssdp:all'' data \<noteq> None \<longleftrightarrow> (\<exists>a b. data = a @ ''ssdp:all'' @ b)"
      "find_sub ''upnp:rootdevice'' data \<noteq> None \<longleftrightarrow> (\<exists>a b. data = a @ ''upnp:rootdevice'' @ b)"
      "find_sub ''Basic:1'' data \<noteq> None \<longleftrightarrow> (\<exists>a b. data = a @ ''Basic:1'' @ b)"
    by (rule find_sub_some, simp)+
  show ?thesis unfolding wants_us_def Let_def c names starts_with_iff by blast
qed

text \<open>
  A search gets one answer, to its sender, exactly if it is for this board.  In a pass with the link
  up and no renewal due, a packet that fits the buffer and has no NUL is answered if and only if it begins
  with \<open>M-SEARCH\<close> and contains one of the three targets; nothing else is sent, and no other
  state changes.
\<close>
theorem ssdp_answers_searches:
  assumes "ss_active s" "length (ss_uuid s) < 48" "length ip \<le> 15" "now - ss_last_alive s \<le> 900000"
    and "length data < 512" "NUL \<notin> set data"
  shows "ssdp_loop True ip now now' (Some (addr, port, data)) s =
    (if (\<exists>rest a b target. data = ''M-SEARCH'' @ rest \<and> data = a @ target @ b
            \<and> target \<in> {''ssdp:all'', ''upnp:rootdevice'', ''Basic:1''})
      then ssdp_emit [Ss_send addr port (answer_text ip (ss_uuid s))] s else s)"
proof -
  have "\<not> wants_us []" by (simp add: wants_us_def starts_with_def cstr_at_def)
  then show ?thesis unfolding wants_us_iff [OF assms(5,6), symmetric]
    using assms(1-4) by (auto simp: ssdp_loop_def ssdp_answer_def udp_send_def ssdp_emit_def length_texts not_less)
qed

section \<open>Driven by the sketch\<close>

lemma polls_net [simp]:
  "g_wifi_ready (ble_loop n1 n2 up c) = g_wifi_ready c" "g_http_enabled (ble_loop n1 n2 up c) = g_http_enabled c"
  "g_wifi_ready (restart_poll now c) = g_wifi_ready c" "g_http_enabled (restart_poll now c) = g_http_enabled c"
  "g_wifi_ready (nd_conf (mqtt_poll s)) = g_wifi_ready (nd_conf s)"
  "g_http_enabled (nd_conf (mqtt_poll s)) = g_http_enabled (nd_conf s)"
  by (simp_all add: ble_defs restart_poll_def mqtt_poll_def in_conf_def emit_act_def Let_def)

lemma tail_net [simp]:
  "g_wifi_ready (nd_conf (loop_tail I s)) = g_wifi_ready (nd_conf s)"
  "g_http_enabled (nd_conf (loop_tail I s)) = g_http_enabled (nd_conf s)"
  "nd_ssdp (loop_tail I s) = nd_ssdp s"
proof -
  have f: "nd_conf (in_conf g u) = g (nd_conf u)" "nd_ssdp (in_conf g u) = nd_ssdp u"
    "nd_ssdp (mqtt_poll u) = nd_ssdp u" "nd_ssdp (ap_portal_poll u) = nd_ssdp u" "nd_ssdp (in_kbd h u) = nd_ssdp u"
    "nd_conf (u\<lparr>nd_led := l\<rparr>) = nd_conf u" for g h u l
    by (simp_all add: in_conf_def in_kbd_def mqtt_poll_def ap_portal_poll_def ap_emit_def)
  show "g_wifi_ready (nd_conf (loop_tail I s)) = g_wifi_ready (nd_conf s)"
    "g_http_enabled (nd_conf (loop_tail I s)) = g_http_enabled (nd_conf s)"
    "nd_ssdp (loop_tail I s) = nd_ssdp s"
    by (simp_all add: loop_tail_def f Let_def)
qed

text \<open>While the link stays up, an idle pass makes no call of discovery.\<close>

lemma pass_up:
  assumes "idle_in I" "li_wifi_up I" "g_wifi_ready (nd_conf s)"
  shows "\<exists>t. loop_pass I s = Some t \<and> g_wifi_ready (nd_conf t) \<and> g_http_enabled (nd_conf t) = g_http_enabled (nd_conf s)
    \<and> nd_ssdp t = ssdp_loop (li_ssdp_up I) (ne_ip (li_env I)) (li_ssdp_now1 I) (li_ssdp_now2 I) (li_packet I) (nd_ssdp s)"
proof -
  have w: "wifi_watch (li_wifi_now I) (li_wifi_up I) (nd_conf s) = (nd_conf s)\<lparr>g_wifi_lost_at := 0\<rparr>"
    using assms(2,3) by (simp add: wifi_watch_def Let_def)
  have "nd_ssdp (watch_part I s) = nd_ssdp s"
    by (simp add: watch_part_def ssdp_calls_def in_conf_def w)
  then show ?thesis using assms pass_idle [OF assms(1), of s] w by (simp add: ssdp_part_def)
qed

lemma quiet_run:
  assumes "\<forall>I\<in>set Is. idle_in I \<and> li_wifi_up I" "g_wifi_ready (nd_conf s)" "\<not> ss_active (nd_ssdp s)"
  shows "\<exists>t. loop_run Is s = Some t \<and> g_wifi_ready (nd_conf t) \<and> g_http_enabled (nd_conf t) = g_http_enabled (nd_conf s)
    \<and> nd_ssdp t = nd_ssdp s"
  using assms
proof (induction Is arbitrary: s)
  case (Cons I Is)
  then obtain u where u: "loop_pass I s = Some u" "g_wifi_ready (nd_conf u)"
      "g_http_enabled (nd_conf u) = g_http_enabled (nd_conf s)" "nd_ssdp u = nd_ssdp s"
    using pass_up [of I s] by (auto simp: ssdp_loop_def)
  then show ?case using Cons.IH [of u] Cons.prems by simp
qed simp

text \<open>
  A loss of the link that only discovery sees silences the board for good.  If in one pass of \<open>loop\<close> the
  watchdog still finds the link up and \<open>ssdp_loop\<close> finds it down, discovery is stopped; as the watchdog
  never saw the loss, no later pass with the link up starts it again, though the HTTP server stays
  enabled and the link stays up: searches are no longer answered and nothing is announced.
\<close>
theorem discovery_lost_after_flap:
  assumes "g_wifi_ready (nd_conf s)" "g_http_enabled (nd_conf s)" "ss_active (nd_ssdp s)"
    and "idle_in I" "li_wifi_up I" "\<not> li_ssdp_up I" "\<forall>J\<in>set Is. idle_in J \<and> li_wifi_up J"
  shows "\<exists>t. loop_run (I # Is) s = Some t \<and> g_wifi_ready (nd_conf t) \<and> g_http_enabled (nd_conf t)
    \<and> \<not> ss_active (nd_ssdp t) \<and> ss_log (nd_ssdp t) = ss_log (nd_ssdp s) @ [Ss_udp_stop]"
proof -
  obtain u where u: "loop_pass I s = Some u" "g_wifi_ready (nd_conf u)" "g_http_enabled (nd_conf u)"
      "nd_ssdp u = ssdp_stop (nd_ssdp s)"
    using pass_up [OF assms(4,5,1)] assms(2,3,6) by (auto simp: ssdp_loop_def)
  have off: "\<not> ss_active (nd_ssdp u)" by (simp add: u(4) ssdp_stop_def ssdp_emit_def)
  obtain t where t: "loop_run Is u = Some t" "g_wifi_ready (nd_conf t)" "g_http_enabled (nd_conf t)"
      "nd_ssdp t = nd_ssdp u"
    using quiet_run [OF assms(7) u(2) off] u(3) by auto
  then show ?thesis using u assms(3) off by (simp add: ssdp_stop_def ssdp_emit_def)
qed

section \<open>At concrete inputs\<close>

definition demo_mac :: "u8 list" where
  "demo_mac = [2, 0, 0, 0, 0, 1]"

definition demo_ssdp :: ssdp where
  "demo_ssdp = \<lparr>ss_uuid = ssdp_uuid demo_mac, ss_active = True, ss_last_alive = 1000, ss_log = [], ss_oob = False\<rparr>"

definition demo_search :: string where
  "demo_search = ''M-SEARCH * ssdp:all''"

theorem ssdp_messages_fit_witness:
  "\<not> ss_oob (fold ssdp_step [Ss_begin True demo_mac ''192.168.1.7'' 1000,
      Ss_pass True ''192.168.1.7'' 2000000 2000000 (Some (''192.168.1.2'', 50000, demo_search)), Ss_stop] ssdp_zero)"
  by (rule ssdp_messages_fit [THEN conjunct1]) (simp add: demo_mac_def)

theorem ssdp_answers_searches_witness:
  "ssdp_loop True ''192.168.1.7'' 2000 2000 (Some (''192.168.1.2'', 50000, demo_search)) demo_ssdp =
    ssdp_emit [Ss_send ''192.168.1.2'' 50000 (answer_text ''192.168.1.7'' (ssdp_uuid demo_mac))] demo_ssdp"
proof -
  have "demo_search = ''M-SEARCH'' @ '' * ssdp:all'' \<and> demo_search = ''M-SEARCH * '' @ ''ssdp:all'' @ []"
    by (simp add: demo_search_def)
  then have "\<exists>rest a b target. demo_search = ''M-SEARCH'' @ rest \<and> demo_search = a @ target @ b
      \<and> target \<in> {''ssdp:all'', ''upnp:rootdevice'', ''Basic:1''}"
    by blast
  moreover have "length (ss_uuid demo_ssdp) < 48" "ss_active demo_ssdp" "2000 - ss_last_alive demo_ssdp \<le> 900000"
      "ss_uuid demo_ssdp = ssdp_uuid demo_mac"
    by (simp_all add: demo_ssdp_def length_ssdp_uuid demo_mac_def)
  ultimately show ?thesis
    using ssdp_answers_searches [of demo_ssdp "''192.168.1.7''" 2000 demo_search 2000 "''192.168.1.2''" 50000]
    by (simp add: demo_search_def)
qed

definition demo_idle :: "bool \<Rightarrow> loop_in" where
  "demo_idle up = demo_loop\<lparr>li_wifi_up := True, li_ssdp_up := up\<rparr>"

theorem discovery_lost_after_flap_witness:
  "\<exists>t. loop_run [demo_idle False, demo_idle True]
      (demo_node\<lparr>nd_conf := demo_conf\<lparr>g_wifi_ready := True, g_http_enabled := True\<rparr>, nd_ssdp := demo_ssdp\<rparr>) = Some t
    \<and> \<not> ss_active (nd_ssdp t)"
proof -
  let ?s = "demo_node\<lparr>nd_conf := demo_conf\<lparr>g_wifi_ready := True, g_http_enabled := True\<rparr>, nd_ssdp := demo_ssdp\<rparr>"
  have "\<forall>J\<in>set [demo_idle True]. idle_in J \<and> li_wifi_up J" "idle_in (demo_idle False)"
    by (simp_all add: demo_idle_def demo_loop_def idle_in_def)
  moreover have "g_wifi_ready (nd_conf ?s)" "g_http_enabled (nd_conf ?s)" "ss_active (nd_ssdp ?s)"
    by (simp_all add: demo_ssdp_def)
  moreover have "li_wifi_up (demo_idle False)" "\<not> li_ssdp_up (demo_idle False)"
    by (simp_all add: demo_idle_def)
  ultimately have "\<exists>t. loop_run [demo_idle False, demo_idle True] ?s = Some t \<and> g_wifi_ready (nd_conf t)
      \<and> g_http_enabled (nd_conf t) \<and> \<not> ss_active (nd_ssdp t)
      \<and> ss_log (nd_ssdp t) = ss_log (nd_ssdp ?s) @ [Ss_udp_stop]"
    by (intro discovery_lost_after_flap)
  then show ?thesis by (elim exE conjE) (intro exI conjI)
qed

end
