(* ===== verification/Kb_Flush.thy ===== *)
theory Kb_Flush
  imports Kb_Play
begin

text \<open>
  The router's promise for one report, link by link: the log of a flush is cut into one part for
  each slot and the USB report, and each part is compared with what the radio stack answered.
\<close>

section \<open>Answers of the stack\<close>

text \<open>The answers of the stack to the notifications in a piece \<open>as\<close> of the log that follows \<open>L\<close>.\<close>

fun answers :: "env \<Rightarrow> act list \<Rightarrow> act list \<Rightarrow> u8 list" where
  "answers E L [] = []"
| "answers E L (a # as) =
     (if is_notification a then [stat E L a] else []) @ answers E (L @ [a]) as"

lemma answers_append: "answers E L (as @ bs) = answers E L as @ answers E (L @ as) bs"
  by (induction as arbitrary: L) simp_all

lemma answers_none: "(\<forall>a\<in>set as. \<not> is_notification a) \<Longrightarrow> answers E L as = []"
  by (induction as arbitrary: L) simp_all

lemma length_answers: "length (answers E L as) = length (filter is_notification as)"
  by (induction as arbitrary: L) simp_all

text \<open>The answers after which the router tries again.\<close>

definition again :: "u8 \<Rightarrow> bool" where
  "again x = (x = blePending \<or> x = bleMemAllocError)"

lemma again_values [simp]:
  "\<not> again SUCCESS" "\<not> again bleNotReady" "\<not> again bleNoResources" "again bleMemAllocError"
  by (simp_all add: again_def blePending_def bleMemAllocError_def bleNotReady_def bleNoResources_def)

lemma status_distinct [simp]:
  "SUCCESS \<noteq> bleNotReady" "bleNoResources \<noteq> SUCCESS" "bleNoResources \<noteq> bleNotReady"
  "bleMemAllocError \<noteq> SUCCESS" "bleMemAllocError \<noteq> bleNotReady" "bleNotReady \<noteq> SUCCESS"
  by (simp_all add: bleMemAllocError_def bleNotReady_def bleNoResources_def)

text \<open>The link of a slot can take the key report after the log \<open>L\<close>: secure, subscribed, a buffer free.\<close>

definition link_ready :: "env \<Rightarrow> 'a slots_state_scheme \<Rightarrow> nat \<Rightarrow> act list \<Rightarrow> bool" where
  "link_ready E s i L =
     (let c = c_handle (kbd_conns s ! i) in
      \<exists>r. input_report_open E c BLE_HID_RPT_ID_KEY_IN BLE_HID_REPORT_TYPE_INPUT (s\<lparr>outs := L\<rparr>) r \<and>
          bm_alloc E L c 8)"

text \<open>A key report with the bytes \<open>d\<close> to the link of slot \<open>i\<close>.\<close>

definition key_notification :: "'a slots_state_scheme \<Rightarrow> nat \<Rightarrow> u8 list \<Rightarrow> act \<Rightarrow> bool" where
  "key_notification s i d a =
     (\<exists>r. hidDevRptById BLE_HID_RPT_ID_KEY_IN BLE_HID_REPORT_TYPE_INPUT s = Some r \<and>
          a = Notification (c_handle (kbd_conns s ! i)) (rpt_handle r) d)"

section \<open>One attempt\<close>

text \<open>
  The attempts at one report: \<open>as\<close> is what they add to the log, \<open>st\<close> the status of the last.
\<close>

definition attempts :: "env \<Rightarrow> 'a slots_state_scheme \<Rightarrow> nat \<Rightarrow> u8 list \<Rightarrow> nat \<Rightarrow> u8 \<Rightarrow> act list \<Rightarrow> bool" where
  "attempts E s i d n st as =
     (let sec = ble_hid_dev_conn_secure E (c_handle (kbd_conns s ! i)) s; xs = answers E (outs s) as in
      (\<forall>a\<in>set as. is_notification a \<longrightarrow> key_notification s i d a) \<and> (\<forall>b. UsbReport b \<notin> set as) \<and>
      length xs \<le> n \<and> (\<forall>x\<in>set (butlast xs). again x) \<and> (xs \<noteq> [] \<longrightarrow> sec) \<and>
      (st = SUCCESS) = (SUCCESS \<in> set xs) \<and>
      (st = bleNotReady) = (bleNotReady \<in> set xs \<or> \<not> sec) \<and>
      (link_ready E s i (outs s) \<longrightarrow> xs \<noteq> []) \<and>
      ((\<forall>bs. link_ready E s i (outs s @ bs)) \<longrightarrow> length xs = n \<or> \<not> again (last xs)))"

lemma secure_log [simp]:
  "ble_hid_dev_conn_secure E c (s\<lparr>outs := L\<rparr>) = ble_hid_dev_conn_secure E c s"
  by (rule secure_view) (simp add: link_view_def)

lemma rpt_log [simp]: "hidDevRptById i t (s\<lparr>outs := L\<rparr>) = hidDevRptById i t s"
  by (simp add: hidDevRptById_def)

lemma length_report_bytes [simp]: "length (report_bytes m k c) = 8"
  by (simp add: report_bytes_def)

lemma one_attempt:
  assumes "kb_slot_up E i s" "kb_ble_send_report_slot E i m k c s = (st, s')"
  shows "\<exists>as. s' = s\<lparr>outs := outs s @ as\<rparr> \<and> attempts E s i (report_bytes m k c) 1 st as \<and>
    (again st \<longrightarrow> (\<forall>x\<in>set (answers E (outs s) as). again x)) \<and> 
    (answers E (outs s) as \<noteq> [] \<longrightarrow> answers E (outs s) as = [st])"
proof -
  let ?h = "c_handle (kbd_conns s ! i)" and ?d = "report_bytes m k c"
  show ?thesis
  proof (cases "ble_hid_dev_conn_secure E ?h s")
    case False
    then have "kb_ble_send_report_slot E i m k c s = (bleNotReady,
        (if hiddev_conn_count E s = 0 \<and> hidDevGapState s \<noteq> GAPROLE_ADVERTISING
         then if bond_count E (outs s) > 0 then hidDevHighAdvertising s else hidDevInitialAdvertising s
         else s))"
      using assms(1) by (auto simp: kb_ble_send_report_slot_def ble_hid_dev_report_def
          ble_hid_dev_conn_secure_def Let_def)
    then have e: "st = bleNotReady" "s' =
        (if hiddev_conn_count E s = 0 \<and> hidDevGapState s \<noteq> GAPROLE_ADVERTISING
         then if bond_count E (outs s) > 0 then hidDevHighAdvertising s else hidDevInitialAdvertising s
         else s)"
      unfolding assms(2) by simp_all
    have "s' \<in> {hidDevHighAdvertising s, hidDevInitialAdvertising s, s}" unfolding e(2) by simp
    then obtain as where as: "s' = s\<lparr>outs := outs s @ as\<rparr>" "\<forall>a\<in>set as. \<not> is_notification a" "\<forall>b. UsbReport b \<notin> set as"
    proof (elim insertE)
      assume "s' = hidDevHighAdvertising s"
      then show thesis
        by (intro that [of "[GapParam TGAP_DISC_ADV_INT_MIN 32, GapParam TGAP_DISC_ADV_INT_MAX 48,
          GapParam TGAP_LIM_ADV_TIMEOUT 5, GapSet GAPROLE_ADVERT_ENABLED [1]]"])
        (simp_all add: hidDevHighAdvertising_def hid_advertising_def emit_def)
    next
      assume "s' = hidDevInitialAdvertising s"
      then show thesis
        by (intro that [of "[GapParam TGAP_DISC_ADV_INT_MIN 48, GapParam TGAP_DISC_ADV_INT_MAX 80,
          GapParam TGAP_LIM_ADV_TIMEOUT 60, GapSet GAPROLE_ADVERT_ENABLED [1]]"])
        (simp_all add: hidDevInitialAdvertising_def hid_advertising_def emit_def)
    next
      assume "s' = s"
      then show thesis by (intro that [of "[]"]) simp_all
    qed simp
    have "\<not> link_ready E s i (outs s)" using False by (simp add: link_ready_def input_report_open_def)
    moreover have "(\<forall>bs. link_ready E s i (outs s @ bs)) \<longrightarrow> P" for P using calculation by (metis append_Nil2)
    ultimately show ?thesis using as e(1) False by (intro exI [of _ as]) (simp add: attempts_def answers_none)
  next
    case sec: True
    then have r: "hidDevSendReport E ?h BLE_HID_RPT_ID_KEY_IN BLE_HID_REPORT_TYPE_INPUT ?d s = (st, s')"
      using assms by (auto simp: kb_ble_send_report_slot_def ble_hid_dev_report_def
          ble_hid_dev_conn_secure_def Let_def split: if_splits)
    show ?thesis
    proof (cases "\<exists>r. input_report_open E ?h BLE_HID_RPT_ID_KEY_IN BLE_HID_REPORT_TYPE_INPUT s r")
      case False
      then have e: "st = bleNoResources" "s' = s"
        using r sec by (auto simp: hidDevSendReport_def input_report_open_def split: option.splits if_splits)
      have "\<not> link_ready E s i (outs s)" using False by (simp add: link_ready_def Let_def)
      moreover have "(\<forall>bs. link_ready E s i (outs s @ bs)) \<longrightarrow> P" for P using calculation by (metis append_Nil2)
      ultimately show ?thesis using e sec by (intro exI [of _ "[]"]) (simp add: attempts_def)
    next
      case True
      then obtain q where o: "input_report_open E ?h BLE_HID_RPT_ID_KEY_IN BLE_HID_REPORT_TYPE_INPUT s q" by blast
      then have n: "HidDev_sendNoti E ?h (rpt_handle q) ?d s = (st, s')"
        using r by (simp add: hidDevSendReport_def input_report_open_def)
      have key: "key_notification s i ?d (Notification ?h (rpt_handle q) ?d)"
        using o by (simp add: key_notification_def input_report_open_def)
      show ?thesis
      proof (cases "bm_alloc E (outs s) ?h 8")
        case False
        then have e: "st = bleMemAllocError" "s' = s" using n by (simp_all add: HidDev_sendNoti_def)
        have "\<not> link_ready E s i (outs s)" using False by (simp add: link_ready_def Let_def)
        moreover have "(\<forall>bs. link_ready E s i (outs s @ bs)) \<longrightarrow> P" for P using calculation by (metis append_Nil2)
        ultimately show ?thesis using e sec by (intro exI [of _ "[]"]) (simp add: attempts_def)
      next
        case True
        then have e: "st = stat E (outs s) (Notification ?h (rpt_handle q) ?d)"
          "s' = s\<lparr>outs := outs s @ Notification ?h (rpt_handle q) ?d # (if st = SUCCESS then [] else [BmFree])\<rparr>"
          using n by (auto simp: HidDev_sendNoti_def call_def emit_def)
        let ?as = "Notification ?h (rpt_handle q) ?d # (if st = SUCCESS then [] else [BmFree])"
        have a: "answers E (outs s) ?as = [st]" by (simp add: e(1))
        have "attempts E s i ?d 1 st ?as" unfolding attempts_def Let_def a using key sec by auto
        then show ?thesis using e(2) a by (intro exI [of _ ?as]) simp
      qed
    qed
  qed
qed

section \<open>The budget\<close>

lemma slot_up_log [simp]: "kb_slot_up E i (s\<lparr>outs := L\<rparr>) = kb_slot_up E i s"
  by (simp add: kb_slot_up_def kb_ble_slot_handle_def)

lemma link_ready_log [simp]: "link_ready E (s\<lparr>outs := L\<rparr>) i K = link_ready E s i K"
  by (simp add: link_ready_def)

lemma key_notification_log [simp]: "key_notification (s\<lparr>outs := L\<rparr>) i d a = key_notification s i d a"
  by (simp add: key_notification_def)

text \<open>An attempt that is to be repeated, and the attempts after it.\<close>

lemma attempts_join:
  assumes "attempts E s i d 1 st1 as" "attempts E s1 i d n st bs" "s1 = s\<lparr>outs := outs s @ as\<rparr>" "again st1"
    and "answers E (outs s) as \<noteq> [] \<longrightarrow> answers E (outs s) as = [st1]"
  shows "attempts E s i d (Suc n) st (as @ bs)"
proof -
  let ?xs = "answers E (outs s) as" and ?ys = "answers E (outs s @ as) bs"
  let ?sec = "ble_hid_dev_conn_secure E (c_handle (kbd_conns s ! i)) s"
  have ns: "st1 \<noteq> SUCCESS" "st1 \<noteq> bleNotReady" using assms(4) by auto
  note A = assms(1) [unfolded attempts_def Let_def]
  have B: "(\<forall>a\<in>set bs. is_notification a \<longrightarrow> key_notification s i d a) \<and> (\<forall>b. UsbReport b \<notin> set bs) \<and>
      length ?ys \<le> n \<and> (\<forall>x\<in>set (butlast ?ys). again x) \<and> (?ys \<noteq> [] \<longrightarrow> ?sec) \<and>
      (st = SUCCESS) = (SUCCESS \<in> set ?ys) \<and> (st = bleNotReady) = (bleNotReady \<in> set ?ys \<or> \<not> ?sec) \<and>
      (link_ready E s i (outs s @ as) \<longrightarrow> ?ys \<noteq> []) \<and>
      ((\<forall>cs. link_ready E s i ((outs s @ as) @ cs)) \<longrightarrow> length ?ys = n \<or> \<not> again (last ?ys))"
    using assms(2) unfolding attempts_def Let_def assms(3) by simp
  have xs: "?xs = [] \<or> ?xs = [st1]" using assms(5) by blast
  have none: "SUCCESS \<notin> set ?xs" "bleNotReady \<notin> set ?xs" using xs ns by auto
  have sec: ?sec using A ns by auto
  have ag: "\<forall>x\<in>set ?xs. again x" using xs assms(4) by auto
  have ys: "length ?ys \<le> n" "\<forall>x\<in>set (butlast ?ys). again x" "(st = SUCCESS) = (SUCCESS \<in> set ?ys)"
    "(st = bleNotReady) = (bleNotReady \<in> set ?ys)"
    using B sec by simp_all
  have last: "length (?xs @ ?ys) = Suc n \<or> \<not> again (last (?xs @ ?ys))" if r: "\<forall>cs. link_ready E s i (outs s @ cs)"
  proof -
    have "link_ready E s i (outs s)" using r by (metis append_Nil2)
    then have x: "?xs = [st1]" using A xs by blast
    have r2: "link_ready E s i ((outs s @ as) @ cs)" for cs using r by simp
    then have "length ?ys = n \<or> \<not> again (last ?ys)" using B by blast
    moreover have "?ys \<noteq> []" using r2 [of "[]"] B by simp
    ultimately have "?ys \<noteq> []" "length ?ys = n \<or> \<not> again (last ?ys)" by blast+
    then show ?thesis using x by auto
  qed
  have fst: "?xs @ ?ys \<noteq> []" if "link_ready E s i (outs s)" using A that by simp
  have noti: "\<forall>a\<in>set (as @ bs). is_notification a \<longrightarrow> key_notification s i d a" "\<forall>b. UsbReport b \<notin> set (as @ bs)"
  proof -
    have "\<forall>a\<in>set as. is_notification a \<longrightarrow> key_notification s i d a" "\<forall>b. UsbReport b \<notin> set as" using A by blast+
    moreover have "\<forall>a\<in>set bs. is_notification a \<longrightarrow> key_notification s i d a" "\<forall>b. UsbReport b \<notin> set bs" using B by blast+
    ultimately show "\<forall>a\<in>set (as @ bs). is_notification a \<longrightarrow> key_notification s i d a" "\<forall>b. UsbReport b \<notin> set (as @ bs)"
      unfolding set_append by blast+
  qed
  have "\<forall>x\<in>set (butlast (?xs @ ?ys)). again x"
    using ag ys(2) by (auto simp: butlast_append dest: in_set_butlastD)
  moreover have "length (?xs @ ?ys) \<le> Suc n" using xs ys(1) by auto
  ultimately show ?thesis
    unfolding attempts_def Let_def answers_append
    using noti sec none ys(3,4) last fst by (intro conjI) (simp_all del: set_append butlast_append add: set_append)
qed

lemma budget_attempts:
  assumes "kb_slot_up E i s" "send_budget E (Suc n) i m k c st0 s = (st, s')"
  shows "\<exists>as. s' = s\<lparr>outs := outs s @ as\<rparr> \<and> attempts E s i (report_bytes m k c) (Suc n) st as"
  using assms
proof (induction n arbitrary: s st0)
  case 0
  obtain st1 s1 where r: "kb_ble_send_report_slot E i m k c s = (st1, s1)" by fastforce
  then have "(st, s') = (st1, s1)" using 0(2) by (auto split: if_splits)
  then show ?case using one_attempt [OF 0(1) r] by auto
next
  case (Suc n)
  let ?d = "report_bytes m k c"
  obtain st1 s1 where r: "kb_ble_send_report_slot E i m k c s = (st1, s1)" by fastforce
  obtain as where as: "s1 = s\<lparr>outs := outs s @ as\<rparr>" "attempts E s i ?d 1 st1 as"
    "again st1 \<longrightarrow> (\<forall>x\<in>set (answers E (outs s) as). again x)"
    "answers E (outs s) as \<noteq> [] \<longrightarrow> answers E (outs s) as = [st1]"
    using one_attempt [OF Suc.prems(1) r] by blast
  show ?case
  proof (cases "again st1")
    case False
    then have "(st, s') = (st1, s1)" using Suc.prems(2) r by (auto simp: again_def)
    moreover have "attempts E s i ?d (Suc (Suc n)) st1 as"
    proof -
      have "answers E (outs s) as \<noteq> []" if "\<forall>bs. link_ready E s i (outs s @ bs)"
        using that as(2) unfolding attempts_def Let_def by (metis append_Nil2)
      then have "(\<forall>bs. link_ready E s i (outs s @ bs)) \<longrightarrow> \<not> again (last (answers E (outs s) as))"
        using as(4) False by (metis last.simps)
      then show ?thesis using as(2) unfolding attempts_def Let_def by auto
    qed
    ultimately show ?thesis using as(1) by auto
  next
    case ag: True
    then have b: "send_budget E (Suc n) i m k c st1 s1 = (st, s')"
      using Suc.prems(2) r by (auto simp: again_def simp del: send_budget.simps
          simp: send_budget.simps(2) [of E "Suc n"])
    have "kb_slot_up E i s1" using Suc.prems(1) as(1) by simp
    from Suc.IH [OF this b] obtain bs where bs: "s' = s1\<lparr>outs := outs s1 @ bs\<rparr>" "attempts E s1 i ?d (Suc n) st bs"
      by blast
    show ?thesis
    proof (intro exI conjI)
      show "s' = s\<lparr>outs := outs s @ (as @ bs)\<rparr>" using as(1) bs(1) by simp
      have B: "attempts E s1 i ?d (Suc n) st bs" by (rule bs(2))
      show "attempts E s i ?d (Suc (Suc n)) st (as @ bs)"
        by (rule attempts_join [OF as(2) B as(1) ag as(4)])
    qed
  qed
qed

section \<open>The slots of a flush\<close>

text \<open>
  What a flush of the bytes \<open>d\<close> adds to the log for slot \<open>i\<close>, after the log \<open>L\<close>, with the drop counter
  of the slot before and after.  Nothing for a slot that is not selected or holds no link.  For a
  selected link only this report on it, at most 60 times, again only after an answer that asks for
  it and so accepted at most once; sent at all if the link can take it, and until it is accepted,
  refused or tried 60 times if the link stays so; and counted as a drop when it was not accepted,
  except on a link that is not secure or is answered as not ready.
\<close>

definition slot_sent ::
  "env \<Rightarrow> 'a slots_state_scheme \<Rightarrow> u8 list \<Rightarrow> nat \<Rightarrow> act list \<Rightarrow> u16 \<Rightarrow> u16 \<Rightarrow> act list \<Rightarrow> bool" where
  "slot_sent E s d i L n n' as =
     (if \<not> slot_targeted E s i then as = [] \<and> n' = n
      else
        let sec = ble_hid_dev_conn_secure E (c_handle (kbd_conns s ! i)) s; xs = answers E L as in
        (\<forall>a\<in>set as. is_notification a \<longrightarrow> key_notification s i d a) \<and> (\<forall>b. UsbReport b \<notin> set as) \<and>
        length xs \<le> 60 \<and> (\<forall>x\<in>set (butlast xs). again x) \<and> (xs \<noteq> [] \<longrightarrow> sec) \<and>
        (link_ready E s i L \<longrightarrow> xs \<noteq> []) \<and>
        ((\<forall>bs. link_ready E s i (L @ bs)) \<longrightarrow> length xs = 60 \<or> \<not> again (last xs)) \<and>
        n' = (if SUCCESS \<in> set xs \<or> bleNotReady \<in> set xs \<or> \<not> sec then n else n + 1))"

abbreviation logged :: "'a router_state_scheme \<Rightarrow> act list \<Rightarrow> u16 list \<Rightarrow> u8 list \<Rightarrow> 'a router_state_scheme" where
  "logged s as ds es \<equiv> s\<lparr>outs := outs s @ as, kb_ble_drops := ds, kb_ble_lasterr := es\<rparr>"

lemma slot_sent_log [simp]:
  "slot_sent E (s\<lparr>outs := K, kb_ble_drops := ds, kb_ble_lasterr := es\<rparr>) d i L n n' as = slot_sent E s d i L n n' as"
proof -
  let ?t = "s\<lparr>outs := K, kb_ble_drops := ds, kb_ble_lasterr := es\<rparr>"
  have "ble_hid_dev_conn_secure E c ?t = ble_hid_dev_conn_secure E c s" for c
    by (rule secure_view) (simp add: link_view_def)
  moreover have "link_ready E ?t i L = link_ready E s i L" for L
    by (simp add: link_ready_def input_report_open_def ble_hid_dev_conn_secure_def hiddev_slot_of_def
        hidDevRptById_def)
  moreover have "key_notification ?t i d a = key_notification s i d a" for a
    by (simp add: key_notification_def hidDevRptById_def)
  moreover have "slot_targeted E ?t i = slot_targeted E s i"
    by (simp add: slot_targeted_def kb_ble_slot_handle_def)
  ultimately show ?thesis unfolding slot_sent_def by simp
qed

lemma flush_slot_sent:
  assumes "flush_slot E m k c i (x, s) = (x', s')" "i < length (kb_ble_drops s)"
  shows "\<exists>as ds es. s' = logged s as ds es \<and> x' = (x \<or> slot_targeted E s i) \<and>
    length ds = length (kb_ble_drops s) \<and> (\<forall>j<length ds. j \<noteq> i \<longrightarrow> ds ! j = kb_ble_drops s ! j) \<and>
    slot_sent E s (report_bytes m k c) i (outs s) (kb_ble_drops s ! i) (ds ! i) as"
proof (cases "slot_targeted E s i")
  case False
  then have "s' = logged s [] (kb_ble_drops s) (kb_ble_lasterr s)" "x' = x"
    using assms(1) by (simp_all add: flush_slot_def)
  then show ?thesis using False
    by (intro exI [of _ "[]"] exI [of _ "kb_ble_drops s"] exI [of _ "kb_ble_lasterr s"])
      (simp add: slot_sent_def)
next
  case True
  let ?d = "report_bytes m k c" and ?n = "kb_ble_drops s ! i"
  let ?sec = "ble_hid_dev_conn_secure E (c_handle (kbd_conns s ! i)) s"
  have up: "kb_slot_up E i s"
    using True by (auto simp: slot_targeted_def kb_slot_up_def kb_ble_slot_handle_def kb_slot_ok_def split: if_splits)
  obtain st s1 where b: "send_budget E SEND_BUDGET i m k c SUCCESS s = (st, s1)" by fastforce
  have "SEND_BUDGET = Suc 59" by (simp add: SEND_BUDGET_def)
  with b budget_attempts [OF up] obtain as where as: "s1 = s\<lparr>outs := outs s @ as\<rparr>" "attempts E s i ?d 60 st as"
    by (metis numeral_eq_Suc pred_numeral_simps(2) BitM_inc_eq SEND_BUDGET_def)
  let ?drop = "st \<noteq> SUCCESS \<and> st \<noteq> bleNotReady"
  let ?ds = "if ?drop then (kb_ble_drops s)[i := ?n + 1] else kb_ble_drops s"
  let ?es = "if ?drop then (kb_ble_lasterr s)[i := st] else kb_ble_lasterr s"
  have e: "s' = logged s as ?ds ?es" "x'"
    using assms(1) True b as(1) by (auto simp: flush_slot_def)
  have "?ds ! i = (if SUCCESS \<in> set (answers E (outs s) as) \<or> bleNotReady \<in> set (answers E (outs s) as) \<or> \<not> ?sec
      then ?n else ?n + 1)"
    using as(2) assms(2) unfolding attempts_def Let_def by auto
  then have "slot_sent E s ?d i (outs s) ?n (?ds ! i) as"
    using as(2) True unfolding slot_sent_def attempts_def Let_def by simp
  then show ?thesis using e True
    by (intro exI [of _ as] exI [of _ ?ds] exI [of _ ?es]) simp
qed

lemma flush_slots_sent:
  assumes "fold (flush_slot E m k c) [0..<n] (x, s) = (x', s')" "n \<le> length (kb_ble_drops s)"
  shows "\<exists>parts ds es. length parts = n \<and> s' = logged s (concat parts) ds es \<and>
    length ds = length (kb_ble_drops s) \<and> (\<forall>i. n \<le> i \<and> i < length ds \<longrightarrow> ds ! i = kb_ble_drops s ! i) \<and>
    (\<forall>i<n. slot_sent E s (report_bytes m k c) i (outs s @ concat (take i parts))
       (kb_ble_drops s ! i) (ds ! i) (parts ! i))"
  using assms
proof (induction n arbitrary: x' s')
  case 0
  then have "s' = s" by simp
  then show ?case
    by (intro exI [of _ "[]"] exI [of _ "kb_ble_drops s"] exI [of _ "kb_ble_lasterr s"]) simp
next
  case (Suc n)
  let ?d = "report_bytes m k c"
  obtain y t where t: "fold (flush_slot E m k c) [0..<n] (x, s) = (y, t)" by fastforce
  then have f: "flush_slot E m k c n (y, t) = (x', s')" using Suc.prems(1) by simp
  obtain parts ds es where P: "length parts = n" "t = logged s (concat parts) ds es"
    "length ds = length (kb_ble_drops s)" "\<forall>i. n \<le> i \<and> i < length ds \<longrightarrow> ds ! i = kb_ble_drops s ! i"
    "\<forall>i<n. slot_sent E s ?d i (outs s @ concat (take i parts)) (kb_ble_drops s ! i) (ds ! i) (parts ! i)"
    using Suc.IH [OF t Suc_leD [OF Suc.prems(2)]] by blast
  have n: "n < length (kb_ble_drops t)" using P(2,3) Suc.prems(2) by simp
  obtain as ds' es' where
    A: "s' = t\<lparr>outs := (outs s @ concat parts) @ as, kb_ble_drops := ds', kb_ble_lasterr := es'\<rparr>" "length ds' = length ds"
    "\<forall>j<length ds'. j \<noteq> n \<longrightarrow> ds' ! j = ds ! j"
    "slot_sent E s ?d n (outs s @ concat parts) (ds ! n) (ds' ! n) as"
  proof -
    have T: "kb_ble_drops t = ds" "outs t = outs s @ concat parts"
      "slot_sent E t ?d n L a b as = slot_sent E s ?d n L a b as" for L a b as
      unfolding P(2) by simp_all
    note Z = flush_slot_sent [OF f n, unfolded T]
    show thesis by (rule exE [OF Z], elim exE conjE, rule that)
  qed
  have dn: "ds ! n = kb_ble_drops s ! n" using P(3,4) Suc.prems(2) by simp
  have "slot_sent E s ?d i (outs s @ concat (take i (parts @ [as]))) (kb_ble_drops s ! i) (ds' ! i) ((parts @ [as]) ! i)"
    if "i < Suc n" for i
  proof (cases "i = n")
    case True
    then show ?thesis using A(4) P(1) dn by (simp add: nth_append)
  next
    case False
    then have i: "i < n" using that by simp
    moreover have "ds' ! i = ds ! i" using i A(2,3) P(3) Suc.prems(2) by simp
    ultimately show ?thesis using P(1,5) by (simp add: nth_append)
  qed
  moreover have "s' = logged s (concat (parts @ [as])) ds' es'" using A(1) P(2) by simp
  moreover have "\<forall>i. Suc n \<le> i \<and> i < length ds' \<longrightarrow> ds' ! i = kb_ble_drops s ! i"
    using A(2,3) P(4) by auto
  ultimately show ?case using P(1,3) A(2)
    by (intro exI [of _ "parts @ [as]"] exI [of _ ds'] exI [of _ es']) simp
qed

section \<open>The flush\<close>

lemma flush_parts:
  assumes "kb_flush E mods keys count s = (r, s')" "length (kb_ble_drops s) = kbd_max_conn (mode E)"
  shows "\<exists>parts. length parts = kbd_max_conn (mode E) \<and>
    new_outs s s' = concat parts @ (if usb_active s then [UsbReport (report_bytes mods keys count)] else []) \<and>
    (\<forall>i<kbd_max_conn (mode E). slot_sent E s (report_bytes mods keys count) i (outs s @ concat (take i parts))
       (kb_ble_drops s ! i) (kb_ble_drops s' ! i) (parts ! i))"
proof -
  let ?n = "kbd_max_conn (mode E)" and ?d = "report_bytes mods keys count"
  obtain sent s1 where f: "(if kb_target s AND KB_TGT_BLE_ALL \<noteq> 0
             then fold (flush_slot E mods keys count) [0..<?n] (False, s) else (False, s)) = (sent, s1)"
    by fastforce
  have "\<exists>parts ds es. length parts = ?n \<and> s1 = logged s (concat parts) ds es \<and>
    (\<forall>i<?n. slot_sent E s ?d i (outs s @ concat (take i parts)) (kb_ble_drops s ! i) (ds ! i) (parts ! i))"
  proof (cases "kb_target s AND KB_TGT_BLE_ALL \<noteq> 0")
    case True
    then have "fold (flush_slot E mods keys count) [0..<?n] (False, s) = (sent, s1)" using f by simp
    from flush_slots_sent [OF this] assms(2) show ?thesis by auto
  next
    case False
    have "\<not> slot_targeted E s i" if "i < ?n" for i
    proof -
      have "i < 3" using that kbd_max_conn_bounds(2) [of "mode E"] by linarith
      with target_wanted False show ?thesis unfolding slot_targeted_def by blast
    qed
    moreover have "s1 = logged s (concat (replicate ?n [])) (kb_ble_drops s) (kb_ble_lasterr s)"
      using f False by simp
    ultimately show ?thesis
      by (intro exI [of _ "replicate ?n []"] exI [of _ "kb_ble_drops s"] exI [of _ "kb_ble_lasterr s"])
        (simp add: slot_sent_def)
  qed
  then obtain parts ds es where P: "length parts = ?n" "s1 = logged s (concat parts) ds es"
    "\<forall>i<?n. slot_sent E s ?d i (outs s @ concat (take i parts)) (kb_ble_drops s ! i) (ds ! i) (parts ! i)"
    by blast
  have "kb_flush E mods keys count s = (if usb_active s then (0, kb_usb_send_report mods keys count s1)
      else (if sent then 0 else -1, s1))"
    unfolding kb_flush_def f using P(2) by (simp add: usb_active_def)
  then have "(r, s') = (if usb_active s then (0, kb_usb_send_report mods keys count s1)
      else (if sent then 0 else -1, s1))" unfolding assms(1) .
  then show ?thesis using P
    by (intro exI [of _ parts])
      (auto simp: new_outs_def kb_usb_send_report_def Let_def split: if_splits)
qed

text \<open>
  C3: a report goes exactly where the output target says.  The flush returns 0 if and only if some
  selected slot holds a link or USB is selected and configured, and failure changes nothing.  The
  log grows by one part for each slot, in slot order, then by the USB report if and only if USB is
  active.  The part of a slot that is not selected or holds no link is empty.  On a selected link only
  these bytes are notified, under the key report's handle, and only when the link is secure; at most
  60 times, each time again only after an answer that asks for it, so that the stack accepts
  the report at most once; at least once when the link is secure and subscribed and a buffer is free,
  and if it stays so until the report is accepted, refused or has been tried 60 times; and a
  report that was not accepted is counted in the drop counter of its slot, unless the link is not
  secure or is answered as not ready.  So 0 is not delivery: the comment of \<open>kb_flush\<close>, which says that
  0 means sent on at least one channel, is not what the function does.
\<close>

theorem kb_flush_routes:
  assumes "kb_flush E mods keys count s = (r, s')" "length (kb_ble_drops s) = kbd_max_conn (mode E)"
  shows "(r = 0) = ((\<exists>i<kbd_max_conn (mode E). slot_targeted E s i) \<or> usb_active s) \<and>
    (r \<noteq> 0 \<longrightarrow> r = -1 \<and> s' = s) \<and>
    (\<exists>parts. length parts = kbd_max_conn (mode E) \<and>
       new_outs s s' = concat parts @ (if usb_active s then [UsbReport (report_bytes mods keys count)] else []) \<and>
       (\<forall>i<kbd_max_conn (mode E).
          slot_sent E s (report_bytes mods keys count) i (outs s @ concat (take i parts))
            (kb_ble_drops s ! i) (kb_ble_drops s' ! i) (parts ! i)))"
  using flush_route [OF assms(1)] flush_parts [OF assms] by blast

theorem kb_flush_routes_witness:
  "let s = typing_state multi_env; r = kb_flush multi_env 2 [4, 0, 0, 0, 0, 0] 1 s
   in fst r = 0 \<and>
      (\<forall>v h c. Notification c h v \<in> set (new_outs s (snd r)) \<longrightarrow> c = 7 \<and> v = [2, 0, 4, 0, 0, 0, 0, 0]) \<and>
      (\<exists>h. Notification 7 h [2, 0, 4, 0, 0, 0, 0, 0] \<in> set (new_outs s (snd r)))"
proof -
  let ?E = multi_env and ?s = "typing_state multi_env"
  let ?r = "kb_flush ?E 2 [4, 0, 0, 0, 0, 0] 1 ?s" and ?d = "[2, 0, 4, 0, 0, 0, 0, 0] :: u8 list"
  have "length (kb_ble_drops ?s) = kbd_max_conn (mode ?E)" by code_simp
  note F = kb_flush_routes [OF prod.collapse [of ?r, symmetric] this]
  have t: "slot_targeted ?E ?s 0" "\<not> slot_targeted ?E ?s 1" "\<not> slot_targeted ?E ?s 2" "\<not> usb_active ?s"
    by code_simp+
  have d: "report_bytes 2 [4, 0, 0, 0, 0, 0] 1 = ?d" by code_simp
  have h: "c_handle (kbd_conns ?s ! 0) = 7" by code_simp
  have m: "kbd_max_conn (mode ?E) = 3" by (rule multi_max)
  have "fst ?r = 0" using F t(1) m by (metis zero_less_numeral)
  obtain parts where p: "length parts = 3" "new_outs ?s (snd ?r) = concat parts"
    "\<forall>i<3. slot_sent ?E ?s ?d i (outs ?s @ concat (take i parts)) (kb_ble_drops ?s ! i)
       (kb_ble_drops (snd ?r) ! i) (parts ! i)"
    using F t(4) unfolding m d by auto
  have "parts ! 1 = []" "parts ! 2 = []" using p(3) t(2,3) by (simp_all add: slot_sent_def)
  then have c: "new_outs ?s (snd ?r) = parts ! 0"
    using p(1,2) by (auto simp: numeral_3_eq_3 length_Suc_conv)
  have "link_ready ?E ?s 0 (outs ?s)"
  proof -
    let ?q = "ble_hid_kbd_rpt_table ?E ! 0"
    have "input_report_open ?E (c_handle (kbd_conns ?s ! 0)) BLE_HID_RPT_ID_KEY_IN BLE_HID_REPORT_TYPE_INPUT
        (?s\<lparr>outs := outs ?s\<rparr>) ?q" by code_simp
    moreover have "bm_alloc ?E (outs ?s) (c_handle (kbd_conns ?s ! 0)) 8" by code_simp
    ultimately show ?thesis unfolding link_ready_def Let_def by blast
  qed
  moreover have "slot_sent ?E ?s ?d 0 (outs ?s) (kb_ble_drops ?s ! 0) (kb_ble_drops (snd ?r) ! 0) (parts ! 0)"
    using p(3) [rule_format, of 0] unfolding take_0 concat.simps append_Nil2 by (simp only: zero_less_numeral)
  ultimately have "answers ?E (outs ?s) (parts ! 0) \<noteq> []"
    "\<forall>a\<in>set (parts ! 0). is_notification a \<longrightarrow> key_notification ?s 0 ?d a"
    using t(1) unfolding slot_sent_def Let_def by (simp_all only: not_True_eq_False if_False simp_thms) blast
  moreover from this(1) obtain a where "a \<in> set (parts ! 0)" "is_notification a"
    using answers_none by blast
  ultimately show ?thesis using \<open>fst ?r = 0\<close> h c
    by (fastforce simp: Let_def key_notification_def)
qed

end
