(* ===== verification/Kb_Type.thy ===== *)
theory Kb_Type
  imports Kb_Play Us_Layout
begin

text \<open>
  Playback over USB against a host that reads the reports: what \<^verbatim>\<open>AT+KEY_STR\<close> and \<^verbatim>\<open>AT+KEY_SEQ\<close> type, report by report, as their timer ticks.
\<close>

section \<open>Ticks\<close>

fun ticks :: "env \<Rightarrow> nat \<Rightarrow> 'a router_state_scheme \<Rightarrow> 'a router_state_scheme" where
  "ticks E 0 s = s"
| "ticks E (Suc n) s = snd (kb_seq_process_event E SEQ_EVENT (ticks E n s))"

lemma tick_eq:
  "snd (kb_seq_process_event E SEQ_EVENT s) = (if keystr_active s then keystr_tick E s else seq_tick E s)"
  by (simp add: kb_seq_process_event_def SEQ_EVENT_def)

lemma usb_active_response [simp]: "usb_active (AT_Response t s) = usb_active s"
  by (simp add: usb_active_def AT_Response_def usb_ready_def USB_CDC_Write_def Let_def split: prod.splits)

lemma usb_active_emit [simp]: "usb_active (emit a s) = usb_active s"
  by (simp add: usb_active_def)

section \<open>A text\<close>

text \<open>What one character puts on the endpoint: a press, when it is mapped, and a release.\<close>

definition release :: act where
  "release = UsbReport (report_bytes 0 (replicate 6 0) 0)"

definition pressed :: "char \<Rightarrow> act list" where
  "pressed c = (case keystr_map c of Some (m, k) \<Rightarrow> [UsbReport (report_bytes m (k # replicate 5 0) 1)] | None \<Rightarrow> [])"

definition typed :: "string \<Rightarrow> act list" where
  "typed t = concat (map (\<lambda>c. pressed c @ [release]) t)"

definition piece :: "string \<Rightarrow> nat \<Rightarrow> act list" where
  "piece b i = (if odd i then [release] else pressed (b ! (i div 2)))"

lemma pieces: "concat (map (piece b) [0..<2 * n]) = concat (map (\<lambda>j. pressed (b ! j) @ [release]) [0..<n])"
  by (induction n) (simp_all add: piece_def)

lemma pieces_text:
  assumes "take (length t) b = t"
  shows "concat (map (piece b) [0..<2 * length t]) = typed t"
proof -
  have b: "map ((!) b) [0..<length t] = t"
  proof (rule nth_equalityI)
    fix i assume "i < length (map ((!) b) [0..<length t])"
    then show "map ((!) b) [0..<length t] ! i = t ! i" using nth_take [of i "length t" b] assms by simp
  qed simp
  have "map (\<lambda>j. pressed (b ! j) @ [release]) [0..<length t] =
      map (\<lambda>c. pressed c @ [release]) (map ((!) b) [0..<length t])"
    by simp
  also have "\<dots> = map (\<lambda>c. pressed c @ [release]) t" by (simp only: b)
  finally have "map (\<lambda>j. pressed (b ! j) @ [release]) [0..<length t] = map (\<lambda>c. pressed c @ [release]) t" .
  then show ?thesis by (simp add: pieces typed_def)
qed

definition playing :: "string \<Rightarrow> nat \<Rightarrow> nat \<Rightarrow> 'a router_state_scheme \<Rightarrow> bool" where
  "playing b n i s =
     (keystr_active s \<and> usb_active s \<and> keystr_buf s = b \<and> keystr_len s = n \<and> keystr_idx s = i)"

lemma tick_plays:
  assumes "playing b n i s" "i < 2 * n"
  shows "playing b n (i + 1) (keystr_tick E s)" "usb_log (keystr_tick E s) = usb_log s @ piece b i"
proof -
  have a: "keystr_active s" "usb_active s" "keystr_buf s = b" "keystr_len s = n" "keystr_idx s = i"
    using assms(1) by (simp_all add: playing_def)
  have c: "\<not> i div 2 \<ge> n" using assms(2) by auto
  show "playing b n (i + 1) (keystr_tick E s)"
    using a c by (simp add: keystr_tick_def playing_def Let_def split: option.split)
  show "usb_log (keystr_tick E s) = usb_log s @ piece b i"
    using a c usb_log_flush [OF a(2)]
    by (simp add: keystr_tick_def Let_def piece_def pressed_def release_def split: option.split)
qed

lemma ticks_play:
  assumes "playing b n 0 s" "i \<le> 2 * n"
  shows "playing b n i (ticks E i s) \<and> usb_log (ticks E i s) = usb_log s @ concat (map (piece b) [0..<i])"
  using assms(2)
proof (induction i)
  case (Suc i)
  then have ih: "playing b n i (ticks E i s)" "usb_log (ticks E i s) = usb_log s @ concat (map (piece b) [0..<i])"
    by simp_all
  then have "keystr_active (ticks E i s)" by (simp add: playing_def)
  with tick_plays [OF ih(1), of E] ih(2) Suc.prems show ?case by (simp add: tick_eq)
qed (use assms(1) in simp)

text \<open>The state \<open>at_cmd_KEY_STR\<close> leaves.\<close>

lemma key_str_plays:
  fixes E :: env
  assumes "2 \<le> argc" "usb_active s" "fst (keystr_copy KEYSTR_MAX (arg argv 1)) = t"
  defines "s' \<equiv> snd (at_cmd_KEY_STR E argc argv s)"
  shows "playing (keystr_buf s') (length t) 0 s'" "take (length t) (keystr_buf s') = t" "usb_log s' = usb_log s"
proof -
  obtain r where k: "keystr_copy KEYSTR_MAX (arg argv 1) = (t, r)"
    using assms(3) by (cases "keystr_copy KEYSTR_MAX (arg argv 1)") simp
  note d = s'_def at_cmd_KEY_STR_def seq_register_def Let_def k [simplified] prod.case
  show "playing (keystr_buf s') (length t) 0 s'" "take (length t) (keystr_buf s') = t" "usb_log s' = usb_log s"
    using assms(1,2)
    by (simp_all add: d playing_def usb_active_def usb_log_def AT_Response_def emit_def usb_ready_def
        USB_CDC_Write_def split: prod.splits)
qed

lemma key_str_ticks:
  fixes E :: env
  assumes "2 \<le> argc" "usb_active s" "fst (keystr_copy KEYSTR_MAX (arg argv 1)) = t"
  defines "s1 \<equiv> snd (at_cmd_KEY_STR E argc argv s)"
  shows "usb_log (ticks E (2 * length t) s1) = usb_log s @ typed t \<and>
    keystr_active (ticks E (2 * length t) s1) \<and>
    ticks E (2 * length t + 1) s1 =
      AT_Response ''+KEY_DONE'' ((ticks E (2 * length t) s1)\<lparr>keystr_active := False\<rparr>)"
proof -
  note p = key_str_plays [OF assms(1-3), of E, folded s1_def]
  from ticks_play [OF p(1), of "2 * length t" E]
  have k: "playing (keystr_buf s1) (length t) (2 * length t) (ticks E (2 * length t) s1)"
    "usb_log (ticks E (2 * length t) s1) = usb_log s1 @ concat (map (piece (keystr_buf s1)) [0..<2 * length t])"
    by simp_all
  have "ticks E (2 * length t + 1) s1 =
      AT_Response ''+KEY_DONE'' ((ticks E (2 * length t) s1)\<lparr>keystr_active := False\<rparr>)"
    using k(1) by (simp add: tick_eq keystr_tick_def playing_def)
  with k pieces_text [OF p(2)] p(3) show ?thesis by (simp add: playing_def)
qed

section \<open>What the host reads\<close>

lemma printable_typed:
  "list_all (\<lambda>c. typeable c \<and> (case keystr_map c of None \<Rightarrow> False | Some (m, k) \<Rightarrow> host_char m k = Some c)) printable"
  by code_simp

lemma typeable_mapped: "typeable c \<Longrightarrow> keystr_map c \<noteq> None"
proof -
  have "list_all (\<lambda>e. case e of None \<Rightarrow> True | Some (p, q) \<Rightarrow> keystr_map p \<noteq> None \<and> keystr_map q \<noteq> None) us_layout"
    by code_simp
  then show "typeable c \<Longrightarrow> keystr_map c \<noteq> None"
    by (fastforce simp: typeable_def list_all_iff list_ex_iff split: option.splits)
qed

text \<open>The key the firmware presses gives the character on the host, and every typeable character has one.\<close>

lemma keystr_map_host:
  "case keystr_map c of None \<Rightarrow> \<not> typeable c | Some (m, k) \<Rightarrow> typeable c \<and> host_char m k = Some c"
proof (cases "c \<in> set printable")
  case True
  then have "typeable c \<and> (case keystr_map c of None \<Rightarrow> False | Some (m, k) \<Rightarrow> host_char m k = Some c)"
    using printable_typed unfolding list_all_iff by blast
  then show ?thesis by (cases "keystr_map c") auto
next
  case False
  have "case keystr_map c of None \<Rightarrow> c \<notin> set printable
        | Some (m, k) \<Rightarrow> c \<in> set printable \<and> (m = 0 \<or> m = 2) \<and> 4 \<le> k \<and> k \<le> 56"
    using keystr_map_us_layout by blast
  then have "keystr_map c = None" using False by (cases "keystr_map c") auto
  then show ?thesis using typeable_mapped [of c] by auto
qed

text \<open>The reports of a text, as byte lists.\<close>

definition press_reports :: "char \<Rightarrow> u8 list list" where
  "press_reports c = (case keystr_map c of Some (m, k) \<Rightarrow> [report_bytes m (k # replicate 5 0) 1] | None \<Rightarrow> [])"

definition text_reports :: "string \<Rightarrow> u8 list list" where
  "text_reports t = concat (map (\<lambda>c. press_reports c @ [no_key]) t)"

lemma report_one: "report_bytes m (k # replicate 5 0) 1 = [m, 0, k, 0, 0, 0, 0, 0]"
  by (simp add: report_bytes_def upt_rec eval_nat_numeral)

lemma report_none: "report_bytes 0 (replicate 6 0) 0 = no_key"
  by (simp add: report_bytes_def upt_rec eval_nat_numeral)

lemma typed_reports: "typed t = map UsbReport (text_reports t)"
  by (induction t)
    (simp_all add: typed_def text_reports_def pressed_def press_reports_def release_def report_none split: option.split)

lemma host_reads_press:
  "host_reads no_key (press_reports c @ [no_key] @ bs) = (if typeable c then [c] else []) @ host_reads no_key bs"
proof (cases "keystr_map c")
  case None
  then show ?thesis using keystr_map_host [of c] host_reads_release by (simp add: press_reports_def)
next
  case (Some mk)
  obtain m k where mk: "mk = (m, k)" by force
  have h: "typeable c" "host_char m k = Some c" using keystr_map_host [of c] Some mk by simp_all
  have p: "press_reports c = [[m, 0, k, 0, 0, 0, 0, 0]]"
    unfolding press_reports_def Some mk option.case prod.case report_one ..
  show ?thesis unfolding p using h(1) host_reads_tap [OF h(2)] by simp
qed

lemma host_reads_text: "host_reads no_key (text_reports t) = filter typeable t"
proof (induction t)
  case (Cons c t)
  have "text_reports (c # t) = press_reports c @ [no_key] @ text_reports t" by (simp add: text_reports_def)
  then show ?case by (simp only: host_reads_press Cons) simp
qed (simp add: text_reports_def)

section \<open>Escapes\<close>

text \<open>The argument that stands for a text: newline, tab and backslash are written with a backslash.\<close>

definition escape :: "string \<Rightarrow> string" where
  "escape w = concat (map (\<lambda>c. if c = CHR 0x0A then [CHR 0x5C, CHR ''n''] else if c = CHR 0x09 then [CHR 0x5C, CHR ''t'']
     else if c = CHR 0x5C then [CHR 0x5C, CHR 0x5C] else [c]) w)"

lemma copy_plain:
  assumes "c \<noteq> CHR 0x5C"
  shows "fst (keystr_copy (Suc n) (c # p)) = c # fst (keystr_copy n p)"
  using assms by (cases p) (simp_all split: prod.split)

lemma copy_escape: "fst (keystr_copy n (escape w)) = take n w"
proof (induction w arbitrary: n)
  case Nil
  then show ?case by (cases n) (simp_all add: escape_def)
next
  case (Cons c w)
  show ?case
  proof (cases n)
    case (Suc k)
    have e: "escape (c # w) = (if c = CHR 0x0A then [CHR 0x5C, CHR ''n''] else if c = CHR 0x09 then [CHR 0x5C, CHR ''t'']
     else if c = CHR 0x5C then [CHR 0x5C, CHR 0x5C] else [c]) @ escape w" by (simp add: escape_def)
    show ?thesis unfolding e using Cons [of k] copy_plain [of c k]
      by (auto simp: Suc escape_of_def split: prod.splits)
  qed simp
qed

text \<open>
  C5: Typing a text.  When USB is the ready target, \<open>AT+KEY_STR\<close> with the argument that stands for
  the characters \<open>w\<close> (newline, tab and backslash escaped), followed by the ticks of its timer, sends reports from
  which a host with a US layout, seeing no key held before, reads exactly the first 96 characters of \<open>w\<close>, in order, less those that
  no key of the layout types; at most two reports for each character, the last one with no key held.  Nothing else is
  sent, and the tick after the last release ends the playback and reports it.  The host's layout
  is a table of its own, taken from the HID usages.
\<close>

theorem key_str_types_text:
  fixes E :: env
  assumes "2 \<le> argc" "usb_active s" "arg argv 1 = escape w" "t = take 96 w"
  defines "s1 \<equiv> snd (at_cmd_KEY_STR E argc argv s)"
  shows "(\<exists>bs. usb_log (ticks E (2 * length t) s1) = usb_log s @ map UsbReport bs \<and>
      host_reads no_key bs = filter typeable t \<and> length bs \<le> 2 * length t \<and> (bs \<noteq> [] \<longrightarrow> last bs = no_key)) \<and>
    keystr_active (ticks E (2 * length t) s1) \<and>
    ticks E (2 * length t + 1) s1 =
      AT_Response ''+KEY_DONE'' ((ticks E (2 * length t) s1)\<lparr>keystr_active := False\<rparr>)"
proof -
  have "fst (keystr_copy KEYSTR_MAX (arg argv 1)) = t"
    using assms(3,4) copy_escape [of KEYSTR_MAX w] by (simp add: KEYSTR_MAX_def)
  note K = key_str_ticks [OF assms(1,2) this, of E, folded s1_def]
  have "length (text_reports t) \<le> 2 * length t"
    by (induction t) (auto simp: text_reports_def press_reports_def split: option.split)
  moreover have "t \<noteq> [] \<Longrightarrow> last (text_reports t) = no_key"
    by (cases t rule: rev_cases) (simp_all add: text_reports_def)
  moreover have "text_reports t \<noteq> [] \<Longrightarrow> t \<noteq> []" by (auto simp: text_reports_def)
  ultimately show ?thesis using K host_reads_text [of t] unfolding typed_reports by blast
qed

text \<open>A configured USB keyboard, USB the target.\<close>

definition usb_keyboard :: "env \<Rightarrow> router_state" where
  "usb_keyboard E = (typing_state E)\<lparr>kb_target := KB_TGT_USB, usb := usb_init_state\<lparr>Ready := 1\<rparr>\<rparr>"

theorem key_str_types_text_witness:
  "let s = snd (at_cmd_KEY_STR multi_env 2 [Some ''AT+KEY_STR'', Some (''$(H)'' @ [CHR 0x5C, CHR ''n''])] (usb_keyboard multi_env))
   in \<exists>bs. usb_log (ticks multi_env 10 s) = usb_log (usb_keyboard multi_env) @ map UsbReport bs \<and>
           host_reads no_key bs = ''$(H)'' @ [CHR 0x0A]"
proof -
  let ?argv = "[Some ''AT+KEY_STR'', Some (''$(H)'' @ [CHR 0x5C, CHR ''n''])]" and ?w = "''$(H)'' @ [CHR 0x0A]"
  have a: "usb_active (usb_keyboard multi_env)"
    by (simp add: usb_active_def usb_keyboard_def usb_ready_def kb_tgt_defs)
  have t: "arg ?argv 1 = escape ?w" "?w = take 96 ?w" "filter typeable ?w = ?w" by code_simp+
  have l: "2 * length ?w = 10" by simp
  from key_str_types_text [OF _ a t(1,2), of 2 multi_env] show ?thesis
    unfolding t(3) l Let_def by auto
qed

end
