(* ===== verification/At_Parser.thy ===== *)
theory At_Parser
  imports At_Cmds
begin

text \<open>
  The AT parser (\<^verbatim>\<open>at_parser.c\<close>): the receive ring of the UART, the line buffer both channels share,
  the tokeniser, the dispatch, and the polling task.
\<close>

section \<open>State\<close>

definition AT_RX_BUF_SIZE :: nat where "AT_RX_BUF_SIZE = 256"
definition AT_LINE_MAX :: nat where "AT_LINE_MAX = 1024"
definition AT_ARGV_MAX :: nat where "AT_ARGV_MAX = 66"
definition AT_EVENT :: u16 where "AT_EVENT = 0x0001"

text \<open>
  The static variables of the file, which no handler can reach; the channel of the responses is a
  component of \<open>base\<close>.  \<open>at_argv\<close> holds offsets into \<open>at_line\<close>, \<open>None\<close> being the null pointer.
\<close>

record parser =
  at_rx_buf :: "u8 list"
  at_rx_head :: nat
  at_rx_tail :: nat
  at_line :: string
  at_line_len :: nat
  at_argv :: "nat option list"

definition parser_start :: parser where
  "parser_start = \<lparr>at_rx_buf = replicate AT_RX_BUF_SIZE 0, at_rx_head = 0, at_rx_tail = 0,
     at_line = replicate AT_LINE_MAX NUL, at_line_len = 0, at_argv = replicate AT_ARGV_MAX None\<rparr>"

type_synonym 's table = "(string \<times> (nat \<Rightarrow> argv \<Rightarrow> 's \<Rightarrow> int option \<times> 's)) list"

section \<open>A line\<close>

text \<open>
  The loop over the arguments: \<open>n\<close> is the room left in \<open>at_argv\<close>, \<open>m\<close> the buffer, and the last
  argument what the last \<open>strtok_r\<close> gave.
\<close>

fun arg_loop :: "nat \<Rightarrow> string \<Rightarrow> (nat \<times> string \<times> nat option) option \<Rightarrow> nat list \<times> string" where
  "arg_loop n m None = ([], m)"
| "arg_loop 0 m (Some (b, m', sv)) = ([], m')"
| "arg_loop (Suc n) m (Some (b, m', sv)) =
     (let (bs, m'') = arg_loop n m' (case sv of None \<Rightarrow> None | Some i \<Rightarrow> strtok_r (CHR '','') m' i)
      in (b # bs, m''))"

definition tokenize :: "string \<Rightarrow> nat list \<times> string" where
  "tokenize m =
     (case strtok_r (CHR ''='') m 0 of
        None \<Rightarrow> ([], m)
      | Some (b, m1, None) \<Rightarrow> ([b], m1)
      | Some (b, m1, Some i) \<Rightarrow>
          if m1 ! i \<noteq> NUL then
            (let (bs, m2) = arg_loop (AT_ARGV_MAX - 1) m1 (strtok_r (CHR '','') m1 i) in (b # bs, m2))
          else ([b], m1))"

definition argv_strings :: "parser \<Rightarrow> argv" where
  "argv_strings p = map (map_option (cstr_at (at_line p))) (at_argv p)"

text \<open>The dispatch; the result says whether the program is still running.\<close>

definition dispatch :: "'a base_scheme table \<Rightarrow> nat \<Rightarrow> argv \<Rightarrow> 'a base_scheme \<Rightarrow> bool \<times> 'a base_scheme" where
  "dispatch tbl argc argv s =
     (let s0 = (if argv ! 0 = None then set_ub s else s) in
      case find (\<lambda>c. strcaseeq (arg argv 0) (fst c)) tbl of
        None \<Rightarrow> (True, AT_Response ''ERROR'' s0)
      | Some c \<Rightarrow>
          (case snd c argc argv s0 of
             (None, s1) \<Rightarrow> (False, s1)
           | (Some r, s1) \<Rightarrow> (True, AT_Response (if r = 0 then ''OK'' else ''ERROR'') s1)))"

definition strip_cr :: "string \<Rightarrow> string" where
  "strip_cr m =
     (let l = length (cstr_at m 0) in if l > 0 \<and> m ! (l - 1) = CR then m[l - 1 := NUL] else m)"

definition at_process_line ::
  "'a base_scheme table \<Rightarrow> parser \<Rightarrow> 'a base_scheme \<Rightarrow> bool \<times> parser \<times> 'a base_scheme" where
  "at_process_line tbl p s =
     (let m = strip_cr (at_line p) in
      if cstr_at m 0 = [] then (True, p\<lparr>at_line := m\<rparr>, s)
      else
        (let (bs, m') = tokenize m;
             p1 = p\<lparr>at_line := m', at_argv := map Some bs @ drop (length bs) (at_argv p)\<rparr>;
             (alive, s1) = dispatch tbl (length bs) (argv_strings p1) s
         in (alive, p1, s1)))"

section \<open>Polling\<close>

text \<open>The bytes the UART has received enter the ring; a full ring drops them.\<close>

definition uart_feed :: "u8 \<Rightarrow> parser \<Rightarrow> parser" where
  "uart_feed ch p =
     (let nxt = (at_rx_head p + 1) mod AT_RX_BUF_SIZE in
      if nxt \<noteq> at_rx_tail p
      then p\<lparr>at_rx_buf := (at_rx_buf p)[at_rx_head p := ch], at_rx_head := nxt\<rparr> else p)"

definition line_put :: "u8 \<Rightarrow> parser \<Rightarrow> parser" where
  "line_put ch p =
     (if at_line_len p < AT_LINE_MAX - 1
      then p\<lparr>at_line := (at_line p)[at_line_len p := char_of_byte ch], at_line_len := at_line_len p + 1\<rparr> else p)"

definition line_end :: "parser \<Rightarrow> parser" where
  "line_end p = p\<lparr>at_line := (at_line p)[at_line_len p := NUL], at_line_len := 0\<rparr>"

definition uart_byte ::
  "'a base_scheme table \<Rightarrow> parser \<Rightarrow> 'a base_scheme \<Rightarrow> bool \<times> parser \<times> 'a base_scheme" where
  "uart_byte tbl p s =
     (let ch = at_rx_buf p ! at_rx_tail p;
          p1 = p\<lparr>at_rx_tail := (at_rx_tail p + 1) mod AT_RX_BUF_SIZE\<rparr>
      in if ch = 0x0A then at_process_line tbl (line_end p1) (s\<lparr>at_channel := AT_CH_UART\<rparr>)
         else (True, line_put ch p1, s))"

text \<open>\<open>n\<close> bounds the rounds; the ring never holds as many bytes as it has cells.\<close>

fun uart_loop ::
  "'a base_scheme table \<Rightarrow> nat \<Rightarrow> parser \<Rightarrow> 'a base_scheme \<Rightarrow> bool \<times> parser \<times> 'a base_scheme" where
  "uart_loop tbl 0 p s = (True, p, s)"
| "uart_loop tbl (Suc n) p s =
     (if at_rx_tail p = at_rx_head p then (True, p, s)
      else (case uart_byte tbl p s of
              (True, p1, s1) \<Rightarrow> uart_loop tbl n p1 s1
            | (False, p1, s1) \<Rightarrow> (False, p1, s1)))"

definition cdc_write :: "u8 list \<Rightarrow> 'a base_scheme \<Rightarrow> 'a base_scheme" where
  "cdc_write bs s = s\<lparr>usb := USB_CDC_Write bs (usb s)\<rparr>"

definition cdc_byte ::
  "'a base_scheme table \<Rightarrow> u8 \<Rightarrow> parser \<Rightarrow> 'a base_scheme \<Rightarrow> bool \<times> parser \<times> 'a base_scheme" where
  "cdc_byte tbl ch p s =
     (if ch = 0x0A then
        (let p1 = line_end p; s1 = s\<lparr>at_channel := AT_CH_CDC\<rparr>
         in at_process_line tbl p1
              (cdc_write (bytes_of [CR, LF]) (cdc_write (bytes_of (cstr_at (at_line p1) 0)) s1)))
      else if ch \<noteq> 0x0D then (True, line_put ch p, s)
      else (True, p, s))"

fun cdc_loop ::
  "'a base_scheme table \<Rightarrow> u8 list \<Rightarrow> parser \<Rightarrow> 'a base_scheme \<Rightarrow> bool \<times> parser \<times> 'a base_scheme" where
  "cdc_loop tbl [] p s = (True, p, s)"
| "cdc_loop tbl (ch # chs) p s =
     (case cdc_byte tbl ch p s of
        (True, p1, s1) \<Rightarrow> cdc_loop tbl chs p1 s1
      | (False, p1, s1) \<Rightarrow> (False, p1, s1))"

text \<open>\<open>rx\<close> is what the receive register of the UART delivers during the poll.\<close>

definition AT_Poll ::
  "'a base_scheme table \<Rightarrow> u8 list \<Rightarrow> parser \<Rightarrow> 'a base_scheme \<Rightarrow> bool \<times> parser \<times> 'a base_scheme" where
  "AT_Poll tbl rx p s =
     (case uart_loop tbl AT_RX_BUF_SIZE (fold uart_feed rx p) s of
        (False, p1, s1) \<Rightarrow> (False, p1, s1)
      | (True, p1, s1) \<Rightarrow>
          (let (bs, u) = USB_CDC_Read 64 (usb s1) in cdc_loop tbl bs p1 (s1\<lparr>usb := u\<rparr>)))"

definition AT_ProcessEvent ::
  "'a base_scheme table \<Rightarrow> u8 list \<Rightarrow> u16 \<Rightarrow> parser \<Rightarrow> 'a base_scheme \<Rightarrow> u16 option \<times> parser \<times> 'a base_scheme" where
  "AT_ProcessEvent tbl rx ev p s =
     (if ev AND AT_EVENT \<noteq> 0 then
        (case AT_Poll tbl rx p s of
           (False, p1, s1) \<Rightarrow> (None, p1, s1)
         | (True, p1, s1) \<Rightarrow>
             (Some (ev XOR AT_EVENT), p1, emit (StartTask AtTask AT_EVENT (ms1_to_system_time 10)) s1))
      else (Some 0, p, s))"

definition AT_Init :: "'a base_scheme \<Rightarrow> 'a base_scheme" where
  "AT_Init s = emit (StartTask AtTask AT_EVENT (ms1_to_system_time 10)) (emit (RegisterTask AtTask) s)"

text \<open>The parser of the firmware: its task polls with the command table.\<close>

definition at_event ::
  "env \<Rightarrow> u8 list \<Rightarrow> u16 \<Rightarrow> parser \<Rightarrow> 'a at_state_scheme \<Rightarrow> u16 option \<times> parser \<times> 'a at_state_scheme" where
  "at_event E rx ev p s = AT_ProcessEvent (cmd_table E) rx ev p s"

end
