(* ===== verification/At_Line.thy ===== *)
theory At_Line
  imports At_Parser
begin

text \<open>
  What the AT parser does with a line: its words, the handler that gets them, the answer; the
  invariant of its buffers; and the line that arrives over USB.
\<close>

section \<open>Words\<close>

text \<open>The reference: split at a character, drop what is empty.\<close>

fun split_on :: "char \<Rightarrow> string \<Rightarrow> string list" where
  "split_on d [] = [[]]"
| "split_on d (c # cs) =
     (if c = d then [] # split_on d cs
      else (c # hd (split_on d cs)) # tl (split_on d cs))"

definition fields :: "char \<Rightarrow> string \<Rightarrow> string list" where
  "fields d l = filter (\<lambda>x. x \<noteq> []) (split_on d l)"

definition cmd_words :: "string \<Rightarrow> string list" where
  "cmd_words l =
     (let l' = dropWhile (\<lambda>c. c = CHR ''='') l in
      if l' = [] then []
      else takeWhile (\<lambda>c. c \<noteq> CHR ''='') l' #
           take (AT_ARGV_MAX - 1) (fields (CHR '','') (drop 1 (dropWhile (\<lambda>c. c \<noteq> CHR ''='') l'))))"

lemma split_on_ne [simp]: "split_on d l \<noteq> []"
  by (cases l) auto

lemma split_on_replicate [simp]: "split_on d (replicate k d @ l) = replicate k [] @ split_on d l"
  by (induction k) auto

lemma split_on_word: "d \<notin> set t \<Longrightarrow> split_on d (t @ l) = (t @ hd (split_on d l)) # tl (split_on d l)"
  by (induction t) auto

lemma fields_step:
  assumes "d \<notin> set t"
  shows "fields d (replicate k d) = []" "t \<noteq> [] \<Longrightarrow> fields d (replicate k d @ t) = [t]"
    "t \<noteq> [] \<Longrightarrow> fields d (replicate k d @ t @ d # l) = t # fields d l"
proof -
  have "split_on d (replicate k d) = replicate k [] @ [[]]"
    using split_on_replicate [of d k "[]"] by simp
  then show "fields d (replicate k d) = []"
    by (simp add: fields_def)
  show "t \<noteq> [] \<Longrightarrow> fields d (replicate k d @ t) = [t]"
    using split_on_word [OF assms, of "[]"] by (simp add: fields_def)
  show "t \<noteq> [] \<Longrightarrow> fields d (replicate k d @ t @ d # l) = t # fields d l"
    using split_on_word [OF assms, of "d # l"] by (simp add: fields_def)
qed

section \<open>The tokeniser\<close>

lemma takeWhile_prefix:
  "(\<And>x. x \<in> set t \<Longrightarrow> P x) \<Longrightarrow> \<not> P c \<Longrightarrow> takeWhile P (t @ c # r) = t"
  by (induction t) auto

lemma cstr_at_append: "NUL \<notin> set t \<Longrightarrow> i = length pre \<Longrightarrow> cstr_at (pre @ t @ NUL # r) i = t"
  by (simp add: cstr_at_def) (rule takeWhile_prefix, auto)

text \<open>A list as delimiters, a word, and a rest.\<close>

lemma word_cases:
  obtains k t where "l = replicate k d @ t" "d \<notin> set t"
  | k t l' where "l = replicate k d @ t @ d # l'" "d \<notin> set t" "t \<noteq> []"
proof -
  define u where "u = dropWhile (\<lambda>c. c = d) l"
  define k where "k = length (takeWhile (\<lambda>c. c = d) l)"
  have "takeWhile (\<lambda>c. c = d) l = replicate k d"
    unfolding k_def by (rule replicate_eqI) (auto dest: set_takeWhileD)
  then have l: "l = replicate k d @ u"
    unfolding u_def by (metis takeWhile_dropWhile_id)
  have hd: "u = [] \<or> hd u \<noteq> d" using hd_dropWhile [of "\<lambda>c. c = d" l] by (auto simp: u_def)
  show thesis
  proof (cases "d \<in> set u")
    case False
    with l show ?thesis by (rule that(1))
  next
    case True
    then obtain t l' where t: "u = t @ d # l'" "d \<notin> set t" by (metis split_list_first)
    with hd have "t \<noteq> []" by (cases t) auto
    with l t show ?thesis by (intro that(2) [of k t l']) auto
  qed
qed

lemma strtok_r_cases:
  assumes "d \<noteq> NUL" "d \<notin> set t" "NUL \<notin> set t" "i = length pre"
  shows "strtok_r d (pre @ replicate k d @ NUL # r) i = None"
    and "t \<noteq> [] \<Longrightarrow> strtok_r d (pre @ replicate k d @ t @ NUL # r) i =
           Some (length pre + k, pre @ replicate k d @ t @ NUL # r, None)"
    and "t \<noteq> [] \<Longrightarrow> strtok_r d (pre @ replicate k d @ t @ d # r) i =
           Some (length pre + k, pre @ replicate k d @ t @ NUL # r, Some (length pre + k + length t + 1))"
proof -
  have tk: "length (takeWhile (\<lambda>c. c = d) (replicate k d @ c # x)) = k" if "c \<noteq> d" for c x
    using takeWhile_prefix [of "replicate k d" "\<lambda>c. c = d" c x] that by simp
  show "strtok_r d (pre @ replicate k d @ NUL # r) i = None"
    using assms tk [of NUL r] by (simp add: strtok_r_def nth_append)
  assume "t \<noteq> []"
  then obtain c t' where c: "t = c # t'" by (cases t) auto
  have w: "takeWhile (\<lambda>c. c \<noteq> d \<and> c \<noteq> NUL) (t @ x # r) = t" if "x = d \<or> x = NUL" for x
    using assms(2,3) that by (intro takeWhile_prefix) auto
  have b: "length (takeWhile (\<lambda>c. c = d) (drop (length pre) (pre @ replicate k d @ t @ x # r))) = k" for x
  proof -
    have "c \<noteq> d" using c assms(2) by auto
    from tk [OF this, of "t' @ x # r"] show ?thesis by (simp add: c)
  qed
  have dr: "drop (length pre + k) (pre @ replicate k d @ t @ x # r) = t @ x # r" for x by simp
  have nt: "(pre @ replicate k d @ t @ x # r) ! (length pre + k) = c" for x
    by (simp add: nth_append c)
  have e: "(pre @ replicate k d @ t @ x # r) ! (length pre + k + length t) = x" for x
    by (simp add: nth_append)
  have cn: "c \<noteq> NUL" using assms(3) c by auto
  show "strtok_r d (pre @ replicate k d @ t @ NUL # r) i =
           Some (length pre + k, pre @ replicate k d @ t @ NUL # r, None)"
    unfolding strtok_r_def Let_def assms(4) b dr nt using w [of NUL] cn e [of NUL] by simp
  have u: "(pre @ replicate k d @ t @ d # r)[length pre + k + length t := NUL] = pre @ replicate k d @ t @ NUL # r"
    by (simp add: list_update_append)
  show "strtok_r d (pre @ replicate k d @ t @ d # r) i =
           Some (length pre + k, pre @ replicate k d @ t @ NUL # r, Some (length pre + k + length t + 1))"
    unfolding strtok_r_def Let_def assms(4) b dr nt using w [of d] cn e [of d] u assms(1) by simp
qed

lemma arg_loop_fields:
  assumes "NUL \<notin> set l"
  shows "\<exists>bs l'. arg_loop n (pre @ l @ NUL # r) (strtok_r (CHR '','') (pre @ l @ NUL # r) (length pre)) =
                   (bs, pre @ l' @ NUL # r) \<and>
     length l' = length l \<and> map (cstr_at (pre @ l' @ NUL # r)) bs = take n (fields (CHR '','') l) \<and>
     (\<forall>b\<in>set bs. b < length pre + length l)" (is "?goal n pre l")
  using assms
proof (induction n arbitrary: pre l)
  case 0
  show ?case
  proof (cases rule: word_cases [of l "CHR '',''"])
    case (1 k t)
    show ?thesis
    proof (cases "t = []")
      case True
      have "strtok_r (CHR '','') (pre @ l @ NUL # r) (length pre) = None"
        using strtok_r_cases(1) [of "CHR '',''" t "length pre" pre k r] 0 1 True by simp
      then show ?thesis by simp
    next
      case False
      have "strtok_r (CHR '','') (pre @ l @ NUL # r) (length pre) = Some (length pre + k, pre @ l @ NUL # r, None)"
        using strtok_r_cases(2) [of "CHR '',''" t "length pre" pre k r] 0 1 False by simp
      then show ?thesis by simp
    qed
  next
    case (2 k t l')
    have "strtok_r (CHR '','') (pre @ l @ NUL # r) (length pre) =
       Some (length pre + k, pre @ (replicate k (CHR '','') @ t @ NUL # l') @ NUL # r,
             Some (length pre + k + length t + 1))"
      using strtok_r_cases(3) [of "CHR '',''" t "length pre" pre k "l' @ NUL # r"] 0 2 by simp
    moreover have "length (replicate k (CHR '','') @ t @ NUL # l') = length l" using 2 by simp
    ultimately show ?thesis by (metis arg_loop.simps(2) list.simps(8) take_0 empty_iff list.set(1))
  qed
next
  case (Suc n)
  show ?case
  proof (cases rule: word_cases [of l "CHR '',''"])
    case (1 k t)
    show ?thesis
    proof (cases "t = []")
      case True
      have "strtok_r (CHR '','') (pre @ l @ NUL # r) (length pre) = None"
        using strtok_r_cases(1) [of "CHR '',''" t "length pre" pre k r] Suc.prems 1 True by simp
      then show ?thesis using 1 True fields_step(1) [of "CHR '',''" t k] by simp
    next
      case False
      have "strtok_r (CHR '','') (pre @ l @ NUL # r) (length pre) = Some (length pre + k, pre @ l @ NUL # r, None)"
        using strtok_r_cases(2) [of "CHR '',''" t "length pre" pre k r] Suc.prems 1 False by simp
      moreover have "cstr_at (pre @ l @ NUL # r) (length pre + k) = t"
        using Suc.prems 1 cstr_at_append [of t _ "pre @ replicate k (CHR '','')" r] by simp
      moreover have "k < length l" using 1 False by simp
      ultimately show ?thesis using fields_step(2) [OF 1(2) False, of k] 1(1) by simp
    qed
  next
    case (2 k t l')
    define q where "q = pre @ replicate k (CHR '','') @ t @ [NUL]"
    have nul: "NUL \<notin> set l'" "NUL \<notin> set t" using Suc.prems 2 by auto
    from Suc.IH [OF nul(1), of q] obtain bs m where
      ih: "arg_loop n (q @ l' @ NUL # r) (strtok_r (CHR '','') (q @ l' @ NUL # r) (length q)) =
             (bs, q @ m @ NUL # r)" "length m = length l'"
        "map (cstr_at (q @ m @ NUL # r)) bs = take n (fields (CHR '','') l')"
        "\<forall>b\<in>set bs. b < length q + length l'"
      by blast
    have st: "strtok_r (CHR '','') (pre @ l @ NUL # r) (length pre) =
        Some (length pre + k, q @ l' @ NUL # r, Some (length q))"
      using 2 nul strtok_r_cases(3) [of "CHR '',''" t "length pre" pre k "l' @ NUL # r"] by (simp add: q_def)
    have c: "cstr_at (q @ m @ NUL # r) (length pre + k) = t"
      using nul(2) cstr_at_append [of t _ "pre @ replicate k (CHR '','')" "m @ NUL # r"] by (simp add: q_def)
    have a: "arg_loop (Suc n) (pre @ l @ NUL # r) (strtok_r (CHR '','') (pre @ l @ NUL # r) (length pre)) =
        ((length pre + k) # bs, q @ m @ NUL # r)"
      by (simp only: st arg_loop.simps option.case ih(1) Let_def prod.case)
    have len: "length q + length l' = length pre + length l" "k < length l" using 2 by (simp_all add: q_def)
    have q: "q @ m @ NUL # r = pre @ (replicate k (CHR '','') @ t @ NUL # m) @ NUL # r"
      "length (replicate k (CHR '','') @ t @ NUL # m) = length l"
      using ih(2) 2 by (simp_all add: q_def)
    have "map (cstr_at (q @ m @ NUL # r)) ((length pre + k) # bs) = take (Suc n) (fields (CHR '','') l)"
      using ih(3) c fields_step(3) [OF 2(2,3), of k l'] 2(1) by simp
    moreover have "\<forall>b\<in>set ((length pre + k) # bs). b < length pre + length l"
      using ih(4) len by auto
    ultimately show ?thesis using a q by metis
  qed
qed

lemma dropWhile_word:
  assumes "d \<notin> set t" "t \<noteq> []"
  shows "dropWhile (\<lambda>c. c = d) (replicate k d @ t @ x) = t @ x"
proof -
  have "dropWhile (\<lambda>c. c = d) (t @ x) = t @ x" using assms by (cases t) auto
  then show ?thesis by (induction k) auto
qed

lemma cmd_words_eqs:
  assumes "CHR ''='' \<notin> set t"
  shows "cmd_words (replicate k (CHR ''='')) = []"
    and "t \<noteq> [] \<Longrightarrow> cmd_words (replicate k (CHR ''='') @ t) = [t]"
    and "t \<noteq> [] \<Longrightarrow> cmd_words (replicate k (CHR ''='') @ t @ CHR ''='' # l) =
           t # take (AT_ARGV_MAX - 1) (fields (CHR '','') l)"
proof -
  have "dropWhile (\<lambda>c. c = CHR ''='') (replicate k (CHR ''='')) = []" by (induction k) auto
  then show "cmd_words (replicate k (CHR ''='')) = []" by (simp add: cmd_words_def)
  assume t: "t \<noteq> []"
  have n: "\<forall>c\<in>set t. c \<noteq> CHR ''=''" using assms by auto
  have w: "takeWhile (\<lambda>c. c \<noteq> CHR ''='') t = t" "dropWhile (\<lambda>c. c \<noteq> CHR ''='') t = []"
    using n by (simp_all add: takeWhile_eq_all_conv dropWhile_eq_Nil_conv)
  show "cmd_words (replicate k (CHR ''='') @ t) = [t]"
    using dropWhile_word [OF assms t, of k "[]"] t by (simp add: cmd_words_def fields_def w)
  have "takeWhile (\<lambda>c. c \<noteq> CHR ''='') (t @ CHR ''='' # l) = t"
    "dropWhile (\<lambda>c. c \<noteq> CHR ''='') (t @ CHR ''='' # l) = CHR ''='' # l"
    using n takeWhile_prefix [of t "\<lambda>c. c \<noteq> CHR ''=''"] by (simp_all add: dropWhile_append2)
  then show "cmd_words (replicate k (CHR ''='') @ t @ CHR ''='' # l) =
      t # take (AT_ARGV_MAX - 1) (fields (CHR '','') l)"
    using dropWhile_word [OF assms t, of k "CHR ''='' # l"] t by (simp add: cmd_words_def)
qed

lemma tokenize_words:
  assumes "NUL \<notin> set l"
  shows "\<exists>bs l'. tokenize (l @ NUL # r) = (bs, l' @ NUL # r) \<and> length l' = length l \<and>
     map (cstr_at (l' @ NUL # r)) bs = cmd_words l \<and> (\<forall>b\<in>set bs. b < length l)"
proof (cases rule: word_cases [of l "CHR ''=''"])
  case (1 k t)
  show ?thesis
  proof (cases "t = []")
    case True
    have "strtok_r (CHR ''='') (l @ NUL # r) 0 = None"
      using strtok_r_cases(1) [of "CHR ''=''" t 0 "[]" k r] assms 1 True by simp
    then show ?thesis using 1 True cmd_words_eqs(1) [OF 1(2), of k] by (simp add: tokenize_def)
  next
    case False
    have "strtok_r (CHR ''='') (l @ NUL # r) 0 = Some (k, l @ NUL # r, None)"
      using strtok_r_cases(2) [of "CHR ''=''" t 0 "[]" k r] assms 1 False by simp
    moreover have "cstr_at (l @ NUL # r) k = t"
      using assms 1 cstr_at_append [of t k "replicate k (CHR ''='')" r] by simp
    moreover have "k < length l" using 1 False by simp
    ultimately show ?thesis using cmd_words_eqs(2) [OF 1(2) False, of k] 1(1) by (simp add: tokenize_def)
  qed
next
  case (2 k t l')
  define q where "q = replicate k (CHR ''='') @ t @ [NUL]"
  have nul: "NUL \<notin> set l'" "NUL \<notin> set t" using assms 2 by auto
  have tok: "strtok_r (CHR ''='') (l @ NUL # r) 0 = Some (k, q @ l' @ NUL # r, Some (length q))"
    using 2 nul strtok_r_cases(3) [of "CHR ''=''" t 0 "[]" k "l' @ NUL # r"] by (simp add: q_def)
  have w: "cmd_words l = t # take (AT_ARGV_MAX - 1) (fields (CHR '','') l')"
    using cmd_words_eqs(3) [OF 2(2,3), of k l'] 2(1) by simp
  have c: "cstr_at (q @ m @ NUL # r) k = t" for m
    using nul(2) cstr_at_append [of t k "replicate k (CHR ''='')" "m @ NUL # r"] by (simp add: q_def)
  have h: "(q @ l' @ NUL # r) ! length q = hd (l' @ [NUL])"
    by (cases l') (simp_all add: nth_append)
  have len: "length q + length l' = length l" "k < length l" using 2 by (simp_all add: q_def)
  show ?thesis
  proof (cases "l' = []")
    case True
    then have "tokenize (l @ NUL # r) = ([k], q @ NUL # r)"
      using tok h by (simp add: tokenize_def)
    moreover have "length q = length l" using len True by simp
    moreover have "map (cstr_at (q @ NUL # r)) [k] = cmd_words l"
      using c [of "[]"] w True by (simp add: fields_def)
    ultimately show ?thesis using len(2) by (metis list.set_intros(1) set_ConsD empty_iff list.set(1))
  next
    case False
    then have ne: "(q @ l' @ NUL # r) ! length q \<noteq> NUL" using nul(1) h by (cases l') auto
    from arg_loop_fields [OF nul(1), of "AT_ARGV_MAX - 1" q r] obtain bs m where
      ih: "arg_loop (AT_ARGV_MAX - 1) (q @ l' @ NUL # r) (strtok_r (CHR '','') (q @ l' @ NUL # r) (length q)) =
         (bs, q @ m @ NUL # r)" "length m = length l'"
      "map (cstr_at (q @ m @ NUL # r)) bs = take (AT_ARGV_MAX - 1) (fields (CHR '','') l')"
      "\<forall>b\<in>set bs. b < length q + length l'"
      by blast
    have "tokenize (l @ NUL # r) = (k # bs, (q @ m) @ NUL # r)"
      using tok ne ih(1) by (simp add: tokenize_def)
    moreover have "length (q @ m) = length l" using len ih(2) by simp
    moreover have "map (cstr_at ((q @ m) @ NUL # r)) (k # bs) = cmd_words l"
      using c [of m] w ih(3) by simp
    moreover have "\<forall>b\<in>set (k # bs). b < length l" using ih(4) len by auto
    ultimately show ?thesis by blast
  qed
qed

section \<open>The buffers\<close>

definition parser_inv :: "parser \<Rightarrow> bool" where
  "parser_inv p =
     (length (at_rx_buf p) = AT_RX_BUF_SIZE \<and> at_rx_head p < AT_RX_BUF_SIZE \<and> at_rx_tail p < AT_RX_BUF_SIZE \<and>
      length (at_line p) = AT_LINE_MAX \<and> at_line_len p < AT_LINE_MAX \<and> at_line p ! (AT_LINE_MAX - 1) = NUL \<and>
      length (at_argv p) = AT_ARGV_MAX \<and> (\<forall>b. Some b \<in> set (at_argv p) \<longrightarrow> b < AT_LINE_MAX))"

lemmas at_consts = AT_RX_BUF_SIZE_def AT_LINE_MAX_def AT_ARGV_MAX_def

definition chop_cr :: "string \<Rightarrow> string" where
  "chop_cr t = (if t \<noteq> [] \<and> last t = CR then butlast t else t)"

definition line_text :: "parser \<Rightarrow> string" where
  "line_text p = chop_cr (cstr_at (at_line p) 0)"

lemma cstr_split:
  assumes "NUL \<in> set m"
  obtains r where "m = cstr_at m 0 @ NUL # r" "NUL \<notin> set (cstr_at m 0)"
proof -
  obtain l r where m: "m = l @ NUL # r" "NUL \<notin> set l" using split_list_first [OF assms] by blast
  have "cstr_at m 0 = l" using cstr_at_append [OF m(2), of 0 "[]" r] m(1) by simp
  with m that show thesis by simp
qed

lemma nul_update: "m ! k = NUL \<Longrightarrow> m[i := NUL] ! k = NUL"
  by (cases "i = k"; cases "i < length m") (auto simp: list_update_beyond)

lemma strip_cr_split:
  assumes "NUL \<in> set m" "t = chop_cr (cstr_at m 0)"
  obtains r where "strip_cr m = t @ NUL # r" "NUL \<notin> set t" "length (strip_cr m) = length m"
    "m ! (length m - 1) = NUL \<Longrightarrow> strip_cr m ! (length m - 1) = NUL"
proof -
  obtain r where m: "m = cstr_at m 0 @ NUL # r" "NUL \<notin> set (cstr_at m 0)"
    by (rule cstr_split [OF assms(1)])
  define l where "l = cstr_at m 0"
  have ml: "m = l @ NUL # r" "NUL \<notin> set l" using m by (simp_all add: l_def)
  have nth: "l \<noteq> [] \<Longrightarrow> m ! (length l - 1) = last l"
    using ml(1) by (simp add: nth_append last_conv_nth)
  have len: "length (strip_cr m) = length m" by (simp add: strip_cr_def Let_def)
  have last: "m ! (length m - 1) = NUL \<Longrightarrow> strip_cr m ! (length m - 1) = NUL"
    by (simp add: strip_cr_def Let_def nul_update)
  show thesis
  proof (cases "l \<noteq> [] \<and> last l = CR")
    case True
    then have t: "t = butlast l" using assms(2) by (simp add: chop_cr_def l_def)
    have "m = butlast l @ CR # NUL # r"
      using ml(1) True append_butlast_last_id [of l] by (metis append.assoc append_Cons append_Nil)
    moreover have "strip_cr m = m[length l - 1 := NUL]"
      using True nth by (simp add: strip_cr_def Let_def l_def [symmetric])
    moreover have "length l - 1 = length (butlast l)" by simp
    ultimately have "strip_cr m = t @ NUL # NUL # r"
      unfolding t by (metis list_update_length)
    moreover have "NUL \<notin> set t" using ml(2) t by (metis in_set_butlastD)
    ultimately show thesis using that len last by blast
  next
    case False
    then have "t = l" using assms(2) by (auto simp: chop_cr_def l_def)
    moreover have "strip_cr m = m"
      using False nth by (auto simp: strip_cr_def Let_def l_def [symmetric])
    ultimately show thesis using that [of r] ml len last by simp
  qed
qed

lemma length_cmd_words: "length (cmd_words t) \<le> AT_ARGV_MAX"
  by (simp add: cmd_words_def Let_def at_consts)

lemma inv_line: "parser_inv p \<Longrightarrow> NUL \<in> set (at_line p)"
  using nth_mem [of "AT_LINE_MAX - 1" "at_line p"] by (auto simp: parser_inv_def at_consts)

text \<open>A line, cut into words in its buffer.\<close>

lemma line_words:
  assumes "parser_inv p"
  obtains bs m where "tokenize (strip_cr (at_line p)) = (bs, m)" "map (cstr_at m) bs = cmd_words (line_text p)"
    "cstr_at (strip_cr (at_line p)) 0 = line_text p"
    "parser_inv (p\<lparr>at_line := m, at_argv := map Some bs @ drop (length bs) (at_argv p)\<rparr>)"
    "parser_inv (p\<lparr>at_line := strip_cr (at_line p)\<rparr>)"
proof -
  obtain r where r: "strip_cr (at_line p) = line_text p @ NUL # r" "NUL \<notin> set (line_text p)"
    "length (strip_cr (at_line p)) = length (at_line p)"
    "at_line p ! (length (at_line p) - 1) = NUL \<Longrightarrow> strip_cr (at_line p) ! (length (at_line p) - 1) = NUL"
    by (rule strip_cr_split [OF inv_line [OF assms], of "line_text p"]) (auto simp: line_text_def)
  from tokenize_words [OF r(2), of r] obtain bs l' where
    tk: "tokenize (line_text p @ NUL # r) = (bs, l' @ NUL # r)" "length l' = length (line_text p)"
      "map (cstr_at (l' @ NUL # r)) bs = cmd_words (line_text p)" "\<forall>b\<in>set bs. b < length (line_text p)"
    by blast
  have len: "length (line_text p) + 1 + length r = AT_LINE_MAX"
    using r(1,3) assms by (simp add: parser_inv_def)
  have lb: "length bs \<le> AT_ARGV_MAX" using length_cmd_words [of "line_text p"] tk(3) by (metis length_map)
  have nul: "strip_cr (at_line p) ! (AT_LINE_MAX - 1) = NUL"
    using r(4) assms by (simp add: parser_inv_def)
  have "(l' @ NUL # r) ! (AT_LINE_MAX - 1) = (line_text p @ NUL # r) ! (AT_LINE_MAX - 1)"
  proof -
    have "AT_LINE_MAX - 1 = length (line_text p) + length r" using len by simp
    then show ?thesis using tk(2) by (simp add: nth_append)
  qed
  then have nul': "(l' @ NUL # r) ! (AT_LINE_MAX - 1) = NUL" using nul r(1) by simp
  have off: "b < AT_LINE_MAX" if "Some b \<in> set (map Some bs @ drop (length bs) (at_argv p))" for b
    using that tk(4) len assms by (fastforce simp: parser_inv_def dest: in_set_dropD)
  have i: "parser_inv (p\<lparr>at_line := l' @ NUL # r, at_argv := map Some bs @ drop (length bs) (at_argv p)\<rparr>)"
    using assms len tk(2) lb nul' off by (simp add: parser_inv_def)
  show thesis
  proof (rule that [OF _ tk(3) _ i])
    show "tokenize (strip_cr (at_line p)) = (bs, l' @ NUL # r)" using tk(1) r(1) by simp
    show "cstr_at (strip_cr (at_line p)) 0 = line_text p"
      using cstr_at_append [OF r(2), of 0 "[]" r] r(1) by simp
    show "parser_inv (p\<lparr>at_line := strip_cr (at_line p)\<rparr>)" using assms r(3) nul by (simp add: parser_inv_def)
  qed
qed

lemma process_line_inv:
  assumes "parser_inv p" "at_process_line tbl p s = (alive, p', s')"
  shows "parser_inv p'" "at_rx_head p' = at_rx_head p" "at_rx_tail p' = at_rx_tail p"
    "at_line_len p' = at_line_len p"
proof -
  obtain bs m where w: "tokenize (strip_cr (at_line p)) = (bs, m)"
    "parser_inv (p\<lparr>at_line := m, at_argv := map Some bs @ drop (length bs) (at_argv p)\<rparr>)"
    "parser_inv (p\<lparr>at_line := strip_cr (at_line p)\<rparr>)"
    by (rule line_words [OF assms(1)]) blast
  have "p' = p\<lparr>at_line := strip_cr (at_line p)\<rparr> \<or>
        p' = p\<lparr>at_line := m, at_argv := map Some bs @ drop (length bs) (at_argv p)\<rparr>"
    using assms(2) w(1) by (auto simp: at_process_line_def Let_def split: if_splits prod.splits)
  with w show "parser_inv p'" "at_rx_head p' = at_rx_head p" "at_rx_tail p' = at_rx_tail p"
    "at_line_len p' = at_line_len p" by auto
qed

section \<open>Answers\<close>

text \<open>
  The answer to a command: \<open>ERROR\<close> when the table does not know its name; otherwise the handler runs
  on the words, followed by what earlier lines left in the vector, and its result decides.
\<close>

definition answered ::
  "'a base_scheme table \<Rightarrow> string list \<Rightarrow> argv \<Rightarrow> 'a base_scheme \<Rightarrow> bool \<times> 'a base_scheme" where
  "answered tbl ws stale s =
     (case find (\<lambda>c. strcaseeq (hd ws) (fst c)) tbl of
        None \<Rightarrow> (True, AT_Response ''ERROR'' s)
      | Some c \<Rightarrow>
          (case snd c (length ws) (map Some ws @ stale) s of
             (None, s1) \<Rightarrow> (False, s1)
           | (Some r, s1) \<Rightarrow> (True, AT_Response (if r = 0 then ''OK'' else ''ERROR'') s1)))"

lemma line_answered:
  assumes "parser_inv p" "cmd_words (line_text p) \<noteq> []" "at_process_line tbl p s = (alive, p', s')"
  shows "\<exists>stale. length (cmd_words (line_text p)) + length stale = AT_ARGV_MAX \<and>
           (alive, s') = answered tbl (cmd_words (line_text p)) stale s"
proof -
  define ws where "ws = cmd_words (line_text p)"
  obtain bs m where w: "tokenize (strip_cr (at_line p)) = (bs, m)" "map (cstr_at m) bs = ws"
    "cstr_at (strip_cr (at_line p)) 0 = line_text p"
    unfolding ws_def by (rule line_words [OF assms(1)]) blast
  have ne: "line_text p \<noteq> []" using assms(2) by (auto simp: cmd_words_def)
  define stale where "stale = map (map_option (cstr_at m)) (drop (length bs) (at_argv p))"
  have lb: "length bs = length ws" using w(2) by auto
  have "map (map_option (cstr_at m)) (map Some bs) = map Some ws"
    using w(2) by (auto simp: o_def)
  then have av: "argv_strings (p\<lparr>at_line := m, at_argv := map Some bs @ drop (length bs) (at_argv p)\<rparr>) =
      map Some ws @ stale"
    by (simp add: argv_strings_def stale_def)
  have "(alive, s') = dispatch tbl (length ws) (map Some ws @ stale) s"
    using assms(3) w(1,3) ne av lb
    by (simp add: at_process_line_def Let_def split: prod.splits)
  also have "\<dots> = answered tbl ws stale s"
    using assms(2) by (cases ws) (simp_all add: dispatch_def answered_def arg_def ws_def [symmetric] split: option.split)
  finally have "(alive, s') = answered tbl ws stale s" .
  moreover have "length ws + length stale = AT_ARGV_MAX"
    using lb length_cmd_words [of "line_text p"] assms(1) by (simp add: stale_def parser_inv_def ws_def)
  ultimately show ?thesis unfolding ws_def by blast
qed

text \<open>
  C4: Answering a command.  Whatever the buffer holds, a line with a command in it is cut into exactly
  the words of the reference splitting: the name up to the first \<open>=\<close>, then the non-empty fields between
  commas, at most 66 words in all.  If the table does not know the name, in any case of its letters,
  the answer is \<open>ERROR\<close> and nothing else changes; otherwise the first such handler runs on these words
  and the answer after whatever it prints is \<open>OK\<close> exactly when it returns 0.
\<close>

theorem at_line_answered:
  assumes "parser_inv p" "cmd_words (line_text p) = w # ws"
    and "at_process_line (cmd_table E) p s = (alive, p', s')"
  shows "\<exists>stale. length (w # ws) + length stale = AT_ARGV_MAX \<and>
    (alive, s') =
      (case find (\<lambda>c. strcaseeq w (fst c)) (cmd_table E) of
         None \<Rightarrow> (True, AT_Response ''ERROR'' s)
       | Some c \<Rightarrow>
           (case snd c (length (w # ws)) (map Some (w # ws) @ stale) s of
              (None, s1) \<Rightarrow> (False, s1)
            | (Some r, s1) \<Rightarrow> (True, AT_Response (if r = 0 then ''OK'' else ''ERROR'') s1)))"
proof -
  have "cmd_words (line_text p) \<noteq> []" using assms(2) by simp
  from line_answered [OF assms(1) this assms(3)] show ?thesis
    unfolding assms(2) answered_def list.sel .
qed

text \<open>A buffer that holds a line.\<close>

definition with_line :: "string \<Rightarrow> parser" where
  "with_line t = parser_start\<lparr>at_line := t @ replicate (AT_LINE_MAX - length t) NUL\<rparr>"

lemma with_line_inv:
  assumes "length t < AT_LINE_MAX" shows "parser_inv (with_line t)"
  using assms by (simp add: parser_inv_def with_line_def parser_start_def nth_append at_consts)

lemma with_line_text:
  assumes "length t < AT_LINE_MAX" "NUL \<notin> set t" shows "line_text (with_line t) = chop_cr t"
proof -
  obtain n where n: "AT_LINE_MAX - length t = Suc n" using assms(1) by (metis Suc_diff_Suc)
  have "cstr_at (t @ NUL # replicate n NUL) 0 = t"
    using cstr_at_append [OF assms(2), of 0 "[]"] by simp
  then show ?thesis by (simp add: line_text_def with_line_def n)
qed

definition idle_node :: "env \<Rightarrow> at_state" where
  "idle_node E = dongle_state.extend (dongle_start (router_start E (demo_slots E))) \<lparr>i2c_inited = False\<rparr>"

theorem at_line_answered_witness:
  "let (alive, p, s) = at_process_line (cmd_table (demo_env MODE_DUAL)) (with_line ''at+echo=hello'')
                         (idle_node (demo_env MODE_DUAL))
   in alive \<and> s = AT_Response ''OK'' (AT_Response ''hello'' (idle_node (demo_env MODE_DUAL)))"
proof -
  let ?E = "demo_env MODE_DUAL" and ?p = "with_line ''at+echo=hello''"
  obtain alive p s where r: "at_process_line (cmd_table ?E) ?p (idle_node ?E) = (alive, p, s)"
    by (metis prod.exhaust)
  have t: "line_text ?p = ''at+echo=hello''"
    by (subst with_line_text) (simp_all add: at_consts chop_cr_def)
  have w: "cmd_words (line_text ?p) = [''at+echo'', ''hello'']"
    unfolding t by (simp add: cmd_words_def fields_def at_consts)
  have i: "parser_inv ?p" by (rule with_line_inv) (simp add: at_consts)
  have f: "find (\<lambda>c. strcaseeq ''at+echo'' (fst c)) (cmd_table ?E :: (string \<times> unit handler) list) =
      Some (''AT+ECHO'', at_cmd_ECHO)"
  proof -
    have "\<not> strcaseeq ''at+echo'' ''AT''" "\<not> strcaseeq ''at+echo'' ''AT+VER''"
      "\<not> strcaseeq ''at+echo'' ''AT+HELP''" "strcaseeq ''at+echo'' ''AT+ECHO''"
      by code_simp+
    then show ?thesis by (simp add: cmd_table_def cmd_help_def cmd_handlers_def)
  qed
  from at_line_answered [OF i w r] have "alive \<and> s = AT_Response ''OK'' (AT_Response ''hello'' (idle_node ?E))"
    unfolding f by (auto simp: at_cmd_ECHO_def reply_def arg_def)
  with r show ?thesis by simp
qed

section \<open>The task keeps the buffers\<close>

lemma line_put_inv: "parser_inv p \<Longrightarrow> parser_inv (line_put ch p)"
  by (auto simp: line_put_def parser_inv_def nth_list_update at_consts)

lemma line_end_inv: "parser_inv p \<Longrightarrow> parser_inv (line_end p)"
  by (auto simp: line_end_def parser_inv_def nul_update at_consts)

lemma uart_feed_inv: "parser_inv p \<Longrightarrow> parser_inv (uart_feed ch p)"
  by (simp add: uart_feed_def parser_inv_def Let_def at_consts)

lemma feed_inv: "parser_inv p \<Longrightarrow> parser_inv (fold uart_feed rx p)"
  by (induction rx arbitrary: p) (simp_all add: uart_feed_inv)

lemma uart_byte_inv:
  assumes "parser_inv p" "uart_byte tbl p s = (alive, p', s')"
  shows "parser_inv p'" "at_rx_head p' = at_rx_head p" "at_rx_tail p' = (at_rx_tail p + 1) mod AT_RX_BUF_SIZE"
proof -
  let ?p = "p\<lparr>at_rx_tail := (at_rx_tail p + 1) mod AT_RX_BUF_SIZE\<rparr>"
  have i: "parser_inv ?p" using assms(1) by (simp add: parser_inv_def at_consts)
  have "parser_inv p' \<and> at_rx_head p' = at_rx_head p \<and> at_rx_tail p' = (at_rx_tail p + 1) mod AT_RX_BUF_SIZE"
  proof (cases "at_rx_buf p ! at_rx_tail p = 0x0A")
    case True
    then have "at_process_line tbl (line_end ?p) (s\<lparr>at_channel := AT_CH_UART\<rparr>) = (alive, p', s')"
      using assms(2) by (simp add: uart_byte_def Let_def)
    from process_line_inv [OF line_end_inv [OF i] this] show ?thesis by (simp add: line_end_def)
  next
    case False
    then have "p' = line_put (at_rx_buf p ! at_rx_tail p) ?p"
      using assms(2) by (auto simp: uart_byte_def Let_def)
    with line_put_inv [OF i] show ?thesis by (simp add: line_put_def)
  qed
  then show "parser_inv p'" "at_rx_head p' = at_rx_head p"
    "at_rx_tail p' = (at_rx_tail p + 1) mod AT_RX_BUF_SIZE" by blast+
qed

text \<open>The number of bytes in the ring; 256 rounds are enough to empty it.\<close>

definition rx_pending :: "parser \<Rightarrow> nat" where
  "rx_pending p = (at_rx_head p + AT_RX_BUF_SIZE - at_rx_tail p) mod AT_RX_BUF_SIZE"

lemma pending_step:
  assumes "h < 256" "t < 256" "t \<noteq> (h :: nat)"
  shows "(h + 256 - t) mod 256 = Suc ((h + 256 - (t + 1) mod 256) mod 256)"
proof (cases "t < h")
  case True
  then have "(h + 256 - t) mod 256 = h - t" "(t + 1) mod 256 = t + 1"
    "(h + 256 - (t + 1)) mod 256 = h - (t + 1)"
    using assms by (simp_all add: mod_if)
  with True show ?thesis by simp
next
  case False
  then have "(h + 256 - t) mod 256 = h + 256 - t" using assms by simp
  moreover have "(h + 256 - (t + 1) mod 256) mod 256 = h + 255 - t"
    using False assms by (cases "t = 255") (auto simp: mod_if)
  ultimately show ?thesis using False assms by simp
qed

lemma uart_loop_inv:
  assumes "parser_inv p" "uart_loop tbl n p s = (alive, p', s')" "rx_pending p \<le> n"
  shows "parser_inv p' \<and> (alive \<longrightarrow> at_rx_tail p' = at_rx_head p')"
  using assms
proof (induction n arbitrary: p s)
  case 0
  then have b: "at_rx_head p < 256" "at_rx_tail p < 256" by (simp_all add: parser_inv_def at_consts)
  have "at_rx_tail p = at_rx_head p"
  proof (rule ccontr)
    assume "at_rx_tail p \<noteq> at_rx_head p"
    from pending_step [OF b this] 0(3) show False by (simp add: rx_pending_def at_consts)
  qed
  with 0 show ?case by simp
next
  case (Suc n)
  show ?case
  proof (cases "at_rx_tail p = at_rx_head p")
    case True
    then have "p' = p" using Suc.prems(2) by simp
    with Suc.prems(1) True show ?thesis by simp
  next
    case False
    obtain al p1 s1 where u: "uart_byte tbl p s = (al, p1, s1)" by (metis prod.exhaust)
    note k = uart_byte_inv [OF Suc.prems(1) u]
    have b: "at_rx_head p < 256" "at_rx_tail p < 256"
      using Suc.prems(1) by (simp_all add: parser_inv_def at_consts)
    have "rx_pending p1 \<le> n"
      using pending_step [OF b False] Suc.prems(3) k(2,3) by (simp add: rx_pending_def at_consts)
    note ih = Suc.IH [OF k(1) _ this]
    have eq: "(case al of True \<Rightarrow> uart_loop tbl n p1 s1 | False \<Rightarrow> (False, p1, s1)) = (alive, p', s')"
      using Suc.prems(2) u False by (simp only: uart_loop.simps if_False prod.case)
    show ?thesis
    proof (cases al)
      case True
      with eq show ?thesis by (intro ih) simp
    next
      case f: False
      with eq k(1) show ?thesis by simp
    qed
  qed
qed

lemma cdc_loop_inv:
  assumes "parser_inv p" "cdc_loop tbl bs p s = (alive, p', s')"
  shows "parser_inv p' \<and> at_rx_head p' = at_rx_head p \<and> at_rx_tail p' = at_rx_tail p"
  using assms
proof (induction tbl bs p s rule: cdc_loop.induct)
  case (2 tbl ch chs p s)
  obtain al p1 s1 where c: "cdc_byte tbl ch p s = (al, p1, s1)" by (metis prod.exhaust)
  have k: "parser_inv p1 \<and> at_rx_head p1 = at_rx_head p \<and> at_rx_tail p1 = at_rx_tail p"
  proof (cases "ch = 0x0A")
    case True
    with c show ?thesis
      using process_line_inv [OF line_end_inv [OF 2(2)]] by (fastforce simp: cdc_byte_def Let_def line_end_def)
  next
    case False
    with c 2(2) line_put_inv [OF 2(2), of ch] show ?thesis
      by (auto simp: cdc_byte_def line_put_def split: if_splits)
  qed
  with 2 c show ?case by (cases al) auto
qed simp

text \<open>
  C35: The AT parser stays inside its buffers.  A poll, whatever bytes arrive on the two channels in
  whatever interleaving with earlier ones, and whatever the handlers do, keeps the cursors of the
  receive ring in the ring, the write position in the line buffer, the terminator at the end of that
  buffer, and every argument pointer inside it; and a poll that returns has emptied the ring.
\<close>

theorem parser_stays_in_bounds:
  assumes "parser_inv p" "AT_Poll tbl rx p s = (alive, p', s')"
  shows "parser_inv p' \<and> (alive \<longrightarrow> at_rx_tail p' = at_rx_head p')"
proof -
  obtain al p1 s1 where u: "uart_loop tbl AT_RX_BUF_SIZE (fold uart_feed rx p) s = (al, p1, s1)"
    by (metis prod.exhaust)
  have "rx_pending (fold uart_feed rx p) \<le> AT_RX_BUF_SIZE"
    by (simp add: rx_pending_def at_consts less_imp_le)
  from uart_loop_inv [OF feed_inv [OF assms(1)] u this]
  have k: "parser_inv p1 \<and> (al \<longrightarrow> at_rx_tail p1 = at_rx_head p1)" .
  show ?thesis
  proof (cases al)
    case True
    obtain bs us where c: "USB_CDC_Read 64 (usb s1) = (bs, us)" by (metis prod.exhaust)
    have "cdc_loop tbl bs p1 (s1\<lparr>usb := us\<rparr>) = (alive, p', s')"
      using assms(2) u True c by (simp add: AT_Poll_def)
    from cdc_loop_inv [OF _ this] k True show ?thesis by simp
  next
    case False
    with assms(2) u k show ?thesis by (simp add: AT_Poll_def)
  qed
qed

lemma parser_start_inv: "parser_inv parser_start"
  by (simp add: parser_inv_def parser_start_def at_consts)

theorem parser_stays_in_bounds_witness:
  "let (alive, p, s) = AT_Poll (cmd_table (demo_env MODE_DUAL)) (bytes_of ''AT'' @ replicate 300 0x41) parser_start
                         (idle_node (demo_env MODE_DUAL))
   in parser_inv p \<and> (alive \<longrightarrow> at_rx_tail p = at_rx_head p)"
proof -
  obtain alive p s where r: "AT_Poll (cmd_table (demo_env MODE_DUAL)) (bytes_of ''AT'' @ replicate 300 0x41)
      parser_start (idle_node (demo_env MODE_DUAL)) = (alive, p, s)"
    by (metis prod.exhaust)
  show ?thesis using parser_stays_in_bounds [OF parser_start_inv r] r by simp
qed

end
