(* ===== verification/Gatt_Info.thy ===== *)
theory Gatt_Info
  imports Hid_Dev
begin

text \<open>
  Two further GATT services: device information (\<^verbatim>\<open>ble_dev_info.c\<close>), which the firmware registers, and
  scan parameters (\<^verbatim>\<open>ble_scan_param.c\<close>), whose registration is commented out in \<^verbatim>\<open>ble_hid_dev.c\<close>; and
  the parameter interface of the battery service.  The static variables of the two services are
  a record of their own, because no other file reaches them.
\<close>

record gatt_info = base +
  devInfoSystemId :: "u8 list"
  scanIntervalWindow :: "u8 list"
  scanParamServiceCB :: bool

text \<open>\<open>scanParamServiceCB\<close> says whether the callback pointer is set; \<open>hidDevScanParamCB\<close> does nothing.\<close>

definition gatt_info_start :: "base \<Rightarrow> gatt_info" where
  "gatt_info_start s = base.extend s
     \<lparr>devInfoSystemId = replicate 8 0, scanIntervalWindow = replicate 4 0, scanParamServiceCB = False\<rparr>"

section \<open>Device information\<close>

definition SYSTEM_ID_UUID :: u16 where "SYSTEM_ID_UUID = 0x2A23"
definition MODEL_NUMBER_UUID :: u16 where "MODEL_NUMBER_UUID = 0x2A24"
definition SERIAL_NUMBER_UUID :: u16 where "SERIAL_NUMBER_UUID = 0x2A25"
definition FIRMWARE_REV_UUID :: u16 where "FIRMWARE_REV_UUID = 0x2A26"
definition HARDWARE_REV_UUID :: u16 where "HARDWARE_REV_UUID = 0x2A27"
definition SOFTWARE_REV_UUID :: u16 where "SOFTWARE_REV_UUID = 0x2A28"
definition MANUFACTURER_NAME_UUID :: u16 where "MANUFACTURER_NAME_UUID = 0x2A29"
definition IEEE_11073_CERT_DATA_UUID :: u16 where "IEEE_11073_CERT_DATA_UUID = 0x2A2A"
definition PNP_ID_UUID :: u16 where "PNP_ID_UUID = 0x2A50"

lemmas dev_uuid_defs = SYSTEM_ID_UUID_def MODEL_NUMBER_UUID_def SERIAL_NUMBER_UUID_def
  FIRMWARE_REV_UUID_def HARDWARE_REV_UUID_def SOFTWARE_REV_UUID_def MANUFACTURER_NAME_UUID_def
  IEEE_11073_CERT_DATA_UUID_def PNP_ID_UUID_def

definition BLE_DEV_INFO_SYSTEM_ID :: u8 where "BLE_DEV_INFO_SYSTEM_ID = 0"
definition BLE_DEV_INFO_MODEL_NUMBER :: u8 where "BLE_DEV_INFO_MODEL_NUMBER = 1"
definition BLE_DEV_INFO_SERIAL_NUMBER :: u8 where "BLE_DEV_INFO_SERIAL_NUMBER = 2"
definition BLE_DEV_INFO_FIRMWARE_REV :: u8 where "BLE_DEV_INFO_FIRMWARE_REV = 3"
definition BLE_DEV_INFO_HARDWARE_REV :: u8 where "BLE_DEV_INFO_HARDWARE_REV = 4"
definition BLE_DEV_INFO_SOFTWARE_REV :: u8 where "BLE_DEV_INFO_SOFTWARE_REV = 5"
definition BLE_DEV_INFO_MANUFACTURER_NAME :: u8 where "BLE_DEV_INFO_MANUFACTURER_NAME = 6"
definition BLE_DEV_INFO_11073_CERT_DATA :: u8 where "BLE_DEV_INFO_11073_CERT_DATA = 7"
definition BLE_DEV_INFO_PNP_ID :: u8 where "BLE_DEV_INFO_PNP_ID = 8"
definition BLE_DEV_INFO_SYSTEM_ID_LEN :: nat where "BLE_DEV_INFO_SYSTEM_ID_LEN = 8"
definition BLE_DEV_INFO_11073_BODY_EXP :: u8 where "BLE_DEV_INFO_11073_BODY_EXP = 254"

lemmas dev_param_defs = BLE_DEV_INFO_SYSTEM_ID_def BLE_DEV_INFO_MODEL_NUMBER_def
  BLE_DEV_INFO_SERIAL_NUMBER_def BLE_DEV_INFO_FIRMWARE_REV_def BLE_DEV_INFO_HARDWARE_REV_def
  BLE_DEV_INFO_SOFTWARE_REV_def BLE_DEV_INFO_MANUFACTURER_NAME_def BLE_DEV_INFO_11073_CERT_DATA_def
  BLE_DEV_INFO_PNP_ID_def

text \<open>The arrays, the strings with their terminator.\<close>

definition devInfoModelNumber :: "u8 list" where
  "devInfoModelNumber = bytes_of (''Model Number'' @ [NUL])"
definition devInfoSerialNumber :: "u8 list" where
  "devInfoSerialNumber = bytes_of (''Serial Number'' @ [NUL])"
definition devInfoFirmwareRev :: "u8 list" where
  "devInfoFirmwareRev = bytes_of (''Firmware Revision'' @ [NUL])"
definition devInfoHardwareRev :: "u8 list" where
  "devInfoHardwareRev = bytes_of (''Hardware Revision'' @ [NUL])"
definition devInfoSoftwareRev :: "u8 list" where
  "devInfoSoftwareRev = bytes_of (''Software Revision'' @ [NUL])"
definition devInfoMfrName :: "u8 list" where
  "devInfoMfrName = bytes_of (''Manufacturer Name'' @ [NUL])"
definition devInfo11073Cert :: "u8 list" where
  "devInfo11073Cert = [BLE_DEV_INFO_11073_BODY_EXP, 0x00] @ bytes_of ''experimental''"
definition devInfoPnpId :: "u8 list" where
  "devInfoPnpId = [1] @ le16 0x07D7 @ le16 0x0000 @ le16 0x0110"

lemmas dev_array_defs = devInfoModelNumber_def devInfoSerialNumber_def devInfoFirmwareRev_def
  devInfoHardwareRev_def devInfoSoftwareRev_def devInfoMfrName_def devInfo11073Cert_def devInfoPnpId_def

definition ble_dev_info_add_service :: "env \<Rightarrow> 'a base_scheme \<Rightarrow> u8 \<times> 'a base_scheme" where
  "ble_dev_info_add_service E s = call E (Stack (RegisterService DevInfoService)) s"

text \<open>The copy is as long as \<open>len\<close> says; more than the array holds is written past its end.\<close>

definition ble_dev_info_set_param ::
  "u8 \<Rightarrow> u8 \<Rightarrow> u8 list \<Rightarrow> 'a gatt_info_scheme \<Rightarrow> u8 \<times> 'a gatt_info_scheme" where
  "ble_dev_info_set_param param len val s =
     (if param = BLE_DEV_INFO_SYSTEM_ID then
        (let s1 = s\<lparr>devInfoSystemId := take BLE_DEV_INFO_SYSTEM_ID_LEN
                      (take (unat len) val @ drop (unat len) (devInfoSystemId s))\<rparr>
         in (SUCCESS, if unat len > BLE_DEV_INFO_SYSTEM_ID_LEN then set_ub s1 else s1))
      else (INVALIDPARAMETER, s))"

text \<open>The result is the status and the bytes copied to the caller.\<close>

definition ble_dev_info_get_param :: "u8 \<Rightarrow> 'a gatt_info_scheme \<Rightarrow> u8 \<times> u8 list" where
  "ble_dev_info_get_param param s =
     (if param = BLE_DEV_INFO_SYSTEM_ID then (SUCCESS, devInfoSystemId s)
      else if param = BLE_DEV_INFO_MODEL_NUMBER then (SUCCESS, devInfoModelNumber)
      else if param = BLE_DEV_INFO_SERIAL_NUMBER then (SUCCESS, devInfoSerialNumber)
      else if param = BLE_DEV_INFO_FIRMWARE_REV then (SUCCESS, devInfoFirmwareRev)
      else if param = BLE_DEV_INFO_HARDWARE_REV then (SUCCESS, devInfoHardwareRev)
      else if param = BLE_DEV_INFO_SOFTWARE_REV then (SUCCESS, devInfoSoftwareRev)
      else if param = BLE_DEV_INFO_MANUFACTURER_NAME then (SUCCESS, devInfoMfrName)
      else if param = BLE_DEV_INFO_11073_CERT_DATA then (SUCCESS, devInfo11073Cert)
      else if param = BLE_DEV_INFO_PNP_ID then (SUCCESS, devInfoPnpId)
      else (INVALIDPARAMETER, []))"

text \<open>
  The branch every UUID has: the value is the first \<open>sz\<close> bytes of the array.  As in
  \<open>ble_hid_dev_read_attr_cb\<close> the result is the status and the value, \<open>None\<close> where the output length
  stays as it was.
\<close>

definition read_blob :: "u8 list \<Rightarrow> nat \<Rightarrow> nat \<Rightarrow> nat \<Rightarrow> u8 \<times> u8 list option" where
  "read_blob arr sz offset maxLen =
     (if offset \<ge> sz then (ATT_ERR_INVALID_OFFSET, None)
      else (SUCCESS, Some (take (min maxLen (sz - offset)) (drop offset arr))))"

definition devInfo_ReadAttrCB :: "u16 \<Rightarrow> nat \<Rightarrow> nat \<Rightarrow> 'a gatt_info_scheme \<Rightarrow> u8 \<times> u8 list option" where
  "devInfo_ReadAttrCB uuid offset maxLen s =
     (if uuid = SYSTEM_ID_UUID then read_blob (devInfoSystemId s) BLE_DEV_INFO_SYSTEM_ID_LEN offset maxLen
      else if uuid = MODEL_NUMBER_UUID
      then read_blob devInfoModelNumber (length devInfoModelNumber - 1) offset maxLen
      else if uuid = SERIAL_NUMBER_UUID
      then read_blob devInfoSerialNumber (length devInfoSerialNumber - 1) offset maxLen
      else if uuid = FIRMWARE_REV_UUID
      then read_blob devInfoFirmwareRev (length devInfoFirmwareRev - 1) offset maxLen
      else if uuid = HARDWARE_REV_UUID
      then read_blob devInfoHardwareRev (length devInfoHardwareRev - 1) offset maxLen
      else if uuid = SOFTWARE_REV_UUID
      then read_blob devInfoSoftwareRev (length devInfoSoftwareRev - 1) offset maxLen
      else if uuid = MANUFACTURER_NAME_UUID
      then read_blob devInfoMfrName (length devInfoMfrName - 1) offset maxLen
      else if uuid = IEEE_11073_CERT_DATA_UUID
      then read_blob devInfo11073Cert (length devInfo11073Cert) offset maxLen
      else if uuid = PNP_ID_UUID then read_blob devInfoPnpId (length devInfoPnpId) offset maxLen
      else (ATT_ERR_ATTR_NOT_FOUND, Some []))"

section \<open>Scan parameters\<close>

definition SCAN_INTERVAL_WINDOW_UUID :: u16 where "SCAN_INTERVAL_WINDOW_UUID = 0x2A4F"
definition BLE_SCAN_INTERVAL_WINDOW_CHAR_LEN :: nat where "BLE_SCAN_INTERVAL_WINDOW_CHAR_LEN = 4"
definition BLE_SCAN_PARAM_REFRESH_REQ :: u8 where "BLE_SCAN_PARAM_REFRESH_REQ = 0x00"
definition BLE_SCAN_PARAM_INTERVAL :: u8 where "BLE_SCAN_PARAM_INTERVAL = 0"
definition BLE_SCAN_PARAM_WINDOW :: u8 where "BLE_SCAN_PARAM_WINDOW = 1"
definition SCAN_PARAM_REFRESH_CCCD_IDX :: nat where "SCAN_PARAM_REFRESH_CCCD_IDX = 5"

lemmas scan_param_defs = BLE_SCAN_INTERVAL_WINDOW_CHAR_LEN_def BLE_SCAN_PARAM_REFRESH_REQ_def
  BLE_SCAN_PARAM_INTERVAL_def BLE_SCAN_PARAM_WINDOW_def

text \<open>\<open>hdl\<close> gives the handles the GATT server has assigned to the entries of \<open>scanParamAttrTbl\<close>.\<close>

definition ble_scan_param_add_service ::
  "env \<Rightarrow> (nat \<Rightarrow> u16) \<Rightarrow> 'a base_scheme \<Rightarrow> u8 \<times> 'a base_scheme" where
  "ble_scan_param_add_service E hdl s =
     call E (Stack (RegisterService ScanParamService))
       (emit (InitCharCfg INVALID_CONNHANDLE (hdl SCAN_PARAM_REFRESH_CCCD_IDX)) s)"

definition ble_scan_param_register :: "bool \<Rightarrow> 'a gatt_info_scheme \<Rightarrow> 'a gatt_info_scheme" where
  "ble_scan_param_register cb s = s\<lparr>scanParamServiceCB := cb\<rparr>"

definition ble_scan_param_set_param :: "u8 \<Rightarrow> u8 \<Rightarrow> u8 list \<Rightarrow> u8" where
  "ble_scan_param_set_param param len val = INVALIDPARAMETER"

definition ble_scan_param_get_param :: "u8 \<Rightarrow> 'a gatt_info_scheme \<Rightarrow> u8 \<times> u16 option" where
  "ble_scan_param_get_param param s =
     (if param = BLE_SCAN_PARAM_INTERVAL then (SUCCESS, Some (of_le16 (scanIntervalWindow s)))
      else if param = BLE_SCAN_PARAM_WINDOW then (SUCCESS, Some (of_le16 (drop 2 (scanIntervalWindow s))))
      else (INVALIDPARAMETER, None))"

text \<open>The notification carries the handle of the descriptor, not the one of the value.\<close>

definition ble_scan_param_refresh_notify ::
  "env \<Rightarrow> (nat \<Rightarrow> u16) \<Rightarrow> u16 \<Rightarrow> 'a base_scheme \<Rightarrow> 'a base_scheme" where
  "ble_scan_param_refresh_notify E hdl conn s =
     (if ccc_read E (outs s) conn (hdl SCAN_PARAM_REFRESH_CCCD_IDX) AND GATT_CLIENT_CFG_NOTIFY \<noteq> 0 then
        (if bm_alloc E (outs s) conn 1 then
           (let (st, s1) = call E (Notification conn (hdl SCAN_PARAM_REFRESH_CCCD_IDX)
                                    [BLE_SCAN_PARAM_REFRESH_REQ]) s
            in if st \<noteq> SUCCESS then emit BmFree s1 else s1)
         else s)
      else s)"

definition scanParamReadAttrCB :: "u16 \<Rightarrow> nat \<Rightarrow> nat \<Rightarrow> u8 \<times> u8 list option" where
  "scanParamReadAttrCB uuid offset maxLen = (SUCCESS, None)"

text \<open>
  Both numbers are taken from the first two bytes, as the code has it.
\<close>

definition scanParamWriteAttrCB ::
  "env \<Rightarrow> u16 \<Rightarrow> u16 \<Rightarrow> u16 \<Rightarrow> u8 list \<Rightarrow> nat \<Rightarrow> 'a gatt_info_scheme \<Rightarrow> u8 \<times> 'a gatt_info_scheme" where
  "scanParamWriteAttrCB E conn uuid h val offset s =
     (if offset > 0 then (ATT_ERR_ATTR_NOT_LONG, s)
      else if uuid = SCAN_INTERVAL_WINDOW_UUID then
        (if length val = BLE_SCAN_INTERVAL_WINDOW_CHAR_LEN then
           (let interval = of_le16 val; window = of_le16 val
            in if window \<le> interval
               then (SUCCESS, let s1 = s\<lparr>scanIntervalWindow := val\<rparr>
                              in if scanParamServiceCB s1 then s1 else set_ub s1)
               else (ATT_ERR_INVALID_VALUE, s))
         else (ATT_ERR_INVALID_VALUE_SIZE, s))
      else if uuid = GATT_CLIENT_CHAR_CFG_UUID then (ccc_write E (outs s) conn h val, s)
      else (ATT_ERR_ATTR_NOT_FOUND, s))"

definition ble_scan_param_handle_conn_status_cb ::
  "env \<Rightarrow> (nat \<Rightarrow> u16) \<Rightarrow> u16 \<Rightarrow> link_change \<Rightarrow> 'a base_scheme \<Rightarrow> 'a base_scheme" where
  "ble_scan_param_handle_conn_status_cb E hdl conn ch s =
     (if link_dropped E conn ch s
      then emit (InitCharCfg conn (hdl SCAN_PARAM_REFRESH_CCCD_IDX)) s else s)"

section \<open>Parameters of the battery service\<close>

definition ble_batt_add_service :: "env \<Rightarrow> 'a base_scheme \<Rightarrow> u8 \<times> 'a base_scheme" where
  "ble_batt_add_service E s =
     call E (Stack (RegisterService BattService))
       (emit (InitCharCfg INVALID_CONNHANDLE (batt_handle E BATT_LEVEL_VALUE_CCCD_IDX)) s)"

definition BLE_BATT_PARAM_LEVEL :: u8 where "BLE_BATT_PARAM_LEVEL = 0"
definition BLE_BATT_PARAM_CRITICAL_LEVEL :: u8 where "BLE_BATT_PARAM_CRITICAL_LEVEL = 1"
definition BLE_BATT_PARAM_SERVICE_HANDLE :: u8 where "BLE_BATT_PARAM_SERVICE_HANDLE = 2"
definition BLE_BLE_BATT_PARAM_LEVEL_IN_REPORT :: u8 where "BLE_BLE_BATT_PARAM_LEVEL_IN_REPORT = 3"

definition ble_batt_set_param ::
  "env \<Rightarrow> u8 \<Rightarrow> u8 list \<Rightarrow> 'a hid_state_scheme \<Rightarrow> u8 \<times> 'a hid_state_scheme" where
  "ble_batt_set_param E param val s =
     (if param = BLE_BATT_PARAM_CRITICAL_LEVEL then (SUCCESS, ble_batt_set_critical E (val ! 0) s)
      else (INVALIDPARAMETER, s))"

text \<open>What the parameter is written through: a byte, a handle, or a line of the report table.\<close>

datatype batt_param = BattByte u8 | BattHandle u16 | BattReport rpt_map

definition ble_batt_get_param :: "env \<Rightarrow> u8 \<Rightarrow> 'a hid_state_scheme \<Rightarrow> u8 \<times> batt_param option" where
  "ble_batt_get_param E param s =
     (if param = BLE_BATT_PARAM_LEVEL then (SUCCESS, Some (BattByte (battLevel s)))
      else if param = BLE_BATT_PARAM_CRITICAL_LEVEL then (SUCCESS, Some (BattByte (battCriticalLevel s)))
      else if param = BLE_BATT_PARAM_SERVICE_HANDLE then (SUCCESS, Some (BattHandle (batt_handle E 0)))
      else if param = BLE_BLE_BATT_PARAM_LEVEL_IN_REPORT then
        (SUCCESS, Some (BattReport
           \<lparr>rpt_id = BLE_HID_RPT_ID_BATT_LEVEL_IN, rpt_type = BLE_HID_REPORT_TYPE_INPUT,
            rpt_handle = batt_handle E BATT_LEVEL_VALUE_IDX,
            rpt_cccd = batt_handle E BATT_LEVEL_VALUE_CCCD_IDX, rpt_mode = BLE_HID_PROTOCOL_MODE_REPORT\<rparr>))
      else (INVALIDPARAMETER, None))"

section \<open>Reading a value in pieces\<close>

text \<open>The value a host sees under a UUID: the strings without their terminator.\<close>

definition dev_info_value :: "u16 \<Rightarrow> 'a gatt_info_scheme \<Rightarrow> u8 list option" where
  "dev_info_value uuid s =
     map_of [(SYSTEM_ID_UUID, devInfoSystemId s),
             (MODEL_NUMBER_UUID, bytes_of ''Model Number''),
             (SERIAL_NUMBER_UUID, bytes_of ''Serial Number''),
             (FIRMWARE_REV_UUID, bytes_of ''Firmware Revision''),
             (HARDWARE_REV_UUID, bytes_of ''Hardware Revision''),
             (SOFTWARE_REV_UUID, bytes_of ''Software Revision''),
             (MANUFACTURER_NAME_UUID, bytes_of ''Manufacturer Name''),
             (IEEE_11073_CERT_DATA_UUID, [254, 0] @ bytes_of ''experimental''),
             (PNP_ID_UUID, [1, 0xD7, 0x07, 0, 0, 0x10, 0x01])] uuid"

lemma read_blob_value:
  "length v = sz \<Longrightarrow> read_blob (v @ rest) sz off m =
     (if off < length v then (SUCCESS, Some (take m (drop off v))) else (ATT_ERR_INVALID_OFFSET, None))"
  by (auto simp: read_blob_def min_def)

lemma read_text:
  "arr = bytes_of (t @ [NUL]) \<Longrightarrow> read_blob arr (length arr - Suc 0) off m =
     (if off < length (bytes_of t) then (SUCCESS, Some (take m (drop off (bytes_of t))))
      else (ATT_ERR_INVALID_OFFSET, None))"
  using read_blob_value [of "bytes_of t" "length t" "[byte_of NUL]"] by (simp add: bytes_of_def)

lemma read_bytes:
  "length v = n \<Longrightarrow> read_blob v n off m =
     (if off < length v then (SUCCESS, Some (take m (drop off v))) else (ATT_ERR_INVALID_OFFSET, None))"
  using read_blob_value [of v n "[]"] by simp

lemmas dev_info_reads = read_text [OF devInfoModelNumber_def] read_text [OF devInfoSerialNumber_def]
  read_text [OF devInfoFirmwareRev_def] read_text [OF devInfoHardwareRev_def]
  read_text [OF devInfoSoftwareRev_def] read_text [OF devInfoMfrName_def]
  read_bytes [of devInfo11073Cert, OF refl] read_bytes [of devInfoPnpId, OF refl]

lemma dev_uuids_distinct:
  "distinct [PNP_ID_UUID, IEEE_11073_CERT_DATA_UUID, MANUFACTURER_NAME_UUID, SOFTWARE_REV_UUID,
     HARDWARE_REV_UUID, FIRMWARE_REV_UUID, SERIAL_NUMBER_UUID, MODEL_NUMBER_UUID, SYSTEM_ID_UUID]"
  by (simp add: dev_uuid_defs)

lemmas dev_uuids_ne = dev_uuids_distinct [unfolded distinct.simps list.set insert_iff empty_iff de_Morgan_disj simp_thms]

lemma read_attr_value:
  assumes "dev_info_value uuid s = Some v" "length (devInfoSystemId s) = 8"
  shows "devInfo_ReadAttrCB uuid off m s =
    (if off < length v then (SUCCESS, Some (take m (drop off v))) else (ATT_ERR_INVALID_OFFSET, None))"
proof -
  have c: "[254, 0] @ bytes_of ''experimental'' = devInfo11073Cert"
      "[1, 0xD7, 0x07, 0, 0, 0x10, 0x01] = devInfoPnpId"
    by (simp_all add: dev_array_defs BLE_DEV_INFO_11073_BODY_EXP_def le16_def)
  have "(uuid, v) \<in> set
     [(SYSTEM_ID_UUID, devInfoSystemId s),
      (MODEL_NUMBER_UUID, bytes_of ''Model Number''),
      (SERIAL_NUMBER_UUID, bytes_of ''Serial Number''),
      (FIRMWARE_REV_UUID, bytes_of ''Firmware Revision''),
      (HARDWARE_REV_UUID, bytes_of ''Hardware Revision''),
      (SOFTWARE_REV_UUID, bytes_of ''Software Revision''),
      (MANUFACTURER_NAME_UUID, bytes_of ''Manufacturer Name''),
      (IEEE_11073_CERT_DATA_UUID, devInfo11073Cert), (PNP_ID_UUID, devInfoPnpId)]"
    using assms(1) unfolding dev_info_value_def c by (rule map_of_SomeD)
  then show ?thesis
    unfolding list.set insert_iff empty_iff prod.inject
    by (elim disjE conjE FalseE; hypsubst)
      (simp_all only: devInfo_ReadAttrCB_def dev_uuids_ne simp_thms if_True if_False
        One_nat_def dev_info_reads read_bytes [OF assms(2)] BLE_DEV_INFO_SYSTEM_ID_LEN_def)
qed

lemma concat_pieces: "concat (map (\<lambda>k. take m (drop (k * m) v)) [0..<n]) = take (n * m) v"
proof (induction n)
  case (Suc n)
  have "take (n * m + m) v = take (n * m) v @ take m (drop (n * m) v)" by (rule take_add)
  with Suc show ?case by (simp add: add.commute)
qed simp

text \<open>
  A host can read every value of the device information service, whatever the size \<open>m\<close> of the
  pieces it asks for.  The pieces at the offsets 0, \<open>m\<close>, 2 \<open>m\<close> and so on, put together, are the value,
  the terminator of the strings left out; a read beyond the value is refused with the offset error, so
  a long read stops; and a UUID that is not of the service is answered with the error for it.
\<close>

theorem dev_info_long_read:
  assumes "length (devInfoSystemId s) = 8" "0 < m"
  shows "(case dev_info_value uuid s of
      None \<Rightarrow> devInfo_ReadAttrCB uuid off m s = (ATT_ERR_ATTR_NOT_FOUND, Some [])
    | Some v \<Rightarrow>
        (\<forall>k. k * m < length v \<longrightarrow> fst (devInfo_ReadAttrCB uuid (k * m) m s) = SUCCESS) \<and>
        concat (map (\<lambda>k. the (snd (devInfo_ReadAttrCB uuid (k * m) m s))) [0..<(length v + m - 1) div m]) = v \<and>
        (off \<ge> length v \<longrightarrow> devInfo_ReadAttrCB uuid off m s = (ATT_ERR_INVALID_OFFSET, None)))"
proof (cases "dev_info_value uuid s")
  case None
  then show ?thesis
    by (auto simp: dev_info_value_def devInfo_ReadAttrCB_def split: if_splits)
next
  case (Some v)
  note rd = read_attr_value [OF Some assms(1)]
  let ?n = "(length v + m - 1) div m"
  have low: "k * m < length v" if "k < ?n" for k
  proof -
    have "Suc k * m \<le> ?n * m" using that by (intro mult_right_mono) simp_all
    also have "\<dots> \<le> length v + m - 1" by (rule div_times_less_eq_dividend)
    finally show ?thesis using assms(2) by simp
  qed
  have high: "length v \<le> ?n * m"
  proof -
    have "length v + m - 1 = ?n * m + (length v + m - 1) mod m" by simp
    moreover have "(length v + m - 1) mod m < m" using assms(2) by simp
    ultimately show ?thesis using assms(2) by linarith
  qed
  have "map (\<lambda>k. the (snd (devInfo_ReadAttrCB uuid (k * m) m s))) [0..<?n] =
      map (\<lambda>k. take m (drop (k * m) v)) [0..<?n]"
    by (rule map_cong) (simp_all add: rd low)
  then have "concat (map (\<lambda>k. the (snd (devInfo_ReadAttrCB uuid (k * m) m s))) [0..<?n]) = v"
    using high by (simp only: concat_pieces take_all)
  moreover have "fst (devInfo_ReadAttrCB uuid (k * m) m s) = SUCCESS" if "k * m < length v" for k
    using that by (simp add: rd)
  moreover have "devInfo_ReadAttrCB uuid off m s = (ATT_ERR_INVALID_OFFSET, None)" if "length v \<le> off"
    using that by (simp add: rd)
  ultimately show ?thesis using Some by (simp only: option.case) blast
qed

definition demo_info :: gatt_info where
  "demo_info = gatt_info_start \<lparr>outs = [], ub = False, flash = \<lambda>_. 0xFF, usb = usb_init_state,
     at_channel = AT_CH_UART, uart_tx = []\<rparr>"

theorem dev_info_long_read_witness:
  "concat (map (\<lambda>k. the (snd (devInfo_ReadAttrCB MODEL_NUMBER_UUID (k * 5) 5 demo_info))) [0..<3]) =
     bytes_of ''Model Number''"
proof -
  have l: "length (devInfoSystemId demo_info) = 8" by (simp add: demo_info_def gatt_info_start_def base.defs)
  have v: "dev_info_value MODEL_NUMBER_UUID demo_info = Some (bytes_of ''Model Number'')"
    by (simp add: dev_info_value_def dev_uuid_defs)
  from dev_info_long_read [OF l, of 5 MODEL_NUMBER_UUID 0] show ?thesis by (simp add: v)
qed

section \<open>The scan parameters of a host\<close>

text \<open>
  What a host writes to the scan parameters is what the firmware reads back: a write of four bytes
  is accepted and its two halves are the interval and the window, any other length is refused and
  changes nothing.  The check of the window against the interval compares the interval with itself, so
  it never refuses, and a window longer than its interval is stored like any other.
\<close>

theorem scan_param_write:
  fixes s :: "'a gatt_info_scheme" and E :: env and conn h :: u16
  defines "wr val \<equiv> scanParamWriteAttrCB E conn SCAN_INTERVAL_WINDOW_UUID h val 0 s"
  assumes "scanParamServiceCB s"
  shows "(let (st, s1) = wr (le16 interval @ le16 window) in
      st = SUCCESS \<and> ble_scan_param_get_param BLE_SCAN_PARAM_INTERVAL s1 = (SUCCESS, Some interval) \<and>
      ble_scan_param_get_param BLE_SCAN_PARAM_WINDOW s1 = (SUCCESS, Some window) \<and> ub s1 = ub s) \<and>
    (length val \<noteq> 4 \<longrightarrow> wr val = (ATT_ERR_INVALID_VALUE_SIZE, s)) \<and>
    fst (wr val) \<noteq> ATT_ERR_INVALID_VALUE"
proof -
  have "length (le16 w) = 2" for w :: u16 by (simp add: le16_def)
  then show ?thesis using assms(2)
    by (simp add: wr_def scanParamWriteAttrCB_def ble_scan_param_get_param_def scan_param_defs
        ATT_ERR_INVALID_VALUE_def ATT_ERR_INVALID_VALUE_SIZE_def)
qed

theorem scan_param_write_witness:
  "fst (scanParamWriteAttrCB (demo_env MODE_KBD) 7 SCAN_INTERVAL_WINDOW_UUID 3 (le16 16 @ le16 500) 0
         (ble_scan_param_register True demo_info)) = SUCCESS"
proof -
  have "scanParamServiceCB (ble_scan_param_register True demo_info)" by (simp add: ble_scan_param_register_def)
  from scan_param_write [OF this, of "demo_env MODE_KBD" 7 3 16 500 "[]"] show ?thesis
    by (simp add: case_prod_beta)
qed

end
