(* ===== verification/Usb_Control.thy ===== *)
theory Usb_Control
  imports Effects
begin

text \<open>
  The USB device seen from the host: what a control read of a descriptor delivers, what the two CDC
  rings deliver, and the invariant of the interrupt handler.
\<close>

section \<open>Descriptors\<close>

lemma descriptor_fits:
  "descriptor m wValue = Some (d, n) \<Longrightarrow> n \<le> length d"
  by (cases m)
    (auto simp: descriptor_def Let_def MyDevDescr_def MyCfgDescr_def HIDDescr_def LangDescr_def
      ManuInfo_def SerialInfo_def utf16_def split: if_splits)

section \<open>A control read\<close>

text \<open>The packet the host takes on the next IN token of endpoint 0.\<close>

definition ep0_packet :: "usb \<Rightarrow> u8 list" where
  "ep0_packet u = take (UEP0_T_LEN u) (EP0_Buf u)"

text \<open>
  The interrupts of a control read: one for the SETUP token, whose request bytes the hardware has
  stored in \<open>EP0_Buf\<close>, and one for each IN token of endpoint 0.
\<close>

definition setup_irq :: "ble_mode \<Rightarrow> usb \<Rightarrow> usb" where
  "setup_irq m u = USB_DevTransProcess m RB_UIF_TRANSFER (RB_UIS_SETUP_ACT OR MASK_UIS_TOKEN) [] u"

definition ep0_in_irq :: "ble_mode \<Rightarrow> usb \<Rightarrow> usb" where
  "ep0_in_irq m u = USB_DevTransProcess m RB_UIF_TRANSFER 0x20 [] u"

lemma setup_irq_eq: "setup_irq m u = ep0_setup m u"
  by (simp add: setup_irq_def USB_DevTransProcess_def)

lemma ep0_in_irq_eq: "ep0_in_irq m u = (ep0_in u)\<lparr>USB_INT_FG := RB_UIF_TRANSFER\<rparr>"
  by (simp add: ep0_in_irq_def USB_DevTransProcess_def usb_token_def)

text \<open>The packets of \<open>k\<close> IN tokens after the first one.\<close>

fun ep0_packets :: "ble_mode \<Rightarrow> nat \<Rightarrow> usb \<Rightarrow> u8 list list" where
  "ep0_packets m 0 u = [ep0_packet u]"
| "ep0_packets m (Suc k) u = ep0_packet u # ep0_packets m k (ep0_in_irq m u)"

lemma ep0_in_descr:
  assumes "SetupReqCode u = 0x06" "SetupReqLen u \<le> length (pDescr u)" "length (EP0_Buf u) = 192"
  shows "ep0_packet (ep0_in_irq m u) = take (min 64 (SetupReqLen u)) (pDescr u)"
    and "SetupReqCode (ep0_in_irq m u) = 0x06"
    and "SetupReqLen (ep0_in_irq m u) = SetupReqLen u - 64"
    and "pDescr (ep0_in_irq m u) = drop (min 64 (SetupReqLen u)) (pDescr u)"
    and "usb_oob (ep0_in_irq m u) = usb_oob u"
    and "length (EP0_Buf (ep0_in_irq m u)) = 192"
  using assms
  by (auto simp: ep0_in_irq_eq ep0_in_def EP0_SIZE_def Let_def ep0_packet_def copy_in_def min_def)

lemma ep0_packets_concat:
  assumes "SetupReqCode u = 0x06" "SetupReqLen u \<le> length (pDescr u)" "length (EP0_Buf u) = 192"
    and "SetupReqLen u \<le> 64 * k"
  shows "concat (ep0_packets m k u) = ep0_packet u @ take (SetupReqLen u) (pDescr u)"
  using assms
proof (induction k arbitrary: u)
  case 0
  then show ?case by simp
next
  case (Suc k)
  note step = ep0_in_descr [OF Suc.prems(1-3), of m]
  have "concat (ep0_packets m k (ep0_in_irq m u))
      = ep0_packet (ep0_in_irq m u) @ take (SetupReqLen (ep0_in_irq m u)) (pDescr (ep0_in_irq m u))"
    using Suc.prems step by (intro Suc.IH) auto
  also have "\<dots> = take (SetupReqLen u) (pDescr u)"
  proof -
    have "min 64 (SetupReqLen u) + (SetupReqLen u - 64) = SetupReqLen u" by simp
    then show ?thesis unfolding step by (metis take_add)
  qed
  finally show ?case by simp
qed

lemma ep0_packets_short:
  assumes "UEP0_T_LEN u \<le> 64" "SetupReqCode u = 0x06"
  shows "\<forall>p \<in> set (ep0_packets m k u). length p \<le> 64"
  using assms
proof (induction k arbitrary: u)
  case 0
  then show ?case by (simp add: ep0_packet_def)
next
  case (Suc k)
  have "UEP0_T_LEN (ep0_in_irq m u) \<le> 64" "SetupReqCode (ep0_in_irq m u) = 0x06"
    using Suc.prems by (auto simp: ep0_in_irq_eq ep0_in_def EP0_SIZE_def Let_def)
  with Suc show ?case by (auto simp: ep0_packet_def)
qed

text \<open>The eight bytes of a standard request.\<close>

definition setup_bytes :: "u8 \<Rightarrow> u8 \<Rightarrow> u16 \<Rightarrow> u16 \<Rightarrow> u16 \<Rightarrow> u8 list" where
  "setup_bytes ty rq v i n = [ty, rq] @ le16 v @ le16 i @ le16 n"


definition get_descriptor_request :: "usb \<Rightarrow> u8 \<Rightarrow> u16 \<Rightarrow> u16 \<Rightarrow> u16 \<Rightarrow> bool" where
  "get_descriptor_request u ty v i n =
     (length (EP0_Buf u) = 192 \<and> take 8 (EP0_Buf u) = setup_bytes ty 0x06 v i n \<and>
      ty AND 0x60 = 0)"

lemma request_fields:
  assumes "length b = 192" "take 8 b = setup_bytes ty rq v i n"
  shows "b ! 0 = ty" "b ! Suc 0 = rq" "of_le16 (drop 2 b) = v" "of_le16 (drop 4 b) = i"
    "of_le16 (drop 6 b) = n"
proof -
  have b: "b = setup_bytes ty rq v i n @ drop 8 b"
    using assms(2) by (metis append_take_drop_id)
  show "b ! 0 = ty" "b ! Suc 0 = rq"
    by (subst b, simp add: setup_bytes_def)+
  show "of_le16 (drop 2 b) = v" by (subst b) (simp add: setup_bytes_def)
  show "of_le16 (drop 4 b) = i" by (subst b) (simp add: setup_bytes_def)
  show "of_le16 (drop 6 b) = n" by (subst b) (simp add: setup_bytes_def)
qed

lemma ep0_setup_get_descriptor:
  assumes req: "get_descriptor_request u ty v i n" and d: "descriptor m v = Some (d, dlen)"
    and inp: "ty AND 0x80 \<noteq> 0"
  defines "r \<equiv> min (unat n) dlen"
  shows "ep0_packet (ep0_setup m u) = take (min 64 r) d"
    and "SetupReqCode (ep0_setup m u) = 0x06"
    and "SetupReqLen (ep0_setup m u) = r - min 64 r"
    and "pDescr (ep0_setup m u) = drop (min 64 r) d"
    and "usb_oob (ep0_setup m u) = usb_oob u"
    and "length (EP0_Buf (ep0_setup m u)) = 192"
    and "UEP0_T_LEN (ep0_setup m u) = min 64 r"
proof -
  note f = request_fields [of "EP0_Buf u" ty "0x06" v i n]
  have ff: "EP0_Buf u ! 0 = ty" "EP0_Buf u ! Suc 0 = 0x06" "of_le16 (drop 2 (EP0_Buf u)) = v"
    "of_le16 (drop 4 (EP0_Buf u)) = i" "of_le16 (drop 6 (EP0_Buf u)) = n"
    using req f by (simp_all add: get_descriptor_request_def)
  have dl: "dlen \<le> length d" using d by (rule descriptor_fits)
  have ty: "ty AND 0x60 = 0" "length (EP0_Buf u) = 192" using req by (auto simp: get_descriptor_request_def)
  note defs = ep0_setup_def setup_standard_def Let_def ff d ty inp EP0_SIZE_def ep0_packet_def
    copy_in_def r_def
  show "ep0_packet (ep0_setup m u) = take (min 64 r) d"
    "SetupReqCode (ep0_setup m u) = 0x06"
    "SetupReqLen (ep0_setup m u) = r - min 64 r"
    "pDescr (ep0_setup m u) = drop (min 64 r) d"
    "usb_oob (ep0_setup m u) = usb_oob u"
    "length (EP0_Buf (ep0_setup m u)) = 192"
    "UEP0_T_LEN (ep0_setup m u) = min 64 r"
    using dl by (auto simp: defs min_def)
qed

lemma ep0_packets_no_oob:
  assumes "SetupReqCode u = 0x06" "SetupReqLen u \<le> length (pDescr u)" "length (EP0_Buf u) = 192"
  shows "usb_oob ((ep0_in_irq m ^^ k) u) = usb_oob u"
  using assms
proof (induction k arbitrary: u)
  case 0
  then show ?case by simp
next
  case (Suc k)
  note step = ep0_in_descr [OF Suc.prems, of m]
  have "usb_oob ((ep0_in_irq m ^^ k) (ep0_in_irq m u)) = usb_oob (ep0_in_irq m u)"
    using Suc.prems step by (intro Suc.IH) auto
  then show ?case by (simp add: step funpow_swap1)
qed

lemma control_read_delivers:
  assumes "get_descriptor_request u ty v i n" "ty AND 0x80 \<noteq> 0"
    and "descriptor m v = Some (d, dlen)" "min (unat n) dlen \<le> 64 * k"
  shows "concat (ep0_packets m k (ep0_setup m u)) = take (min (unat n) dlen) d"
    and "\<forall>p \<in> set (ep0_packets m k (ep0_setup m u)). length p \<le> 64"
    and "usb_oob ((ep0_in_irq m ^^ k) (ep0_setup m u)) = usb_oob u"
proof -
  define r where "r = min (unat n) dlen"
  note su = ep0_setup_get_descriptor [OF assms(1,3,2), folded r_def]
  have "dlen \<le> length d" using assms(3) by (rule descriptor_fits)
  then have le: "r - min 64 r \<le> length d - min 64 r" "r - min 64 r \<le> 64 * k"
    using assms(4) by (auto simp: r_def)
  have "concat (ep0_packets m k (ep0_setup m u))
      = ep0_packet (ep0_setup m u) @ take (SetupReqLen (ep0_setup m u)) (pDescr (ep0_setup m u))"
    using su le by (intro ep0_packets_concat) simp_all
  also have "\<dots> = take r d"
    using take_append_drop_split [of "min 64 r" r d] by (simp only: su)
  finally show "concat (ep0_packets m k (ep0_setup m u)) = take (min (unat n) dlen) d"
    by (simp add: r_def)
  show "\<forall>p \<in> set (ep0_packets m k (ep0_setup m u)). length p \<le> 64"
    using su by (intro ep0_packets_short) auto
  have "usb_oob ((ep0_in_irq m ^^ k) (ep0_setup m u)) = usb_oob (ep0_setup m u)"
    using su le by (intro ep0_packets_no_oob) simp_all
  then show "usb_oob ((ep0_in_irq m ^^ k) (ep0_setup m u)) = usb_oob u"
    by (simp only: su)
qed

text \<open>A device whose endpoint buffer holds a request for the configuration descriptor.\<close>

definition cfg_request_state :: "u8 \<Rightarrow> usb" where
  "cfg_request_state ty =
     usb_init_state\<lparr>EP0_Buf := setup_bytes ty 0x06 0x0200 0 255 @ replicate 184 0\<rparr>"


text \<open>
  C14: A control read of any descriptor the device has (IN direction, any length) delivers
  exactly the descriptor cut to the length asked for, in packets of at most 64 bytes, and never
  reads past the descriptor.
\<close>

theorem descriptor_control_read:
  assumes "get_descriptor_request u ty v i n" "ty AND 0x80 \<noteq> 0"
    and "descriptor m v = Some (d, dlen)" "min (unat n) dlen \<le> 64 * k"
  shows "concat (ep0_packets m k (setup_irq m u)) = take (min (unat n) dlen) d \<and>
         (\<forall>p \<in> set (ep0_packets m k (setup_irq m u)). length p \<le> 64) \<and>
         usb_oob ((ep0_in_irq m ^^ k) (setup_irq m u)) = usb_oob u"
  unfolding setup_irq_eq by (intro conjI control_read_delivers [OF assms])

lemma descriptor_control_read_witness:
  "concat (ep0_packets MODE_KBD 2 (setup_irq MODE_KBD (cfg_request_state 0x80))) = MyCfgDescr"
proof -
  have d: "descriptor MODE_KBD 0x0200 = Some (MyCfgDescr, 107)"
    by (simp add: descriptor_def MyCfgDescr_def HIDDescr_def)
  have l: "length MyCfgDescr = 107" by (simp add: MyCfgDescr_def)
  have q: "get_descriptor_request (cfg_request_state 0x80) 0x80 0x0200 0 255"
    by (simp add: get_descriptor_request_def cfg_request_state_def usb_init_state_def
        setup_bytes_def le16_def)
  from descriptor_control_read [OF q _ d, of 2] show ?thesis by (simp add: l)
qed

text \<open>
  With the direction bit clear the same request still points \<open>pDescr\<close> past the first packet but
  leaves the length to send, so the next IN token copies bytes from beyond the array.
\<close>

lemma out_direction_reads_past:
  "usb_oob (ep0_in_irq MODE_KBD (ep0_in_irq MODE_KBD (setup_irq MODE_KBD (cfg_request_state 0x00))))"
  by (simp add: setup_irq_eq ep0_in_irq_eq ep0_in_def ep0_setup_def setup_standard_def Let_def
      descriptor_def MyCfgDescr_def HIDDescr_def cfg_request_state_def usb_init_state_def
      setup_bytes_def le16_def of_le16_def EP0_SIZE_def)

section \<open>The invariant of the device\<close>

definition usb_inv :: "usb \<Rightarrow> bool" where
  "usb_inv u =
     (ring_inv CDC_RX_BUF_SIZE (cdc_rx u) \<and> ring_inv CDC_TX_BUF_SIZE (cdc_tx u) \<and>
      length (ep1_in u) = 64 \<and> length (ep2_in u) = 64 \<and> length (Idle_Value u) = 3 \<and>
      (\<not> usb_oob u \<longrightarrow> length (EP0_Buf u) = 192) \<and>
      UEP0_T_LEN u \<le> 64 \<and> UEP1_T_LEN u \<le> 64 \<and> UEP2_T_LEN u \<le> 8)"

lemma usb_inv_init [simp]: "usb_inv usb_init_state"
  by (simp add: usb_inv_def usb_init_state_def CDC_RX_BUF_SIZE_def CDC_TX_BUF_SIZE_def)

lemma cdc_recv_inv: "ring_inv CDC_RX_BUF_SIZE r \<Longrightarrow> ring_inv CDC_RX_BUF_SIZE (cdc_recv_data bs r)"
  by (simp add: cdc_recv_data_put_all rxq.put_all_inv)

lemma cdc_read_inv:
  "ring_inv CDC_RX_BUF_SIZE r \<Longrightarrow> ring_inv CDC_RX_BUF_SIZE (snd (cdc_read_loop n r))"
  using rxq.get_upto_spec [of r n "fst (cdc_read_loop n r)" "snd (cdc_read_loop n r)"]
  by (simp add: cdc_read_loop_get_upto)

lemma cdc_write_inv:
  "ring_inv CDC_TX_BUF_SIZE r \<Longrightarrow> ring_inv CDC_TX_BUF_SIZE (fst (cdc_write_loop bs r d))"
  by (simp add: cdc_write_loop_ring txq.put_all_inv)

lemma usb_inv_ep0_in: "usb_inv u \<Longrightarrow> usb_inv (ep0_in u)"
  by (auto simp: usb_inv_def ep0_in_def EP0_SIZE_def Let_def)

lemma usb_inv_setup_class: "usb_inv u \<Longrightarrow> usb_inv (fst (setup_class c v i u))"
  by (auto simp: usb_inv_def setup_class_def Let_def LINE_CODING_BYTES_def le32_def)

lemma usb_inv_clear_halt: "usb_inv u \<Longrightarrow> usb_inv (fst (clear_halt i u))"
  by (simp add: usb_inv_def clear_halt_def Let_def)

lemma usb_inv_set_halt: "usb_inv u \<Longrightarrow> usb_inv (fst (set_halt i u))"
  by (simp add: usb_inv_def set_halt_def Let_def)

lemma usb_inv_setup_standard: "usb_inv u \<Longrightarrow> usb_inv (fst (setup_standard m c v i u))"
  using usb_inv_clear_halt [of u i] usb_inv_set_halt [of u i]
  by (auto simp: usb_inv_def setup_standard_def Let_def EP0_SIZE_def split: option.splits)

lemma usb_inv_irrelevant [simp]:
  "usb_inv (u\<lparr>USB_INT_FG := x\<rparr>) = usb_inv u"
  "usb_inv (u\<lparr>UEP0_CTRL := y, SetupReqLen := l, SetupReqCode := c\<rparr>) = usb_inv u"
  "usb_inv (u\<lparr>UEP0_CTRL := y\<rparr>) = usb_inv u"
  by (simp_all add: usb_inv_def)

lemma usb_inv_ep0_setup: "usb_inv u \<Longrightarrow> usb_inv (ep0_setup m u)"
proof -
  assume inv: "usb_inv u"
  define u1 where "u1 = u\<lparr>UEP0_CTRL := RB_UEP_R_TOG OR RB_UEP_T_TOG OR UEP_R_RES_ACK OR UEP_T_RES_NAK,
    SetupReqLen := unat (of_le16 (drop 6 (EP0_Buf u))), SetupReqCode := EP0_Buf u ! 1\<rparr>"
  obtain u2 ok where r: "(if EP0_Buf u ! 0 AND 0x60 \<noteq> 0
      then setup_class (EP0_Buf u ! 0) (of_le16 (drop 2 (EP0_Buf u))) (of_le16 (drop 4 (EP0_Buf u))) u1
      else setup_standard m (EP0_Buf u ! 0) (of_le16 (drop 2 (EP0_Buf u))) (of_le16 (drop 4 (EP0_Buf u))) u1)
      = (u2, ok)"
    by fastforce
  have "usb_inv u1" using inv unfolding u1_def by (simp only: usb_inv_irrelevant)
  then have inv2: "usb_inv u2"
    using r usb_inv_setup_class [of u1] usb_inv_setup_standard [of u1]
    by (metis fst_conv)
  show ?thesis
    unfolding ep0_setup_def Let_def u1_def [symmetric] r prod.case
    using inv2 by (auto simp: EP0_SIZE_def usb_inv_def)
qed

lemma usb_inv_token: "usb_inv u \<Longrightarrow> usb_inv (usb_token st out u)"
  using usb_inv_ep0_in [of u] cdc_recv_inv [of "cdc_rx u" out]
  by (auto simp: usb_token_def Let_def usb_inv_def)

lemma usb_inv_irq: "usb_inv u \<Longrightarrow> usb_inv (USB_DevTransProcess m f st out u)"
  using usb_inv_ep0_setup usb_inv_token [of u st out]
  by (auto simp: USB_DevTransProcess_def Let_def) (auto simp: usb_inv_def)


lemma usb_inv_cdc_read: "usb_inv u \<Longrightarrow> usb_inv (snd (USB_CDC_Read n u))"
  using cdc_read_inv [of "cdc_rx u" n]
  by (auto simp: USB_CDC_Read_def usb_inv_def split: prod.splits)

lemma usb_inv_cdc_write: "usb_inv u \<Longrightarrow> usb_inv (USB_CDC_Write bs u)"
  using cdc_write_inv [of "cdc_tx u" bs "cdc_tx_drops u"]
  by (auto simp: USB_CDC_Write_def usb_inv_def Let_def split: prod.splits)

lemma usb_inv_cdc_tx: "usb_inv u \<Longrightarrow> usb_inv (cdc_tx_process u)"
  by (auto simp: usb_inv_def cdc_tx_process_def Let_def EP1_SIZE_def ring_inv_def
      CDC_TX_BUF_SIZE_def)

lemma usb_inv_hid: "usb_inv u \<Longrightarrow> usb_inv (USB_HID_SendReport bs u)"
  by (auto simp: usb_inv_def USB_HID_SendReport_def Let_def EP2_SIZE_def)

lemma usb_inv_detach: "usb_inv u \<Longrightarrow> usb_inv (USB_DevDetach u)"
  by (simp add: usb_inv_def USB_DevDetach_def)

lemma usb_inv_setup: "usb_inv u \<Longrightarrow> usb_inv (USB_Device_Setup u)"
  by (simp add: usb_inv_def USB_Device_Setup_def ring_inv_def CDC_RX_BUF_SIZE_def)

text \<open>
  What can happen to the device: any interrupt with any register content, the hardware storing the
  bytes of a SETUP packet, and the calls of the other components.
\<close>

inductive usb_step :: "ble_mode \<Rightarrow> usb \<Rightarrow> usb \<Rightarrow> bool" for m where
  irq: "usb_step m u (USB_DevTransProcess m f st out u)"
| setup_packet: "length b = 8 \<Longrightarrow> usb_step m u (u\<lparr>EP0_Buf := copy_in 8 b (EP0_Buf u)\<rparr>)"
| cdc_read: "usb_step m u (snd (USB_CDC_Read n u))"
| cdc_write: "usb_step m u (USB_CDC_Write bs u)"
| cdc_send: "usb_step m u (cdc_tx_process u)"
| hid_send: "usb_step m u (USB_HID_SendReport bs u)"
| detach: "usb_step m u (USB_DevDetach u)"
| attach: "usb_step m u (USB_Device_Setup u)"

inductive_cases usb_stepE: "usb_step m u u'"

lemma usb_inv_step: "usb_step m u u' \<Longrightarrow> usb_inv u \<Longrightarrow> usb_inv u'"
proof (induction rule: usb_step.induct)
  case (setup_packet b u)
  then show ?case by (auto simp: usb_inv_def)
qed (simp_all add: usb_inv_irq usb_inv_cdc_read usb_inv_cdc_write usb_inv_cdc_tx usb_inv_hid
    usb_inv_detach usb_inv_setup)

text \<open>
  C15: Whatever the host sends and whatever the firmware does with the device, the rings stay
  well-formed with at most 255 and 2047 bytes in them, and no endpoint is ever told to send more
  than its packet size.
\<close>

theorem usb_reachable_inv:
  assumes "(usb_step m)\<^sup>*\<^sup>* usb_init_state u"
  shows "usb_inv u \<and> length (ring_list CDC_RX_BUF_SIZE (cdc_rx u)) \<le> 255 \<and>
         length (ring_list CDC_TX_BUF_SIZE (cdc_tx u)) \<le> 2047"
proof -
  have "usb_inv u"
    using assms by (induction rule: rtranclp_induct) (auto intro: usb_inv_step)
  then show ?thesis
    using rxq.view_cap [of "cdc_rx u"] txq.view_cap [of "cdc_tx u"] by (simp add: usb_inv_def)
qed

lemma usb_reachable_inv_witness:
  "usb_inv (USB_CDC_Write [1, 2] (USB_Device_Setup usb_init_state))"
proof -
  have "(usb_step MODE_KBD)\<^sup>*\<^sup>* usb_init_state (USB_CDC_Write [1, 2] (USB_Device_Setup usb_init_state))"
    by (meson usb_step.intros converse_rtranclp_into_rtranclp rtranclp.rtrancl_refl)
  from usb_reachable_inv [OF this] show ?thesis by simp
qed

section \<open>The CDC streams\<close>

text \<open>An OUT packet with the right data toggle on endpoint 1, then a read by the parser.\<close>

definition cdc_out_irq :: "ble_mode \<Rightarrow> u8 list \<Rightarrow> usb \<Rightarrow> usb" where
  "cdc_out_irq m out u = USB_DevTransProcess m RB_UIF_TRANSFER (RB_UIS_TOG_OK OR 0x01) out u"

lemma cdc_out_irq_ring: "cdc_rx (cdc_out_irq m out u) = cdc_recv_data out (cdc_rx u)"
  by (simp add: cdc_out_irq_def USB_DevTransProcess_def usb_token_def)

text \<open>
  C16: Bytes the host sends over CDC come out of \<open>USB_CDC_Read\<close> in order and unchanged, as long as
  the receive ring has room for the packet; what does not fit is dropped from the end.
\<close>

theorem cdc_receive_fifo:
  assumes "usb_inv u"
  shows "fst (USB_CDC_Read n (cdc_out_irq m out u)) =
         take n (ring_list CDC_RX_BUF_SIZE (cdc_rx u) @
                 take (255 - length (ring_list CDC_RX_BUF_SIZE (cdc_rx u))) out)"
proof -
  have inv: "ring_inv CDC_RX_BUF_SIZE (cdc_rx u)" using assms by (simp add: usb_inv_def)
  obtain bs r where g: "rxq.get_upto n (rxq.put_all out (cdc_rx u)) = (bs, r)" by fastforce
  from rxq.get_upto_spec [OF rxq.put_all_inv [OF inv] g] rxq.put_all_view [OF inv, of out]
  show ?thesis
    by (simp add: USB_CDC_Read_def cdc_out_irq_ring cdc_recv_data_put_all
        cdc_read_loop_get_upto g del: length_ring_list)
qed

lemma cdc_receive_fifo_witness:
  "fst (USB_CDC_Read 64 (cdc_out_irq MODE_DUAL (bytes_of ''AT'') usb_init_state)) = bytes_of ''AT''"
proof -
  have "ring_list CDC_RX_BUF_SIZE (cdc_rx usb_init_state) = []"
    by (simp add: usb_init_state_def)
  then show ?thesis by (subst cdc_receive_fifo) (simp_all add: bytes_of_def)
qed

text \<open>What the transmit task does with the bytes that wait.\<close>

lemma ring_list_take_packet:
  assumes "ring_inv n r" "k \<le> length (ring_list n r)"
  shows "map (\<lambda>i. rbuf r ! ((rtail r + i) mod n)) [0..<k] = take k (ring_list n r)"
  using assms by (simp add: ring_list_def take_map take_upt)

lemma ring_list_skip:
  assumes "ring_inv n r" "k \<le> length (ring_list n r)"
  shows "ring_list n (r\<lparr>rtail := (rtail r + k) mod n\<rparr>) = drop k (ring_list n r)"
  using assms
proof (induction k arbitrary: r)
  case 0
  then show ?case by (simp add: ring_inv_def)
next
  case (Suc k)
  define r1 where "r1 = r\<lparr>rtail := (rtail r + 1) mod n\<rparr>"
  have "ring_list n r \<noteq> []" using Suc.prems by (metis list.size(3) not_less_eq_eq zero_le)
  then have ne: "rtail r \<noteq> rhead r" using ring_list_Nil_iff [OF Suc.prems(1)] by auto
  then have g: "ring_get n r = Some (rbuf r ! rtail r, r1)" by (simp add: ring_get_def r1_def)
  have v: "ring_list n r = rbuf r ! rtail r # ring_list n r1"
    by (rule ring_get_list [OF Suc.prems(1) g])
  have i1: "ring_inv n r1" by (rule ring_get_inv [OF Suc.prems(1) g])
  have "k \<le> length (ring_list n r1)" using Suc.prems(2) unfolding v by simp
  from Suc.IH [OF i1 this]
  have "ring_list n (r1\<lparr>rtail := (rtail r1 + k) mod n\<rparr>) = drop k (ring_list n r1)" .
  moreover have "r1\<lparr>rtail := (rtail r1 + k) mod n\<rparr> = r\<lparr>rtail := (rtail r + Suc k) mod n\<rparr>"
    by (simp add: r1_def mod_add_left_eq)
  ultimately show ?case by (simp add: v)
qed

lemma cdc_tx_avail_straight:
  assumes "ring_inv CDC_TX_BUF_SIZE r" "rtail r \<le> rhead r"
  shows "unat (cdc_tx_avail r) = length (ring_list CDC_TX_BUF_SIZE r)"
proof -
  have b: "rhead r < 2048" using assms(1) by (simp add: ring_inv_def CDC_TX_BUF_SIZE_def)
  have "cdc_tx_avail r = word_of_int (int (rhead r - rtail r))"
    using assms b by (simp add: cdc_tx_avail_def c_rem_def CDC_TX_BUF_SIZE_def sgn_if of_nat_diff)
  also have "\<dots> = of_nat (rhead r - rtail r)" by simp
  finally have "unat (cdc_tx_avail r) = rhead r - rtail r"
    using b by (simp add: unat_of_nat take_bit_nat_eq_self)
  then show ?thesis
    using assms b ring_dist_cases [of "rtail r" CDC_TX_BUF_SIZE "rhead r"]
    by (simp add: ring_inv_def CDC_TX_BUF_SIZE_def)
qed

lemma cdc_tx_avail_wrapped:
  assumes "ring_inv CDC_TX_BUF_SIZE r" "rhead r < rtail r"
  shows "63488 < unat (cdc_tx_avail r)"
proof -
  have b: "rtail r < 2048" using assms(1) by (simp add: ring_inv_def CDC_TX_BUF_SIZE_def)
  define d where "d = rtail r - rhead r"
  have d: "0 < d" "d < 2048" "int (rhead r) - int (rtail r) = - int d"
    using assms(2) b by (auto simp: d_def)
  have "cdc_tx_avail r = word_of_int (- int d)"
    using d by (simp add: cdc_tx_avail_def c_rem_def CDC_TX_BUF_SIZE_def sgn_if)
  also have "\<dots> = word_of_int (65536 - int d)"
    by (simp add: word_of_int_eq_iff take_bit_eq_mod mod_minus_right)
  also have "\<dots> = of_nat (65536 - d)" using d by (simp add: of_nat_diff)
  finally have e: "cdc_tx_avail r = of_nat (65536 - d)" .
  obtain k where k: "65536 - d = k" "63488 < k" "k < 65536" using d by simp
  show ?thesis unfolding e k(1) using k(2,3) by (simp add: unat_of_nat take_bit_nat_eq_self)
qed

text \<open>A packet of the transmit task, when the endpoint is free and the count of waiting bytes is right.\<close>

lemma cdc_transmit_packet:
  assumes "usb_inv u" "UEP1_CTRL u AND MASK_UEP_T_RES \<noteq> UEP_T_RES_ACK"
    and "ring_list CDC_TX_BUF_SIZE (cdc_tx u) \<noteq> []"
    and "rtail (cdc_tx u) \<le> rhead (cdc_tx u) \<or> 64 \<le> length (ring_list CDC_TX_BUF_SIZE (cdc_tx u))"
  shows "take (UEP1_T_LEN (cdc_tx_process u)) (ep1_in (cdc_tx_process u)) =
           take 64 (ring_list CDC_TX_BUF_SIZE (cdc_tx u)) \<and>
         UEP1_T_LEN (cdc_tx_process u) = min 64 (length (ring_list CDC_TX_BUF_SIZE (cdc_tx u))) \<and>
         ring_list CDC_TX_BUF_SIZE (cdc_tx (cdc_tx_process u)) =
           drop 64 (ring_list CDC_TX_BUF_SIZE (cdc_tx u)) \<and>
         (cdc_tx_timer (cdc_tx_process u) =
           (if length (ring_list CDC_TX_BUF_SIZE (cdc_tx u)) \<le> 64 then cdc_tx_timer u
            else Some (ms1_to_system_time 1)))"
proof -
  let ?r = "cdc_tx u"
  let ?L = "ring_list CDC_TX_BUF_SIZE ?r"
  have inv: "ring_inv CDC_TX_BUF_SIZE ?r" and ep: "length (ep1_in u) = 64"
    using assms(1) by (simp_all add: usb_inv_def)
  define n where "n = (if unat (cdc_tx_avail ?r) > EP1_SIZE then EP1_SIZE else unat (cdc_tx_avail ?r))"
  define r' where "r' = ?r\<lparr>rtail := (rtail ?r + n) mod CDC_TX_BUF_SIZE\<rparr>"
  have n: "n = min 64 (length ?L)"
  proof (cases "rtail ?r \<le> rhead ?r")
    case True
    then show ?thesis
      using cdc_tx_avail_straight [OF inv] unfolding n_def EP1_SIZE_def min_def by simp
  next
    case False
    then have "64 \<le> length ?L" using assms(4) by simp
    with False show ?thesis
      using cdc_tx_avail_wrapped [OF inv] unfolding n_def EP1_SIZE_def min_def
      by (simp del: length_ring_list)
  qed
  have nl: "n \<le> length ?L" "n \<le> 64" using n by auto
  have pkt: "map (\<lambda>i. rbuf ?r ! ((rtail ?r + i) mod CDC_TX_BUF_SIZE)) [0..<n] = take n ?L"
    by (rule ring_list_take_packet [OF inv nl(1)])
  have r'l: "ring_list CDC_TX_BUF_SIZE r' = drop n ?L"
    unfolding r'_def by (rule ring_list_skip [OF inv nl(1)])
  have inv': "ring_inv CDC_TX_BUF_SIZE r'"
    using inv by (simp add: ring_inv_def r'_def CDC_TX_BUF_SIZE_def)
  have more: "(rtail r' \<noteq> rhead r') = (drop n ?L \<noteq> [])"
    using ring_list_Nil_iff [OF inv'] r'l by auto
  have ne: "rtail ?r \<noteq> rhead ?r" using ring_list_Nil_iff [OF inv] assms(3) by auto
  have eq: "cdc_tx_process u = u\<lparr>ep1_in := copy_in n (take n ?L) (ep1_in u), cdc_tx := r',
      UEP1_T_LEN := n, UEP1_CTRL := (UEP1_CTRL u AND NOT MASK_UEP_T_RES) OR UEP_T_RES_ACK,
      cdc_tx_pending := False,
      cdc_tx_timer := (if rtail r' \<noteq> rhead r' then Some (ms1_to_system_time 1) else cdc_tx_timer u)\<rparr>"
    unfolding cdc_tx_process_def Let_def n_def [symmetric] r'_def [symmetric] pkt
    using ne assms(2) by simp
  have cut: "take n ?L = take 64 ?L" "drop n ?L = drop 64 ?L" "(drop n ?L = []) = (length ?L \<le> 64)"
    unfolding n by (auto simp: min_def simp del: length_ring_list)
  have len: "length (take n ?L) = n" using nl(1) by (simp del: length_ring_list)
  show ?thesis
    unfolding eq using cut r'l len more n by (simp add: copy_in_def del: length_ring_list)
qed

text \<open>
  Once the write cursor has wrapped and fewer than 64 bytes wait, the remainder of the negative
  cursor difference is taken for a large count: a full packet goes out, the read cursor overtakes
  the write cursor, and nearly the whole ring of already sent bytes is pending again.
\<close>

theorem cdc_transmit_wrap_overshoot:
  assumes "usb_inv u" "UEP1_CTRL u AND MASK_UEP_T_RES \<noteq> UEP_T_RES_ACK"
    and "rhead (cdc_tx u) < rtail (cdc_tx u)"
    and "length (ring_list CDC_TX_BUF_SIZE (cdc_tx u)) = p" "0 < p" "p < 64"
  shows "UEP1_T_LEN (cdc_tx_process u) = 64 \<and>
         length (ring_list CDC_TX_BUF_SIZE (cdc_tx (cdc_tx_process u))) = 2048 - (64 - p)"
proof -
  let ?r = "cdc_tx u"
  have inv: "ring_inv CDC_TX_BUF_SIZE ?r" using assms(1) by (simp add: usb_inv_def)
  have b: "rtail ?r < 2048" "rhead ?r < 2048"
    using inv by (simp_all add: ring_inv_def CDC_TX_BUF_SIZE_def)
  have n: "64 < unat (cdc_tx_avail ?r)" using cdc_tx_avail_wrapped [OF inv assms(3)] by simp
  have p: "p = rhead ?r + 2048 - rtail ?r"
    using assms(3,4) b by (simp add: ring_dist_cases CDC_TX_BUF_SIZE_def)
  have ne: "rtail ?r \<noteq> rhead ?r" using assms(3) by simp
  have eq: "UEP1_T_LEN (cdc_tx_process u) = 64"
    "cdc_tx (cdc_tx_process u) = ?r\<lparr>rtail := (rtail ?r + 64) mod 2048\<rparr>"
    using ne assms(2) n by (simp_all add: cdc_tx_process_def Let_def EP1_SIZE_def CDC_TX_BUF_SIZE_def)
  have t: "(rtail ?r + 64) mod 2048 = rtail ?r + 64 - 2048"
    using b p assms(6) by (simp add: mod_if)
  have gt: "rhead ?r < rtail ?r + 64 - 2048" "rtail ?r + 64 - 2048 < 2048"
    using p b assms(6) by linarith+
  then have "ring_dist 2048 (rtail ?r + 64 - 2048) (rhead ?r)
      = rhead ?r + 2048 - (rtail ?r + 64 - 2048)"
    using b by (simp only: ring_dist_cases) simp
  moreover have "rhead ?r + 2048 - (rtail ?r + 64 - 2048) = 2048 - (64 - p)"
    using p gt assms(6) b by linarith
  ultimately show ?thesis
    unfolding eq by (simp add: t CDC_TX_BUF_SIZE_def)
qed

definition cdc_wrapped :: usb where
  "cdc_wrapped = usb_init_state\<lparr>UEP1_CTRL := UEP_T_RES_NAK,
     cdc_tx := \<lparr>rbuf = replicate CDC_TX_BUF_SIZE 0, rhead = 1, rtail = 2047\<rparr>\<rparr>"

lemma cdc_transmit_wrap_overshoot_witness:
  "length (ring_list CDC_TX_BUF_SIZE (cdc_tx (cdc_tx_process cdc_wrapped))) = 1986"
proof -
  have l: "length (ring_list CDC_TX_BUF_SIZE (cdc_tx cdc_wrapped)) = 2"
    by (simp add: cdc_wrapped_def ring_dist_def CDC_TX_BUF_SIZE_def)
  have i: "usb_inv cdc_wrapped"
    by (simp add: cdc_wrapped_def usb_inv_def usb_init_state_def ring_inv_def
        CDC_RX_BUF_SIZE_def CDC_TX_BUF_SIZE_def ring_empty_def)
  from cdc_transmit_wrap_overshoot [OF i _ _ l] show ?thesis by (simp add: cdc_wrapped_def)
qed

lemma endpoint_armed: "(x AND NOT MASK_UEP_T_RES OR UEP_T_RES_ACK) AND MASK_UEP_T_RES = UEP_T_RES_ACK"
  by (rule bit_word_eqI) (auto simp: bit_simps)

text \<open>
  C17: The transmit task, case by case.  With nothing waiting it changes nothing but its own pending
  event.  With a packet still in the endpoint it sends nothing and removes nothing and comes back after
  2 ms.  Otherwise it arms the endpoint; and while the write cursor has not wrapped, or at least 64
  bytes wait, what it puts there are the oldest (at most 64) waiting bytes, in order, it removes
  exactly those, and it comes back after 1 ms exactly when bytes remain.  In the last case,
  fewer than 64 bytes and a wrapped cursor, the count is wrong: a packet of 64 goes out and the ring then holds
  2048 bytes less those sent too many.
\<close>

theorem cdc_transmit_fifo:
  assumes "usb_inv u"
  defines "L \<equiv> ring_list CDC_TX_BUF_SIZE (cdc_tx u)" and "u' \<equiv> cdc_tx_process u"
  shows "if L = [] then u' = u\<lparr>cdc_tx_pending := False\<rparr>
    else if UEP1_CTRL u AND MASK_UEP_T_RES = UEP_T_RES_ACK
    then u' = u\<lparr>cdc_tx_pending := False, cdc_tx_timer := Some (ms1_to_system_time 2)\<rparr>
    else UEP1_CTRL u' AND MASK_UEP_T_RES = UEP_T_RES_ACK \<and>
      (if rtail (cdc_tx u) \<le> rhead (cdc_tx u) \<or> 64 \<le> length L
       then UEP1_T_LEN u' = min 64 (length L) \<and> take (UEP1_T_LEN u') (ep1_in u') = take 64 L \<and>
         ring_list CDC_TX_BUF_SIZE (cdc_tx u') = drop 64 L \<and>
         cdc_tx_timer u' = (if length L \<le> 64 then cdc_tx_timer u else Some (ms1_to_system_time 1))
       else UEP1_T_LEN u' = 64 \<and>
         length (ring_list CDC_TX_BUF_SIZE (cdc_tx u')) = 2048 - (64 - length L))"
proof -
  have inv: "ring_inv CDC_TX_BUF_SIZE (cdc_tx u)" using assms(1) by (simp add: usb_inv_def)
  have e: "(L = []) = (rtail (cdc_tx u) = rhead (cdc_tx u))" using ring_list_Nil_iff [OF inv] by (auto simp: L_def)
  consider (empty) "L = []" | (busy) "L \<noteq> []" "UEP1_CTRL u AND MASK_UEP_T_RES = UEP_T_RES_ACK"
    | (free) "L \<noteq> []" "UEP1_CTRL u AND MASK_UEP_T_RES \<noteq> UEP_T_RES_ACK" by blast
  then show ?thesis
  proof cases
    case empty
    then show ?thesis using e by (simp add: u'_def cdc_tx_process_def Let_def)
  next
    case busy
    then show ?thesis using e by (simp add: u'_def cdc_tx_process_def Let_def)
  next
    case free
    have armed: "UEP1_CTRL u' AND MASK_UEP_T_RES = UEP_T_RES_ACK"
      using free e endpoint_armed [of "UEP1_CTRL u"] by (simp add: u'_def cdc_tx_process_def Let_def)
    show ?thesis
    proof (cases "rtail (cdc_tx u) \<le> rhead (cdc_tx u) \<or> 64 \<le> length L")
      case True
      note P = cdc_transmit_packet [OF assms(1) free(2), folded L_def u'_def, OF free(1) True]
      show ?thesis unfolding if_not_P [OF free(1)] if_not_P [OF free(2)] if_P [OF True] using armed P by blast
    next
      case False
      then have w: "rhead (cdc_tx u) < rtail (cdc_tx u)" "length L < 64" "0 < length L" using free(1) by auto
      note P = cdc_transmit_wrap_overshoot [OF assms(1) free(2) w(1) refl, folded L_def u'_def, OF w(3,2)]
      show ?thesis unfolding if_not_P [OF free(1)] if_not_P [OF free(2)] if_not_P [OF False] using armed P by blast
    qed
  qed
qed

text \<open>Two bytes waiting in an unwrapped ring.\<close>

definition cdc_two_bytes :: usb where
  "cdc_two_bytes = usb_init_state\<lparr>UEP1_CTRL := UEP_T_RES_NAK,
     cdc_tx := \<lparr>rbuf = (replicate CDC_TX_BUF_SIZE 0)[0 := 7, 1 := 9], rhead = 2, rtail = 0\<rparr>\<rparr>"

lemma cdc_transmit_fifo_witness:
  "take (UEP1_T_LEN (cdc_tx_process cdc_two_bytes)) (ep1_in (cdc_tx_process cdc_two_bytes)) = [7, 9]"
proof -
  have l: "ring_list CDC_TX_BUF_SIZE (cdc_tx cdc_two_bytes) = [7, 9]"
    by (simp add: cdc_two_bytes_def ring_list_def ring_dist_def CDC_TX_BUF_SIZE_def upt_rec
        nth_list_update)
  have i: "usb_inv cdc_two_bytes"
    by (simp add: cdc_two_bytes_def usb_inv_def usb_init_state_def ring_inv_def
        CDC_RX_BUF_SIZE_def CDC_TX_BUF_SIZE_def ring_empty_def)
  have f: "UEP1_CTRL cdc_two_bytes AND MASK_UEP_T_RES \<noteq> UEP_T_RES_ACK"
    "rtail (cdc_tx cdc_two_bytes) \<le> rhead (cdc_tx cdc_two_bytes)"
    by (simp_all add: cdc_two_bytes_def)
  have ne: "[7, 9 :: u8] \<noteq> []" by simp
  from cdc_transmit_fifo [OF i, unfolded l if_not_P [OF ne] if_not_P [OF f(1)] if_P [OF disjI1 [OF f(2)]]]
  have "take (UEP1_T_LEN (cdc_tx_process cdc_two_bytes)) (ep1_in (cdc_tx_process cdc_two_bytes)) = take 64 [7, 9]"
    by (elim conjE)
  then show ?thesis by (rule trans) simp
qed

section \<open>Bus reset\<close>

text \<open>
  A bus reset (with no transfer flagged) leaves the device at address 0 and unconfigured with
  every endpoint answering NAK, and until the host configures it again nothing written to CDC is
  queued and the keyboard router sees USB as not ready.
\<close>

theorem bus_reset_unconfigures:
  assumes "f AND RB_UIF_TRANSFER = 0" "f AND RB_UIF_BUS_RST \<noteq> 0"
  shows "let v = USB_DevTransProcess m f st out u
         in USB_DEV_AD v = 0 \<and> \<not> usb_ready v \<and> USB_CDC_Write bs v = v \<and>
            (\<forall>c \<in> {UEP0_CTRL v, UEP1_CTRL v, UEP2_CTRL v, UEP3_CTRL v}.
               c AND MASK_UEP_T_RES = UEP_T_RES_NAK)"
  using assms by (simp add: USB_DevTransProcess_def usb_ready_def USB_CDC_Write_def)

lemma bus_reset_unconfigures_witness:
  "\<not> usb_ready (USB_DevTransProcess MODE_KBD 0x01 0 [] (usb_init_state\<lparr>Ready := 1\<rparr>))"
  using bus_reset_unconfigures [of "0x01" MODE_KBD 0 "[]" "usb_init_state\<lparr>Ready := 1\<rparr>" "[]"]
  by (simp add: Let_def)

end
