(* ===== verification/Start.thy ===== *)
theory Start
  imports At_Line Gatt_Info Usb_Control
begin

text \<open>
  Start-up: the configuration of the BLE library and its flash callbacks (\<^verbatim>\<open>ble_stack.c\<close>), the choice of
  the role (\<^verbatim>\<open>ble_init.c\<close>), and the order in which \<^verbatim>\<open>main.c\<close> starts the parts, with what the node is when
  the scheduler takes over.
\<close>

section \<open>The BLE library\<close>

definition VER_FILE :: string where "VER_FILE = ''CH58x_BLE_LIB_V2.1''"
definition FLASH_ROM_MAX_SIZE :: nat where "FLASH_ROM_MAX_SIZE = 0x70000"

definition BLE_MEMHEAP_SIZE :: "ble_mode \<Rightarrow> nat" where
  "BLE_MEMHEAP_SIZE m = (if m = MODE_KBD_MULTI then 1024 * 8 else if has_dongle m then 1024 * 6 else 1024 * 5)"

definition BLE_SNV_BLOCK :: nat where "BLE_SNV_BLOCK = 256"

definition BLE_SNV_NUM :: "ble_mode \<Rightarrow> nat" where
  "BLE_SNV_NUM m = (if m = MODE_KBD_MULTI then 3 else 1)"

definition BLE_SNV_ADDR :: "ble_mode \<Rightarrow> nat" where
  "BLE_SNV_ADDR m = 0x78000 - FLASH_ROM_MAX_SIZE - BLE_SNV_BLOCK * BLE_SNV_NUM m"

definition CENTRAL_MAX_CONNECTION :: "ble_mode \<Rightarrow> nat" where
  "CENTRAL_MAX_CONNECTION m = (if has_dongle m then 1 else 0)"

text \<open>The calls the library makes to read and write bonds; \<open>num\<close> counts words of four bytes.\<close>

definition ble_stack_flash_read :: "env \<Rightarrow> nat \<Rightarrow> nat \<Rightarrow> 'a base_scheme \<Rightarrow> nat \<times> u8 list" where
  "ble_stack_flash_read E addr num s = (0, EEPROM_READ E addr (num * 4) s)"

definition ble_stack_flash_write ::
  "env \<Rightarrow> nat \<Rightarrow> nat \<Rightarrow> u8 list \<Rightarrow> 'a base_scheme \<Rightarrow> nat \<times> 'a base_scheme" where
  "ble_stack_flash_write E addr num buf s =
     (let s1 = snd (EEPROM_ERASE E addr (num * 4) s);
          s2 = snd (EEPROM_WRITE E addr (take (num * 4) buf) s1)
      in (0, s2))"

definition ble_config :: "env \<Rightarrow> lib_cfg" where
  "ble_config E =
     \<lparr>MEMLen = of_nat (BLE_MEMHEAP_SIZE (mode E)), SNVAddr = of_nat (BLE_SNV_ADDR (mode E)),
      SNVBlock = of_nat BLE_SNV_BLOCK, SNVNum = of_nat (BLE_SNV_NUM (mode E)),
      BufNumber = 5, BufMaxLen = 27, TxNumEvent = 1, TxPower = 0x0D, SelRTCClock = 1,
      ConnectNumber = (of_nat (kbd_max_conn (mode E)) AND 3) OR
                      push_bit 2 (of_nat (CENTRAL_MAX_CONNECTION (mode E))),
      MacAddr = chip_mac E\<rparr>"

text \<open>\<open>None\<close>: the program stays in a loop for ever.  The address of the heap is not null.\<close>

definition ble_stack_init :: "env \<Rightarrow> 'a base_scheme \<Rightarrow> 'a base_scheme option" where
  "ble_stack_init E s =
     (if take (length VER_FILE) (ver_lib E) \<noteq> VER_FILE then None
      else if BLE_SNV_ADDR (mode E) + BLE_SNV_BLOCK * BLE_SNV_NUM (mode E) > 0x78000 - FLASH_ROM_MAX_SIZE
      then None
      else if MEMLen (ble_config E) < 4 * 1024 then None
      else (let (i, s1) = call E (Stack (BleLibInit (ble_config E))) s
            in if i \<noteq> 0 then None else Some s1))"

section \<open>The role and the order of the parts\<close>

definition ble_hid_dev_init :: "env \<Rightarrow> 'a base_scheme \<Rightarrow> 'a base_scheme" where
  "ble_hid_dev_init E s =
     (let s1 = fold emit
            [RegisterTask HidDevTask, BondSet GAPBOND_AUTO_SYNC_WL [1], BondSet GAPBOND_AUTO_SYNC_RL [0],
             Stack (RegisterService GapService), Stack (RegisterService GattService)] s;
          s2 = snd (ble_dev_info_add_service E s1);
          s3 = snd (ble_batt_add_service E s2)
      in emit (SetEvent HidDevTask HIDDEV_START_DEVICE_EVT) s3)"

definition ble_kbd_init :: "env \<Rightarrow> 'a slots_state_scheme \<Rightarrow> 'a slots_state_scheme" where
  "ble_kbd_init E s =
     ble_hid_emu_init E (ble_hid_dev_init E (emit (Stack GapPeripheralInit) s))"

definition ble_peripheral_init :: "env \<Rightarrow> 'a dongle_state_scheme \<Rightarrow> 'a dongle_state_scheme" where
  "ble_peripheral_init E s =
     (if mode E = MODE_DUAL
      then (if role_current E s = ROLE_DONGLE then ble_dongle_init E s else ble_kbd_init E s)
      else if has_dongle (mode E) then ble_dongle_init E s
      else ble_kbd_init E s)"

definition usb_init :: "'a base_scheme \<Rightarrow> 'a base_scheme" where
  "usb_init s = s\<lparr>usb := (USB_Device_Setup (usb s))\<lparr>usb_irq_en := True\<rparr>\<rparr>"

text \<open>Everything \<open>main\<close> does before the scheduler runs.\<close>

definition main_init :: "env \<Rightarrow> 'a dongle_state_scheme \<Rightarrow> 'a dongle_state_scheme option" where
  "main_init E s =
     (case ble_stack_init E s of
        None \<Rightarrow> None
      | Some s1 \<Rightarrow>
          (let s2 = hws_init True s1;
               s3 = AT_Init s2;
               s4 = ble_peripheral_init E s3
           in Some (usb_init s4)))"

text \<open>The static variables at reset, with the DataFlash as it is.\<close>

definition power_on :: "env \<Rightarrow> (nat \<Rightarrow> u8) \<Rightarrow> at_state" where
  "power_on E fl =
     (dongle_state.extend (dongle_start (router_start E (slots_init_state E))) \<lparr>i2c_inited = False\<rparr>)
     \<lparr>flash := fl\<rparr>"

section \<open>Bonds and the pages of the application\<close>

text \<open>
  A block of the bond store: inside the area \<open>ble_config\<close> names, and inside one page, as the library's
  block size of 256 bytes makes it.
\<close>

definition bond_block :: "ble_mode \<Rightarrow> nat \<Rightarrow> nat \<Rightarrow> bool" where
  "bond_block m a n =
     (BLE_SNV_ADDR m \<le> a \<and> a + n \<le> BLE_SNV_ADDR m + BLE_SNV_BLOCK * BLE_SNV_NUM m \<and> 0 < n \<and> in_page a n)"

lemma snv_addr_cases: "BLE_SNV_ADDR m = (if m = MODE_KBD_MULTI then 0x7D00 else 0x7F00)"
  by (simp add: BLE_SNV_ADDR_def BLE_SNV_NUM_def BLE_SNV_BLOCK_def FLASH_ROM_MAX_SIZE_def)

lemma bond_block_page: "bond_block m a n \<Longrightarrow> 0x7D \<le> a div 256"
proof -
  assume "bond_block m a n"
  then have "0x7D00 \<le> a" by (simp add: bond_block_def snv_addr_cases split: if_splits)
  then show ?thesis by linarith
qed

lemmas page_defs = APP_ROLE_FLASH_ADDR_def APP_SLOTMAP_FLASH_ADDR_def APP_KEYCFG_FLASH_ADDR_def

text \<open>The pages of the application: role, slots, custom keys, each below the bond store.\<close>

definition app_page :: "nat \<Rightarrow> nat \<Rightarrow> bool" where
  "app_page a n =
     ((a, n) \<in> {(APP_ROLE_FLASH_ADDR, 4), (APP_SLOTMAP_FLASH_ADDR, 96), (APP_KEYCFG_FLASH_ADDR, 8)})"

lemma app_page_in: "app_page a n \<Longrightarrow> in_page a n \<and> a div 256 \<le> 0x7C"
  by (auto simp: app_page_def page_defs in_page_def)

lemma replace_other_page:
  assumes "ee_spec E" "in_page a n" "length bs = n" "in_page b k" "a div 256 \<noteq> b div 256"
  shows "EEPROM_READ E b k (snd (EEPROM_WRITE E a bs (snd (EEPROM_ERASE E a n s)))) = EEPROM_READ E b k s"
  using assms by (simp add: EEPROM_WRITE_other_page EEPROM_ERASE_other_page)

lemma bond_write_keeps:
  assumes "ee_spec E" "bond_block (mode E) a (num * 4)" "num * 4 \<le> length buf" "app_page b k"
  shows "EEPROM_READ E b k (snd (ble_stack_flash_write E a num buf s)) = EEPROM_READ E b k s"
proof -
  have "a div 256 \<noteq> b div 256" using bond_block_page [OF assms(2)] app_page_in [OF assms(4)] by linarith
  then show ?thesis
    using assms(2,3) app_page_in [OF assms(4)] assms(1)
    by (simp add: ble_stack_flash_write_def replace_other_page bond_block_def)
qed

section \<open>What the first steps leave\<close>

text \<open>The tasks a log registers, in order, and those it gives a first event.\<close>

definition task_of :: "act \<Rightarrow> task option" where
  "task_of a = (case a of RegisterTask t \<Rightarrow> Some t | _ \<Rightarrow> None)"

definition registered :: "act list \<Rightarrow> task list" where
  "registered h = List.map_filter task_of h"

definition woken :: "act list \<Rightarrow> task \<Rightarrow> bool" where
  "woken h t = list_ex (\<lambda>a. case a of SetEvent t' ev \<Rightarrow> t' = t | StartTask t' ev n \<Rightarrow> t' = t | _ \<Rightarrow> False) h"

lemma registered_simps [simp]:
  "registered [] = []"
  "registered (a # h) = (case task_of a of None \<Rightarrow> registered h | Some t \<Rightarrow> t # registered h)"
  "registered (h @ h') = registered h @ registered h'"
  by (simp_all add: registered_def List.map_filter_def split: option.split)

lemma woken_simps [simp]:
  "woken (h @ h') t = (woken h t \<or> woken h' t)"
  by (simp add: woken_def)

text \<open>Switching LEDs writes the LED variables and the output register and nothing else.\<close>

lemma led_same:
  "s = s\<lparr>pa_out := pa_out s, hws_led_state := hws_led_state s, led_ctrl := led_ctrl s\<rparr>"
  by (cases s) simp

lemma led_set_one_form:
  "\<exists>a b c. led_set_one leds md i s = s\<lparr>pa_out := a, hws_led_state := b, led_ctrl := c\<rparr>"
proof (cases "leds AND led_bit i = 0")
  case True
  then have "led_set_one leds md i s = s" by (simp add: led_set_one_def)
  then show ?thesis using led_same by metis
next
  case False
  obtain c where u: "upd_ctrl i (\<lambda>c. c\<lparr>lmode := (if md \<noteq> HWS_LED_MODE_TOGGLE then md
      else lmode c XOR HWS_LED_MODE_ON)\<rparr>) s = s\<lparr>led_ctrl := c\<rparr>"
    by (simp add: upd_ctrl_def)
  have swap: "s\<lparr>led_ctrl := c, pa_out := x, hws_led_state := y\<rparr> =
      s\<lparr>pa_out := x, hws_led_state := y, led_ctrl := c\<rparr>" for x y
    by simp
  obtain a b where o: "hws_led_on_off (led_bit i) (lmode (c ! i)) (s\<lparr>led_ctrl := c\<rparr>) =
      s\<lparr>pa_out := a, hws_led_state := b, led_ctrl := c\<rparr>"
    unfolding hws_led_on_off_def swap by blast
  show ?thesis using False by (auto simp: led_set_one_def u o)
qed

lemma led_steady_form:
  "\<exists>a b c. led_set_steady leds md s = s\<lparr>pa_out := a, hws_led_state := b, led_ctrl := c\<rparr>"
proof -
  have "\<exists>a b c. fold (led_set_one l md) xs s = s\<lparr>pa_out := a, hws_led_state := b, led_ctrl := c\<rparr>" for l xs s
  proof (induction xs arbitrary: s)
    case (Cons x xs)
    obtain a b c where o: "led_set_one l md x s = s\<lparr>pa_out := a, hws_led_state := b, led_ctrl := c\<rparr>"
      using led_set_one_form by blast
    from Cons [of "led_set_one l md x s"] show ?case by (auto simp: o)
  qed (use led_same in \<open>simp, metis\<close>)
  then show ?thesis by (simp add: led_set_steady_def)
qed

definition hws_log :: "act list" where
  "hws_log = [RegisterTask HwsTask, Hw LsiCalibrate,
     StartTask HwsTask HWS_KEY_EVENT (ms1_to_system_time 100),
     StartTask HwsTask HWS_CALIB_EVENT (ms1_to_system_time 800),
     StartTask HwsTask HWS_WDG_EVENT (ms1_to_system_time 100)]"

lemma hws_init_form:
  "\<exists>a b c d e f. hws_init True s =
     s\<lparr>outs := outs s @ hws_log, pa_out := a, hws_led_state := b, led_ctrl := c, sleep_active := False,
       pa_dir := d, hws_key_saved := 0, hws_key_cb := True, pb_dir := e, pb_pu := f\<rparr>"
proof -
  obtain a b c where l: "led_set_steady HWS_LED_ALL HWS_LED_MODE_OFF
      ((emit (Hw LsiCalibrate) (emit (RegisterTask HwsTask) s))\<lparr>pa_dir := pa_dir s OR 1\<rparr>) =
    ((emit (Hw LsiCalibrate) (emit (RegisterTask HwsTask) s))\<lparr>pa_dir := pa_dir s OR 1\<rparr>)
      \<lparr>pa_out := a, hws_led_state := b, led_ctrl := c\<rparr>"
    using led_steady_form by blast
  have "hws_init True s =
     s\<lparr>outs := outs s @ hws_log, pa_out := a, hws_led_state := b, led_ctrl := c, sleep_active := False,
       pa_dir := pa_dir s OR 1, hws_key_saved := 0, hws_key_cb := True,
       pb_dir := pb_dir s AND NOT KEY1_BV AND NOT KEY2_BV AND NOT KEY3_BV,
       pb_pu := pb_pu s OR KEY1_BV OR KEY2_BV OR KEY3_BV\<rparr>"
    using l by (simp add: hws_init_def Let_def hws_key_config_def hws_key_init_def hws_led_init_def
        emit_def hws_log_def)
  then show ?thesis by blast
qed

lemma hws_init_frame [simp]:
  fixes s :: "'a dongle_state_scheme"
  shows "outs (hws_init True s) = outs s @ hws_log"
    "flash (hws_init True s) = flash s" "usb (hws_init True s) = usb s" "ub (hws_init True s) = ub s"
    "slots_view (hws_init True s) = slots_view s" "battLevel (hws_init True s) = battLevel s"
    "router_state.more (hws_init True s) = router_state.more s"
proof -
  obtain a b c d e f where "hws_init True s =
     s\<lparr>outs := outs s @ hws_log, pa_out := a, hws_led_state := b, led_ctrl := c, sleep_active := False,
       pa_dir := d, hws_key_saved := 0, hws_key_cb := True, pb_dir := e, pb_pu := f\<rparr>"
    using hws_init_form by blast
  then show "outs (hws_init True s) = outs s @ hws_log"
    "flash (hws_init True s) = flash s" "usb (hws_init True s) = usb s" "ub (hws_init True s) = ub s"
    "slots_view (hws_init True s) = slots_view s" "battLevel (hws_init True s) = battLevel s"
    "router_state.more (hws_init True s) = router_state.more s"
    by (simp_all add: slots_view_def)
qed

section \<open>The node when the scheduler takes over\<close>

lemma stack_init_result:
  "ble_stack_init E s =
     (if take (length VER_FILE) (ver_lib E) = VER_FILE \<and> stat E (outs s) (Stack (BleLibInit (ble_config E))) = 0
      then Some (emit (Stack (BleLibInit (ble_config E))) s) else None)"
proof -
  have "\<not> BLE_SNV_ADDR m + BLE_SNV_BLOCK * BLE_SNV_NUM m > 0x78000 - FLASH_ROM_MAX_SIZE" for m
    by (simp add: BLE_SNV_ADDR_def BLE_SNV_NUM_def BLE_SNV_BLOCK_def FLASH_ROM_MAX_SIZE_def)
  moreover have "\<not> MEMLen (ble_config E) < 4 * 1024"
    by (simp add: ble_config_def BLE_MEMHEAP_SIZE_def)
  ultimately show ?thesis by (simp add: ble_stack_init_def call_def)
qed

lemma role_current_flash: "flash s = flash t \<Longrightarrow> role_current E s = role_current E t"
  by (simp add: role_current_def EEPROM_READ_def)

text \<open>The state in which the role is chosen.\<close>

definition before_role :: "env \<Rightarrow> (nat \<Rightarrow> u8) \<Rightarrow> at_state" where
  "before_role E fl =
     AT_Init (hws_init True (emit (Stack (BleLibInit (ble_config E))) (power_on E fl)))"

lemma power_on_fields [simp]:
  "outs (power_on E fl) = []" "flash (power_on E fl) = fl" "ub (power_on E fl) = False"
  "usb (power_on E fl) = usb_init_state" "battLevel (power_on E fl) = 100"
  "slots_view (power_on E fl) = slots_view (slots_init_state E)"
  "router_state.more (power_on E fl) = router_state.more (power_on E fl)"
  by (simp_all add: power_on_def dongle_start_def router_start_def slots_init_state_def hid_init_state_def
      hws_init_state_def led_init_state_def base_init_def slots_view_def dongle_state.defs router_state.defs
      slots_state.defs hid_state.defs hws_state.defs led_state.defs base.defs)

lemma batt_emit: "battLevel (emit a s) = battLevel s"
  by (simp add: emit_def)

lemma before_role_fields [simp]:
  "outs (before_role E fl) = Stack (BleLibInit (ble_config E)) # hws_log @
     [RegisterTask AtTask, StartTask AtTask AT_EVENT (ms1_to_system_time 10)]"
  "flash (before_role E fl) = fl" "ub (before_role E fl) = False"
  "usb (before_role E fl) = usb_init_state" "battLevel (before_role E fl) = 100"
  "slots_view (before_role E fl) = slots_view (slots_init_state E)"
  by (simp_all add: before_role_def AT_Init_def batt_emit)

lemma main_init_result:
  "main_init E (power_on E fl) =
     (if take (length VER_FILE) (ver_lib E) = VER_FILE \<and> stat E [] (Stack (BleLibInit (ble_config E))) = 0
      then Some (usb_init (ble_peripheral_init E (before_role E fl))) else None)"
  by (simp add: main_init_def stack_init_result before_role_def)

lemma role_choice:
  "ble_peripheral_init E (before_role E fl) =
     (if role_current E (power_on E fl) = ROLE_DONGLE then ble_dongle_init E (before_role E fl)
      else ble_kbd_init E (before_role E fl))"
proof -
  have "role_current E (before_role E fl) = role_current E (power_on E fl)"
    by (rule role_current_flash) simp
  then show ?thesis by (auto simp: ble_peripheral_init_def role_current_def role_consts)
qed

lemma outs_fold_emit: "outs (fold emit as s) = outs s @ as"
  by (induction as arbitrary: s) simp_all

lemma boot_fold_frame [simp]:
  "ub (fold emit as s) = ub s" "flash (fold emit as s) = flash s" "usb (fold emit as s) = usb s"
  "base.more (fold emit as s) = base.more s"
  by (induction as arbitrary: s) simp_all

text \<open>The receiver's start only makes calls; so does the one of the HID device task.\<close>

definition hid_dev_log :: "env \<Rightarrow> act list" where
  "hid_dev_log E =
     [RegisterTask HidDevTask, BondSet GAPBOND_AUTO_SYNC_WL [1], BondSet GAPBOND_AUTO_SYNC_RL [0],
      Stack (RegisterService GapService), Stack (RegisterService GattService),
      Stack (RegisterService DevInfoService),
      InitCharCfg INVALID_CONNHANDLE (batt_handle E BATT_LEVEL_VALUE_CCCD_IDX),
      Stack (RegisterService BattService), SetEvent HidDevTask HIDDEV_START_DEVICE_EVT]"

lemma hid_dev_init_fold: "ble_hid_dev_init E s = fold emit (hid_dev_log E) s"
  by (simp add: ble_hid_dev_init_def hid_dev_log_def Let_def ble_dev_info_add_service_def call_def
      ble_batt_add_service_def)

lemma load_frame:
  "outs (slotmap_load E s) = outs s" "ub (slotmap_load E s) = ub s" "flash (slotmap_load E s) = flash s"
  "usb (slotmap_load E s) = usb s" "battLevel (slotmap_load E s) = battLevel s"
  by (simp_all add: slotmap_load_def Let_def)

lemma name_update_frame:
  "outs (kbd_name_update E s) = outs s" "ub (kbd_name_update E s) = ub s"
  "flash (kbd_name_update E s) = flash s" "usb (kbd_name_update E s) = usb s"
  "battLevel (kbd_name_update E s) = battLevel s"
  by (simp_all add: kbd_name_update_def Let_def)

lemma emu_init_result:
  assumes "has_kbd (mode E)" "\<not> battLevel s < 6"
  obtains h where "outs (ble_hid_emu_init E s) = outs s @ h" "registered h = [EmuTask]" "woken h EmuTask"
    "ub (ble_hid_emu_init E s) = ub s" "flash (ble_hid_emu_init E s) = flash s"
    "usb (ble_hid_emu_init E s) = usb s"
proof -
  note f = load_frame name_update_frame outs_fold_emit
  let ?r = "ble_hid_emu_init E s"
  have b: "battLevel (fold emit as t) = battLevel t" for as and t :: "'a slots_state_scheme"
    by (induction as arbitrary: t) (simp_all add: batt_emit)
  have "\<exists>h. outs ?r = outs s @ h \<and> registered h = [EmuTask] \<and> woken h EmuTask \<and>
      ub ?r = ub s \<and> flash ?r = flash s \<and> usb ?r = usb s"
    using assms by (simp add: ble_hid_emu_init_def Let_def ble_batt_set_critical_def b f batt_emit
        ble_hid_kbd_add_service_def task_of_def woken_def del: fold.simps)
  then show thesis using that by blast
qed

lemma kbd_role_has_kbd: "role_current E s \<noteq> ROLE_DONGLE \<Longrightarrow> has_kbd (mode E)"
  by (cases "mode E") (auto simp: role_current_def)

lemma usb_init_fields:
  "outs (usb_init s) = outs s" "ub (usb_init s) = ub s" "flash (usb_init s) = flash s"
  "slots_view (usb_init s') = slots_view s'" "usb_irq_en (usb (usb_init s))" "DevConfig (usb (usb_init s)) = 0"
  "usb_inv (usb s) \<Longrightarrow> usb_inv (usb (usb_init s))"
proof -
  have "usb_inv (u\<lparr>usb_irq_en := b\<rparr>) = usb_inv u" for u b by (simp add: usb_inv_def)
  then show "usb_inv (usb s) \<Longrightarrow> usb_inv (usb (usb_init s))"
    by (simp add: usb_init_def usb_inv_setup)
qed (simp_all add: usb_init_def slots_view_def USB_Device_Setup_def)

text \<open>
  The part that is started after the services and the AT parser, by role.
\<close>

lemma peripheral_init_result:
  defines "dongle E fl \<equiv> role_current E (power_on E fl) = ROLE_DONGLE"
  obtains h where "outs (ble_peripheral_init E (before_role E fl)) = outs (before_role E fl) @ h"
    "registered h = (if dongle E fl then [DongleTask] else [HidDevTask, EmuTask])"
    "\<forall>t\<in>set (registered h). woken h t"
    "ub (ble_peripheral_init E (before_role E fl)) = False"
    "flash (ble_peripheral_init E (before_role E fl)) = fl"
    "usb (ble_peripheral_init E (before_role E fl)) = usb_init_state"
proof (cases "dongle E fl")
  case True
  then have r: "ble_peripheral_init E (before_role E fl) = ble_dongle_init E (before_role E fl)"
    by (simp add: role_choice dongle_def)
  show thesis
    by (rule that, unfold r ble_dongle_init_def outs_fold_emit, rule refl)
      (simp_all add: True task_of_def woken_def del: fold.simps)
next
  case False
  let ?s = "emit (Stack GapPeripheralInit) (before_role E fl)"
  have hk: "has_kbd (mode E)" using False kbd_role_has_kbd by (simp add: dongle_def)
  have b: "battLevel (fold emit as t) = battLevel t" for as and t :: "'a hid_state_scheme"
    by (induction as arbitrary: t) (simp_all add: batt_emit)
  have "\<not> battLevel (ble_hid_dev_init E ?s) < 6"
    by (simp only: hid_dev_init_fold b batt_emit before_role_fields) simp
  then obtain h where h: "outs (ble_hid_emu_init E (ble_hid_dev_init E ?s)) = outs (ble_hid_dev_init E ?s) @ h"
    "registered h = [EmuTask]" "woken h EmuTask"
    "ub (ble_hid_emu_init E (ble_hid_dev_init E ?s)) = ub (ble_hid_dev_init E ?s)"
    "flash (ble_hid_emu_init E (ble_hid_dev_init E ?s)) = flash (ble_hid_dev_init E ?s)"
    "usb (ble_hid_emu_init E (ble_hid_dev_init E ?s)) = usb (ble_hid_dev_init E ?s)"
    by (rule emu_init_result [OF hk])
  have r: "ble_peripheral_init E (before_role E fl) = ble_hid_emu_init E (ble_hid_dev_init E ?s)"
    using False by (simp add: role_choice dongle_def ble_kbd_init_def)
  have d: "registered (hid_dev_log E) = [HidDevTask]" "woken (hid_dev_log E) HidDevTask"
    by (simp_all add: hid_dev_log_def task_of_def woken_def)
  show thesis
  proof (rule that [of "Stack GapPeripheralInit # hid_dev_log E @ h"])
    show "registered (Stack GapPeripheralInit # hid_dev_log E @ h) =
        (if dongle E fl then [DongleTask] else [HidDevTask, EmuTask])"
      by (simp add: False d h(2) task_of_def)
    then show "\<forall>t\<in>set (registered (Stack GapPeripheralInit # hid_dev_log E @ h)).
        woken (Stack GapPeripheralInit # hid_dev_log E @ h) t"
      using False d(2) h(3) by (simp add: woken_def)
  qed (simp_all add: r h [unfolded hid_dev_init_fold] hid_dev_init_fold outs_fold_emit)
qed

text \<open>
  C13: The node starts completely or not at all.  It stays in the start of the BLE library when the
  library's version is not the one of the headers or the library refuses its configuration, and only
  then.  Otherwise the library, which brings the scheduler, is started before anything else is asked of
  it; exactly the tasks of the role that the DataFlash names are registered, after the board services and
  the AT parser, and each has been given a first event, so none is left waiting for ever; the USB device
  is attached, unconfigured, with its invariant; the DataFlash is as it was.
\<close>

theorem boot_ready:
  "case main_init E (power_on E fl) of
     None \<Rightarrow> take (length VER_FILE) (ver_lib E) \<noteq> VER_FILE \<or> stat E [] (Stack (BleLibInit (ble_config E))) \<noteq> 0
   | Some s \<Rightarrow>
       take (length VER_FILE) (ver_lib E) = VER_FILE \<and> stat E [] (Stack (BleLibInit (ble_config E))) = 0 \<and>
       hd (outs s) = Stack (BleLibInit (ble_config E)) \<and>
       registered (outs s) = [HwsTask, AtTask] @
         (if role_current E (power_on E fl) = ROLE_DONGLE then [DongleTask] else [HidDevTask, EmuTask]) \<and>
       list_all (woken (outs s)) (registered (outs s)) \<and>
       usb_inv (usb s) \<and> usb_irq_en (usb s) \<and> DevConfig (usb s) = 0 \<and> flash s = fl \<and> \<not> ub s"
proof -
  let ?p = "ble_peripheral_init E (before_role E fl)"
  obtain h where h: "outs ?p = outs (before_role E fl) @ h"
    "registered h = (if role_current E (power_on E fl) = ROLE_DONGLE then [DongleTask] else [HidDevTask, EmuTask])"
    "\<forall>t\<in>set (registered h). woken h t" "ub ?p = False" "flash ?p = fl" "usb ?p = usb_init_state"
    by (rule peripheral_init_result)
  have g: "registered hws_log = [HwsTask]" "woken hws_log HwsTask"
    by (simp_all add: hws_log_def task_of_def woken_def)
  have o: "outs (usb_init ?p) = Stack (BleLibInit (ble_config E)) # hws_log @
      [RegisterTask AtTask, StartTask AtTask AT_EVENT (ms1_to_system_time 10)] @ h"
    by (simp add: usb_init_fields h(1))
  have r: "registered (outs (usb_init ?p)) = [HwsTask, AtTask] @ registered h"
    by (simp add: o g task_of_def)
  have "woken (outs (usb_init ?p)) t" if "t \<in> set (registered (outs (usb_init ?p)))" for t
    using that g h(3) unfolding r by (auto simp: o woken_def)
  then have w: "list_all (woken (outs (usb_init ?p))) (registered (outs (usb_init ?p)))"
    by (simp only: list_all_iff) blast
  have "hd (outs (usb_init ?p)) = Stack (BleLibInit (ble_config E))" by (simp add: o)
  note o = this w r h(2,4-6)
  show ?thesis
  proof (cases "main_init E (power_on E fl)")
    case None
    then show ?thesis by (auto simp: main_init_result split: if_splits)
  next
    case (Some s)
    then have "s = usb_init ?p" "take (length VER_FILE) (ver_lib E) = VER_FILE"
      "stat E [] (Stack (BleLibInit (ble_config E))) = 0"
      by (auto simp: main_init_result split: if_splits)
    then show ?thesis unfolding Some option.case using o by (simp only: usb_init_fields usb_inv_init simp_thms)
  qed
qed

theorem boot_ready_witness:
  "\<exists>s. main_init (demo_env MODE_DUAL) (power_on (demo_env MODE_DUAL) (\<lambda>_. 0xFF)) = Some s \<and>
       registered (outs s) = [HwsTask, AtTask, HidDevTask, EmuTask]"
proof -
  let ?E = "demo_env MODE_DUAL" and ?fl = "\<lambda>_. 0xFF"
  have v: "take (length VER_FILE) (ver_lib ?E) = VER_FILE" "stat ?E [] a = 0" for a
    by (simp_all add: demo_env_def VER_FILE_def)
  have "EEPROM_READ ?E APP_ROLE_FLASH_ADDR 4 (power_on ?E ?fl) = replicate 4 0xFF"
    by (simp add: EEPROM_READ_def demo_env_def nor_read_def map_replicate_const)
  then have k: "role_current ?E (power_on ?E ?fl) \<noteq> ROLE_DONGLE"
    by (simp add: role_current_def role_consts)
  from v main_init_result [of ?E ?fl] obtain s where s: "main_init ?E (power_on ?E ?fl) = Some s" by simp
  from boot_ready [of ?E ?fl] s k show ?thesis by simp
qed

section \<open>Reset\<close>

lemma boot_slots:
  assumes "role_current E (power_on E fl) \<noteq> ROLE_DONGLE"
    and "main_init E (power_on E fl) = Some s"
  obtains t :: at_state where "flash t = fl" "slots_view t = slots_view (slots_init_state E)"
    "slots_view s = slots_view (slotmap_load E t)"
proof -
  let ?t = "kbd_name_update E (emit (RegisterTask EmuTask)
      (ble_hid_dev_init E (emit (Stack GapPeripheralInit) (before_role E fl))))"
  have "s = usb_init (ble_hid_emu_init E (ble_hid_dev_init E (emit (Stack GapPeripheralInit) (before_role E fl))))"
    using assms by (simp add: main_init_result role_choice ble_kbd_init_def split: if_splits)
  then have "slots_view s = slots_view (slotmap_load E ?t)"
    by (simp add: usb_init_fields slots_view_init [OF kbd_role_has_kbd [OF assms(1)]])
  moreover have "flash ?t = fl" "slots_view ?t = slots_view (slots_init_state E)"
    by (simp_all add: hid_dev_init_fold)
  ultimately show thesis by (rule that [rotated 2])
qed

text \<open>
  C12: A reset loses no host.  A keyboard that starts with slots in their invariant, paces from 5 to
  2000 and address types of 0 or 1, and goes through any history of links, timers and commands, then
  saves its slots, with an erase and a write that succeed, and power goes at any moment after that: the
  node that starts on that DataFlash in the keyboard role has the same hosts in the same slots, with their
  labels, paces and address types, no link, and the invariant and the ranges of the slots, from which
  all that is proved of reachable states follows again.  Each slot also has its own address back, with one
  exception: an own address whose first and last byte are FF, which \<open>AT+MAC\<close> accepts, reads as unset, and
  the slot then has its default address, the chip's with the slot number added.
\<close>

theorem boot_restores_slots:
  assumes "(kbd_step E)\<^sup>*\<^sup>* s0 s" "slots_inv E s0" "settings_ok (kbd_max_conn (mode E)) s0"
    and "ee_spec E" "length (chip_mac E) = 6"
    and "EEPROM_ERASE E APP_SLOTMAP_FLASH_ADDR 96 s = (0, s1)"
    and "EEPROM_WRITE E APP_SLOTMAP_FLASH_ADDR (slotmap_buf E s) s1 = (0, s2)"
    and "role_current E s \<noteq> ROLE_DONGLE"
    and "main_init E (power_on E (flash (slotmap_save E s))) = Some s'"
  shows "slotmap s' = slotmap s \<and> slotname s' = slotname s \<and> slotpace s' = slotpace s \<and>
    slottype s' = slottype s \<and>
    (\<forall>i<kbd_max_conn (mode E). \<not> conn_up s' i \<and>
       slotmac s' ! i =
         (if slotmac s ! i ! 0 = 0xFF \<and> slotmac s ! i ! 5 = 0xFF
          then (chip_mac E)[0 := chip_mac E ! 0 + of_nat i] else slotmac s ! i)) \<and>
    slots_inv E s' \<and> settings_ok (kbd_max_conn (mode E)) s'"
proof -
  let ?n = "kbd_max_conn (mode E)"
  note inv = storable_steps(1) [OF assms(1-3)] and st = storable_steps(2) [OF assms(1-3)]
  have "role_current E (power_on E (flash (slotmap_save E s))) = role_current E (slotmap_save E s)"
    by (rule role_current_flash) simp
  also have "\<dots> = role_current E s" by (rule slotmap_save_keeps_role [OF assms(4) inv])
  finally have r: "role_current E (power_on E (flash (slotmap_save E s))) \<noteq> ROLE_DONGLE" using assms(8) by simp
  obtain t :: at_state where t: "flash t = flash (slotmap_save E s)" "slots_view t = slots_view (slots_init_state E)"
    "slots_view s' = slots_view (slotmap_load E t)"
    by (rule boot_slots [OF r assms(9)])
  have c: "kbd_conns (slotmap_load E t) = replicate ?n \<lparr>c_handle = GAP_CONNHANDLE_INIT, c_addr = replicate 6 0\<rparr>"
    using t(2) by (simp add: slots_view_def slotmap_load_def Let_def slots_init_state_def hid_state.defs)
  have v: "slotmap s' = slotmap s" "slotname s' = slotname s" "slotpace s' = slotpace s"
    "slotmac s' = map (\<lambda>i. mac_after_load E i (slotmac s ! i)) [0..<?n]" "slottype s' = slottype s"
    "kbd_conns s' = replicate ?n \<lparr>c_handle = GAP_CONNHANDLE_INIT, c_addr = replicate 6 0\<rparr>"
    using t(3) slotmap_round_trip [OF assms(4) st assms(6,7) t(1)] c by (simp_all add: slots_view_def)
  have m: "slotmac s' ! i = (if slotmac s ! i ! 0 = 0xFF \<and> slotmac s ! i ! 5 = 0xFF
      then (chip_mac E)[0 := chip_mac E ! 0 + of_nat i] else slotmac s ! i)" if "i < ?n" for i
    using that assms(5) by (simp add: v(4) mac_after_load_def)
  have lm: "length (slotmac s' ! i) = 6" if "i < ?n" for i
    using m [OF that] slots_wf_nth(2) [OF inv that] assms(5) by simp
  have u: "\<not> conn_up s' i" if "i < ?n" for i using that by (simp add: conn_up_def v(6))
  have wf: "slots_wf ?n s'"
    using inv lm by (simp add: slots_inv_def Let_def slots_wf_def v(1-3,5,6)) (simp add: v(4))
  have "hosts_ok ?n s'"
    using inv by (simp add: slots_inv_def Let_def hosts_ok_def slot_reserved_def v)
  with wf u have "slots_inv E s'" by (simp add: slots_inv_def conns_ok_def links_ok_def Let_def)
  moreover have "settings_ok ?n s'" using st v(3,5) by (simp add: storable_def settings_ok_def)
  ultimately show ?thesis using u m v(1-3,5) by blast
qed

theorem boot_restores_slots_witness:
  "slotmap (the (main_init multi_env (power_on multi_env (flash (slotmap_save multi_env reserved_state))))) =
     [replicate 6 0xFF, [1, 2, 3, 4, 5, 6], replicate 6 0xFF]"
proof -
  let ?s = "reserved_state" and ?E = multi_env
  let ?m = "main_init ?E (power_on ?E (flash (slotmap_save ?E ?s)))"
  have st: "settings_ok (kbd_max_conn (mode ?E)) ?s"
    unfolding settings_ok_def multi_max less3 by code_simp
  have c: "length (chip_mac ?E) = 6" by (simp add: demo_env_def)
  have e: "EEPROM_ERASE ?E APP_SLOTMAP_FLASH_ADDR 96 ?s = (0, snd (EEPROM_ERASE ?E APP_SLOTMAP_FLASH_ADDR 96 ?s))"
    by (simp add: EEPROM_ERASE_def demo_env_def nor_erase_def)
  have w: "EEPROM_WRITE ?E APP_SLOTMAP_FLASH_ADDR b t = (0, snd (EEPROM_WRITE ?E APP_SLOTMAP_FLASH_ADDR b t))"
    for b and t :: slots_state
    by (simp add: EEPROM_WRITE_def demo_env_def nor_write_def)
  have r: "role_current ?E ?s \<noteq> ROLE_DONGLE" by (simp add: role_current_def demo_env_def role_consts)
  have "take (length VER_FILE) (ver_lib ?E) = VER_FILE" "stat ?E [] a = 0" for a
    by (simp_all add: demo_env_def VER_FILE_def)
  then have "?m = Some (the ?m)" by (simp add: main_init_result)
  from boot_restores_slots [OF rtranclp.rtrancl_refl reserved_inv st ee_spec_demo c e w r this] show ?thesis
    by (simp add: reserved_state_def)
qed

text \<open>The exception happens: FF:FF:FF:FF:FF:FF is accepted as an own address, and reads as unset.\<close>

lemma unset_address_accepted:
  assumes "kb_slot_ok E i" "slots_inv E s"
  shows "fst (kb_ble_slot_set_mac E i (replicate 6 0xFF) s) = 0"
    "slotmac (snd (kb_ble_slot_set_mac E i (replicate 6 0xFF) s)) ! i = replicate 6 0xFF"
    "mac_after_load E i (replicate 6 0xFF) = (take 6 (chip_mac E))[0 := chip_mac E ! 0 + of_nat i]"
  using assms by (simp_all add: kb_ble_slot_set_mac_def mac_after_load_def kb_slot_ok_def slots_inv_def slots_wf_def Let_def)

section \<open>The bond store and the pages of the application\<close>

lemma flash_write_form: "\<exists>fl. snd (ble_stack_flash_write E a num buf s) = s\<lparr>flash := fl\<rparr>"
  by (simp add: ble_stack_flash_write_def EEPROM_ERASE_def EEPROM_WRITE_def Let_def split: prod.split) blast

lemma bond_block_kept:
  assumes "ee_spec E" "app_page a n" "length bs = n" "bond_block m b k"
  shows "EEPROM_READ E b k (snd (EEPROM_WRITE E a bs (snd (EEPROM_ERASE E a n s)))) = EEPROM_READ E b k s"
    "EEPROM_READ E b k (snd (EEPROM_ERASE E a n s)) = EEPROM_READ E b k s"
proof -
  have p: "in_page a n" "in_page b k" "a div 256 \<noteq> b div 256"
    using bond_block_page [OF assms(4)] app_page_in [OF assms(2)] assms(4) by (auto simp: bond_block_def)
  show "EEPROM_READ E b k (snd (EEPROM_WRITE E a bs (snd (EEPROM_ERASE E a n s)))) = EEPROM_READ E b k s"
    using p assms(1,3) by (intro replace_other_page)
  show "EEPROM_READ E b k (snd (EEPROM_ERASE E a n s)) = EEPROM_READ E b k s"
    using p assms(1) by (intro EEPROM_ERASE_other_page)
qed

text \<open>
  The bonds of the BLE library and the pages of the application do not disturb each other.  When the
  library writes a block of its store, the role, the slots and the custom keys that a load finds are the
  ones from before; and saving the slots, saving or resetting the custom keys, and a change of the role
  leave every block of the store as the library reads it.
\<close>

theorem bond_store_separate:
  fixes s :: "'a router_state_scheme"
  assumes "ee_spec E" "bond_block (mode E) a (num * 4)" "num * 4 \<le> length buf"
    and "slots_inv E s" "length (key_cfg s) = 2"
  shows "(let s' = snd (ble_stack_flash_write E a num buf s) in
      role_current E s' = role_current E s \<and>
      slots_view (slotmap_load E s') = slots_view (slotmap_load E s) \<and>
      key_cfg (key_cfg_load E s') = key_cfg (key_cfg_load E s)) \<and>
    ble_stack_flash_read E a num (slotmap_save E s) = ble_stack_flash_read E a num s \<and>
    ble_stack_flash_read E a num (key_cfg_save E s) = ble_stack_flash_read E a num s \<and>
    ble_stack_flash_read E a num (hws_key_cfg_factory_reset E s) = ble_stack_flash_read E a num s \<and>
    ble_stack_flash_read E a num (snd (role_request E r s)) = ble_stack_flash_read E a num s"
proof -
  let ?s = "snd (ble_stack_flash_write E a num buf s)"
  have pg: "app_page APP_ROLE_FLASH_ADDR 4" "app_page APP_SLOTMAP_FLASH_ADDR 96" "app_page APP_KEYCFG_FLASH_ADDR 8"
    by (simp_all add: app_page_def)
  note k = pg [THEN bond_write_keeps [OF assms(1-3)], of s]
  obtain fl where f: "?s = s\<lparr>flash := fl\<rparr>" using flash_write_form by blast
  have 1: "role_current E ?s = role_current E s" by (simp add: role_current_def k(1))
  have 2: "slots_view (slotmap_load E ?s) = slots_view (slotmap_load E s)"
    using k(2) by (simp add: f slots_view_def slotmap_load_def Let_def)
  have 3: "key_cfg (key_cfg_load E ?s) = key_cfg (key_cfg_load E s)"
    using k(3) by (simp add: f key_cfg_load_def Let_def)
  have lb: "length (slotmap_buf E s) = 96"
    using assms(4) length_buf [of "kbd_max_conn (mode E)" s E] by (simp add: slots_inv_def Let_def)
  note b = bond_block_kept [OF assms(1) _ _ assms(2)]
  have 4: "EEPROM_READ E a (num * 4) (slotmap_save E s) = EEPROM_READ E a (num * 4) s"
    using b(1) [OF pg(2) lb, of s] by (simp add: slotmap_save_def lb Let_def EEPROM_READ_def)
  obtain x y where xy: "key_cfg s = [x, y]"
    using assms(5) by (auto simp: length_Suc_conv numeral_2_eq_2)
  have lk: "length (key_cfg_image (key_cfg s)) = 8" by (simp add: key_cfg_image_def xy)
  have 5: "EEPROM_READ E a (num * 4) (key_cfg_save E s) = EEPROM_READ E a (num * 4) s"
    using b(1) [OF pg(3) lk, of s] by (simp add: key_cfg_save_def Let_def)
  have 6: "EEPROM_READ E a (num * 4) (hws_key_cfg_factory_reset E s) = EEPROM_READ E a (num * 4) s"
    unfolding hws_key_cfg_factory_reset_def
    by (subst b(2) [OF pg(3) length_replicate [of 8 0]]) (simp add: EEPROM_READ_def)
  have 7: "EEPROM_READ E a (num * 4) (snd (role_request E r s)) = EEPROM_READ E a (num * 4) s"
    using b(1) [OF pg(1) length4 [of ROLE_MAGIC0 ROLE_MAGIC1 r "NOT r"], of s]
      b(2) [OF pg(1) length4 [of ROLE_MAGIC0 ROLE_MAGIC1 r "NOT r"], of s]
    by (auto simp: role_request_def Let_def split: prod.split)
  show ?thesis using 1 2 3 4 5 6 7 by (simp add: ble_stack_flash_read_def Let_def)
qed

theorem bond_store_separate_witness:
  "role_current multi_env (snd (ble_stack_flash_write multi_env 0x7E00 2 (replicate 8 0)
     (router_start multi_env reserved_state))) = ROLE_KBD"
proof -
  let ?E = multi_env and ?s = "router_start multi_env reserved_state"
  have b: "bond_block (mode ?E) 0x7E00 (2 * 4)"
    by (simp add: bond_block_def snv_addr_cases demo_env_def BLE_SNV_BLOCK_def BLE_SNV_NUM_def in_page_def)
  have inv: "slots_inv ?E ?s"
    unfolding slots_inv_def slots_wf_def conns_ok_def hosts_ok_def links_ok_def Let_def multi_max less3 by code_simp
  have k: "length (key_cfg ?s) = 2" by (simp add: router_start_def slots_state.defs)
  have "role_current ?E ?s = ROLE_KBD" by (simp add: role_current_def demo_env_def)
  with bond_store_separate [OF ee_spec_demo b _ inv k, of "replicate 8 0" 0] show ?thesis
    by (simp add: Let_def)
qed

end
