(* ===== verification/Spec2Isabelle.thy ===== *)
theory Spec2Isabelle
  imports At_Mac Dgl_Step Esp_Mqtt_Spec Esp_Ssdp_Spec Kb_Flush Kb_Type Slot_Hist Start
begin

text \<open>
  AT-Node: the firmware of two boards that act as a keyboard for other computers and are driven by AT
  commands.  The CH582F board (\<open>src/wchble/mr2/APP\<close>, C) takes commands over UART or USB CDC and sends
  HID reports over USB or Bluetooth LE.  The ESP32 sketch (\<open>src/esp32/arduino\<close>, C++) takes them over
  the serial line, HTTP and MQTT, sends reports over Bluetooth LE, and also drives pins, I2C and infrared
  and keeps a reverse tunnel.  The two programs share no code; the theories of the sketch are
  those named \<open>Esp_\<close>.

  The CH582F board: parts and how they interact.  Everything but the USB interrupt runs in tasks of a cooperative
  scheduler (TMOS).  The keyboard router (\<open>at_cmds.c\<close>) sends a report to the selected target: to the
  USB HID endpoint (\<open>usb_dev.c\<close>, through \<open>hidkbd_usb.c\<close>) or to the link of a host slot
  (\<open>hidkbd_ble.c\<close>), which hands it to the HID device profile (\<open>BLE/ble_hid_dev.c\<close>), and that to the
  BLE library.  The library reports links and pairings to the profile, the profile to the keyboard
  application, which gives each host a slot, keeps the slots in DataFlash, and decides when to
  advertise and whom to admit.  In the other role the board is the receiver of a Bluetooth keyboard
  (\<open>BLE/ble_dongle.c\<close>): it scans, connects, discovers the keyboard's services, and forwards the
  reports it is notified of to the USB endpoint.  \<open>role.c\<close> keeps the role of a dual build in
  DataFlash.  The AT parser (\<open>at_parser.c\<close>) polls UART and CDC, cuts lines into words and runs the
  handlers (\<open>at_cmds.c\<close>), whose responses go back to the channel of the line.  The board services
  (\<open>HWS\<close>) are LED, keys, watchdog, ADC, GPIO, I2C and sleep.

  The ESP32 sketch: parts and how they interact.  \<open>setup\<close> loads the settings from NVS, looks at the button
  of the provisioning access point (\<open>ap_portal.cpp\<close>), joins the network and starts the services;
  \<open>loop\<close> serves HTTP, discovery (\<open>ssdp.cpp\<close>), the serial line, the typing queue, the access point and the
  deadlines of advertising and restart.  A command arrives at \<open>serial_exec\<close>, at \<open>handle_at\<close> or a JSON
  handler, or at \<open>mqtt_exec\<close>; all three reach the same keyboard, drivers, settings registry (\<open>config_set\<close>),
  pairing switch and tunnel client (\<open>rathole_client.cpp\<close>), which has tasks of its own.

  Conventions.  Integers of the C code are words of their width where they can wrap, otherwise \<open>nat\<close>
  or \<open>int\<close>.  State is passed explicitly: each component extends the record of the one below it,
  \<open>base\<close> (\<open>Effects\<close>), \<open>led_state\<close>, \<open>hws_state\<close>, \<open>hid_state\<close>, \<open>slots_state\<close>, \<open>router_state\<close>,
  \<open>dongle_state\<close>, \<open>at_state\<close>, and the
  operations are polymorphic in the extension.  A call of code outside \<open>src\<close> or of the hardware is
  an \<open>act\<close> appended to the log \<open>outs\<close>; what it returns is a component of the record \<open>env\<close>, a parameter
  of the model.  \<open>ee_spec\<close> is the documented behaviour of the DataFlash routines.  The flag \<open>ub\<close> records
  an execution without defined behaviour.  The build mode (\<open>BLE_MODE\<close>) is \<open>mode E\<close>.
  The sketch has records of its own, composed to \<open>esp_node\<close>: settings and switches with the tunnel
  (\<open>esp_conf\<close> extends \<open>rathole\<close>), keyboard (\<open>ekbd\<close>), drivers (\<open>esp_hw\<close>), serial line, access point, MQTT.  Each
  has a log of library calls; what the libraries answer is a parameter (\<open>node_env\<close>, \<open>hw_env\<close>, \<open>mqtt_env\<close>),
  often a function of the log.  \<open>nvs_stores\<close> is the documented effect of writing NVS,
  \<open>rmt_documented\<close> that of the infrared driver.  \<open>None\<close> stands for an execution that writes out of
  bounds (\<open>ir_send_sirc\<close>); the discovery service has the flag \<open>ss_oob\<close> for it.  The build has every feature of \<open>features.h\<close>; the breathing LED is
  modelled for both boards, though on the C3 it needs a build without I2C.

  Theories.
  \<^item> \<open>Prelude\<close>, \<open>CString\<close>: words, lists, little-endian bytes, the C library functions the code calls.
  \<^item> \<open>Ring\<close>: the ring buffer of the CDC channel, with the locale \<open>byte_queue\<close>.
  \<^item> \<open>Config\<close>, \<open>Effects\<close>: build modes, status codes, the log and the environment, \<open>AT_Response\<close>.
  \<^item> \<open>Usb_Dev\<close>, \<open>Usb_Control\<close>: \<open>usb_dev.c\<close>.  Control reads deliver the descriptor, the rings are
    queues, the invariant of the reachable states, bus reset, and the defect of the transmit task.
  \<^item> \<open>Hws_Led\<close>, \<open>Hws_Io\<close>: the board services.
  \<^item> \<open>Hid_Dev\<close>, \<open>Hid_Link\<close>: \<open>ble_hid_dev.c\<close>, \<open>ble_hid_kbd.c\<close>, \<open>ble_batt.c\<close>.  The locale \<open>slot_table\<close>
    holds the laws of a table of links, the locale \<open>hid_app\<close> what an application callback must keep.
  \<^item> \<open>Slot_Store\<close>, \<open>Kbd_Ble\<close>: \<open>hidkbd_ble.c\<close>.  \<open>Slot_Inv\<close>, \<open>Slot_Hist\<close>, \<open>Slot_Flash\<close>: the invariant of the
    slots, histories of stack and user steps, persistence.
  \<^item> \<open>Role\<close>: \<open>role.c\<close>.
  \<^item> \<open>Kb_Router\<close>, \<open>Kb_Play\<close>, \<open>Kb_Type\<close>: the router, the playback of texts and sequences, the custom keys,
    and the handlers of the keyboard commands.  \<open>Kb_Flush\<close>: what each of the attempts of a report does at
    each link.  \<open>Us_Layout\<close>: a host with a US layout, a table of HID usages that uses nothing of the code;
    \<open>Kb_Type\<close> and \<open>Esp_Kbd\<close> compare with it what the two keyboards send.
  \<^item> \<open>Dgl_Scan\<close>, \<open>Dongle\<close>: \<open>ble_dongle.c\<close>.  \<open>Dgl_Adv\<close>: the parser of advertisements against a reference
    encoding, and where it does not end.  \<open>Dgl_Inv\<close>, \<open>Dgl_Step\<close>: the invariant of the reachable states of
    the step relation \<open>dgl_step\<close> (library events, task, commands), forwarding, giving up, refused scans.
  \<^item> \<open>At_Cmds\<close>, \<open>At_Mac\<close>: the other command handlers and the command table; addresses read back.
    \<open>At_Parser\<close>, \<open>At_Line\<close>: \<open>at_parser.c\<close>.  Its static variables are a record of their own that handlers
    cannot reach; lines against a reference splitting, answers, bounds of the buffers.

  \<^item> \<open>Gatt_Info\<close>: \<open>ble_dev_info.c\<close>, \<open>ble_scan_param.c\<close>, parameters of \<open>ble_batt.c\<close>: values read in pieces,
    scan parameters read back.
  \<^item> \<open>Start\<close>: \<open>ble_stack.c\<close>, \<open>ble_init.c\<close>, \<open>main.c\<close>: what the node is when the scheduler takes over, in either
    role; slots after a reset; the bond store beside the pages of the application.

  Theories of the sketch.
  \<^item> \<open>Esp_Str\<close>: the strings of the Arduino library as the sketch uses them, query parsing against a
    reference reading.  \<open>Esp_Kbd\<close>: report state and typing queue; the characters a text types
    as they stand, and those that come out as others.
  \<^item> \<open>Esp_Tunnel\<close>, \<open>Esp_Tunnel_Inv\<close>: \<open>rathole_client.cpp\<close> round by round; channels accounted for, stopping,
    the handshake against a server, settings after a reset.
  \<^item> \<open>Esp_Cfg\<close>, \<open>Esp_Cfg_Spec\<close>: the settings registry; the last accepted write is what is read, settings
    survive a reset, secrets do not show.
  \<^item> \<open>Esp_Hw\<close>, \<open>Esp_Hw_Spec\<close>: pins, ADC, I2C, infrared, Wake-on-LAN; frames against reference receivers, and
    what the driver makes of them.
  \<^item> \<open>Esp_Ble\<close>: pairing and advertising as histories of events; who can see the board and until when.
  \<^item> \<open>Esp_Node\<close>, \<open>Esp_Portal\<close>: the whole state, status texts and catalog; the provisioning access point.
  \<^item> \<open>Esp_Serial\<close>, \<open>Esp_Line\<close>: the branches of \<open>serial_exec\<close> and the line reader, against a reference
    splitting into lines.
  \<^item> \<open>Esp_Http\<close>, \<open>Esp_Http_Spec\<close>, \<open>Esp_Routes\<close>: AT commands over HTTP compared with the serial line; the JSON
    handlers, the pages and every route.
  \<^item> \<open>Esp_Mqtt\<close>, \<open>Esp_Mqtt_Spec\<close>: the command channel, connection and fingerprint; reading over HTTP is
    safe, HTTP and MQTT agree, the catalog against the dispatchers.
  \<^item> \<open>Esp_Ssdp\<close>: the discovery service.  \<open>Esp_Loop\<close>: \<open>setup\<close>, a pass of \<open>loop\<close> with all its parts, the watchdog
    of the link, the LED, provisioning.  \<open>Esp_Ssdp_Spec\<close>: the lengths of the messages, which searches are
    answered, and discovery over histories of passes.

  Bounds and fuel.  The retry loop of \<open>kb_flush\<close> has the 60 rounds of the code, the I2C wait loop its
  100000 polls; the loops over slots and LEDs run over the index ranges of the code.  \<open>uart_loop\<close>
  has 256 rounds, one more than the ring can hold, and \<open>parser_stays_in_bounds\<close> shows that they empty it.
  The two loops of the advertisement parser may run for ever and are partial functions.  In the sketch
  \<open>boot_connected\<close> has the 60 polls of the code, and its other loops are structural.

  Not modelled: clock and pin set-up (\<open>hws_platform_init\<close>, \<open>hws_rtc_init\<close>), debug prints, busy-wait
  delays (they are taken as time passing, with no effect), preemption of a task by the USB interrupt
  in the middle of an operation, and the vendor SDK; of the sketch the compressed data of the web
  page (a parameter), the set-up calls of the
  BLE library (\<open>ble_init\<close> but for its last decision), the hardware watchdog, and preemption between its tasks
  within a round or a pass (\<open>wifi_watch\<close> reads the clock once where the code reads it up to three times); the Rust firmware of the ESP32-S3 and the host tools.
\<close>

end
